(* ===== verification/Prelude.thy ===== *)
theory Prelude
  imports Main "HOL-Library.AList" "HOL-Library.List_Lexorder" "HOL-Library.Char_ord"
begin

text \<open>
  Shared vocabulary of the development: Python exceptions as values, sequencing and loops
  over the result type, Python's indexing and slicing, insertion-ordered dictionaries as
  association lists, \<open>str\<close> helpers, and the generic lemmas the component theories use.
  Strings are \<^typ>\<open>string\<close> with the lexicographic order of \<open>List_Lexorder\<close>, which is
  Python's code-point order on the ASCII identifiers and symbols the models admit.
\<close>

named_theorems res_simps \<open>sequencing of results\<close>
named_theorems py_simps \<open>Python list, dictionary and string operations\<close>

subsection \<open>Exceptions and results\<close>

text \<open>
  \<open>Daily_value_error\<close>, \<open>Semantic_type_error\<close>, \<open>Program_execution_error\<close> and
  \<open>V2_execution_error\<close> are the program's own subclasses of \<open>ValueError\<close>; the others are
  built in. \<open>Division_by_zero\<close> and \<open>Invalid_operation\<close> are the two signals of the
  \<open>decimal\<close> module that the program can raise.
\<close>

datatype py_error =
    Value_error string
  | Daily_value_error string
  | Semantic_type_error string
  | Program_execution_error string
  | V2_execution_error string
  | Type_error
  | Key_error
  | Index_error
  | Attribute_error
  | Stop_iteration
  | Runtime_error
  | Assertion_error
  | Overflow_error
  | Division_by_zero
  | Invalid_operation

type_synonym 'a res = "py_error + 'a"

fun is_value_error :: "py_error \<Rightarrow> bool" where
  "is_value_error (Value_error _) = True"
| "is_value_error (Daily_value_error _) = True"
| "is_value_error (Semantic_type_error _) = True"
| "is_value_error (Program_execution_error _) = True"
| "is_value_error (V2_execution_error _) = True"
| "is_value_error _ = False"

definition ebind :: "'e + 'a \<Rightarrow> ('a \<Rightarrow> 'e + 'b) \<Rightarrow> 'e + 'b" where
  "ebind m f = (case m of Inl e \<Rightarrow> Inl e | Inr x \<Rightarrow> f x)"

lemma ebind_simps [simp, res_simps]:
  "ebind (Inl e) f = Inl e" "ebind (Inr x) f = f x"
  by (simp_all add: ebind_def)

lemma ebind_cong [fundef_cong]:
  "m = m' \<Longrightarrow> (\<And>x. m' = Inr x \<Longrightarrow> f x = f' x) \<Longrightarrow> ebind m f = ebind m' f'"
  by (cases m') auto

lemma ebind_eq_Inr: "ebind m f = Inr y \<longleftrightarrow> (\<exists>x. m = Inr x \<and> f x = Inr y)"
  by (cases m) auto

lemma ebind_eq_Inl: "ebind m f = Inl e \<longleftrightarrow> m = Inl e \<or> (\<exists>x. m = Inr x \<and> f x = Inl e)"
  by (cases m) auto

lemma ebind_InrE:
  assumes "ebind m f = Inr y"
  obtains x where "m = Inr x" "f x = Inr y"
  using assms by (auto simp: ebind_eq_Inr)

lemma ebind_assoc: "ebind (ebind m f) g = ebind m (\<lambda>x. ebind (f x) g)"
  by (cases m) simp_all

text \<open>\<open>guard c e\<close> is \<open>if not c: raise e\<close>.\<close>

definition guard :: "bool \<Rightarrow> 'e \<Rightarrow> 'e + unit" where
  "guard c e = (if c then Inr () else Inl e)"

lemma guard_simps [simp, res_simps]:
  "guard True e = Inr ()" "guard False e = Inl e"
  by (simp_all add: guard_def)

lemma guard_eq_Inr [simp]: "guard c e = Inr u \<longleftrightarrow> c"
  by (simp add: guard_def)

text \<open>A comprehension whose body may raise.\<close>

fun emap :: "('a \<Rightarrow> 'e + 'b) \<Rightarrow> 'a list \<Rightarrow> 'e + 'b list" where
  "emap f [] = Inr []"
| "emap f (x # xs) = ebind (f x) (\<lambda>y. ebind (emap f xs) (\<lambda>ys. Inr (y # ys)))"

lemma emap_cong [fundef_cong]:
  "xs = xs' \<Longrightarrow> (\<And>x. x \<in> set xs' \<Longrightarrow> f x = f' x) \<Longrightarrow> emap f xs = emap f' xs'"
  by (induction xs arbitrary: xs') auto

lemma emap_length: "emap f xs = Inr ys \<Longrightarrow> length ys = length xs"
  by (induction xs arbitrary: ys) (auto simp: ebind_eq_Inr)

lemma emap_Inr: "emap (\<lambda>x. Inr (g x)) xs = Inr (map g xs)"
  by (induction xs) auto

lemma emap_eq_Inr_iff:
  "emap f xs = Inr ys \<longleftrightarrow> list_all2 (\<lambda>x y. f x = Inr y) xs ys"
  by (induction xs arbitrary: ys) (auto simp: ebind_eq_Inr list_all2_Cons1)

text \<open>A comprehension whose body may raise and also changes a state.\<close>

fun emap_st :: "('a \<Rightarrow> 's \<Rightarrow> 'e + 'b \<times> 's) \<Rightarrow> 'a list \<Rightarrow> 's \<Rightarrow> 'e + 'b list \<times> 's" where
  "emap_st f [] s = Inr ([], s)"
| "emap_st f (x # xs) s =
     ebind (f x s) (\<lambda>(y, t). ebind (emap_st f xs t) (\<lambda>(ys, u). Inr (y # ys, u)))"

lemma emap_st_cong [fundef_cong]:
  "xs = xs' \<Longrightarrow> s = s' \<Longrightarrow> (\<And>x t. x \<in> set xs' \<Longrightarrow> f x t = f' x t) \<Longrightarrow> emap_st f xs s = emap_st f' xs' s'"
proof (induction xs arbitrary: xs' s s')
  case (Cons x xs)
  then show ?case
    by (cases "f' x s'") auto
qed simp

lemma emap_st_length: "emap_st f xs s = Inr (ys, t) \<Longrightarrow> length ys = length xs"
  by (induction xs arbitrary: s ys) (auto elim!: ebind_InrE)

text \<open>What every call keeps of the state, and gives for each element.\<close>

lemma emap_st_invariant:
  assumes "emap_st f xs s = Inr (ys, t)" and "P s"
    and "\<And>x s y t. x \<in> set xs \<Longrightarrow> P s \<Longrightarrow> f x s = Inr (y, t) \<Longrightarrow> P t \<and> Q x y"
  shows "P t \<and> list_all2 Q xs ys"
  using assms
proof (induction xs arbitrary: s ys)
  case (Cons x xs)
  from Cons.prems(1) obtain y s' ys' where "f x s = Inr (y, s')" "emap_st f xs s' = Inr (ys', t)" "ys = y # ys'"
    by (auto elim!: ebind_InrE)
  moreover from this have "P s' \<and> Q x y"
    using Cons.prems(2) by (intro Cons.prems(3)) simp_all
  moreover from calculation have "P t \<and> list_all2 Q xs ys'"
    using Cons.prems(3) by (intro Cons.IH [of s' ys']) auto
  ultimately show ?case by simp
qed simp

text \<open>A \<open>for\<close> loop over a state, whose body may raise.\<close>

fun efold :: "('a \<Rightarrow> 's \<Rightarrow> 'e + 's) \<Rightarrow> 'a list \<Rightarrow> 's \<Rightarrow> 'e + 's" where
  "efold f [] s = Inr s"
| "efold f (x # xs) s = ebind (f x s) (efold f xs)"

lemma efold_cong [fundef_cong]:
  "xs = xs' \<Longrightarrow> s = s' \<Longrightarrow> (\<And>x t. x \<in> set xs' \<Longrightarrow> f x t = f' x t) \<Longrightarrow> efold f xs s = efold f' xs' s'"
proof (induction xs arbitrary: xs' s s')
  case (Cons x xs)
  then show ?case
    by (cases "f' x s'") auto
qed simp

text \<open>What every iteration keeps, the loop keeps.\<close>

lemma efold_invariant:
  assumes "efold f xs s = Inr s'" and "P s"
    and "\<And>x t t'. x \<in> set xs \<Longrightarrow> P t \<Longrightarrow> f x t = Inr t' \<Longrightarrow> P t'"
  shows "P s'"
  using assms
proof (induction xs arbitrary: s)
  case (Cons x xs)
  from Cons.prems(1) obtain t where t: "f x s = Inr t" "efold f xs t = Inr s'"
    by (auto simp: ebind_eq_Inr)
  have "P t" using Cons.prems(2,3) t(1) by auto
  with t(2) show ?case
    by (rule Cons.IH) (use Cons.prems(3) in auto)
qed simp

lemma efold_append: "efold f (xs @ ys) s = ebind (efold f xs s) (efold f ys)"
proof (induction xs arbitrary: s)
  case (Cons x xs)
  then show ?case by (cases "f x s") simp_all
qed simp

subsection \<open>Indexing and slicing\<close>

text \<open>\<open>xs[i]\<close>: a negative index counts from the end; out of range raises.\<close>

definition py_index :: "'a list \<Rightarrow> int \<Rightarrow> 'a res" where
  "py_index xs i =
     (let j = (if i < 0 then int (length xs) + i else i)
      in if j < 0 \<or> int (length xs) \<le> j then Inl Index_error else Inr (xs ! nat j))"

lemma py_index_nat: "i < length xs \<Longrightarrow> py_index xs (int i) = Inr (xs ! i)"
  by (simp add: py_index_def Let_def)

text \<open>
  \<open>xs[a:b]\<close>: each bound is first made absolute (a negative one counts from the end) and
  then clipped to the list.
\<close>

definition slice_bound :: "nat \<Rightarrow> int \<Rightarrow> nat" where
  "slice_bound n i = nat (min (int n) (if i < 0 then max 0 (int n + i) else i))"

definition py_slice :: "'a list \<Rightarrow> int \<Rightarrow> int \<Rightarrow> 'a list" where
  "py_slice xs a b =
     (let i = slice_bound (length xs) a; j = slice_bound (length xs) b
      in drop i (take j xs))"

lemma py_slice_nonneg:
  "0 \<le> a \<Longrightarrow> 0 \<le> b \<Longrightarrow> py_slice xs a b = drop (nat a) (take (nat b) xs)"
proof -
  assume ab: "0 \<le> a" "0 \<le> b"
  have "slice_bound (length xs) b = min (length xs) (nat b)"
    using ab by (auto simp: slice_bound_def min_def)
  moreover have "slice_bound (length xs) a = min (length xs) (nat a)"
    using ab by (auto simp: slice_bound_def min_def)
  ultimately show ?thesis
    by (cases "nat a \<le> length xs") (auto simp: py_slice_def min_def)
qed

lemma set_py_slice: "set (py_slice xs a b) \<subseteq> set xs"
  by (auto simp: py_slice_def Let_def dest: in_set_dropD in_set_takeD)

subsection \<open>Dictionaries\<close>

text \<open>
  A \<open>dict\<close> keeps insertion order, which the program's folds over \<open>.values()\<close> see; it is
  an association list with distinct keys. \<open>AList.update\<close> overwrites in place and appends a
  new key at the end, as \<open>d[k] = v\<close> does.
\<close>

type_synonym ('k, 'v) dict = "('k \<times> 'v) list"

definition dget :: "('k, 'v) dict \<Rightarrow> 'k \<Rightarrow> 'v option" where
  "dget d k = map_of d k"

definition dget_or :: "('k, 'v) dict \<Rightarrow> 'k \<Rightarrow> 'v \<Rightarrow> 'v" where
  "dget_or d k x = (case map_of d k of None \<Rightarrow> x | Some v \<Rightarrow> v)"

definition dset :: "'k \<Rightarrow> 'v \<Rightarrow> ('k, 'v) dict \<Rightarrow> ('k, 'v) dict" where
  "dset = AList.update"

definition dkeys :: "('k, 'v) dict \<Rightarrow> 'k list" where
  "dkeys d = map fst d"

definition dvalues :: "('k, 'v) dict \<Rightarrow> 'v list" where
  "dvalues d = map snd d"

definition dhas :: "('k, 'v) dict \<Rightarrow> 'k \<Rightarrow> bool" where
  "dhas d k = (map_of d k \<noteq> None)"

text \<open>\<open>{k: v for (k, v) in pairs}\<close>: a later entry for a key overwrites the value in place.\<close>

definition dict_of :: "('k \<times> 'v) list \<Rightarrow> ('k, 'v) dict" where
  "dict_of ps = foldl (\<lambda>d (k, v). dset k v d) [] ps"

definition lookup_or_raise :: "('k, 'v) dict \<Rightarrow> 'k \<Rightarrow> 'v res" where
  "lookup_or_raise d k = (case map_of d k of None \<Rightarrow> Inl Key_error | Some v \<Rightarrow> Inr v)"

lemma dget_dset [simp, py_simps]: "dget (dset k v d) x = (if x = k then Some v else dget d x)"
  by (simp add: dget_def dset_def update_conv)

lemma dget_or_dset [simp, py_simps]: "dget_or (dset k v d) x y = (if x = k then v else dget_or d x y)"
  by (simp add: dget_or_def dset_def update_conv)

lemma dhas_dset [simp, py_simps]: "dhas (dset k v d) x \<longleftrightarrow> x = k \<or> dhas d x"
  by (simp add: dhas_def dset_def update_conv)

lemma dhas_iff: "dhas d k \<longleftrightarrow> k \<in> set (dkeys d)"
  by (simp add: dhas_def dkeys_def map_of_eq_None_iff image_image)

lemma set_dkeys_dset: "set (dkeys (dset k v d)) = insert k (set (dkeys d))"
  unfolding dkeys_def dset_def by (simp add: dom_update)

lemma distinct_dkeys_dset: "distinct (dkeys d) \<Longrightarrow> distinct (dkeys (dset k v d))"
  unfolding dkeys_def dset_def by (rule distinct_update)

lemma dset_absent: "k \<notin> set (dkeys d) \<Longrightarrow> dset k v d = d @ [(k, v)]"
  unfolding dkeys_def dset_def by (induction d) auto

lemma foldl_dset_distinct:
  "distinct (map fst d @ map fst ps) \<Longrightarrow> foldl (\<lambda>d (k, v). dset k v d) d ps = d @ ps"
proof (induction ps arbitrary: d)
  case (Cons p ps)
  then show ?case
    by (cases p) (simp add: dset_absent dkeys_def)
qed simp

lemma dict_of_distinct: "distinct (map fst ps) \<Longrightarrow> dict_of ps = ps"
  unfolding dict_of_def using foldl_dset_distinct [of "[]" ps] by simp

lemma foldl_dset_distinct_keys:
  "distinct (dkeys d) \<Longrightarrow> distinct (dkeys (foldl (\<lambda>d (k, v). dset k v d) d ps))"
  by (induction ps arbitrary: d) (auto simp: distinct_dkeys_dset split: prod.splits)

lemma distinct_dict_of: "distinct (dkeys (dict_of ps))"
  unfolding dict_of_def by (rule foldl_dset_distinct_keys) (simp add: dkeys_def)

text \<open>\<open>tuple(dict.fromkeys(xs))\<close>: the first occurrence of each element, in order.\<close>

fun py_unique :: "'a list \<Rightarrow> 'a list" where
  "py_unique [] = []"
| "py_unique (x # xs) = x # filter (\<lambda>y. y \<noteq> x) (py_unique xs)"

lemma set_py_unique [simp]: "set (py_unique xs) = set xs"
  by (induction xs) auto

lemma distinct_py_unique: "distinct (py_unique xs)"
  by (induction xs) auto

lemma py_unique_id: "distinct xs \<Longrightarrow> py_unique xs = xs"
  by (induction xs) (auto intro: filter_True)

subsection \<open>Strings\<close>

definition digit_char :: "nat \<Rightarrow> char" where
  "digit_char d = char_of (48 + d)"

fun digits_of :: "nat \<Rightarrow> nat list" where
  "digits_of n = (if n < 10 then [n] else digits_of (n div 10) @ [n mod 10])"

declare digits_of.simps [simp del]

definition str_of_nat :: "nat \<Rightarrow> string" where
  "str_of_nat n = map digit_char (digits_of n)"

definition str_of_int :: "int \<Rightarrow> string" where
  "str_of_int i = (if i < 0 then CHR ''-'' # str_of_nat (nat (- i)) else str_of_nat (nat i))"

text \<open>\<open>int(s)\<close> on the texts \<open>str_of_int\<close> writes: an optional minus sign and digits.\<close>

definition digit_val :: "char \<Rightarrow> nat option" where
  "digit_val c = (let k = of_char c in if 48 \<le> k \<and> k \<le> (57::nat) then Some (k - 48) else None)"

fun nat_of_digits :: "nat \<Rightarrow> string \<Rightarrow> nat option" where
  "nat_of_digits acc [] = Some acc"
| "nat_of_digits acc (c # cs) =
     (case digit_val c of None \<Rightarrow> None | Some d \<Rightarrow> nat_of_digits (10 * acc + d) cs)"

definition parse_digits :: "string \<Rightarrow> nat option" where
  "parse_digits ds = (if ds = [] then None else nat_of_digits 0 ds)"

definition int_of_str :: "string \<Rightarrow> int res" where
  "int_of_str s =
     (if take 1 s = ''-''
      then (case parse_digits (drop 1 s) of None \<Rightarrow> Inl (Value_error ''int'') | Some n \<Rightarrow> Inr (- int n))
      else (case parse_digits s of None \<Rightarrow> Inl (Value_error ''int'') | Some n \<Rightarrow> Inr (int n)))"

text \<open>\<open>s.split(c)\<close> for a one-character separator.\<close>

fun split_on :: "char \<Rightarrow> string \<Rightarrow> string list" where
  "split_on c [] = [[]]"
| "split_on c (x # xs) =
     (if x = c then [] # split_on c xs
      else (case split_on c xs of [] \<Rightarrow> [[x]] | w # ws \<Rightarrow> (x # w) # ws))"

text \<open>\<open>sep.join(words)\<close>.\<close>

fun join_with :: "string \<Rightarrow> string list \<Rightarrow> string" where
  "join_with sep [] = []"
| "join_with sep [w] = w"
| "join_with sep (w # ws) = w @ sep @ join_with sep ws"

lemma digits_of_lt10: "d \<in> set (digits_of n) \<Longrightarrow> d < 10"
proof (induction n rule: digits_of.induct)
  case (1 n)
  then show ?case
    by (cases "n < 10") (auto simp: digits_of.simps [of n])
qed

lemma digits_of_nonempty: "digits_of n \<noteq> []"
  by (subst digits_of.simps) simp

lemma of_char_digit: "d < 10 \<Longrightarrow> of_char (digit_char d) = (48 + d)"
  by (simp add: digit_char_def of_char_of)

lemma digit_val_char: "d < 10 \<Longrightarrow> digit_val (digit_char d) = Some d"
  by (simp add: digit_val_def of_char_digit Let_def)

lemma nat_of_digits_append:
  "nat_of_digits acc (xs @ ys) =
     (case nat_of_digits acc xs of None \<Rightarrow> None | Some a \<Rightarrow> nat_of_digits a ys)"
  by (induction xs arbitrary: acc) (auto split: option.splits)

lemma nat_of_digits_digits: "nat_of_digits 0 (map digit_char (digits_of n)) = Some n"
proof (induction n rule: digits_of.induct)
  case (1 n)
  show ?case
  proof (cases "n < 10")
    case True
    then show ?thesis by (simp add: digits_of.simps [of n] digit_val_char)
  next
    case False
    with 1 show ?thesis
      by (simp add: digits_of.simps [of n] nat_of_digits_append digit_val_char)
  qed
qed

lemma digit_char_neq: "d < 10 \<Longrightarrow> digit_char d \<noteq> CHR '':''" "d < 10 \<Longrightarrow> digit_char d \<noteq> CHR ''-''"
  using of_char_digit [of d] by (auto dest!: arg_cong [where f = "of_char :: char \<Rightarrow> nat"])

lemma str_of_nat_chars: "c \<in> set (str_of_nat n) \<Longrightarrow> c \<noteq> CHR '':'' \<and> c \<noteq> CHR ''-''"
  unfolding str_of_nat_def using digits_of_lt10 digit_char_neq by auto

lemma str_of_nat_nonempty: "str_of_nat n \<noteq> []"
  by (simp add: str_of_nat_def digits_of_nonempty)

lemma str_of_int_no_colon: "CHR '':'' \<notin> set (str_of_int i)"
  unfolding str_of_int_def using str_of_nat_chars by auto

text \<open>Reading back a printed integer gives the integer.\<close>

lemma parse_digits_str_of_nat: "parse_digits (str_of_nat n) = Some n"
  using nat_of_digits_digits [of n] str_of_nat_nonempty [of n]
  by (simp add: parse_digits_def str_of_nat_def)

lemma take_str_of_nat: "take 1 (str_of_nat n) \<noteq> ''-''"
  using str_of_nat_chars [of "CHR ''-''" n] by (cases "str_of_nat n") auto

lemma int_of_str_of_int: "int_of_str (str_of_int i) = Inr i"
  using take_str_of_nat [of "nat i"]
  by (simp add: int_of_str_def str_of_int_def parse_digits_str_of_nat)

lemma split_on_nonempty: "split_on c s \<noteq> []"
  by (induction s) (auto split: list.splits)

lemma split_on_no_sep: "c \<notin> set s \<Longrightarrow> split_on c s = [s]"
  by (induction s) auto

lemma split_on_append_sep: "c \<notin> set a \<Longrightarrow> split_on c (a @ c # b) = a # split_on c b"
  by (induction a) auto

lemma set_map_filter: "y \<in> set (List.map_filter f xs) \<longleftrightarrow> (\<exists>x\<in>set xs. f x = Some y)"
  by (force simp: List.map_filter_def)

end
