(* ===== verification/Decimals.thy ===== *)
theory Decimals
  imports Prelude Complex_Main "HOL-Library.Log_Nat"
begin

text \<open>
  Python's \<open>decimal\<close> module as the program uses it: the default context, 28 significant
  digits, half-even rounding. A finite \<open>Decimal\<close> is the rational it denotes; every
  arithmetic operation computes the exact result and rounds it. The values of the results
  depend on the operands' values only, so the exponent a \<open>Decimal\<close> carries beside its value
  is not represented, and neither is the exponent range (\<open>Emax\<close> is 999999). \<open>max\<close>,
  \<open>min\<close> and the comparisons return or read an operand as it is and do not round.
\<close>

named_theorems dec_simps \<open>decimal arithmetic on operands that need no rounding\<close>

type_synonym decimal = rat

subsection \<open>Rounding to 28 significant digits\<close>

abbreviation pow10 :: "int \<Rightarrow> rat" where
  "pow10 k \<equiv> 10 powi k"

definition half_even :: "rat \<Rightarrow> int" where
  "half_even x =
     (let f = \<lfloor>x\<rfloor>; r = x - of_int f
      in if r < 1 / 2 then f else if 1 / 2 < r then f + 1 else if even f then f else f + 1)"

text \<open>
  The number of decimal digits, and the adjusted exponent: the position of the leading
  digit. Both compute on \<^typ>\<open>int\<close>, so that closed instances evaluate.
\<close>

function num_digits :: "int \<Rightarrow> int" where
  "num_digits n = (if n \<le> 0 then 0 else 1 + num_digits (n div 10))"
  by pat_completeness auto
termination
  by (relation "measure nat") auto

declare num_digits.simps [simp del]

definition dec_exp :: "rat \<Rightarrow> int" where
  "dec_exp x =
     (case quotient_of x of (n, d) \<Rightarrow>
        let k = num_digits \<bar>n\<bar> - num_digits d
        in if pow10 k \<le> \<bar>x\<bar> then k else k - 1)"

definition rnd_to :: "nat \<Rightarrow> rat \<Rightarrow> decimal" where
  "rnd_to p x =
     (if x = 0 then 0
      else let s = pow10 (int p - 1 - dec_exp x) in of_int (half_even (x * s)) / s)"

definition dec_prec :: nat where
  "dec_prec = 28"

definition rnd :: "rat \<Rightarrow> decimal" where
  "rnd x = rnd_to dec_prec x"

lemma num_digits_floorlog: "num_digits n = int (floorlog 10 (nat n))"
proof (induction n rule: num_digits.induct)
  case (1 n)
  show ?case
  proof (cases "n \<le> 0")
    case True
    then show ?thesis by (simp add: num_digits.simps [of n] floorlog_def)
  next
    case False
    then have "floorlog 10 (nat n) = floorlog 10 (nat n div 10) + 1"
      by (simp add: compute_floorlog [of 10 "nat n"])
    moreover have "nat (n div 10) = nat n div 10" using False by (simp add: nat_div_distrib)
    ultimately show ?thesis using False 1 by (simp add: num_digits.simps [of n])
  qed
qed

lemma half_even_of_int [simp]: "half_even (of_int n) = n"
  by (simp add: half_even_def)

lemma half_even_bounds: "\<bar>of_int (half_even x) - x\<bar> \<le> 1 / 2"
proof -
  have "of_int \<lfloor>x\<rfloor> \<le> x" "x \<le> of_int \<lfloor>x\<rfloor> + 1" by linarith+
  then show ?thesis unfolding half_even_def Let_def abs_if by (simp add: not_less) linarith
qed

lemma half_even_floor: "half_even x = \<lfloor>x\<rfloor> \<or> half_even x = \<lfloor>x\<rfloor> + 1"
  by (auto simp: half_even_def Let_def)

lemma half_even_mono:
  assumes "x \<le> y"
  shows "half_even x \<le> half_even y"
proof (cases "\<lfloor>x\<rfloor> = \<lfloor>y\<rfloor>")
  case True
  then show ?thesis using assms by (auto simp: half_even_def Let_def)
next
  case False
  then have "\<lfloor>x\<rfloor> + 1 \<le> \<lfloor>y\<rfloor>" using floor_mono [OF assms] by simp
  then show ?thesis using half_even_floor [of x] half_even_floor [of y] by linarith
qed

lemma half_even_minus: "half_even (- x) = - half_even x"
proof (cases "x = of_int \<lfloor>x\<rfloor>")
  case True
  then show ?thesis by (metis half_even_of_int of_int_minus)
next
  case False
  define f where "f = \<lfloor>x\<rfloor>"
  define r where "r = x - of_int f"
  have r: "0 < r" "r < 1" using False by (auto simp: r_def f_def) linarith+
  have x: "x = of_int f + r" by (simp add: r_def)
  have "\<lfloor>- x\<rfloor> = - f - 1"
    by (rule floor_unique) (use r x in auto)
  then have "half_even (- x) =
      (let r' = 1 - r in if r' < 1 / 2 then - f - 1 else if 1 / 2 < r' then - f else if even (- f - 1) then - f - 1 else - f)"
    by (simp add: half_even_def Let_def x)
  moreover have "half_even x = (if r < 1 / 2 then f else if 1 / 2 < r then f + 1 else if even f then f else f + 1)"
    by (simp add: half_even_def Let_def f_def [symmetric] r_def)
  ultimately show ?thesis by (auto simp: Let_def)
qed

lemma dec_exp_bounds:
  assumes "x \<noteq> 0"
  shows "pow10 (dec_exp x) \<le> \<bar>x\<bar>" "\<bar>x\<bar> < pow10 (dec_exp x + 1)"
proof -
  obtain n d where q: "quotient_of x = (n, d)" by (cases "quotient_of x") auto
  have d: "d > 0" using quotient_of_denom_pos [OF q] .
  have x: "x = of_int n / of_int d" by (rule quotient_of_div [OF q])
  have n: "n \<noteq> 0" using assms x by auto
  define N where "N = nat \<bar>n\<bar>"
  define D where "D = nat d"
  define a where "a = floorlog 10 N"
  define b where "b = floorlog 10 D"
  have ND: "N > 0" "D > 0" using n d by (auto simp: N_def D_def)
  have ax: "\<bar>x\<bar> = of_nat N / of_nat D"
    using d by (simp add: x N_def D_def abs_divide)
  have Na: "10 ^ (a - 1) \<le> N" "N < 10 ^ a" and Db: "10 ^ (b - 1) \<le> D" "D < 10 ^ b"
    using floorlog_bounds [of N 10] floorlog_bounds [of D 10] ND by (auto simp: a_def b_def)
  have pos: "a > 0" "b > 0"
    using Na Db ND by (cases a; cases b; auto)+
  have NR: "(10::rat) ^ (a - 1) \<le> of_nat N" "(of_nat N :: rat) < 10 ^ a"
    and DR: "(10::rat) ^ (b - 1) \<le> of_nat D" "(of_nat D :: rat) < 10 ^ b"
    using Na Db by (metis of_nat_le_iff of_nat_less_iff of_nat_numeral of_nat_power)+
  let ?k = "int a - int b"
  have up: "\<bar>x\<bar> < pow10 (?k + 1)"
  proof -
    have "\<bar>x\<bar> < 10 ^ a / of_nat D" unfolding ax using NR ND by (simp add: divide_strict_right_mono)
    also have "\<dots> \<le> 10 ^ a / 10 ^ (b - 1)" using DR by (simp add: frac_le)
    also have "\<dots> = pow10 (?k + 1)"
      using pos by (simp add: power_int_diff power_int_add of_nat_diff flip: power_int_of_nat)
    finally show ?thesis .
  qed
  have low: "pow10 (?k - 1) \<le> \<bar>x\<bar>"
  proof -
    have "pow10 (?k - 1) = 10 ^ (a - 1) / 10 ^ b"
      using pos by (simp add: power_int_diff of_nat_diff flip: power_int_of_nat)
    also have "\<dots> \<le> of_nat N / 10 ^ b" using NR by (simp add: divide_right_mono)
    also have "\<dots> \<le> \<bar>x\<bar>" unfolding ax using DR ND by (simp add: frac_le)
    finally show ?thesis .
  qed
  have e: "dec_exp x = (if pow10 ?k \<le> \<bar>x\<bar> then ?k else ?k - 1)"
    by (simp add: dec_exp_def q Let_def a_def b_def N_def D_def num_digits_floorlog)
  show "pow10 (dec_exp x) \<le> \<bar>x\<bar>" "\<bar>x\<bar> < pow10 (dec_exp x + 1)"
    using up low by (auto simp: e)
qed

lemma pow10_pos [simp]: "0 < pow10 k"
  by simp

lemma pow10_mono: "k \<le> l \<Longrightarrow> pow10 k \<le> pow10 l"
  by (simp add: power_int_increasing)

lemma pow10_less_iff: "pow10 k < pow10 l \<longleftrightarrow> k < l"
proof
  show "pow10 k < pow10 l \<Longrightarrow> k < l" using pow10_mono [of l k] by linarith
  show "k < l \<Longrightarrow> pow10 k < pow10 l" by (simp add: power_int_strict_increasing)
qed

lemma dec_exp_unique:
  assumes "pow10 e \<le> \<bar>x\<bar>" "\<bar>x\<bar> < pow10 (e + 1)"
  shows "dec_exp x = e"
proof -
  have "0 < \<bar>x\<bar>" using assms(1) pow10_pos [of e] by (rule less_le_trans [rotated])
  then have "x \<noteq> 0" by simp
  note b = dec_exp_bounds [OF this]
  have "dec_exp x < e + 1" using b(1) assms(2) pow10_less_iff by (metis order_le_less_trans)
  moreover have "e < dec_exp x + 1" using b(2) assms(1) pow10_less_iff by (metis order_le_less_trans)
  ultimately show ?thesis by simp
qed

lemma dec_exp_mono:
  assumes "x \<noteq> 0" "\<bar>x\<bar> \<le> \<bar>y\<bar>"
  shows "dec_exp x \<le> dec_exp y"
proof -
  have "y \<noteq> 0" using assms by auto
  then have "pow10 (dec_exp x) < pow10 (dec_exp y + 1)"
    using dec_exp_bounds(1) [OF assms(1)] dec_exp_bounds(2) [of y] assms(2) by linarith
  then show ?thesis by (simp add: pow10_less_iff)
qed

subsection \<open>The laws of rounding, for any precision\<close>

lemma rnd_to_0 [simp]: "rnd_to p 0 = 0"
  by (simp add: rnd_to_def)

lemma dec_exp_minus [simp]: "dec_exp (- x) = dec_exp x"
proof (cases "x = 0")
  case False
  then show ?thesis using dec_exp_bounds [of x] by (intro dec_exp_unique) auto
qed simp

lemma rnd_to_minus: "rnd_to p (- x) = - rnd_to p x"
  by (simp add: rnd_to_def Let_def half_even_minus)

lemma rnd_to_error:
  "\<bar>rnd_to p x - x\<bar> \<le> \<bar>x\<bar> / (2 * pow10 (int p - 1))"
proof (cases "x = 0")
  case False
  define s where "s = pow10 (int p - 1 - dec_exp x)"
  have s: "0 < s" by (simp add: s_def)
  have r: "rnd_to p x = of_int (half_even (x * s)) / s"
    using False by (simp add: rnd_to_def Let_def s_def)
  have "pow10 (int p - 1) = pow10 (dec_exp x) * s"
    by (simp add: s_def flip: power_int_add)
  also have "\<dots> \<le> \<bar>x\<bar> * s"
    using dec_exp_bounds(1) [OF False] s by (simp add: mult_right_mono)
  finally have big: "pow10 (int p - 1) \<le> \<bar>x\<bar> * s" .
  have "\<bar>rnd_to p x - x\<bar> * s = \<bar>of_int (half_even (x * s)) - x * s\<bar>"
    using s by (simp add: r left_diff_distrib abs_mult_pos flip: abs_mult_pos')
  also have "\<dots> \<le> 1 / 2" by (rule half_even_bounds)
  also have "\<dots> \<le> \<bar>x\<bar> * s / (2 * pow10 (int p - 1))"
    using big by (simp add: le_divide_eq)
  finally have "\<bar>rnd_to p x - x\<bar> * s \<le> (\<bar>x\<bar> / (2 * pow10 (int p - 1))) * s" by simp
  then show ?thesis using s by (simp only: mult_le_cancel_right_pos)
qed simp

text \<open>A number with at most \<open>p\<close> significant digits is its own rounding.\<close>

lemma rnd_to_representable:
  assumes "\<bar>m\<bar> < 10 ^ p"
  shows "rnd_to p (of_int m * pow10 k) = of_int m * pow10 k"
proof (cases "m = 0")
  case False
  let ?x = "of_int m * pow10 k :: rat"
  have x: "?x \<noteq> 0" using False by simp
  have "\<bar>?x\<bar> = of_int \<bar>m\<bar> * pow10 k" by (simp add: abs_mult)
  also have "(of_int \<bar>m\<bar> :: rat) * pow10 k < of_int (10 ^ p) * pow10 k"
    using assms by (intro mult_strict_right_mono) (simp_all only: of_int_less_iff pow10_pos)
  finally have "\<bar>?x\<bar> < pow10 (int p + k)" by (simp add: power_int_add)
  with dec_exp_bounds(1) [OF x] have "pow10 (dec_exp ?x) < pow10 (int p + k)" by (rule le_less_trans)
  then have e: "dec_exp ?x \<le> int p - 1 + k" by (simp add: pow10_less_iff)
  define j where "j = nat (int p - 1 + k - dec_exp ?x)"
  define s where "s = pow10 (int p - 1 - dec_exp ?x)"
  have "pow10 k * s = pow10 (int j)"
    using e by (simp add: s_def j_def algebra_simps flip: power_int_add)
  then have xs: "?x * s = of_int (m * 10 ^ j)" by (simp add: mult.assoc)
  then have "half_even (?x * s) = m * 10 ^ j" by (simp only: half_even_of_int)
  with xs have "of_int (half_even (?x * s)) / s = ?x"
    by (metis nonzero_mult_div_cancel_right pow10_pos s_def less_irrefl)
  then show ?thesis using x by (simp add: rnd_to_def Let_def s_def)
qed simp

lemma half_even_scaled_bounds:
  assumes "0 < p" "0 < x"
  shows "10 ^ (p - 1) \<le> half_even (x * pow10 (int p - 1 - dec_exp x))"
    and "half_even (x * pow10 (int p - 1 - dec_exp x)) \<le> 10 ^ p"
proof -
  let ?s = "pow10 (int p - 1 - dec_exp x)"
  have b: "pow10 (dec_exp x) \<le> x" "x < pow10 (dec_exp x + 1)"
    using dec_exp_bounds [of x] assms(2) by simp_all
  have "pow10 (dec_exp x) * ?s \<le> x * ?s" "x * ?s \<le> pow10 (dec_exp x + 1) * ?s"
    using b by (simp_all add: mult_right_mono)
  moreover have "pow10 (int p - 1) = 10 ^ (p - 1)"
    using assms(1) by (simp add: power_int_def nat_diff_distrib)
  ultimately have "of_int (10 ^ (p - 1)) \<le> x * ?s" "x * ?s \<le> of_int (10 ^ p)"
    by (simp_all flip: power_int_add)
  then show "10 ^ (p - 1) \<le> half_even (x * ?s)" "half_even (x * ?s) \<le> 10 ^ p"
    using half_even_mono [of "of_int (10 ^ (p - 1))"] half_even_mono [of _ "of_int (10 ^ p)"]
    by (simp_all only: half_even_of_int)
qed

lemma rnd_to_eq:
  assumes "0 < x"
  shows "rnd_to p x = of_int (half_even (x * pow10 (int p - 1 - dec_exp x))) * pow10 (dec_exp x - (int p - 1))"
  using assms by (simp add: rnd_to_def Let_def power_int_diff field_simps)

lemma rnd_to_idem:
  assumes "0 < p"
  shows "rnd_to p (rnd_to p x) = rnd_to p x"
proof -
  have pos: "rnd_to p (rnd_to p y) = rnd_to p y" if y: "0 < y" for y
  proof -
    let ?m = "half_even (y * pow10 (int p - 1 - dec_exp y))"
    note r = rnd_to_eq [OF y]
    have m: "0 \<le> ?m" "?m \<le> 10 ^ p"
      using half_even_scaled_bounds [OF assms y] by (auto intro: order_trans [rotated])
    show ?thesis
    proof (cases "?m = 10 ^ p")
      case True
      then have "rnd_to p y = of_int (10 ^ (p - 1)) * pow10 (dec_exp y - (int p - 1) + 1)"
        using r assms by (cases p) (simp_all add: power_int_add)
      then show ?thesis
        using rnd_to_representable [of "10 ^ (p - 1)" p "dec_exp y - (int p - 1) + 1"] assms by simp
    next
      case False
      then have "\<bar>?m\<bar> < 10 ^ p" using m by simp
      then show ?thesis unfolding r by (rule rnd_to_representable)
    qed
  qed
  show ?thesis
  proof (cases x "0 :: rat" rule: linorder_cases)
    case less
    then show ?thesis using pos [of "- x"] by (simp add: rnd_to_minus)
  qed (use pos in auto)
qed

lemma rnd_to_pos:
  assumes "0 < p" "0 < x"
  shows "0 < rnd_to p x"
proof -
  have "0 < half_even (x * pow10 (int p - 1 - dec_exp x))"
    by (rule less_le_trans [OF _ half_even_scaled_bounds(1) [OF assms]]) simp
  then show ?thesis by (simp add: rnd_to_eq [OF assms(2)])
qed

lemma rnd_to_mono_pos:
  assumes "0 < p" "0 < x" "x \<le> y"
  shows "rnd_to p x \<le> rnd_to p y"
proof -
  have y: "0 < y" using assms by simp
  let ?q = "int p - 1"
  let ?hx = "half_even (x * pow10 (?q - dec_exp x))" and ?hy = "half_even (y * pow10 (?q - dec_exp y))"
  note rx = rnd_to_eq [OF assms(2), of p] and ry = rnd_to_eq [OF y, of p]
  have le: "dec_exp x \<le> dec_exp y" using assms by (intro dec_exp_mono) auto
  show ?thesis
  proof (cases "dec_exp x = dec_exp y")
    case True
    then have "?hx \<le> ?hy" using assms by (intro half_even_mono) (simp add: mult_right_mono)
    then show ?thesis unfolding rx ry using True by (simp add: mult_right_mono)
  next
    case False
    have "(of_int ?hx :: rat) \<le> of_int (10 ^ p)"
      using half_even_scaled_bounds(2) [OF assms(1,2)] by (simp only: of_int_le_iff)
    then have "rnd_to p x \<le> of_int (10 ^ p) * pow10 (dec_exp x - ?q)"
      unfolding rx by (intro mult_right_mono) auto
    also have "\<dots> = pow10 (dec_exp x + 1)" by (simp add: power_int_diff power_int_add)
    also have "\<dots> \<le> pow10 (dec_exp y)" using le False by (intro pow10_mono) simp
    also have "\<dots> = of_int (10 ^ (p - 1)) * pow10 (dec_exp y - ?q)"
      using assms(1) by (cases p) (simp_all add: power_int_diff)
    also have "\<dots> \<le> rnd_to p y"
      unfolding ry using half_even_scaled_bounds(1) [OF assms(1) y]
      by (intro mult_right_mono) (simp_all only: of_int_le_iff, auto)
    finally show ?thesis .
  qed
qed

lemma rnd_to_nonneg: "0 < p \<Longrightarrow> 0 \<le> x \<Longrightarrow> 0 \<le> rnd_to p x"
  using rnd_to_pos [of p x] by (cases "x = 0") auto

lemma rnd_to_mono:
  assumes "0 < p" "x \<le> y"
  shows "rnd_to p x \<le> rnd_to p y"
proof (cases "0 < x")
  case True
  then show ?thesis using rnd_to_mono_pos assms by simp
next
  case x: False
  show ?thesis
  proof (cases "y < 0")
    case True
    then show ?thesis using rnd_to_mono_pos [of p "- y" "- x"] assms by (simp add: rnd_to_minus)
  next
    case False
    have "rnd_to p x \<le> 0" using x rnd_to_nonneg [of p "- x"] assms(1) by (simp add: rnd_to_minus)
    moreover have "0 \<le> rnd_to p y" using False rnd_to_nonneg [of p y] assms(1) by simp
    ultimately show ?thesis by simp
  qed
qed

subsection \<open>The interface: what the program relies on of the decimal context\<close>

text \<open>
  The client side of the decimal context. The components prove their bounds from these laws
  only; the 28-digit context above is interpreted below.
\<close>

locale decimal_context =
  fixes rd :: "rat \<Rightarrow> rat" and unit_error :: rat
  assumes rd_mono: "x \<le> y \<Longrightarrow> rd x \<le> rd y"
    and rd_idem: "rd (rd x) = rd x"
    and rd_minus: "rd (- x) = - rd x"
    and rd_one: "rd 1 = 1"
    and rd_error: "\<bar>rd x - x\<bar> \<le> \<bar>x\<bar> * unit_error"
    and unit_error_pos: "0 < unit_error"
begin

lemma rd_zero: "rd 0 = 0"
  using rd_minus [of 0] by simp

lemma rd_nonneg: "0 \<le> x \<Longrightarrow> 0 \<le> rd x"
  using rd_mono [of 0 x] by (simp add: rd_zero)

lemma rd_nonpos: "x \<le> 0 \<Longrightarrow> rd x \<le> 0"
  using rd_mono [of x 0] by (simp add: rd_zero)

lemma rd_le_one: "x \<le> 1 \<Longrightarrow> rd x \<le> 1"
  using rd_mono [of x 1] by (simp add: rd_one)

lemma rd_ge_one: "1 \<le> x \<Longrightarrow> 1 \<le> rd x"
  using rd_mono [of 1 x] by (simp add: rd_one)

lemma rd_abs: "\<bar>rd x\<bar> = rd \<bar>x\<bar>"
  using rd_nonneg [of x] rd_nonpos [of x] by (cases "0 \<le> x") (auto simp: rd_minus)

text \<open>Rounding cannot cross a number it leaves alone.\<close>

lemma rd_fixed_le: "rd b = b \<Longrightarrow> x \<le> b \<Longrightarrow> rd x \<le> b"
  using rd_mono [of x b] by simp

lemma rd_fixed_ge: "rd b = b \<Longrightarrow> b \<le> x \<Longrightarrow> b \<le> rd x"
  using rd_mono [of b x] by simp

lemma rd_sum_ge:
  "(\<And>x. x \<in> set xs \<Longrightarrow> 0 \<le> x) \<Longrightarrow> rd a = a \<Longrightarrow> a \<le> foldl (\<lambda>s x. rd (s + x)) a xs"
proof (induction xs arbitrary: a)
  case (Cons x xs)
  have "a \<le> rd (a + x)" using rd_fixed_ge [OF Cons.prems(2), of "a + x"] Cons.prems(1) by simp
  also have "\<dots> \<le> foldl (\<lambda>s x. rd (s + x)) (rd (a + x)) xs"
    using Cons.prems(1) by (intro Cons.IH) (auto simp: rd_idem)
  finally show ?case by simp
qed simp

lemma rd_sum_fixed: "rd a = a \<Longrightarrow> rd (foldl (\<lambda>s x. rd (s + x)) a xs) = foldl (\<lambda>s x. rd (s + x)) a xs"
  by (induction xs arbitrary: a) (auto simp: rd_idem)

end

lemma rnd_0 [simp, dec_simps]: "rnd 0 = 0"
  by (simp add: rnd_def)

lemma rnd_of_int: "\<bar>m\<bar> < 10 ^ 28 \<Longrightarrow> rnd (of_int m) = of_int m"
  using rnd_to_representable [of m dec_prec 0] by (simp add: rnd_def dec_prec_def)

lemma rnd_of_nat [dec_simps]: "n < 10 ^ 28 \<Longrightarrow> rnd (of_nat n) = of_nat n"
  using rnd_of_int [of "int n"] by simp

lemma rnd_1 [simp, dec_simps]: "rnd 1 = 1"
  using rnd_of_nat [of 1] by simp

interpretation dec: decimal_context rnd "1 / (2 * 10 ^ 27)"
proof unfold_locales
  show "rnd x \<le> rnd y" if "x \<le> y" for x y
    using that by (simp add: rnd_def dec_prec_def rnd_to_mono)
  show "rnd (rnd x) = rnd x" for x
    by (simp add: rnd_def dec_prec_def rnd_to_idem)
  show "rnd (- x) = - rnd x" for x
    by (simp add: rnd_def rnd_to_minus)
  show "\<bar>rnd x - x\<bar> \<le> \<bar>x\<bar> * (1 / (2 * 10 ^ 27))" for x
    using rnd_to_error [of 28 x] by (simp add: rnd_def dec_prec_def)
qed simp_all

subsection \<open>Arithmetic\<close>

definition dadd :: "decimal \<Rightarrow> decimal \<Rightarrow> decimal" where
  "dadd x y = rnd (x + y)"

definition dsub :: "decimal \<Rightarrow> decimal \<Rightarrow> decimal" where
  "dsub x y = rnd (x - y)"

definition dmul :: "decimal \<Rightarrow> decimal \<Rightarrow> decimal" where
  "dmul x y = rnd (x * y)"

text \<open>\<open>x / 0\<close> signals \<open>DivisionByZero\<close>, except that \<open>0 / 0\<close> signals \<open>InvalidOperation\<close>.\<close>

definition ddiv :: "decimal \<Rightarrow> decimal \<Rightarrow> decimal res" where
  "ddiv x y =
     (if y = 0 then Inl (if x = 0 then Invalid_operation else Division_by_zero)
      else Inr (rnd (x / y)))"

text \<open>Unary minus and \<open>abs\<close> are operations too: they round their operand.\<close>

definition dneg :: "decimal \<Rightarrow> decimal" where
  "dneg x = rnd (- x)"

definition dabs :: "decimal \<Rightarrow> decimal" where
  "dabs x = rnd \<bar>x\<bar>"

text \<open>
  \<open>x ** 2\<close>: \<open>libmpdec\<close> raises to an integer power with three more digits and rounds twice.
\<close>

definition dsquare :: "decimal \<Rightarrow> decimal" where
  "dsquare x = rnd (rnd_to (dec_prec + 3) (x * x))"

text \<open>\<open>sum(xs, Decimal(0))\<close>.\<close>

definition dsum :: "decimal list \<Rightarrow> decimal" where
  "dsum xs = foldl dadd 0 xs"

text \<open>\<open>to_integral_value(rounding=ROUND_CEILING)\<close>.\<close>

definition dceil :: "decimal \<Rightarrow> decimal" where
  "dceil x = of_int \<lceil>x\<rceil>"

text \<open>The integer square root, and the correctly rounded \<open>sqrt\<close>.\<close>

function isqrt :: "int \<Rightarrow> int" where
  "isqrt n =
     (if n \<le> 0 then 0
      else let r = 2 * isqrt (n div 4) in if (r + 1) * (r + 1) \<le> n then r + 1 else r)"
  by pat_completeness auto
termination
  by (relation "measure nat") auto

declare isqrt.simps [simp del]

definition sqrt_rounded :: "rat \<Rightarrow> decimal" where
  "sqrt_rounded x =
     (if x \<le> 0 then 0
      else let s = pow10 (int dec_prec - 1 - dec_exp x div 2); t = x * s * s;
               f = isqrt \<lfloor>t\<rfloor>; h = (of_int f + 1 / 2) * (of_int f + 1 / 2)
           in of_int (if t < h then f else if h < t then f + 1 else if even f then f else f + 1) / s)"

definition dsqrt :: "decimal \<Rightarrow> decimal res" where
  "dsqrt x = (if x < 0 then Inl Invalid_operation else Inr (sqrt_rounded x))"

text \<open>\<open>statistics.pstdev\<close> on decimals: the exact population variance, its root correctly rounded.\<close>

definition pstdev :: "decimal list \<Rightarrow> decimal" where
  "pstdev xs =
     (let n = of_nat (length xs); m = sum_list xs / n
      in sqrt_rounded (sum_list (map (\<lambda>x. (x - m) * (x - m)) xs) / n))"

lemma isqrt_correct: "0 \<le> n \<Longrightarrow> 0 \<le> isqrt n \<and> isqrt n * isqrt n \<le> n \<and> n < (isqrt n + 1) * (isqrt n + 1)"
proof (induction n rule: isqrt.induct)
  case (1 n)
  show ?case
  proof (cases "n = 0")
    case True
    then show ?thesis by (simp add: isqrt.simps [of 0])
  next
    case False
    define q where "q = isqrt (n div 4)"
    have q: "0 \<le> q" "q * q \<le> n div 4" "n div 4 < (q + 1) * (q + 1)"
      using 1 False by (auto simp: q_def)
    have "4 * (n div 4) + 4 \<le> (2 * q + 2) * (2 * q + 2)" using q(3) by (simp add: algebra_simps)
    moreover have "n < 4 * (n div 4) + 4" by simp
    ultimately have up: "n < (2 * q + 2) * (2 * q + 2)" by (rule less_le_trans [rotated])
    have "4 * (q * q) \<le> n" using q(2) by simp
    then have low: "(2 * q) * (2 * q) \<le> n" by simp
    have i: "isqrt n = (if (2 * q + 1) * (2 * q + 1) \<le> n then 2 * q + 1 else 2 * q)"
      using False 1(2) by (simp add: isqrt.simps [of n] Let_def q_def)
    show ?thesis
    proof (cases "(2 * q + 1) * (2 * q + 1) \<le> n")
      case True
      then have "isqrt n + 1 = 2 * q + 2" using i by simp
      then show ?thesis using True i up q(1) by (simp only:) simp
    next
      case False
      then show ?thesis using i low q(1) by simp
    qed
  qed
qed

lemma dsum_Nil [simp]: "dsum [] = 0"
  by (simp add: dsum_def)

lemma dsum_snoc [simp]: "dsum (xs @ [x]) = dadd (dsum xs) x"
  by (simp add: dsum_def)

lemma dsum_foldl: "dsum xs = foldl (\<lambda>s x. rnd (s + x)) 0 xs"
proof -
  have "dadd = (\<lambda>s x. rnd (s + x))" by (simp add: fun_eq_iff dadd_def)
  then show ?thesis by (simp add: dsum_def)
qed

lemma dsum_nonneg: "(\<And>x. x \<in> set xs \<Longrightarrow> 0 \<le> x) \<Longrightarrow> 0 \<le> dsum xs"
  unfolding dsum_foldl by (rule dec.rd_sum_ge) simp_all

lemma rnd_dsum [simp]: "rnd (dsum xs) = dsum xs"
  unfolding dsum_foldl by (rule dec.rd_sum_fixed) simp

lemma ddiv_eq_Inr [simp]: "ddiv x y = Inr z \<longleftrightarrow> y \<noteq> 0 \<and> z = rnd (x / y)"
  by (auto simp: ddiv_def)

lemma ddiv_nonzero: "y \<noteq> 0 \<Longrightarrow> ddiv x y = Inr (rnd (x / y))"
  by (simp add: ddiv_def)

end
