(* ===== verification/Python_Text.thy ===== *)
theory Python_Text
  imports Decimals
begin

text \<open>
  What the product services use of Python's text: \<open>strip\<close>, \<open>splitlines\<close>, \<open>str.split\<close> with a limit,
  \<open>urllib.parse.unquote\<close>, \<open>int\<close>, and \<open>Decimal\<close> from and to text. Texts are ASCII, or the bytes of
  their UTF-8 form; \<open>unquote\<close> gives the bytes. A \<open>Decimal\<close> here keeps its coefficient and exponent,
  since writing it shows them; everywhere else the development works with its value.
\<close>

subsection \<open>Lines, blanks and separators\<close>

definition is_space :: "char \<Rightarrow> bool" where
  "is_space c \<longleftrightarrow> (let n = (of_char c :: nat) in (9 \<le> n \<and> n \<le> 13) \<or> (28 \<le> n \<and> n \<le> 32))"

definition strip :: "string \<Rightarrow> string" where
  "strip s = rev (dropWhile is_space (rev (dropWhile is_space s)))"

definition is_line_end :: "char \<Rightarrow> bool" where
  "is_line_end c \<longleftrightarrow> (let n = (of_char c :: nat) in (10 \<le> n \<and> n \<le> 13) \<or> (28 \<le> n \<and> n \<le> 30))"

fun split_lines :: "string \<Rightarrow> string \<Rightarrow> string list" where
  "split_lines line [] = (if line = [] then [] else [rev line])"
| "split_lines line (c # cs) =
     (if is_line_end c
      then rev line # split_lines [] (if of_char c = (13::nat) \<and> take 1 cs = [char_of (10::nat)] then drop 1 cs else cs)
      else split_lines (c # line) cs)"

definition splitlines :: "string \<Rightarrow> string list" where
  "splitlines s = split_lines [] s"

text \<open>\<open>s.split(c, 1)\<close> when \<open>c\<close> occurs; \<open>None\<close> when it does not.\<close>

fun split_first :: "(char \<Rightarrow> bool) \<Rightarrow> string \<Rightarrow> (string \<times> string) option" where
  "split_first p [] = None"
| "split_first p (c # cs) =
     (if p c then Some ([], cs) else map_option (\<lambda>(a, b). (c # a, b)) (split_first p cs))"

lemma split_first_None: "(\<And>c. c \<in> set s \<Longrightarrow> \<not> p c) \<Longrightarrow> split_first p s = None"
  by (induction s) auto

lemma split_first_at: "(\<And>c. c \<in> set a \<Longrightarrow> \<not> p c) \<Longrightarrow> p c \<Longrightarrow> split_first p (a @ c # b) = Some (a, b)"
  by (induction a) auto

text \<open>\<open>s.find(sub)\<close>, with what follows the occurrence.\<close>

fun find_after :: "string \<Rightarrow> string \<Rightarrow> string option" where
  "find_after pat [] = (if pat = [] then Some [] else None)"
| "find_after pat (c # cs) =
     (if take (length pat) (c # cs) = pat then Some (drop (length pat) (c # cs)) else find_after pat cs)"

definition hex_val :: "char \<Rightarrow> nat option" where
  "hex_val c =
     (let n = (of_char c :: nat) in
      if 48 \<le> n \<and> n \<le> 57 then Some (n - 48)
      else if 65 \<le> n \<and> n \<le> 70 then Some (n - 55)
      else if 97 \<le> n \<and> n \<le> 102 then Some (n - 87) else None)"

fun unquote :: "string \<Rightarrow> string" where
  "unquote [] = []"
| "unquote [c] = [c]"
| "unquote [c, d] = [c, d]"
| "unquote (c # a # b # cs) =
     (case (c = CHR ''%'', hex_val a, hex_val b) of
        (True, Some x, Some y) \<Rightarrow> char_of (16 * x + y) # unquote cs
      | _ \<Rightarrow> c # unquote (a # b # cs))"

subsection \<open>Numbers from text\<close>

definition sign_of :: "string \<Rightarrow> bool \<times> string" where
  "sign_of s = (if take 1 s = ''-'' then (True, drop 1 s) else if take 1 s = ''+'' then (False, drop 1 s) else (False, s))"

text \<open>\<open>int(s)\<close>: blanks around, a sign, and digits with single underscores between them.\<close>

fun single_underscores :: "string \<Rightarrow> bool" where
  "single_underscores [] = False"
| "single_underscores [c] = (c \<noteq> CHR ''_'')"
| "single_underscores (c # d # cs) = (\<not> (c = CHR ''_'' \<and> d = CHR ''_'') \<and> single_underscores (d # cs))"

definition python_int :: "string \<Rightarrow> int res" where
  "python_int s =
     (let (neg, body) = sign_of (strip s) in
      if take 1 body = ''_'' \<or> \<not> single_underscores body then Inl (Value_error ''int'')
      else case parse_digits (filter (\<lambda>c. c \<noteq> CHR ''_'') body) of
             None \<Rightarrow> Inl (Value_error ''int'')
           | Some n \<Rightarrow> Inr (if neg then - int n else int n))"

datatype py_decimal = Dec bool nat int | Dec_infinity bool | Dec_nan bool

definition is_finite :: "py_decimal \<Rightarrow> bool" where
  "is_finite d \<longleftrightarrow> (case d of Dec _ _ _ \<Rightarrow> True | _ \<Rightarrow> False)"

text \<open>The value of a finite one.\<close>

definition decimal_value :: "py_decimal \<Rightarrow> decimal" where
  "decimal_value d =
     (case d of
        Dec neg n e \<Rightarrow> (if neg then -1 else 1) * of_nat n * (if 0 \<le> e then 10 ^ nat e else 1 / 10 ^ nat (- e))
      | _ \<Rightarrow> 0)"

definition lower :: "char \<Rightarrow> char" where
  "lower c = (let n = (of_char c :: nat) in if 65 \<le> n \<and> n \<le> 90 then char_of (n + 32) else c)"

definition nan_text :: "string \<Rightarrow> bool" where
  "nan_text s \<longleftrightarrow>
     (let t = (if take 1 s = ''s'' then drop 1 s else s) in
      take 3 t = ''nan'' \<and> list_all (\<lambda>c. digit_val c \<noteq> None) (drop 3 t))"

definition exponent_of :: "string \<Rightarrow> int option" where
  "exponent_of s = (let (neg, ds) = sign_of s in map_option (\<lambda>n. if neg then - int n else int n) (parse_digits ds))"

definition is_exponent_mark :: "char \<Rightarrow> bool" where
  "is_exponent_mark c \<longleftrightarrow> c = CHR ''E'' \<or> c = CHR ''e''"

definition parse_mantissa :: "bool \<Rightarrow> string \<Rightarrow> int \<Rightarrow> py_decimal option" where
  "parse_mantissa neg m e =
     (let (whole, frac) = (case split_first (\<lambda>c. c = CHR ''.'') m of None \<Rightarrow> (m, []) | Some p \<Rightarrow> p)
      in map_option (\<lambda>n. Dec neg n (e - int (length frac))) (parse_digits (whole @ frac)))"

definition python_decimal :: "string \<Rightarrow> py_decimal res" where
  "python_decimal s =
     (let (neg, body) = sign_of (filter (\<lambda>c. c \<noteq> CHR ''_'') (strip s)); name = map lower body in
      if name = ''inf'' \<or> name = ''infinity'' then Inr (Dec_infinity neg)
      else if nan_text name then Inr (Dec_nan (take 1 name = ''s''))
      else case (case split_first is_exponent_mark body of
                   None \<Rightarrow> parse_mantissa neg body 0
                 | Some (m, x) \<Rightarrow> Option.bind (exponent_of x) (parse_mantissa neg m)) of
             None \<Rightarrow> Inl Invalid_operation
           | Some d \<Rightarrow> Inr d)"

subsection \<open>\<open>str\<close> of a \<open>Decimal\<close>\<close>

definition signed_text :: "int \<Rightarrow> string" where
  "signed_text i = (if i < 0 then ''-'' else ''+'') @ str_of_nat (nat \<bar>i\<bar>)"

definition mantissa_text :: "string \<Rightarrow> int \<Rightarrow> string" where
  "mantissa_text ds dot =
     (if dot \<le> 0 then ''0.'' @ replicate (nat (- dot)) CHR ''0'' @ ds
      else if int (length ds) \<le> dot then ds @ replicate (nat dot - length ds) CHR ''0''
      else take (nat dot) ds @ ''.'' @ drop (nat dot) ds)"

definition decimal_text :: "py_decimal \<Rightarrow> string" where
  "decimal_text d =
     (case d of
        Dec_infinity neg \<Rightarrow> (if neg then ''-Infinity'' else ''Infinity'')
      | Dec_nan signalling \<Rightarrow> (if signalling then ''sNaN'' else ''NaN'')
      | Dec neg n e \<Rightarrow>
          let ds = str_of_nat n; left = e + int (length ds); dot = (if e \<le> 0 \<and> - 6 < left then left else 1)
          in (if neg then ''-'' else '''') @ mantissa_text ds dot
               @ (if left = dot then '''' else ''E'' @ signed_text (left - dot)))"

text \<open>The characters of a number.\<close>

lemma digit_char_class:
  assumes "d < 10"
  shows "\<not> is_space (digit_char d)" "digit_char d \<noteq> CHR ''_''" "digit_char d \<noteq> CHR ''.''" "digit_char d \<noteq> CHR ''-''"
    "digit_char d \<noteq> CHR ''+''" "\<not> is_exponent_mark (digit_char d)" "lower (digit_char d) = digit_char d"
    "digit_char d \<noteq> CHR ''i''" "digit_char d \<noteq> CHR ''n''" "digit_char d \<noteq> CHR ''s''"
proof -
  have n: "of_char (digit_char d) = 48 + d" by (rule of_char_digit [OF assms])
  have other: "digit_char d \<noteq> c" if "of_char c < (48 :: nat) \<or> (58 :: nat) \<le> of_char c" for c
    using that n assms by auto
  show "digit_char d \<noteq> CHR ''_''" "digit_char d \<noteq> CHR ''.''" "digit_char d \<noteq> CHR ''-''"
    "digit_char d \<noteq> CHR ''+''" "digit_char d \<noteq> CHR ''i''" "digit_char d \<noteq> CHR ''n''" "digit_char d \<noteq> CHR ''s''"
    by (rule other, simp)+
  have "digit_char d \<noteq> CHR ''E''" "digit_char d \<noteq> CHR ''e''"
    by (rule other, simp)+
  then show "\<not> is_exponent_mark (digit_char d)" by (simp add: is_exponent_mark_def)
  show "\<not> is_space (digit_char d)" "lower (digit_char d) = digit_char d"
    using assms by (simp_all add: is_space_def lower_def n)
qed

definition number_char :: "char \<Rightarrow> bool" where
  "number_char c \<longleftrightarrow> (\<exists>d < 10. c = digit_char d)"

lemma number_charD:
  assumes "number_char c"
  shows "\<not> is_space c" "c \<noteq> CHR ''_''" "c \<noteq> CHR ''.''" "c \<noteq> CHR ''-''" "c \<noteq> CHR ''+''" "\<not> is_exponent_mark c"
    "lower c = c" "c \<noteq> CHR ''i''" "c \<noteq> CHR ''n''" "c \<noteq> CHR ''s''"
  using assms unfolding number_char_def by (auto simp: digit_char_class)

lemma digit_char_0: "digit_char 0 = CHR ''0''"
  by code_simp

lemma number_char_0 [simp]: "number_char CHR ''0''"
  unfolding number_char_def by (rule exI [of _ 0]) (simp add: digit_char_0)

lemma number_char_str: "c \<in> set (str_of_nat n) \<Longrightarrow> number_char c"
  unfolding number_char_def str_of_nat_def using digits_of_lt10 by auto

lemma strip_clean: "(\<And>c. c \<in> set s \<Longrightarrow> \<not> is_space c) \<Longrightarrow> strip s = s"
  unfolding strip_def by (simp add: dropWhile_eq_self_iff last_in_set hd_rev flip: hd_rev)
    (metis dropWhile_eq_self_iff hd_in_set rev_rev_ident set_rev)

lemma exponent_signed_text: "exponent_of (signed_text i) = Some i"
  by (simp add: exponent_of_def signed_text_def sign_of_def parse_digits_str_of_nat)

lemma nat_of_zeros: "nat_of_digits a (replicate k CHR ''0'') = Some (a * 10 ^ k)"
proof (induction k arbitrary: a)
  case (Suc k)
  have "digit_val CHR ''0'' = Some 0" by (simp add: digit_val_def)
  with Suc show ?case by (simp add: mult.commute mult.left_commute)
qed simp

lemma parse_digits_leading: "parse_digits (CHR ''0'' # replicate k CHR ''0'' @ str_of_nat n) = Some n"
proof -
  have zero: "digit_val CHR ''0'' = Some 0" by (simp add: digit_val_def)
  show ?thesis
    using parse_digits_str_of_nat [of n] str_of_nat_nonempty [of n]
    by (simp add: parse_digits_def nat_of_digits_append zero nat_of_zeros)
qed

text \<open>Where the point stands in what is written, and what reading makes of it.\<close>

lemma parse_mantissa_text:
  assumes "dot \<le> int (length (str_of_nat n))"
  shows "parse_mantissa neg (mantissa_text (str_of_nat n) dot) e = Some (Dec neg n (e - (int (length (str_of_nat n)) - dot)))"
proof -
  let ?ds = "str_of_nat n" and ?p = "\<lambda>c. c = CHR ''.''"
  have digits: "c \<in> set ?ds \<Longrightarrow> c \<noteq> CHR ''.''" for c
    by (rule number_charD [OF number_char_str])
  have no_point: "split_first ?p ?ds = None"
    by (rule split_first_None) (use digits in blast)
  consider (small) "dot \<le> 0" | (all) "dot = int (length ?ds)" "0 < dot" | (inside) "0 < dot" "dot < int (length ?ds)"
    using assms by linarith
  then show ?thesis
  proof cases
    case small
    have "split_first ?p (''0'' @ CHR ''.'' # replicate (nat (- dot)) CHR ''0'' @ ?ds) =
        Some (''0'', replicate (nat (- dot)) CHR ''0'' @ ?ds)"
      by (rule split_first_at) simp_all
    with small show ?thesis
      by (simp add: parse_mantissa_def mantissa_text_def parse_digits_leading)
  next
    case all
    then show ?thesis
      by (simp add: parse_mantissa_def mantissa_text_def no_point parse_digits_str_of_nat)
  next
    case inside
    have "split_first ?p (take (nat dot) ?ds @ CHR ''.'' # drop (nat dot) ?ds) = Some (take (nat dot) ?ds, drop (nat dot) ?ds)"
      by (rule split_first_at) (use digits in \<open>auto dest: in_set_takeD\<close>)
    with inside show ?thesis
      by (simp add: parse_mantissa_def mantissa_text_def parse_digits_str_of_nat)
  qed
qed

lemma mantissa_chars: "c \<in> set (mantissa_text (str_of_nat n) dot) \<Longrightarrow> number_char c \<or> c = CHR ''.''"
  by (auto simp: mantissa_text_def number_char_str dest: in_set_takeD in_set_dropD split: if_splits)

lemma mantissa_starts: "\<exists>c cs. mantissa_text (str_of_nat n) dot = c # cs \<and> number_char c"
proof -
  obtain c cs where c: "str_of_nat n = c # cs" using str_of_nat_nonempty [of n] by (cases "str_of_nat n") auto
  then have "number_char c" using number_char_str [of c n] by simp
  then show ?thesis
    by (cases "nat dot") (auto simp: mantissa_text_def c)
qed

text \<open>The parts of a written number, and reading them.\<close>

definition exponent_part :: "int \<Rightarrow> string" where
  "exponent_part i = (if i = 0 then '''' else ''E'' @ signed_text i)"

lemma decimal_text_parts:
  obtains dot where "dot \<le> int (length (str_of_nat n))"
    "decimal_text (Dec neg n e) =
       (if neg then ''-'' else '''') @ mantissa_text (str_of_nat n) dot
         @ exponent_part (e + int (length (str_of_nat n)) - dot)"
proof
  let ?left = "e + int (length (str_of_nat n))"
  show "(if e \<le> 0 \<and> - 6 < ?left then ?left else 1) \<le> int (length (str_of_nat n))"
    using str_of_nat_nonempty [of n] by (cases "str_of_nat n") auto
  show "decimal_text (Dec neg n e) =
       (if neg then ''-'' else '''') @ mantissa_text (str_of_nat n) (if e \<le> 0 \<and> - 6 < ?left then ?left else 1)
         @ exponent_part (?left - (if e \<le> 0 \<and> - 6 < ?left then ?left else 1))"
    by (simp add: decimal_text_def exponent_part_def Let_def)
qed

lemma exponent_chars:
  assumes "c \<in> set (exponent_part i)"
  shows "number_char c \<or> c \<in> {CHR ''E'', CHR ''+'', CHR ''-''}"
  using assms by (auto simp: exponent_part_def signed_text_def number_char_str split: if_splits)

lemma number_text_clean:
  assumes "number_char c \<or> c \<in> {CHR ''E'', CHR ''+'', CHR ''-'', CHR ''.''}"
  shows "\<not> is_space c" "c \<noteq> CHR ''_''"
  using assms by (auto simp: is_space_def dest: number_charD(1,2))

lemma split_exponent:
  "(case split_first is_exponent_mark (mantissa_text (str_of_nat n) dot @ exponent_part i) of
      None \<Rightarrow> parse_mantissa neg (mantissa_text (str_of_nat n) dot @ exponent_part i) 0
    | Some (m, x) \<Rightarrow> Option.bind (exponent_of x) (parse_mantissa neg m)) =
   parse_mantissa neg (mantissa_text (str_of_nat n) dot) i"
proof -
  have m: "\<not> is_exponent_mark c" if "c \<in> set (mantissa_text (str_of_nat n) dot)" for c
    using mantissa_chars [OF that] by (auto simp: number_charD is_exponent_mark_def dest: number_charD)
  show ?thesis
  proof (cases "i = 0")
    case True
    then show ?thesis using split_first_None [OF m] by (simp add: exponent_part_def)
  next
    case False
    have "split_first is_exponent_mark (mantissa_text (str_of_nat n) dot @ CHR ''E'' # signed_text i) =
        Some (mantissa_text (str_of_nat n) dot, signed_text i)"
      by (rule split_first_at [OF m]) (simp_all add: is_exponent_mark_def)
    with False show ?thesis by (simp add: exponent_part_def exponent_signed_text)
  qed
qed

lemma python_decimal_number:
  assumes "number_char c" and clean: "\<And>x. x \<in> set (c # cs) \<Longrightarrow> \<not> is_space x \<and> x \<noteq> CHR ''_''"
  shows "python_decimal ((if neg then ''-'' else '''') @ c # cs) =
    (case (case split_first is_exponent_mark (c # cs) of
             None \<Rightarrow> parse_mantissa neg (c # cs) 0
           | Some (m, x) \<Rightarrow> Option.bind (exponent_of x) (parse_mantissa neg m)) of
       None \<Rightarrow> Inl Invalid_operation
     | Some d \<Rightarrow> Inr d)"
proof -
  let ?s = "(if neg then ''-'' else '''') @ c # cs"
  have "strip ?s = ?s" by (rule strip_clean) (use clean in \<open>auto simp: is_space_def split: if_splits\<close>)
  moreover have "filter (\<lambda>x. x \<noteq> CHR ''_'') ?s = ?s" by (rule filter_True) (use clean in \<open>auto split: if_splits\<close>)
  moreover have "sign_of ?s = (neg, c # cs)" using number_charD [OF assms(1)] by (simp add: sign_of_def)
  ultimately show ?thesis
    using number_charD [OF assms(1)] by (simp add: python_decimal_def nan_text_def)
qed

lemma python_decimal_text: "python_decimal (decimal_text (Dec neg n e)) = Inr (Dec neg n e)"
proof -
  let ?ds = "str_of_nat n"
  obtain dot where dot: "dot \<le> int (length ?ds)"
    "decimal_text (Dec neg n e) =
       (if neg then ''-'' else '''') @ mantissa_text ?ds dot @ exponent_part (e + int (length ?ds) - dot)"
    by (rule decimal_text_parts)
  obtain c cs where c: "mantissa_text ?ds dot = c # cs" "number_char c" using mantissa_starts by blast
  have clean: "\<not> is_space x \<and> x \<noteq> CHR ''_''"
    if "x \<in> set (mantissa_text ?ds dot @ exponent_part (e + int (length ?ds) - dot))" for x
  proof -
    from that have "number_char x \<or> x \<in> {CHR ''E'', CHR ''+'', CHR ''-'', CHR ''.''}"
      by (auto dest: mantissa_chars exponent_chars)
    then show ?thesis using number_text_clean by blast
  qed
  let ?x = "exponent_part (e + int (length ?ds) - dot)"
  have written: "decimal_text (Dec neg n e) = (if neg then ''-'' else '''') @ c # (cs @ ?x)"
    unfolding dot(2) c(1) by (simp only: append_Cons)
  have clean': "\<not> is_space x \<and> x \<noteq> CHR ''_''" if "x \<in> set (c # (cs @ ?x))" for x
    by (rule clean) (use that in \<open>simp only: c(1) append_Cons\<close>)
  show ?thesis
    unfolding written
    by (rule trans [OF python_decimal_number [OF c(2)]])
      (use clean' split_exponent [where n = n and dot = dot and neg = neg, unfolded c(1) append_Cons]
        parse_mantissa_text [OF dot(1), unfolded c(1)] in simp_all)
qed

end
