(* ===== verification/Lean_Plan.thy ===== *)
theory Lean_Plan
  imports Python_Text
begin

text \<open>
  The LEAN plan of \<open>compiler/lean/plan.py\<close>, the backend IR that both generations of strategy
  documents are lowered to, and \<open>normalize_lean_plan\<close>. Numbers that are only copied into the
  generated program are \<^typ>\<open>py_decimal\<close>; weights and factors, which the compiler adds and
  multiplies, are \<^typ>\<open>decimal\<close>. Fields annotated with a \<open>Literal\<close> are strings.
\<close>

record lean_subscription =
  su_symbol :: string
  su_security_type :: string
  su_market :: string
  su_resolution :: string

record lean_random_selection =
  rs_id :: string
  rs_component :: string
  rs_symbols :: "string list"
  rs_count :: int
  rs_resample :: string
  rs_bindings :: string

record lean_filter_clause =
  lf_operator :: string
  lf_threshold :: py_decimal

datatype lean_value = Lean_value
  (lv_kind: string) (lv_type: string) (lv_subject: "string option") (lv_asset: "string option")
  (lv_literal: "py_decimal option") (lv_observations: "int option") (lv_aggregate: "string option")
  (lv_operand: "lean_value option") (lv_factor: "py_decimal option")
  (lv_score_terms: "(lean_value \<times> py_decimal) list") (lv_missing_policy: "string option")
  (lv_normalization: "string option") (lv_clamp_min: "py_decimal option") (lv_clamp_max: "py_decimal option")

record lean_comparison =
  lc_operator :: string
  lc_left :: lean_value
  lc_right :: lean_value

record lean_momentum_selection =
  ms_id :: string
  ms_score_component :: string
  ms_rank_component :: string
  ms_selection_component :: string
  ms_symbols :: "string list"
  ms_lookback_bars :: int
  ms_count :: int
  ms_direction :: string
  ms_price_field :: string
  ms_filter_component :: "string option"
  ms_filter_operator :: "string option"
  ms_filter_threshold :: "py_decimal option"
  ms_filter_clauses :: "lean_filter_clause list"
  ms_shortage_policy :: string
  ms_cooldown_state :: "string option"
  ms_ranking_value :: "lean_value option"
  ms_eligibility :: "lean_comparison list"
  ms_score_field :: string

record lean_cooldown_state =
  cs_id :: string
  cs_component :: string
  cs_symbols :: "string list"
  cs_required_sessions :: int
  cs_calendar_symbol :: string

record lean_target_sleeve =
  sl_id :: string
  sl_symbols :: "string list"
  sl_total_weight :: decimal
  sl_selection_id :: "string option"
  sl_fallback_component :: "string option"
  sl_fallback_symbols :: "string list"
  sl_source_sleeve :: "string option"
  sl_local_total_weight :: "decimal option"
  sl_source_allocation :: "decimal option"
  sl_weighting_method :: string
  sl_allocation_component :: "string option"

record lean_snapshot_allocation =
  sa_snapshot_id :: string
  sa_factor :: decimal
  sa_source_sleeve :: string

record lean_predicate =
  pr_component :: string
  pr_asset :: string
  pr_lookback_bars :: int
  pr_operator :: string
  pr_threshold :: py_decimal

record lean_rebalance =
  rb_id :: string
  rb_sleeve_ids :: "string list"
  rb_snapshot_allocations :: "lean_snapshot_allocation list"
  rb_exit_state_ids :: "string list"
  rb_predicate :: "lean_predicate option"
  rb_condition :: "lean_comparison list"
  rb_three_valued :: bool
  rb_unknown_policy :: string
  rb_otherwise_sleeve_ids :: "string list"
  rb_otherwise_snapshot_allocations :: "lean_snapshot_allocation list"
  rb_otherwise_exit_state_ids :: "string list"

record lean_target_snapshot =
  ts_id :: string
  ts_sleeve_ids :: "string list"
  ts_source_sleeve :: string

text \<open>\<open>LeanOnDataExecution\<close> holds the required symbols only; a daily event has no day, and
  only monthly events know a boundary.\<close>

record lean_event =
  ev_id :: string
  ev_anchor_symbol :: string
  ev_rebalance_ids :: "string list"
  ev_required_symbols :: "string list"
  ev_refresh_ids :: "string list"

record lean_period_event = lean_event +
  ev_day :: int

record lean_monthly_event = lean_period_event +
  ev_boundary :: string

subsection \<open>The temporal profile\<close>

record lean_temporal_value =
  tv_kind :: string
  tv_semantic_id :: string
  tv_asset :: "string option"
  tv_literal :: "py_decimal option"
  tv_memory_id :: "string option"
  tv_event_id :: "string option"
  tv_clock_id :: "string option"

record lean_temporal_condition =
  tk_semantic_id :: string
  tk_operator :: string
  tk_left :: lean_temporal_value
  tk_right :: lean_temporal_value
  tk_required_state_key :: "string option"
  tk_required_state_value :: "string option"
  tk_after_event_id :: "string option"
  tk_within_observations :: "int option"

record lean_temporal_action =
  ta_kind :: string
  ta_semantic_id :: string
  ta_memory_id :: "string option"
  ta_value :: "lean_temporal_value option"
  ta_state_key :: "string option"
  ta_from_value :: "string option"
  ta_to_value :: "string option"

record lean_temporal_event =
  te_semantic_id :: string
  te_statement_id :: string
  te_clock_id :: string
  te_trigger :: string
  te_occurrence :: string
  te_condition :: lean_temporal_condition
  te_actions :: "lean_temporal_action list"

record lean_temporal_leg =
  tl_semantic_id :: string
  tl_target_kind :: string
  tl_target_ref :: "string option"
  tl_weight :: "py_decimal option"

record lean_policy_target =
  pt_semantic_id :: string
  pt_state_key :: string
  pt_state_value :: string
  pt_target_kind :: string
  pt_asset :: "string option"
  pt_weight :: decimal
  pt_allocation_method :: string
  pt_legs :: "lean_temporal_leg list"

record lean_temporal_program =
  tp_profile :: string
  tp_semantic_id :: string
  tp_checkpoint_identity :: string
  tp_operator_versions :: "(string \<times> string) list"
  tp_clock_id :: string
  tp_anchor_symbol :: string
  tp_initial_state :: "(string \<times> string) list"
  tp_events :: "lean_temporal_event list"
  tp_policy_statement_id :: string
  tp_policy_targets :: "lean_policy_target list"
  tp_asset_universe :: "string list"
  tp_execution_order :: "string list"

record lean_plan =
  lp_identity :: string
  lp_subscriptions :: "lean_subscription list"
  lp_random_selections :: "lean_random_selection list"
  lp_target_sleeves :: "lean_target_sleeve list"
  lp_rebalances :: "lean_rebalance list"
  lp_monthly_events :: "lean_monthly_event list"
  lp_momentum_selections :: "lean_momentum_selection list"
  lp_target_snapshots :: "lean_target_snapshot list"
  lp_quarterly_events :: "lean_period_event list"
  lp_daily_events :: "lean_event list"
  lp_cooldown_states :: "lean_cooldown_state list"
  lp_temporal_program :: "lean_temporal_program option"

subsection \<open>Normalisation\<close>

text \<open>\<open>tuple(sorted(set(xs)))\<close>.\<close>

definition sorted_set :: "string list \<Rightarrow> string list" where
  "sorted_set xs = sort (remdups xs)"

definition collect_subscriptions :: "lean_subscription list \<Rightarrow> (string, lean_subscription) dict res" where
  "collect_subscriptions items =
     efold (\<lambda>item d.
       case dget d (su_symbol item) of
         None \<Rightarrow> Inr (dset (su_symbol item) item d)
       | Some existing \<Rightarrow>
           if existing \<noteq> item then Inl (Value_error (''conflicting subscription for '' @ su_symbol item))
           else Inr (dset (su_symbol item) item d)) items []"

definition unique_by_id :: "string list \<Rightarrow> string \<Rightarrow> unit res" where
  "unique_by_id ids label = guard (distinct ids) (Value_error (''duplicate '' @ label @ '' id''))"

type_synonym event_key = "int \<times> string \<times> string list"

definition event_key :: "'a lean_period_event_scheme \<Rightarrow> event_key" where
  "event_key e = (ev_day e, ev_anchor_symbol e, ev_required_symbols e)"

definition merge_events ::
  "'a lean_period_event_scheme \<Rightarrow> 'a lean_period_event_scheme \<Rightarrow> 'a lean_period_event_scheme" where
  "merge_events existing e =
     existing\<lparr>ev_rebalance_ids := sorted_set (ev_rebalance_ids existing @ ev_rebalance_ids e),
              ev_refresh_ids := sorted_set (ev_refresh_ids existing @ ev_refresh_ids e)\<rparr>"

definition group_event ::
  "(event_key, 'a lean_period_event_scheme) dict \<Rightarrow> 'a lean_period_event_scheme \<Rightarrow>
   (event_key, 'a lean_period_event_scheme) dict" where
  "group_event grouped e =
     (case dget grouped (event_key e) of
        None \<Rightarrow> dset (event_key e) e grouped
      | Some existing \<Rightarrow> dset (event_key e) (merge_events existing e) grouped)"

definition group_events :: "'a lean_period_event_scheme list \<Rightarrow> 'a lean_period_event_scheme list" where
  "group_events es = dvalues (foldl group_event [] (sort_key ev_id es))"

definition check_temporal_ids :: "lean_temporal_program option \<Rightarrow> unit res" where
  "check_temporal_ids tp =
     (case tp of
        None \<Rightarrow> Inr ()
      | Some p \<Rightarrow>
          ebind (guard (distinct (map te_semantic_id (tp_events p))) (Value_error ''duplicate temporal event id'')) (\<lambda>_.
          guard (distinct (map pt_semantic_id (tp_policy_targets p))) (Value_error ''duplicate temporal policy target id'')))"

definition check_plan_ids :: "lean_plan \<Rightarrow> unit res" where
  "check_plan_ids p =
     ebind (unique_by_id (map rs_id (lp_random_selections p)) ''random selection'') (\<lambda>_.
     ebind (unique_by_id (map ms_id (lp_momentum_selections p)) ''momentum selection'') (\<lambda>_.
     ebind (unique_by_id (map sl_id (lp_target_sleeves p)) ''target sleeve'') (\<lambda>_.
     ebind (unique_by_id (map rb_id (lp_rebalances p)) ''rebalance'') (\<lambda>_.
     ebind (unique_by_id (map ev_id (lp_monthly_events p)) ''monthly event'') (\<lambda>_.
     ebind (unique_by_id (map ts_id (lp_target_snapshots p)) ''target snapshot'') (\<lambda>_.
     ebind (unique_by_id (map ev_id (lp_quarterly_events p)) ''quarterly event'') (\<lambda>_.
     ebind (unique_by_id (map ev_id (lp_daily_events p)) ''daily event'') (\<lambda>_.
     ebind (unique_by_id (map cs_id (lp_cooldown_states p)) ''cooldown state'') (\<lambda>_.
     check_temporal_ids (lp_temporal_program p))))))))))"

definition normalize_lean_plan :: "lean_plan \<Rightarrow> lean_plan res" where
  "normalize_lean_plan p =
     ebind (collect_subscriptions (lp_subscriptions p)) (\<lambda>subscriptions.
     ebind (check_plan_ids p) (\<lambda>_.
     Inr (p\<lparr>lp_subscriptions := map snd (sort_key fst subscriptions),
            lp_random_selections := sort_key rs_id (lp_random_selections p),
            lp_momentum_selections := sort_key ms_id (lp_momentum_selections p),
            lp_target_sleeves := sort_key sl_id (lp_target_sleeves p),
            lp_rebalances := sort_key rb_id (lp_rebalances p),
            lp_monthly_events := sort_key ev_id (group_events (lp_monthly_events p)),
            lp_target_snapshots := sort_key ts_id (lp_target_snapshots p),
            lp_quarterly_events := sort_key ev_id (group_events (lp_quarterly_events p)),
            lp_daily_events := sort_key ev_id (lp_daily_events p),
            lp_cooldown_states := sort_key cs_id (lp_cooldown_states p)\<rparr>)))"

end
