(* ===== verification/Generated_Temporal.thy ===== *)
theory Generated_Temporal
  imports Lean_Plan
begin

text \<open>
  The boundary method of the generated algorithm: what the C# that \<open>_temporal_method_lines\<close> of
  \<open>compiler/lean/codegen.py\<close> emits does with the state of the temporal profile, without the
  evidence it prints and the orders it places. \<open>history_symbols\<close> are the symbols whose closes the
  algorithm keeps; \<open>CurrentPrice\<close> of any other is \<open>null\<close>. The closes come from the feed, a
  parameter.
\<close>

subsection \<open>Which closes the algorithm keeps\<close>

fun value_closes :: "lean_value \<Rightarrow> string list" where
  "value_closes (Lean_value kind ty subject asset literal observations aggregate operand factor terms mp nm lo hi) =
     (case asset of Some a \<Rightarrow> if subject = Some ''asset'' \<and> a \<noteq> [] then [a] else [] | None \<Rightarrow> [])
     @ (case operand of None \<Rightarrow> [] | Some v \<Rightarrow> value_closes v)
     @ concat (map (\<lambda>t. value_closes (fst t)) terms)"

definition comparison_closes :: "lean_comparison \<Rightarrow> string list" where
  "comparison_closes c = value_closes (lc_left c) @ value_closes (lc_right c)"

definition predicate_closes :: "lean_plan \<Rightarrow> string list" where
  "predicate_closes p =
     filter (\<lambda>a. a \<noteq> []) (List.map_filter (\<lambda>r. map_option pr_asset (rb_predicate r)) (lp_rebalances p))"

definition history_symbols :: "lean_plan \<Rightarrow> string list" where
  "history_symbols p =
     concat (map ms_symbols (lp_momentum_selections p))
     @ predicate_closes p
     @ concat (map (\<lambda>r. concat (map comparison_closes (rb_condition r))) (lp_rebalances p))
     @ concat (map (\<lambda>m. (case ms_ranking_value m of None \<Rightarrow> [] | Some v \<Rightarrow> value_closes v)
                        @ concat (map comparison_closes (ms_eligibility m))) (lp_momentum_selections p))
     @ (case lp_temporal_program p of None \<Rightarrow> [] | Some t \<Rightarrow> [tp_anchor_symbol t])"

record feed =
  fd_close :: "string \<Rightarrow> decimal option"
  fd_weekly :: "decimal option"

definition current_price :: "lean_plan \<Rightarrow> feed \<Rightarrow> string \<Rightarrow> decimal option" where
  "current_price p fd a = (if a \<in> set (history_symbols p) then fd_close fd a else None)"

subsection \<open>The fields of the algorithm\<close>

record generated =
  gs_boundary :: int
  gs_state :: "(string, string) dict"
  gs_event_truths :: "(string, string) dict"
  gs_event_counts :: "(string, int) dict"
  gs_event_cutoffs :: "(string, int) dict"
  gs_memory :: "(string, decimal) dict"
  gs_memory_cutoffs :: "(string, int) dict"
  gs_memory_values :: "(string, string) dict"
  gs_state_entered :: "(string, int) dict"

definition state_equals :: "generated \<Rightarrow> string \<Rightarrow> string \<Rightarrow> bool" where
  "state_equals g key expected \<longleftrightarrow> dget (gs_state g) key = Some expected"

subsection \<open>Conditions\<close>

definition generated_value :: "lean_plan \<Rightarrow> feed \<Rightarrow> generated \<Rightarrow> lean_temporal_value \<Rightarrow> decimal option" where
  "generated_value p fd g v =
     (if tv_kind v = ''current_price'' then current_price p fd (case tv_asset v of None \<Rightarrow> [] | Some a \<Rightarrow> a)
      else if tv_kind v = ''literal'' then Some (case tv_literal v of None \<Rightarrow> 0 | Some x \<Rightarrow> decimal_value x)
      else if tv_kind v = ''remembered'' then dget (gs_memory g) (case tv_memory_id v of None \<Rightarrow> [] | Some m \<Rightarrow> m)
      else if tv_kind v = ''bars_since_event''
      then map_option (\<lambda>c. of_int (gs_boundary g - c))
             (dget (gs_event_cutoffs g) (case tv_event_id v of None \<Rightarrow> [] | Some e \<Rightarrow> e))
      else fd_weekly fd)"

definition generated_compare :: "string \<Rightarrow> decimal \<Rightarrow> decimal \<Rightarrow> bool" where
  "generated_compare f x y \<longleftrightarrow>
     (if f = ''gt'' then y < x else if f = ''gte'' then y \<le> x else if f = ''lt'' then x < y
      else if f = ''lte'' then x \<le> y else if f = ''eq'' then x = y else x \<noteq> y)"

definition text_of_bool :: "bool \<Rightarrow> string" where
  "text_of_bool b = (if b then ''true'' else ''false'')"

definition all_truth :: "string \<Rightarrow> string \<Rightarrow> string" where
  "all_truth left right =
     (if left = ''false'' \<or> right = ''false'' then ''false''
      else if left = ''unknown'' \<or> right = ''unknown'' then ''unknown'' else ''true'')"

definition comparison_text :: "lean_plan \<Rightarrow> feed \<Rightarrow> generated \<Rightarrow> lean_temporal_condition \<Rightarrow> string" where
  "comparison_text p fd g k =
     (case (generated_value p fd g (tk_left k), generated_value p fd g (tk_right k)) of
        (Some x, Some y) \<Rightarrow> text_of_bool (generated_compare (tk_operator k) x y)
      | _ \<Rightarrow> ''unknown'')"

text \<open>The window starts after the boundary of the event.\<close>

definition window_text :: "generated \<Rightarrow> string \<Rightarrow> int option \<Rightarrow> string" where
  "window_text g event limit =
     (case dget (gs_event_cutoffs g) event of
        None \<Rightarrow> ''unknown''
      | Some c \<Rightarrow>
          text_of_bool (c < gs_boundary g \<and> gs_boundary g - c \<le> (case limit of None \<Rightarrow> 0 | Some n \<Rightarrow> n)))"

definition generated_truth :: "lean_plan \<Rightarrow> feed \<Rightarrow> generated \<Rightarrow> lean_temporal_condition \<Rightarrow> string" where
  "generated_truth p fd g k =
     (let t = comparison_text p fd g k;
          u = (case tk_required_state_key k of
                 None \<Rightarrow> t
               | Some key \<Rightarrow>
                   all_truth t (text_of_bool (state_equals g key
                     (case tk_required_state_value k of None \<Rightarrow> [] | Some x \<Rightarrow> x))))
      in case tk_after_event_id k of
           None \<Rightarrow> u
         | Some event \<Rightarrow> all_truth u (window_text g event (tk_within_observations k)))"

subsection \<open>Events and actions\<close>

definition generated_action :: "lean_plan \<Rightarrow> feed \<Rightarrow> lean_temporal_action \<Rightarrow> generated \<Rightarrow> generated" where
  "generated_action p fd a g =
     (if ta_kind a = ''remember''
      then (case ta_value a of
              None \<Rightarrow> g
            | Some v \<Rightarrow>
                (let m = (case ta_memory_id a of None \<Rightarrow> [] | Some m \<Rightarrow> m) in
                 case generated_value p fd g v of
                   None \<Rightarrow> g
                 | Some x \<Rightarrow>
                     g\<lparr>gs_memory := dset m x (gs_memory g),
                       gs_memory_cutoffs := dset m (gs_boundary g) (gs_memory_cutoffs g),
                       gs_memory_values := dset m (tv_semantic_id v) (gs_memory_values g)\<rparr>))
      else
        (let key = (case ta_state_key a of None \<Rightarrow> [] | Some k \<Rightarrow> k);
             before = (case ta_from_value a of None \<Rightarrow> [] | Some x \<Rightarrow> x);
             after = (case ta_to_value a of None \<Rightarrow> [] | Some x \<Rightarrow> x) in
         if dget_or (gs_state g) key [] = before
         then g\<lparr>gs_state := dset key after (gs_state g),
                gs_state_entered := dset key (gs_boundary g) (gs_state_entered g)\<rparr>
         else g))"

definition generated_trigger :: "string \<Rightarrow> string \<Rightarrow> string \<Rightarrow> bool" where
  "generated_trigger trigger current previous \<longleftrightarrow>
     (if trigger = ''while_true'' then current = ''true''
      else if trigger \<in> {''rising_edge'', ''crosses_above''} then current = ''true'' \<and> previous \<noteq> ''true''
      else current = ''false'' \<and> previous = ''true'')"

definition generated_event :: "lean_plan \<Rightarrow> feed \<Rightarrow> lean_temporal_event \<Rightarrow> generated \<Rightarrow> generated" where
  "generated_event p fd e g =
     (let i = te_semantic_id e;
          current = generated_truth p fd g (te_condition e);
          triggered = generated_trigger (te_trigger e) current (dget_or (gs_event_truths g) i ''false'');
          count = dget_or (gs_event_counts g) i 0 + 1;
          g1 = g\<lparr>gs_event_truths := dset i current (gs_event_truths g)\<rparr>;
          g2 = (if triggered then g1\<lparr>gs_event_counts := dset i count (gs_event_counts g1)\<rparr> else g1)
      in if triggered \<and> (te_occurrence e = ''first'' \<longrightarrow> count = 1)
         then fold (generated_action p fd) (te_actions e)
                (g2\<lparr>gs_event_cutoffs := dset i (gs_boundary g2) (gs_event_cutoffs g2)\<rparr>)
         else g2)"

text \<open>The chain of \<open>if\<close> and \<open>else if\<close> over the policy targets.\<close>

definition generated_policy :: "lean_policy_target list \<Rightarrow> generated \<Rightarrow> lean_policy_target option" where
  "generated_policy targets g =
     find (\<lambda>t. pt_state_value t = ''*'' \<or> state_equals g (pt_state_key t) (pt_state_value t)) targets"

definition generated_boundary ::
  "lean_plan \<Rightarrow> lean_temporal_program \<Rightarrow> feed \<Rightarrow> generated \<Rightarrow> generated \<times> lean_policy_target option" where
  "generated_boundary p tp fd g =
     (let g' = fold (generated_event p fd) (tp_events tp) (g\<lparr>gs_boundary := gs_boundary g + 1\<rparr>)
      in (g', generated_policy (tp_policy_targets tp) g'))"

end
