(* ===== verification/Semantic_Types.thy ===== *)
theory Semantic_Types
  imports Prelude
begin

text \<open>
  \<open>strategy/v2/semantic_types.py\<close>: what a Value means (dtype, quantity, unit, refinement,
  axes, clock), three-valued truth, and the broadcasting discipline of axes. An error text of
  the source is kept up to its colon, which is the diagnostic code the validators read off.
\<close>

named_theorems type_simps \<open>semantic types and axes\<close>

subsection \<open>Vocabulary\<close>

datatype semantic_dtype = DT_decimal | DT_integer | DT_truth

datatype quantity =
  Q_price | Q_return | Q_volume | Q_oscillator | Q_score | Q_money | Q_weight | Q_count | Q_truth

datatype unit_of = U_usd_per_share | U_usd | U_ratio | U_points | U_shares | U_count | U_truth

datatype axis_name = Ax_asset | Ax_time

record axis =
  ax_name :: axis_name
  ax_domain_id :: string
  ax_coordinate_policy :: string

record clock =
  ck_id :: string
  ck_completed_observations_only :: bool
  ck_sampling :: string

record semantic_type =
  st_dtype :: semantic_dtype
  st_quantity :: quantity
  st_unit :: unit_of
  st_refinement :: "string option"
  st_axes :: "axis list"
  st_clock :: "clock option"

text \<open>\<open>asset_axis\<close> and \<open>time_axis\<close>, and \<open>Clock(id=...)\<close> with its defaults.\<close>

definition asset_axis :: "string \<Rightarrow> axis" where
  "asset_axis domain = \<lparr>ax_name = Ax_asset, ax_domain_id = domain, ax_coordinate_policy = ''stable_identity''\<rparr>"

definition time_axis :: "clock \<Rightarrow> axis" where
  "time_axis c = \<lparr>ax_name = Ax_time, ax_domain_id = ck_id c @ '':completed'', ax_coordinate_policy = ''timestamp''\<rparr>"

definition default_clock :: "string \<Rightarrow> clock" where
  "default_clock i = \<lparr>ck_id = i, ck_completed_observations_only = True, ck_sampling = ''daily''\<rparr>"

definition daily_close :: clock where
  "daily_close = default_clock ''daily-close''"

subsection \<open>Three-valued truth\<close>

datatype truth = T_true | T_false | T_unknown

definition truth_and :: "truth \<Rightarrow> truth \<Rightarrow> truth" where
  "truth_and l r =
     (if T_false \<in> {l, r} then T_false else if T_unknown \<in> {l, r} then T_unknown else T_true)"

definition truth_or :: "truth \<Rightarrow> truth \<Rightarrow> truth" where
  "truth_or l r =
     (if T_true \<in> {l, r} then T_true else if T_unknown \<in> {l, r} then T_unknown else T_false)"

fun truth_not :: "truth \<Rightarrow> truth" where
  "truth_not T_true = T_false"
| "truth_not T_false = T_true"
| "truth_not T_unknown = T_unknown"

definition truth_of_bool :: "bool \<Rightarrow> truth" where
  "truth_of_bool b = (if b then T_true else T_false)"

text \<open>The truth order: false, unknown, true. Conjunction is its minimum.\<close>

fun truth_rank :: "truth \<Rightarrow> nat" where
  "truth_rank T_false = 0"
| "truth_rank T_unknown = 1"
| "truth_rank T_true = 2"

lemma truth_rank_eq [simp]: "truth_rank a = truth_rank b \<longleftrightarrow> a = b"
  by (cases a; cases b) simp_all

instantiation truth :: linorder
begin

definition less_eq_truth :: "truth \<Rightarrow> truth \<Rightarrow> bool" where
  "less_eq_truth a b \<longleftrightarrow> truth_rank a \<le> truth_rank b"

definition less_truth :: "truth \<Rightarrow> truth \<Rightarrow> bool" where
  "less_truth a b \<longleftrightarrow> truth_rank a < truth_rank b"

instance
  by standard (auto simp: less_eq_truth_def less_truth_def)

end

lemma truth_and_min: "truth_and a b = min a b"
  by (cases a; cases b) (simp_all add: truth_and_def min_def less_eq_truth_def)

lemma truth_or_max: "truth_or a b = max a b"
  by (cases a; cases b) (simp_all add: truth_or_def max_def less_eq_truth_def)

lemma truth_not_antimono: "truth_not a \<le> truth_not b \<longleftrightarrow> b \<le> a"
  by (cases a; cases b) (simp_all add: less_eq_truth_def)

lemma truth_not_not [simp]: "truth_not (truth_not a) = a"
  by (cases a) simp_all

lemma truth_not_and: "truth_not (truth_and a b) = truth_or (truth_not a) (truth_not b)"
  by (cases a; cases b) (simp_all add: truth_and_def truth_or_def)

lemma truth_top: "a \<le> T_true"
  by (cases a) (simp_all add: less_eq_truth_def)

lemma truth_bot: "T_false \<le> a"
  by (cases a) (simp_all add: less_eq_truth_def)

text \<open>Membership tests on the children's values, as the evaluators write ALL and ANY.\<close>

definition all_of :: "truth list \<Rightarrow> truth" where
  "all_of vs = (if T_false \<in> set vs then T_false else if T_unknown \<in> set vs then T_unknown else T_true)"

definition any_of :: "truth list \<Rightarrow> truth" where
  "any_of vs = (if T_true \<in> set vs then T_true else if T_unknown \<in> set vs then T_unknown else T_false)"

lemma all_of_foldr: "all_of vs = foldr truth_and vs T_true"
proof (induction vs)
  case (Cons v vs)
  have "all_of (v # vs) = truth_and v (all_of vs)"
    by (cases v) (auto simp: all_of_def truth_and_def)
  then show ?case using Cons by simp
qed (simp add: all_of_def)

lemma any_of_foldr: "any_of vs = foldr truth_or vs T_false"
proof (induction vs)
  case (Cons v vs)
  have "any_of (v # vs) = truth_or v (any_of vs)"
    by (cases v) (auto simp: any_of_def truth_or_def)
  then show ?case using Cons by simp
qed (simp add: any_of_def)

lemma truth_not_all_of: "truth_not (all_of vs) = any_of (map truth_not vs)"
  by (induction vs) (simp_all add: all_of_foldr any_of_foldr truth_not_and)

subsection \<open>Axes\<close>

definition axis_key :: "axis \<Rightarrow> axis_name \<times> string" where
  "axis_key a = (ax_name a, ax_domain_id a)"

text \<open>The domain of the first axis with a name.\<close>

definition first_domain :: "axis list \<Rightarrow> axis_name \<Rightarrow> string option" where
  "first_domain axes n = map_option ax_domain_id (find (\<lambda>a. ax_name a = n) axes)"

definition axis_names :: "axis list \<Rightarrow> axis_name set" where
  "axis_names axes = set (map ax_name axes)"

definition aligned_axes :: "semantic_type \<Rightarrow> semantic_type \<Rightarrow> axis list res" where
  "aligned_axes l r =
     (let lk = set (map axis_key (st_axes l)); rk = set (map axis_key (st_axes r))
      in if \<exists>n \<in> axis_names (st_axes l) \<inter> axis_names (st_axes r).
              first_domain (st_axes l) n \<noteq> first_domain (st_axes r) n
         then Inl (Semantic_type_error ''axis_domain_mismatch'')
         else if st_axes l = [] then Inr (st_axes r)
         else if st_axes r = [] then Inr (st_axes l)
         else if lk \<subseteq> rk then Inr (st_axes r)
         else if rk \<subseteq> lk then Inr (st_axes l)
         else Inl (Semantic_type_error ''implicit_cartesian_broadcast_forbidden''))"

definition require_compatible_values :: "semantic_type \<Rightarrow> semantic_type \<Rightarrow> axis list res" where
  "require_compatible_values l r =
     (if st_quantity l \<noteq> st_quantity r \<or> st_unit l \<noteq> st_unit r \<or> st_refinement l \<noteq> st_refinement r
      then Inl (Semantic_type_error ''unit_mismatch'')
      else if st_clock l \<noteq> None \<and> st_clock r \<noteq> None \<and> st_clock l \<noteq> st_clock r
      then Inl (Semantic_type_error ''clock_alignment_required'')
      else aligned_axes l r)"

text \<open>Alignment returns the axes of one side, which cover the axes of both.\<close>

lemma aligned_axes_Inr:
  assumes "aligned_axes l r = Inr axes"
  shows "axes = st_axes r \<and> (st_axes l = [] \<or> axis_key ` set (st_axes l) \<subseteq> axis_key ` set (st_axes r)) \<or>
    axes = st_axes l \<and> (st_axes r = [] \<or> axis_key ` set (st_axes r) \<subseteq> axis_key ` set (st_axes l))"
  using assms unfolding aligned_axes_def Let_def set_map
  by (simp only: sum.inject split: if_split_asm) simp_all

lemma aligned_axes_cases:
  assumes "aligned_axes l r = Inr axes"
  shows "axes = st_axes l \<or> axes = st_axes r"
    and "axis_key ` set (st_axes l) \<subseteq> axis_key ` set axes"
    and "axis_key ` set (st_axes r) \<subseteq> axis_key ` set axes"
  using aligned_axes_Inr [OF assms] by auto

lemma aligned_axes_scalar [simp, type_simps]:
  "st_axes l = [] \<Longrightarrow> st_axes r = [] \<Longrightarrow> aligned_axes l r = Inr []"
  by (simp add: aligned_axes_def Let_def axis_names_def)

lemma aligned_axes_empty_iff:
  assumes "aligned_axes l r = Inr axes"
  shows "axes = [] \<longleftrightarrow> st_axes l = [] \<and> st_axes r = []"
  using aligned_axes_cases [OF assms] by auto

lemma aligned_axes_error: "aligned_axes l r = Inl e \<Longrightarrow> is_value_error e"
  unfolding aligned_axes_def Let_def by (simp only: split: if_split_asm) auto

lemma aligned_axes_commute:
  assumes "aligned_axes l r = Inr axes"
  shows "\<exists>axes'. aligned_axes r l = Inr axes' \<and> axis_key ` set axes' = axis_key ` set axes"
proof -
  have n: "(\<exists>n \<in> axis_names (st_axes l) \<inter> axis_names (st_axes r). first_domain (st_axes l) n \<noteq> first_domain (st_axes r) n) \<longleftrightarrow>
    (\<exists>n \<in> axis_names (st_axes r) \<inter> axis_names (st_axes l). first_domain (st_axes r) n \<noteq> first_domain (st_axes l) n)"
    by (auto dest: not_sym)
  show ?thesis
    using assms unfolding aligned_axes_def Let_def set_map n
    by (simp only: split: if_split_asm) auto
qed

lemma require_compatible_axes: "require_compatible_values l r = Inr axes \<Longrightarrow> aligned_axes l r = Inr axes"
  by (auto simp: require_compatible_values_def split: if_splits)

lemma require_compatible_error: "require_compatible_values l r = Inl e \<Longrightarrow> is_value_error e"
  by (auto simp: require_compatible_values_def aligned_axes_error split: if_splits)

subsection \<open>History requirements\<close>

record history_requirement =
  hr_minimum_history_lower_bound :: int
  hr_seed_anchor_required :: bool
  hr_checkpoint_identity_required :: bool

definition history_requirement_of :: "int \<Rightarrow> history_requirement" where
  "history_requirement_of n =
     \<lparr>hr_minimum_history_lower_bound = n, hr_seed_anchor_required = False,
      hr_checkpoint_identity_required = False\<rparr>"

definition compose_history :: "history_requirement \<Rightarrow> int \<Rightarrow> int \<Rightarrow> history_requirement" where
  "compose_history h count skip =
     h\<lparr>hr_minimum_history_lower_bound := hr_minimum_history_lower_bound h + count + skip\<rparr>"

end
