(* ===== verification/Daily_Model.thy ===== *)
theory Daily_Model
  imports Decimals Semantic_Types
begin

text \<open>
  The data of \<open>strategy/v2/daily_values.py\<close>: the structured expression node with its shape
  validator, the pinned market snapshot, static type inference and the planner
  (\<open>infer_daily_type\<close>, \<open>plan_daily_value\<close>). A node is its own flat fields and its operands.
\<close>

subsection \<open>Expression nodes\<close>

datatype subject_kind = Subject_asset | Subject_candidate | Subject_group_members

datatype market_field = F_open | F_high | F_low | F_close | F_volume

datatype price_basis = B_raw | B_adjusted | B_raw_shares

datatype reduction_op = R_mean | R_median | R_min | R_max | R_std

datatype missing_policy = Require_all | Skip_with_coverage

datatype arith_op = A_add | A_subtract | A_multiply | A_divide

datatype value_kind =
  K_literal | K_observe | K_current | K_history | K_trailing_return | K_sma | K_ema | K_rsi
  | K_realized_volatility | K_reduce | K_arithmetic | K_absolute

record node_fields =
  nf_semantic_id :: string
  nf_kind :: value_kind
  nf_subject_kind :: "subject_kind option"
  nf_subject_id :: "string option"
  nf_binding_id :: "string option"
  nf_field :: "market_field option"
  nf_basis :: "price_basis option"
  nf_quantity :: "quantity option"
  nf_unit :: "unit_of option"
  nf_refinement :: "string option"
  nf_value :: "decimal option"
  nf_observations :: "int option"
  nf_skip :: int
  nf_axis :: "axis_name option"
  nf_reduction :: "reduction_op option"
  nf_missing_policy :: missing_policy
  nf_minimum_count :: int
  nf_minimum_fraction :: decimal
  nf_arithmetic :: "arith_op option"

datatype daily_node = Daily_node (dn_fields: node_fields) (operands: "daily_node list")

text \<open>The field defaults of the class.\<close>

definition node_defaults :: "string \<Rightarrow> value_kind \<Rightarrow> node_fields" where
  "node_defaults sid k =
     \<lparr>nf_semantic_id = sid, nf_kind = k, nf_subject_kind = None, nf_subject_id = None,
      nf_binding_id = None, nf_field = None, nf_basis = None, nf_quantity = None, nf_unit = None,
      nf_refinement = None, nf_value = None, nf_observations = None, nf_skip = 0, nf_axis = None,
      nf_reduction = None, nf_missing_policy = Require_all, nf_minimum_count = 1,
      nf_minimum_fraction = 1, nf_arithmetic = None\<rparr>"

text \<open>Python's truth value of an optional string.\<close>

definition truthy :: "string option \<Rightarrow> bool" where
  "truthy s = (case s of None \<Rightarrow> False | Some t \<Rightarrow> t \<noteq> [])"

definition or_empty :: "string option \<Rightarrow> string" where
  "or_empty s = (case s of None \<Rightarrow> [] | Some t \<Rightarrow> t)"

fun arity :: "value_kind \<Rightarrow> nat" where
  "arity K_literal = 0"
| "arity K_observe = 0"
| "arity K_arithmetic = 2"
| "arity _ = 1"

definition windowed :: "value_kind \<Rightarrow> bool" where
  "windowed k \<longleftrightarrow> k \<in> {K_history, K_trailing_return, K_sma, K_ema, K_rsi, K_realized_volatility}"

text \<open>The model validator of one node, in the source's order of checks.\<close>

definition validate_shape :: "daily_node \<Rightarrow> unit res" where
  "validate_shape n =
     (let f = dn_fields n; k = nf_kind f in
      if length (operands n) \<noteq> arity k then Inl (Value_error ''operand count'')
      else if k = K_literal \<and> (nf_value f = None \<or> nf_quantity f = None \<or> nf_unit f = None)
      then Inl (Value_error ''literal requires value, quantity and unit'')
      else if k = K_observe \<and> (nf_subject_kind f = None \<or> nf_field f = None \<or> nf_basis f = None)
      then Inl (Value_error ''observe requires subject_kind, field and basis'')
      else if k = K_observe \<and> nf_subject_kind f = Some Subject_candidate
        \<and> (\<not> truthy (nf_binding_id f) \<or> nf_subject_id f \<noteq> None)
      then Inl (Value_error ''candidate observe requires a lexical binding_id'')
      else if k = K_observe \<and> nf_subject_kind f \<noteq> Some Subject_candidate
        \<and> (\<not> truthy (nf_subject_id f) \<or> nf_binding_id f \<noteq> None)
      then Inl (Value_error ''asset/group observe requires subject_id'')
      else if k = K_observe \<and> nf_field f = Some F_volume \<and> nf_basis f \<noteq> Some B_raw_shares
      then Inl (Value_error ''volume requires raw_shares basis'')
      else if k = K_observe \<and> nf_field f \<noteq> Some F_volume \<and> nf_basis f = Some B_raw_shares
      then Inl (Value_error ''price field cannot use raw_shares basis'')
      else if windowed k \<and> \<not> (case nf_observations f of None \<Rightarrow> False | Some m \<Rightarrow> 1 \<le> m \<and> m \<le> 2000)
      then Inl (Value_error ''daily window must be 1..2000 observations'')
      else if windowed k \<and> nf_skip f < 0
      then Inl (Value_error ''skip must be non-negative'')
      else if k = K_reduce \<and> (nf_axis f = None \<or> nf_reduction f = None \<or> nf_minimum_count f < 1
        \<or> \<not> (0 < nf_minimum_fraction f \<and> nf_minimum_fraction f \<le> 1))
      then Inl (Value_error ''reduce requires explicit axis, operation and coverage'')
      else if k = K_arithmetic \<and> nf_arithmetic f = None
      then Inl (Value_error ''arithmetic requires an operator'')
      else Inr ())"

text \<open>Construction validates bottom up, so every node of a constructed tree is well shaped.\<close>

fun well_shaped :: "daily_node \<Rightarrow> bool" where
  "well_shaped (Daily_node f ops) \<longleftrightarrow>
     validate_shape (Daily_node f ops) = Inr () \<and> list_all well_shaped ops"

fun subnodes :: "daily_node \<Rightarrow> daily_node list" where
  "subnodes (Daily_node f ops) = Daily_node f ops # concat (map subnodes ops)"

text \<open>
  \<open>content_hash\<close> digests the node with every semantic id removed; the digest (canonical JSON,
  SHA-256) is a parameter.
\<close>

fun without_addresses :: "daily_node \<Rightarrow> daily_node" where
  "without_addresses (Daily_node f ops) =
     Daily_node (f\<lparr>nf_semantic_id := []\<rparr>) (map without_addresses ops)"

definition content_hash :: "(daily_node \<Rightarrow> string) \<Rightarrow> daily_node \<Rightarrow> string" where
  "content_hash digest n = digest (without_addresses n)"

lemma well_shaped_operand: "well_shaped n \<Longrightarrow> m \<in> set (operands n) \<Longrightarrow> well_shaped m"
  by (cases n) (auto simp: list_all_iff)

lemma well_shaped_arity: "well_shaped n \<Longrightarrow> length (operands n) = arity (nf_kind (dn_fields n))"
  by (cases n) (auto simp: validate_shape_def Let_def split: if_splits)

lemma without_addresses_idem [simp]: "without_addresses (without_addresses n) = without_addresses n"
  by (induction n rule: without_addresses.induct) (auto intro: map_cong)

subsection \<open>Market snapshot\<close>

record snapshot =
  sn_id :: string
  sn_clock :: clock
  sn_series :: "(string, (string, decimal option list) dict) dict"
  sn_domains :: "(string, string list) dict"
  sn_dates :: "string list"

fun field_text :: "market_field \<Rightarrow> string" where
  "field_text F_open = ''open''"
| "field_text F_high = ''high''"
| "field_text F_low = ''low''"
| "field_text F_close = ''close''"
| "field_text F_volume = ''volume''"

fun basis_text :: "price_basis \<Rightarrow> string" where
  "basis_text B_raw = ''raw''"
| "basis_text B_adjusted = ''adjusted''"
| "basis_text B_raw_shares = ''raw_shares''"

definition field_key :: "market_field \<Rightarrow> price_basis \<Rightarrow> string" where
  "field_key f b = field_text f @ '':'' @ basis_text b"

text \<open>\<open>__post_init__\<close>: the checks that make a snapshot.\<close>

definition validate_snapshot :: "snapshot \<Rightarrow> unit res" where
  "validate_snapshot sn =
     (if sn_dates sn = [] then Inl (Daily_value_error ''empty_snapshot'')
      else if \<exists>(symbol, columns) \<in> set (sn_series sn). \<exists>(key, values) \<in> set columns.
                length values \<noteq> length (sn_dates sn)
      then Inl (Daily_value_error ''series_length_mismatch'')
      else if \<exists>(domain, members) \<in> set (sn_domains sn). members = [] \<or> \<not> distinct members
      then Inl (Daily_value_error ''invalid_domain'')
      else Inr ())"

definition field_values :: "snapshot \<Rightarrow> string \<Rightarrow> market_field \<Rightarrow> price_basis \<Rightarrow> decimal option list res" where
  "field_values sn symbol f b =
     (case dget (sn_series sn) symbol of
        None \<Rightarrow> Inl (Daily_value_error ''provider_field_missing'')
      | Some columns \<Rightarrow>
          (case dget columns (field_key f b) of
             None \<Rightarrow> Inl (Daily_value_error ''provider_field_missing'')
           | Some values \<Rightarrow> Inr values))"

lemma field_values_length:
  assumes "validate_snapshot sn = Inr ()" "field_values sn symbol f b = Inr vs"
  shows "length vs = length (sn_dates sn)"
proof -
  obtain columns where c: "map_of (sn_series sn) symbol = Some columns" "map_of columns (field_key f b) = Some vs"
    using assms(2) by (auto simp: field_values_def dget_def split: option.splits)
  then have "(symbol, columns) \<in> set (sn_series sn)" "(field_key f b, vs) \<in> set columns"
    by (auto dest: map_of_SomeD)
  then show ?thesis using assms(1) by (fastforce simp: validate_snapshot_def split: if_splits)
qed

lemma domain_members:
  assumes "validate_snapshot sn = Inr ()" "dget (sn_domains sn) d = Some ms"
  shows "ms \<noteq> [] \<and> distinct ms"
  using assms map_of_SomeD [of "sn_domains sn" d ms]
  by (fastforce simp: validate_snapshot_def dget_def split: if_splits)

subsection \<open>Type inference\<close>

definition str_of_opt :: "('a \<Rightarrow> string) \<Rightarrow> 'a option \<Rightarrow> string" where
  "str_of_opt f x = (case x of None \<Rightarrow> ''None'' | Some y \<Rightarrow> f y)"

definition observe_type :: "node_fields \<Rightarrow> string option \<Rightarrow> semantic_type res" where
  "observe_type f binding =
     (if nf_subject_kind f = Some Subject_candidate \<and> nf_binding_id f \<noteq> binding
      then Inl (Daily_value_error ''unbound_candidate'')
      else
        let q = (if nf_field f = Some F_volume then Q_volume else Q_price);
            u = (if nf_field f = Some F_volume then U_shares else U_usd_per_share);
            r = (if nf_field f = Some F_volume then ''daily_trade_volume:raw_shares''
                 else if nf_basis f = Some B_raw then ''raw_ohlc'' else ''adjusted_close'');
            axes = (if nf_subject_kind f = Some Subject_group_members
                    then [asset_axis (or_empty (nf_subject_id f))] else [])
        in Inr \<lparr>st_dtype = DT_decimal, st_quantity = q, st_unit = u, st_refinement = Some r,
                st_axes = axes, st_clock = Some daily_close\<rparr>)"

definition history_axis :: "int option \<Rightarrow> int \<Rightarrow> axis" where
  "history_axis observations skip =
     \<lparr>ax_name = Ax_time,
      ax_domain_id = ''daily-close:observations:'' @ str_of_opt str_of_int observations
        @ '':skip:'' @ str_of_int skip,
      ax_coordinate_policy = ''completed_observation''\<rparr>"

text \<open>The type of an arithmetic node from its operands' types.\<close>

definition arithmetic_type :: "arith_op option \<Rightarrow> semantic_type \<Rightarrow> semantic_type \<Rightarrow> semantic_type res" where
  "arithmetic_type a l r =
     (if a = Some A_add \<or> a = Some A_subtract
      then ebind (require_compatible_values l r) (\<lambda>_.
           ebind (aligned_axes l r) (\<lambda>axes. Inr (l\<lparr>st_axes := axes\<rparr>)))
      else if a = Some A_multiply
      then (if st_quantity l = Q_score \<and> st_unit l = U_ratio
            then ebind (aligned_axes l r) (\<lambda>axes. Inr (r\<lparr>st_axes := axes\<rparr>))
            else if st_quantity r = Q_score \<and> st_unit r = U_ratio
            then ebind (aligned_axes l r) (\<lambda>axes. Inr (l\<lparr>st_axes := axes\<rparr>))
            else Inl (Daily_value_error ''invalid_multiply_signature''))
      else if a = Some A_divide \<and> st_quantity l = st_quantity r \<and> st_unit l = st_unit r
        \<and> st_refinement l = st_refinement r
      then ebind (aligned_axes l r) (\<lambda>axes.
             Inr \<lparr>st_dtype = DT_decimal, st_quantity = Q_score, st_unit = U_ratio,
                  st_refinement = Some ''ratio'', st_axes = axes,
                  st_clock = (if st_clock l = None then st_clock r else st_clock l)\<rparr>)
      else Inl (Daily_value_error ''invalid_divide_signature''))"

text \<open>The type of a node with one operand, from the operand's type.\<close>

definition unary_type :: "node_fields \<Rightarrow> semantic_type \<Rightarrow> semantic_type res" where
  "unary_type f l =
     (case nf_kind f of
        K_history \<Rightarrow> Inr (l\<lparr>st_axes := st_axes l @ [history_axis (nf_observations f) (nf_skip f)]\<rparr>)
      | K_trailing_return \<Rightarrow>
          Inr (l\<lparr>st_quantity := Q_return, st_unit := U_ratio,
                 st_refinement := Some (''trailing_return:'' @ str_of_opt id (st_refinement l))\<rparr>)
      | K_sma \<Rightarrow> ebind (guard (st_quantity l = Q_price) (Daily_value_error ''indicator_input_requires_price'')) (\<lambda>_. Inr l)
      | K_ema \<Rightarrow> ebind (guard (st_quantity l = Q_price) (Daily_value_error ''indicator_input_requires_price'')) (\<lambda>_. Inr l)
      | K_rsi \<Rightarrow> ebind (guard (st_quantity l = Q_price) (Daily_value_error ''indicator_input_requires_price'')) (\<lambda>_.
          Inr (l\<lparr>st_quantity := Q_oscillator, st_unit := U_points, st_refinement := Some ''rsi_wilder_lean_compat@1''\<rparr>))
      | K_realized_volatility \<Rightarrow> ebind (guard (st_quantity l = Q_price) (Daily_value_error ''indicator_input_requires_price'')) (\<lambda>_.
          Inr (l\<lparr>st_quantity := Q_return, st_unit := U_ratio,
                 st_refinement := Some ''realized_volatility:simple_return:sample:annualized_252@1''\<rparr>))
      | K_reduce \<Rightarrow>
          let axes = filter (\<lambda>a. Some (ax_name a) \<noteq> nf_axis f) (st_axes l)
          in if length axes = length (st_axes l) then Inl (Daily_value_error ''reduction_axis_absent'')
             else Inr (l\<lparr>st_axes := axes\<rparr>)
      | _ \<Rightarrow> Inr l)"

fun infer_daily_type :: "string option \<Rightarrow> daily_node \<Rightarrow> semantic_type res" where
  "infer_daily_type binding (Daily_node f ops) =
     (case nf_kind f of
        K_literal \<Rightarrow>
          (case (nf_quantity f, nf_unit f) of
             (Some q, Some u) \<Rightarrow>
               Inr \<lparr>st_dtype = DT_decimal, st_quantity = q, st_unit = u, st_refinement = nf_refinement f,
                    st_axes = [], st_clock = None\<rparr>
           | _ \<Rightarrow> Inl (Value_error ''validation''))
      | K_observe \<Rightarrow> observe_type f binding
      | k \<Rightarrow>
          (case ops of
             [] \<Rightarrow> Inl Index_error
           | op0 # rest \<Rightarrow>
               ebind (infer_daily_type binding op0) (\<lambda>left.
                 if k = K_arithmetic
                 then (case rest of
                         [] \<Rightarrow> Inl Index_error
                       | op1 # _ \<Rightarrow> ebind (infer_daily_type binding op1) (arithmetic_type (nf_arithmetic f) left))
                 else unary_type f left)))"

lemma infer_without_addresses: "infer_daily_type b (without_addresses n) = infer_daily_type b n"
proof (induction b n rule: infer_daily_type.induct)
  case (1 b f ops)
  show ?case
  proof (cases ops)
    case Nil
    then show ?thesis
      by (simp add: observe_type_def split: value_kind.splits option.splits)
  next
    case (Cons op0 rest)
    have u: "unary_type (f\<lparr>nf_semantic_id := []\<rparr>) = unary_type f"
      by (simp add: fun_eq_iff unary_type_def split: value_kind.splits)
    show ?thesis
      using 1 Cons
      by (cases rest; cases "nf_kind f") (simp_all add: u observe_type_def cong: ebind_cong option.case_cong)
  qed
qed

declare infer_daily_type.simps [simp del]

text \<open>\<open>plan_daily_value\<close> infers the type before it visits the node.\<close>

subsection \<open>Planning\<close>

record plan_acc =
  pa_fields :: "string list"
  pa_versions :: "string list"
  pa_backend_lowerable :: bool

record typed_value_plan =
  tp_expression_id :: string
  tp_expression_hash :: string
  tp_semantic_type :: semantic_type
  tp_fields :: "string list"
  tp_history :: history_requirement
  tp_operator_versions :: "string list"
  tp_backend_lowerable :: bool

fun reduction_text :: "reduction_op \<Rightarrow> string" where
  "reduction_text R_mean = ''mean''"
| "reduction_text R_median = ''median''"
| "reduction_text R_min = ''min''"
| "reduction_text R_max = ''max''"
| "reduction_text R_std = ''std''"

fun arith_text :: "arith_op \<Rightarrow> string" where
  "arith_text A_add = ''add''"
| "arith_text A_subtract = ''subtract''"
| "arith_text A_multiply = ''multiply''"
| "arith_text A_divide = ''divide''"

definition set_add :: "'a \<Rightarrow> 'a list \<Rightarrow> 'a list" where
  "set_add x xs = (if x \<in> set xs then xs else xs @ [x])"

definition or_zero :: "int option \<Rightarrow> int" where
  "or_zero n = (case n of None \<Rightarrow> 0 | Some m \<Rightarrow> m)"

text \<open>
  What one visit adds for an inner node, given the largest requirement of its operands and
  whether any of them needs a checkpoint. An attribute read on a missing enum raises.
\<close>

definition plan_step :: "node_fields \<Rightarrow> int \<Rightarrow> bool \<Rightarrow> plan_acc \<Rightarrow> ((int \<times> bool) \<times> plan_acc) res" where
  "plan_step f m cp acc =
     (let w = or_zero (nf_observations f); version = (\<lambda>v. acc\<lparr>pa_versions := set_add v (pa_versions acc)\<rparr>);
          reference_only = (\<lambda>a. a\<lparr>pa_backend_lowerable := False\<rparr>)
      in case nf_kind f of
           K_current \<Rightarrow> Inr ((m, cp), acc)
         | K_absolute \<Rightarrow> Inr ((m, cp), reference_only (version ''absolute@1''))
         | K_trailing_return \<Rightarrow> Inr ((m + w, cp), version ''trailing_return@1'')
         | K_sma \<Rightarrow> Inr ((m + w - 1, cp), version ''sma@1'')
         | K_realized_volatility \<Rightarrow> Inr ((m + w - 1, cp), version ''realized_volatility@1'')
         | K_ema \<Rightarrow> Inr ((m + w - 1, True), version ''ema@1'')
         | K_rsi \<Rightarrow> Inr ((m + w, True), version ''rsi_wilder_lean_compat@1'')
         | K_history \<Rightarrow> Inr ((m + max 0 (w - 1) + nf_skip f, cp), reference_only acc)
         | K_reduce \<Rightarrow>
             (case nf_reduction f of
                None \<Rightarrow> Inl Attribute_error
              | Some r \<Rightarrow> Inr ((m, cp), reference_only (version (''reduce.'' @ reduction_text r @ ''@1''))))
         | K_arithmetic \<Rightarrow>
             Inr ((m, cp), reference_only (version (''arithmetic.'' @ str_of_opt arith_text (nf_arithmetic f) @ ''@1'')))
         | _ \<Rightarrow> Inr ((m, cp), acc))"

fun plan_visit :: "daily_node \<Rightarrow> plan_acc \<Rightarrow> ((int \<times> bool) \<times> plan_acc) res"
  and plan_visits :: "daily_node list \<Rightarrow> plan_acc \<Rightarrow> ((int \<times> bool) list \<times> plan_acc) res" where
  "plan_visit (Daily_node f ops) acc =
     (case nf_kind f of
        K_literal \<Rightarrow> Inr ((0, False), acc\<lparr>pa_backend_lowerable := False\<rparr>)
      | K_observe \<Rightarrow>
          (case (nf_field f, nf_basis f) of
             (Some fd, Some b) \<Rightarrow>
               Inr ((1, False),
                 acc\<lparr>pa_fields := set_add (field_key fd b) (pa_fields acc),
                     pa_backend_lowerable := pa_backend_lowerable acc
                       \<and> nf_subject_kind f = Some Subject_asset \<and> fd = F_close \<and> b = B_adjusted\<rparr>)
           | _ \<Rightarrow> Inl Attribute_error)
      | _ \<Rightarrow>
          ebind (plan_visits ops acc) (\<lambda>(rs, acc').
            plan_step f (foldl max 0 (map fst rs)) (list_ex snd rs) acc'))"
| "plan_visits [] acc = Inr ([], acc)"
| "plan_visits (n # ns) acc =
     ebind (plan_visit n acc) (\<lambda>(r, acc').
       ebind (plan_visits ns acc') (\<lambda>(rs, acc''). Inr (r # rs, acc'')))"

definition plan_daily_value :: "(daily_node \<Rightarrow> string) \<Rightarrow> string option \<Rightarrow> daily_node \<Rightarrow> typed_value_plan res" where
  "plan_daily_value digest binding n =
     ebind (infer_daily_type binding n) (\<lambda>t.
     ebind (plan_visit n \<lparr>pa_fields = [], pa_versions = [], pa_backend_lowerable = True\<rparr>)
       (\<lambda>((m, cp), acc).
         Inr \<lparr>tp_expression_id = nf_semantic_id (dn_fields n), tp_expression_hash = content_hash digest n,
              tp_semantic_type = t, tp_fields = sort (pa_fields acc),
              tp_history = \<lparr>hr_minimum_history_lower_bound = m, hr_seed_anchor_required = cp,
                            hr_checkpoint_identity_required = cp\<rparr>,
              tp_operator_versions = sort (pa_versions acc),
              tp_backend_lowerable = pa_backend_lowerable acc\<rparr>))"

text \<open>A well-shaped node always plans once it is typed: no attribute read can fail.\<close>

lemma well_shaped_fields:
  assumes "well_shaped (Daily_node f ops)"
  shows "nf_kind f = K_reduce \<Longrightarrow> nf_reduction f \<noteq> None \<and> nf_axis f \<noteq> None \<and> 1 \<le> nf_minimum_count f"
    and "nf_kind f = K_observe \<Longrightarrow> nf_field f \<noteq> None \<and> nf_basis f \<noteq> None \<and> nf_subject_kind f \<noteq> None"
    and "nf_kind f = K_literal \<Longrightarrow> nf_value f \<noteq> None \<and> nf_quantity f \<noteq> None \<and> nf_unit f \<noteq> None"
    and "windowed (nf_kind f) \<Longrightarrow> \<exists>w. nf_observations f = Some w \<and> 1 \<le> w \<and> w \<le> 2000"
    and "windowed (nf_kind f) \<Longrightarrow> 0 \<le> nf_skip f"
    and "nf_kind f = K_arithmetic \<Longrightarrow> nf_arithmetic f \<noteq> None"
  using assms by (auto simp: validate_shape_def Let_def split: if_splits option.splits)

lemma plan_step_total:
  assumes "well_shaped (Daily_node f ops)"
  shows "\<exists>m' cp' acc'. plan_step f m cp acc = Inr ((m', cp'), acc') \<and> (0 \<le> m \<longrightarrow> 0 \<le> m')"
  using well_shaped_fields [OF assms]
  by (cases "nf_kind f") (auto simp: plan_step_def Let_def windowed_def or_zero_def)

lemma foldl_max_ge: "(a::int) \<le> foldl max a xs"
  by (induction xs arbitrary: a) (auto intro: order_trans [OF max.cobounded1])

lemma plan_visit_total:
  "well_shaped n \<Longrightarrow> \<exists>m cp acc'. plan_visit n acc = Inr ((m, cp), acc') \<and> 0 \<le> m"
  "list_all well_shaped ns \<Longrightarrow> \<exists>rs acc'. plan_visits ns acc = Inr (rs, acc')"
proof (induction n acc and ns acc rule: plan_visit_plan_visits.induct)
  case (1 f ops acc)
  note wf = well_shaped_fields [OF "1.prems"]
  have inner: "\<exists>m cp acc'. plan_visit (Daily_node f ops) acc = Inr ((m, cp), acc') \<and> 0 \<le> m"
    if k: "nf_kind f \<noteq> K_literal" "nf_kind f \<noteq> K_observe"
  proof -
    have "list_all well_shaped ops" using "1.prems" by simp
    then obtain rs acc' where r: "plan_visits ops acc = Inr (rs, acc')" using "1.IH" k by (cases "nf_kind f") auto
    then show ?thesis
      using plan_step_total [OF "1.prems", of "foldl max 0 (map fst rs)" "list_ex snd rs" acc'] k foldl_max_ge [of 0]
      by (cases "nf_kind f") auto
  qed
  show ?case
    using wf(2) inner by (cases "nf_kind f") auto
qed fastforce+

end
