(* ===== verification/Daily_Transform.thy ===== *)
theory Daily_Transform
  imports Daily_Model
begin

text \<open>
  \<open>_transform\<close> of \<open>daily_values.py\<close>: trailing return, SMA, EMA, Wilder RSI and realized
  volatility of a daily series, with the exceptions its arithmetic can raise. The lemmas show
  that it keeps the length, that a cell depends on the series up to its own day only, the
  range of RSI, and which cells exist.
\<close>

named_theorems transform_simps \<open>the indicator cells\<close>

type_synonym series = "decimal option list"

subsection \<open>Cells\<close>

text \<open>\<open>series[end - period + 1:end + 1]\<close>; the start may be negative.\<close>

definition window :: "series \<Rightarrow> int \<Rightarrow> nat \<Rightarrow> series" where
  "window s period e = py_slice s (int e - period + 1) (int e + 1)"

definition trailing_return_cell :: "int \<Rightarrow> series \<Rightarrow> nat \<Rightarrow> decimal option res" where
  "trailing_return_cell period s e =
     (if int e - period < 0 \<or> s ! e = None then Inr None
      else ebind (py_index s (int e - period)) (\<lambda>base.
        case (s ! e, base) of
          (Some c, Some b) \<Rightarrow>
            if b = 0 then Inr None else ebind (ddiv c b) (\<lambda>q. Inr (Some (dsub q 1)))
        | _ \<Rightarrow> Inr None))"

text \<open>\<open>sum(values) / Decimal(period)\<close>.\<close>

definition mean_of :: "decimal list \<Rightarrow> int \<Rightarrow> decimal res" where
  "mean_of vs period = ddiv (dsum vs) (of_int period)"

definition ema_cell :: "int \<Rightarrow> decimal list \<Rightarrow> decimal option \<Rightarrow> nat \<Rightarrow> decimal option res" where
  "ema_cell period vs previous e =
     ebind (ddiv 2 (of_int (period + 1))) (\<lambda>alpha.
       if int e = period - 1 then ebind (mean_of vs period) (\<lambda>m. Inr (Some m))
       else (case previous of
               None \<Rightarrow> Inr None
             | Some p \<Rightarrow>
                 (case vs of
                    [] \<Rightarrow> Inl Index_error
                  | _ \<Rightarrow> Inr (Some (dadd (dmul alpha (last vs)) (dmul (dsub 1 alpha) p))))))"

text \<open>\<open>series[index] - series[index - 1]\<close>; subtracting a missing value is a \<open>TypeError\<close>.\<close>

definition change_at :: "series \<Rightarrow> nat \<Rightarrow> decimal res" where
  "change_at s i =
     (if i < length s
      then (case (s ! i, s ! (i - 1)) of (Some a, Some b) \<Rightarrow> Inr (dsub a b) | _ \<Rightarrow> Inl Type_error)
      else Inl Index_error)"

definition gain :: "decimal \<Rightarrow> decimal" where
  "gain c = max c 0"

definition loss :: "decimal \<Rightarrow> decimal" where
  "loss c = max (dneg c) 0"

definition rsi_seed :: "int \<Rightarrow> series \<Rightarrow> (decimal \<times> decimal) res" where
  "rsi_seed period s =
     ebind (emap (change_at s) [1..<Suc (nat period)]) (\<lambda>changes.
     ebind (mean_of (map gain changes) period) (\<lambda>g.
     ebind (mean_of (map loss changes) period) (\<lambda>l. Inr (g, l))))"

definition wilder :: "int \<Rightarrow> decimal \<Rightarrow> decimal \<Rightarrow> decimal res" where
  "wilder period average x = ddiv (dadd (dmul average (of_int (period - 1))) x) (of_int period)"

definition rsi_smooth :: "int \<Rightarrow> series \<Rightarrow> nat \<Rightarrow> decimal \<times> decimal \<Rightarrow> (decimal \<times> decimal) res" where
  "rsi_smooth period s i avgs =
     ebind (change_at s i) (\<lambda>c.
     ebind (wilder period (fst avgs) (gain c)) (\<lambda>g.
     ebind (wilder period (snd avgs) (loss c)) (\<lambda>l. Inr (g, l))))"

definition rsi_value :: "decimal \<Rightarrow> decimal \<Rightarrow> decimal res" where
  "rsi_value g l =
     (if g = 0 \<and> l = 0 then Inr 50
      else if l = 0 then Inr 100
      else ebind (ddiv g l) (\<lambda>rs. ebind (ddiv 100 (dadd 1 rs)) (\<lambda>q. Inr (dsub 100 q))))"

definition rsi_cell :: "int \<Rightarrow> series \<Rightarrow> nat \<Rightarrow> decimal option res" where
  "rsi_cell period s e =
     (if int e < period then Inr None
      else ebind (rsi_seed period s) (\<lambda>seed.
           ebind (efold (rsi_smooth period s) [Suc (nat period)..<Suc e] seed) (\<lambda>(g, l).
           ebind (rsi_value g l) (\<lambda>v. Inr (Some v)))))"

definition returns_of :: "decimal list \<Rightarrow> decimal list res" where
  "returns_of vs =
     emap (\<lambda>i. ebind (ddiv (vs ! i) (vs ! (i - 1))) (\<lambda>q. Inr (dsub q 1))) [1..<length vs]"

text \<open>The sample standard deviation.\<close>

definition sample_std :: "decimal list \<Rightarrow> decimal res" where
  "sample_std xs =
     ebind (mean_of xs (int (length xs))) (\<lambda>m.
     ebind (ddiv (dsum (map (\<lambda>v. dsquare (dsub v m)) xs)) (of_int (int (length xs) - 1))) dsqrt)"

definition volatility_cell :: "decimal list \<Rightarrow> decimal option res" where
  "volatility_cell vs =
     ebind (returns_of vs) (\<lambda>rs.
       if length rs < 2 then Inr None
       else ebind (sample_std rs) (\<lambda>d. Inr (Some (dmul d (sqrt_rounded 252)))))"

definition transform_cell :: "value_kind \<Rightarrow> int \<Rightarrow> series \<Rightarrow> decimal option \<Rightarrow> nat \<Rightarrow> decimal option res" where
  "transform_cell k period s previous e =
     (if k = K_trailing_return then trailing_return_cell period s e
      else
        let w = window s period e in
        if int (length w) \<noteq> period \<or> None \<in> set w then Inr None
        else
          let vs = map the w in
          case k of
            K_sma \<Rightarrow> ebind (mean_of vs period) (\<lambda>m. Inr (Some m))
          | K_ema \<Rightarrow> ema_cell period vs previous e
          | K_rsi \<Rightarrow> rsi_cell period s e
          | _ \<Rightarrow> volatility_cell vs)"

text \<open>The loop over the series; \<open>result[-1]\<close> is the cell of the day before.\<close>

definition last_cell :: "series \<Rightarrow> decimal option" where
  "last_cell result = (if result = [] then None else last result)"

definition transform_step :: "value_kind \<Rightarrow> int \<Rightarrow> series \<Rightarrow> nat \<Rightarrow> series \<Rightarrow> series res" where
  "transform_step k period s e result =
     ebind (transform_cell k period s (last_cell result) e) (\<lambda>x. Inr (result @ [x]))"

definition transform :: "value_kind \<Rightarrow> int \<Rightarrow> series \<Rightarrow> series res" where
  "transform k period s = efold (transform_step k period s) [0..<length s] []"

subsection \<open>Windows\<close>

lemma window_full:
  assumes "e < length s" "0 < p" "p \<le> Suc e"
  shows "window s (int p) e = take p (drop (Suc e - p) s)"
proof -
  have "window s (int p) e = drop (Suc e - p) (take (Suc e) s)"
  proof -
    have "nat (int e - int p + 1) = Suc e - p" "nat (int e + 1) = Suc e" using assms by linarith+
    moreover have "0 \<le> int e - int p + 1" using assms by linarith
    ultimately show ?thesis by (simp add: window_def py_slice_nonneg)
  qed
  also have "\<dots> = take p (drop (Suc e - p) s)"
    using assms by (simp add: drop_take)
  finally show ?thesis .
qed

lemma length_window_short:
  assumes "e < length s" "int (Suc e) < p"
  shows "int (length (window s p e)) < p"
proof -
  have "slice_bound (length s) (int e + 1) = Suc e"
    using assms by (simp add: slice_bound_def)
  then have "length (window s p e) \<le> Suc e"
    by (simp add: window_def py_slice_def Let_def)
  then show ?thesis using assms by simp
qed

text \<open>The complete window of the last \<open>p\<close> days, if there are \<open>p\<close> days and none is missing.\<close>

definition full_window :: "series \<Rightarrow> int \<Rightarrow> nat \<Rightarrow> bool" where
  "full_window s p e \<longleftrightarrow>
     0 < p \<and> p \<le> int (Suc e) \<and> None \<notin> set (take (nat p) (drop (Suc e - nat p) s))"

lemma window_usable_iff:
  assumes "e < length s" "0 < p"
  shows "int (length (window s p e)) = p \<and> None \<notin> set (window s p e) \<longleftrightarrow> full_window s p e"
proof (cases "p \<le> int (Suc e)")
  case True
  then have "window s (int (nat p)) e = take (nat p) (drop (Suc e - nat p) s)"
    using assms by (intro window_full) auto
  moreover have "length (take (nat p) (drop (Suc e - nat p) s)) = nat p" using assms True by auto
  ultimately show ?thesis using True assms by (simp add: full_window_def del: length_take)
next
  case False
  then show ?thesis using length_window_short [OF assms(1), of p] by (simp add: full_window_def)
qed

lemma full_window_take:
  assumes "e < k"
  shows "full_window (take k s) p e \<longleftrightarrow> full_window s p e"
  using assms by (auto simp: full_window_def take_drop min_def)

lemma window_take:
  assumes "e < k" "k \<le> length s" "full_window s p e"
  shows "window (take k s) p e = window s p e"
proof -
  have p: "0 < p" "nat p \<le> Suc e" using assms by (auto simp: full_window_def)
  have "window (take k s) (int (nat p)) e = take (nat p) (drop (Suc e - nat p) (take k s))"
    using assms p by (intro window_full) auto
  also have "\<dots> = take (nat p) (drop (Suc e - nat p) s)"
    using assms(1) p by (simp add: drop_take min_def)
  also have "\<dots> = window s (int (nat p)) e"
    using assms p by (intro window_full [symmetric]) auto
  finally show ?thesis using p by simp
qed

lemma transform_cell_window:
  assumes "e < length s" "0 < p" "k \<noteq> K_trailing_return"
  shows "transform_cell k p s previous e =
    (if full_window s p e
     then (let vs = map the (window s p e) in
           case k of
             K_sma \<Rightarrow> ebind (mean_of vs p) (\<lambda>m. Inr (Some m))
           | K_ema \<Rightarrow> ema_cell p vs previous e
           | K_rsi \<Rightarrow> rsi_cell p s e
           | _ \<Rightarrow> volatility_cell vs)
     else Inr None)"
proof -
  have w: "(int (length (window s p e)) \<noteq> p \<or> None \<in> set (window s p e)) \<longleftrightarrow> \<not> full_window s p e"
    using window_usable_iff [OF assms(1,2)] by blast
  show ?thesis
    by (cases "full_window s p e")
      (simp_all only: transform_cell_def Let_def w assms(3) if_True if_False not_True_eq_False not_False_eq_True)
qed

subsection \<open>The loop\<close>

lemma transform_upto_SucE:
  assumes "efold (transform_step k p s) [0..<Suc n] [] = Inr r"
  obtains r' x where "efold (transform_step k p s) [0..<n] [] = Inr r'"
    "transform_cell k p s (last_cell r') n = Inr x" "r = r' @ [x]"
proof -
  have "ebind (efold (transform_step k p s) [0..<n] []) (transform_step k p s n) = Inr r"
    using assms by (simp add: efold_append ebind_eq_Inr)
  then obtain r' where r': "efold (transform_step k p s) [0..<n] [] = Inr r'"
    and step: "transform_step k p s n r' = Inr r"
    by (rule ebind_InrE)
  from step obtain x where "transform_cell k p s (last_cell r') n = Inr x" "r = r' @ [x]"
    unfolding transform_step_def by (auto elim: ebind_InrE)
  with r' that show ?thesis by blast
qed

lemma transform_upto_length:
  "efold (transform_step k p s) [0..<n] [] = Inr r \<Longrightarrow> length r = n"
proof (induction n arbitrary: r)
  case (Suc n)
  from Suc.prems show ?case by (rule transform_upto_SucE) (use Suc.IH in simp)
qed simp

lemma transform_length: "transform k p s = Inr r \<Longrightarrow> length r = length s"
  unfolding transform_def by (rule transform_upto_length)

text \<open>Every cell is the cell function at its day, with the cell before it.\<close>

lemma transform_upto_nth:
  assumes "efold (transform_step k p s) [0..<n] [] = Inr r" "i < n"
  shows "transform_cell k p s (last_cell (take i r)) i = Inr (r ! i)"
  using assms
proof (induction n arbitrary: r)
  case (Suc n)
  from Suc.prems(1) obtain r' x where r': "efold (transform_step k p s) [0..<n] [] = Inr r'"
    and x: "transform_cell k p s (last_cell r') n = Inr x" and r: "r = r' @ [x]"
    by (rule transform_upto_SucE)
  have len: "length r' = n" using transform_upto_length [OF r'] .
  show ?case
  proof (cases "i = n")
    case True
    then show ?thesis using x r len by (simp add: nth_append)
  next
    case False
    then have "i < n" using Suc.prems by simp
    then show ?thesis using Suc.IH [OF r'] r len by (simp add: nth_append)
  qed
qed simp

lemma transform_nth:
  "transform k p s = Inr r \<Longrightarrow> i < length s \<Longrightarrow>
    transform_cell k p s (last_cell (take i r)) i = Inr (r ! i)"
  unfolding transform_def by (rule transform_upto_nth)

subsection \<open>No lookahead\<close>

text \<open>A cell reads the series up to its own day.\<close>

lemma change_at_take:
  "i < n \<Longrightarrow> n \<le> length s \<Longrightarrow> change_at (take n s) i = change_at s i"
  by (simp add: change_at_def)

lemma rsi_cell_take:
  assumes "e < n" "n \<le> length s"
  shows "rsi_cell p (take n s) e = rsi_cell p s e"
proof (cases "int e < p")
  case False
  have c: "change_at (take n s) i = change_at s i" if "i < Suc e" for i
    using that assms by (intro change_at_take) auto
  have "nat p \<le> e" using False by simp
  then have "emap (change_at (take n s)) [1..<Suc (nat p)] = emap (change_at s) [1..<Suc (nat p)]"
    by (intro emap_cong refl c) auto
  then have seed: "rsi_seed p (take n s) = rsi_seed p s" by (simp add: rsi_seed_def)
  have smooth: "efold (rsi_smooth p (take n s)) [Suc (nat p)..<Suc e] q = efold (rsi_smooth p s) [Suc (nat p)..<Suc e] q" for q
    by (intro efold_cong refl) (simp add: rsi_smooth_def c del: upt_Suc)
  show ?thesis by (simp add: rsi_cell_def seed smooth del: upt_Suc)
qed (simp add: rsi_cell_def)

lemma transform_cell_take:
  assumes "e < n" "n \<le> length s" "0 < p"
  shows "transform_cell k p (take n s) previous e = transform_cell k p s previous e"
proof (cases "k = K_trailing_return")
  case True
  have "py_index (take n s) (int e - p) = py_index s (int e - p)" if "\<not> int e - p < 0"
  proof -
    have "nat (int e - p) < n" using that assms by linarith
    then show ?thesis using that assms py_index_nat [of "nat (int e - p)"] by (simp add: py_index_def Let_def)
  qed
  then show ?thesis using assms True by (simp add: transform_cell_def trailing_return_cell_def)
next
  case False
  have l: "e < length s" "e < length (take n s)" using assms by auto
  show ?thesis
    using full_window_take [OF assms(1), of s p] window_take [OF assms(1,2), of p] rsi_cell_take [OF assms(1,2), of p]
    by (simp only: transform_cell_window [OF l(1) assms(3) False] transform_cell_window [OF l(2) assms(3) False]
        cong: if_cong)
qed

lemma transform_upto_take:
  assumes "n \<le> length s" "0 < p" "m \<le> n"
  shows "efold (transform_step k p (take n s)) [0..<m] r = efold (transform_step k p s) [0..<m] r"
  using assms by (intro efold_cong refl) (simp add: transform_step_def transform_cell_take)

text \<open>The transform of a prefix is the prefix of the transform.\<close>

lemma transform_prefix:
  assumes "transform k p s = Inr r" "0 < p" "n \<le> length s"
  shows "transform k p (take n s) = Inr (take n r)"
proof -
  have split: "[0..<length s] = [0..<n] @ [n..<length s]"
    using assms(3) upt_add_eq_append [of 0 n "length s - n"] by simp
  from assms(1) have "ebind (efold (transform_step k p s) [0..<n] []) (efold (transform_step k p s) [n..<length s]) = Inr r"
    unfolding transform_def split by (simp only: efold_append)
  then obtain r' where r': "efold (transform_step k p s) [0..<n] [] = Inr r'"
    and rest: "efold (transform_step k p s) [n..<length s] r' = Inr r"
    by (rule ebind_InrE)
  have "\<exists>z. r = r' @ z"
    by (rule efold_invariant [OF rest, where P = "\<lambda>t. \<exists>z. t = r' @ z"])
      (auto simp: transform_step_def elim!: ebind_InrE)
  moreover have "length r' = n" by (rule transform_upto_length [OF r'])
  ultimately have "take n r = r'" by auto
  moreover have "transform k p (take n s) = efold (transform_step k p s) [0..<n] []"
    unfolding transform_def using transform_upto_take [OF assms(3,2), of n k "[]"] assms(3) by simp
  ultimately show ?thesis using r' by simp
qed

subsection \<open>Which cells exist, and their range\<close>

text \<open>SMA has a value exactly on the days with a full window, and it is the window's mean.\<close>

lemma sma_cell:
  assumes "transform K_sma p s = Inr r" "0 < p" "e < length s"
  shows "r ! e = (if full_window s p e then Some (rnd (dsum (map the (window s p e)) / of_int p)) else None)"
  using transform_nth [OF assms(1,3)] assms(2)
  by (auto simp: transform_cell_window [OF assms(3,2)] Let_def mean_of_def elim!: ebind_InrE)

text \<open>
  EMA: seeded once, on day \<open>period - 1\<close>. If that day has no full window, no later day has a
  value either.
\<close>

lemma ema_unseeded:
  assumes "transform K_ema p s = Inr r" "0 < p" "\<not> full_window s p (nat (p - 1))" "e < length s"
  shows "r ! e = None"
  using assms(4)
proof (induction e)
  case 0
  have "int 0 \<noteq> p - 1 \<Longrightarrow> \<not> full_window s p 0" using assms(2) by (auto simp: full_window_def)
  then have "\<not> full_window s p 0" using assms(3) by (cases "p = 1") auto
  then show ?case using transform_nth [OF assms(1) 0] by (simp add: transform_cell_window [OF 0 assms(2)])
next
  case (Suc e)
  have len: "length r = length s" by (rule transform_length [OF assms(1)])
  have prev: "last_cell (take (Suc e) r) = None"
    using Suc len by (simp add: last_cell_def take_Suc_conv_app_nth)
  note cell = transform_nth [OF assms(1) Suc.prems]
  show ?case
  proof (cases "full_window s p (Suc e)")
    case True
    have "int (Suc e) \<noteq> p - 1"
    proof
      assume "int (Suc e) = p - 1"
      then have "nat (p - 1) = Suc e" by linarith
      with True assms(3) show False by simp
    qed
    then show ?thesis
      using cell True assms(2)
      by (auto simp: transform_cell_window [OF Suc.prems assms(2)] Let_def ema_cell_def prev elim!: ebind_InrE)
  next
    case False
    then show ?thesis using cell by (simp add: transform_cell_window [OF Suc.prems assms(2)])
  qed
qed

text \<open>RSI fails with a \<open>TypeError\<close> as soon as a window is full but an earlier value is missing.\<close>

lemma emap_first_error: "f x = Inl e \<Longrightarrow> emap f (x # xs) = Inl e"
  by simp

lemma rsi_seed_missing:
  assumes "0 < p" "p \<le> int e" "e < length s" "s ! 0 = None"
  shows "rsi_seed p s = Inl Type_error"
proof -
  have "[1..<Suc (nat p)] = 1 # [2..<Suc (nat p)]"
    using assms(1) by (subst upt_conv_Cons) (auto simp: numeral_2_eq_2)
  moreover have "change_at s 1 = Inl Type_error"
    using assms by (auto simp: change_at_def split: option.splits)
  ultimately show ?thesis by (simp add: rsi_seed_def del: upt_Suc)
qed

lemma rsi_range:
  assumes "rsi_value g l = Inr v" "0 \<le> g" "0 \<le> l"
  shows "0 \<le> v \<and> v \<le> 100"
proof (cases "l = 0")
  case True
  then show ?thesis using assms(1) by (auto simp: rsi_value_def split: if_splits)
next
  case False
  define rs where "rs = rnd (g / l)"
  define d where "d = dadd 1 rs"
  define q where "q = rnd (100 / d)"
  have "0 \<le> rs" using assms False by (simp add: rs_def dec.rd_nonneg)
  then have d: "1 \<le> d" by (simp add: d_def dadd_def dec.rd_ge_one)
  have v: "v = dsub 100 q"
    using assms(1) False d
    by (auto simp: rsi_value_def rs_def d_def q_def ebind_eq_Inr split: if_splits)
  have h: "rnd 100 = 100" using rnd_of_nat [of 100] by simp
  have "0 \<le> 100 / d" "100 / d \<le> 100" using d by (auto simp: divide_le_eq)
  then have "0 \<le> q" "q \<le> 100" unfolding q_def by (auto intro: dec.rd_nonneg dec.rd_fixed_le [OF h])
  then show ?thesis unfolding v dsub_def by (auto intro: dec.rd_nonneg dec.rd_fixed_le [OF h])
qed

lemma mean_of_nonneg:
  assumes "mean_of vs p = Inr m" "0 < p" "\<And>v. v \<in> set vs \<Longrightarrow> 0 \<le> v"
  shows "0 \<le> m"
  using assms by (auto simp: mean_of_def intro!: dec.rd_nonneg divide_nonneg_pos dsum_nonneg)

lemma wilder_nonneg:
  assumes "wilder p a x = Inr m" "0 < p" "0 \<le> a" "0 \<le> x"
  shows "0 \<le> m"
proof -
  have "0 \<le> dmul a (of_int (p - 1))" using assms by (simp add: dmul_def dec.rd_nonneg)
  then have "0 \<le> dadd (dmul a (of_int (p - 1))) x" using assms by (simp add: dadd_def dec.rd_nonneg)
  then show ?thesis using assms by (auto simp: wilder_def intro!: dec.rd_nonneg)
qed

lemma rsi_seed_nonneg:
  assumes "rsi_seed p s = Inr (g, l)" "0 < p"
  shows "0 \<le> g \<and> 0 \<le> l"
  using assms
  by (auto simp: rsi_seed_def gain_def loss_def elim!: ebind_InrE mean_of_nonneg)

lemma rsi_averages_nonneg:
  assumes "efold (rsi_smooth p s) is avgs = Inr avgs'" "0 < p" "0 \<le> fst avgs \<and> 0 \<le> snd avgs"
  shows "0 \<le> fst avgs' \<and> 0 \<le> snd avgs'"
  by (rule efold_invariant [OF assms(1), where P = "\<lambda>a. 0 \<le> fst a \<and> 0 \<le> snd a", OF assms(3)])
    (use assms(2) in \<open>auto simp: rsi_smooth_def gain_def loss_def elim!: ebind_InrE intro: wilder_nonneg\<close>)

lemma rsi_cell_range:
  assumes "rsi_cell p s e = Inr (Some v)" "0 < p"
  shows "0 \<le> v \<and> v \<le> 100"
proof -
  from assms(1) obtain seed avgs where seed: "rsi_seed p s = Inr seed"
    and avgs: "efold (rsi_smooth p s) [Suc (nat p)..<Suc e] seed = Inr avgs"
    and v: "rsi_value (fst avgs) (snd avgs) = Inr v"
    by (auto simp: rsi_cell_def split: if_splits elim!: ebind_InrE simp del: upt_Suc)
  have "0 \<le> fst seed \<and> 0 \<le> snd seed" using rsi_seed_nonneg [of p s "fst seed" "snd seed"] seed assms(2) by simp
  from rsi_averages_nonneg [OF avgs assms(2) this] show ?thesis
    by (intro rsi_range [OF v]) auto
qed

end
