(* ===== verification/Daily_Eval.thy ===== *)
theory Daily_Eval
  imports Daily_Transform
begin

text \<open>
  \<open>DailyValueEvaluator\<close> of \<open>daily_values.py\<close>: evaluation of a node at a cutoff with a memo
  table keyed by content hash, free candidate and binding, and the provenance every result
  carries. \<open>eval_pure\<close> is the same evaluation without the memo and without provenance; the
  last part proves that the evaluator agrees with it.
\<close>

subsection \<open>Results\<close>

record daily_cell =
  dc_value :: "decimal option"
  dc_reason :: "string option"

record provenance =
  pv_semantic_ids :: "string list"
  pv_expression_hash :: string
  pv_snapshot_id :: string
  pv_cutoff :: string
  pv_clock_id :: string
  pv_operator_versions :: "string list"
  pv_fields :: "string list"
  pv_windows :: "(value_kind \<times> int \<times> int) list"
  pv_reduction_axis :: "axis_name option"
  pv_coverage_policy :: "missing_policy option"
  pv_requested_members :: "string list"
  pv_available_members :: "string list"
  pv_missing_members :: "string list"

type_synonym coordinate = "string list"

record daily_result =
  dr_semantic_type :: semantic_type
  dr_axes :: "axis list"
  dr_cells :: "(coordinate, daily_cell) dict"
  dr_observed_at :: "string list"
  dr_provenance :: "provenance option"

definition cell_of :: "decimal option \<Rightarrow> string \<Rightarrow> daily_cell" where
  "cell_of v reason = \<lparr>dc_value = v, dc_reason = (if v = None then Some reason else None)\<rparr>"

definition available_cell :: "decimal \<Rightarrow> daily_cell" where
  "available_cell v = \<lparr>dc_value = Some v, dc_reason = None\<rparr>"

definition missing_cell :: "string option \<Rightarrow> daily_cell" where
  "missing_cell reason = \<lparr>dc_value = None, dc_reason = reason\<rparr>"

definition plain_result :: "semantic_type \<Rightarrow> axis list \<Rightarrow> (coordinate, daily_cell) dict \<Rightarrow> string list \<Rightarrow> daily_result" where
  "plain_result t axes cells observed =
     \<lparr>dr_semantic_type = t, dr_axes = axes, dr_cells = cells, dr_observed_at = observed, dr_provenance = None\<rparr>"

text \<open>\<open>scalar()\<close>.\<close>

definition scalar :: "daily_result \<Rightarrow> decimal option res" where
  "scalar r =
     (if dr_axes r \<noteq> [] then Inl (Daily_value_error ''scalar_required'')
      else ebind (lookup_or_raise (dr_cells r) []) (\<lambda>c. Inr (dc_value c)))"

subsection \<open>Streams\<close>

definition indicator :: "value_kind \<Rightarrow> bool" where
  "indicator k \<longleftrightarrow> k \<in> {K_trailing_return, K_sma, K_ema, K_rsi, K_realized_volatility}"

text \<open>\<open>_uses_candidate\<close>.\<close>

fun uses_candidate :: "daily_node \<Rightarrow> bool" where
  "uses_candidate (Daily_node f ops) \<longleftrightarrow>
     nf_subject_kind f = Some Subject_candidate \<or> list_ex uses_candidate ops"

text \<open>\<open>_symbols\<close>: the symbols an observation reads.\<close>

definition symbols :: "snapshot \<Rightarrow> node_fields \<Rightarrow> string option \<Rightarrow> string list res" where
  "symbols sn f candidate =
     (case nf_subject_kind f of
        Some Subject_asset \<Rightarrow> Inr [or_empty (nf_subject_id f)]
      | Some Subject_candidate \<Rightarrow>
          (case candidate of
             None \<Rightarrow> Inl (Daily_value_error ''candidate_context_required'')
           | Some c \<Rightarrow> Inr [c])
      | _ \<Rightarrow> lookup_or_raise (sn_domains sn) (or_empty (nf_subject_id f)))"

definition field_or_close :: "node_fields \<Rightarrow> market_field" where
  "field_or_close f = (case nf_field f of None \<Rightarrow> F_close | Some x \<Rightarrow> x)"

definition basis_or_adjusted :: "node_fields \<Rightarrow> price_basis" where
  "basis_or_adjusted f = (case nf_basis f of None \<Rightarrow> B_adjusted | Some x \<Rightarrow> x)"

text \<open>\<open>_stream\<close>: the series of a stream expression, up to the cutoff.\<close>

fun stream :: "snapshot \<Rightarrow> int \<Rightarrow> daily_node \<Rightarrow> string \<Rightarrow> series res" where
  "stream sn cutoff (Daily_node f ops) symbol =
     (if nf_kind f = K_observe
      then ebind (field_values sn symbol (field_or_close f) (basis_or_adjusted f))
             (\<lambda>vs. Inr (py_slice vs 0 (cutoff + 1)))
      else if indicator (nf_kind f)
      then (case ops of
              [] \<Rightarrow> Inl Index_error
            | op0 # _ \<Rightarrow> ebind (stream sn cutoff op0 symbol)
                           (transform (nf_kind f) (or_zero (nf_observations f))))
      else if nf_kind f = K_absolute
      then (case ops of
              [] \<Rightarrow> Inl Index_error
            | op0 # _ \<Rightarrow> ebind (stream sn cutoff op0 symbol) (\<lambda>vs. Inr (map (map_option dabs) vs)))
      else Inl (Daily_value_error ''expected_stream_expression''))"

text \<open>\<open>_source_observe\<close>: the observation at the bottom of a stream expression.\<close>

fun source_observe :: "daily_node \<Rightarrow> node_fields res" where
  "source_observe (Daily_node f ops) =
     (if indicator (nf_kind f) \<or> nf_kind f = K_absolute
      then (case ops of [] \<Rightarrow> Inl Index_error | op0 # _ \<Rightarrow> source_observe op0)
      else if nf_kind f = K_observe then Inr f
      else Inl (Daily_value_error ''stream_source_must_be_observe''))"

subsection \<open>Evaluation of each kind of node\<close>

text \<open>
  \<open>_current_observe\<close> and \<open>_current_indicator\<close> differ in the observation whose symbols they
  read and in the reason of an unavailable cell. A scalar keeps the first cell only.
\<close>

definition current_cells :: "snapshot \<Rightarrow> int \<Rightarrow> daily_node \<Rightarrow> string list \<Rightarrow> string \<Rightarrow> (coordinate, daily_cell) dict res" where
  "current_cells sn cutoff n syms reason =
     efold (\<lambda>symbol cells.
       ebind (stream sn cutoff n symbol) (\<lambda>vs.
       ebind (py_index vs (- 1)) (\<lambda>v. Inr (dset [symbol] (cell_of v reason) cells)))) syms []"

definition first_if_scalar :: "axis list \<Rightarrow> (coordinate, daily_cell) dict \<Rightarrow> (coordinate, daily_cell) dict res" where
  "first_if_scalar axes cells =
     (if axes \<noteq> [] then Inr cells
      else (case cells of [] \<Rightarrow> Inl Stop_iteration | (_, c) # _ \<Rightarrow> Inr [([], c)]))"

definition current_result :: "snapshot \<Rightarrow> int \<Rightarrow> daily_node \<Rightarrow> node_fields \<Rightarrow> semantic_type \<Rightarrow> string option \<Rightarrow> string \<Rightarrow> daily_result res" where
  "current_result sn cutoff n observe t candidate reason =
     ebind (symbols sn observe candidate) (\<lambda>syms.
     ebind (current_cells sn cutoff n syms reason) (\<lambda>cells.
     ebind (first_if_scalar (st_axes t) cells) (\<lambda>cells'.
     ebind (py_index (sn_dates sn) cutoff) (\<lambda>date.
       Inr (plain_result t (st_axes t) cells' [date])))))"

definition current_observe :: "snapshot \<Rightarrow> int \<Rightarrow> daily_node \<Rightarrow> semantic_type \<Rightarrow> string option \<Rightarrow> daily_result res" where
  "current_observe sn cutoff n t candidate =
     current_result sn cutoff n (dn_fields n) t candidate ''observation_unavailable''"

definition current_indicator :: "snapshot \<Rightarrow> int \<Rightarrow> daily_node \<Rightarrow> semantic_type \<Rightarrow> string option \<Rightarrow> daily_result res" where
  "current_indicator sn cutoff n t candidate =
     ebind (source_observe n) (\<lambda>observe.
       current_result sn cutoff n observe t candidate ''insufficient_history'')"

text \<open>\<open>dates[max(0, start):end + 1]\<close> of a history; \<open>end\<close> may be negative.\<close>

definition history_dates :: "snapshot \<Rightarrow> int \<Rightarrow> int \<Rightarrow> int \<Rightarrow> string list" where
  "history_dates sn cutoff count skip =
     (let last = cutoff - skip; start = last - count + 1
      in py_slice (sn_dates sn) (max 0 start) (last + 1))"

definition history_cells :: "node_fields \<Rightarrow> string \<Rightarrow> series \<Rightarrow> int \<Rightarrow> string list \<Rightarrow> (coordinate, daily_cell) dict \<Rightarrow> (coordinate, daily_cell) dict res" where
  "history_cells observe symbol vs start dates cells =
     efold (\<lambda>(i, date) cs.
       ebind (py_index vs (start + int i)) (\<lambda>v.
         Inr (dset (if nf_subject_kind observe = Some Subject_group_members then [symbol, date] else [date])
                (cell_of v ''insufficient_history'') cs)))
       (zip [0..<length dates] dates) cells"

definition history_result :: "snapshot \<Rightarrow> int \<Rightarrow> node_fields \<Rightarrow> daily_node \<Rightarrow> semantic_type \<Rightarrow> string option \<Rightarrow> daily_result res" where
  "history_result sn cutoff f source t candidate =
     ebind (source_observe source) (\<lambda>observe.
       let count = or_zero (nf_observations f);
           start = max 0 (cutoff - nf_skip f - count + 1);
           dates = history_dates sn cutoff count (nf_skip f)
       in ebind (symbols sn observe candidate) (\<lambda>syms.
          ebind (efold (\<lambda>symbol cells. ebind (stream sn cutoff source symbol) (\<lambda>vs.
                   history_cells observe symbol vs start dates cells)) syms [])
            (\<lambda>cells. Inr (plain_result t (st_axes t) cells dates))))"

text \<open>\<open>_keys\<close>: the coordinates of an axis; a time axis is read back from its domain id.\<close>

definition axis_keys :: "snapshot \<Rightarrow> int \<Rightarrow> axis \<Rightarrow> string list res" where
  "axis_keys sn cutoff a =
     (if ax_name a = Ax_asset then lookup_or_raise (sn_domains sn) (ax_domain_id a)
      else
        let marker = split_on (CHR '':'') (ax_domain_id a)
        in ebind (if 3 \<le> length marker then ebind (py_index marker (- 3)) int_of_str
                  else Inr (int (length (sn_dates sn)))) (\<lambda>count.
           ebind (if 1 \<le> length marker then ebind (py_index marker (- 1)) int_of_str else Inr 0) (\<lambda>skip.
             Inr (history_dates sn cutoff count skip))))"

text \<open>The reduction of the available values; \<open>None\<close> is too few values for a deviation.\<close>

definition reduce_values :: "reduction_op option \<Rightarrow> decimal list \<Rightarrow> decimal option res" where
  "reduce_values r vs =
     (let ordered = sort vs; middle = length vs div 2 in
      case r of
        Some R_mean \<Rightarrow> ebind (mean_of vs (int (length vs))) (\<lambda>m. Inr (Some m))
      | Some R_median \<Rightarrow>
          if odd (length vs) then ebind (py_index ordered (int middle)) (\<lambda>m. Inr (Some m))
          else ebind (py_index ordered (int middle - 1)) (\<lambda>a.
               ebind (py_index ordered (int middle)) (\<lambda>b.
               ebind (ddiv (dadd a b) 2) (\<lambda>m. Inr (Some m))))
      | Some R_min \<Rightarrow> ebind (py_index ordered 0) (\<lambda>m. Inr (Some m))
      | Some R_max \<Rightarrow> ebind (py_index ordered (- 1)) (\<lambda>m. Inr (Some m))
      | _ \<Rightarrow> if length vs < 2 then Inr None else ebind (sample_std vs) (\<lambda>d. Inr (Some d)))"

definition required_count :: "node_fields \<Rightarrow> nat \<Rightarrow> int" where
  "required_count f n = max (nf_minimum_count f) \<lceil>dmul (of_nat n) (nf_minimum_fraction f)\<rceil>"

definition reduce_cell :: "node_fields \<Rightarrow> nat \<Rightarrow> daily_cell list \<Rightarrow> daily_cell res" where
  "reduce_cell f n cells =
     (let vs = List.map_filter dc_value cells; missing = length cells - length vs in
      if int (length vs) < required_count f n \<or> (missing \<noteq> 0 \<and> nf_missing_policy f = Require_all)
      then Inr (missing_cell (Some ''insufficient_coverage''))
      else ebind (reduce_values (nf_reduction f) vs) (\<lambda>r.
        case r of
          None \<Rightarrow> Inr (missing_cell (Some ''insufficient_coverage''))
        | Some v \<Rightarrow> Inr (available_cell v)))"

definition insert_at :: "nat \<Rightarrow> 'a \<Rightarrow> 'a list \<Rightarrow> 'a list" where
  "insert_at i x xs = take i xs @ x # drop i xs"

text \<open>The position of the first axis with a name.\<close>

definition axis_position :: "axis list \<Rightarrow> axis_name option \<Rightarrow> nat option" where
  "axis_position axes n = find (\<lambda>i. Some (ax_name (axes ! i)) = n) [0..<length axes]"

definition reduce_result :: "snapshot \<Rightarrow> int \<Rightarrow> node_fields \<Rightarrow> semantic_type \<Rightarrow> daily_result \<Rightarrow> daily_result res" where
  "reduce_result sn cutoff f t source =
     (case axis_position (dr_axes source) (nf_axis f) of
        None \<Rightarrow> Inl (Daily_value_error ''reduction_axis_absent'')
      | Some index \<Rightarrow>
          let retained = filter (\<lambda>a. Some (ax_name a) \<noteq> nf_axis f) (dr_axes source)
          in ebind (emap (axis_keys sn cutoff) retained) (\<lambda>kss.
             ebind (efold (\<lambda>coordinate results.
                      ebind (axis_keys sn cutoff (dr_axes source ! index)) (\<lambda>removed.
                      ebind (emap (\<lambda>key. lookup_or_raise (dr_cells source) (insert_at index key coordinate)) removed) (\<lambda>cells.
                      ebind (reduce_cell f (length removed) cells) (\<lambda>c.
                        Inr (dset coordinate c results)))))
                    (product_lists kss) []) (\<lambda>cells.
               Inr (plain_result t retained cells (dr_observed_at source)))))"

text \<open>The coordinate of a child axis inside the coordinate of the node's axes.\<close>

definition child_coordinate :: "axis list \<Rightarrow> axis list \<Rightarrow> coordinate \<Rightarrow> coordinate res" where
  "child_coordinate axes child coordinate =
     emap (\<lambda>a. case axis_position axes (Some (ax_name a)) of
              None \<Rightarrow> Inl Runtime_error
            | Some i \<Rightarrow> py_index coordinate (int i)) child"

definition arith_apply :: "arith_op option \<Rightarrow> decimal \<Rightarrow> decimal \<Rightarrow> decimal res" where
  "arith_apply a x y =
     (case a of
        None \<Rightarrow> Inl Key_error
      | Some A_add \<Rightarrow> Inr (dadd x y)
      | Some A_subtract \<Rightarrow> Inr (dsub x y)
      | Some A_multiply \<Rightarrow> Inr (dmul x y)
      | Some A_divide \<Rightarrow> ddiv x y)"

text \<open>Only \<open>DivisionByZero\<close> is caught; \<open>0 / 0\<close> raises \<open>InvalidOperation\<close>, which is not.\<close>

definition arith_cell :: "arith_op option \<Rightarrow> daily_cell \<Rightarrow> daily_cell \<Rightarrow> daily_cell res" where
  "arith_cell a l r =
     (case (dc_value l, dc_value r) of
        (Some x, Some y) \<Rightarrow>
          (case arith_apply a x y of
             Inr v \<Rightarrow> Inr (available_cell v)
           | Inl e \<Rightarrow> if e = Division_by_zero then Inr (missing_cell (Some ''division_by_zero'')) else Inl e)
      | _ \<Rightarrow> Inr (missing_cell (if truthy (dc_reason l) then dc_reason l else dc_reason r)))"

definition arithmetic_result :: "snapshot \<Rightarrow> int \<Rightarrow> node_fields \<Rightarrow> semantic_type \<Rightarrow> daily_result \<Rightarrow> daily_result \<Rightarrow> daily_result res" where
  "arithmetic_result sn cutoff f t left right =
     ebind (emap (axis_keys sn cutoff) (st_axes t)) (\<lambda>kss.
     ebind (efold (\<lambda>coordinate results.
              ebind (child_coordinate (st_axes t) (dr_axes left) coordinate) (\<lambda>lc.
              ebind (child_coordinate (st_axes t) (dr_axes right) coordinate) (\<lambda>rc.
              ebind (lookup_or_raise (dr_cells left) lc) (\<lambda>l.
              ebind (lookup_or_raise (dr_cells right) rc) (\<lambda>r.
              ebind (arith_cell (nf_arithmetic f) l r) (\<lambda>c. Inr (dset coordinate c results)))))))
            (product_lists kss) []) (\<lambda>cells.
       Inr (plain_result t (st_axes t) cells
              (if dr_observed_at left \<noteq> [] then dr_observed_at left else dr_observed_at right))))"

definition absolute_result :: "semantic_type \<Rightarrow> daily_result \<Rightarrow> daily_result" where
  "absolute_result t source =
     plain_result t (dr_axes source)
       (map (\<lambda>(k, c). (k, c\<lparr>dc_value := map_option dabs (dc_value c)\<rparr>)) (dr_cells source))
       (dr_observed_at source)"

definition literal_result :: "snapshot \<Rightarrow> int \<Rightarrow> node_fields \<Rightarrow> semantic_type \<Rightarrow> daily_result res" where
  "literal_result sn cutoff f t =
     ebind (py_index (sn_dates sn) cutoff) (\<lambda>date.
       Inr (plain_result t [] [([], missing_cell None\<lparr>dc_value := nf_value f\<rparr>)] [date]))"

subsection \<open>Provenance\<close>

definition observes_of :: "daily_node \<Rightarrow> node_fields list" where
  "observes_of n = filter (\<lambda>f. nf_kind f = K_observe) (map dn_fields (subnodes n))"

definition windows_of :: "daily_node \<Rightarrow> (value_kind \<times> int \<times> int) list" where
  "windows_of n =
     List.map_filter (\<lambda>f. map_option (\<lambda>w. (nf_kind f, w, nf_skip f)) (nf_observations f)) (map dn_fields (subnodes n))"

definition addresses_of :: "daily_node \<Rightarrow> string list" where
  "addresses_of n = map (\<lambda>m. nf_semantic_id (dn_fields m)) (subnodes n)"

text \<open>Whether a member's observation exists at the cutoff; a missing field or index counts as no.\<close>

definition member_available :: "snapshot \<Rightarrow> int \<Rightarrow> node_fields \<Rightarrow> string \<Rightarrow> bool" where
  "member_available sn cutoff f symbol =
     (case ebind (field_values sn symbol (field_or_close f) (basis_or_adjusted f)) (\<lambda>vs. py_index vs cutoff) of
        Inr (Some _) \<Rightarrow> True
      | _ \<Rightarrow> False)"

definition group_members :: "snapshot \<Rightarrow> string option \<Rightarrow> daily_node \<Rightarrow> (node_fields \<times> string) list res" where
  "group_members sn candidate n =
     ebind (emap (\<lambda>f. ebind (symbols sn f candidate) (\<lambda>syms. Inr (f, syms))) (observes_of n)) (\<lambda>fss.
       Inr (concat (map (\<lambda>(f, syms).
              if nf_subject_kind f = Some Subject_group_members then map (Pair f) syms else []) fss)))"

definition build_provenance :: "(daily_node \<Rightarrow> string) \<Rightarrow> snapshot \<Rightarrow> int \<Rightarrow> daily_node \<Rightarrow> string option \<Rightarrow> string option \<Rightarrow> provenance res" where
  "build_provenance digest sn cutoff n candidate binding =
     ebind (group_members sn candidate n) (\<lambda>members.
     ebind (plan_daily_value digest binding n) (\<lambda>plan.
     ebind (py_index (sn_dates sn) cutoff) (\<lambda>date.
       let available = (\<lambda>(f, symbol). member_available sn cutoff f symbol);
           reduce = (nf_kind (dn_fields n) = K_reduce)
       in Inr \<lparr>pv_semantic_ids = py_unique (addresses_of n), pv_expression_hash = content_hash digest n,
               pv_snapshot_id = sn_id sn, pv_cutoff = date, pv_clock_id = ck_id (sn_clock sn),
               pv_operator_versions = tp_operator_versions plan, pv_fields = tp_fields plan,
               pv_windows = windows_of n,
               pv_reduction_axis = (if reduce then nf_axis (dn_fields n) else None),
               pv_coverage_policy = (if reduce then Some (nf_missing_policy (dn_fields n)) else None),
               pv_requested_members = py_unique (map snd members),
               pv_available_members = py_unique (map snd (filter available members)),
               pv_missing_members = py_unique (map snd (filter (Not \<circ> available) members))\<rparr>)))"

subsection \<open>The memoising evaluator\<close>

type_synonym memo_key = "string \<times> int \<times> string \<times> string \<times> string option \<times> string option"

record evaluator =
  ev_snapshot :: snapshot
  ev_cutoff_index :: int
  ev_memo :: "(memo_key, daily_result) dict"
  ev_evaluation_counts :: "(string, int) dict"

definition new_evaluator :: "snapshot \<Rightarrow> int option \<Rightarrow> evaluator" where
  "new_evaluator sn cutoff =
     \<lparr>ev_snapshot = sn,
      ev_cutoff_index = (case cutoff of None \<Rightarrow> int (length (sn_dates sn)) - 1 | Some i \<Rightarrow> i),
      ev_memo = [], ev_evaluation_counts = []\<rparr>"

definition memo_key :: "(daily_node \<Rightarrow> string) \<Rightarrow> evaluator \<Rightarrow> daily_node \<Rightarrow> string option \<Rightarrow> string option \<Rightarrow> memo_key" where
  "memo_key digest ev n candidate binding =
     (sn_id (ev_snapshot ev), ev_cutoff_index ev, ck_id (sn_clock (ev_snapshot ev)), content_hash digest n,
      if uses_candidate n then candidate else None, binding)"

text \<open>A hit under new addresses: the shared result is stored again with the addresses added.\<close>

definition share_cached :: "memo_key \<Rightarrow> daily_node \<Rightarrow> daily_result \<Rightarrow> evaluator \<Rightarrow> daily_result \<times> evaluator" where
  "share_cached key n cached ev =
     (case dr_provenance cached of
        None \<Rightarrow> (cached, ev)
      | Some p \<Rightarrow>
          if list_all (\<lambda>a. a \<in> set (pv_semantic_ids p)) (addresses_of n) then (cached, ev)
          else
            let shared = cached\<lparr>dr_provenance := Some (p\<lparr>pv_semantic_ids := py_unique (pv_semantic_ids p @ addresses_of n)\<rparr>)\<rparr>
            in (shared, ev\<lparr>ev_memo := dset key shared (ev_memo ev)\<rparr>))"

definition count_evaluation :: "daily_node \<Rightarrow> evaluator \<Rightarrow> evaluator" where
  "count_evaluation n ev =
     (let a = nf_semantic_id (dn_fields n)
      in ev\<lparr>ev_evaluation_counts := dset a (dget_or (ev_evaluation_counts ev) a 0 + 1) (ev_evaluation_counts ev)\<rparr>)"

text \<open>A result not yet in the memo gets its provenance and is stored.\<close>

definition store_result :: "(daily_node \<Rightarrow> string) \<Rightarrow> memo_key \<Rightarrow> daily_node \<Rightarrow> string option \<Rightarrow> string option \<Rightarrow> daily_result \<times> evaluator \<Rightarrow> (daily_result \<times> evaluator) res" where
  "store_result digest key n candidate binding out =
     (case out of (r, ev) \<Rightarrow>
        ebind (build_provenance digest (ev_snapshot ev) (ev_cutoff_index ev) n candidate binding) (\<lambda>p.
          let r' = r\<lparr>dr_provenance := Some p\<rparr>
          in Inr (r', ev\<lparr>ev_memo := dset key r' (ev_memo ev)\<rparr>)))"

text \<open>The kinds that evaluate no operand through \<open>evaluate\<close>.\<close>

definition eval_leaf :: "snapshot \<Rightarrow> int \<Rightarrow> daily_node \<Rightarrow> semantic_type \<Rightarrow> string option \<Rightarrow> daily_result res" where
  "eval_leaf sn cutoff n t candidate =
     (let f = dn_fields n in
      if nf_kind f = K_literal then literal_result sn cutoff f t
      else if nf_kind f = K_observe then current_observe sn cutoff n t candidate
      else if nf_kind f = K_history
      then (case operands n of
              [] \<Rightarrow> Inl Index_error
            | source # _ \<Rightarrow> history_result sn cutoff f source t candidate)
      else current_indicator sn cutoff n t candidate)"

definition is_leaf_kind :: "value_kind \<Rightarrow> bool" where
  "is_leaf_kind k \<longleftrightarrow> k \<in> {K_literal, K_observe, K_history} \<or> indicator k"

text \<open>The kinds with one evaluated operand, from its result.\<close>

definition eval_unary :: "snapshot \<Rightarrow> int \<Rightarrow> node_fields \<Rightarrow> semantic_type \<Rightarrow> daily_result \<Rightarrow> daily_result res" where
  "eval_unary sn cutoff f t source =
     (if nf_kind f = K_current then Inr source
      else if nf_kind f = K_absolute then Inr (absolute_result t source)
      else reduce_result sn cutoff f t source)"

fun evaluate :: "(daily_node \<Rightarrow> string) \<Rightarrow> string option \<Rightarrow> string option \<Rightarrow> daily_node \<Rightarrow> evaluator \<Rightarrow> (daily_result \<times> evaluator) res" where
  "evaluate digest candidate binding (Daily_node f ops) ev =
     (let n = Daily_node f ops; key = memo_key digest ev n candidate binding;
          sn = ev_snapshot ev; cutoff = ev_cutoff_index ev in
      case dget (ev_memo ev) key of
        Some cached \<Rightarrow> Inr (share_cached key n cached ev)
      | None \<Rightarrow>
          ebind
            (ebind (infer_daily_type binding n) (\<lambda>t.
               if is_leaf_kind (nf_kind f)
               then ebind (eval_leaf sn cutoff n t candidate) (\<lambda>r. Inr (r, count_evaluation n ev))
               else (case ops of
                       [] \<Rightarrow> Inl Index_error
                     | op0 # rest \<Rightarrow>
                         ebind (evaluate digest candidate binding op0 (count_evaluation n ev)) (\<lambda>(left, ev1).
                           if nf_kind f = K_arithmetic
                           then (case rest of
                                   [] \<Rightarrow> Inl Index_error
                                 | op1 # _ \<Rightarrow>
                                     ebind (evaluate digest candidate binding op1 ev1) (\<lambda>(right, ev2).
                                     ebind (arithmetic_result sn cutoff f t left right) (\<lambda>r. Inr (r, ev2))))
                           else ebind (eval_unary sn cutoff f t left) (\<lambda>r. Inr (r, ev1))))))
            (store_result digest key n candidate binding))"

declare evaluate.simps [simp del]

subsection \<open>The specification: evaluation without memo\<close>

fun eval_pure :: "snapshot \<Rightarrow> int \<Rightarrow> string option \<Rightarrow> string option \<Rightarrow> daily_node \<Rightarrow> daily_result res" where
  "eval_pure sn cutoff candidate binding (Daily_node f ops) =
     (let n = Daily_node f ops in
      ebind (infer_daily_type binding n) (\<lambda>t.
        if is_leaf_kind (nf_kind f) then eval_leaf sn cutoff n t candidate
        else (case ops of
                [] \<Rightarrow> Inl Index_error
              | op0 # rest \<Rightarrow>
                  ebind (eval_pure sn cutoff candidate binding op0) (\<lambda>left.
                    if nf_kind f = K_arithmetic
                    then (case rest of
                            [] \<Rightarrow> Inl Index_error
                          | op1 # _ \<Rightarrow>
                              ebind (eval_pure sn cutoff candidate binding op1)
                                (arithmetic_result sn cutoff f t left))
                    else eval_unary sn cutoff f t left))))"

declare eval_pure.simps [simp del]

lemma eval_pure_leaf:
  "is_leaf_kind (nf_kind f) \<Longrightarrow>
    eval_pure sn cutoff c b (Daily_node f ops) =
      ebind (infer_daily_type b (Daily_node f ops)) (\<lambda>t. eval_leaf sn cutoff (Daily_node f ops) t c)"
  by (simp add: eval_pure.simps Let_def)

lemma eval_pure_no_operand:
  "\<not> is_leaf_kind (nf_kind f) \<Longrightarrow>
    eval_pure sn cutoff c b (Daily_node f []) =
      ebind (infer_daily_type b (Daily_node f [])) (\<lambda>_. Inl Index_error)"
  by (simp add: eval_pure.simps Let_def)

lemma eval_pure_unary:
  "\<not> is_leaf_kind (nf_kind f) \<Longrightarrow> nf_kind f \<noteq> K_arithmetic \<Longrightarrow>
    eval_pure sn cutoff c b (Daily_node f (op0 # rest)) =
      ebind (infer_daily_type b (Daily_node f (op0 # rest))) (\<lambda>t.
        ebind (eval_pure sn cutoff c b op0) (eval_unary sn cutoff f t))"
  by (simp add: eval_pure.simps [of _ _ _ _ f] Let_def)

lemma not_leaf_arithmetic [simp]: "\<not> is_leaf_kind K_arithmetic"
  by (simp add: is_leaf_kind_def indicator_def)

lemma eval_pure_arithmetic1:
  "nf_kind f = K_arithmetic \<Longrightarrow>
    eval_pure sn cutoff c b (Daily_node f [op0]) =
      ebind (infer_daily_type b (Daily_node f [op0])) (\<lambda>_.
        ebind (eval_pure sn cutoff c b op0) (\<lambda>_. Inl Index_error))"
  by (simp add: eval_pure.simps [of _ _ _ _ f] Let_def)

lemma eval_pure_arithmetic:
  "nf_kind f = K_arithmetic \<Longrightarrow>
    eval_pure sn cutoff c b (Daily_node f (op0 # op1 # rest)) =
      ebind (infer_daily_type b (Daily_node f (op0 # op1 # rest))) (\<lambda>t.
        ebind (eval_pure sn cutoff c b op0) (\<lambda>left.
        ebind (eval_pure sn cutoff c b op1) (arithmetic_result sn cutoff f t left)))"
  by (simp add: eval_pure.simps [of _ _ _ _ f] Let_def)

lemmas eval_pure_equations =
  eval_pure_leaf eval_pure_no_operand eval_pure_unary eval_pure_arithmetic1 eval_pure_arithmetic

text \<open>The five shapes of a node, as the equations distinguish them.\<close>

lemma node_shape_cases [case_names leaf no_operand unary arithmetic1 arithmetic]:
  assumes "is_leaf_kind (nf_kind f) \<Longrightarrow> P"
    and "\<not> is_leaf_kind (nf_kind f) \<Longrightarrow> ops = [] \<Longrightarrow> P"
    and "\<And>op0 rest. \<not> is_leaf_kind (nf_kind f) \<Longrightarrow> nf_kind f \<noteq> K_arithmetic \<Longrightarrow> ops = op0 # rest \<Longrightarrow> P"
    and "\<And>op0. nf_kind f = K_arithmetic \<Longrightarrow> ops = [op0] \<Longrightarrow> P"
    and "\<And>op0 op1 rest. nf_kind f = K_arithmetic \<Longrightarrow> ops = op0 # op1 # rest \<Longrightarrow> P"
  shows P
  using assms by (metis neq_Nil_conv)

end
