(* ===== verification/Program_Model.thy ===== *)
theory Program_Model
  imports Daily_Eval
begin

text \<open>
  The data of \<open>strategy/v2/models.py\<close>: Values, Conditions, Selections, Events, Allocations,
  statements and Programs, with the validators that run when they are constructed. The field
  types of the source restrict where a Value may nest another; \<open>value_nesting\<close> states it.
  Identifier and symbol patterns are not checked here.
\<close>

subsection \<open>Values and Conditions\<close>

datatype cross_transform = X_rank | X_percentile | X_quantile | X_bucket | X_min_max | X_zscore

datatype sort_direction = Ascending | Descending

datatype cross_reduction = CR_mean | CR_median | CR_min | CR_max

datatype coverage = Cov_require_all | Cov_available_only

datatype score_missing = Score_require_all | Score_renormalize_available

datatype score_normalization = Norm_none | Norm_sum_abs

datatype compare_op = Lt | Lte | Eq | Neq | Gte | Gt

datatype group_kind = Group_all | Group_any

datatype window_relation = Before | After | Within

datatype value_expr =
    V_daily daily_node
  | V_literal string decimal quantity unit_of "string option"
  | V_candidate_trailing_return string string int clock
  | V_candidate_current_price string string clock
  | V_cross_sectional string value_expr string cross_transform sort_direction "int option"
  | V_cross_aggregate string value_expr string cross_reduction coverage
  | V_score string "score_term list" "point_term list" score_missing score_normalization
      "decimal option" "decimal option"
  | V_event_relative string string daily_node int
  | V_clocked string daily_node string
  | V_remembered string string quantity unit_of "string option"
  | V_bars_since_event string string
  | V_bars_since_state string string
  | V_time_since_event string string
  | V_time_since_state string string
and score_term = Score_term string value_expr decimal
and point_term = Point_term string condition decimal decimal "decimal option"
and condition =
    C_comparison string compare_op value_expr value_expr
  | C_group group_kind string "condition list"
  | C_not string condition
  | C_state_equals string string string
  | C_n_of_m string int "condition list"
  | C_event_window string string window_relation "int option"

fun value_semantic_id :: "value_expr \<Rightarrow> string" where
  "value_semantic_id (V_daily n) = nf_semantic_id (dn_fields n)"
| "value_semantic_id (V_literal i _ _ _ _) = i"
| "value_semantic_id (V_candidate_trailing_return i _ _ _) = i"
| "value_semantic_id (V_candidate_current_price i _ _) = i"
| "value_semantic_id (V_cross_sectional i _ _ _ _ _) = i"
| "value_semantic_id (V_cross_aggregate i _ _ _ _) = i"
| "value_semantic_id (V_score i _ _ _ _ _ _) = i"
| "value_semantic_id (V_event_relative i _ _ _) = i"
| "value_semantic_id (V_clocked i _ _) = i"
| "value_semantic_id (V_remembered i _ _ _ _) = i"
| "value_semantic_id (V_bars_since_event i _) = i"
| "value_semantic_id (V_bars_since_state i _) = i"
| "value_semantic_id (V_time_since_event i _) = i"
| "value_semantic_id (V_time_since_state i _) = i"

fun condition_semantic_id :: "condition \<Rightarrow> string" where
  "condition_semantic_id (C_comparison i _ _ _) = i"
| "condition_semantic_id (C_group _ i _) = i"
| "condition_semantic_id (C_not i _) = i"
| "condition_semantic_id (C_state_equals i _ _) = i"
| "condition_semantic_id (C_n_of_m i _ _) = i"
| "condition_semantic_id (C_event_window i _ _ _) = i"

text \<open>\<open>semantic_type\<close> of the compatibility values.\<close>

fun legacy_semantic_type :: "value_expr \<Rightarrow> semantic_type option" where
  "legacy_semantic_type (V_literal _ _ q u r) =
     Some \<lparr>st_dtype = DT_decimal, st_quantity = q, st_unit = u, st_refinement = r, st_axes = [], st_clock = None\<rparr>"
| "legacy_semantic_type (V_candidate_trailing_return _ _ _ c) =
     Some \<lparr>st_dtype = DT_decimal, st_quantity = Q_return, st_unit = U_ratio,
           st_refinement = Some ''trailing_return:adjusted_close'', st_axes = [], st_clock = Some c\<rparr>"
| "legacy_semantic_type (V_candidate_current_price _ _ c) =
     Some \<lparr>st_dtype = DT_decimal, st_quantity = Q_price, st_unit = U_usd_per_share,
           st_refinement = Some ''adjusted_close'', st_axes = [], st_clock = Some c\<rparr>"
| "legacy_semantic_type _ = None"

text \<open>Which values the field types admit as a source or as a score term.\<close>

fun value_nesting :: "value_expr \<Rightarrow> bool"
  and condition_nesting :: "condition \<Rightarrow> bool" where
  "value_nesting (V_cross_sectional _ s _ _ _ _) \<longleftrightarrow>
     (case s of V_daily _ \<Rightarrow> True | V_score _ _ _ _ _ _ _ \<Rightarrow> True | _ \<Rightarrow> False) \<and> value_nesting s"
| "value_nesting (V_cross_aggregate _ s _ _ _) \<longleftrightarrow>
     (case s of V_daily _ \<Rightarrow> True | V_score _ _ _ _ _ _ _ \<Rightarrow> True | _ \<Rightarrow> False) \<and> value_nesting s"
| "value_nesting (V_score _ terms points _ _ _ _) \<longleftrightarrow>
     list_all (\<lambda>t. case t of Score_term _ v _ \<Rightarrow>
       (case v of V_daily _ \<Rightarrow> True | V_cross_sectional _ _ _ _ _ _ \<Rightarrow> True | _ \<Rightarrow> False) \<and> value_nesting v) terms \<and>
     list_all (\<lambda>t. case t of Point_term _ c _ _ _ \<Rightarrow> condition_nesting c) points"
| "value_nesting _ \<longleftrightarrow> True"
| "condition_nesting (C_comparison _ _ l r) \<longleftrightarrow> value_nesting l \<and> value_nesting r"
| "condition_nesting (C_group _ _ cs) \<longleftrightarrow> list_all condition_nesting cs"
| "condition_nesting (C_not _ c) \<longleftrightarrow> condition_nesting c"
| "condition_nesting (C_n_of_m _ _ cs) \<longleftrightarrow> list_all condition_nesting cs"
| "condition_nesting _ \<longleftrightarrow> True"

text \<open>
  The class validators of Values and Conditions, one level: \<open>validate_bins\<close>,
  \<open>validate_terms\<close>, \<open>validate_threshold\<close>, \<open>validate_window\<close> and the field bounds.
\<close>

definition validate_bins :: "cross_transform \<Rightarrow> int option \<Rightarrow> unit res" where
  "validate_bins t bins =
     (if (case bins of None \<Rightarrow> False | Some b \<Rightarrow> b < 2 \<or> 100 < b) then Inl (Value_error ''bins'')
      else if t \<in> {X_quantile, X_bucket} \<and> bins = None then Inl (Value_error ''quantile/bucket requires bins'')
      else if t \<in> {X_rank, X_percentile, X_min_max, X_zscore} \<and> bins \<noteq> None
      then Inl (Value_error ''rank/percentile/normalization does not accept bins'')
      else Inr ())"

fun score_term_id :: "score_term \<Rightarrow> string" where
  "score_term_id (Score_term i _ _) = i"

fun score_term_weight :: "score_term \<Rightarrow> decimal" where
  "score_term_weight (Score_term _ _ w) = w"

fun point_term_id :: "point_term \<Rightarrow> string" where
  "point_term_id (Point_term i _ _ _ _) = i"

definition validate_terms :: "score_term list \<Rightarrow> point_term list \<Rightarrow> decimal option \<Rightarrow> decimal option \<Rightarrow> unit res" where
  "validate_terms terms points cmin cmax =
     (if 20 < length terms \<or> 20 < length points then Inl (Value_error ''too many terms'')
      else if \<not> distinct (map score_term_id terms @ map point_term_id points)
      then Inl (Value_error ''Score term semantic ids must be unique'')
      else if terms = [] \<and> points = []
      then Inl (Value_error ''Score requires at least one Value or Condition term'')
      else if terms \<noteq> [] \<and> points = [] \<and> \<not> list_ex (\<lambda>t. score_term_weight t \<noteq> 0) terms
      then Inl (Value_error ''Score requires at least one non-zero weight'')
      else (case (cmin, cmax) of
              (Some lo, Some hi) \<Rightarrow>
                if hi < lo then Inl (Value_error ''Score clamp_min cannot exceed clamp_max'') else Inr ()
            | _ \<Rightarrow> Inr ()))"

definition validate_threshold :: "int \<Rightarrow> condition list \<Rightarrow> unit res" where
  "validate_threshold minimum children =
     (if minimum < 1 \<or> 12 < minimum then Inl (Value_error ''minimum_true'')
      else if children = [] \<or> 12 < length children then Inl (Value_error ''children'')
      else if int (length children) < minimum then Inl (Value_error ''minimum_true cannot exceed child count'')
      else Inr ())"

definition validate_window :: "window_relation \<Rightarrow> int option \<Rightarrow> unit res" where
  "validate_window relation observations =
     (if (case observations of None \<Rightarrow> False | Some n \<Rightarrow> n < 0 \<or> 2000 < n) then Inl (Value_error ''observations'')
      else if relation = Within \<and> observations = None
      then Inl (Value_error ''within requires an observation window'')
      else if relation \<in> {Before, After} \<and> observations \<noteq> None
      then Inl (Value_error ''before/after does not accept an observation window'')
      else Inr ())"

definition validate_value :: "value_expr \<Rightarrow> unit res" where
  "validate_value v =
     (case v of
        V_daily n \<Rightarrow> if well_shaped n then Inr () else Inl (Value_error ''shape'')
      | V_candidate_trailing_return _ _ n _ \<Rightarrow> guard (1 \<le> n \<and> n \<le> 1000) (Value_error ''lookback'')
      | V_cross_sectional _ _ _ t _ bins \<Rightarrow> validate_bins t bins
      | V_score _ terms points _ _ cmin cmax \<Rightarrow> validate_terms terms points cmin cmax
      | V_event_relative _ _ n off \<Rightarrow> guard (well_shaped n \<and> - 2000 \<le> off \<and> off \<le> 2000) (Value_error ''offset'')
      | V_clocked _ n _ \<Rightarrow> guard (well_shaped n) (Value_error ''shape'')
      | _ \<Rightarrow> Inr ())"

definition validate_condition_node :: "condition \<Rightarrow> unit res" where
  "validate_condition_node c =
     (case c of
        C_group _ _ children \<Rightarrow> guard (children \<noteq> [] \<and> length children \<le> 12) (Value_error ''children'')
      | C_n_of_m _ minimum children \<Rightarrow> validate_threshold minimum children
      | C_event_window _ _ relation observations \<Rightarrow> validate_window relation observations
      | _ \<Rightarrow> Inr ())"

subsection \<open>Selection\<close>

datatype shortage_policy = Choose_all | Require_full

record selection =
  sl_semantic_id :: string
  sl_universe_id :: string
  sl_binding_id :: string
  sl_binding_domain_id :: string
  sl_eligibility :: "condition option"
  sl_ranking :: value_expr
  sl_direction :: sort_direction
  sl_count :: int
  sl_shortage_policy :: shortage_policy
  sl_fallback_asset :: "string option"

text \<open>\<open>visit_value\<close> and \<open>visit_condition\<close> of \<open>validate_binding\<close>: only direct Values are visited.\<close>

definition value_bound :: "string \<Rightarrow> value_expr \<Rightarrow> bool" where
  "value_bound binding v =
     (case v of
        V_daily n \<Rightarrow>
          list_all (\<lambda>m. nf_subject_kind (dn_fields m) = Some Subject_candidate \<longrightarrow>
                        nf_binding_id (dn_fields m) = Some binding) (subnodes n)
      | V_candidate_trailing_return _ b _ _ \<Rightarrow> b = binding
      | V_candidate_current_price _ b _ \<Rightarrow> b = binding
      | _ \<Rightarrow> True)"

fun condition_bound :: "string \<Rightarrow> condition \<Rightarrow> bool" where
  "condition_bound binding (C_comparison _ _ l r) \<longleftrightarrow> value_bound binding l \<and> value_bound binding r"
| "condition_bound binding (C_group _ _ cs) \<longleftrightarrow> list_all (condition_bound binding) cs"
| "condition_bound binding (C_n_of_m _ _ cs) \<longleftrightarrow> list_all (condition_bound binding) cs"
| "condition_bound binding (C_not _ c) \<longleftrightarrow> condition_bound binding c"
| "condition_bound binding _ \<longleftrightarrow> True"

definition validate_binding :: "selection \<Rightarrow> unit res" where
  "validate_binding s =
     (if sl_count s < 1 \<or> 100 < sl_count s then Inl (Value_error ''count'')
      else if sl_binding_domain_id s \<noteq> sl_universe_id s
      then Inl (Value_error ''candidate binding must be lexically bound to the Selection universe'')
      else if \<not> value_bound (sl_binding_id s) (sl_ranking s) then Inl (Value_error ''unbound_candidate'')
      else if (case sl_eligibility s of None \<Rightarrow> False | Some c \<Rightarrow> \<not> condition_bound (sl_binding_id s) c)
      then Inl (Value_error ''unbound_candidate'')
      else Inr ())"

subsection \<open>Clocks, Events, Allocations\<close>

datatype timeframe = TF_session | TF_daily | TF_weekly | TF_monthly

datatype terminal_policy = Not_due | Fixture_end_is_boundary

record program_clock =
  pc_id :: string
  pc_timeframe :: timeframe
  pc_timezone :: string
  pc_terminal_boundary_policy :: terminal_policy

datatype event_trigger =
  Rising_edge | Falling_edge | While_true | Became_true | Became_false | Crosses_above | Crosses_below | Scheduled

datatype event_occurrence = Occ_every | Occ_first | Occ_ordinal

record event_definition =
  ed_semantic_id :: string
  ed_clock_id :: string
  ed_condition :: "condition option"
  ed_trigger :: event_trigger
  ed_occurrence :: event_occurrence
  ed_ordinal :: "int option"

definition validate_event_shape :: "event_definition \<Rightarrow> unit res" where
  "validate_event_shape e =
     (if (case ed_ordinal e of None \<Rightarrow> False | Some n \<Rightarrow> n < 1 \<or> 10000 < n) then Inl (Value_error ''ordinal'')
      else if ed_trigger e = Scheduled \<and> ed_condition e \<noteq> None
      then Inl (Value_error ''scheduled Event cannot carry a Condition'')
      else if ed_trigger e \<noteq> Scheduled \<and> ed_condition e = None
      then Inl (Value_error ''non-scheduled Event requires a Condition'')
      else if ed_occurrence e = Occ_ordinal \<and> ed_ordinal e = None
      then Inl (Value_error ''ordinal Event requires ordinal'')
      else if ed_occurrence e \<noteq> Occ_ordinal \<and> ed_ordinal e \<noteq> None
      then Inl (Value_error ''ordinal is only valid for ordinal Events'')
      else Inr ())"

datatype target_kind = Target_asset | Target_selection | Target_group | Target_cash | Target_retain

record allocation_leg =
  al_semantic_id :: string
  al_target_semantic_id :: string
  al_target_kind :: target_kind
  al_target_ref :: "string option"
  al_weight :: "decimal option"

definition validate_ref :: "allocation_leg \<Rightarrow> unit res" where
  "validate_ref l =
     (if al_target_kind l \<in> {Target_asset, Target_selection, Target_group} \<and> \<not> truthy (al_target_ref l)
      then Inl (Value_error ''allocation target requires ref'')
      else if al_target_kind l \<in> {Target_cash, Target_retain} \<and> al_target_ref l \<noteq> None
      then Inl (Value_error ''allocation target cannot have ref'')
      else Inr ())"

datatype allocation_method = M_equal | M_fixed | M_proportional_score | M_inverse_volatility

record allocation =
  as_semantic_id :: string
  as_method :: allocation_method
  as_legs :: "allocation_leg list"
  as_clock_id :: "string option"
  as_minimum_weight :: "decimal option"
  as_maximum_weight :: "decimal option"
  as_cash_remainder_asset :: "string option"

definition weight_or_zero :: "decimal option \<Rightarrow> decimal" where
  "weight_or_zero w = (case w of None \<Rightarrow> 0 | Some x \<Rightarrow> x)"

definition unit_interval :: "decimal option \<Rightarrow> bool" where
  "unit_interval w = (case w of None \<Rightarrow> True | Some x \<Rightarrow> 0 \<le> x \<and> x \<le> 1)"

definition score_derived :: "allocation_method \<Rightarrow> bool" where
  "score_derived m \<longleftrightarrow> m \<in> {M_proportional_score, M_inverse_volatility}"

definition validate_weights :: "allocation \<Rightarrow> unit res" where
  "validate_weights a =
     (if as_legs a = [] \<or> 100 < length (as_legs a)
        \<or> \<not> list_all (\<lambda>l. unit_interval (al_weight l)) (as_legs a)
        \<or> \<not> unit_interval (as_minimum_weight a) \<or> \<not> unit_interval (as_maximum_weight a)
      then Inl (Value_error ''field bounds'')
      else if list_ex (\<lambda>l. al_target_kind l = Target_retain) (as_legs a)
        \<and> (length (as_legs a) \<noteq> 1 \<or> as_method a \<noteq> M_equal)
      then Inl (Value_error ''retain must be the sole target of an equal allocation'')
      else if as_method a = M_fixed \<and> list_ex (\<lambda>l. al_weight l = None) (as_legs a)
      then Inl (Value_error ''fixed allocation requires every weight'')
      else if as_method a = M_fixed \<and> dsum (map (\<lambda>l. weight_or_zero (al_weight l)) (as_legs a)) \<noteq> 1
      then Inl (Value_error ''fixed allocation weights must sum exactly to 1'')
      else if as_method a \<noteq> M_fixed \<and> list_ex (\<lambda>l. al_weight l \<noteq> None) (as_legs a)
      then Inl (Value_error ''derived allocation methods cannot persist explicit weights'')
      else if (case (as_minimum_weight a, as_maximum_weight a) of (Some lo, Some hi) \<Rightarrow> hi < lo | _ \<Rightarrow> False)
      then Inl (Value_error ''minimum_weight cannot exceed maximum_weight'')
      else if score_derived (as_method a)
        \<and> (length (as_legs a) \<noteq> 1 \<or> al_target_kind (hd (as_legs a)) \<noteq> Target_selection)
      then Inl (Value_error ''score-derived allocation requires exactly one Selection target'')
      else if \<not> score_derived (as_method a)
        \<and> (as_minimum_weight a \<noteq> None \<or> as_maximum_weight a \<noteq> None \<or> as_cash_remainder_asset a \<noteq> None)
      then Inl (Value_error ''cap/floor/cash remainder belong to score-derived allocation'')
      else Inr ())"

subsection \<open>Statements and Programs\<close>

record selection_statement =
  ss_semantic_id :: string
  ss_selection :: selection
  ss_output_id :: string
  ss_clock_id :: "string option"

record state_transition =
  tr_semantic_id :: string
  tr_state_key :: string
  tr_from_value :: "string option"
  tr_to_value :: string
  tr_when :: condition
  tr_clock_id :: "string option"

record override_rule =
  ov_semantic_id :: string
  ov_priority :: int
  ov_when :: condition
  ov_action :: allocation

datatype unknown_policy = Unknown_retain | Unknown_otherwise

datatype guard_policy = Guard_block | Guard_allow

datatype unresolved_category = Fuzzy_term | Missing_reference | Unsupported_semantics

datatype statement =
    S_select selection_statement
  | S_allocate allocation
  | S_control string condition "statement list" "statement list" unknown_policy "string option"
  | S_event string event_definition "statement list"
  | S_transition string state_transition
  | S_remember string string value_expr "string option"
  | S_guarded string "condition option" allocation "override_rule list" "allocation option" guard_policy
  | S_unresolved string string unresolved_category string

fun statement_semantic_id :: "statement \<Rightarrow> string" where
  "statement_semantic_id (S_select s) = ss_semantic_id s"
| "statement_semantic_id (S_allocate a) = as_semantic_id a"
| "statement_semantic_id (S_control i _ _ _ _ _) = i"
| "statement_semantic_id (S_event i _ _) = i"
| "statement_semantic_id (S_transition i _) = i"
| "statement_semantic_id (S_remember i _ _ _) = i"
| "statement_semantic_id (S_guarded i _ _ _ _ _) = i"
| "statement_semantic_id (S_unresolved i _ _ _) = i"

datatype formalization_status = Formalized | Unresolved_phrase

record formalization =
  fz_source_phrase :: string
  fz_status :: formalization_status
  fz_semantic_ids :: "string list"
  fz_interpretation :: "string option"

definition validate_formalization :: "formalization \<Rightarrow> unit res" where
  "validate_formalization z =
     (if fz_status z = Unresolved_phrase \<and> fz_semantic_ids z \<noteq> []
      then Inl (Value_error ''unresolved phrase cannot claim executable semantic ids'')
      else if fz_status z = Formalized \<and> (fz_semantic_ids z = [] \<or> \<not> truthy (fz_interpretation z))
      then Inl (Value_error ''formalized phrase requires semantic ids and interpretation'')
      else Inr ())"

record program =
  pg_semantic_id :: string
  pg_clocks :: "program_clock list"
  pg_initial_state :: "(string, string) dict"
  pg_formalizations :: "formalization list"
  pg_statements :: "statement list"

definition validate_identity :: "program \<Rightarrow> unit res" where
  "validate_identity p =
     (if pg_clocks p = [] \<or> 20 < length (pg_clocks p) \<or> pg_statements p = [] \<or> 200 < length (pg_statements p)
        \<or> 100 < length (pg_formalizations p)
      then Inl (Value_error ''field bounds'')
      else if \<not> distinct (map pc_id (pg_clocks p)) then Inl (Value_error ''Program clock ids must be unique'')
      else Inr ())"

text \<open>Definitions of a Canonical v2 Strategy.\<close>

record asset_set_definition =
  ad_id :: string
  ad_assets :: "string list"

record group_definition =
  gd_id :: string
  gd_name :: string
  gd_asset_set_ref :: string
  gd_description :: string

record definitions =
  df_asset_sets :: "asset_set_definition list"
  df_groups :: "group_definition list"
  df_asset_axis :: axis

definition validate_definitions :: "definitions \<Rightarrow> unit res" where
  "validate_definitions d =
     (let sets = map ad_id (df_asset_sets d) in
      if sets = [] then Inl (Value_error ''v2 requires at least one explicit/static AssetSet'')
      else if \<not> list_all (\<lambda>g. gd_asset_set_ref g \<in> set sets) (df_groups d)
      then Inl (Value_error ''unknown asset set'')
      else if ax_name (df_asset_axis d) \<noteq> Ax_asset
      then Inl (Value_error ''Profile A v2 uses an Asset axis for Selection domains'')
      else Inr ())"

record canonical_v2 =
  cv_definitions :: definitions
  cv_operator_lock :: "(string, string) dict"
  cv_selection :: "selection option"
  cv_predicate :: "condition option"
  cv_program :: "program option"

definition validate_operator_lock :: "canonical_v2 \<Rightarrow> unit res" where
  "validate_operator_lock s =
     (if \<not> dhas (cv_operator_lock s) ''compare'' then Inl (Value_error ''operator_lock is missing: compare'')
      else if cv_selection s = None \<and> cv_program s = None
      then Inl (Value_error ''v2 requires a compatibility Selection or a Semantic Program'')
      else Inr ())"

end
