(* ===== verification/Calendar.thy ===== *)
theory Calendar
  imports Prelude
begin

text \<open>
  The proleptic Gregorian calendar of Python's \<open>datetime.date\<close>, as far as the clocks of
  \<open>strategy/v2/program_execution.py\<close> use it: reading an ISO date, the ordinal, the weekday, the
  ISO week, the next day. Dates are read in the extended form \<open>YYYY-MM-DD\<close>, the one the
  market data carries. The ISO week is proved to number the Monday-based weeks.
\<close>

named_theorems cal_simps \<open>calendar arithmetic\<close>

record cal_date =
  cd_year :: int
  cd_month :: int
  cd_day :: int

definition leap_year :: "int \<Rightarrow> bool" where
  "leap_year y \<longleftrightarrow> y mod 4 = 0 \<and> (y mod 100 \<noteq> 0 \<or> y mod 400 = 0)"

definition days_in_month :: "int \<Rightarrow> int \<Rightarrow> int" where
  "days_in_month y m =
     (if m = 2 then (if leap_year y then 29 else 28) else if m \<in> {4, 6, 9, 11} then 30 else 31)"

definition valid_date :: "cal_date \<Rightarrow> bool" where
  "valid_date d \<longleftrightarrow>
     1 \<le> cd_year d \<and> cd_year d \<le> 9999 \<and> 1 \<le> cd_month d \<and> cd_month d \<le> 12 \<and>
     1 \<le> cd_day d \<and> cd_day d \<le> days_in_month (cd_year d) (cd_month d)"

definition days_before_year :: "int \<Rightarrow> int" where
  "days_before_year y = (let p = y - 1 in p * 365 + p div 4 - p div 100 + p div 400)"

text \<open>Days of the year before the first of a month, in a common year and in a leap year.\<close>

definition days_before_month :: "int \<Rightarrow> int \<Rightarrow> int" where
  "days_before_month y m =
     [0, 31, 59, 90, 120, 151, 181, 212, 243, 273, 304, 334] ! nat (m - 1)
       + (if 2 < m \<and> leap_year y then 1 else 0)"

definition ordinal :: "cal_date \<Rightarrow> int" where
  "ordinal d = days_before_year (cd_year d) + days_before_month (cd_year d) (cd_month d) + cd_day d"

text \<open>Monday is 0.\<close>

definition weekday :: "cal_date \<Rightarrow> int" where
  "weekday d = (ordinal d + 6) mod 7"

subsection \<open>Reading\<close>

text \<open>\<open>date.fromisoformat\<close> of \<open>YYYY-MM-DD\<close>.\<close>

definition parse_date :: "string \<Rightarrow> cal_date res" where
  "parse_date s =
     (let ws = split_on CHR ''-'' s in
      if map length ws = [4, 2, 2]
      then (case (parse_digits (ws ! 0), parse_digits (ws ! 1), parse_digits (ws ! 2)) of
              (Some y, Some m, Some d) \<Rightarrow>
                (let r = \<lparr>cd_year = int y, cd_month = int m, cd_day = int d\<rparr>
                 in if valid_date r then Inr r else Inl (Value_error ''date''))
            | _ \<Rightarrow> Inl (Value_error ''isoformat''))
      else Inl (Value_error ''isoformat''))"

lemma parse_date_valid: "parse_date s = Inr d \<Longrightarrow> valid_date d"
  by (auto simp: parse_date_def Let_def split: if_splits option.splits)

text \<open>\<open>(b - a).days\<close>.\<close>

definition days_between :: "cal_date \<Rightarrow> cal_date \<Rightarrow> int" where
  "days_between a b = ordinal b - ordinal a"

subsection \<open>The next day\<close>

definition next_day :: "cal_date \<Rightarrow> cal_date res" where
  "next_day d =
     (if cd_day d < days_in_month (cd_year d) (cd_month d) then Inr (d\<lparr>cd_day := cd_day d + 1\<rparr>)
      else if cd_month d < 12 then Inr (d\<lparr>cd_month := cd_month d + 1, cd_day := 1\<rparr>)
      else if cd_year d < 9999 then Inr \<lparr>cd_year = cd_year d + 1, cd_month = 1, cd_day = 1\<rparr>
      else Inl Overflow_error)"

lemma month_cases:
  fixes m :: int
  assumes "1 \<le> m" and "m \<le> 12"
  shows "m = 1 \<or> m = 2 \<or> m = 3 \<or> m = 4 \<or> m = 5 \<or> m = 6 \<or> m = 7 \<or> m = 8 \<or> m = 9 \<or> m = 10 \<or> m = 11 \<or> m = 12"
  using assms by presburger

lemma days_before_month_Suc:
  assumes "1 \<le> m" and "m < 12"
  shows "days_before_month y (m + 1) = days_before_month y m + days_in_month y m"
  using month_cases [of m] assms
  by (auto simp: days_before_month_def days_in_month_def)

lemma days_before_year_Suc:
  "days_before_year (y + 1) = days_before_year y + (if leap_year y then 366 else 365)"
proof -
  have q: "y div k = (y - 1) div k + (if y mod k = 0 then 1 else 0)" if "0 < k" for k :: int
  proof (cases "y mod k = 0")
    case True
    then obtain c where c: "y = k * c" by (auto simp: mod_eq_0_iff_dvd)
    have "(k * c - 1) div k = c - 1"
      using that by (intro int_div_pos_eq [where r = "k - 1"]) (auto simp: algebra_simps)
    with c that show ?thesis by simp
  next
    case False
    have r: "0 \<le> y mod k" "y mod k < k"
      using that by simp_all
    have "y - 1 = k * (y div k) + (y mod k - 1)"
      using mult_div_mod_eq [of k y] by linarith
    then have "(y - 1) div k = y div k"
      by (rule int_div_pos_eq) (use r False in linarith)+
    with False show ?thesis by simp
  qed
  have regroup: "y * 365 + (a + p) - (b + r) + (c + t) = (y - 1) * 365 + a - b + c + 365 + p - r + t"
    for a b c p r t :: int
    by simp
  have four_pos: "0 < (4::int)" and hundred_pos: "0 < (100::int)" and fourhundred_pos: "0 < (400::int)"
    by simp_all
  have four: "y mod 4 = 0" if "y mod 100 = 0"
    using that by presburger
  have hundred: "y mod 100 = 0" if "y mod 400 = 0"
    using that by presburger
  have "days_before_year (y + 1) = y * 365 + y div 4 - y div 100 + y div 400"
    unfolding days_before_year_def Let_def by (simp only: add_diff_cancel_right')
  also have "\<dots> = days_before_year y + 365 + (if y mod 4 = 0 then 1 else 0)
      - (if y mod 100 = 0 then 1 else 0) + (if y mod 400 = 0 then 1 else 0)"
    unfolding days_before_year_def Let_def q [OF four_pos] q [OF hundred_pos] q [OF fourhundred_pos]
    by (rule regroup)
  finally have "days_before_year (y + 1) = \<dots>" .
  then show ?thesis
    using four hundred unfolding leap_year_def by (cases "y mod 4 = 0"; cases "y mod 100 = 0"; cases "y mod 400 = 0") simp_all
qed

lemma days_in_month_pos: "1 \<le> days_in_month y m"
  by (simp add: days_in_month_def)

lemma next_day_valid: "next_day d = Inr e \<Longrightarrow> valid_date d \<Longrightarrow> valid_date e"
  by (auto simp: next_day_def valid_date_def days_in_month_pos split: if_split_asm)

lemma ordinal_next_day:
  assumes "next_day d = Inr e" and "valid_date d"
  shows "ordinal e = ordinal d + 1"
proof -
  have v: "1 \<le> cd_month d" "cd_month d \<le> 12" "cd_day d \<le> days_in_month (cd_year d) (cd_month d)"
    using assms(2) by (auto simp: valid_date_def)
  consider (day) "cd_day d < days_in_month (cd_year d) (cd_month d)" "e = d\<lparr>cd_day := cd_day d + 1\<rparr>"
    | (month) "cd_day d = days_in_month (cd_year d) (cd_month d)" "cd_month d < 12"
        "e = d\<lparr>cd_month := cd_month d + 1, cd_day := 1\<rparr>"
    | (year) "cd_day d = days_in_month (cd_year d) (cd_month d)" "cd_month d = 12"
        "e = \<lparr>cd_year = cd_year d + 1, cd_month = 1, cd_day = 1\<rparr>"
    using assms(1) v by (auto simp: next_day_def split: if_splits)
  then show ?thesis
  proof cases
    case day
    then show ?thesis by (simp add: ordinal_def)
  next
    case month
    then show ?thesis
      using v by (simp add: ordinal_def days_before_month_Suc)
  next
    case year
    then show ?thesis
      by (simp add: ordinal_def days_before_year_Suc days_before_month_def days_in_month_def)
  qed
qed

subsection \<open>ISO weeks\<close>

text \<open>\<open>_isoweek1monday\<close> and \<open>isocalendar()[:2]\<close>, with the two corrections at the ends of the year.\<close>

definition first_ordinal :: "int \<Rightarrow> int" where
  "first_ordinal y = days_before_year y + 1"

definition week1_monday :: "int \<Rightarrow> int" where
  "week1_monday y =
     (let first = first_ordinal y; first_weekday = (first + 6) mod 7; monday = first - first_weekday
      in if 3 < first_weekday then monday + 7 else monday)"

definition iso_week :: "cal_date \<Rightarrow> int \<times> int" where
  "iso_week d =
     (let y = cd_year d; today = ordinal d; week = (today - week1_monday y) div 7 in
      if week < 0 then (y - 1, (today - week1_monday (y - 1)) div 7 + 1)
      else if 52 \<le> week \<and> week1_monday (y + 1) \<le> today then (y + 1, 1)
      else (y, week + 1))"

text \<open>Days are numbered from Monday, 1 January of year 1; a week is the quotient by 7.\<close>

definition week_number :: "cal_date \<Rightarrow> int" where
  "week_number d = (ordinal d - 1) div 7"

lemma week1_monday_closed: "week1_monday y = 7 * ((first_ordinal y + 2) div 7) + 1"
proof -
  define q where "q = (first_ordinal y + 6) div 7"
  define r where "r = (first_ordinal y + 6) mod 7"
  have f: "first_ordinal y = 7 * q + r - 6"
    using mult_div_mod_eq [of 7 "first_ordinal y + 6"] by (simp add: q_def r_def)
  have r: "0 \<le> r" "r < 7" by (simp_all add: r_def)
  show ?thesis
  proof (cases "3 < r")
    case True
    have "(first_ordinal y + 2) div 7 = q"
      by (rule int_div_pos_eq [where r = "r - 4"]) (use f r True in simp_all)
    moreover have "week1_monday y = first_ordinal y - r + 7"
      using True unfolding week1_monday_def Let_def r_def by simp
    ultimately show ?thesis using f by simp
  next
    case False
    have "(first_ordinal y + 2) div 7 = q - 1"
      by (rule int_div_pos_eq [where r = "r + 3"]) (use f r False in simp_all)
    moreover have "week1_monday y = first_ordinal y - r"
      using False unfolding week1_monday_def Let_def r_def by simp
    ultimately show ?thesis using f by simp
  qed
qed

definition first_week :: "int \<Rightarrow> int" where
  "first_week y = (first_ordinal y + 2) div 7"

lemma first_ordinal_Suc: "first_ordinal y + 365 \<le> first_ordinal (y + 1)" "first_ordinal (y + 1) \<le> first_ordinal y + 366"
  by (simp_all add: first_ordinal_def days_before_year_Suc)

lemma first_week_Suc: "first_week y + 52 \<le> first_week (y + 1)"
proof -
  have "first_week y + 52 = (first_ordinal y + 2 + 7 * 52) div 7"
    by (simp add: first_week_def)
  also have "\<dots> \<le> first_week (y + 1)"
    unfolding first_week_def using first_ordinal_Suc [of y] by (intro zdiv_mono1) simp_all
  finally show ?thesis .
qed

lemma first_week_mono: "x \<le> y \<Longrightarrow> first_week x \<le> first_week y"
proof (induction y rule: int_ge_induct)
  case (step i)
  then show ?case using first_week_Suc [of i] by linarith
qed simp

text \<open>A valid date lies in its year.\<close>

lemma ordinal_in_year:
  assumes "valid_date d"
  shows "first_ordinal (cd_year d) \<le> ordinal d" and "ordinal d < first_ordinal (cd_year d + 1)"
proof -
  let ?y = "cd_year d" and ?m = "cd_month d"
  have v: "1 \<le> ?m" "?m \<le> 12" "1 \<le> cd_day d" "cd_day d \<le> days_in_month ?y ?m"
    using assms by (auto simp: valid_date_def)
  have "0 \<le> days_before_month ?y ?m"
    using month_cases [OF v(1,2)] by (elim disjE) (simp_all add: days_before_month_def)
  with v(3) show "first_ordinal ?y \<le> ordinal d"
    by (simp add: first_ordinal_def ordinal_def)
  have "days_before_month ?y ?m + days_in_month ?y ?m \<le> (if leap_year ?y then 366 else 365)"
    using month_cases [OF v(1,2)] by (elim disjE) (simp_all add: days_before_month_def days_in_month_def)
  with v(4) show "ordinal d < first_ordinal (?y + 1)"
    by (auto simp: first_ordinal_def ordinal_def days_before_year_Suc split: if_splits)
qed

lemma week_index: "(t - week1_monday y) div 7 = (t - 1) div 7 - first_week y"
proof -
  have "t - week1_monday y = (t - 1) + (- first_week y) * 7"
    by (simp add: week1_monday_closed first_week_def)
  then show ?thesis by simp
qed

lemma week1_monday_le: "week1_monday y \<le> t \<longleftrightarrow> first_week y \<le> (t - 1) div 7"
proof -
  have "week1_monday y \<le> t \<longleftrightarrow> 0 \<le> (t - week1_monday y) div 7"
    by (simp add: pos_imp_zdiv_nonneg_iff)
  then show ?thesis by (simp add: week_index)
qed

text \<open>The ISO year is the one whose first week is the last not after the date.\<close>

lemma iso_week_bounds:
  assumes "valid_date d"
  obtains y where "iso_week d = (y, week_number d - first_week y + 1)"
    and "first_week y \<le> week_number d" and "week_number d < first_week (y + 1)"
proof -
  let ?y = "cd_year d" and ?t = "ordinal d"
  note week_number_def [simp]
  have lo: "first_ordinal ?y \<le> ?t" and hi: "?t < first_ordinal (?y + 1)"
    using ordinal_in_year [OF assms] .
  have prev: "first_week (?y - 1) \<le> (?t - 1) div 7"
    unfolding first_week_def using lo first_ordinal_Suc [of "?y - 1"] by (intro zdiv_mono1) simp_all
  have upper: "(?t - 1) div 7 \<le> first_week (?y + 1)"
    unfolding first_week_def using hi by (intro zdiv_mono1) simp_all
  show ?thesis
  proof (cases "(?t - 1) div 7 < first_week ?y")
    case True
    then show ?thesis
      using prev by (intro that [of "?y - 1"]) (simp_all add: iso_week_def Let_def week_index)
  next
    case False
    show ?thesis
    proof (cases "first_week (?y + 1) \<le> (?t - 1) div 7")
      case True
      with upper have eq: "(?t - 1) div 7 = first_week (?y + 1)" by simp
      then show ?thesis
        using first_week_Suc [of ?y] first_week_Suc [of "?y + 1"]
        by (intro that [of "?y + 1"]) (simp_all add: iso_week_def Let_def week_index week1_monday_le)
    next
      case below: False
      then show ?thesis
        using False by (intro that [of ?y]) (simp_all add: iso_week_def Let_def week_index week1_monday_le)
    qed
  qed
qed

lemma iso_week_eq_iff:
  assumes "valid_date a" and "valid_date b"
  shows "iso_week a = iso_week b \<longleftrightarrow> week_number a = week_number b"
proof -
  obtain y where y: "iso_week a = (y, week_number a - first_week y + 1)"
    "first_week y \<le> week_number a" "week_number a < first_week (y + 1)"
    using iso_week_bounds [OF assms(1)] .
  obtain z where z: "iso_week b = (z, week_number b - first_week z + 1)"
    "first_week z \<le> week_number b" "week_number b < first_week (z + 1)"
    using iso_week_bounds [OF assms(2)] .
  have "y = z" if "week_number a = week_number b"
  proof (rule ccontr)
    assume "y \<noteq> z"
    then consider "y + 1 \<le> z" | "z + 1 \<le> y" by linarith
    then show False
      using first_week_mono [of "y + 1" z] first_week_mono [of "z + 1" y] y z that by cases simp_all
  qed
  then show ?thesis
    using y(1) z(1) by auto
qed

subsection \<open>Trading days\<close>

text \<open>\<open>while following.weekday() >= 5: following += timedelta(days=1)\<close>; two steps are enough.\<close>

fun skip_weekend :: "nat \<Rightarrow> cal_date \<Rightarrow> cal_date res" where
  "skip_weekend fuel d =
     (if weekday d < 5 then Inr d
      else case fuel of 0 \<Rightarrow> Inr d | Suc k \<Rightarrow> ebind (next_day d) (skip_weekend k))"

declare skip_weekend.simps [simp del]

lemma weekday_range: "0 \<le> weekday d" "weekday d < 7"
  by (simp_all add: weekday_def)

lemma weekday_next_day:
  assumes "next_day d = Inr e" and "valid_date d"
  shows "weekday e = (weekday d + 1) mod 7"
  unfolding weekday_def ordinal_next_day [OF assms] by presburger

text \<open>With fuel 2 the loop ends on a day from Monday to Friday, unless the calendar ends.\<close>

lemma skip_weekend_weekday:
  assumes "skip_weekend 2 d = Inr e" and "valid_date d"
  shows "weekday e < 5"
proof (cases "weekday d < 5")
  case True
  with assms(1) show ?thesis by (simp add: skip_weekend.simps)
next
  case sat: False
  then obtain d1 where d1: "next_day d = Inr d1" "skip_weekend 1 d1 = Inr e"
    using assms(1) by (auto simp: numeral_2_eq_2 skip_weekend.simps [of "Suc (Suc 0)"] elim!: ebind_InrE)
  have v1: "valid_date d1" using next_day_valid [OF d1(1) assms(2)] .
  have w1: "weekday d1 = (weekday d + 1) mod 7" using weekday_next_day [OF d1(1) assms(2)] .
  show ?thesis
  proof (cases "weekday d1 < 5")
    case True
    with d1(2) show ?thesis by (simp add: skip_weekend.simps)
  next
    case sun: False
    then obtain d2 where d2: "next_day d1 = Inr d2" "skip_weekend 0 d2 = Inr e"
      using d1(2) by (auto simp: skip_weekend.simps [of "Suc 0"] elim!: ebind_InrE)
    have "weekday d = 5 \<or> weekday d = 6"
      using sat weekday_range [of d] by linarith
    then have "weekday d2 < 5"
      using weekday_next_day [OF d2(1) v1] w1 sun by (elim disjE) simp_all
    with d2(2) show ?thesis by (simp add: skip_weekend.simps)
  qed
qed

end
