(* ===== verification/Program_Values.thy ===== *)
theory Program_Values
  imports Program_Model Calendar
begin

text \<open>
  The reading half of \<open>_Runtime\<close> in \<open>strategy/v2/program_execution.py\<close>: its state, the
  Values and Conditions at the cutoff, and the clocks. Reading changes nothing but the list of
  observations, which is threaded as a log; every other field is a parameter. The two content
  hashes and the iteration order of a set are the \<open>platform\<close>.
\<close>

record platform =
  pf_node_digest :: "daily_node \<Rightarrow> string"
  pf_value_digest :: "value_expr \<Rightarrow> string"
  pf_set_order :: "string list \<Rightarrow> string list"

text \<open>\<open>_value_content_hash\<close>: the digest of the Value with every semantic id removed.\<close>

fun value_without_addresses :: "value_expr \<Rightarrow> value_expr"
  and condition_without_addresses :: "condition \<Rightarrow> condition" where
  "value_without_addresses (V_daily n) = V_daily (without_addresses n)"
| "value_without_addresses (V_literal i v q u r) = V_literal [] v q u r"
| "value_without_addresses (V_candidate_trailing_return i b n k) = V_candidate_trailing_return [] b n k"
| "value_without_addresses (V_candidate_current_price i b k) = V_candidate_current_price [] b k"
| "value_without_addresses (V_cross_sectional i s u t d n) =
     V_cross_sectional [] (value_without_addresses s) u t d n"
| "value_without_addresses (V_cross_aggregate i s u r k) =
     V_cross_aggregate [] (value_without_addresses s) u r k"
| "value_without_addresses (V_score i terms points m n lo hi) =
     V_score []
       (map (\<lambda>t. case t of Score_term j v w \<Rightarrow> Score_term [] (value_without_addresses v) w) terms)
       (map (\<lambda>t. case t of Point_term j c p q r \<Rightarrow> Point_term [] (condition_without_addresses c) p q r) points)
       m n lo hi"
| "value_without_addresses (V_event_relative i e n off) = V_event_relative [] e (without_addresses n) off"
| "value_without_addresses (V_clocked i n k) = V_clocked [] (without_addresses n) k"
| "value_without_addresses (V_remembered i m q u r) = V_remembered [] m q u r"
| "value_without_addresses (V_bars_since_event i e) = V_bars_since_event [] e"
| "value_without_addresses (V_bars_since_state i k) = V_bars_since_state [] k"
| "value_without_addresses (V_time_since_event i e) = V_time_since_event [] e"
| "value_without_addresses (V_time_since_state i k) = V_time_since_state [] k"
| "condition_without_addresses (C_comparison i f l r) =
     C_comparison [] f (value_without_addresses l) (value_without_addresses r)"
| "condition_without_addresses (C_group k i cs) = C_group k [] (map condition_without_addresses cs)"
| "condition_without_addresses (C_not i c) = C_not [] (condition_without_addresses c)"
| "condition_without_addresses (C_state_equals i k e) = C_state_equals [] k e"
| "condition_without_addresses (C_n_of_m i n cs) = C_n_of_m [] n (map condition_without_addresses cs)"
| "condition_without_addresses (C_event_window i e r n) = C_event_window [] e r n"

definition value_content_hash :: "platform \<Rightarrow> value_expr \<Rightarrow> string" where
  "value_content_hash pf v = pf_value_digest pf (value_without_addresses v)"

subsection \<open>Observations, evidence and the runtime\<close>

record observation =
  po_semantic_id :: string
  po_candidate :: "string option"
  po_value :: "decimal option"
  po_reason :: "string option"
  po_observed_at :: string
  po_expression_hash :: string
  po_requested_members :: "string list"
  po_available_members :: "string list"
  po_missing_members :: "string list"

text \<open>
  The detail text of an evidence entry is kept as the values the source interpolates, since the
  text of a decimal also depends on its stored exponent.
\<close>

datatype evidence_detail =
    Detail string
  | Detail_members "string list" "string list"
  | Detail_weights "(string, decimal) dict"
  | Detail_event string string int
  | Detail_state string "string option"
  | Detail_memory string decimal string
  | Detail_rule string
  | Detail_override string int

record evidence =
  pe_semantic_id :: string
  pe_kind :: string
  pe_outcome :: string
  pe_detail :: evidence_detail

definition evidence_of :: "string \<Rightarrow> string \<Rightarrow> string \<Rightarrow> evidence_detail \<Rightarrow> evidence" where
  "evidence_of i kind outcome detail =
     \<lparr>pe_semantic_id = i, pe_kind = kind, pe_outcome = outcome, pe_detail = detail\<rparr>"

record runtime =
  rt_program :: program
  rt_snapshot :: snapshot
  rt_cutoff :: int
  rt_prior_state :: "(string, string) dict"
  rt_state :: "(string, string) dict"
  rt_selections :: "(string, string list) dict"
  rt_selection_scores :: "(string, (string, decimal) dict) dict"
  rt_target_weights :: "(string, decimal) dict"
  rt_retained :: bool
  rt_evidence :: "evidence list"
  rt_observations :: "observation list"
  rt_event_cutoffs :: "(string, int) dict"
  rt_prior_event_truths :: "(string, string) dict"
  rt_event_truths :: "(string, string) dict"
  rt_event_counts :: "(string, int) dict"
  rt_state_entered_cutoffs :: "(string, int) dict"
  rt_remembered_values :: "(string, decimal) dict"

text \<open>\<open>__init__\<close>; an absent prior state is the program's initial one.\<close>

definition new_runtime ::
  "program \<Rightarrow> snapshot \<Rightarrow> int \<Rightarrow> (string, string) dict option \<Rightarrow> (string, int) dict \<Rightarrow> (string, string) dict \<Rightarrow>
   (string, int) dict \<Rightarrow> (string, int) dict \<Rightarrow> (string, decimal) dict \<Rightarrow> runtime" where
  "new_runtime p sn cutoff prior cutoffs truths counts entered remembered =
     (let st = (case prior of None \<Rightarrow> pg_initial_state p | Some s \<Rightarrow> s) in
      \<lparr>rt_program = p, rt_snapshot = sn, rt_cutoff = cutoff, rt_prior_state = st, rt_state = st,
       rt_selections = [], rt_selection_scores = [], rt_target_weights = [], rt_retained = False,
       rt_evidence = [], rt_observations = [], rt_event_cutoffs = cutoffs,
       rt_prior_event_truths = truths, rt_event_truths = [], rt_event_counts = counts,
       rt_state_entered_cutoffs = entered, rt_remembered_values = remembered\<rparr>)"

definition observed_at :: "runtime \<Rightarrow> string res" where
  "observed_at rt = py_index (sn_dates (rt_snapshot rt)) (rt_cutoff rt)"

subsection \<open>Clocks\<close>

definition date_at :: "runtime \<Rightarrow> int \<Rightarrow> cal_date res" where
  "date_at rt i = ebind (py_index (sn_dates (rt_snapshot rt)) i) parse_date"

definition find_clock :: "program \<Rightarrow> string \<Rightarrow> program_clock res" where
  "find_clock p i =
     (case find (\<lambda>k. pc_id k = i) (pg_clocks p) of None \<Rightarrow> Inl Stop_iteration | Some k \<Rightarrow> Inr k)"

definition terminal_due :: "bool \<Rightarrow> program_clock \<Rightarrow> bool" where
  "terminal_due allow k \<longleftrightarrow> allow \<and> pc_terminal_boundary_policy k = Fixture_end_is_boundary"

text \<open>The next observed session, or after the last row the next weekday.\<close>

definition following_date :: "runtime \<Rightarrow> int \<Rightarrow> cal_date \<Rightarrow> cal_date res" where
  "following_date rt index current =
     (if index + 1 < int (length (sn_dates (rt_snapshot rt))) then date_at rt (index + 1)
      else ebind (next_day current) (skip_weekend 2))"

definition clock_due_at :: "runtime \<Rightarrow> string \<Rightarrow> int \<Rightarrow> bool \<Rightarrow> bool res" where
  "clock_due_at rt clock_id index allow_terminal =
     ebind (find_clock (rt_program rt) clock_id) (\<lambda>k.
       if pc_timeframe k \<in> {TF_session, TF_daily} then Inr True
       else ebind (date_at rt index) (\<lambda>current.
         if pc_timeframe k = TF_weekly
         then Inr (weekday current = 4 \<or> terminal_due allow_terminal k)
         else ebind (following_date rt index current) (\<lambda>following.
           Inr ((cd_year current, cd_month current) \<noteq> (cd_year following, cd_month following)
                \<or> terminal_due allow_terminal k))))"

text \<open>\<open>for index in range(n - 1, -1, -1): if p(index): return index\<close>.\<close>

fun search_down :: "(int \<Rightarrow> bool res) \<Rightarrow> nat \<Rightarrow> int option res" where
  "search_down p 0 = Inr None"
| "search_down p (Suc n) =
     ebind (p (int n)) (\<lambda>b. if b then Inr (Some (int n)) else search_down p n)"

definition last_completed_clock_cutoff :: "runtime \<Rightarrow> string \<Rightarrow> int option res" where
  "last_completed_clock_cutoff rt clock_id =
     ebind (find_clock (rt_program rt) clock_id) (\<lambda>k.
       if pc_timeframe k = TF_weekly
       then ebind (date_at rt (rt_cutoff rt)) (\<lambda>current.
              if terminal_due (rt_cutoff rt = int (length (sn_dates (rt_snapshot rt))) - 1) k
              then Inr (Some (rt_cutoff rt))
              else search_down (\<lambda>i. ebind (date_at rt i) (\<lambda>d. Inr (iso_week d \<noteq> iso_week current)))
                     (nat (rt_cutoff rt)))
       else search_down (\<lambda>i. clock_due_at rt clock_id i (i = rt_cutoff rt)) (nat (rt_cutoff rt + 1)))"

definition clock_due :: "runtime \<Rightarrow> string option \<Rightarrow> bool res" where
  "clock_due rt clock_id =
     (case clock_id of None \<Rightarrow> Inr True | Some i \<Rightarrow> clock_due_at rt i (rt_cutoff rt) True)"

text \<open>\<open>members\<close>: the members of a universe.\<close>

definition universe_members :: "runtime \<Rightarrow> string \<Rightarrow> string list res" where
  "universe_members rt u =
     (case dget (sn_domains (rt_snapshot rt)) u of
        None \<Rightarrow> Inl (Program_execution_error (''program_universe_unavailable: '' @ u))
      | Some ms \<Rightarrow> Inr ms)"

subsection \<open>Values without inner Values\<close>

type_synonym log = "observation list"

text \<open>Every Value but three ends by appending its observation at the cutoff.\<close>

definition observation_at :: "platform \<Rightarrow> value_expr \<Rightarrow> string option \<Rightarrow> decimal option \<Rightarrow> string option \<Rightarrow> string \<Rightarrow> observation" where
  "observation_at pf v candidate x reason when =
     \<lparr>po_semantic_id = value_semantic_id v, po_candidate = candidate, po_value = x, po_reason = reason,
      po_observed_at = when, po_expression_hash = value_content_hash pf v,
      po_requested_members = [], po_available_members = [], po_missing_members = []\<rparr>"

definition record_value :: "platform \<Rightarrow> runtime \<Rightarrow> value_expr \<Rightarrow> string option \<Rightarrow> decimal option \<Rightarrow> string option \<Rightarrow> log \<Rightarrow> (observation \<times> log) res" where
  "record_value pf rt v candidate x reason obs =
     ebind (observed_at rt) (\<lambda>when.
       let ob = observation_at pf v candidate x reason when in Inr (ob, obs @ [ob]))"

text \<open>\<open>_daily\<close>: a node at a cutoff. Out of range, the observation is returned but not recorded.\<close>

definition daily_observation ::
  "platform \<Rightarrow> runtime \<Rightarrow> daily_node \<Rightarrow> string option \<Rightarrow> string option \<Rightarrow> int \<Rightarrow> log \<Rightarrow> (observation \<times> log) res" where
  "daily_observation pf rt n candidate binding index obs =
     (let ob = (\<lambda>x reason when h.
            \<lparr>po_semantic_id = nf_semantic_id (dn_fields n), po_candidate = candidate, po_value = x,
             po_reason = reason, po_observed_at = when, po_expression_hash = h,
             po_requested_members = [], po_available_members = [], po_missing_members = []\<rparr>);
          own_hash = content_hash (pf_node_digest pf) n in
      if index < 0 \<or> int (length (sn_dates (rt_snapshot rt))) \<le> index
      then ebind (observed_at rt) (\<lambda>when. Inr (ob None (Some ''event_relative_out_of_range'') when own_hash, obs))
      else
        ebind (evaluate (pf_node_digest pf) candidate binding n (new_evaluator (rt_snapshot rt) (Some index))) (\<lambda>(r, ev).
          if dr_axes r \<noteq> [] then Inl (Program_execution_error ''program_value_must_be_scalar'')
          else ebind (lookup_or_raise (dr_cells r) []) (\<lambda>cell.
               ebind (py_index (dr_observed_at r) (- 1)) (\<lambda>when.
                 let o1 = ob (dc_value cell) (dc_reason cell) when
                            (case dr_provenance r of Some p \<Rightarrow> pv_expression_hash p | None \<Rightarrow> own_hash)
                 in Inr (o1, obs @ [o1])))))"

text \<open>An inner node's observation under the address and hash of the outer Value.\<close>

definition relabel :: "platform \<Rightarrow> value_expr \<Rightarrow> string option \<Rightarrow> observation \<Rightarrow> observation" where
  "relabel pf v candidate ob = observation_at pf v candidate (po_value ob) (po_reason ob) (po_observed_at ob)"

definition event_relative_value ::
  "platform \<Rightarrow> runtime \<Rightarrow> string option \<Rightarrow> string option \<Rightarrow> value_expr \<Rightarrow> string \<Rightarrow> daily_node \<Rightarrow> int \<Rightarrow> log \<Rightarrow> (observation \<times> log) res" where
  "event_relative_value pf rt candidate binding v event n off obs =
     (case dget (rt_event_cutoffs rt) event of
        None \<Rightarrow> ebind (observed_at rt) (\<lambda>when.
          Inr (observation_at pf v candidate None (Some ''event_not_observed'') when, obs))
      | Some anchor \<Rightarrow>
          ebind (daily_observation pf rt n candidate binding (anchor + off) obs) (\<lambda>(ob, obs').
            let rel = relabel pf v candidate ob in Inr (rel, obs' @ [rel])))"

definition clocked_value ::
  "platform \<Rightarrow> runtime \<Rightarrow> string option \<Rightarrow> string option \<Rightarrow> value_expr \<Rightarrow> daily_node \<Rightarrow> string \<Rightarrow> log \<Rightarrow> (observation \<times> log) res" where
  "clocked_value pf rt candidate binding v n clock_id obs =
     ebind (last_completed_clock_cutoff rt clock_id) (\<lambda>boundary.
       case boundary of
         None \<Rightarrow> record_value pf rt v candidate None (Some ''completed_clock_observation_unavailable'') obs
       | Some b \<Rightarrow>
           ebind (daily_observation pf rt n candidate binding b obs) (\<lambda>(ob, obs').
             let rel = relabel pf v candidate ob in Inr (rel, obs' @ [rel])))"

text \<open>A value that is present or missing for one reason.\<close>

definition record_optional :: "platform \<Rightarrow> runtime \<Rightarrow> value_expr \<Rightarrow> string option \<Rightarrow> string \<Rightarrow> decimal option \<Rightarrow> log \<Rightarrow> (observation \<times> log) res" where
  "record_optional pf rt v candidate reason x =
     record_value pf rt v candidate x (if x = None then Some reason else None)"

definition bars_since :: "runtime \<Rightarrow> int option \<Rightarrow> decimal option" where
  "bars_since rt anchor = map_option (\<lambda>a. of_int (rt_cutoff rt - a)) anchor"

definition time_since :: "runtime \<Rightarrow> int option \<Rightarrow> decimal option res" where
  "time_since rt anchor =
     (case anchor of
        None \<Rightarrow> Inr None
      | Some a \<Rightarrow> ebind (date_at rt (rt_cutoff rt)) (\<lambda>now.
                  ebind (date_at rt a) (\<lambda>then_date. Inr (Some (of_int (days_between then_date now))))))"

subsection \<open>Cross sections\<close>

text \<open>
  The two stable sorts: by member, then by value, in reverse when descending. The sorts of a
  Selection are the same.
\<close>

definition rank_pairs :: "sort_direction \<Rightarrow> (decimal \<times> string) list \<Rightarrow> (decimal \<times> string) list" where
  "rank_pairs dir ps =
     sort_key (\<lambda>p. case dir of Ascending \<Rightarrow> fst p | Descending \<Rightarrow> - fst p) (sort_key snd ps)"

fun index_of :: "'a \<Rightarrow> 'a list \<Rightarrow> nat option" where
  "index_of x [] = None"
| "index_of x (y # ys) = (if x = y then Some 0 else map_option Suc (index_of x ys))"

definition mean_decimal :: "decimal list \<Rightarrow> decimal res" where
  "mean_decimal xs = ddiv (dsum xs) (of_nat (length xs))"

text \<open>The available pairs and the missing members of a loop over the members.\<close>

definition available_pairs :: "string list \<Rightarrow> observation list \<Rightarrow> (decimal \<times> string) list" where
  "available_pairs members items =
     List.map_filter (\<lambda>(m, ob). map_option (\<lambda>x. (x, m)) (po_value ob)) (zip members items)"

definition missing_of :: "string list \<Rightarrow> observation list \<Rightarrow> string list" where
  "missing_of members items = map fst (filter (\<lambda>(m, ob). po_value ob = None) (zip members items))"

definition bins_or_one :: "int option \<Rightarrow> int" where
  "bins_or_one b = (case b of None \<Rightarrow> 1 | Some n \<Rightarrow> if n = 0 then 1 else n)"

definition cross_position :: "cross_transform \<Rightarrow> int option \<Rightarrow> decimal list \<Rightarrow> nat \<Rightarrow> decimal res" where
  "cross_position t bins numbers position =
     (let n = length numbers; raw = numbers ! position;
          lowest = Min (set numbers); highest = Max (set numbers);
          percentile = (if n = 1 then Inr 1 else ddiv (of_nat (n - 1 - position)) (of_nat (n - 1))) in
      case t of
        X_rank \<Rightarrow> Inr (of_nat (position + 1))
      | X_min_max \<Rightarrow>
          (let spread = dsub highest lowest
           in if spread = 0 then Inr 0 else ddiv (dsub raw lowest) spread)
      | X_zscore \<Rightarrow>
          (let deviation = pstdev numbers
           in if deviation = 0 then Inr 0
              else ebind (mean_decimal numbers) (\<lambda>m. ddiv (dsub raw m) deviation))
      | X_percentile \<Rightarrow> percentile
      | _ \<Rightarrow> ebind percentile (\<lambda>p.
               let b = of_int (bins_or_one bins) in Inr (max 1 (min b (dceil (dmul p b))))))"

definition cross_result :: "sort_direction \<Rightarrow> cross_transform \<Rightarrow> int option \<Rightarrow> string \<Rightarrow> (decimal \<times> string) list \<Rightarrow> (decimal option \<times> string option) res" where
  "cross_result dir t bins candidate pairs =
     (let ranked = rank_pairs dir pairs in
      case index_of candidate (map snd ranked) of
        None \<Rightarrow> Inr (None, Some ''candidate_value_unavailable'')
      | Some position \<Rightarrow>
          ebind (cross_position t bins (map fst ranked) position) (\<lambda>r. Inr (Some r, None)))"

definition median_decimal :: "decimal list \<Rightarrow> decimal res" where
  "median_decimal xs =
     (let ordered = sort xs; middle = length ordered div 2 in
      if odd (length ordered) then py_index ordered (int middle)
      else ebind (py_index ordered (int middle - 1)) (\<lambda>a.
           ebind (py_index ordered (int middle)) (\<lambda>b. ddiv (dadd a b) 2)))"

definition aggregate_result :: "cross_reduction \<Rightarrow> coverage \<Rightarrow> decimal list \<Rightarrow> string list \<Rightarrow> (decimal option \<times> string option) res" where
  "aggregate_result r cov available missing =
     (if available = [] \<or> (missing \<noteq> [] \<and> cov = Cov_require_all)
      then Inr (None, Some ''cross_section_coverage_incomplete'')
      else ebind (case r of
                    CR_mean \<Rightarrow> mean_decimal available
                  | CR_median \<Rightarrow> median_decimal available
                  | CR_min \<Rightarrow> Inr (Min (set available))
                  | CR_max \<Rightarrow> Inr (Max (set available))) (\<lambda>x. Inr (Some x, None)))"

text \<open>A cross section's observation also lists the members it asked for.\<close>

definition record_members ::
  "platform \<Rightarrow> runtime \<Rightarrow> value_expr \<Rightarrow> string option \<Rightarrow> string list \<Rightarrow> string list \<Rightarrow> string list \<Rightarrow>
   decimal option \<times> string option \<Rightarrow> log \<Rightarrow> (observation \<times> log) res" where
  "record_members pf rt v candidate requested available missing out obs =
     ebind (observed_at rt) (\<lambda>when.
       let ob = (observation_at pf v candidate (fst out) (snd out) when)
                  \<lparr>po_requested_members := requested, po_available_members := available,
                   po_missing_members := missing\<rparr>
       in Inr (ob, obs @ [ob]))"

subsection \<open>Scores\<close>

record score_acc =
  sa_total :: decimal
  sa_available_weight :: decimal
  sa_missing :: bool

definition add_term :: "decimal \<times> decimal option \<Rightarrow> score_acc \<Rightarrow> score_acc" where
  "add_term term acc =
     (case snd term of
        None \<Rightarrow> acc\<lparr>sa_missing := True\<rparr>
      | Some x \<Rightarrow> acc\<lparr>sa_total := dadd (sa_total acc) (dmul x (fst term)),
                       sa_available_weight := dadd (sa_available_weight acc) (dabs (fst term))\<rparr>)"

definition add_points :: "point_term \<times> truth \<Rightarrow> score_acc \<Rightarrow> score_acc" where
  "add_points term acc =
     (case term of (Point_term i c p q u, outcome) \<Rightarrow>
        if outcome = T_unknown \<and> u = None then acc\<lparr>sa_missing := True\<rparr>
        else acc\<lparr>sa_total := dadd (sa_total acc)
                   (case outcome of T_true \<Rightarrow> p | T_false \<Rightarrow> q | T_unknown \<Rightarrow> weight_or_zero u)\<rparr>)"

definition clamp_low :: "decimal option \<Rightarrow> decimal \<Rightarrow> decimal" where
  "clamp_low lo x = (case lo of None \<Rightarrow> x | Some b \<Rightarrow> max b x)"

definition clamp_high :: "decimal option \<Rightarrow> decimal \<Rightarrow> decimal" where
  "clamp_high hi x = (case hi of None \<Rightarrow> x | Some b \<Rightarrow> min b x)"

definition score_result ::
  "score_term list \<Rightarrow> observation list \<Rightarrow> point_term list \<Rightarrow> truth list \<Rightarrow> score_missing \<Rightarrow> score_normalization \<Rightarrow>
   decimal option \<Rightarrow> decimal option \<Rightarrow> (decimal option \<times> string option) res" where
  "score_result terms items points outcomes mp nrm lo hi =
     (let start = \<lparr>sa_total = 0, sa_available_weight = 0, sa_missing = False\<rparr>;
          acc1 = fold add_term (zip (map score_term_weight terms) (map po_value items)) start;
          acc = fold add_points (zip points outcomes) acc1;
          w = sa_available_weight acc in
      if sa_missing acc \<and> mp = Score_require_all then Inr (None, Some ''score_term_unavailable'')
      else if w = 0 \<and> terms \<noteq> [] then Inr (None, Some ''score_weight_zero'')
      else ebind (if (mp = Score_renormalize_available \<or> nrm = Norm_sum_abs) \<and> w \<noteq> 0
                  then ddiv (sa_total acc) w else Inr (sa_total acc))
             (\<lambda>x. Inr (Some (clamp_high hi (clamp_low lo x)), None)))"

subsection \<open>Conditions without inner evaluation\<close>

fun compare_decimals :: "compare_op \<Rightarrow> decimal \<Rightarrow> decimal \<Rightarrow> bool" where
  "compare_decimals Lt x y \<longleftrightarrow> x < y"
| "compare_decimals Lte x y \<longleftrightarrow> x \<le> y"
| "compare_decimals Eq x y \<longleftrightarrow> x = y"
| "compare_decimals Neq x y \<longleftrightarrow> x \<noteq> y"
| "compare_decimals Gte x y \<longleftrightarrow> y \<le> x"
| "compare_decimals Gt x y \<longleftrightarrow> y < x"

definition compare_truth :: "compare_op \<Rightarrow> decimal option \<Rightarrow> decimal option \<Rightarrow> truth" where
  "compare_truth f l r =
     (case (l, r) of (Some x, Some y) \<Rightarrow> truth_of_bool (compare_decimals f x y) | _ \<Rightarrow> T_unknown)"

definition state_truth :: "runtime \<Rightarrow> string \<Rightarrow> string \<Rightarrow> truth" where
  "state_truth rt key expected = truth_of_bool (dget (rt_state rt) key = Some expected)"

definition event_window_truth :: "runtime \<Rightarrow> string \<Rightarrow> window_relation \<Rightarrow> int option \<Rightarrow> truth" where
  "event_window_truth rt event relation observations =
     (case dget (rt_event_cutoffs rt) event of
        None \<Rightarrow> if relation = Before then T_true else T_unknown
      | Some anchor \<Rightarrow>
          (let elapsed = rt_cutoff rt - anchor in
           case relation of
             Before \<Rightarrow> T_false
           | After \<Rightarrow> truth_of_bool (0 \<le> elapsed)
           | Within \<Rightarrow> truth_of_bool (0 \<le> elapsed \<and> elapsed \<le> or_zero observations)))"

text \<open>At least \<open>k\<close> children true, three-valued.\<close>

definition n_of_m :: "int \<Rightarrow> truth list \<Rightarrow> truth" where
  "n_of_m k vs =
     (let t = int (count_list vs T_true); u = int (count_list vs T_unknown)
      in if k \<le> t then T_true else if t + u < k then T_false else T_unknown)"

definition group_truth :: "group_kind \<Rightarrow> truth list \<Rightarrow> truth" where
  "group_truth k vs = (if k = Group_all then all_of vs else any_of vs)"

subsection \<open>\<open>value\<close> and \<open>condition\<close>\<close>

fun eval_value :: "platform \<Rightarrow> runtime \<Rightarrow> string list \<Rightarrow> string option \<Rightarrow> string option \<Rightarrow> value_expr \<Rightarrow> log \<Rightarrow> (observation \<times> log) res"
  and eval_condition :: "platform \<Rightarrow> runtime \<Rightarrow> string list \<Rightarrow> string option \<Rightarrow> string option \<Rightarrow> condition \<Rightarrow> log \<Rightarrow> (truth \<times> log) res" where
  "eval_value pf rt ms b c (V_daily n) obs = daily_observation pf rt n c b (rt_cutoff rt) obs"
| "eval_value pf rt ms b c (V_event_relative i e n off) obs =
     event_relative_value pf rt c b (V_event_relative i e n off) e n off obs"
| "eval_value pf rt ms b c (V_clocked i n k) obs = clocked_value pf rt c b (V_clocked i n k) n k obs"
| "eval_value pf rt ms b c (V_remembered i m q u r) obs =
     record_optional pf rt (V_remembered i m q u r) c ''remembered_value_unavailable''
       (dget (rt_remembered_values rt) m) obs"
| "eval_value pf rt ms b c (V_bars_since_event i e) obs =
     record_optional pf rt (V_bars_since_event i e) c ''event_not_observed''
       (bars_since rt (dget (rt_event_cutoffs rt) e)) obs"
| "eval_value pf rt ms b c (V_bars_since_state i k) obs =
     record_optional pf rt (V_bars_since_state i k) c ''state_entry_not_observed''
       (bars_since rt (dget (rt_state_entered_cutoffs rt) k)) obs"
| "eval_value pf rt ms b c (V_time_since_event i e) obs =
     ebind (time_since rt (dget (rt_event_cutoffs rt) e)) (\<lambda>x.
       record_optional pf rt (V_time_since_event i e) c ''temporal_anchor_unavailable'' x obs)"
| "eval_value pf rt ms b c (V_time_since_state i k) obs =
     ebind (time_since rt (dget (rt_state_entered_cutoffs rt) k)) (\<lambda>x.
       record_optional pf rt (V_time_since_state i k) c ''temporal_anchor_unavailable'' x obs)"
| "eval_value pf rt ms b c (V_cross_sectional i s u t d n) obs =
     (case c of
        None \<Rightarrow> Inl (Program_execution_error ''cross_section_requires_candidate'')
      | Some candidate \<Rightarrow>
          ebind (emap_st (\<lambda>m. eval_value pf rt ms b (Some m) s) ms obs) (\<lambda>(items, obs').
            let pairs = available_pairs ms items in
            ebind (cross_result d t n candidate pairs) (\<lambda>out.
              record_members pf rt (V_cross_sectional i s u t d n) c ms
                (map snd (rank_pairs d pairs)) (missing_of ms items) out obs')))"
| "eval_value pf rt ms b c (V_cross_aggregate i s u r cov) obs =
     ebind (emap_st (\<lambda>m. eval_value pf rt ms b (Some m) s) ms obs) (\<lambda>(items, obs').
       let pairs = available_pairs ms items; missing = missing_of ms items in
       ebind (aggregate_result r cov (map fst pairs) missing) (\<lambda>out.
         record_members pf rt (V_cross_aggregate i s u r cov) c ms (map snd pairs) missing out obs'))"
| "eval_value pf rt ms b c (V_score i terms points mp nrm lo hi) obs =
     ebind (emap_st (\<lambda>t. case t of Score_term j v w \<Rightarrow> eval_value pf rt ms b c v) terms obs) (\<lambda>(items, obs1).
     ebind (emap_st (\<lambda>t. case t of Point_term j k x y z \<Rightarrow> eval_condition pf rt ms b c k) points obs1) (\<lambda>(outcomes, obs2).
     ebind (score_result terms items points outcomes mp nrm lo hi) (\<lambda>out.
       record_value pf rt (V_score i terms points mp nrm lo hi) c (fst out) (snd out) obs2)))"
| "eval_value pf rt ms b c (V_literal i x q u r) obs =
     ebind (observed_at rt) (\<lambda>when.
       Inr (observation_at pf (V_literal i x q u r) c (Some x) None when, obs))"
| "eval_value pf rt ms b c (V_candidate_trailing_return i bnd n k) obs =
     Inl (Program_execution_error ''unsupported_program_value: CandidateTrailingReturnValue'')"
| "eval_value pf rt ms b c (V_candidate_current_price i bnd k) obs =
     Inl (Program_execution_error ''unsupported_program_value: CandidateCurrentPriceValue'')"
| "eval_condition pf rt ms b c (C_comparison i f l r) obs =
     ebind (eval_value pf rt ms b c l obs) (\<lambda>(left, obs1).
     ebind (eval_value pf rt ms b c r obs1) (\<lambda>(right, obs2).
       Inr (compare_truth f (po_value left) (po_value right), obs2)))"
| "eval_condition pf rt ms b c (C_state_equals i k e) obs = Inr (state_truth rt k e, obs)"
| "eval_condition pf rt ms b c (C_event_window i e r n) obs = Inr (event_window_truth rt e r n, obs)"
| "eval_condition pf rt ms b c (C_not i child) obs =
     ebind (eval_condition pf rt ms b c child obs) (\<lambda>(t, obs'). Inr (truth_not t, obs'))"
| "eval_condition pf rt ms b c (C_n_of_m i n children) obs =
     ebind (emap_st (eval_condition pf rt ms b c) children obs) (\<lambda>(vs, obs'). Inr (n_of_m n vs, obs'))"
| "eval_condition pf rt ms b c (C_group k i children) obs =
     ebind (emap_st (eval_condition pf rt ms b c) children obs) (\<lambda>(vs, obs'). Inr (group_truth k vs, obs'))"

end
