(* ===== verification/Program_Exec.thy ===== *)
theory Program_Exec
  imports Program_Values
begin

text \<open>
  The acting half of \<open>_Runtime\<close> in \<open>strategy/v2/program_execution.py\<close>: normalisation of raw
  weights into bounds, Selections, Allocations and the statements, each a step on the runtime.
\<close>

subsection \<open>Bounded normalisation\<close>

definition zero_or :: "decimal option \<Rightarrow> decimal \<Rightarrow> decimal" where
  "zero_or x dflt = (case x of None \<Rightarrow> dflt | Some v \<Rightarrow> if v = 0 then dflt else v)"

text \<open>One pass over the free assets: the weights to fix at the floor or at the cap, in name order.\<close>

definition clipped :: "decimal \<Rightarrow> decimal \<Rightarrow> (string, decimal) dict \<Rightarrow> string list \<Rightarrow> (string \<times> decimal) list" where
  "clipped floor_weight cap weights free =
     List.map_filter (\<lambda>a. let w = dget_or weights a 0 in
        if w < floor_weight then Some (a, floor_weight) else if cap < w then Some (a, cap) else None) (sort free)"

definition spread_free :: "platform \<Rightarrow> (string, decimal) dict \<Rightarrow> (string, decimal) dict \<Rightarrow> string list \<Rightarrow> (string, decimal) dict \<Rightarrow> (string, decimal) dict res" where
  "spread_free pf raw fixed free weights =
     (let remaining = dsub 1 (dsum (dvalues fixed)); order = pf_set_order pf free;
          total = dsum (map (\<lambda>a. dget_or raw a 0) order) in
      if free \<noteq> [] \<and> 0 < total
      then efold (\<lambda>a ws. ebind (ddiv (dmul remaining (dget_or raw a 0)) total) (\<lambda>w. Inr (dset a w ws))) order weights
      else Inr weights)"

fun clip_rounds ::
  "platform \<Rightarrow> decimal \<Rightarrow> decimal \<Rightarrow> (string, decimal) dict \<Rightarrow> nat \<Rightarrow>
   (string, decimal) dict \<times> (string, decimal) dict \<times> string list \<Rightarrow>
   ((string, decimal) dict \<times> (string, decimal) dict \<times> string list) res" where
  "clip_rounds pf floor_weight cap raw 0 st = Inr st"
| "clip_rounds pf floor_weight cap raw (Suc n) (weights, fixed, free) =
     ebind (spread_free pf raw fixed free weights) (\<lambda>weights'.
       let clip = clipped floor_weight cap weights' free in
       if clip = [] then Inr (weights', fixed, free)
       else clip_rounds pf floor_weight cap raw n
              (weights', fixed @ clip, filter (\<lambda>a. a \<notin> set (map fst clip)) free))"

definition anchor_tolerance :: decimal where
  "anchor_tolerance = 1 / 10 ^ 24"

text \<open>The asset with the largest raw weight, the smallest name among equals.\<close>

definition anchor_asset :: "(string, decimal) dict \<Rightarrow> string" where
  "anchor_asset raw = hd (sort_key (\<lambda>a. dneg (dget_or raw a 0)) (sort (dkeys raw)))"

definition settle_remainder :: "(string, decimal) dict \<Rightarrow> string option \<Rightarrow> (string, decimal) dict \<Rightarrow> (string, decimal) dict res" where
  "settle_remainder raw cash weights =
     (let remainder = dsub 1 (dsum (dvalues weights)) in
      if dabs remainder \<le> anchor_tolerance
      then let a = anchor_asset raw in Inr (dset a (dadd (dget_or weights a 0) remainder) weights)
      else if 1 < dsum (dvalues weights) then Inl (Program_execution_error ''allocation_bounds_conflict'')
      else (case cash of
              None \<Rightarrow> Inl (Program_execution_error ''allocation_remainder_without_cash'')
            | Some c \<Rightarrow> Inr (dset c (dadd (dget_or weights c 0) (dsub 1 (dsum (dvalues weights)))) weights)))"

definition bounded_normalize ::
  "platform \<Rightarrow> (string, decimal) dict \<Rightarrow> decimal option \<Rightarrow> decimal option \<Rightarrow> string option \<Rightarrow> (string, decimal) dict res" where
  "bounded_normalize pf raw minimum maximum cash =
     (let total = dsum (dvalues raw); count = of_nat (length raw);
          floor_weight = zero_or minimum 0; cap = zero_or maximum 1 in
      if raw = [] \<or> total \<le> 0 then Inl (Program_execution_error ''allocation_scores_not_positive'')
      else if 1 < dmul floor_weight count then Inl (Program_execution_error ''allocation_floor_conflict'')
      else if dmul cap count < 1 \<and> cash = None
      then Inl (Program_execution_error ''allocation_cap_requires_cash_remainder'')
      else
        ebind (emap (\<lambda>(a, x). ebind (ddiv x total) (\<lambda>w. Inr (a, w))) raw) (\<lambda>weights.
        ebind (clip_rounds pf floor_weight cap raw (length weights + 1) (weights, [], dkeys weights)) (\<lambda>(ws, fixed, free).
          settle_remainder raw cash (foldl (\<lambda>d (a, w). dset a w d) ws fixed))))"

subsection \<open>Recording evidence\<close>

definition add_evidence :: "string \<Rightarrow> string \<Rightarrow> string \<Rightarrow> evidence_detail \<Rightarrow> runtime \<Rightarrow> runtime" where
  "add_evidence i kind outcome detail rt =
     rt\<lparr>rt_evidence := rt_evidence rt @ [evidence_of i kind outcome detail]\<rparr>"

text \<open>Reading a Value or a Condition and keeping its observations.\<close>

definition run_value :: "platform \<Rightarrow> string list \<Rightarrow> string option \<Rightarrow> string option \<Rightarrow> value_expr \<Rightarrow> runtime \<Rightarrow> (observation \<times> runtime) res" where
  "run_value pf ms b c v rt =
     ebind (eval_value pf rt ms b c v (rt_observations rt)) (\<lambda>(ob, obs). Inr (ob, rt\<lparr>rt_observations := obs\<rparr>))"

definition run_condition :: "platform \<Rightarrow> string list \<Rightarrow> string option \<Rightarrow> string option \<Rightarrow> condition \<Rightarrow> runtime \<Rightarrow> (truth \<times> runtime) res" where
  "run_condition pf ms b c k rt =
     ebind (eval_condition pf rt ms b c k (rt_observations rt)) (\<lambda>(t, obs). Inr (t, rt\<lparr>rt_observations := obs\<rparr>))"

definition truth_text :: "truth \<Rightarrow> string" where
  "truth_text t = (case t of T_true \<Rightarrow> ''true'' | T_false \<Rightarrow> ''false'' | T_unknown \<Rightarrow> ''unknown'')"

subsection \<open>Selections\<close>

text \<open>One member: its score when it is eligible and its ranking value is available.\<close>

definition member_score :: "platform \<Rightarrow> selection \<Rightarrow> string list \<Rightarrow> string \<Rightarrow> runtime \<Rightarrow> (decimal option \<times> runtime) res" where
  "member_score pf s ms m rt =
     ebind (case sl_eligibility s of
              None \<Rightarrow> Inr (T_true, rt)
            | Some k \<Rightarrow> run_condition pf ms (Some (sl_binding_id s)) (Some m) k rt) (\<lambda>(t, rt1).
       if t \<noteq> T_true then Inr (None, rt1)
       else ebind (run_value pf ms (Some (sl_binding_id s)) (Some m) (sl_ranking s) rt1) (\<lambda>(ob, rt2).
              Inr (po_value ob, rt2)))"

definition pick_members :: "selection \<Rightarrow> string list \<Rightarrow> string list \<times> string" where
  "pick_members s ordered =
     (if ordered \<noteq> [] \<and> (sl_count s \<le> int (length ordered) \<or> sl_shortage_policy s = Choose_all)
      then (take (nat (sl_count s)) ordered, ''selected'')
      else if truthy (sl_fallback_asset s) then ([the (sl_fallback_asset s)], ''selection_fallback'')
      else ([], ''incomplete''))"

definition scored_pairs :: "string list \<Rightarrow> decimal option list \<Rightarrow> (decimal \<times> string) list" where
  "scored_pairs ms scores = List.map_filter (\<lambda>(m, x). map_option (\<lambda>v. (v, m)) x) (zip ms scores)"

definition run_selection :: "platform \<Rightarrow> selection_statement \<Rightarrow> runtime \<Rightarrow> runtime res" where
  "run_selection pf st rt =
     (let i = ss_semantic_id st; s = ss_selection st in
      ebind (clock_due rt (ss_clock_id st)) (\<lambda>due.
        if \<not> due then Inr (add_evidence i ''selection'' ''not_due'' (Detail (or_empty (ss_clock_id st))) rt)
        else
          ebind (universe_members rt (sl_universe_id s)) (\<lambda>ms.
          ebind (emap_st (member_score pf s ms) ms rt) (\<lambda>(scores, rt1).
            let pairs = scored_pairs ms scores; ranked = rank_pairs (sl_direction s) pairs;
                (selected, outcome) = pick_members s (map snd ranked) in
            Inr (add_evidence i ''selection'' outcome (Detail_members (map snd pairs) selected)
                   (rt1\<lparr>rt_selections := dset (ss_output_id st) selected (rt_selections rt1),
                        rt_selection_scores := dset (ss_output_id st)
                          (dict_of (map (\<lambda>(x, m). (m, x)) (filter (\<lambda>(x, m). m \<in> set selected) ranked)))
                          (rt_selection_scores rt1)\<rparr>))))))"

subsection \<open>Allocations\<close>

definition first_target_ref :: "allocation \<Rightarrow> string res" where
  "first_target_ref a =
     (case as_legs a of [] \<Rightarrow> Inl Index_error | l # _ \<Rightarrow> Inr (or_empty (al_target_ref l)))"

definition allocation_resolvable :: "runtime \<Rightarrow> allocation \<Rightarrow> bool res" where
  "allocation_resolvable rt a =
     (if \<not> list_all (\<lambda>l. al_target_kind l \<noteq> Target_selection \<or>
              dget_or (rt_selections rt) (or_empty (al_target_ref l)) [] \<noteq> []) (as_legs a)
      then Inr False
      else if score_derived (as_method a)
      then ebind (first_target_ref a) (\<lambda>ref.
             let scores = dget_or (rt_selection_scores rt) ref [] in
             if scores = [] then Inr (dget_or (rt_selections rt) ref [] \<noteq> [])
             else if as_method a = M_inverse_volatility then Inr (list_all (\<lambda>x. 0 < x) (dvalues scores))
             else Inr (list_ex (\<lambda>x. 0 < x) (dvalues scores)))
      else Inr True)"

definition target_assets :: "runtime \<Rightarrow> allocation_leg \<Rightarrow> string list res" where
  "target_assets rt l =
     (case al_target_kind l of
        Target_selection \<Rightarrow> Inr (dget_or (rt_selections rt) (or_empty (al_target_ref l)) [])
      | Target_group \<Rightarrow> universe_members rt (or_empty (al_target_ref l))
      | Target_asset \<Rightarrow> Inr [if truthy (al_target_ref l) then or_empty (al_target_ref l) else ''ASSET'']
      | Target_cash \<Rightarrow> Inr [if truthy (al_target_ref l) then or_empty (al_target_ref l) else ''CASH'']
      | Target_retain \<Rightarrow> Inr [])"

text \<open>
  The loop over the legs: a retain target ends the Allocation (\<open>None\<close>), otherwise the assets
  with their share of the leg's weight.
\<close>

fun expand_legs :: "runtime \<Rightarrow> allocation_leg list \<Rightarrow> (string \<times> decimal option) list \<Rightarrow> (string \<times> decimal option) list option res" where
  "expand_legs rt [] acc = Inr (Some acc)"
| "expand_legs rt (l # ls) acc =
     (if al_target_kind l = Target_retain then Inr None
      else ebind (target_assets rt l) (\<lambda>assets.
        if assets = [] then expand_legs rt ls acc
        else ebind (case al_weight l of
                      None \<Rightarrow> Inr None
                    | Some w \<Rightarrow> ebind (ddiv w (of_nat (length assets))) (\<lambda>x. Inr (Some x))) (\<lambda>share.
               expand_legs rt ls (acc @ map (\<lambda>a. (a, share)) assets))))"

text \<open>\<open>weights[asset] = weights.get(asset, 0) + w\<close> over the expanded targets.\<close>

definition add_weight :: "string \<times> decimal \<Rightarrow> (string, decimal) dict \<Rightarrow> (string, decimal) dict" where
  "add_weight p ws = dset (fst p) (dadd (dget_or ws (fst p) 0) (snd p)) ws"

definition accumulate :: "(string \<times> decimal) list \<Rightarrow> (string, decimal) dict" where
  "accumulate ps = fold add_weight ps []"

text \<open>The raw weights of the score-derived methods.\<close>

definition raw_weights :: "allocation_method \<Rightarrow> string list \<Rightarrow> (string, decimal) dict \<Rightarrow> (string, decimal) dict res" where
  "raw_weights m selected scores =
     (if m = M_proportional_score
      then Inr (dict_of (if selected \<noteq> [] \<and> \<not> list_ex (dhas scores) selected
                         then map (\<lambda>a. (a, 1)) selected
                         else map (\<lambda>a. (a, max 0 (dget_or scores a 0))) selected))
      else if list_ex (\<lambda>a. dget_or scores a 0 \<le> 0) selected
      then Inl (Program_execution_error ''inverse_volatility_requires_positive_values'')
      else ebind (emap (\<lambda>a. ebind (lookup_or_raise scores a) (\<lambda>x. ebind (ddiv 1 x) (\<lambda>w. Inr (a, w)))) selected)
             (\<lambda>ps. Inr (dict_of ps)))"

definition allocation_weights :: "platform \<Rightarrow> runtime \<Rightarrow> allocation \<Rightarrow> (string \<times> decimal option) list \<Rightarrow> (string, decimal) dict res" where
  "allocation_weights pf rt a expanded =
     (case as_method a of
        M_equal \<Rightarrow> ebind (ddiv 1 (of_nat (length expanded))) (\<lambda>w.
                     Inr (accumulate (map (\<lambda>(s, _). (s, w)) expanded)))
      | M_fixed \<Rightarrow> Inr (accumulate (map (\<lambda>(s, w). (s, weight_or_zero w)) expanded))
      | _ \<Rightarrow> ebind (first_target_ref a) (\<lambda>ref.
               ebind (raw_weights (as_method a) (dget_or (rt_selections rt) ref [])
                        (dget_or (rt_selection_scores rt) ref [])) (\<lambda>raw.
                 bounded_normalize pf raw (as_minimum_weight a) (as_maximum_weight a) (as_cash_remainder_asset a))))"

definition run_allocation :: "platform \<Rightarrow> allocation \<Rightarrow> string \<Rightarrow> runtime \<Rightarrow> runtime res" where
  "run_allocation pf a outcome rt =
     (let i = as_semantic_id a in
      ebind (clock_due rt (as_clock_id a)) (\<lambda>due.
        if \<not> due then Inr (add_evidence i ''allocation'' ''not_due'' (Detail (or_empty (as_clock_id a))) rt)
        else ebind (expand_legs rt (as_legs a) []) (\<lambda>targets.
          case targets of
            None \<Rightarrow> Inr (add_evidence i ''allocation'' ''retain'' (Detail ''retain current holdings'')
                           (rt\<lparr>rt_retained := True\<rparr>))
          | Some [] \<Rightarrow> Inr (add_evidence i ''allocation'' ''unresolved_retain''
                              (Detail ''no resolved targets; retain current holdings'') (rt\<lparr>rt_retained := True\<rparr>))
          | Some expanded \<Rightarrow>
              ebind (allocation_weights pf rt a expanded) (\<lambda>ws.
                Inr (add_evidence i ''allocation'' outcome (Detail_weights ws)
                       (rt\<lparr>rt_target_weights := ws, rt_retained := False\<rparr>))))))"

subsection \<open>Events\<close>

definition rising :: "event_trigger \<Rightarrow> bool" where
  "rising t \<longleftrightarrow> t \<in> {Rising_edge, Became_true, Crosses_above}"

definition falling :: "event_trigger \<Rightarrow> bool" where
  "falling t \<longleftrightarrow> t \<in> {Falling_edge, Became_false, Crosses_below}"

definition edge_triggered :: "event_trigger \<Rightarrow> string \<Rightarrow> string \<Rightarrow> bool" where
  "edge_triggered t current previous \<longleftrightarrow>
     t \<in> {While_true, Scheduled} \<and> current = ''true''
     \<or> rising t \<and> current = ''true'' \<and> previous \<noteq> ''true''
     \<or> falling t \<and> current = ''false'' \<and> previous = ''true''"

definition occurrence_admits :: "event_definition \<Rightarrow> int \<Rightarrow> bool" where
  "occurrence_admits e count \<longleftrightarrow>
     ed_occurrence e = Occ_every
     \<or> ed_occurrence e = Occ_first \<and> count = 1
     \<or> ed_occurrence e = Occ_ordinal \<and> ed_ordinal e = Some count"

definition required_condition :: "condition option \<Rightarrow> condition res" where
  "required_condition k = (case k of None \<Rightarrow> Inl Attribute_error | Some c \<Rightarrow> Inr c)"

text \<open>
  The truth one observation earlier, when the checkpoint has none: the Condition is evaluated in
  a fresh runtime at the previous cutoff, whose observations are dropped.
\<close>

definition prior_runtime :: "runtime \<Rightarrow> runtime" where
  "prior_runtime rt =
     new_runtime (rt_program rt) (rt_snapshot rt) (rt_cutoff rt - 1) (Some (rt_prior_state rt))
       (rt_event_cutoffs rt) [] (rt_event_counts rt) (rt_state_entered_cutoffs rt) (rt_remembered_values rt)"

definition previous_truth :: "platform \<Rightarrow> event_definition \<Rightarrow> runtime \<Rightarrow> string res" where
  "previous_truth pf e rt =
     (if ed_trigger e \<noteq> Scheduled \<and> \<not> dhas (rt_prior_event_truths rt) (ed_semantic_id e) \<and> 0 < rt_cutoff rt
      then ebind (required_condition (ed_condition e)) (\<lambda>k.
           ebind (run_condition pf [] None None k (prior_runtime rt)) (\<lambda>(t, _). Inr (truth_text t)))
      else Inr (dget_or (rt_prior_event_truths rt) (ed_semantic_id e) ''false''))"

definition current_truth :: "platform \<Rightarrow> event_definition \<Rightarrow> runtime \<Rightarrow> (string \<times> runtime) res" where
  "current_truth pf e rt =
     (if ed_trigger e = Scheduled then Inr (''true'', rt)
      else ebind (required_condition (ed_condition e)) (\<lambda>k.
           ebind (run_condition pf [] None None k rt) (\<lambda>(t, rt'). Inr (truth_text t, rt'))))"

text \<open>The event up to the decision whether it fires; its body is the caller's.\<close>

definition fire_event :: "platform \<Rightarrow> string \<Rightarrow> event_definition \<Rightarrow> runtime \<Rightarrow> (bool \<times> runtime) res" where
  "fire_event pf i e rt =
     (let a = ed_semantic_id e in
      ebind (current_truth pf e rt) (\<lambda>(current, rt1).
      ebind (previous_truth pf e rt1) (\<lambda>previous.
        let edge = edge_triggered (ed_trigger e) current previous;
            rt2 = rt1\<lparr>rt_event_truths := dset a current (rt_event_truths rt1)\<rparr>;
            count = dget_or (rt_event_counts rt2) a 0 + 1;
            rt3 = (if edge then rt2\<lparr>rt_event_counts := dset a count (rt_event_counts rt2)\<rparr> else rt2);
            fires = (edge \<and> occurrence_admits e count);
            rt4 = add_evidence i ''event'' (if fires then ''triggered'' else ''not_triggered'')
                    (Detail_event previous current (dget_or (rt_event_counts rt3) a 0)) rt3;
            rt5 = (if fires then rt4\<lparr>rt_event_cutoffs := dset a (rt_cutoff rt4) (rt_event_cutoffs rt4)\<rparr> else rt4)
        in Inr (fires, rt5))))"

subsection \<open>Transitions, memories, guarded Allocations\<close>

definition run_transition :: "platform \<Rightarrow> string \<Rightarrow> state_transition \<Rightarrow> runtime \<Rightarrow> runtime res" where
  "run_transition pf i tr rt =
     (let key = tr_state_key tr;
          matches = (tr_from_value tr = None \<or> dget (rt_state rt) key = tr_from_value tr) in
      ebind (if matches then run_condition pf [] None None (tr_when tr) rt else Inr (T_false, rt)) (\<lambda>(t, rt1).
        let changed = (dget (rt_state rt1) key \<noteq> Some (tr_to_value tr));
            rt2 = (if t = T_true
                   then rt1\<lparr>rt_state := dset key (tr_to_value tr) (rt_state rt1),
                            rt_state_entered_cutoffs :=
                              (if changed then dset key (rt_cutoff rt1) (rt_state_entered_cutoffs rt1)
                               else rt_state_entered_cutoffs rt1)\<rparr>
                   else rt1)
        in Inr (add_evidence i ''transition'' (truth_text t) (Detail_state key (dget (rt_state rt2) key)) rt2)))"

definition run_remember :: "platform \<Rightarrow> string \<Rightarrow> string \<Rightarrow> value_expr \<Rightarrow> runtime \<Rightarrow> runtime res" where
  "run_remember pf i memory v rt =
     ebind (run_value pf [] None None v rt) (\<lambda>(ob, rt1).
       case po_value ob of
         None \<Rightarrow> Inr (add_evidence i ''remember'' ''unavailable''
                        (Detail (if truthy (po_reason ob) then or_empty (po_reason ob) else ''unknown'')) rt1)
       | Some x \<Rightarrow> Inr (add_evidence i ''remember'' ''stored'' (Detail_memory memory x (po_expression_hash ob))
                          (rt1\<lparr>rt_remembered_values := dset memory x (rt_remembered_values rt1)\<rparr>)))"

text \<open>The first override, by falling priority, whose Condition is true.\<close>

fun first_override :: "platform \<Rightarrow> override_rule list \<Rightarrow> runtime \<Rightarrow> (override_rule option \<times> runtime) res" where
  "first_override pf [] rt = Inr (None, rt)"
| "first_override pf (r # rs) rt =
     ebind (run_condition pf [] None None (ov_when r) rt) (\<lambda>(t, rt1).
       if t = T_true then Inr (Some r, rt1) else first_override pf rs rt1)"

definition by_priority :: "override_rule list \<Rightarrow> override_rule list" where
  "by_priority rs = sort_key (\<lambda>r. - ov_priority r) rs"

definition run_guarded ::
  "platform \<Rightarrow> string \<Rightarrow> condition option \<Rightarrow> allocation \<Rightarrow> override_rule list \<Rightarrow> allocation option \<Rightarrow> guard_policy \<Rightarrow> runtime \<Rightarrow> runtime res" where
  "run_guarded pf i g primary overrides fallback policy rt =
     ebind (case g of None \<Rightarrow> Inr (T_true, rt) | Some k \<Rightarrow> run_condition pf [] None None k rt) (\<lambda>(t, rt1).
       if t = T_false \<or> (t = T_unknown \<and> policy = Guard_block)
       then Inr (add_evidence i ''guarded_allocation'' ''guard_blocked'' (Detail (truth_text t)) (rt1\<lparr>rt_retained := True\<rparr>))
       else
         ebind (first_override pf (by_priority overrides) rt1) (\<lambda>(chosen, rt2).
           case chosen of
             Some r \<Rightarrow>
               ebind (run_allocation pf (ov_action r) ''override'' rt2) (\<lambda>rt3.
                 Inr (add_evidence i ''policy_precedence'' ''override''
                        (Detail_override (ov_semantic_id r) (ov_priority r)) rt3))
           | None \<Rightarrow>
               ebind (allocation_resolvable rt2 primary) (\<lambda>ok.
                 if ok
                 then ebind (run_allocation pf primary ''primary'' rt2) (\<lambda>rt3.
                        Inr (add_evidence i ''policy_precedence'' ''primary'' (Detail_rule (as_semantic_id primary)) rt3))
                 else (case fallback of
                         Some alt \<Rightarrow>
                           ebind (run_allocation pf alt ''fallback'' rt2) (\<lambda>rt3.
                             Inr (add_evidence i ''policy_precedence'' ''fallback'' (Detail_rule (as_semantic_id alt)) rt3))
                       | None \<Rightarrow>
                           Inr (add_evidence i ''guarded_allocation'' ''unresolved_retain''
                                  (Detail ''primary unavailable and no fallback'') (rt2\<lparr>rt_retained := True\<rparr>))))))"

subsection \<open>Statements\<close>

definition control_detail :: "truth \<Rightarrow> unknown_policy \<Rightarrow> string" where
  "control_detail t policy =
     (case t of T_true \<Rightarrow> ''then'' | T_false \<Rightarrow> ''otherwise''
      | T_unknown \<Rightarrow> (case policy of Unknown_retain \<Rightarrow> ''retain'' | Unknown_otherwise \<Rightarrow> ''otherwise''))"

text \<open>\<open>if not self.clock_due(...): continue\<close>\<close>

definition when_due :: "string option \<Rightarrow> runtime \<Rightarrow> runtime res \<Rightarrow> runtime res" where
  "when_due clock_id rt body = ebind (clock_due rt clock_id) (\<lambda>due. if due then body else Inr rt)"

lemma when_due_cong [fundef_cong]:
  "c = c' \<Longrightarrow> rt = rt' \<Longrightarrow> body = body' \<Longrightarrow> when_due c rt body = when_due c' rt' body'"
  by simp

fun run_statement :: "platform \<Rightarrow> statement \<Rightarrow> runtime \<Rightarrow> runtime res" where
  "run_statement pf (S_select st) rt = run_selection pf st rt"
| "run_statement pf (S_allocate a) rt = run_allocation pf a ''allocated'' rt"
| "run_statement pf (S_control i k yes no policy clock_id) rt =
     when_due clock_id rt
       (ebind (run_condition pf [] None None k rt) (\<lambda>(t, rt1).
          let rt2 = add_evidence i ''control'' (truth_text t) (Detail (control_detail t policy)) rt1 in
          if t = T_true then efold (run_statement pf) yes rt2
          else if t = T_false \<or> policy = Unknown_otherwise then efold (run_statement pf) no rt2
          else Inr (rt2\<lparr>rt_retained := True\<rparr>)))"
| "run_statement pf (S_event i e body) rt =
     when_due (Some (ed_clock_id e)) rt
       (ebind (fire_event pf i e rt) (\<lambda>(fires, rt1).
          if fires then efold (run_statement pf) body rt1 else Inr rt1))"
| "run_statement pf (S_transition i tr) rt = when_due (tr_clock_id tr) rt (run_transition pf i tr rt)"
| "run_statement pf (S_remember i memory v clock_id) rt =
     when_due clock_id rt (run_remember pf i memory v rt)"
| "run_statement pf (S_guarded i g primary overrides fallback policy) rt =
     run_guarded pf i g primary overrides fallback policy rt"
| "run_statement pf (S_unresolved i p c d) rt =
     Inl (Program_execution_error ''unresolved_statement_cannot_execute'')"

definition run_statements :: "platform \<Rightarrow> statement list \<Rightarrow> runtime \<Rightarrow> runtime res" where
  "run_statements pf sts rt = efold (run_statement pf) sts rt"

end
