(* ===== verification/Validation.thy ===== *)
theory Validation
  imports Program_Model
begin

text \<open>
  \<open>strategy/v2/validation.py\<close> and the typing half of \<open>strategy/v2/program_validation.py\<close>: which
  nodes and Values an expression holds, the type of a Program Value, and the diagnostics of
  comparisons and conditions under a role. A diagnostic is its code and path; the message text
  is not modelled.
\<close>

subsection \<open>Nodes and Values of an expression\<close>

text \<open>\<open>stack.pop()\<close> visits a node, then its operands from the last.\<close>

fun stack_nodes :: "daily_node \<Rightarrow> daily_node list" where
  "stack_nodes (Daily_node f ops) = Daily_node f ops # concat (map stack_nodes (rev ops))"

lemma set_stack_nodes: "set (stack_nodes n) = set (subnodes n)"
  by (induction n rule: stack_nodes.induct) auto

fun condition_values :: "condition \<Rightarrow> value_expr list" where
  "condition_values (C_comparison _ _ l r) = [l, r]"
| "condition_values (C_group _ _ cs) = concat (map condition_values cs)"
| "condition_values (C_n_of_m _ _ cs) = concat (map condition_values cs)"
| "condition_values (C_not _ c) = condition_values c"
| "condition_values _ = []"

lemma condition_values_size [termination_simp]: "v \<in> set (condition_values c) \<Longrightarrow> size v < size c"
proof (induction c rule: condition_values.induct)
  case (2 k i cs)
  then obtain c where c: "c \<in> set cs" "v \<in> set (condition_values c)" by auto
  then have "size v < size c" using 2 by blast
  moreover have "size c \<le> size_list size cs" using c(1) by (rule size_list_estimation') simp
  ultimately show ?case by simp
next
  case (3 i n cs)
  then obtain c where c: "c \<in> set cs" "v \<in> set (condition_values c)" by auto
  then have "size v < size c" using 3 by blast
  moreover have "size c \<le> size_list size cs" using c(1) by (rule size_list_estimation') simp
  ultimately show ?case by simp
qed auto

fun daily_nodes_for_value :: "value_expr \<Rightarrow> daily_node list" where
  "daily_nodes_for_value (V_daily n) = stack_nodes n"
| "daily_nodes_for_value (V_cross_sectional _ s _ _ _ _) = daily_nodes_for_value s"
| "daily_nodes_for_value (V_cross_aggregate _ s _ _ _) = daily_nodes_for_value s"
| "daily_nodes_for_value (V_score _ terms points _ _ _ _) =
     concat (map (\<lambda>t. case t of Score_term _ v _ \<Rightarrow> daily_nodes_for_value v) terms)
     @ concat (map (\<lambda>t. case t of Point_term _ c _ _ _ \<Rightarrow>
                 concat (map daily_nodes_for_value (condition_values c))) points)"
| "daily_nodes_for_value (V_event_relative _ _ n _) = stack_nodes n"
| "daily_nodes_for_value (V_clocked _ n _) = stack_nodes n"
| "daily_nodes_for_value _ = []"

subsection \<open>Types of Program Values\<close>

fun transform_text :: "cross_transform \<Rightarrow> string" where
  "transform_text X_rank = ''rank''"
| "transform_text X_percentile = ''percentile''"
| "transform_text X_quantile = ''quantile''"
| "transform_text X_bucket = ''bucket''"
| "transform_text X_min_max = ''min_max''"
| "transform_text X_zscore = ''zscore''"

definition plain_type :: "semantic_dtype \<Rightarrow> quantity \<Rightarrow> unit_of \<Rightarrow> string option \<Rightarrow> semantic_type" where
  "plain_type d q u r = \<lparr>st_dtype = d, st_quantity = q, st_unit = u, st_refinement = r, st_axes = [], st_clock = None\<rparr>"

definition cross_type :: "cross_transform \<Rightarrow> semantic_type \<Rightarrow> semantic_type" where
  "cross_type t s =
     s\<lparr>st_quantity := Q_score,
       st_unit := (if t \<in> {X_percentile, X_min_max, X_zscore} then U_ratio else U_points),
       st_refinement := Some (''cross_sectional:'' @ transform_text t @ ''@1''), st_axes := []\<rparr>"

definition score_type :: "semantic_type option \<Rightarrow> semantic_type" where
  "score_type template =
     (case template of None \<Rightarrow> plain_type DT_decimal Q_score U_points None | Some t \<Rightarrow> t)
       \<lparr>st_quantity := Q_score, st_unit := U_points, st_refinement := Some ''weighted_score@1'', st_axes := []\<rparr>"

definition check_term_type :: "semantic_type \<Rightarrow> unit res" where
  "check_term_type t =
     (if st_dtype t \<notin> {DT_decimal, DT_integer} then Inl (Value_error ''score_term_not_numeric'')
      else if st_unit t \<notin> {U_ratio, U_points} then Inl (Value_error ''score_term_not_dimensionless'')
      else Inr ())"

fun infer_program_value_type :: "string option \<Rightarrow> value_expr \<Rightarrow> semantic_type res" where
  "infer_program_value_type b (V_daily n) = infer_daily_type b n"
| "infer_program_value_type b (V_cross_sectional _ s _ t _ _) =
     ebind (infer_program_value_type b s) (\<lambda>ty. Inr (cross_type t ty))"
| "infer_program_value_type b (V_cross_aggregate _ s _ _ _) =
     ebind (infer_program_value_type b s) (\<lambda>ty. Inr (ty\<lparr>st_axes := []\<rparr>))"
| "infer_program_value_type b (V_score _ terms _ _ _ _ _) =
     ebind (emap (\<lambda>t. case t of Score_term _ v _ \<Rightarrow>
              ebind (infer_program_value_type b v) (\<lambda>ty. ebind (check_term_type ty) (\<lambda>_. Inr ty))) terms) (\<lambda>tys.
       Inr (score_type (case tys of [] \<Rightarrow> None | ty # _ \<Rightarrow> Some ty)))"
| "infer_program_value_type b (V_event_relative _ _ n _) = infer_daily_type b n"
| "infer_program_value_type b (V_clocked _ n _) = infer_daily_type b n"
| "infer_program_value_type b (V_remembered _ _ q u r) = Inr (plain_type DT_decimal q u r)"
| "infer_program_value_type b (V_bars_since_event _ _) =
     Inr (plain_type DT_integer Q_count U_count (Some ''elapsed_observations@1''))"
| "infer_program_value_type b (V_bars_since_state _ _) =
     Inr (plain_type DT_integer Q_count U_count (Some ''elapsed_observations@1''))"
| "infer_program_value_type b (V_time_since_event _ _) =
     Inr (plain_type DT_integer Q_count U_count (Some ''elapsed_calendar_days@1''))"
| "infer_program_value_type b (V_time_since_state _ _) =
     Inr (plain_type DT_integer Q_count U_count (Some ''elapsed_calendar_days@1''))"
| "infer_program_value_type b v =
     (case legacy_semantic_type v of None \<Rightarrow> Inl (Value_error ''unsupported_program_value'') | Some t \<Rightarrow> Inr t)"

definition infer_value_type :: "string option \<Rightarrow> value_expr \<Rightarrow> semantic_type res" where
  "infer_value_type b v =
     (case v of
        V_daily n \<Rightarrow> infer_daily_type b n
      | _ \<Rightarrow> (case legacy_semantic_type v of Some t \<Rightarrow> Inr t | None \<Rightarrow> infer_program_value_type b v))"

text \<open>Outside daily nodes and the compatibility values, a Program Value is always a scalar.\<close>

fun scalar_by_construction :: "value_expr \<Rightarrow> bool" where
  "scalar_by_construction (V_daily _) \<longleftrightarrow> False"
| "scalar_by_construction (V_event_relative _ _ _ _) \<longleftrightarrow> False"
| "scalar_by_construction (V_clocked _ _ _) \<longleftrightarrow> False"
| "scalar_by_construction _ \<longleftrightarrow> True"

lemma infer_scalar:
  assumes "scalar_by_construction v" and "infer_value_type b v = Inr t"
  shows "st_axes t = []"
  using assms
  by (cases v) (auto simp: infer_value_type_def cross_type_def score_type_def plain_type_def elim!: ebind_InrE)

subsection \<open>Diagnostics of comparisons\<close>

datatype semantic_role = Role_predicate | Role_eligibility | Role_ranking | Role_allocation_input | Role_research_preview

record diagnostic =
  sd_code :: string
  sd_path :: string

definition diagnostic_of :: "string \<Rightarrow> string \<Rightarrow> diagnostic" where
  "diagnostic_of code path = \<lparr>sd_code = code, sd_path = path\<rparr>"

text \<open>\<open>str(exc).split(":", 1)[0]\<close>.\<close>

fun error_text :: "py_error \<Rightarrow> string" where
  "error_text (Value_error s) = s"
| "error_text (Daily_value_error s) = s"
| "error_text (Semantic_type_error s) = s"
| "error_text (Program_execution_error s) = s"
| "error_text (V2_execution_error s) = s"
| "error_text _ = []"

definition error_code :: "py_error \<Rightarrow> string" where
  "error_code e = takeWhile (\<lambda>c. c \<noteq> CHR '':'') (error_text e)"

text \<open>\<open>try: ... except ValueError as exc: ... else: ...\<close>\<close>

definition try_value_error :: "'a res \<Rightarrow> (py_error \<Rightarrow> 'b) \<Rightarrow> ('a \<Rightarrow> 'b) \<Rightarrow> 'b res" where
  "try_value_error m handler f =
     (case m of Inr x \<Rightarrow> Inr (f x) | Inl e \<Rightarrow> if is_value_error e then Inr (handler e) else Inl e)"

definition daily_candidate_ids :: "daily_node \<Rightarrow> string list" where
  "daily_candidate_ids n =
     List.map_filter (\<lambda>m. let f = dn_fields m in
       if nf_subject_kind f = Some Subject_candidate \<and> truthy (nf_binding_id f) then nf_binding_id f else None)
       (stack_nodes n)"

definition bindings_of :: "value_expr \<Rightarrow> string list" where
  "bindings_of v =
     (case v of
        V_daily n \<Rightarrow> daily_candidate_ids n
      | V_candidate_trailing_return _ b _ _ \<Rightarrow> [b]
      | V_candidate_current_price _ b _ \<Rightarrow> [b]
      | _ \<Rightarrow> concat (map daily_candidate_ids (daily_nodes_for_value v)))"

definition binding_diagnostics :: "semantic_role \<Rightarrow> string option \<Rightarrow> string \<Rightarrow> value_expr \<Rightarrow> diagnostic list" where
  "binding_diagnostics role bound path v =
     map (\<lambda>_. diagnostic_of ''unbound_candidate'' path)
       (filter (\<lambda>c. role = Role_predicate \<or> Some c \<noteq> bound) (bindings_of v))"

definition comparison_axes :: "string option \<Rightarrow> value_expr \<Rightarrow> value_expr \<Rightarrow> axis list res" where
  "comparison_axes bound l r =
     ebind (infer_value_type bound l) (\<lambda>lt. ebind (infer_value_type bound r) (require_compatible_values lt))"

definition validate_comparison :: "semantic_role \<Rightarrow> string option \<Rightarrow> value_expr \<Rightarrow> value_expr \<Rightarrow> diagnostic list res" where
  "validate_comparison role bound l r =
     (let ds = binding_diagnostics role bound ''left'' l @ binding_diagnostics role bound ''right'' r in
      try_value_error (comparison_axes bound l r)
        (\<lambda>e. ds @ [diagnostic_of (error_code e) ''comparison''])
        (\<lambda>axes. if role = Role_predicate \<and> axes \<noteq> []
                 then ds @ [diagnostic_of ''requires_scalar_predicate'' ''comparison''] else ds))"

subsection \<open>Diagnostics of conditions\<close>

text \<open>Depth, largest number of children, number of nodes; the maximum of no children raises.\<close>

definition py_max :: "int list \<Rightarrow> int res" where
  "py_max xs = (if xs = [] then Inl (Value_error ''max() arg is an empty sequence'') else Inr (Max (set xs)))"

fun condition_limits :: "condition \<Rightarrow> (int \<times> int \<times> int) res" where
  "condition_limits (C_not _ c) =
     ebind (condition_limits c) (\<lambda>(depth, width, nodes). Inr (depth + 1, width, nodes + 1))"
| "condition_limits (C_group _ _ cs) =
     ebind (emap condition_limits cs) (\<lambda>ls.
     ebind (py_max (map fst ls)) (\<lambda>d.
       Inr (1 + d, Max (set (int (length cs) # map (fst \<circ> snd) ls)), 1 + sum_list (map (snd \<circ> snd) ls))))"
| "condition_limits (C_n_of_m _ _ cs) =
     ebind (emap condition_limits cs) (\<lambda>ls.
     ebind (py_max (map fst ls)) (\<lambda>d.
       Inr (1 + d, Max (set (int (length cs) # map (fst \<circ> snd) ls)), 1 + sum_list (map (snd \<circ> snd) ls))))"
| "condition_limits _ = Inr (1, 0, 1)"

definition limit_diagnostics :: "int \<times> int \<times> int \<Rightarrow> diagnostic list" where
  "limit_diagnostics l =
     (case l of (depth, width, nodes) \<Rightarrow>
        (if 4 < depth then [diagnostic_of ''condition_depth_limit'' ''condition''] else [])
        @ (if 12 < width then [diagnostic_of ''condition_width_limit'' ''condition''] else [])
        @ (if 40 < nodes then [diagnostic_of ''condition_node_limit'' ''condition''] else []))"

definition program_condition_diagnostics :: "semantic_role \<Rightarrow> diagnostic list" where
  "program_condition_diagnostics role =
     (if role \<noteq> Role_predicate then [diagnostic_of ''state_condition_role_forbidden'' ''condition''] else [])"

fun validate_condition :: "semantic_role \<Rightarrow> string option \<Rightarrow> condition \<Rightarrow> diagnostic list res" where
  "validate_condition role bound c =
     ebind (condition_limits c) (\<lambda>limits.
     ebind (case c of
              C_comparison _ _ l r \<Rightarrow> validate_comparison role bound l r
            | C_state_equals _ _ _ \<Rightarrow> Inr (program_condition_diagnostics role)
            | C_event_window _ _ _ _ \<Rightarrow> Inr (program_condition_diagnostics role)
            | C_group _ _ cs \<Rightarrow> ebind (emap (validate_condition role bound) cs) (\<lambda>dss. Inr (concat dss))
            | C_n_of_m _ _ cs \<Rightarrow> ebind (emap (validate_condition role bound) cs) (\<lambda>dss. Inr (concat dss))
            | C_not _ child \<Rightarrow> validate_condition role bound child) (\<lambda>ds.
       Inr (limit_diagnostics limits @ ds)))"

declare validate_condition.simps [simp del]

text \<open>The comparisons inside a condition.\<close>

fun comparisons_of :: "condition \<Rightarrow> (value_expr \<times> value_expr) list" where
  "comparisons_of (C_comparison _ _ l r) = [(l, r)]"
| "comparisons_of (C_group _ _ cs) = concat (map comparisons_of cs)"
| "comparisons_of (C_n_of_m _ _ cs) = concat (map comparisons_of cs)"
| "comparisons_of (C_not _ c) = comparisons_of c"
| "comparisons_of _ = []"

subsection \<open>History requirements\<close>

text \<open>
  \<open>_history_requirement\<close> plans a daily node with no binding. A Value without any daily node
  raises \<open>TypeError\<close>.
\<close>

definition value_history :: "(daily_node \<Rightarrow> string) \<Rightarrow> value_expr \<Rightarrow> history_requirement res" where
  "value_history digest v =
     (case v of
        V_candidate_trailing_return _ _ n _ \<Rightarrow> Inr (history_requirement_of (n + 1))
      | V_candidate_current_price _ _ _ \<Rightarrow> Inr (history_requirement_of 1)
      | V_literal _ _ _ _ _ \<Rightarrow> Inr (history_requirement_of 0)
      | V_daily n \<Rightarrow> ebind (plan_daily_value digest None n) (\<lambda>p. Inr (tp_history p))
      | _ \<Rightarrow>
          (let nodes = daily_nodes_for_value v in
           if nodes = [] then Inl Type_error
           else ebind (emap (plan_daily_value digest None) nodes) (\<lambda>ps.
                ebind (py_max (map (\<lambda>p. hr_minimum_history_lower_bound (tp_history p)) ps)) (\<lambda>m.
                  Inr (history_requirement_of m)))))"

end
