(* ===== verification/Program_Validation.thy ===== *)
theory Program_Validation
  imports Validation
begin

text \<open>
  \<open>validate_program_v2\<close> of \<open>strategy/v2/program_validation.py\<close> and \<open>validate_strategy_v2\<close>,
  \<open>requirements_for_strategy\<close> of \<open>strategy/v2/validation.py\<close>. The JSON dump of a model
  (pydantic) and the digest of a JSON value are parameters; sets of ids are lists used only
  for membership.
\<close>

subsection \<open>One semantic id, one content\<close>

datatype json =
    J_null
  | J_bool bool
  | J_number decimal
  | J_string string
  | J_list "json list"
  | J_object "(string \<times> json) list"

record identity_acc =
  ia_identities :: "(string, string \<times> string) dict"
  ia_diagnostics :: "diagnostic list"

definition object_id :: "(string \<times> json) list \<Rightarrow> string option" where
  "object_id kvs = (case map_of kvs ''semantic_id'' of Some (J_string s) \<Rightarrow> Some s | _ \<Rightarrow> None)"

definition note_identity :: "(json \<Rightarrow> string) \<Rightarrow> (string \<times> json) list \<Rightarrow> string \<Rightarrow> identity_acc \<Rightarrow> identity_acc" where
  "note_identity hash kvs path acc =
     (case object_id kvs of
        None \<Rightarrow> acc
      | Some i \<Rightarrow>
          let h = hash (J_object (filter (\<lambda>(k, _). k \<noteq> ''semantic_id'') kvs));
              keep = acc\<lparr>ia_identities := dset i (h, path) (ia_identities acc)\<rparr>
          in case dget (ia_identities acc) i of
               None \<Rightarrow> keep
             | Some (h', _) \<Rightarrow>
                 if h' \<noteq> h
                 then acc\<lparr>ia_diagnostics := ia_diagnostics acc @ [diagnostic_of ''semantic_id_content_conflict'' path]\<rparr>
                 else keep)"

fun inspect_identity :: "(json \<Rightarrow> string) \<Rightarrow> json \<Rightarrow> string \<Rightarrow> identity_acc \<Rightarrow> identity_acc"
  and inspect_items :: "(json \<Rightarrow> string) \<Rightarrow> (string \<times> json) list \<Rightarrow> string \<Rightarrow> identity_acc \<Rightarrow> identity_acc"
  and inspect_elements :: "(json \<Rightarrow> string) \<Rightarrow> json list \<Rightarrow> nat \<Rightarrow> string \<Rightarrow> identity_acc \<Rightarrow> identity_acc" where
  "inspect_identity hash (J_object kvs) path acc = inspect_items hash kvs path (note_identity hash kvs path acc)"
| "inspect_identity hash (J_list xs) path acc = inspect_elements hash xs 0 path acc"
| "inspect_identity hash _ path acc = acc"
| "inspect_items hash [] path acc = acc"
| "inspect_items hash ((k, x) # kvs) path acc =
     inspect_items hash kvs path (inspect_identity hash x (path @ ''.'' @ k) acc)"
| "inspect_elements hash [] i path acc = acc"
| "inspect_elements hash (x # xs) i path acc =
     inspect_elements hash xs (Suc i) path (inspect_identity hash x (path @ ''['' @ str_of_nat i @ '']'') acc)"

definition identity_diagnostics :: "(json \<Rightarrow> string) \<Rightarrow> json \<Rightarrow> diagnostic list" where
  "identity_diagnostics hash doc =
     ia_diagnostics (inspect_identity hash doc ''program'' \<lparr>ia_identities = [], ia_diagnostics = []\<rparr>)"

subsection \<open>Ids an expression defines\<close>

fun condition_state_keys :: "condition \<Rightarrow> string list" where
  "condition_state_keys (C_state_equals _ k _) = [k]"
| "condition_state_keys (C_group _ _ cs) = concat (map condition_state_keys cs)"
| "condition_state_keys (C_n_of_m _ _ cs) = concat (map condition_state_keys cs)"
| "condition_state_keys (C_not _ c) = condition_state_keys c"
| "condition_state_keys _ = []"

fun condition_event_windows :: "condition \<Rightarrow> string list" where
  "condition_event_windows (C_event_window _ e _ _) = [e]"
| "condition_event_windows (C_group _ _ cs) = concat (map condition_event_windows cs)"
| "condition_event_windows (C_n_of_m _ _ cs) = concat (map condition_event_windows cs)"
| "condition_event_windows (C_not _ c) = condition_event_windows c"
| "condition_event_windows _ = []"

definition node_ids :: "daily_node \<Rightarrow> string list" where
  "node_ids n = map (\<lambda>m. nf_semantic_id (dn_fields m)) (stack_nodes n)"

fun value_semantic_ids :: "value_expr \<Rightarrow> string list"
  and condition_semantic_ids :: "condition \<Rightarrow> string list" where
  "value_semantic_ids (V_daily n) = node_ids n"
| "value_semantic_ids (V_cross_sectional i s _ _ _ _) = i # value_semantic_ids s"
| "value_semantic_ids (V_cross_aggregate i s _ _ _) = i # value_semantic_ids s"
| "value_semantic_ids (V_score i terms points _ _ _ _) =
     i # concat (map (\<lambda>t. case t of Score_term j v _ \<Rightarrow> j # value_semantic_ids v) terms)
       @ concat (map (\<lambda>t. case t of Point_term j c _ _ _ \<Rightarrow> j # condition_semantic_ids c) points)"
| "value_semantic_ids (V_event_relative i _ n _) = i # node_ids n"
| "value_semantic_ids (V_clocked i n _) = i # node_ids n"
| "value_semantic_ids v = [value_semantic_id v]"
| "condition_semantic_ids (C_comparison i _ l r) = i # value_semantic_ids l @ value_semantic_ids r"
| "condition_semantic_ids (C_group _ i cs) = i # concat (map condition_semantic_ids cs)"
| "condition_semantic_ids (C_n_of_m i _ cs) = i # concat (map condition_semantic_ids cs)"
| "condition_semantic_ids (C_not i c) = i # condition_semantic_ids c"
| "condition_semantic_ids c = [condition_semantic_id c]"

fun cross_domains :: "value_expr \<Rightarrow> string list" where
  "cross_domains (V_cross_sectional _ s d _ _ _) = d # cross_domains s"
| "cross_domains (V_cross_aggregate _ s d _ _) = d # cross_domains s"
| "cross_domains (V_score _ terms _ _ _ _ _) =
     concat (map (\<lambda>t. case t of Score_term _ v _ \<Rightarrow> cross_domains v) terms)"
| "cross_domains _ = []"

definition score_conditions :: "value_expr \<Rightarrow> condition list" where
  "score_conditions v =
     (case v of V_score _ _ points _ _ _ _ \<Rightarrow> map (\<lambda>t. case t of Point_term _ c _ _ _ \<Rightarrow> c) points | _ \<Rightarrow> [])"

definition selection_values :: "selection \<Rightarrow> value_expr list" where
  "selection_values s =
     sl_ranking s # (case sl_eligibility s of None \<Rightarrow> [] | Some c \<Rightarrow> condition_values c)"

definition optional_values :: "condition option \<Rightarrow> value_expr list" where
  "optional_values c = (case c of None \<Rightarrow> [] | Some k \<Rightarrow> condition_values k)"

text \<open>\<open>program_values\<close>: the work list takes the last statement first, then its children.\<close>

fun statement_values :: "statement \<Rightarrow> value_expr list" where
  "statement_values (S_select st) = selection_values (ss_selection st)"
| "statement_values (S_control _ k yes no _ _) =
     condition_values k @ concat (map statement_values (rev no)) @ concat (map statement_values (rev yes))"
| "statement_values (S_event _ e body) =
     optional_values (ed_condition e) @ concat (map statement_values (rev body))"
| "statement_values (S_transition _ tr) = condition_values (tr_when tr)"
| "statement_values (S_guarded _ g _ overrides _ _) =
     optional_values g @ concat (map (\<lambda>r. condition_values (ov_when r)) overrides)"
| "statement_values (S_remember _ _ v _) = [v]"
| "statement_values _ = []"

definition program_values :: "program \<Rightarrow> value_expr list" where
  "program_values p = concat (map statement_values (rev (pg_statements p)))"

subsection \<open>The checker's state\<close>

record checker =
  ch_diagnostics :: "diagnostic list"
  ch_statement_ids :: "string list"
  ch_event_ids :: "string list"
  ch_outputs :: "string list"
  ch_output_types :: "(string, semantic_type) dict"
  ch_memories :: "string list"
  ch_event_windows :: "(string \<times> string) list"
  ch_condition_ids :: "string list"

definition report :: "string \<Rightarrow> string \<Rightarrow> checker \<Rightarrow> checker" where
  "report code path ck = ck\<lparr>ch_diagnostics := ch_diagnostics ck @ [diagnostic_of code path]\<rparr>"

definition report_if :: "bool \<Rightarrow> string \<Rightarrow> string \<Rightarrow> checker \<Rightarrow> checker" where
  "report_if c code path ck = (if c then report code path ck else ck)"

definition indexed :: "string \<Rightarrow> nat \<Rightarrow> string" where
  "indexed path i = path @ ''['' @ str_of_nat i @ '']''"

text \<open>The inner function \<open>condition\<close>.\<close>

definition check_condition :: "program \<Rightarrow> condition \<Rightarrow> string \<Rightarrow> semantic_role \<Rightarrow> string option \<Rightarrow> checker \<Rightarrow> checker res" where
  "check_condition p c path role binding ck =
     ebind (validate_condition role binding c) (\<lambda>ds.
       let ck1 = ck\<lparr>ch_diagnostics := ch_diagnostics ck @ ds,
                    ch_condition_ids := ch_condition_ids ck @ condition_semantic_ids c,
                    ch_event_windows := ch_event_windows ck @ map (\<lambda>e. (e, path)) (condition_event_windows c)\<rparr>
       in Inr (fold (\<lambda>k. report_if (\<not> dhas (pg_initial_state p) k) ''undeclared_state'' path)
                 (condition_state_keys c) ck1))"

definition check_optional :: "program \<Rightarrow> condition option \<Rightarrow> string \<Rightarrow> checker \<Rightarrow> checker res" where
  "check_optional p c path ck =
     (case c of None \<Rightarrow> Inr ck | Some k \<Rightarrow> check_condition p k path Role_predicate None ck)"

definition check_clock :: "program \<Rightarrow> string option \<Rightarrow> string \<Rightarrow> checker \<Rightarrow> checker" where
  "check_clock p c path =
     report_if (case c of None \<Rightarrow> False | Some i \<Rightarrow> i \<notin> set (map pc_id (pg_clocks p))) ''unknown_program_clock'' path"

definition register_statement :: "string \<Rightarrow> string \<Rightarrow> checker \<Rightarrow> checker" where
  "register_statement i path ck =
     (let ck1 = report_if (i \<in> set (ch_statement_ids ck)) ''duplicate_program_semantic_id'' path ck
      in ck1\<lparr>ch_statement_ids := i # ch_statement_ids ck1\<rparr>)"

definition check_legs :: "string list \<Rightarrow> string \<Rightarrow> allocation_leg list \<Rightarrow> checker \<Rightarrow> checker" where
  "check_legs available path legs =
     fold (\<lambda>(i, l). report_if (al_target_kind l = Target_selection \<and> al_target_ref l \<notin> Some ` set available)
             ''unknown_selection_output'' (indexed (path @ ''.legs'') i @ ''.target.ref''))
       (zip [0..<length legs] legs)"

definition starts_with :: "string \<Rightarrow> string \<Rightarrow> bool" where
  "starts_with prefix s \<longleftrightarrow> take (length prefix) s = prefix"

definition check_allocation :: "program \<Rightarrow> allocation \<Rightarrow> string \<Rightarrow> string list \<Rightarrow> checker \<Rightarrow> checker res" where
  "check_allocation p a path available ck =
     (let ck1 = check_legs available path (as_legs a) (check_clock p (as_clock_id a) (path @ ''.clock_id'') ck) in
      if score_derived (as_method a)
      then (case as_legs a of
              [] \<Rightarrow> Inl Index_error
            | l # _ \<Rightarrow>
                (case dget (ch_output_types ck1) (or_empty (al_target_ref l)) of
                   None \<Rightarrow> Inr ck1
                 | Some t \<Rightarrow> Inr
                     (report_if (as_method a = M_inverse_volatility \<and> \<not> starts_with ''realized_volatility:'' (or_empty (st_refinement t)))
                        ''inverse_volatility_requires_volatility'' (path @ ''.method'')
                     (report_if (as_method a = M_proportional_score \<and> st_quantity t \<noteq> Q_score)
                        ''proportional_allocation_requires_score'' (path @ ''.method'') ck1))))
      else Inr ck1)"

subsection \<open>Statements\<close>

definition check_domains :: "selection \<Rightarrow> string \<Rightarrow> checker \<Rightarrow> checker" where
  "check_domains s path ck =
     (let values = selection_values s in
      fold (\<lambda>(i, v). fold (\<lambda>d. report_if (d \<noteq> sl_universe_id s) ''cross_section_domain_mismatch''
                                   (indexed (path @ ''.selection.values'') i)) (cross_domains v))
        (zip [0..<length values] values) ck)"

definition check_score_conditions :: "program \<Rightarrow> selection \<Rightarrow> string \<Rightarrow> checker \<Rightarrow> checker res" where
  "check_score_conditions p s path ck =
     (let cs = score_conditions (sl_ranking s) in
      efold (\<lambda>(i, c). check_condition p c (indexed (path @ ''.selection.ranking.condition_terms'') i)
               Role_eligibility (Some (sl_binding_id s)))
        (zip [0..<length cs] cs) ck)"

definition check_ranking :: "selection_statement \<Rightarrow> string \<Rightarrow> checker \<Rightarrow> checker res" where
  "check_ranking st path ck =
     (let s = ss_selection st; rpath = path @ ''.selection.ranking'' in
      try_value_error (infer_program_value_type (Some (sl_binding_id s)) (sl_ranking s))
        (\<lambda>e. report (error_code e) rpath ck)
        (\<lambda>t. report_if (st_dtype t \<notin> {DT_decimal, DT_integer} \<or> st_axes t \<noteq> []) ''ranking_not_candidate_scalar'' rpath
               (ck\<lparr>ch_output_types := dset (ss_output_id st) t (ch_output_types ck)\<rparr>)))"

definition check_selection :: "program \<Rightarrow> selection_statement \<Rightarrow> string \<Rightarrow> checker \<Rightarrow> checker res" where
  "check_selection p st path ck =
     (let s = ss_selection st; out = ss_output_id st;
          ck1 = check_clock p (ss_clock_id st) (path @ ''.clock_id'') ck;
          ck2 = report_if (out \<in> set (ch_outputs ck1)) ''duplicate_selection_output'' (path @ ''.output_id'') ck1;
          ck3 = check_domains s path (ck2\<lparr>ch_outputs := out # ch_outputs ck2\<rparr>) in
      ebind (case sl_eligibility s of
               None \<Rightarrow> Inr ck3
             | Some c \<Rightarrow> check_condition p c (path @ ''.selection.eligibility'') Role_eligibility (Some (sl_binding_id s)) ck3) (\<lambda>ck4.
      ebind (check_score_conditions p s path ck4) (check_ranking st path)))"

definition check_guarded ::
  "program \<Rightarrow> condition option \<Rightarrow> allocation \<Rightarrow> override_rule list \<Rightarrow> allocation option \<Rightarrow> string \<Rightarrow> string list \<Rightarrow> checker \<Rightarrow> checker res" where
  "check_guarded p g primary overrides fallback path available ck =
     ebind (check_optional p g (path @ ''.guard'') ck) (\<lambda>ck1.
       let ck2 = report_if (\<not> distinct (map ov_priority overrides)) ''duplicate_override_priority'' (path @ ''.overrides'') ck1;
           ppath = path @ ''.primary''; fpath = path @ ''.fallback'' in
       ebind (check_allocation p primary ppath available (register_statement (as_semantic_id primary) ppath ck2)) (\<lambda>ck3.
       ebind (efold (\<lambda>(i, r) c.
                let rpath = indexed (path @ ''.overrides'') i; apath = rpath @ ''.action'' in
                ebind (check_condition p (ov_when r) (rpath @ ''.when'') Role_predicate None c) (\<lambda>c1.
                  check_allocation p (ov_action r) apath available (register_statement (as_semantic_id (ov_action r)) apath c1)))
              (zip [0..<length overrides] overrides) ck3) (\<lambda>ck4.
       case fallback of
         None \<Rightarrow> Inr ck4
       | Some a \<Rightarrow> check_allocation p a fpath available (register_statement (as_semantic_id a) fpath ck4))))"

definition check_event_header :: "program \<Rightarrow> event_definition \<Rightarrow> string \<Rightarrow> checker \<Rightarrow> checker res" where
  "check_event_header p e path ck =
     (let ck1 = check_clock p (Some (ed_clock_id e)) (path @ ''.event.clock_id'') ck;
          ck2 = report_if (ed_semantic_id e \<in> set (ch_event_ids ck1)) ''duplicate_event_id'' (path @ ''.event.semantic_id'') ck1
      in check_optional p (ed_condition e) (path @ ''.event.condition'')
           (ck2\<lparr>ch_event_ids := ed_semantic_id e # ch_event_ids ck2\<rparr>))"

text \<open>\<open>visit\<close> returns the outputs a later statement may use; \<open>visit_all\<close> is its loop.\<close>

fun visit :: "program \<Rightarrow> statement \<Rightarrow> string \<Rightarrow> string list \<Rightarrow> checker \<Rightarrow> (string list \<times> checker) res"
  and visit_all :: "program \<Rightarrow> statement list \<Rightarrow> nat \<Rightarrow> string \<Rightarrow> string list \<Rightarrow> checker \<Rightarrow> (string list \<times> checker) res" where
  "visit p (S_unresolved i phrase category reason) path available ck =
     Inr (available, report ''unresolved_semantics'' path (register_statement i path ck))"
| "visit p (S_select st) path available ck =
     ebind (check_selection p st path (register_statement (ss_semantic_id st) path ck)) (\<lambda>ck1.
       Inr (ss_output_id st # available, ck1))"
| "visit p (S_allocate a) path available ck =
     ebind (check_allocation p a path available (register_statement (as_semantic_id a) path ck)) (\<lambda>ck1.
       Inr (available, ck1))"
| "visit p (S_control i k yes no policy clock_id) path available ck =
     ebind (check_condition p k (path @ ''.condition'') Role_predicate None
              (check_clock p clock_id (path @ ''.clock_id'') (register_statement i path ck))) (\<lambda>ck1.
     ebind (visit_all p yes 0 (path @ ''.then'') available ck1) (\<lambda>(then_outputs, ck2).
     ebind (visit_all p no 0 (path @ ''.otherwise'') available ck2) (\<lambda>(otherwise_outputs, ck3).
       Inr (available @ filter (\<lambda>x. x \<in> set otherwise_outputs) then_outputs, ck3))))"
| "visit p (S_event i e body) path available ck =
     ebind (check_event_header p e path (register_statement i path ck)) (\<lambda>ck1.
     ebind (visit_all p body 0 (path @ ''.statements'') available ck1) (\<lambda>(_, ck2). Inr (available, ck2)))"
| "visit p (S_remember i memory v clock_id) path available ck =
     (let ck1 = check_clock p clock_id (path @ ''.clock_id'') (register_statement i path ck);
          ck2 = report_if (memory \<in> set (ch_memories ck1)) ''duplicate_memory_id'' (path @ ''.memory_id'') ck1
      in Inr (available, ck2\<lparr>ch_memories := memory # ch_memories ck2\<rparr>))"
| "visit p (S_transition i tr) path available ck =
     ebind (check_condition p (tr_when tr) (path @ ''.transition.when'') Role_predicate None
              (check_clock p (tr_clock_id tr) (path @ ''.transition.clock_id'') (register_statement i path ck))) (\<lambda>ck1.
       Inr (available, report_if (\<not> dhas (pg_initial_state p) (tr_state_key tr)) ''undeclared_state''
                         (path @ ''.transition.state_key'') ck1))"
| "visit p (S_guarded i g primary overrides fallback policy) path available ck =
     ebind (check_guarded p g primary overrides fallback path available (register_statement i path ck)) (\<lambda>ck1.
       Inr (available, ck1))"
| "visit_all p [] i path available ck = Inr (available, ck)"
| "visit_all p (st # sts) i path available ck =
     ebind (visit p st (indexed path i) available ck) (\<lambda>(available', ck').
       visit_all p sts (Suc i) path available' ck')"

subsection \<open>Values and references\<close>

definition unsupported_field :: "daily_node \<Rightarrow> bool" where
  "unsupported_field n =
     (let f = dn_fields n in
      nf_kind f = K_observe \<and> \<not> (nf_field f = Some F_close \<and> nf_basis f = Some B_adjusted))"

definition lacks_candidate :: "value_expr \<Rightarrow> bool" where
  "lacks_candidate s \<longleftrightarrow>
     \<not> list_ex (\<lambda>n. nf_subject_kind (dn_fields n) = Some Subject_candidate) (daily_nodes_for_value s)"

definition reference_code :: "program \<Rightarrow> checker \<Rightarrow> value_expr \<Rightarrow> string option" where
  "reference_code p ck v =
     (case v of
        V_cross_sectional _ s _ _ _ _ \<Rightarrow> if lacks_candidate s then Some ''cross_section_requires_candidate'' else None
      | V_cross_aggregate _ s _ _ _ \<Rightarrow> if lacks_candidate s then Some ''cross_section_requires_candidate'' else None
      | V_event_relative _ e _ _ \<Rightarrow> if e \<notin> set (ch_event_ids ck) then Some ''unknown_event_reference'' else None
      | V_bars_since_event _ e \<Rightarrow> if e \<notin> set (ch_event_ids ck) then Some ''unknown_event_reference'' else None
      | V_time_since_event _ e \<Rightarrow> if e \<notin> set (ch_event_ids ck) then Some ''unknown_event_reference'' else None
      | V_bars_since_state _ k \<Rightarrow> if \<not> dhas (pg_initial_state p) k then Some ''undeclared_state'' else None
      | V_time_since_state _ k \<Rightarrow> if \<not> dhas (pg_initial_state p) k then Some ''undeclared_state'' else None
      | V_remembered _ m _ _ _ \<Rightarrow> if m \<notin> set (ch_memories ck) then Some ''unknown_memory_reference'' else None
      | V_clocked _ _ k \<Rightarrow> if k \<notin> set (map pc_id (pg_clocks p)) then Some ''unknown_program_clock'' else None
      | _ \<Rightarrow> None)"

definition value_diagnostics :: "program \<Rightarrow> checker \<Rightarrow> value_expr \<Rightarrow> diagnostic list" where
  "value_diagnostics p ck v =
     (case reference_code p ck v of None \<Rightarrow> [] | Some code \<Rightarrow> [diagnostic_of code (value_semantic_id v)])
     @ map (\<lambda>n. diagnostic_of ''provider_capability_unavailable'' (nf_semantic_id (dn_fields n)))
         (filter unsupported_field (daily_nodes_for_value v))"

definition window_diagnostics :: "checker \<Rightarrow> diagnostic list" where
  "window_diagnostics ck =
     map (\<lambda>(_, path). diagnostic_of ''unknown_event_reference'' path)
       (filter (\<lambda>(e, _). e \<notin> set (ch_event_ids ck)) (ch_event_windows ck))"

definition executable_ids :: "program \<Rightarrow> checker \<Rightarrow> string list" where
  "executable_ids p ck =
     ch_statement_ids ck @ ch_event_ids ck @ ch_outputs ck @ ch_memories ck @ ch_condition_ids ck
     @ concat (map value_semantic_ids (program_values p))"

definition formalization_diagnostics :: "string list \<Rightarrow> nat \<times> formalization \<Rightarrow> diagnostic list" where
  "formalization_diagnostics ids q =
     (let path = indexed ''program.formalizations'' (fst q); z = snd q in
      (if fz_status z = Unresolved_phrase then [diagnostic_of ''unresolved_formalization'' path] else [])
      @ map (\<lambda>_. diagnostic_of ''unknown_formalized_semantic_id'' path)
          (filter (\<lambda>i. i \<notin> set ids) (fz_semantic_ids z)))"

definition start_checker :: "diagnostic list \<Rightarrow> checker" where
  "start_checker ds =
     \<lparr>ch_diagnostics = ds, ch_statement_ids = [], ch_event_ids = [], ch_outputs = [], ch_output_types = [],
      ch_memories = [], ch_event_windows = [], ch_condition_ids = []\<rparr>"

definition validate_program :: "(program \<Rightarrow> json) \<Rightarrow> (json \<Rightarrow> string) \<Rightarrow> program \<Rightarrow> diagnostic list res" where
  "validate_program dump hash p =
     ebind (visit_all p (pg_statements p) 0 ''program.statements'' []
              (start_checker (identity_diagnostics hash (dump p)))) (\<lambda>(_, ck).
       Inr (ch_diagnostics ck
            @ concat (map (value_diagnostics p ck) (program_values p))
            @ window_diagnostics ck
            @ concat (map (formalization_diagnostics (executable_ids p ck))
                (zip [0..<length (pg_formalizations p)] (pg_formalizations p)))))"

end
