(* ===== verification/Program_Run.thy ===== *)
theory Program_Run
  imports Program_Exec Program_Validation
begin

text \<open>
  \<open>execute_program_v2\<close>: the guards on the checkpoint an execution continues from, then the
  statements of the Program on a fresh runtime.
\<close>

record checkpoint =
  cp_prior_state :: "(string, string) dict option"
  cp_event_cutoffs :: "(string, int) dict"
  cp_prior_event_truths :: "(string, string) dict"
  cp_event_counts :: "(string, int) dict"
  cp_state_entered_cutoffs :: "(string, int) dict"
  cp_remembered_values :: "(string, decimal) dict"

record execution_result =
  er_revision_id :: "string option"
  er_program_semantic_id :: string
  er_snapshot_id :: string
  er_cutoff :: string
  er_state :: "(string, string) dict"
  er_event_cutoffs :: "(string, int) dict"
  er_event_truths :: "(string, string) dict"
  er_event_counts :: "(string, int) dict"
  er_state_entered_cutoffs :: "(string, int) dict"
  er_remembered_values :: "(string, decimal) dict"
  er_selection_outputs :: "(string, string list) dict"
  er_selection_scores :: "(string, (string, decimal) dict) dict"
  er_target_weights :: "(string, decimal) dict"
  er_retained_holdings :: bool
  er_evidence :: "evidence list"
  er_value_observations :: "observation list"

text \<open>\<open>_checkpoint_addresses\<close>: the Events and memories a Program declares, guarded bodies included.\<close>

fun event_addresses :: "statement \<Rightarrow> string list" where
  "event_addresses (S_event _ e body) = ed_semantic_id e # concat (map event_addresses body)"
| "event_addresses (S_control _ _ yes no _ _) = concat (map event_addresses yes) @ concat (map event_addresses no)"
| "event_addresses _ = []"

fun memory_addresses :: "statement \<Rightarrow> string list" where
  "memory_addresses (S_event _ _ body) = concat (map memory_addresses body)"
| "memory_addresses (S_control _ _ yes no _ _) = concat (map memory_addresses yes) @ concat (map memory_addresses no)"
| "memory_addresses (S_remember _ m _ _) = [m]"
| "memory_addresses _ = []"

definition checkpoint_addresses :: "program \<Rightarrow> string list \<times> string list" where
  "checkpoint_addresses p =
     (concat (map event_addresses (pg_statements p)), concat (map memory_addresses (pg_statements p)))"

definition refuse :: "string \<Rightarrow> unit res" where
  "refuse s = Inl (Program_execution_error s)"

text \<open>One row of the loop over the checkpoint's dictionaries.\<close>

definition check_addresses :: "string \<Rightarrow> (string, 'v) dict \<Rightarrow> string list \<Rightarrow> unit res" where
  "check_addresses name d allowed =
     (let unknown = filter (\<lambda>k. k \<notin> set allowed) (dkeys d) in
      if unknown \<noteq> [] then refuse (''unknown_'' @ name @ ''_address: '' @ join_with '','' (sort unknown))
      else Inr ())"

definition check_checkpoint :: "program \<Rightarrow> int \<Rightarrow> checkpoint \<Rightarrow> unit res" where
  "check_checkpoint p cutoff cp =
     (let (events, memories) = checkpoint_addresses p; states = dkeys (pg_initial_state p) in
      ebind (case cp_prior_state cp of
               None \<Rightarrow> Inr ()
             | Some s \<Rightarrow> if set (dkeys s) \<noteq> set states then refuse ''program_state_checkpoint_shape_mismatch'' else Inr ()) (\<lambda>_.
      ebind (check_addresses ''event_cutoffs'' (cp_event_cutoffs cp) events) (\<lambda>_.
      ebind (check_addresses ''event_counts'' (cp_event_counts cp) events) (\<lambda>_.
      ebind (check_addresses ''event_truths'' (cp_prior_event_truths cp) events) (\<lambda>_.
      ebind (check_addresses ''state_entered_cutoffs'' (cp_state_entered_cutoffs cp) states) (\<lambda>_.
      ebind (check_addresses ''remembered_values'' (cp_remembered_values cp) memories) (\<lambda>_.
        if list_ex (\<lambda>i. i < 0 \<or> cutoff < i) (dvalues (cp_event_cutoffs cp))
        then refuse ''event_checkpoint_after_decision_cutoff''
        else if list_ex (\<lambda>i. i < 0 \<or> cutoff < i) (dvalues (cp_state_entered_cutoffs cp))
        then refuse ''state_checkpoint_after_decision_cutoff''
        else if list_ex (\<lambda>n. n < 0) (dvalues (cp_event_counts cp))
        then refuse ''event_count_checkpoint_negative''
        else if list_ex (\<lambda>t. t \<notin> {''true'', ''false'', ''unknown''}) (dvalues (cp_prior_event_truths cp))
        then refuse ''event_truth_checkpoint_invalid''
        else Inr ())))))))"

text \<open>The text of the issues: \<open>"; ".join(f"{path}: {code}")\<close>.\<close>

definition issues_text :: "diagnostic list \<Rightarrow> string" where
  "issues_text ds = join_with ''; '' (map (\<lambda>d. sd_path d @ '': '' @ sd_code d) ds)"

definition start_runtime :: "program \<Rightarrow> snapshot \<Rightarrow> int \<Rightarrow> checkpoint \<Rightarrow> runtime" where
  "start_runtime p sn cutoff cp =
     new_runtime p sn cutoff (cp_prior_state cp) (cp_event_cutoffs cp) (cp_prior_event_truths cp)
       (cp_event_counts cp) (cp_state_entered_cutoffs cp) (cp_remembered_values cp)"

definition result_of :: "string option \<Rightarrow> program \<Rightarrow> snapshot \<Rightarrow> string \<Rightarrow> runtime \<Rightarrow> execution_result" where
  "result_of revision p sn cutoff_date rt =
     \<lparr>er_revision_id = revision, er_program_semantic_id = pg_semantic_id p, er_snapshot_id = sn_id sn,
      er_cutoff = cutoff_date, er_state = rt_state rt, er_event_cutoffs = rt_event_cutoffs rt,
      er_event_truths = rt_event_truths rt, er_event_counts = rt_event_counts rt,
      er_state_entered_cutoffs = rt_state_entered_cutoffs rt, er_remembered_values = rt_remembered_values rt,
      er_selection_outputs = rt_selections rt, er_selection_scores = rt_selection_scores rt,
      er_target_weights = rt_target_weights rt, er_retained_holdings = rt_retained rt,
      er_evidence = rt_evidence rt, er_value_observations = rt_observations rt\<rparr>"

definition execute_program ::
  "(program \<Rightarrow> json) \<Rightarrow> (json \<Rightarrow> string) \<Rightarrow> platform \<Rightarrow> program \<Rightarrow> snapshot \<Rightarrow> int option \<Rightarrow> string option \<Rightarrow> checkpoint \<Rightarrow> execution_result res" where
  "execute_program dump hash pf p sn cutoff_index revision cp =
     ebind (validate_program dump hash p) (\<lambda>issues.
       if issues \<noteq> [] then Inl (Program_execution_error (issues_text issues))
       else
         let n = int (length (sn_dates sn)); cutoff = (case cutoff_index of None \<Rightarrow> n - 1 | Some i \<Rightarrow> i) in
         if cutoff < 0 \<or> n \<le> cutoff then Inl (Program_execution_error ''program_cutoff_out_of_range'')
         else
           ebind (check_checkpoint p cutoff cp) (\<lambda>_.
           ebind (run_statements pf (pg_statements p) (start_runtime p sn cutoff cp)) (\<lambda>rt.
           ebind (py_index (sn_dates sn) cutoff) (\<lambda>when. Inr (result_of revision p sn when rt)))))"

end
