(* ===== verification/Strategy_IR.thy ===== *)
theory Strategy_IR
  imports Python_Text
begin

text \<open>
  The typed Strategy IR of \<open>ir/strategy/model.py\<close> and its normalisation in
  \<open>ir/strategy/normalize.py\<close>. A field whose annotation is a \<open>Literal\<close> is a string here,
  because nothing but the validator restricts it; \<open>operation\<close>, the defaulted tag of every
  operation class, is a field of the common part for the same reason. Thresholds, literals and
  scale factors of values are \<^typ>\<open>py_decimal\<close> (the validator asks whether they are finite);
  weights and sleeve factors are compared and multiplied by value and are \<^typ>\<open>decimal\<close>.
\<close>

datatype ir_type = Event_type | Asset_set_type | Asset_scores_type | Ranked_assets_type
  | Portfolio_targets_type | Effect_type

definition ir_type_text :: "ir_type \<Rightarrow> string" where
  "ir_type_text t =
     (case t of
        Event_type \<Rightarrow> ''event''
      | Asset_set_type \<Rightarrow> ''asset_set''
      | Asset_scores_type \<Rightarrow> ''asset_scores''
      | Ranked_assets_type \<Rightarrow> ''ranked_assets''
      | Portfolio_targets_type \<Rightarrow> ''portfolio_targets''
      | Effect_type \<Rightarrow> ''effect'')"

record per_asset_state =
  pas_id :: string
  pas_value_type :: string
  pas_initial :: "string option"
  pas_component :: string

subsection \<open>Scalar values and comparisons\<close>

datatype executable_value = Executable_value
  (xv_kind: string) (xv_type: string) (xv_subject: "string option") (xv_asset: "string option")
  (xv_literal: "py_decimal option") (xv_observations: "int option") (xv_aggregate: "string option")
  (xv_operand: "executable_value option") (xv_factor: "py_decimal option")

record executable_comparison =
  xc_operator :: string
  xc_left :: executable_value
  xc_right :: executable_value

record ir_filter_clause =
  fc_operator :: string
  fc_threshold :: py_decimal
  fc_comparison :: "executable_comparison option"

subsection \<open>Operations\<close>

datatype ir_body =
    Daily_schedule_op
  | Monthly_schedule_op int
  | Quarterly_schedule_op int
  | Asset_set_op "string list"
  | Universe_op string string "string list"
  | Random_n_op string int string string
  | Trailing_return_op string int
  | Filter_op string string py_decimal "ir_filter_clause list"
  | Rank_op string string "executable_value option"
  | Top_n_op string int string
  | Elapsed_sessions_gate_op string string int
  | Equal_weight_op string decimal
  | Merge_targets_op string string
  | Scale_targets_op string decimal
  | Retain_targets_op string
  | First_non_empty_targets_op string string
  | Observe_target_exits_op string string
  | Rebalance_op string
  | Predicate_rebalance_op string int string py_decimal string "string option" "executable_comparison list"

text \<open>The class attribute \<open>type(operation).operation\<close>.\<close>

definition operation_tag :: "ir_body \<Rightarrow> string" where
  "operation_tag b =
     (case b of
        Daily_schedule_op \<Rightarrow> ''schedule.daily''
      | Monthly_schedule_op _ \<Rightarrow> ''schedule.monthly''
      | Quarterly_schedule_op _ \<Rightarrow> ''schedule.quarterly''
      | Asset_set_op _ \<Rightarrow> ''market.asset_set''
      | Universe_op _ _ _ \<Rightarrow> ''market.universe''
      | Random_n_op _ _ _ _ \<Rightarrow> ''selection.random_n''
      | Trailing_return_op _ _ \<Rightarrow> ''market.trailing_return''
      | Filter_op _ _ _ _ \<Rightarrow> ''selection.filter''
      | Rank_op _ _ _ \<Rightarrow> ''selection.rank''
      | Top_n_op _ _ _ \<Rightarrow> ''selection.top_n''
      | Elapsed_sessions_gate_op _ _ _ \<Rightarrow> ''selection.elapsed_sessions_gate''
      | Equal_weight_op _ _ \<Rightarrow> ''portfolio.equal_weight''
      | Merge_targets_op _ _ \<Rightarrow> ''portfolio.merge_targets''
      | Scale_targets_op _ _ \<Rightarrow> ''portfolio.scale_targets''
      | Retain_targets_op _ \<Rightarrow> ''portfolio.retain_targets''
      | First_non_empty_targets_op _ _ \<Rightarrow> ''portfolio.first_non_empty_targets''
      | Observe_target_exits_op _ _ \<Rightarrow> ''state.observe_target_exits''
      | Rebalance_op _ \<Rightarrow> ''portfolio.rebalance''
      | Predicate_rebalance_op _ _ _ _ _ _ _ \<Rightarrow> ''control.predicate_rebalance'')"

record ir_operation =
  op_id :: string
  op_component :: string
  op_tag :: string
  op_body :: ir_body

record ir_entrypoint =
  en_event :: string
  en_target :: string

record strategy_ir =
  ir_identity :: string
  ir_operations :: "ir_operation list"
  ir_entrypoints :: "ir_entrypoint list"
  ir_user_state :: "per_asset_state list"

text \<open>\<open>isinstance\<close> tests that several modules share.\<close>

definition is_schedule :: "ir_body \<Rightarrow> bool" where
  "is_schedule b =
     (case b of Daily_schedule_op \<Rightarrow> True | Monthly_schedule_op _ \<Rightarrow> True | Quarterly_schedule_op _ \<Rightarrow> True
      | _ \<Rightarrow> False)"

definition is_rebalance :: "ir_body \<Rightarrow> bool" where
  "is_rebalance b =
     (case b of Rebalance_op _ \<Rightarrow> True | Predicate_rebalance_op _ _ _ _ _ _ _ \<Rightarrow> True | _ \<Rightarrow> False)"

definition is_retain :: "ir_body \<Rightarrow> bool" where
  "is_retain b = (case b of Retain_targets_op _ \<Rightarrow> True | _ \<Rightarrow> False)"

text \<open>The symbols of an \<open>AssetSetOp\<close> or a \<open>UniverseOp\<close>.\<close>

definition market_symbols :: "ir_body \<Rightarrow> string list option" where
  "market_symbols b =
     (case b of Asset_set_op symbols \<Rightarrow> Some symbols | Universe_op _ _ symbols \<Rightarrow> Some symbols | _ \<Rightarrow> None)"

text \<open>\<open>{operation.id: operation for operation in strategy_ir.operations}\<close>.\<close>

definition operations_by_id :: "strategy_ir \<Rightarrow> (string, ir_operation) dict" where
  "operations_by_id ir = dict_of (map (\<lambda>x. (op_id x, x)) (ir_operations ir))"

definition body_of :: "(string, ir_operation) dict \<Rightarrow> string \<Rightarrow> ir_body option" where
  "body_of ops i = map_option op_body (dget ops i)"

subsection \<open>Normalisation\<close>

definition normalize_strategy_ir :: "strategy_ir \<Rightarrow> strategy_ir" where
  "normalize_strategy_ir ir =
     ir\<lparr>ir_operations := sort_key op_id (ir_operations ir),
        ir_entrypoints := sort_key en_event (sort_key en_target (ir_entrypoints ir)),
        ir_user_state := sort_key pas_id (ir_user_state ir)\<rparr>"

end
