(* ===== verification/Dataflow.thy ===== *)
theory Dataflow
  imports Prelude
begin

text \<open>
  Depth-first search over a finite dataflow graph, as \<open>visit\<close> and \<open>mark\<close> of
  \<open>ir/strategy/validation.py\<close> do it: the recursive functions close over mutable sets, which
  are the explicit state here. Recursion is bounded by a fuel that counts the nodes; running
  out is \<^term>\<open>None\<close>, and the locale \<open>dataflow\<close> shows that it never happens on a graph whose
  edges stay inside the node list. There the search finds a cycle exactly when there is one,
  and marking adds exactly the nodes that can be reached.
\<close>

subsection \<open>Loops that thread the search state\<close>

text \<open>\<open>any(f(x) for x in xs)\<close> with a function that updates shared state: it stops at the first
  true answer.\<close>

primrec any_st :: "('a \<Rightarrow> 's \<Rightarrow> (bool \<times> 's) option) \<Rightarrow> 'a list \<Rightarrow> 's \<Rightarrow> (bool \<times> 's) option" where
  "any_st f [] s = Some (False, s)"
| "any_st f (x # xs) s =
     (case f x s of
        None \<Rightarrow> None
      | Some (found, t) \<Rightarrow> if found then Some (True, t) else any_st f xs t)"

primrec each_st :: "('a \<Rightarrow> 's \<Rightarrow> 's option) \<Rightarrow> 'a list \<Rightarrow> 's \<Rightarrow> 's option" where
  "each_st f [] s = Some s"
| "each_st f (x # xs) s = Option.bind (f x s) (each_st f xs)"

lemma any_st_None:
  "any_st f xs s = None \<Longrightarrow>
    \<exists>ys x zs t. xs = ys @ x # zs \<and> any_st f ys s = Some (False, t) \<and> f x t = None"
proof (induction xs arbitrary: s)
  case (Cons x xs)
  show ?case
  proof (cases "f x s")
    case None
    then show ?thesis by (intro exI [of _ "[]"]) auto
  next
    case (Some r)
    obtain b t where r: "r = (b, t)" by (cases r)
    from Cons.prems Some r have nb: "\<not> b" and rest: "any_st f xs t = None"
      by (auto split: if_splits)
    from Cons.IH [OF rest] obtain ys y zs u where
      "xs = ys @ y # zs" "any_st f ys t = Some (False, u)" "f y u = None" by blast
    with Some r nb show ?thesis by (intro exI [of _ "x # ys"]) auto
  qed
qed simp

lemma any_st_True:
  "any_st f xs s = Some (True, t) \<Longrightarrow>
    \<exists>ys x zs u. xs = ys @ x # zs \<and> any_st f ys s = Some (False, u) \<and> f x u = Some (True, t)"
proof (induction xs arbitrary: s)
  case (Cons x xs)
  obtain b r where fx: "f x s = Some (b, r)"
    using Cons.prems by (auto split: option.splits)
  show ?case
  proof (cases b)
    case True
    with fx Cons.prems show ?thesis by (intro exI [of _ "[]"]) auto
  next
    case False
    with fx Cons.prems have rest: "any_st f xs r = Some (True, t)" by simp
    from Cons.IH [OF rest] obtain ys y zs u where
      "xs = ys @ y # zs" "any_st f ys r = Some (False, u)" "f y u = Some (True, t)" by blast
    with fx False show ?thesis by (intro exI [of _ "x # ys"]) auto
  qed
qed simp

subsection \<open>The two searches\<close>

record search_state =
  ss_visiting :: "string list"
  ss_visited :: "string list"

primrec visit_node :: "nat \<Rightarrow> (string \<Rightarrow> string list) \<Rightarrow> string \<Rightarrow> search_state \<Rightarrow> (bool \<times> search_state) option" where
  "visit_node 0 deps i st = None"
| "visit_node (Suc fuel) deps i st =
     (if i \<in> set (ss_visiting st) then Some (True, st)
      else if i \<in> set (ss_visited st) then Some (False, st)
      else case any_st (visit_node fuel deps) (deps i) (st\<lparr>ss_visiting := i # ss_visiting st\<rparr>) of
             None \<Rightarrow> None
           | Some (found, t) \<Rightarrow>
               if found then Some (True, t)
               else Some (False, t\<lparr>ss_visiting := removeAll i (ss_visiting t), ss_visited := i # ss_visited t\<rparr>))"

primrec mark :: "nat \<Rightarrow> (string \<Rightarrow> string list option) \<Rightarrow> string \<Rightarrow> string list \<Rightarrow> string list option" where
  "mark 0 operands i reachable = None"
| "mark (Suc fuel) operands i reachable =
     (if i \<in> set reachable then Some reachable
      else case operands i of
             None \<Rightarrow> Some reachable
           | Some xs \<Rightarrow> each_st (mark fuel operands) xs (i # reachable))"

text \<open>The loop of the caller: every node that no earlier search visited.\<close>

definition visit_nodes :: "nat \<Rightarrow> (string \<Rightarrow> string list) \<Rightarrow> string list \<Rightarrow> (bool \<times> search_state) option" where
  "visit_nodes fuel deps nodes =
     any_st (\<lambda>i st. if i \<in> set (ss_visited st) then Some (False, st) else visit_node fuel deps i st) nodes
       \<lparr>ss_visiting = [], ss_visited = []\<rparr>"

definition edges :: "(string \<Rightarrow> string list) \<Rightarrow> (string \<times> string) set" where
  "edges deps = {(i, j). j \<in> set (deps i)}"

lemma edges_iff [simp]: "(i, j) \<in> edges deps \<longleftrightarrow> j \<in> set (deps i)"
  by (simp add: edges_def)

subsection \<open>The interface of a dataflow graph\<close>

locale dataflow =
  fixes nodes :: "string list"
    and deps :: "string \<Rightarrow> string list"
  assumes deps_closed: "i \<in> set nodes \<Longrightarrow> set (deps i) \<subseteq> set nodes"
begin

lemma edges_stay: "(i, j) \<in> (edges deps)\<^sup>* \<Longrightarrow> i \<in> set nodes \<Longrightarrow> j \<in> set nodes"
  by (induction rule: rtrancl_induct) (use deps_closed in auto)

text \<open>What is visited is closed under dependencies and free of cycles; what is being visited
  forms a chain that leads to the current node.\<close>

definition searched :: "search_state \<Rightarrow> bool" where
  "searched st \<longleftrightarrow>
     set (ss_visited st) \<subseteq> set nodes \<and> set (ss_visiting st) \<subseteq> set nodes \<and> distinct (ss_visiting st) \<and>
     set (ss_visited st) \<inter> set (ss_visiting st) = {} \<and>
     (\<forall>i\<in>set (ss_visited st). set (deps i) \<subseteq> set (ss_visited st) \<and> (i, i) \<notin> (edges deps)\<^sup>+)"

definition extends :: "search_state \<Rightarrow> search_state \<Rightarrow> bool" where
  "extends s t \<longleftrightarrow> searched t \<and> ss_visiting t = ss_visiting s \<and> set (ss_visited s) \<subseteq> set (ss_visited t)"

definition leads_to :: "search_state \<Rightarrow> string \<Rightarrow> bool" where
  "leads_to st i \<longleftrightarrow> (\<forall>j\<in>set (ss_visiting st). (j, i) \<in> (edges deps)\<^sup>+)"

lemma extends_refl: "searched s \<Longrightarrow> extends s s"
  by (simp add: extends_def)

lemma extends_trans: "extends r s \<Longrightarrow> extends s t \<Longrightarrow> extends r t"
  by (auto simp: extends_def)

lemma visited_closed: "searched st \<Longrightarrow> i \<in> set (ss_visited st) \<Longrightarrow> (i, j) \<in> (edges deps)\<^sup>* \<Longrightarrow> j \<in> set (ss_visited st)"
  by (rotate_tac 2, induction rule: rtrancl_induct) (auto simp: searched_def)

lemma leads_to_extends: "extends s t \<Longrightarrow> leads_to s i \<Longrightarrow> leads_to t i"
  by (simp add: extends_def leads_to_def)

lemma any_st_extends:
  assumes "any_st f xs s = Some (False, t)" and "extends r s"
    and step: "\<And>x u v. x \<in> set xs \<Longrightarrow> extends r u \<Longrightarrow> f x u = Some (False, v) \<Longrightarrow>
                   extends u v \<and> x \<in> set (ss_visited v)"
  shows "extends s t \<and> set xs \<subseteq> set (ss_visited t)"
  using assms
proof (induction xs arbitrary: s)
  case Nil
  then show ?case using extends_refl by (auto simp: extends_def)
next
  case (Cons x xs)
  from Cons.prems(1) obtain u where fx: "f x s = Some (False, u)" and rest: "any_st f xs u = Some (False, t)"
    by (auto split: option.splits if_splits)
  have one: "extends s u" "x \<in> set (ss_visited u)" using Cons.prems(3) [OF _ Cons.prems(2) fx] by auto
  have tail: "extends u t \<and> set xs \<subseteq> set (ss_visited t)"
    by (rule Cons.IH [OF rest extends_trans [OF Cons.prems(2) one(1)]]) (use Cons.prems(3) in auto)
  show ?case using one tail extends_trans by (auto simp: extends_def)
qed

lemma visit_extends:
  assumes "visit_node fuel deps i st = Some (False, t)" and "searched st" and "i \<in> set nodes"
  shows "extends st t \<and> i \<in> set (ss_visited t)"
  using assms
proof (induction fuel arbitrary: i st t)
  case (Suc fuel)
  let ?st = "st\<lparr>ss_visiting := i # ss_visiting st\<rparr>"
  consider (seen) "i \<notin> set (ss_visiting st)" "i \<in> set (ss_visited st)" "t = st"
    | (fresh) u where "i \<notin> set (ss_visiting st)" "i \<notin> set (ss_visited st)"
        "any_st (visit_node fuel deps) (deps i) ?st = Some (False, u)"
        "t = u\<lparr>ss_visiting := removeAll i (ss_visiting u), ss_visited := i # ss_visited u\<rparr>"
    using Suc.prems(1) by (auto split: option.splits if_splits)
  then show ?case
  proof cases
    case seen
    then show ?thesis using Suc.prems(2) extends_refl by simp
  next
    case fresh
    have st: "searched ?st" using Suc.prems fresh by (auto simp: searched_def)
    have all: "extends ?st u \<and> set (deps i) \<subseteq> set (ss_visited u)"
      by (rule any_st_extends [OF fresh(3) extends_refl [OF st]])
        (use Suc.IH deps_closed [OF Suc.prems(3)] in \<open>auto simp: extends_def\<close>)
    then have u: "searched u" "ss_visiting u = i # ss_visiting st" "i \<notin> set (ss_visited u)"
      "set (deps i) \<subseteq> set (ss_visited u)" "set (ss_visited st) \<subseteq> set (ss_visited u)"
      by (auto simp: extends_def searched_def)
    have "(i, i) \<notin> (edges deps)\<^sup>+"
    proof
      assume "(i, i) \<in> (edges deps)\<^sup>+"
      then obtain j where "j \<in> set (deps i)" "(j, i) \<in> (edges deps)\<^sup>*"
        by (auto dest: tranclD)
      then show False using visited_closed [OF u(1)] u(3,4) by blast
    qed
    moreover have "removeAll i (ss_visiting u) = ss_visiting st" using fresh(1) u(2) by simp
    ultimately show ?thesis using u fresh Suc.prems(2,3) by (auto simp: extends_def searched_def)
  qed
qed simp

lemma visits_extend:
  assumes "any_st (visit_node fuel deps) xs s = Some (False, t)" and "searched s" and "set xs \<subseteq> set nodes"
  shows "extends s t \<and> set xs \<subseteq> set (ss_visited t)"
  by (rule any_st_extends [OF assms(1) extends_refl [OF assms(2)]])
    (use visit_extends assms(3) in \<open>fastforce simp: extends_def [of s]\<close>)

text \<open>A true answer comes from a node that is still being visited, hence from a cycle.\<close>

lemma visit_finds_cycle:
  assumes "visit_node fuel deps i st = Some (True, t)" and "searched st" and "leads_to st i" and "i \<in> set nodes"
  shows "\<exists>j\<in>set nodes. (j, j) \<in> (edges deps)\<^sup>+"
  using assms
proof (induction fuel arbitrary: i st t)
  case (Suc fuel)
  let ?st = "st\<lparr>ss_visiting := i # ss_visiting st\<rparr>"
  show ?case
  proof (cases "i \<in> set (ss_visiting st)")
    case True
    then show ?thesis using Suc.prems(3,4) by (auto simp: leads_to_def)
  next
    case False
    then have fresh: "i \<notin> set (ss_visited st)" and run: "any_st (visit_node fuel deps) (deps i) ?st = Some (True, t)"
      using Suc.prems(1) by (auto split: option.splits if_splits)
    have st: "searched ?st" using Suc.prems False fresh by (auto simp: searched_def)
    from any_st_True [OF run] obtain ys x zs u where
      xs: "deps i = ys @ x # zs" "any_st (visit_node fuel deps) ys ?st = Some (False, u)"
      and hit: "visit_node fuel deps x u = Some (True, t)" by blast
    have inside: "set (deps i) \<subseteq> set nodes" by (rule deps_closed [OF Suc.prems(4)])
    have u: "extends ?st u"
      using visits_extend [OF xs(2) st] inside xs(1) by simp
    have "leads_to ?st x"
      using Suc.prems(3) xs(1) by (auto simp: leads_to_def intro: trancl_into_trancl)
    then have "leads_to u x" by (rule leads_to_extends [OF u])
    moreover have "searched u" using u by (simp add: extends_def)
    moreover have "x \<in> set nodes" using inside xs(1) by auto
    ultimately show ?thesis using Suc.IH [OF hit] by blast
  qed
qed simp
text \<open>The chain of visited nodes is no longer than the node list, so enough fuel is never used up.\<close>

lemma visit_returns:
  assumes "card (set nodes) < fuel + length (ss_visiting st)" and "searched st" and "i \<in> set nodes"
  shows "visit_node fuel deps i st \<noteq> None"
  using assms
proof (induction fuel arbitrary: i st)
  case 0
  then have "length (ss_visiting st) \<le> card (set nodes)"
    by (metis searched_def card_mono distinct_card List.finite_set)
  with 0 show ?case by simp
next
  case (Suc fuel)
  let ?st = "st\<lparr>ss_visiting := i # ss_visiting st\<rparr>"
  show ?case
  proof (cases "i \<in> set (ss_visiting st) \<or> i \<in> set (ss_visited st)")
    case False
    then have st: "searched ?st" using Suc.prems by (auto simp: searched_def)
    have inside: "set (deps i) \<subseteq> set nodes" by (rule deps_closed [OF Suc.prems(3)])
    have "any_st (visit_node fuel deps) (deps i) ?st \<noteq> None"
    proof
      assume "any_st (visit_node fuel deps) (deps i) ?st = None"
      from any_st_None [OF this] obtain ys x zs u where
        xs: "deps i = ys @ x # zs" "any_st (visit_node fuel deps) ys ?st = Some (False, u)"
        and out: "visit_node fuel deps x u = None" by blast
      have "extends ?st u" using visits_extend [OF xs(2) st] inside xs(1) by simp
      then have u: "searched u" "length (ss_visiting u) = Suc (length (ss_visiting st))"
        by (auto simp: extends_def)
      have "visit_node fuel deps x u \<noteq> None"
        by (rule Suc.IH) (use Suc.prems(1) u inside xs(1) in auto)
      with out show False by simp
    qed
    then show ?thesis using False by (auto split: option.splits)
  qed auto
qed

lemma visit_all_answers:
  assumes "card (set nodes) < fuel"
  shows "\<exists>b st. visit_nodes fuel deps nodes = Some (b, st) \<and>
           (b \<longleftrightarrow> (\<exists>i\<in>set nodes. (i, i) \<in> (edges deps)\<^sup>+))"
proof -
  let ?f = "\<lambda>i st. if i \<in> set (ss_visited st) then Some (False, st) else visit_node fuel deps i st"
  let ?start = "\<lparr>ss_visiting = [], ss_visited = []\<rparr>"
  have start: "searched ?start" by (simp add: searched_def)
  have run: "extends ?start t \<and> set xs \<subseteq> set (ss_visited t)"
    if "any_st ?f xs ?start = Some (False, t)" "set xs \<subseteq> set nodes" for xs t
  proof (rule any_st_extends [OF that(1) extends_refl [OF start]])
    fix x u v
    assume "x \<in> set xs" "extends ?start u" "?f x u = Some (False, v)"
    then show "extends u v \<and> x \<in> set (ss_visited v)"
      using visit_extends [of fuel x u v] extends_refl [of u] that(2)
      by (auto simp: extends_def [of ?start] split: if_splits)
  qed
  have defined: "any_st ?f nodes ?start \<noteq> None"
  proof
    assume "any_st ?f nodes ?start = None"
    from any_st_None [OF this] obtain ys x zs u where
      xs: "nodes = ys @ x # zs" "any_st ?f ys ?start = Some (False, u)" and out: "?f x u = None" by blast
    have "set ys \<subseteq> set nodes" using xs(1) by auto
    from run [OF xs(2) this] have "searched u" by (simp add: extends_def)
    then have "visit_node fuel deps x u \<noteq> None" using visit_returns assms xs(1) by simp
    with out show False by (simp split: if_splits)
  qed
  then obtain b st where result: "any_st ?f nodes ?start = Some (b, st)" by auto
  have "b \<longleftrightarrow> (\<exists>i\<in>set nodes. (i, i) \<in> (edges deps)\<^sup>+)"
  proof (cases b)
    case True
    with result have "any_st ?f nodes ?start = Some (True, st)" by simp
    from any_st_True [OF this] obtain ys x zs u where
      xs: "nodes = ys @ x # zs" "any_st ?f ys ?start = Some (False, u)" and hit: "?f x u = Some (True, st)" by blast
    have "set ys \<subseteq> set nodes" using xs(1) by auto
    from run [OF xs(2) this] have u: "searched u" "ss_visiting u = []" by (simp_all add: extends_def)
    have "\<exists>i\<in>set nodes. (i, i) \<in> (edges deps)\<^sup>+"
      by (rule visit_finds_cycle [of fuel x u st]) (use hit u xs(1) in \<open>auto simp: leads_to_def split: if_splits\<close>)
    with True show ?thesis by simp
  next
    case False
    with result have "any_st ?f nodes ?start = Some (False, st)" by simp
    from run [OF this] have "extends ?start st \<and> set nodes \<subseteq> set (ss_visited st)" by simp
    then show ?thesis using False by (auto simp: extends_def searched_def)
  qed
  with result show ?thesis by (auto simp: visit_nodes_def)
qed

end

subsection \<open>Marking\<close>

definition known_edges :: "(string \<Rightarrow> string list option) \<Rightarrow> (string \<times> string) set" where
  "known_edges operands = {(i, j). (\<exists>xs. operands i = Some xs \<and> j \<in> set xs) \<and> operands j \<noteq> None}"

definition marks :: "(string \<Rightarrow> string list option) \<Rightarrow> string list \<Rightarrow> string list \<Rightarrow> string list \<Rightarrow> bool" where
  "marks operands xs r t \<longleftrightarrow>
     set r \<subseteq> set t \<and> (\<forall>x\<in>set xs. operands x \<noteq> None \<longrightarrow> x \<in> set t) \<and>
     (\<forall>j\<in>set t - set r. operands j \<noteq> None \<and> (\<exists>x\<in>set xs. (x, j) \<in> (known_edges operands)\<^sup>*) \<and>
        known_edges operands `` {j} \<subseteq> set t)"

lemma each_st_marks:
  assumes "each_st f xs r = Some t" and step: "\<And>x u v. x \<in> set xs \<Longrightarrow> f x u = Some v \<Longrightarrow> marks operands [x] u v"
  shows "marks operands xs r t"
  using assms
proof (induction xs arbitrary: r)
  case (Cons x xs)
  from Cons.prems(1) obtain u where x: "f x r = Some u" and rest: "each_st f xs u = Some t"
    by (auto simp: bind_eq_Some_conv)
  have one: "marks operands [x] r u" using Cons.prems(2) x by simp
  have tail: "marks operands xs u t" by (rule Cons.IH [OF rest]) (use Cons.prems(2) in auto)
  show ?case
    unfolding marks_def
  proof (intro conjI ballI)
    show "set r \<subseteq> set t" using one tail by (auto simp: marks_def)
    show "operands y \<noteq> None \<longrightarrow> y \<in> set t" if "y \<in> set (x # xs)" for y
      using one tail that by (auto simp: marks_def)
    fix j assume j: "j \<in> set t - set r"
    have "operands j \<noteq> None \<and> (\<exists>x\<in>set (x # xs). (x, j) \<in> (known_edges operands)\<^sup>*) \<and>
          known_edges operands `` {j} \<subseteq> set t"
    proof (cases "j \<in> set u")
      case True
      then have "operands j \<noteq> None \<and> (x, j) \<in> (known_edges operands)\<^sup>* \<and> known_edges operands `` {j} \<subseteq> set u"
        using one j by (simp add: marks_def)
      moreover have "set u \<subseteq> set t" using tail by (simp add: marks_def)
      ultimately show ?thesis by auto
    next
      case False
      then show ?thesis using tail j by (simp add: marks_def)
    qed
    then show "operands j \<noteq> None" "\<exists>x\<in>set (x # xs). (x, j) \<in> (known_edges operands)\<^sup>*"
      "known_edges operands `` {j} \<subseteq> set t" by blast+
  qed
qed (simp add: marks_def)

lemma mark_marks: "mark fuel operands i r = Some t \<Longrightarrow> marks operands [i] r t"
proof (induction fuel arbitrary: i r t)
  case (Suc fuel)
  show ?case
  proof (cases "i \<in> set r \<or> operands i = None")
    case False
    then obtain xs where xs: "operands i = Some xs" and run: "each_st (mark fuel operands) xs (i # r) = Some t"
      using Suc.prems by auto
    have m: "marks operands xs (i # r) t" by (rule each_st_marks [OF run Suc.IH])
    have "(i, j) \<in> (known_edges operands)\<^sup>*"
      if "x \<in> set xs" "(x, j) \<in> (known_edges operands)\<^sup>*" "operands j \<noteq> None" for x j
    proof (cases "operands x")
      case None
      from that(2) show ?thesis
        by (rule converse_rtranclE) (use None that(3) in \<open>auto simp: known_edges_def\<close>)
    next
      case (Some ys)
      with xs that(1) have "(i, x) \<in> known_edges operands" by (auto simp: known_edges_def)
      with that(2) show ?thesis by (rule converse_rtrancl_into_rtrancl [rotated])
    qed
    moreover have "known_edges operands `` {i} \<subseteq> set t"
      using m xs by (auto simp: marks_def known_edges_def)
    ultimately have reach: "\<And>x j. x \<in> set xs \<Longrightarrow> (x, j) \<in> (known_edges operands)\<^sup>* \<Longrightarrow>
        operands j \<noteq> None \<Longrightarrow> (i, j) \<in> (known_edges operands)\<^sup>*"
      and closed: "known_edges operands `` {i} \<subseteq> set t" by blast+
    have "operands j \<noteq> None \<and> (i, j) \<in> (known_edges operands)\<^sup>* \<and> known_edges operands `` {j} \<subseteq> set t"
      if j: "j \<in> set t - set r" for j
    proof (cases "j = i")
      case True
      with closed xs show ?thesis by simp
    next
      case False
      with m j have jt: "operands j \<noteq> None" "known_edges operands `` {j} \<subseteq> set t"
        and "\<exists>x\<in>set xs. (x, j) \<in> (known_edges operands)\<^sup>*" by (simp_all add: marks_def)
      then obtain x where "x \<in> set xs" "(x, j) \<in> (known_edges operands)\<^sup>*" by blast
      from reach [OF this jt(1)] jt show ?thesis by simp
    qed
    moreover have "set r \<subseteq> set t \<and> i \<in> set t" using m by (simp add: marks_def)
    ultimately show ?thesis unfolding marks_def by simp
  qed (use Suc.prems in \<open>auto simp: marks_def split: option.splits\<close>)
qed simp

lemma mark_returns:
  assumes "card (dom operands) < fuel + card (set r)" and "finite (dom operands)" and "set r \<subseteq> dom operands"
  shows "\<exists>t. mark fuel operands i r = Some t \<and> set r \<subseteq> set t \<and> set t \<subseteq> dom operands"
  using assms
proof (induction fuel arbitrary: i r)
  case 0
  then show ?case by (simp add: card_mono leD)
next
  case (Suc fuel)
  have loop: "\<exists>t. each_st (mark fuel operands) xs u = Some t \<and> set u \<subseteq> set t \<and> set t \<subseteq> dom operands"
    if "card (dom operands) < fuel + card (set u)" "set u \<subseteq> dom operands" for xs u
    using that
  proof (induction xs arbitrary: u)
    case (Cons x xs)
    from Suc.IH [OF Cons.prems(1) Suc.prems(2) Cons.prems(2)] obtain v where
      v: "mark fuel operands x u = Some v" "set u \<subseteq> set v" "set v \<subseteq> dom operands" by blast
    have "card (set u) \<le> card (set v)" using v(2) by (simp add: card_mono)
    with Cons.IH [of v] Cons.prems(1) v show ?case by fastforce
  qed auto
  show ?case
  proof (cases "i \<in> set r \<or> operands i = None")
    case False
    then obtain xs where "operands i = Some xs" by auto
    with False loop [of "i # r" xs] Suc.prems show ?thesis by auto
  qed (use Suc.prems in auto)
qed

text \<open>Marking every root adds exactly the known nodes that a root reaches.\<close>

lemma mark_all:
  assumes "card (dom operands) < fuel" and fin: "finite (dom operands)"
  shows "\<exists>t. each_st (mark fuel operands) roots [] = Some t \<and>
           set t = {j. operands j \<noteq> None \<and> (\<exists>x\<in>set roots. (x, j) \<in> (known_edges operands)\<^sup>*)}"
proof -
  have total: "\<exists>t. each_st (mark fuel operands) xs u = Some t" if "set u \<subseteq> dom operands" for xs u
    using that
  proof (induction xs arbitrary: u)
    case (Cons x xs)
    have "card (dom operands) < fuel + card (set u)" using assms(1) by simp
    from mark_returns [OF this fin Cons.prems] obtain v where
      "mark fuel operands x u = Some v" "set v \<subseteq> dom operands" by blast
    with Cons.IH [of v] show ?case by auto
  qed auto
  then obtain t where t: "each_st (mark fuel operands) roots [] = Some t" by fastforce
  have m: "marks operands roots [] t" by (rule each_st_marks [OF t mark_marks])
  have "j \<in> set t" if "x \<in> set roots" "(x, j) \<in> (known_edges operands)\<^sup>*" "operands j \<noteq> None" for x j
    using that(2,1,3)
  proof (induction rule: rtrancl_induct)
    case base
    then show ?case using m by (auto simp: marks_def)
  next
    case (step j k)
    then have "j \<in> set t" by (auto simp: known_edges_def)
    with step(2) m show ?case by (auto simp: marks_def)
  qed
  with m t show ?thesis by (auto simp: marks_def)
qed

end
