(* ===== verification/IR_Validation.thy ===== *)
theory IR_Validation
  imports Strategy_IR Dataflow
begin

text \<open>
  \<open>collect_ir_validation_issues\<close> and \<open>validate_strategy_ir\<close> of \<open>ir/strategy/validation.py\<close>:
  the checks of values and comparisons, of every operation by itself, of its operands, of the
  dataflow graph, of the entrypoints and of the user state, with their paths and messages in
  the order the code appends them. Python's \<open>dependencies\<close> holds sets, whose iteration order
  is not fixed; the lists here keep the order of insertion, and the answer of the cycle search
  is shown not to depend on it.
\<close>

record ir_issue =
  is_path :: string
  is_message :: string

abbreviation issue :: "string \<Rightarrow> string \<Rightarrow> ir_issue" where
  "issue p m \<equiv> \<lparr>is_path = p, is_message = m\<rparr>"

text \<open>\<open>if c: issues.append(...)\<close>.\<close>

definition when_issue :: "bool \<Rightarrow> string \<Rightarrow> string \<Rightarrow> ir_issue list" where
  "when_issue c p m = (if c then [issue p m] else [])"

lemma when_issue_Nil [simp]: "when_issue c p m = [] \<longleftrightarrow> \<not> c"
  by (simp add: when_issue_def)

definition ir_indexed :: "string \<Rightarrow> nat \<Rightarrow> string" where
  "ir_indexed name n = name @ ''['' @ str_of_nat n @ '']''"

definition keyed :: "string \<Rightarrow> string \<Rightarrow> string" where
  "keyed name k = name @ ''['' @ k @ '']''"

definition order_operators :: "string list" where
  "order_operators = [''gt'', ''gte'', ''lt'', ''lte'']"

subsection \<open>Values and comparisons\<close>

definition not_finite :: "py_decimal option \<Rightarrow> bool" where
  "not_finite d = (case d of None \<Rightarrow> True | Some x \<Rightarrow> \<not> is_finite x)"

definition window_ok :: "int option \<Rightarrow> bool" where
  "window_ok n = (case n of None \<Rightarrow> False | Some k \<Rightarrow> 1 \<le> k \<and> k \<le> 1000)"

definition market_kinds :: "string list" where
  "market_kinds = [''trailing_return'', ''current_price'', ''rolling_price'']"

definition validate_subject :: "string \<Rightarrow> string option \<Rightarrow> string option \<Rightarrow> ir_issue list" where
  "validate_subject path subject asset =
     when_issue (subject \<noteq> Some ''asset'' \<and> subject \<noteq> Some ''candidate'')
       (path @ ''.subject'') ''market value requires a subject'' @
     when_issue (subject = Some ''asset'' \<and> (asset = None \<or> asset = Some []))
       (path @ ''.asset'') ''explicit asset subject requires a symbol'' @
     when_issue (subject = Some ''candidate'' \<and> asset \<noteq> None)
       (path @ ''.asset'') ''candidate subject cannot fix an asset''"

fun validate_ir_value :: "string \<Rightarrow> executable_value \<Rightarrow> ir_issue list" where
  "validate_ir_value path (Executable_value kind ty subject asset literal observations aggregate operand factor) =
     (if kind = ''literal''
      then when_issue (not_finite literal) (path @ ''.literal'') ''literal must be a finite decimal''
      else when_issue (kind \<in> set [''trailing_return'', ''rolling_price''] \<and> \<not> window_ok observations)
             (path @ ''.observations'') ''window must be between 1 and 1000'') @
     when_issue (kind = ''rolling_price'' \<and>
                 aggregate \<notin> set [Some ''mean'', Some ''median'', Some ''min'', Some ''max''])
       (path @ ''.aggregate'') ''unsupported rolling aggregate'' @
     (if kind \<in> set market_kinds then validate_subject path subject asset else []) @
     (if kind = ''scale''
      then (case operand of
              None \<Rightarrow> [issue (path @ ''.operand'') ''scale requires an operand'']
            | Some v \<Rightarrow> validate_ir_value (path @ ''.operand'') v) @
           when_issue (not_finite factor) (path @ ''.factor'') ''scale factor must be finite''
      else [])"

definition validate_ir_comparison :: "string \<Rightarrow> executable_comparison \<Rightarrow> ir_issue list" where
  "validate_ir_comparison path c =
     validate_ir_value (path @ ''.left'') (xc_left c) @
     validate_ir_value (path @ ''.right'') (xc_right c) @
     when_issue (xv_type (xc_left c) \<noteq> xv_type (xc_right c)) path
       ''comparison operands must have the same value type''"

subsection \<open>Types and operands\<close>

definition result_type :: "ir_body \<Rightarrow> ir_type" where
  "result_type b =
     (case b of
        Daily_schedule_op \<Rightarrow> Event_type
      | Monthly_schedule_op _ \<Rightarrow> Event_type
      | Quarterly_schedule_op _ \<Rightarrow> Event_type
      | Asset_set_op _ \<Rightarrow> Asset_set_type
      | Universe_op _ _ _ \<Rightarrow> Asset_set_type
      | Random_n_op _ _ _ _ \<Rightarrow> Asset_set_type
      | Top_n_op _ _ _ \<Rightarrow> Asset_set_type
      | Elapsed_sessions_gate_op _ _ _ \<Rightarrow> Asset_set_type
      | Trailing_return_op _ _ \<Rightarrow> Asset_scores_type
      | Filter_op _ _ _ _ \<Rightarrow> Asset_scores_type
      | Rank_op _ _ _ \<Rightarrow> Ranked_assets_type
      | Equal_weight_op _ _ \<Rightarrow> Portfolio_targets_type
      | Scale_targets_op _ _ \<Rightarrow> Portfolio_targets_type
      | Retain_targets_op _ \<Rightarrow> Portfolio_targets_type
      | Merge_targets_op _ _ \<Rightarrow> Portfolio_targets_type
      | First_non_empty_targets_op _ _ \<Rightarrow> Portfolio_targets_type
      | Observe_target_exits_op _ _ \<Rightarrow> Portfolio_targets_type
      | Rebalance_op _ \<Rightarrow> Effect_type
      | Predicate_rebalance_op _ _ _ _ _ _ _ \<Rightarrow> Effect_type)"

definition operands :: "ir_body \<Rightarrow> (string \<times> string \<times> ir_type) list" where
  "operands b =
     (case b of
        Random_n_op assets _ _ _ \<Rightarrow> [(''assets'', assets, Asset_set_type)]
      | Trailing_return_op assets _ \<Rightarrow> [(''assets'', assets, Asset_set_type)]
      | Filter_op scores _ _ _ \<Rightarrow> [(''scores'', scores, Asset_scores_type)]
      | Rank_op scores _ _ \<Rightarrow> [(''scores'', scores, Asset_scores_type)]
      | Top_n_op ranked _ _ \<Rightarrow> [(''ranked'', ranked, Ranked_assets_type)]
      | Elapsed_sessions_gate_op candidates _ _ \<Rightarrow> [(''candidates'', candidates, Asset_set_type)]
      | Equal_weight_op assets _ \<Rightarrow> [(''assets'', assets, Asset_set_type)]
      | Scale_targets_op targets _ \<Rightarrow> [(''targets'', targets, Portfolio_targets_type)]
      | Retain_targets_op targets \<Rightarrow> [(''targets'', targets, Portfolio_targets_type)]
      | Merge_targets_op left right \<Rightarrow>
          [(''left'', left, Portfolio_targets_type), (''right'', right, Portfolio_targets_type)]
      | First_non_empty_targets_op primary fallback \<Rightarrow>
          [(''primary'', primary, Portfolio_targets_type), (''fallback'', fallback, Portfolio_targets_type)]
      | Observe_target_exits_op targets _ \<Rightarrow> [(''targets'', targets, Portfolio_targets_type)]
      | Predicate_rebalance_op _ _ _ _ targets otherwise _ \<Rightarrow>
          (''targets'', targets, Portfolio_targets_type) #
          (case otherwise of None \<Rightarrow> [] | Some x \<Rightarrow> [(''otherwise_targets'', x, Portfolio_targets_type)])
      | Rebalance_op targets \<Rightarrow> [(''targets'', targets, Portfolio_targets_type)]
      | _ \<Rightarrow> [])"

definition operand_ids :: "ir_body \<Rightarrow> string list" where
  "operand_ids b = map (fst \<circ> snd) (operands b)"

subsection \<open>One operation by itself\<close>

definition day_issues :: "string \<Rightarrow> int \<Rightarrow> string \<Rightarrow> ir_issue list" where
  "day_issues path d message = when_issue (\<not> (1 \<le> d \<and> d \<le> 31)) (path @ ''.day'') message"

definition state_reference_issues :: "string list \<Rightarrow> string \<Rightarrow> string \<Rightarrow> ir_issue list" where
  "state_reference_issues states path s =
     when_issue (s \<notin> set states) (path @ ''.last_exit_state'') (''unknown user state: '' @ s)"

definition comparisons_issues :: "string \<Rightarrow> executable_comparison option list \<Rightarrow> (nat \<Rightarrow> string) \<Rightarrow> ir_issue list" where
  "comparisons_issues path cs place =
     concat (map (\<lambda>(n, c). case c of None \<Rightarrow> [] | Some x \<Rightarrow> validate_ir_comparison (path @ place n) x) (enumerate 0 cs))"

definition body_issues :: "string list \<Rightarrow> string \<Rightarrow> ir_body \<Rightarrow> ir_issue list" where
  "body_issues states path b =
     (case b of
        Monthly_schedule_op d \<Rightarrow> day_issues path d ''monthly day must be between 1 and 31''
      | Quarterly_schedule_op d \<Rightarrow> day_issues path d ''quarterly day must be between 1 and 31''
      | Asset_set_op symbols \<Rightarrow>
          when_issue (symbols = [] \<or> \<not> distinct symbols) (path @ ''.symbols'') ''asset set must contain unique symbols''
      | Universe_op _ _ symbols \<Rightarrow>
          when_issue (symbols = [] \<or> \<not> distinct symbols) (path @ ''.symbols'') ''asset set must contain unique symbols''
      | Random_n_op _ count resample _ \<Rightarrow>
          when_issue (count < 1) (path @ ''.count'') ''random count must be positive'' @
          when_issue (resample \<notin> set [''once'', ''per_event'']) (path @ ''.resample'')
            ''unsupported random resample mode''
      | Trailing_return_op _ lookback \<Rightarrow>
          when_issue (lookback < 1) (path @ ''.lookback_bars'') ''lookback must be positive''
      | Filter_op _ operator threshold clauses \<Rightarrow>
          when_issue (operator \<notin> set order_operators) (path @ ''.operator'') ''unsupported filter operator'' @
          when_issue (\<exists>d\<in>set (threshold # map fc_threshold clauses). \<not> is_finite d) (path @ ''.threshold'')
            ''filter thresholds must be finite decimals'' @
          comparisons_issues path (map fc_comparison clauses) (\<lambda>n. ''.clauses['' @ str_of_nat n @ ''].comparison'')
      | Predicate_rebalance_op _ lookback operator threshold _ _ comparisons \<Rightarrow>
          when_issue (lookback < 1) (path @ ''.lookback_bars'') ''lookback must be positive'' @
          when_issue (operator \<notin> set order_operators) (path @ ''.operator'') ''unsupported predicate operator'' @
          when_issue (\<not> is_finite threshold) (path @ ''.threshold'') ''predicate threshold must be finite'' @
          comparisons_issues path (map Some comparisons) (\<lambda>n. ''.comparisons['' @ str_of_nat n @ '']'')
      | Rank_op _ direction v \<Rightarrow>
          when_issue (direction \<notin> set [''descending'', ''ascending'']) (path @ ''.direction'')
            ''unsupported rank direction'' @
          (case v of None \<Rightarrow> [] | Some x \<Rightarrow> validate_ir_value (path @ ''.value'') x)
      | Top_n_op _ count shortage \<Rightarrow>
          when_issue (count < 1) (path @ ''.count'') ''Top N count must be positive'' @
          when_issue (shortage \<notin> set [''require_full'', ''choose_all'']) (path @ ''.shortage_policy'')
            ''unsupported shortage policy''
      | Elapsed_sessions_gate_op _ s minimum \<Rightarrow>
          when_issue (minimum < 1) (path @ ''.minimum_completed_sessions'')
            ''elapsed-session minimum must be positive'' @
          state_reference_issues states path s
      | Observe_target_exits_op _ s \<Rightarrow> state_reference_issues states path s
      | Equal_weight_op _ w \<Rightarrow>
          when_issue (\<not> (0 < w \<and> w \<le> 1)) (path @ ''.total_weight'') ''weight must be greater than 0 and at most 1''
      | Scale_targets_op _ f \<Rightarrow>
          when_issue (\<not> (0 < f \<and> f \<le> 1)) (path @ ''.factor'')
            ''scale factor must be greater than 0 and at most 1''
      | First_non_empty_targets_op primary fallback \<Rightarrow>
          when_issue (primary = fallback) (path @ ''.fallback'')
            ''fallback targets must differ from primary targets''
      | _ \<Rightarrow> [])"

text \<open>The loop over the operations also builds the table of the first operation per id.\<close>

fun scan_operations ::
  "string list \<Rightarrow> nat \<Rightarrow> ir_operation list \<Rightarrow> (string, ir_operation) dict \<Rightarrow> ir_issue list \<times> (string, ir_operation) dict" where
  "scan_operations states n [] ops = ([], ops)"
| "scan_operations states n (x # xs) ops =
     (let path = ir_indexed ''operations'' n;
          duplicate = dhas ops (op_id x);
          found =
            when_issue (op_tag x \<noteq> operation_tag (op_body x)) (path @ ''.operation'')
              (''expected operation id '' @ operation_tag (op_body x)) @
            (if op_id x = [] then [issue (path @ ''.id'') ''operation id is required'']
             else when_issue duplicate (path @ ''.id'') (''duplicate operation id: '' @ op_id x)) @
            when_issue (op_component x = []) (path @ ''.provenance'') ''source component id is required'' @
            body_issues states path (op_body x);
          (rest, table) = scan_operations states (Suc n) xs
            (if op_id x = [] \<or> duplicate then ops else dset (op_id x) x ops)
      in (found @ rest, table))"

definition state_issues :: "per_asset_state list \<Rightarrow> ir_issue list" where
  "state_issues states =
     concat (map (\<lambda>(n, s).
       when_issue (pas_id s = []) (ir_indexed ''user_state'' n @ ''.id'') ''state id is required'' @
       when_issue (pas_value_type s \<noteq> ''trading_session_index'' \<or> pas_initial s \<noteq> None) (ir_indexed ''user_state'' n)
         ''per-asset last-exit state must start unset'' @
       when_issue (pas_component s = []) (ir_indexed ''user_state'' n @ ''.provenance'') ''source component id is required'')
     (enumerate 0 states))"

subsection \<open>Operands\<close>

definition operand_issues :: "(string, ir_operation) dict \<Rightarrow> string \<Rightarrow> ir_body \<Rightarrow> ir_issue list" where
  "operand_issues ops i b =
     concat (map (\<lambda>(name, operand, expected).
       let path = keyed ''operations'' i @ ''.'' @ name in
       case body_of ops operand of
         None \<Rightarrow> [issue path (''unknown operand: '' @ operand)]
       | Some actual \<Rightarrow>
           when_issue (result_type actual \<noteq> expected) path
             (''expected '' @ ir_type_text expected @ '', got '' @ ir_type_text (result_type actual)))
     (operands b))"

text \<open>The asset set a Top N draws from, through its ranking, an optional filter and the
  trailing returns.\<close>

definition top_n_source :: "(string, ir_operation) dict \<Rightarrow> string \<Rightarrow> ir_body option" where
  "top_n_source ops ranked =
     (let scores = (case body_of ops ranked of Some (Rank_op s _ _) \<Rightarrow> body_of ops s | _ \<Rightarrow> None);
          unfiltered = (case scores of Some (Filter_op s _ _ _) \<Rightarrow> body_of ops s | _ \<Rightarrow> scores)
      in case unfiltered of Some (Trailing_return_op assets _) \<Rightarrow> body_of ops assets | _ \<Rightarrow> None)"

definition count_exceeds :: "ir_body option \<Rightarrow> int \<Rightarrow> bool" where
  "count_exceeds source count =
     (case Option.bind source market_symbols of
        None \<Rightarrow> False
      | Some symbols \<Rightarrow> int (length symbols) < count)"

definition count_issues :: "(string, ir_operation) dict \<Rightarrow> string \<Rightarrow> ir_body \<Rightarrow> ir_issue list" where
  "count_issues ops i b =
     (case b of
        Random_n_op assets count _ _ \<Rightarrow>
          when_issue (count_exceeds (body_of ops assets) count) (keyed ''operations'' i @ ''.count'')
            ''RandomSelect count cannot exceed its asset set size''
      | Top_n_op ranked count _ \<Rightarrow>
          when_issue (count_exceeds (top_n_source ops ranked) count) (keyed ''operations'' i @ ''.count'')
            ''Top N count cannot exceed its asset set size''
      | _ \<Rightarrow> [])"

subsection \<open>The dataflow graph\<close>

definition dependencies :: "(string, ir_operation) dict \<Rightarrow> string \<Rightarrow> string list" where
  "dependencies ops i =
     (case body_of ops i of None \<Rightarrow> [] | Some b \<Rightarrow> py_unique (filter (dhas ops) (operand_ids b)))"

definition known_operands :: "(string, ir_operation) dict \<Rightarrow> string \<Rightarrow> string list option" where
  "known_operands ops i = map_option operand_ids (body_of ops i)"

definition entrypoint_roots :: "strategy_ir \<Rightarrow> string list" where
  "entrypoint_roots ir = concat (map (\<lambda>e. [en_event e, en_target e]) (ir_entrypoints ir))"

text \<open>Enough for every node of the graph on one path, and one call more.\<close>

definition search_fuel :: "strategy_ir \<Rightarrow> nat" where
  "search_fuel ir = Suc (length (ir_operations ir))"

subsection \<open>Entrypoints and user state\<close>

definition entrypoint_issues :: "(string, ir_operation) dict \<Rightarrow> ir_entrypoint list \<Rightarrow> ir_issue list" where
  "entrypoint_issues ops es =
     concat (map (\<lambda>(n, e).
       when_issue (\<not> (case body_of ops (en_event e) of None \<Rightarrow> False | Some b \<Rightarrow> is_schedule b))
         (ir_indexed ''entrypoints'' n @ ''.event'') ''entrypoint event must be a schedule'' @
       when_issue (\<not> (case body_of ops (en_target e) of None \<Rightarrow> False | Some b \<Rightarrow> is_retain b \<or> is_rebalance b))
         (ir_indexed ''entrypoints'' n @ ''.target'') ''entrypoint target must refresh retained targets or rebalance'')
     (enumerate 0 es))"

definition retained_issues :: "ir_entrypoint list \<Rightarrow> ir_operation list \<Rightarrow> ir_issue list" where
  "retained_issues es xs =
     concat (map (\<lambda>x. when_issue (is_retain (op_body x) \<and> op_id x \<notin> set (map en_target es))
       (keyed ''operations'' (op_id x)) ''retained targets must have a scheduled refresh entrypoint'') xs)"

definition gate_state :: "ir_body \<Rightarrow> string option" where
  "gate_state b = (case b of Elapsed_sessions_gate_op _ s _ \<Rightarrow> Some s | _ \<Rightarrow> None)"

definition observer_state :: "ir_body \<Rightarrow> string option" where
  "observer_state b = (case b of Observe_target_exits_op _ s \<Rightarrow> Some s | _ \<Rightarrow> None)"

definition gates_of :: "string \<Rightarrow> ir_operation list \<Rightarrow> ir_operation list" where
  "gates_of s xs = filter (\<lambda>x. gate_state (op_body x) = Some s) xs"

definition observers_of :: "string \<Rightarrow> ir_operation list \<Rightarrow> ir_operation list" where
  "observers_of s xs = filter (\<lambda>x. observer_state (op_body x) = Some s) xs"

definition unused_issues :: "string \<Rightarrow> string \<Rightarrow> string list \<Rightarrow> ir_issue list" where
  "unused_issues path label unused =
     when_issue (unused \<noteq> []) path (label @ join_with '', '' (sort unused))"

definition usage_issues :: "string list \<Rightarrow> ir_operation list \<Rightarrow> ir_issue list" where
  "usage_issues states xs =
     unused_issues ''user_state'' ''unused states: ''
       (filter (\<lambda>s. gates_of s xs = [] \<and> observers_of s xs = []) states) @
     concat (map (\<lambda>s.
       when_issue (length (gates_of s xs) \<noteq> 1) (keyed ''user_state'' s)
         ''last-exit state must have exactly one elapsed-session gate'' @
       when_issue (length (observers_of s xs) \<noteq> 1) (keyed ''user_state'' s)
         ''last-exit state must have exactly one target-exit observer'') states)"

subsection \<open>The whole collection\<close>

definition state_ids :: "strategy_ir \<Rightarrow> string list" where
  "state_ids ir = dkeys (dict_of (map (\<lambda>s. (pas_id s, s)) (ir_user_state ir)))"

definition operation_table :: "strategy_ir \<Rightarrow> (string, ir_operation) dict" where
  "operation_table ir = snd (scan_operations (state_ids ir) 0 (ir_operations ir) [])"

definition scanned_issues :: "strategy_ir \<Rightarrow> ir_issue list" where
  "scanned_issues ir = fst (scan_operations (state_ids ir) 0 (ir_operations ir) [])"

definition header_issues :: "strategy_ir \<Rightarrow> ir_issue list" where
  "header_issues ir =
     when_issue (ir_identity ir = []) ''strategy_identity'' ''strategy identity is required'' @
     when_issue (ir_entrypoints ir = []) ''entrypoints'' ''at least one entrypoint is required'' @
     when_issue (length (state_ids ir) \<noteq> length (ir_user_state ir)) ''user_state'' ''state ids must be unique''"

definition issues_of ::
  "strategy_ir \<Rightarrow> ir_issue list \<Rightarrow> (string, ir_operation) dict \<Rightarrow> bool \<Rightarrow> string list \<Rightarrow> ir_issue list" where
  "issues_of ir scanned ops cyclic reachable =
     header_issues ir @ state_issues (ir_user_state ir) @ scanned @
     concat (map (\<lambda>(i, x). operand_issues ops i (op_body x) @ count_issues ops i (op_body x)) ops) @
     when_issue cyclic ''operations'' ''IR dataflow contains a cycle'' @
     entrypoint_issues ops (ir_entrypoints ir) @
     retained_issues (ir_entrypoints ir) (dvalues ops) @
     usage_issues (state_ids ir) (dvalues ops) @
     unused_issues ''operations'' ''unused operations: '' (filter (\<lambda>i. i \<notin> set reachable) (dkeys ops))"

definition collect_ir_validation_issues :: "strategy_ir \<Rightarrow> ir_issue list option" where
  "collect_ir_validation_issues ir =
     (let (scanned, ops) = scan_operations (state_ids ir) 0 (ir_operations ir) [] in
      Option.bind (visit_nodes (search_fuel ir) (dependencies ops) (dkeys ops)) (\<lambda>(cyclic, _).
      Option.bind (each_st (mark (search_fuel ir) (known_operands ops)) (entrypoint_roots ir) []) (\<lambda>reachable.
      Some (issues_of ir scanned ops cyclic reachable))))"

text \<open>\<open>validate_strategy_ir\<close> raises \<open>IRValidationError\<close> with the issues, when there are any.\<close>

definition validate_strategy_ir :: "strategy_ir \<Rightarrow> (ir_issue list + unit) option" where
  "validate_strategy_ir ir =
     map_option (\<lambda>issues. if issues \<noteq> [] then Inl issues else Inr ()) (collect_ir_validation_issues ir)"

end
