(* ===== verification/IR_Properties.thy ===== *)
theory IR_Properties
  imports IR_Validation
begin

text \<open>
  What \<open>validate_strategy_ir\<close> promises to the passes behind it: it always answers, and it
  accepts exactly the IRs of the declarative description \<open>well_formed_ir\<close> (unique ids, every
  operand resolved at the type its user expects, no cycle, everything used by an entrypoint,
  one gate and one observer for every state).
\<close>

subsection \<open>The table of operations\<close>

lemma scan_keys:
  "set (dkeys (snd (scan_operations states n xs ops))) \<subseteq> set (dkeys ops) \<union> set (map op_id xs)"
proof (induction xs arbitrary: n ops)
  case (Cons x xs)
  show ?case
    using Cons.IH [of "Suc n" "if op_id x = [] \<or> dhas ops (op_id x) then ops else dset (op_id x) x ops"]
    by (auto simp: Let_def split_beta set_dkeys_dset split: if_splits)
qed simp

lemma scan_distinct: "distinct (dkeys ops) \<Longrightarrow> distinct (dkeys (snd (scan_operations states n xs ops)))"
  by (induction xs arbitrary: n ops) (simp_all add: Let_def split_beta distinct_dkeys_dset)

lemma distinct_operation_table: "distinct (dkeys (operation_table ir))"
  unfolding operation_table_def by (rule scan_distinct) (simp add: dkeys_def)

lemma operation_table_keys: "set (dkeys (operation_table ir)) \<subseteq> set (map op_id (ir_operations ir))"
  using scan_keys [of "state_ids ir" 0 "ir_operations ir" "[]"] by (simp add: operation_table_def dkeys_def)

lemma operation_table_size: "card (set (dkeys (operation_table ir))) < search_fuel ir"
proof -
  have "card (set (dkeys (operation_table ir))) \<le> card (set (map op_id (ir_operations ir)))"
    by (intro card_mono operation_table_keys) simp
  also have "\<dots> \<le> length (ir_operations ir)" using card_length [of "map op_id (ir_operations ir)"] by simp
  finally show ?thesis by (simp add: search_fuel_def)
qed

lemma dom_known_operands: "dom (known_operands ops) = set (dkeys ops)"
  by (auto simp: known_operands_def body_of_def dget_def dkeys_def dom_map_of_conv_image_fst [symmetric]
      simp del: dom_map_of_conv_image_fst)

interpretation flow: dataflow "dkeys ops" "dependencies ops" for ops
  by unfold_locales (auto simp: dependencies_def dhas_iff split: option.splits)

lemma collection_answers:
  "\<exists>cyclic reachable.
     (cyclic \<longleftrightarrow> (\<exists>i\<in>set (dkeys (operation_table ir)). (i, i) \<in> (edges (dependencies (operation_table ir)))\<^sup>+)) \<and>
     set reachable = {j. known_operands (operation_table ir) j \<noteq> None \<and>
        (\<exists>x\<in>set (entrypoint_roots ir). (x, j) \<in> (known_edges (known_operands (operation_table ir)))\<^sup>*)} \<and>
     collect_ir_validation_issues ir =
       Some (issues_of ir (scanned_issues ir) (operation_table ir) cyclic reachable)"
proof -
  let ?ops = "operation_table ir"
  obtain cyclic st where c: "visit_nodes (search_fuel ir) (dependencies ?ops) (dkeys ?ops) = Some (cyclic, st)"
    and iff: "cyclic \<longleftrightarrow> (\<exists>i\<in>set (dkeys ?ops). (i, i) \<in> (edges (dependencies ?ops))\<^sup>+)"
    using flow.visit_all_answers [OF operation_table_size] by blast
  have "card (dom (known_operands ?ops)) < search_fuel ir" "finite (dom (known_operands ?ops))"
    by (simp_all add: dom_known_operands operation_table_size)
  from mark_all [OF this] obtain r where
    r: "each_st (mark (search_fuel ir) (known_operands ?ops)) (entrypoint_roots ir) [] = Some r"
    "set r = {j. known_operands ?ops j \<noteq> None \<and>
        (\<exists>x\<in>set (entrypoint_roots ir). (x, j) \<in> (known_edges (known_operands ?ops))\<^sup>*)}" by blast
  have "scan_operations (state_ids ir) 0 (ir_operations ir) [] = (scanned_issues ir, ?ops)"
    by (simp add: operation_table_def scanned_issues_def)
  then have "collect_ir_validation_issues ir = Some (issues_of ir (scanned_issues ir) ?ops cyclic r)"
    by (simp only: collect_ir_validation_issues_def Let_def prod.case c r(1) Option.bind.simps)
  with iff r(2) show ?thesis by blast
qed

subsection \<open>A declarative description\<close>

definition operand_relation :: "strategy_ir \<Rightarrow> (string \<times> string) set" where
  "operand_relation ir = {(i, j). \<exists>x\<in>set (ir_operations ir). op_id x = i \<and> j \<in> set (operand_ids (op_body x))}"

definition well_formed_state :: "per_asset_state \<Rightarrow> bool" where
  "well_formed_state s \<longleftrightarrow>
     pas_id s \<noteq> [] \<and> pas_value_type s = ''trading_session_index'' \<and> pas_initial s = None \<and> pas_component s \<noteq> []"

definition well_formed_operation :: "string list \<Rightarrow> ir_operation \<Rightarrow> bool" where
  "well_formed_operation states x \<longleftrightarrow>
     op_id x \<noteq> [] \<and> op_component x \<noteq> [] \<and> op_tag x = operation_tag (op_body x) \<and>
     body_issues states [] (op_body x) = []"

definition well_typed_operands :: "strategy_ir \<Rightarrow> bool" where
  "well_typed_operands ir \<longleftrightarrow>
     (\<forall>x\<in>set (ir_operations ir). \<forall>(name, j, t)\<in>set (operands (op_body x)).
        \<exists>y\<in>set (ir_operations ir). op_id y = j \<and> result_type (op_body y) = t)"

definition well_formed_entrypoint :: "strategy_ir \<Rightarrow> ir_entrypoint \<Rightarrow> bool" where
  "well_formed_entrypoint ir e \<longleftrightarrow>
     (\<exists>y\<in>set (ir_operations ir). op_id y = en_event e \<and> is_schedule (op_body y)) \<and>
     (\<exists>y\<in>set (ir_operations ir). op_id y = en_target e \<and> (is_retain (op_body y) \<or> is_rebalance (op_body y)))"

definition well_formed_ir :: "strategy_ir \<Rightarrow> bool" where
  "well_formed_ir ir \<longleftrightarrow>
     ir_identity ir \<noteq> [] \<and> ir_entrypoints ir \<noteq> [] \<and>
     distinct (map pas_id (ir_user_state ir)) \<and> (\<forall>s\<in>set (ir_user_state ir). well_formed_state s) \<and>
     distinct (map op_id (ir_operations ir)) \<and>
     (\<forall>x\<in>set (ir_operations ir). well_formed_operation (map pas_id (ir_user_state ir)) x) \<and>
     well_typed_operands ir \<and>
     (\<forall>x\<in>set (ir_operations ir). count_issues (operations_by_id ir) [] (op_body x) = []) \<and>
     acyclic (operand_relation ir) \<and>
     (\<forall>e\<in>set (ir_entrypoints ir). well_formed_entrypoint ir e) \<and>
     (\<forall>x\<in>set (ir_operations ir). is_retain (op_body x) \<longrightarrow> op_id x \<in> set (map en_target (ir_entrypoints ir))) \<and>
     (\<forall>s\<in>set (ir_user_state ir). length (gates_of (pas_id s) (ir_operations ir)) = 1 \<and>
        length (observers_of (pas_id s) (ir_operations ir)) = 1) \<and>
     (\<forall>x\<in>set (ir_operations ir). \<exists>r\<in>set (entrypoint_roots ir). (r, op_id x) \<in> (operand_relation ir)\<^sup>*)"

subsection \<open>Each group of checks\<close>

lemma validate_value_path: "validate_ir_value p v = [] \<Longrightarrow> validate_ir_value q v = []"
  by (induction p v arbitrary: q rule: validate_ir_value.induct)
    (auto simp: validate_subject_def split: if_splits option.splits)

lemma validate_comparison_path: "validate_ir_comparison p c = [] \<Longrightarrow> validate_ir_comparison q c = []"
  by (auto simp: validate_ir_comparison_def intro: validate_value_path)

lemma comparisons_path: "comparisons_issues p cs f = [] \<Longrightarrow> comparisons_issues q cs f = []"
  by (force simp: comparisons_issues_def intro: validate_comparison_path split: option.splits)

lemma body_issues_path_imp: "body_issues states p b = [] \<Longrightarrow> body_issues states q b = []"
  by (cases b) (auto simp: body_issues_def day_issues_def state_reference_issues_def
      intro: comparisons_path validate_value_path split: option.splits)

lemma body_issues_path: "body_issues states p b = [] \<longleftrightarrow> body_issues states q b = []"
  using body_issues_path_imp by blast

lemma body_issues_states: "set s = set t \<Longrightarrow> body_issues s p b = body_issues t p b"
  by (cases b) (simp_all add: body_issues_def state_reference_issues_def)

lemma enumerate_all: "(\<forall>p\<in>set (enumerate n xs). P (snd p)) \<longleftrightarrow> (\<forall>x\<in>set xs. P x)"
  by (induction xs arbitrary: n) auto

lemma set_dkeys_dict_of: "set (dkeys (dict_of ps)) = set (map fst ps)"
proof -
  have "set (dkeys (foldl (\<lambda>d (k, v). dset k v d) d ps)) = set (dkeys d) \<union> set (map fst ps)" for d
    by (induction ps arbitrary: d) (auto simp: set_dkeys_dset split: prod.splits)
  from this [of "[]"] show ?thesis by (simp add: dict_of_def dkeys_def)
qed

lemma length_dict_of: "length (dkeys (dict_of ps)) = length ps \<longleftrightarrow> distinct (map fst ps)"
proof -
  have "length (dkeys (dict_of ps)) = card (set (map fst ps))"
    using distinct_card [OF distinct_dict_of [of ps]] set_dkeys_dict_of [of ps] by simp
  then show ?thesis
    by (metis card_distinct distinct_card length_map)
qed

lemma set_state_ids: "set (state_ids ir) = set (map pas_id (ir_user_state ir))"
  by (simp add: state_ids_def set_dkeys_dict_of image_image)

lemma header_issues_Nil:
  "header_issues ir = [] \<longleftrightarrow>
     ir_identity ir \<noteq> [] \<and> ir_entrypoints ir \<noteq> [] \<and> distinct (map pas_id (ir_user_state ir))"
  using length_dict_of [of "map (\<lambda>s. (pas_id s, s)) (ir_user_state ir)"]
  by (auto simp: header_issues_def state_ids_def comp_def)

lemma state_issues_Nil: "state_issues ss = [] \<longleftrightarrow> (\<forall>s\<in>set ss. well_formed_state s)"
proof -
  have "state_issues ss = [] \<longleftrightarrow> (\<forall>p\<in>set (enumerate 0 ss). well_formed_state (snd p))"
    by (auto simp: state_issues_def well_formed_state_def split_beta)
  then show ?thesis by (simp only: enumerate_all)
qed

lemma scan_Nil:
  "fst (scan_operations states n xs ops) = [] \<longleftrightarrow>
     (\<forall>x\<in>set xs. well_formed_operation states x) \<and> distinct (map op_id xs) \<and>
     set (map op_id xs) \<inter> set (dkeys ops) = {}"
proof (induction xs arbitrary: n ops)
  case (Cons x xs)
  let ?path = "ir_indexed ''operations'' n"
  have "fst (scan_operations states n (x # xs) ops) = [] \<longleftrightarrow>
      well_formed_operation states x \<and> op_id x \<notin> set (dkeys ops) \<and>
      fst (scan_operations states (Suc n) xs (dset (op_id x) x ops)) = []"
    using body_issues_path [of states ?path "op_body x" "[]"]
    by (auto simp: Let_def split_beta well_formed_operation_def dhas_iff)
  then show ?case by (auto simp: Cons.IH set_dkeys_dset)
qed simp

lemma scan_table:
  "\<forall>x\<in>set xs. op_id x \<noteq> [] \<Longrightarrow> distinct (map op_id xs) \<Longrightarrow> set (map op_id xs) \<inter> set (dkeys ops) = {} \<Longrightarrow>
   snd (scan_operations states n xs ops) = ops @ map (\<lambda>x. (op_id x, x)) xs"
proof (induction xs arbitrary: n ops)
  case (Cons x xs)
  then have "\<not> dhas ops (op_id x)" "dset (op_id x) x ops = ops @ [(op_id x, x)]"
    by (auto simp: dhas_iff dset_absent)
  moreover have "set (map op_id xs) \<inter> set (dkeys (ops @ [(op_id x, x)])) = {}"
    using Cons.prems by (auto simp: dkeys_def)
  ultimately show ?case using Cons.prems Cons.IH [of "ops @ [(op_id x, x)]" "Suc n"]
    by (simp add: Let_def split_beta)
qed simp

subsection \<open>The graph of an IR with unique ids\<close>

definition unique_ids :: "strategy_ir \<Rightarrow> bool" where
  "unique_ids ir \<longleftrightarrow> distinct (map op_id (ir_operations ir)) \<and> (\<forall>x\<in>set (ir_operations ir). op_id x \<noteq> [])"

lemma table_of_unique:
  assumes "unique_ids ir"
  shows "operation_table ir = map (\<lambda>x. (op_id x, x)) (ir_operations ir)"
    and "operations_by_id ir = map (\<lambda>x. (op_id x, x)) (ir_operations ir)"
  using assms scan_table [of "ir_operations ir" "[]" "state_ids ir" 0]
  by (simp_all add: unique_ids_def operation_table_def operations_by_id_def dkeys_def dict_of_distinct comp_def)

lemma body_of_unique:
  assumes "unique_ids ir"
  shows "body_of (operations_by_id ir) j = Some b \<longleftrightarrow> (\<exists>y\<in>set (ir_operations ir). op_id y = j \<and> op_body y = b)"
proof -
  have "distinct (map fst (map (\<lambda>x. (op_id x, x)) (ir_operations ir)))"
    using assms by (simp add: unique_ids_def comp_def)
  from map_of_eq_Some_iff [OF this] show ?thesis
    by (auto simp: body_of_def dget_def table_of_unique [OF assms])
qed

lemma dhas_unique:
  assumes "unique_ids ir"
  shows "dhas (operations_by_id ir) j \<longleftrightarrow> (\<exists>y\<in>set (ir_operations ir). op_id y = j)"
  by (auto simp: dhas_iff dkeys_def table_of_unique [OF assms])

lemma operand_issues_Nil:
  assumes "unique_ids ir"
  shows "operand_issues (operations_by_id ir) i b = [] \<longleftrightarrow>
    (\<forall>(name, j, t)\<in>set (operands b). \<exists>y\<in>set (ir_operations ir). op_id y = j \<and> result_type (op_body y) = t)"
proof -
  have "(let path = keyed ''operations'' i @ ''.'' @ name in
       case body_of (operations_by_id ir) j of
         None \<Rightarrow> [issue path (''unknown operand: '' @ j)]
       | Some actual \<Rightarrow>
           when_issue (result_type actual \<noteq> t) path
             (''expected '' @ ir_type_text t @ '', got '' @ ir_type_text (result_type actual))) = [] \<longleftrightarrow>
      (\<exists>y\<in>set (ir_operations ir). op_id y = j \<and> result_type (op_body y) = t)" for name j t
  proof (cases "body_of (operations_by_id ir) j")
    case None
    with body_of_unique [OF assms, of j] show ?thesis by (simp add: Let_def) metis
  next
    case (Some b)
    with body_of_unique [OF assms, of j]
    have "(\<exists>y\<in>set (ir_operations ir). op_id y = j \<and> op_body y = b') \<longleftrightarrow> b = b'" for b' by simp
    then have "(\<exists>y\<in>set (ir_operations ir). op_id y = j \<and> result_type (op_body y) = t) \<longleftrightarrow> result_type b = t" by metis
    with Some show ?thesis by (simp add: Let_def)
  qed
  then show ?thesis by (simp add: operand_issues_def split_beta)
qed

lemma count_issues_path: "count_issues ops i b = [] \<longleftrightarrow> count_issues ops j b = []"
  by (cases b) (simp_all add: count_issues_def)

lemma operand_checks_Nil:
  assumes "unique_ids ir"
  shows "concat (map (\<lambda>(i, x). operand_issues (operation_table ir) i (op_body x) @
            count_issues (operation_table ir) i (op_body x)) (operation_table ir)) = [] \<longleftrightarrow>
    well_typed_operands ir \<and> (\<forall>x\<in>set (ir_operations ir). count_issues (operations_by_id ir) [] (op_body x) = [])"
proof -
  have t: "operation_table ir = operations_by_id ir" using table_of_unique [OF assms] by simp
  have "set (operations_by_id ir) = (\<lambda>x. (op_id x, x)) ` set (ir_operations ir)"
    by (simp add: table_of_unique [OF assms])
  then show ?thesis
    by (simp add: t well_typed_operands_def operand_issues_Nil [OF assms]
        count_issues_path [of "operations_by_id ir" "op_id x" "op_body x" "[]" for x] split_beta ball_conj_distrib)
qed

lemma edges_of_typed:
  assumes "unique_ids ir" and "well_typed_operands ir"
  shows "edges (dependencies (operation_table ir)) = operand_relation ir"
    and "known_edges (known_operands (operation_table ir)) = operand_relation ir"
proof -
  have t: "operation_table ir = operations_by_id ir" using table_of_unique [OF assms(1)] by simp
  have known: "\<exists>z\<in>set (ir_operations ir). op_id z = j"
    if "x \<in> set (ir_operations ir)" "j \<in> set (operand_ids (op_body x))" for x j
    using assms(2) that by (force simp: well_typed_operands_def operand_ids_def)
  have bodies: "(\<exists>b. body_of (operations_by_id ir) i = Some b \<and> j \<in> set (operand_ids b)) \<longleftrightarrow>
      (i, j) \<in> operand_relation ir" for i j
    by (auto simp: operand_relation_def body_of_unique [OF assms(1)])
  have inside: "dhas (operations_by_id ir) j" if "(i, j) \<in> operand_relation ir" for i j
    using that known by (auto simp: operand_relation_def dhas_unique [OF assms(1)])
  show "edges (dependencies (operation_table ir)) = operand_relation ir"
  proof (rule set_eqI, clarify)
    fix i j
    show "(i, j) \<in> edges (dependencies (operation_table ir)) \<longleftrightarrow> (i, j) \<in> operand_relation ir"
      using bodies [of i j] inside [of i j]
      by (cases "body_of (operations_by_id ir) i") (auto simp: t dependencies_def)
  qed
  have "known_operands (operations_by_id ir) j \<noteq> None \<longleftrightarrow> dhas (operations_by_id ir) j" for j
    by (simp add: known_operands_def body_of_def dhas_def dget_def)
  then have "(i, j) \<in> known_edges (known_operands (operation_table ir)) \<longleftrightarrow> (i, j) \<in> operand_relation ir" for i j
    using bodies [of i j] inside [of i j]
    by (cases "body_of (operations_by_id ir) i") (auto simp: t known_edges_def known_operands_def)
  then show "known_edges (known_operands (operation_table ir)) = operand_relation ir" by auto
qed

lemma acyclic_on_nodes:
  assumes "unique_ids ir"
  shows "(\<exists>i\<in>set (dkeys (operation_table ir)). (i, i) \<in> (operand_relation ir)\<^sup>+) \<longleftrightarrow> \<not> acyclic (operand_relation ir)"
proof -
  have "i \<in> set (dkeys (operation_table ir))" if "(i, i) \<in> (operand_relation ir)\<^sup>+" for i
    using tranclD [OF that] by (auto simp: operand_relation_def dkeys_def table_of_unique [OF assms])
  then show ?thesis by (auto simp: acyclic_def)
qed

subsection \<open>Acceptance\<close>

text \<open>The checks that need the graph, once the operations themselves are accepted.\<close>

lemma entrypoint_issues_Nil:
  assumes "unique_ids ir"
  shows "entrypoint_issues (operation_table ir) es = [] \<longleftrightarrow> (\<forall>e\<in>set es. well_formed_entrypoint ir e)"
proof -
  have t: "operation_table ir = operations_by_id ir" using table_of_unique [OF assms] by simp
  have body: "(case body_of (operations_by_id ir) j of None \<Rightarrow> False | Some b \<Rightarrow> P b) \<longleftrightarrow>
      (\<exists>y\<in>set (ir_operations ir). op_id y = j \<and> P (op_body y))" for j P
    using body_of_unique [OF assms, of j] by (cases "body_of (operations_by_id ir) j") (simp_all, metis+)
  have "entrypoint_issues (operation_table ir) es = [] \<longleftrightarrow> (\<forall>p\<in>set (enumerate 0 es). well_formed_entrypoint ir (snd p))"
    by (auto simp: entrypoint_issues_def well_formed_entrypoint_def t body split_beta)
  then show ?thesis by (simp only: enumerate_all)
qed

lemma retained_issues_Nil:
  "retained_issues es xs = [] \<longleftrightarrow> (\<forall>x\<in>set xs. is_retain (op_body x) \<longrightarrow> op_id x \<in> set (map en_target es))"
  by (auto simp: retained_issues_def)

lemma usage_issues_Nil:
  "usage_issues states xs = [] \<longleftrightarrow>
     (\<forall>s\<in>set states. length (gates_of s xs) = 1 \<and> length (observers_of s xs) = 1)"
  by (auto simp: usage_issues_def unused_issues_def filter_empty_conv)

lemma unused_issues_Nil: "unused_issues p l xs = [] \<longleftrightarrow> xs = []"
  by (simp add: unused_issues_def)

lemma validator_accepts_iff:
  "validate_strategy_ir ir = Some (Inr ()) \<longleftrightarrow> well_formed_ir ir"
proof -
  obtain cyclic reachable where
    cyclic: "cyclic \<longleftrightarrow> (\<exists>i\<in>set (dkeys (operation_table ir)). (i, i) \<in> (edges (dependencies (operation_table ir)))\<^sup>+)"
    and reachable: "set reachable = {j. known_operands (operation_table ir) j \<noteq> None \<and>
        (\<exists>x\<in>set (entrypoint_roots ir). (x, j) \<in> (known_edges (known_operands (operation_table ir)))\<^sup>*)}"
    and collected: "collect_ir_validation_issues ir =
        Some (issues_of ir (scanned_issues ir) (operation_table ir) cyclic reachable)"
    using collection_answers [of ir] by blast
  let ?issues = "issues_of ir (scanned_issues ir) (operation_table ir) cyclic reachable"
  have scanned: "scanned_issues ir = [] \<longleftrightarrow>
      (\<forall>x\<in>set (ir_operations ir). well_formed_operation (map pas_id (ir_user_state ir)) x) \<and>
      distinct (map op_id (ir_operations ir))"
    using body_issues_states [OF set_state_ids [of ir]]
    by (auto simp: scanned_issues_def scan_Nil well_formed_operation_def dkeys_def)
  have accepted: "validate_strategy_ir ir = Some (Inr ()) \<longleftrightarrow> ?issues = []"
    by (simp add: validate_strategy_ir_def collected)
  show ?thesis
  proof (cases "unique_ids ir \<and> well_typed_operands ir")
    case True
    then have u: "unique_ids ir" and w: "well_typed_operands ir" by auto
    have cyc: "cyclic \<longleftrightarrow> \<not> acyclic (operand_relation ir)"
      unfolding cyclic edges_of_typed [OF u w] by (rule acyclic_on_nodes [OF u])
    have vals: "dvalues (operation_table ir) = ir_operations ir"
      and keys: "dkeys (operation_table ir) = map op_id (ir_operations ir)"
      by (simp_all add: table_of_unique [OF u] dvalues_def dkeys_def comp_def)
    have "known_operands (operation_table ir) j \<noteq> None \<longleftrightarrow> j \<in> set (map op_id (ir_operations ir))" for j
      using dom_known_operands [of "operation_table ir"] keys by (auto simp: dom_def)
    then have used: "filter (\<lambda>i. i \<notin> set reachable) (dkeys (operation_table ir)) = [] \<longleftrightarrow>
        (\<forall>x\<in>set (ir_operations ir). \<exists>r\<in>set (entrypoint_roots ir). (r, op_id x) \<in> (operand_relation ir)\<^sup>*)"
      unfolding reachable keys edges_of_typed [OF u w] by (auto simp: filter_empty_conv)
    have states: "usage_issues (state_ids ir) (ir_operations ir) = [] \<longleftrightarrow>
        (\<forall>s\<in>set (ir_user_state ir). length (gates_of (pas_id s) (ir_operations ir)) = 1 \<and>
           length (observers_of (pas_id s) (ir_operations ir)) = 1)"
      by (simp add: usage_issues_Nil set_state_ids)
    show ?thesis
      unfolding accepted issues_of_def well_formed_ir_def append_is_Nil_conv header_issues_Nil state_issues_Nil scanned
        operand_checks_Nil [OF u] when_issue_Nil cyc not_not entrypoint_issues_Nil [OF u] retained_issues_Nil
        vals states unused_issues_Nil used
      by blast
  next
    case False
    have "\<not> well_formed_ir ir" using False by (auto simp: well_formed_ir_def unique_ids_def well_formed_operation_def)
    moreover have "?issues \<noteq> []"
    proof
      assume "?issues = []"
      then have s: "scanned_issues ir = []" and o: "concat (map (\<lambda>(i, x). operand_issues (operation_table ir) i (op_body x) @
            count_issues (operation_table ir) i (op_body x)) (operation_table ir)) = []"
        unfolding issues_of_def append_is_Nil_conv by blast+
      from s have "unique_ids ir" unfolding scanned by (auto simp: unique_ids_def well_formed_operation_def)
      with o operand_checks_Nil False show False by blast
    qed
    ultimately show ?thesis by (simp add: accepted)
  qed
qed

end
