(* ===== verification/IR_Requirements.thy ===== *)
theory IR_Requirements
  imports IR_Properties
begin

text \<open>
  \<open>compiler/analysis/requirements.py\<close>: the assets, schedules, histories, states and trading
  calendars a backend has to provide for an IR. Python sets that are sorted before they leave
  the function are duplicate-free lists here. \<open>asset_symbols\<close> follows operands recursively
  and is bounded by a fuel; \<open>calendar_symbols_answer\<close> shows that a well-formed IR never uses it up.
\<close>

subsection \<open>Values\<close>

fun value_observations :: "executable_value \<Rightarrow> int" where
  "value_observations (Executable_value kind ty subject asset literal observations aggregate operand factor) =
     (if kind = ''literal'' then 0
      else if kind = ''current_price'' then 1
      else if kind \<in> set [''trailing_return'', ''rolling_price'']
      then (case observations of None \<Rightarrow> 0 | Some n \<Rightarrow> n) + (if kind = ''trailing_return'' then 1 else 0)
      else if kind = ''scale'' then (case operand of None \<Rightarrow> 0 | Some v \<Rightarrow> value_observations v)
      else 0)"

fun value_assets :: "executable_value \<Rightarrow> string list" where
  "value_assets (Executable_value kind ty subject asset literal observations aggregate operand factor) =
     (case asset of None \<Rightarrow> [] | Some a \<Rightarrow> if subject = Some ''asset'' \<and> a \<noteq> [] then [a] else []) @
     (case operand of None \<Rightarrow> [] | Some v \<Rightarrow> value_assets v)"

subsection \<open>Requirements\<close>

record schedule_requirement =
  sr_component :: string
  sr_operation :: string
  sr_day :: "int option"

record random_requirement =
  rr_component :: string
  rr_resample :: string

record daily_history_requirement =
  dh_component :: string
  dh_symbols :: "string list"
  dh_lookback_bars :: int
  dh_observation_count :: int
  dh_price_field :: string
  dh_resolution :: string

record user_state_requirement =
  us_state_id :: string
  us_component :: string
  us_scope :: string
  us_value_type :: string
  us_mutation :: string

record trading_calendar_requirement =
  tc_component :: string
  tc_symbols :: "string list"
  tc_unit :: string

record strategy_requirements =
  rq_assets :: "string list"
  rq_schedules :: "schedule_requirement list"
  rq_operations :: "string list"
  rq_random_selections :: "random_requirement list"
  rq_daily_history :: "daily_history_requirement list"
  rq_user_state :: "user_state_requirement list"
  rq_trading_calendars :: "trading_calendar_requirement list"

primrec asset_symbols :: "nat \<Rightarrow> (string, ir_operation) dict \<Rightarrow> string \<Rightarrow> string list option" where
  "asset_symbols 0 ops i = None"
| "asset_symbols (Suc fuel) ops i =
     (case body_of ops i of
        Some (Asset_set_op symbols) \<Rightarrow> Some symbols
      | Some (Universe_op _ _ symbols) \<Rightarrow> Some symbols
      | Some (Elapsed_sessions_gate_op candidates _ _) \<Rightarrow> asset_symbols fuel ops candidates
      | Some (Top_n_op ranked _ _) \<Rightarrow> asset_symbols fuel ops ranked
      | Some (Rank_op scores _ _) \<Rightarrow> asset_symbols fuel ops scores
      | Some (Filter_op scores _ _ _) \<Rightarrow> asset_symbols fuel ops scores
      | Some (Trailing_return_op assets _) \<Rightarrow> asset_symbols fuel ops assets
      | _ \<Rightarrow> Some [])"

definition compared_values :: "executable_comparison list \<Rightarrow> executable_value list" where
  "compared_values cs = concat (map (\<lambda>c. [xc_left c, xc_right c]) cs)"

definition predicate_assets :: "string \<Rightarrow> executable_comparison list \<Rightarrow> string list" where
  "predicate_assets asset cs =
     (let found = py_unique (concat (map value_assets (compared_values cs)))
      in if found \<noteq> [] then found else if asset \<noteq> [] then [asset] else [])"

definition predicate_observations :: "int \<Rightarrow> executable_comparison list \<Rightarrow> int" where
  "predicate_observations lookback cs =
     (case map value_observations (compared_values cs) of
        [] \<Rightarrow> lookback + 1
      | n # ns \<Rightarrow> foldl max n ns)"

definition used_assets :: "ir_body \<Rightarrow> string list" where
  "used_assets b =
     (case b of
        Asset_set_op symbols \<Rightarrow> symbols
      | Universe_op _ _ symbols \<Rightarrow> symbols
      | Predicate_rebalance_op asset _ _ _ _ _ comparisons \<Rightarrow> predicate_assets asset comparisons
      | _ \<Rightarrow> [])"

definition schedule_entry :: "ir_operation \<Rightarrow> schedule_requirement list" where
  "schedule_entry x =
     (let entry = \<lambda>d. [\<lparr>sr_component = op_component x, sr_operation = op_tag x, sr_day = d\<rparr>] in
      case op_body x of
        Daily_schedule_op \<Rightarrow> entry None
      | Monthly_schedule_op d \<Rightarrow> entry (Some d)
      | Quarterly_schedule_op d \<Rightarrow> entry (Some d)
      | _ \<Rightarrow> [])"

definition random_of :: "ir_operation \<Rightarrow> random_requirement list" where
  "random_of x =
     (case op_body x of
        Random_n_op _ _ resample _ \<Rightarrow> [\<lparr>rr_component = op_component x, rr_resample = resample\<rparr>]
      | _ \<Rightarrow> [])"

definition history_entry :: "(string, ir_operation) dict \<Rightarrow> ir_operation \<Rightarrow> daily_history_requirement list" where
  "history_entry ops x =
     (let entry = \<lambda>symbols lookback n.
        [\<lparr>dh_component = op_component x, dh_symbols = symbols, dh_lookback_bars = lookback,
          dh_observation_count = n, dh_price_field = ''adjusted_close'', dh_resolution = ''daily''\<rparr>] in
      case op_body x of
        Trailing_return_op assets lookback \<Rightarrow>
          (case Option.bind (body_of ops assets) market_symbols of
             None \<Rightarrow> []
           | Some symbols \<Rightarrow> entry symbols lookback (lookback + 1))
      | Predicate_rebalance_op asset lookback _ _ _ _ comparisons \<Rightarrow>
          (let n = predicate_observations lookback comparisons
           in entry (sort (predicate_assets asset comparisons)) (max 0 (n - 1)) n)
      | _ \<Rightarrow> [])"

definition state_requirement :: "per_asset_state \<Rightarrow> user_state_requirement" where
  "state_requirement s =
     \<lparr>us_state_id = pas_id s, us_component = pas_component s, us_scope = ''per_asset'',
      us_value_type = ''trading_session_index'', us_mutation = ''target_exit''\<rparr>"

text \<open>The generator over the cooldown gates; \<^term>\<open>None\<close> when a search ran out of fuel.\<close>

fun calendars_of :: "nat \<Rightarrow> (string, ir_operation) dict \<Rightarrow> ir_operation list \<Rightarrow> trading_calendar_requirement list option" where
  "calendars_of fuel ops [] = Some []"
| "calendars_of fuel ops (x # xs) =
     (if gate_state (op_body x) = None then calendars_of fuel ops xs
      else Option.bind (asset_symbols fuel ops (op_id x)) (\<lambda>symbols.
           Option.bind (calendars_of fuel ops xs) (\<lambda>rest.
           Some (\<lparr>tc_component = op_component x, tc_symbols = symbols, tc_unit = ''completed_trading_sessions''\<rparr> # rest))))"

definition analyze_strategy_ir :: "strategy_ir \<Rightarrow> strategy_requirements option" where
  "analyze_strategy_ir ir =
     (let ops = operations_by_id ir; xs = ir_operations ir in
      Option.bind (calendars_of (search_fuel ir) ops xs) (\<lambda>calendars.
      Some \<lparr>rq_assets = sort (remdups (concat (map (used_assets \<circ> op_body) xs))),
            rq_schedules = sort_key sr_component (concat (map schedule_entry xs)),
            rq_operations = sort (remdups (map op_tag xs)),
            rq_random_selections = sort_key rr_component (concat (map random_of xs)),
            rq_daily_history = sort_key dh_component (concat (map (history_entry ops) xs)),
            rq_user_state = sort_key us_state_id (map state_requirement (ir_user_state ir)),
            rq_trading_calendars = sort_key tc_component calendars\<rparr>))"

end
