(* ===== verification/Lean_Lowering.thy ===== *)
theory Lean_Lowering
  imports IR_Requirements Lean_Plan
begin

text \<open>
  \<open>lower_strategy_ir_to_lean_plan\<close> of \<open>compiler/lean/lowering.py\<close>. The closures of the
  Python function share five dictionaries; they are the fields of \<open>lowering_state\<close>, threaded
  explicitly. \<open>lower_targets\<close> and \<open>lower_snapshot\<close> call each other along operands, bounded
  by a fuel whose exhaustion is the error \<open>Recursion_exceeded\<close>. A \<open>LeanLoweringError\<close> is a
  \<open>Lean_lowering_error\<close>, a \<open>ValueError\<close> of the plan's normalisation a \<open>Plan_error\<close>.
\<close>

datatype lowering_error = Lean_lowering_error string | Plan_error py_error | Recursion_exceeded

type_synonym 'a lowered = "lowering_error + 'a"

record lowering_state =
  ls_selections :: "(string, lean_random_selection) dict"
  ls_momentum :: "(string, lean_momentum_selection) dict"
  ls_cooldown :: "(string, lean_cooldown_state) dict"
  ls_sleeves :: "(string, lean_target_sleeve) dict"
  ls_snapshots :: "(string, lean_target_snapshot) dict"

definition empty_lowering :: lowering_state where
  "empty_lowering = \<lparr>ls_selections = [], ls_momentum = [], ls_cooldown = [], ls_sleeves = [], ls_snapshots = []\<rparr>"

text \<open>What the closures read: the operations and the two tables of requirements.\<close>

record lowering_context =
  lx_operations :: "(string, ir_operation) dict"
  lx_history :: "(string, daily_history_requirement) dict"
  lx_calendars :: "(string, trading_calendar_requirement) dict"

definition lowering_context_of :: "strategy_ir \<Rightarrow> strategy_requirements \<Rightarrow> lowering_context" where
  "lowering_context_of ir rq =
     \<lparr>lx_operations = operations_by_id ir,
      lx_history = dict_of (map (\<lambda>r. (dh_component r, r)) (rq_daily_history rq)),
      lx_calendars = dict_of (map (\<lambda>r. (tc_component r, r)) (rq_trading_calendars rq))\<rparr>"

abbreviation lx_body :: "lowering_context \<Rightarrow> string \<Rightarrow> ir_body option" where
  "lx_body cx i \<equiv> body_of (lx_operations cx) i"

definition lx_component :: "lowering_context \<Rightarrow> string \<Rightarrow> string" where
  "lx_component cx i = (case dget (lx_operations cx) i of None \<Rightarrow> [] | Some x \<Rightarrow> op_component x)"

subsection \<open>Values\<close>

fun lower_value :: "executable_value \<Rightarrow> lean_value" where
  "lower_value (Executable_value kind ty subject asset literal observations aggregate operand factor) =
     Lean_value kind ty subject asset literal observations aggregate
       (case operand of None \<Rightarrow> None | Some v \<Rightarrow> Some (lower_value v)) factor [] None None None None"

definition lower_comparison :: "executable_comparison \<Rightarrow> lean_comparison" where
  "lower_comparison c =
     \<lparr>lc_operator = xc_operator c, lc_left = lower_value (xc_left c), lc_right = lower_value (xc_right c)\<rparr>"

definition trailing_return_value :: "int \<Rightarrow> lean_value" where
  "trailing_return_value n =
     Lean_value ''trailing_return'' ''percentage'' (Some ''candidate'') None None (Some n) None None None [] None None None None"

subsection \<open>Selections\<close>

text \<open>The chain below a Top N: the ranking, an optional filter, the trailing returns and the
  asset set; \<^term>\<open>None\<close> where an \<open>isinstance\<close> test fails.\<close>

record momentum_chain =
  mc_rank_id :: string
  mc_direction :: string
  mc_rank_value :: "executable_value option"
  mc_filter :: "(string \<times> string \<times> py_decimal \<times> ir_filter_clause list) option"
  mc_score_id :: string
  mc_symbols :: "string list"

definition momentum_chain_of :: "lowering_context \<Rightarrow> string \<Rightarrow> momentum_chain option" where
  "momentum_chain_of cx ranked =
     (case lx_body cx ranked of
        Some (Rank_op scores direction v) \<Rightarrow>
          (let (filter_part, score_id) =
             (case lx_body cx scores of
                Some (Filter_op inner operator threshold clauses) \<Rightarrow>
                  (Some (lx_component cx scores, operator, threshold, clauses), inner)
              | _ \<Rightarrow> (None, scores))
           in case lx_body cx score_id of
                Some (Trailing_return_op assets _) \<Rightarrow>
                  (case Option.bind (lx_body cx assets) market_symbols of
                     None \<Rightarrow> None
                   | Some symbols \<Rightarrow>
                       Some \<lparr>mc_rank_id = ranked, mc_direction = direction, mc_rank_value = v,
                             mc_filter = filter_part, mc_score_id = score_id, mc_symbols = symbols\<rparr>)
              | _ \<Rightarrow> None)
      | _ \<Rightarrow> None)"

definition momentum_selection ::
  "lowering_context \<Rightarrow> string \<Rightarrow> int \<Rightarrow> string \<Rightarrow> string \<Rightarrow> string option \<Rightarrow> momentum_chain \<Rightarrow>
   daily_history_requirement \<Rightarrow> lean_momentum_selection" where
  "momentum_selection cx top_component count shortage selection_id cooldown chain history =
     (let clauses = (case mc_filter chain of None \<Rightarrow> [] | Some (_, _, _, cs) \<Rightarrow> cs) in
      \<lparr>ms_id = selection_id,
       ms_score_component = lx_component cx (mc_score_id chain),
       ms_rank_component = lx_component cx (mc_rank_id chain),
       ms_selection_component = top_component,
       ms_symbols = mc_symbols chain,
       ms_lookback_bars = dh_lookback_bars history,
       ms_count = count,
       ms_direction = mc_direction chain,
       ms_price_field = dh_price_field history,
       ms_filter_component = map_option fst (mc_filter chain),
       ms_filter_operator = map_option (fst \<circ> snd) (mc_filter chain),
       ms_filter_threshold = map_option (fst \<circ> snd \<circ> snd) (mc_filter chain),
       ms_filter_clauses = map (\<lambda>c. \<lparr>lf_operator = fc_operator c, lf_threshold = fc_threshold c\<rparr>) clauses,
       ms_shortage_policy = shortage,
       ms_cooldown_state = cooldown,
       ms_ranking_value = Some (case mc_rank_value chain of
           Some v \<Rightarrow> lower_value v
         | None \<Rightarrow> trailing_return_value (dh_lookback_bars history)),
       ms_eligibility = map lower_comparison (List.map_filter fc_comparison clauses),
       ms_score_field = ''config.lookback_bars''\<rparr>)"

text \<open>\<open>lower_momentum_selection(top_n, selection_id, cooldown_state_id=...)\<close>.\<close>

definition lower_momentum_selection ::
  "lowering_context \<Rightarrow> string \<Rightarrow> string \<Rightarrow> int \<Rightarrow> string \<Rightarrow> string \<Rightarrow> string option \<Rightarrow> lowering_state \<Rightarrow>
   (string list \<times> lowering_state) lowered" where
  "lower_momentum_selection cx top_component ranked count shortage selection_id cooldown st =
     (case momentum_chain_of cx ranked of
        None \<Rightarrow> Inl (Lean_lowering_error ''Top N must consume ranked trailing returns over an asset set'')
      | Some chain \<Rightarrow>
          (case dget (lx_history cx) (lx_component cx (mc_score_id chain)) of
             None \<Rightarrow> Inl (Lean_lowering_error ''trailing return history requirement is missing'')
           | Some history \<Rightarrow>
               Inr (mc_symbols chain,
                 st\<lparr>ls_momentum := dset selection_id
                      (momentum_selection cx top_component count shortage selection_id cooldown chain history)
                      (ls_momentum st)\<rparr>)))"

subsection \<open>Sleeves\<close>

definition store_sleeve :: "lean_target_sleeve \<Rightarrow> lowering_state \<Rightarrow> lowering_state" where
  "store_sleeve s st = st\<lparr>ls_sleeves := dset (sl_id s) s (ls_sleeves st)\<rparr>"

definition plain_sleeve :: "string \<Rightarrow> decimal \<Rightarrow> string list \<Rightarrow> string option \<Rightarrow> lean_target_sleeve" where
  "plain_sleeve i w symbols selection_id =
     \<lparr>sl_id = i, sl_symbols = symbols, sl_total_weight = w, sl_selection_id = selection_id,
      sl_fallback_component = None, sl_fallback_symbols = [], sl_source_sleeve = None,
      sl_local_total_weight = None, sl_source_allocation = None, sl_weighting_method = ''equal'',
      sl_allocation_component = None\<rparr>"

text \<open>The symbols and the selection of the assets an equal-weight operation consumes.\<close>

definition lower_sleeve_assets ::
  "lowering_context \<Rightarrow> string \<Rightarrow> lowering_state \<Rightarrow> ((string list \<times> string option) \<times> lowering_state) lowered" where
  "lower_sleeve_assets cx assets st =
     (case lx_body cx assets of
        Some (Random_n_op source count resample bindings) \<Rightarrow>
          (case Option.bind (lx_body cx source) market_symbols of
             None \<Rightarrow> Inl (Lean_lowering_error ''random selection input must be a market asset set'')
           | Some symbols \<Rightarrow>
               Inr ((symbols, Some assets),
                 st\<lparr>ls_selections := dset assets
                      \<lparr>rs_id = assets, rs_component = lx_component cx assets, rs_symbols = symbols, rs_count = count,
                       rs_resample = resample, rs_bindings = bindings\<rparr> (ls_selections st)\<rparr>))
      | Some (Top_n_op ranked count shortage) \<Rightarrow>
          ebind (lower_momentum_selection cx (lx_component cx assets) ranked count shortage assets None st)
            (\<lambda>(symbols, st). Inr ((symbols, Some assets), st))
      | Some (Elapsed_sessions_gate_op candidates s minimum) \<Rightarrow>
          (case lx_body cx candidates of
             Some (Top_n_op ranked count shortage) \<Rightarrow>
               ebind (lower_momentum_selection cx (lx_component cx candidates) ranked count shortage assets (Some s) st)
                 (\<lambda>(symbols, st).
                  case dget (lx_calendars cx) (lx_component cx assets) of
                    None \<Rightarrow> Inl (Lean_lowering_error ''cooldown trading-calendar requirement is missing'')
                  | Some calendar \<Rightarrow>
                      (case tc_symbols calendar of
                         [] \<Rightarrow> Inl (Lean_lowering_error ''cooldown trading-calendar requirement is missing'')
                       | calendar_symbol # _ \<Rightarrow>
                           Inr ((symbols, Some assets),
                             st\<lparr>ls_cooldown := dset s
                                  \<lparr>cs_id = s, cs_component = lx_component cx assets, cs_symbols = symbols,
                                   cs_required_sessions = minimum, cs_calendar_symbol = calendar_symbol\<rparr>
                                  (ls_cooldown st)\<rparr>)))
           | _ \<Rightarrow> Inl (Lean_lowering_error ''cooldown v0 must consume a Top N candidate set''))
      | Some b \<Rightarrow>
          (case market_symbols b of
             Some symbols \<Rightarrow> Inr ((symbols, None), st)
           | None \<Rightarrow> Inl (Lean_lowering_error ''equal-weight input must be a market asset set or RandomN selection''))
      | None \<Rightarrow> Inl (Lean_lowering_error ''equal-weight input must be a market asset set or RandomN selection''))"

definition lower_sleeve ::
  "lowering_context \<Rightarrow> string \<Rightarrow> lowering_state \<Rightarrow> (lean_target_sleeve \<times> lowering_state) lowered" where
  "lower_sleeve cx i st =
     (case lx_body cx i of
        Some (Equal_weight_op assets w) \<Rightarrow>
          ebind (lower_sleeve_assets cx assets st) (\<lambda>((symbols, selection_id), st).
          let sleeve = plain_sleeve i w symbols selection_id in Inr (sleeve, store_sleeve sleeve st))
      | _ \<Rightarrow> Inl (Lean_lowering_error (i @ '' is not an equal-weight operation'')))"

subsection \<open>Targets\<close>

record lowered_targets =
  lt_sleeves :: "lean_target_sleeve list"
  lt_snapshot_allocations :: "lean_snapshot_allocation list"
  lt_exit_state_ids :: "string list"

definition no_targets :: lowered_targets where
  "no_targets = \<lparr>lt_sleeves = [], lt_snapshot_allocations = [], lt_exit_state_ids = []\<rparr>"

definition merged :: "lowered_targets \<Rightarrow> lowered_targets \<Rightarrow> lowered_targets" where
  "merged a b =
     \<lparr>lt_sleeves = lt_sleeves a @ lt_sleeves b,
      lt_snapshot_allocations = lt_snapshot_allocations a @ lt_snapshot_allocations b,
      lt_exit_state_ids = lt_exit_state_ids a @ lt_exit_state_ids b\<rparr>"

text \<open>\<open>replace(local, total_weight=..., source_...=...)\<close>: the weight at the scale of the
  branch, with its provenance when a portfolio sleeve scaled it.\<close>

definition scaled_sleeve :: "decimal \<Rightarrow> string option \<Rightarrow> lean_target_sleeve \<Rightarrow> lean_target_sleeve" where
  "scaled_sleeve scale source s =
     s\<lparr>sl_total_weight := dmul (sl_total_weight s) scale,
       sl_source_sleeve := source,
       sl_local_total_weight := (if source \<noteq> None then Some (sl_total_weight s) else None),
       sl_source_allocation := (if source \<noteq> None then Some scale else None)\<rparr>"

definition lower_fallback ::
  "lowering_context \<Rightarrow> string \<Rightarrow> string \<Rightarrow> string \<Rightarrow> decimal \<Rightarrow> string option \<Rightarrow> lowering_state \<Rightarrow>
   (lowered_targets \<times> lowering_state) lowered" where
  "lower_fallback cx component primary fallback scale source st =
     (case (lx_body cx primary, lx_body cx fallback) of
        (Some (Equal_weight_op _ w), Some (Equal_weight_op fallback_assets v)) \<Rightarrow>
          (case Option.bind (lx_body cx fallback_assets) market_symbols of
             Some [symbol] \<Rightarrow>
               if w \<noteq> v then Inl (Lean_lowering_error ''fallback allocation must match the primary allocation'')
               else ebind (lower_sleeve cx primary st) (\<lambda>(primary_sleeve, st).
                    case Option.bind (sl_selection_id primary_sleeve) (dget (ls_momentum st)) of
                      None \<Rightarrow> Inl (Lean_lowering_error ''LEAN fallback v0 requires a momentum Top N primary selection'')
                    | Some _ \<Rightarrow>
                        let lowered = (scaled_sleeve scale source primary_sleeve)
                              \<lparr>sl_fallback_component := Some component, sl_fallback_symbols := [symbol]\<rparr>
                        in Inr (no_targets\<lparr>lt_sleeves := [lowered]\<rparr>, store_sleeve lowered st))
           | _ \<Rightarrow> Inl (Lean_lowering_error ''LEAN fallback v0 requires one fallback asset''))
      | _ \<Rightarrow> Inl (Lean_lowering_error ''first-non-empty targets require equal-weight primary and fallback''))"

text \<open>\<open>lower_snapshot\<close>, with the recursive call as an argument.\<close>

definition lower_snapshot_with ::
  "(string \<Rightarrow> lowering_state \<Rightarrow> (lowered_targets \<times> lowering_state) lowered) \<Rightarrow> lowering_context \<Rightarrow>
   string \<Rightarrow> string \<Rightarrow> lowering_state \<Rightarrow> (lean_target_snapshot \<times> lowering_state) lowered" where
  "lower_snapshot_with lower_from cx i targets st =
     (case dget (ls_snapshots st) i of
        Some existing \<Rightarrow> Inr (existing, st)
      | None \<Rightarrow>
          ebind (lower_from targets st) (\<lambda>(lowered, st).
          if lt_snapshot_allocations lowered \<noteq> []
          then Inl (Lean_lowering_error ''retained targets cannot depend on another retained snapshot'')
          else let snapshot = \<lparr>ts_id = i, ts_sleeve_ids = map sl_id (lt_sleeves lowered),
                               ts_source_sleeve = lx_component cx i\<rparr>
               in Inr (snapshot, st\<lparr>ls_snapshots := dset i snapshot (ls_snapshots st)\<rparr>)))"

primrec lower_targets ::
  "nat \<Rightarrow> lowering_context \<Rightarrow> string \<Rightarrow> decimal \<Rightarrow> string option \<Rightarrow> lowering_state \<Rightarrow>
   (lowered_targets \<times> lowering_state) lowered" where
  "lower_targets 0 cx i scale source st = Inl Recursion_exceeded"
| "lower_targets (Suc fuel) cx i scale source st =
     (case lx_body cx i of
        Some (Merge_targets_op left right) \<Rightarrow>
          ebind (lower_targets fuel cx left scale source st) (\<lambda>(a, st).
          ebind (lower_targets fuel cx right scale source st) (\<lambda>(b, st).
          Inr (merged a b, st)))
      | Some (Scale_targets_op targets factor) \<Rightarrow>
          if source \<noteq> None then Inl (Lean_lowering_error ''nested portfolio sleeves are not supported'')
          else (case lx_body cx targets of
                  Some (Retain_targets_op retained) \<Rightarrow>
                    ebind (lower_snapshot_with (\<lambda>j. lower_targets fuel cx j 1 None) cx targets retained st) (\<lambda>(snapshot, st).
                    Inr (no_targets\<lparr>lt_snapshot_allocations :=
                           [\<lparr>sa_snapshot_id = ts_id snapshot, sa_factor = dmul scale factor,
                             sa_source_sleeve = lx_component cx i\<rparr>]\<rparr>, st))
                | _ \<Rightarrow> lower_targets fuel cx targets (dmul scale factor) (Some (lx_component cx i)) st)
      | Some (Equal_weight_op _ _) \<Rightarrow>
          ebind (lower_sleeve cx i st) (\<lambda>(local, st).
          let lowered = scaled_sleeve scale source local
          in Inr (no_targets\<lparr>lt_sleeves := [lowered]\<rparr>, store_sleeve lowered st))
      | Some (First_non_empty_targets_op primary fallback) \<Rightarrow>
          lower_fallback cx (lx_component cx i) primary fallback scale source st
      | Some (Observe_target_exits_op targets s) \<Rightarrow>
          ebind (lower_targets fuel cx targets scale source st) (\<lambda>(lowered, st).
          if dhas (ls_cooldown st) s
          then Inr (lowered\<lparr>lt_exit_state_ids := lt_exit_state_ids lowered @ [s]\<rparr>, st)
          else Inl (Lean_lowering_error ''target-exit observer references an unknown cooldown state''))
      | _ \<Rightarrow> Inl (Lean_lowering_error
               ''Rebalance targets must lower from equal-weight, fallback, scaling, or merging''))"

subsection \<open>Branches and rebalances\<close>

definition branch_total :: "lowered_targets \<Rightarrow> decimal" where
  "branch_total b = dadd (dsum (map sl_total_weight (lt_sleeves b))) (dsum (map sa_factor (lt_snapshot_allocations b)))"

definition require_complete_branch :: "lowered_targets \<Rightarrow> string \<Rightarrow> unit lowered" where
  "require_complete_branch b label =
     guard (branch_total b = 1) (Lean_lowering_error (label @ '' target sleeve weights must sum to 1''))"

definition rebalance_of ::
  "string \<Rightarrow> lean_predicate option \<Rightarrow> executable_comparison list \<Rightarrow> lowered_targets \<Rightarrow> lowered_targets \<Rightarrow> lean_rebalance" where
  "rebalance_of i predicate comparisons branch otherwise =
     \<lparr>rb_id = i, rb_sleeve_ids = map sl_id (lt_sleeves branch),
      rb_snapshot_allocations = lt_snapshot_allocations branch,
      rb_exit_state_ids = sorted_set (lt_exit_state_ids branch),
      rb_predicate = predicate, rb_condition = map lower_comparison comparisons,
      rb_three_valued = False, rb_unknown_policy = ''retain'',
      rb_otherwise_sleeve_ids = map sl_id (lt_sleeves otherwise),
      rb_otherwise_snapshot_allocations = lt_snapshot_allocations otherwise,
      rb_otherwise_exit_state_ids = sorted_set (lt_exit_state_ids otherwise)\<rparr>"

text \<open>The branches of a rebalance: \<open>lower_targets\<close> of THEN, and of OTHERWISE where there is one.\<close>

definition lower_branches ::
  "nat \<Rightarrow> lowering_context \<Rightarrow> string \<Rightarrow> string option \<Rightarrow> lowering_state \<Rightarrow>
   (lowered_targets \<times> lowered_targets \<times> lowering_state) lowered" where
  "lower_branches fuel cx targets otherwise st =
     ebind (lower_targets fuel cx targets 1 None st) (\<lambda>(branch, st).
     ebind (case otherwise of
              None \<Rightarrow> Inr (no_targets, st)
            | Some j \<Rightarrow> lower_targets fuel cx j 1 None st) (\<lambda>(other, st).
     ebind (require_complete_branch branch ''THEN'') (\<lambda>_.
     ebind (if otherwise \<noteq> None then require_complete_branch other ''OTHERWISE'' else Inr ()) (\<lambda>_.
     Inr (branch, other, st)))))"

subsection \<open>Entrypoints\<close>

text \<open>What the loop over the entrypoints builds: the lowered rebalances, and per event the ids it
  refreshes and rebalances.\<close>

record entry_state =
  es_lowering :: lowering_state
  es_rebalances :: "(string, lean_rebalance) dict"
  es_actions :: "(string, string list \<times> string list) dict"

definition event_day :: "ir_body \<Rightarrow> int option" where
  "event_day b = (case b of Monthly_schedule_op d \<Rightarrow> Some d | Quarterly_schedule_op d \<Rightarrow> Some d | _ \<Rightarrow> None)"

definition add_refresh :: "string \<Rightarrow> string \<Rightarrow> entry_state \<Rightarrow> entry_state" where
  "add_refresh e i es =
     (let (refresh, rebalance) = dget_or (es_actions es) e ([], [])
      in es\<lparr>es_actions := dset e (refresh @ [i], rebalance) (es_actions es)\<rparr>)"

definition add_rebalance :: "string \<Rightarrow> lean_rebalance \<Rightarrow> entry_state \<Rightarrow> entry_state" where
  "add_rebalance e r es =
     (let (refresh, rebalance) = dget_or (es_actions es) e ([], [])
      in es\<lparr>es_rebalances := dset (rb_id r) r (es_rebalances es),
            es_actions := dset e (refresh, rebalance @ [rb_id r]) (es_actions es)\<rparr>)"

definition lower_rebalance_entry ::
  "nat \<Rightarrow> lowering_context \<Rightarrow> string \<Rightarrow> string \<Rightarrow> string \<Rightarrow> string option \<Rightarrow> lean_predicate option \<Rightarrow>
   executable_comparison list \<Rightarrow> entry_state \<Rightarrow> entry_state lowered" where
  "lower_rebalance_entry fuel cx e i targets otherwise predicate comparisons es =
     ebind (lower_branches fuel cx targets otherwise (es_lowering es)) (\<lambda>(branch, other, st).
     Inr (add_rebalance e (rebalance_of i predicate comparisons branch other) (es\<lparr>es_lowering := st\<rparr>)))"

definition lower_entrypoint :: "nat \<Rightarrow> lowering_context \<Rightarrow> ir_entrypoint \<Rightarrow> entry_state \<Rightarrow> entry_state lowered" where
  "lower_entrypoint fuel cx e es =
     (case lx_body cx (en_event e) of
        None \<Rightarrow> Inl (Lean_lowering_error ''LEAN compiler v0 supports daily, monthly, and quarterly events'')
      | Some event \<Rightarrow>
          if \<not> is_schedule event
          then Inl (Lean_lowering_error ''LEAN compiler v0 supports daily, monthly, and quarterly events'')
          else if event_day event \<noteq> None \<and> event_day event \<noteq> Some 1
          then Inl (Lean_lowering_error ''LEAN compiler v0 supports only the first trading day of a period'')
          else (case lx_body cx (en_target e) of
                  Some (Retain_targets_op targets) \<Rightarrow>
                    ebind (lower_snapshot_with (\<lambda>j. lower_targets fuel cx j 1 None) cx (en_target e) targets (es_lowering es))
                      (\<lambda>(_, st). Inr (add_refresh (en_event e) (en_target e) (es\<lparr>es_lowering := st\<rparr>)))
                | Some (Rebalance_op targets) \<Rightarrow>
                    lower_rebalance_entry fuel cx (en_event e) (en_target e) targets None None [] es
                | Some (Predicate_rebalance_op asset lookback operator threshold targets otherwise comparisons) \<Rightarrow>
                    lower_rebalance_entry fuel cx (en_event e) (en_target e) targets otherwise
                      (Some \<lparr>pr_component = lx_component cx (en_target e), pr_asset = asset, pr_lookback_bars = lookback,
                             pr_operator = operator, pr_threshold = threshold\<rparr>) comparisons es
                | _ \<Rightarrow> Inl (Lean_lowering_error ''scheduled target must refresh targets or rebalance'')))"

subsection \<open>The plan\<close>

definition subscription_of :: "string \<Rightarrow> lean_subscription" where
  "subscription_of symbol =
     \<lparr>su_symbol = symbol, su_security_type = ''equity'', su_market = ''usa'', su_resolution = ''daily''\<rparr>"

definition common_event :: "string list \<Rightarrow> string \<times> string list \<times> string list \<Rightarrow> lean_event" where
  "common_event symbols entry =
     (case entry of (i, refresh, rebalance) \<Rightarrow>
      \<lparr>ev_id = i, ev_anchor_symbol = hd symbols, ev_rebalance_ids = sorted_set rebalance,
       ev_required_symbols = symbols, ev_refresh_ids = sorted_set refresh\<rparr>)"

definition period_event :: "int \<Rightarrow> lean_event \<Rightarrow> lean_period_event" where
  "period_event d e =
     \<lparr>ev_id = ev_id e, ev_anchor_symbol = ev_anchor_symbol e, ev_rebalance_ids = ev_rebalance_ids e,
      ev_required_symbols = ev_required_symbols e, ev_refresh_ids = ev_refresh_ids e, ev_day = d\<rparr>"

definition monthly_event :: "int \<Rightarrow> string \<Rightarrow> lean_event \<Rightarrow> lean_monthly_event" where
  "monthly_event d boundary e =
     \<lparr>ev_id = ev_id e, ev_anchor_symbol = ev_anchor_symbol e, ev_rebalance_ids = ev_rebalance_ids e,
      ev_required_symbols = ev_required_symbols e, ev_refresh_ids = ev_refresh_ids e, ev_day = d,
      ev_boundary = boundary\<rparr>"

text \<open>The last loop sorts the events by the class of their schedule.\<close>

definition daily_events_of :: "lowering_context \<Rightarrow> lean_event list \<Rightarrow> lean_event list" where
  "daily_events_of cx es = filter (\<lambda>e. lx_body cx (ev_id e) = Some Daily_schedule_op) es"

definition monthly_events_of :: "lowering_context \<Rightarrow> lean_event list \<Rightarrow> lean_monthly_event list" where
  "monthly_events_of cx es =
     List.map_filter (\<lambda>e. case lx_body cx (ev_id e) of
        Some (Monthly_schedule_op d) \<Rightarrow> Some (monthly_event d ''start'' e) | _ \<Rightarrow> None) es"

definition quarterly_events_of :: "lowering_context \<Rightarrow> lean_event list \<Rightarrow> lean_period_event list" where
  "quarterly_events_of cx es =
     List.map_filter (\<lambda>e. case lx_body cx (ev_id e) of
        Some (Quarterly_schedule_op d) \<Rightarrow> Some (period_event d e) | _ \<Rightarrow> None) es"

definition lowered_plan :: "strategy_ir \<Rightarrow> strategy_requirements \<Rightarrow> lowering_context \<Rightarrow> entry_state \<Rightarrow> lean_plan" where
  "lowered_plan ir rq cx es =
     (let symbols = rq_assets rq; st = es_lowering es; events = map (common_event symbols) (es_actions es) in
      \<lparr>lp_identity = ir_identity ir,
       lp_subscriptions = map subscription_of symbols,
       lp_random_selections = dvalues (ls_selections st),
       lp_target_sleeves = dvalues (ls_sleeves st),
       lp_rebalances = dvalues (es_rebalances es),
       lp_monthly_events = monthly_events_of cx events,
       lp_momentum_selections = dvalues (ls_momentum st),
       lp_target_snapshots = dvalues (ls_snapshots st),
       lp_quarterly_events = quarterly_events_of cx events,
       lp_daily_events = daily_events_of cx events,
       lp_cooldown_states = dvalues (ls_cooldown st),
       lp_temporal_program = None\<rparr>)"

definition empty_entry_state :: entry_state where
  "empty_entry_state = \<lparr>es_lowering = empty_lowering, es_rebalances = [], es_actions = []\<rparr>"

definition lower_strategy_ir_to_lean_plan :: "strategy_ir \<Rightarrow> strategy_requirements \<Rightarrow> lean_plan lowered" where
  "lower_strategy_ir_to_lean_plan ir rq =
     (let cx = lowering_context_of ir rq in
      ebind (guard (rq_assets rq \<noteq> []) (Lean_lowering_error ''LEAN backend requires at least one asset subscription'')) (\<lambda>_.
      ebind (efold (lower_entrypoint (search_fuel ir) cx) (ir_entrypoints ir) empty_entry_state) (\<lambda>es.
      case normalize_lean_plan (lowered_plan ir rq cx es) of
        Inl e \<Rightarrow> Inl (Plan_error e)
      | Inr plan \<Rightarrow> Inr plan)))"

text \<open>\<open>analyze_strategy_ir\<close> and then the lowering, as \<open>compile_strategy_to_lean_plan\<close> runs them
  on the IR of the frontend.\<close>

definition compile_ir :: "strategy_ir \<Rightarrow> lean_plan lowered" where
  "compile_ir ir =
     (case analyze_strategy_ir ir of
        None \<Rightarrow> Inl Recursion_exceeded
      | Some rq \<Rightarrow> lower_strategy_ir_to_lean_plan ir rq)"

end
