(* ===== verification/Daily_Memo.thy ===== *)
theory Daily_Memo
  imports Daily_Eval
begin

text \<open>
  The memo of \<open>DailyValueEvaluator\<close> is sound: whatever it holds, \<open>evaluate\<close> returns what the
  evaluation without memo returns, errors included, provided the content digest separates the
  nodes at hand. The work is that evaluation never reads semantic ids, and reads the candidate
  only where \<open>_uses_candidate\<close> says so.
\<close>

subsection \<open>Evaluation does not read semantic ids\<close>

abbreviation anon :: "node_fields \<Rightarrow> node_fields" where
  "anon f \<equiv> f\<lparr>nf_semantic_id := []\<rparr>"

lemma symbols_anon [simp]: "symbols sn (anon f) c = symbols sn f c"
  by (simp add: symbols_def cong: option.case_cong subject_kind.case_cong)

lemma stream_anon: "stream sn cutoff (without_addresses n) s = stream sn cutoff n s"
proof (induction sn cutoff n s rule: stream.induct)
  case (1 sn cutoff f ops s)
  then show ?case
    by (cases ops) (simp_all add: field_or_close_def basis_or_adjusted_def)
qed

lemma source_observe_anon:
  "source_observe (without_addresses n) = ebind (source_observe n) (\<lambda>f. Inr (anon f))"
proof (induction n rule: source_observe.induct)
  case (1 f ops)
  then show ?case by (cases ops) simp_all
qed

lemma current_result_anon:
  "current_result sn cutoff (without_addresses n) (anon f) t c reason = current_result sn cutoff n f t c reason"
  by (simp add: current_result_def current_cells_def stream_anon)

lemma history_result_anon:
  "history_result sn cutoff (anon f) (without_addresses m) t c = history_result sn cutoff f m t c"
  by (cases "source_observe m")
    (simp_all add: history_result_def source_observe_anon stream_anon history_cells_def)

lemma eval_leaf_anon: "eval_leaf sn cutoff (without_addresses n) t c = eval_leaf sn cutoff n t c"
proof (cases n)
  case (Daily_node f ops)
  have i: "current_indicator sn cutoff (without_addresses n) t c = current_indicator sn cutoff n t c"
    unfolding current_indicator_def source_observe_anon
    by (cases "source_observe n") (simp_all add: current_result_anon)
  have o: "current_observe sn cutoff (without_addresses n) t c = current_observe sn cutoff n t c"
    using current_result_anon [of sn cutoff n f] Daily_node by (simp add: current_observe_def)
  show ?thesis
    using i o Daily_node
    by (cases ops) (simp_all add: eval_leaf_def literal_result_def history_result_anon)
qed

lemma arithmetic_result_anon [simp]: "arithmetic_result sn cutoff (anon f) = arithmetic_result sn cutoff f"
  by (simp add: fun_eq_iff arithmetic_result_def)

lemma reduce_cell_anon [simp]: "reduce_cell (anon f) n cells = reduce_cell f n cells"
  by (simp add: reduce_cell_def required_count_def Let_def)

lemma eval_unary_anon [simp]: "eval_unary sn cutoff (anon f) = eval_unary sn cutoff f"
proof -
  have "reduce_result sn cutoff (anon f) t r = reduce_result sn cutoff f t r" for t r
    by (simp add: reduce_result_def cong: option.case_cong)
  then show ?thesis by (simp add: fun_eq_iff eval_unary_def)
qed

lemma infer_anon:
  "infer_daily_type b (Daily_node (anon f) (map without_addresses ops)) = infer_daily_type b (Daily_node f ops)"
  using infer_without_addresses [of b "Daily_node f ops"] by simp

lemma leaf_anon:
  "eval_leaf sn cutoff (Daily_node (anon f) (map without_addresses ops)) t c = eval_leaf sn cutoff (Daily_node f ops) t c"
  using eval_leaf_anon [of sn cutoff "Daily_node f ops"] by simp

lemma eval_pure_anon: "eval_pure sn cutoff c b (without_addresses n) = eval_pure sn cutoff c b n"
proof (induction n)
  case (Daily_node f ops)
  note inf = infer_anon [of b f ops]
  show ?case
  proof (cases rule: node_shape_cases [where f = f and ops = ops])
    case leaf
    then show ?thesis using inf leaf_anon by (simp add: eval_pure_leaf)
  next
    case no_operand
    then show ?thesis using inf by (simp add: eval_pure_no_operand)
  next
    case (unary op0 rest)
    then show ?thesis using inf Daily_node [of op0] by (simp add: eval_pure_unary)
  next
    case (arithmetic1 op0)
    then show ?thesis using inf Daily_node [of op0] by (simp add: eval_pure_arithmetic1)
  next
    case (arithmetic op0 op1 rest)
    then show ?thesis using inf Daily_node [of op0] Daily_node [of op1] by (simp add: eval_pure_arithmetic)
  qed
qed

subsection \<open>Evaluation reads the candidate only where the node does\<close>

lemma uses_candidate_anon: "uses_candidate (without_addresses n) = uses_candidate n"
  by (induction n rule: uses_candidate.induct) (auto simp: list_ex_iff)

lemma symbols_candidate: "nf_subject_kind f \<noteq> Some Subject_candidate \<Longrightarrow> symbols sn f c = symbols sn f c'"
  by (auto simp: symbols_def split: option.splits subject_kind.splits)

lemma source_observe_uses: "source_observe n = Inr f \<Longrightarrow> \<not> uses_candidate n \<Longrightarrow> nf_subject_kind f \<noteq> Some Subject_candidate"
proof (induction n rule: source_observe.induct)
  case (1 g ops)
  then show ?case by (cases ops) (auto split: if_splits)
qed

lemma eval_leaf_candidate:
  assumes "\<not> uses_candidate n"
  shows "eval_leaf sn cutoff n t c = eval_leaf sn cutoff n t c'"
proof (cases n)
  case (Daily_node f ops)
  have cr: "current_result sn cutoff n g t c reason = current_result sn cutoff n g t c' reason"
    if "nf_subject_kind g \<noteq> Some Subject_candidate" for g reason
    using symbols_candidate [OF that, of sn c c'] by (simp add: current_result_def)
  have i: "current_indicator sn cutoff n t c = current_indicator sn cutoff n t c'"
    using source_observe_uses [OF _ assms]
    by (cases "source_observe n") (simp_all add: current_indicator_def cr)
  have h: "history_result sn cutoff f m t c = history_result sn cutoff f m t c'" if "m \<in> set ops" for m
  proof -
    have "\<not> uses_candidate m" using that assms Daily_node by (auto simp: list_ex_iff)
    then show ?thesis
      using source_observe_uses [of m] symbols_candidate [of _ sn c c']
      by (cases "source_observe m") (simp_all add: history_result_def)
  qed
  show ?thesis
    using i h cr [of f] assms Daily_node
    by (cases ops) (simp_all add: eval_leaf_def current_observe_def)
qed

lemma eval_pure_candidate:
  "\<not> uses_candidate n \<Longrightarrow> eval_pure sn cutoff c b n = eval_pure sn cutoff c' b n"
proof (induction n)
  case (Daily_node f ops)
  have IH: "eval_pure sn cutoff c b m = eval_pure sn cutoff c' b m" if "m \<in> set ops" for m
    using Daily_node that by (auto simp: list_ex_iff)
  show ?case
  proof (cases rule: node_shape_cases [where f = f and ops = ops])
    case leaf
    then show ?thesis using eval_leaf_candidate [OF Daily_node.prems, of sn cutoff _ c c'] by (simp add: eval_pure_leaf)
  next
    case no_operand
    then show ?thesis by (simp add: eval_pure_no_operand)
  next
    case (unary op0 rest)
    then show ?thesis using IH [of op0] by (simp add: eval_pure_unary)
  next
    case (arithmetic1 op0)
    then show ?thesis using IH [of op0] by (simp add: eval_pure_arithmetic1)
  next
    case (arithmetic op0 op1 rest)
    then show ?thesis using IH [of op0] IH [of op1] by (simp add: eval_pure_arithmetic)
  qed
qed

subsection \<open>Provenance is total where evaluation succeeds\<close>

definition erase :: "daily_result \<Rightarrow> daily_result" where
  "erase r = r\<lparr>dr_provenance := None\<rparr>"

lemma erase_simps [simp]:
  "erase (r\<lparr>dr_provenance := p\<rparr>) = erase r" "erase (erase r) = erase r"
  "dr_axes (erase r) = dr_axes r" "dr_cells (erase r) = dr_cells r"
  "dr_observed_at (erase r) = dr_observed_at r" "dr_provenance (erase r) = None"
  "dr_semantic_type (erase r) = dr_semantic_type r" "erase (plain_result t a c d) = plain_result t a c d"
  by (simp_all add: erase_def plain_result_def)

lemma observes_of_node:
  "observes_of (Daily_node f ops) = (if nf_kind f = K_observe then [f] else []) @ concat (map observes_of ops)"
  by (simp add: observes_of_def [abs_def] map_concat filter_concat comp_def)

lemma source_observe_observes:
  "source_observe n = Inr f \<Longrightarrow> well_shaped n \<Longrightarrow> observes_of n = [f]"
proof (induction n rule: source_observe.induct)
  case (1 g ops)
  have ar: "length ops = arity (nf_kind g)" using well_shaped_arity [OF "1.prems"(2)] by simp
  show ?case
  proof (cases "indicator (nf_kind g) \<or> nf_kind g = K_absolute")
    case True
    then have "arity (nf_kind g) = 1" "nf_kind g \<noteq> K_observe" by (auto simp: indicator_def)
    with ar obtain op0 where ops: "ops = [op0]" by (cases ops) auto
    moreover have "source_observe op0 = Inr f" using True "1.prems"(1) ops by simp
    ultimately show ?thesis using 1 True \<open>nf_kind g \<noteq> K_observe\<close> by (simp add: observes_of_node)
  next
    case False
    then show ?thesis using 1 ar by (auto simp: observes_of_node split: if_splits)
  qed
qed

lemma current_result_symbols: "current_result sn cutoff n f t c reason = Inr r \<Longrightarrow> \<exists>syms. symbols sn f c = Inr syms"
  by (auto simp: current_result_def elim: ebind_InrE)

lemma eval_leaf_symbols:
  assumes "eval_leaf sn cutoff n t c = Inr r" "well_shaped n" "is_leaf_kind (nf_kind (dn_fields n))" "f \<in> set (observes_of n)"
  shows "\<exists>syms. symbols sn f c = Inr syms"
proof (cases n)
  case (Daily_node g ops)
  have ar: "length ops = arity (nf_kind g)" using well_shaped_arity [OF assms(2)] Daily_node by simp
  consider "nf_kind g = K_literal" | "nf_kind g = K_observe" | "nf_kind g = K_history" | "indicator (nf_kind g)"
    using assms(3) Daily_node by (auto simp: is_leaf_kind_def)
  then show ?thesis
  proof cases
    case 1
    then show ?thesis using assms(4) ar Daily_node by (simp add: observes_of_node)
  next
    case 2
    then have "f = g" using assms(4) ar Daily_node by (simp add: observes_of_node)
    then show ?thesis
      using assms(1) 2 Daily_node by (auto simp: eval_leaf_def current_observe_def intro: current_result_symbols)
  next
    case 3
    then obtain m where ops: "ops = [m]" using ar by (cases ops) auto
    then obtain ob where o: "source_observe m = Inr ob" "\<exists>syms. symbols sn ob c = Inr syms"
      using assms(1) 3 Daily_node by (auto simp: eval_leaf_def history_result_def Let_def elim!: ebind_InrE)
    have "observes_of m = [ob]" using source_observe_observes [OF o(1)] assms(2) Daily_node ops by simp
    then show ?thesis using o(2) assms(4) 3 Daily_node ops by (simp add: observes_of_node)
  next
    case 4
    then have k: "nf_kind g \<noteq> K_literal" "nf_kind g \<noteq> K_observe" "nf_kind g \<noteq> K_history" by (auto simp: indicator_def)
    then obtain ob where o: "source_observe n = Inr ob" "\<exists>syms. symbols sn ob c = Inr syms"
      using assms(1) Daily_node
      by (auto simp: eval_leaf_def current_indicator_def elim!: ebind_InrE dest: current_result_symbols)
    then show ?thesis using source_observe_observes [OF o(1) assms(2)] assms(4) by simp
  qed
qed

lemma eval_pure_symbols:
  "eval_pure sn cutoff c b n = Inr r \<Longrightarrow> well_shaped n \<Longrightarrow> f \<in> set (observes_of n) \<Longrightarrow>
    \<exists>syms. symbols sn f c = Inr syms"
proof (induction n arbitrary: r)
  case (Daily_node g ops)
  have ar: "length ops = arity (nf_kind g)" using well_shaped_arity [OF Daily_node.prems(2)] by simp
  have op: "\<exists>syms. symbols sn f c = Inr syms" if "eval_pure sn cutoff c b m = Inr q" "m \<in> set ops" "f \<in> set (observes_of m)" for m q
    using Daily_node.IH [OF that(2,1)] that Daily_node.prems(2) by (auto simp: list_all_iff)
  show ?case
  proof (cases rule: node_shape_cases [where f = g and ops = ops])
    case leaf
    then show ?thesis
      using Daily_node.prems eval_leaf_symbols [of sn cutoff "Daily_node g ops" _ c _ f]
      by (auto simp: eval_pure_leaf elim!: ebind_InrE)
  next
    case (unary op0 rest)
    then have "rest = []" "nf_kind g \<noteq> K_observe"
      using ar by (cases "nf_kind g"; auto simp: is_leaf_kind_def)+
    then show ?thesis using unary Daily_node.prems op [of op0]
      by (auto simp: eval_pure_unary observes_of_node elim!: ebind_InrE)
  next
    case (arithmetic op0 op1 rest)
    then have "rest = []" using ar by simp
    then show ?thesis using arithmetic Daily_node.prems op [of op0] op [of op1]
      by (auto simp: eval_pure_arithmetic observes_of_node elim!: ebind_InrE)
  qed (use Daily_node.prems in \<open>auto simp: eval_pure_no_operand eval_pure_arithmetic1 elim!: ebind_InrE\<close>)
qed

lemma emap_total: "(\<And>x. x \<in> set xs \<Longrightarrow> \<exists>y. f x = Inr y) \<Longrightarrow> \<exists>ys. emap f xs = Inr ys"
  by (induction xs) fastforce+

lemma eval_pure_typed: "eval_pure sn cutoff c b n = Inr r \<Longrightarrow> \<exists>t. infer_daily_type b n = Inr t"
  by (cases n) (auto simp: eval_pure.simps Let_def elim: ebind_InrE)

lemma provenance_total:
  assumes "eval_pure sn cutoff c b n = Inr r" "well_shaped n" "0 \<le> cutoff" "cutoff < int (length (sn_dates sn))"
  shows "\<exists>p. build_provenance digest sn cutoff n c b = Inr p"
proof -
  have "\<exists>fss. emap (\<lambda>f. ebind (symbols sn f c) (\<lambda>syms. Inr (f, syms))) (observes_of n) = Inr fss"
    using eval_pure_symbols [OF assms(1,2)] by (intro emap_total) fastforce
  then obtain members where m: "group_members sn c n = Inr members" by (auto simp: group_members_def)
  obtain t where t: "infer_daily_type b n = Inr t" using eval_pure_typed [OF assms(1)] by blast
  obtain plan where p: "plan_daily_value digest b n = Inr plan"
    using t plan_visit_total(1) [OF assms(2), of "\<lparr>pa_fields = [], pa_versions = [], pa_backend_lowerable = True\<rparr>"]
    by (auto simp: plan_daily_value_def)
  have "py_index (sn_dates sn) cutoff = Inr (sn_dates sn ! nat cutoff)"
    using assms(3,4) by (simp add: py_index_def)
  then show ?thesis using m p by (simp add: build_provenance_def Let_def)
qed

subsection \<open>The memo is sound\<close>

definition collision_free :: "(daily_node \<Rightarrow> string) \<Rightarrow> daily_node set \<Rightarrow> bool" where
  "collision_free digest N \<longleftrightarrow>
     (\<forall>a \<in> N. \<forall>b \<in> N. content_hash digest a = content_hash digest b \<longrightarrow> without_addresses a = without_addresses b)"

definition memo_sound :: "(daily_node \<Rightarrow> string) \<Rightarrow> daily_node set \<Rightarrow> evaluator \<Rightarrow> bool" where
  "memo_sound digest N ev \<longleftrightarrow>
     (\<forall>key r. dget (ev_memo ev) key = Some r \<longrightarrow>
        (\<exists>m \<in> N. \<exists>c b. key = memo_key digest ev m c b \<and>
           eval_pure (ev_snapshot ev) (ev_cutoff_index ev) c b m = Inr (erase r)))"

definition same_base :: "evaluator \<Rightarrow> evaluator \<Rightarrow> bool" where
  "same_base ev ev' \<longleftrightarrow> ev_snapshot ev' = ev_snapshot ev \<and> ev_cutoff_index ev' = ev_cutoff_index ev"

definition valid_cutoff :: "evaluator \<Rightarrow> bool" where
  "valid_cutoff ev \<longleftrightarrow> 0 \<le> ev_cutoff_index ev \<and> ev_cutoff_index ev < int (length (sn_dates (ev_snapshot ev)))"

lemma same_base_refl [simp]: "same_base ev ev"
  by (simp add: same_base_def)

lemma same_base_trans: "same_base a b \<Longrightarrow> same_base b c \<Longrightarrow> same_base a c"
  by (simp add: same_base_def)

lemma memo_key_same_base: "same_base ev ev' \<Longrightarrow> memo_key digest ev' = memo_key digest ev"
  by (simp add: fun_eq_iff memo_key_def same_base_def)

lemma memo_sound_new: "memo_sound digest N (new_evaluator sn cutoff)"
  by (simp add: memo_sound_def new_evaluator_def dget_def)

lemma memo_sound_store:
  assumes "memo_sound digest N ev" "n \<in> N"
    "eval_pure (ev_snapshot ev) (ev_cutoff_index ev) c b n = Inr (erase r)"
  shows "memo_sound digest N (ev\<lparr>ev_memo := dset (memo_key digest ev n c b) r (ev_memo ev)\<rparr>)"
proof -
  have k: "memo_key digest (ev\<lparr>ev_memo := m\<rparr>) = memo_key digest ev" for m
    by (simp add: fun_eq_iff memo_key_def)
  show ?thesis using assms unfolding memo_sound_def by (auto simp: k)
qed

lemma count_evaluation_memo: "ev_memo (count_evaluation n ev) = ev_memo ev"
  by (simp add: count_evaluation_def Let_def)

lemma count_evaluation_base [simp]:
  "same_base ev (count_evaluation n ev)" "ev_snapshot (count_evaluation n ev) = ev_snapshot ev"
  "ev_cutoff_index (count_evaluation n ev) = ev_cutoff_index ev"
  by (simp_all add: same_base_def count_evaluation_def Let_def)

lemma memo_sound_count: "memo_sound digest N ev \<Longrightarrow> memo_sound digest N (count_evaluation n ev)"
  unfolding memo_sound_def
  by (simp only: count_evaluation_memo count_evaluation_base memo_key_same_base [OF count_evaluation_base(1)])

text \<open>A hit is the value of the node looked up, whatever node and candidate stored it.\<close>

lemma memo_hit:
  assumes "memo_sound digest N ev" "collision_free digest N" "n \<in> N"
    "dget (ev_memo ev) (memo_key digest ev n c b) = Some r"
  shows "eval_pure (ev_snapshot ev) (ev_cutoff_index ev) c b n = Inr (erase r)"
proof -
  obtain m c' b' where m: "m \<in> N" and key: "memo_key digest ev n c b = memo_key digest ev m c' b'"
    and val: "eval_pure (ev_snapshot ev) (ev_cutoff_index ev) c' b' m = Inr (erase r)"
    using assms(1,4) unfolding memo_sound_def by blast
  have "content_hash digest n = content_hash digest m"
    using key by (simp add: memo_key_def)
  then have strip: "without_addresses n = without_addresses m"
    using m assms(2,3) unfolding collision_free_def by blast
  have u: "uses_candidate n = uses_candidate m"
    using uses_candidate_anon strip by metis
  have b: "b = b'" and c: "uses_candidate n \<Longrightarrow> c = c'"
    using key u by (simp_all add: memo_key_def)
  have "eval_pure (ev_snapshot ev) (ev_cutoff_index ev) c b n = eval_pure (ev_snapshot ev) (ev_cutoff_index ev) c' b n"
  proof (cases "uses_candidate n")
    case True
    then show ?thesis using c by simp
  next
    case False
    then show ?thesis by (rule eval_pure_candidate)
  qed
  also have "\<dots> = eval_pure (ev_snapshot ev) (ev_cutoff_index ev) c' b' m"
    using eval_pure_anon strip b by metis
  finally show ?thesis using val by simp
qed

lemma share_cached_agrees:
  assumes "memo_sound digest N ev" "n \<in> N"
    "eval_pure (ev_snapshot ev) (ev_cutoff_index ev) c b n = Inr (erase r)"
    "share_cached (memo_key digest ev n c b) n r ev = (r', ev')"
  shows "erase r' = erase r \<and> memo_sound digest N ev' \<and> same_base ev ev'"
  using assms memo_sound_store [OF assms(1,2), of c b]
  by (auto simp: share_cached_def Let_def same_base_def split: option.splits if_splits)

text \<open>What an evaluation of \<open>n\<close> must do: agree with the specification and keep the invariant.\<close>

definition agrees :: "(daily_node \<Rightarrow> string) \<Rightarrow> daily_node set \<Rightarrow> evaluator \<Rightarrow> (daily_result \<times> evaluator) res \<Rightarrow> daily_result res \<Rightarrow> bool" where
  "agrees digest N ev out pure \<longleftrightarrow>
     (case pure of
        Inl e \<Rightarrow> out = Inl e
      | Inr r \<Rightarrow> \<exists>r' ev'. out = Inr (r', ev') \<and> erase r' = r \<and> memo_sound digest N ev' \<and> same_base ev ev')"

lemma agrees_Inl [simp]: "agrees digest N ev out (Inl e) \<longleftrightarrow> out = Inl e"
  by (simp add: agrees_def)

lemma agrees_InrI: "erase r' = r \<Longrightarrow> memo_sound digest N ev' \<Longrightarrow> same_base ev ev' \<Longrightarrow> agrees digest N ev (Inr (r', ev')) (Inr r)"
  by (simp add: agrees_def)

lemma agrees_bind:
  assumes "agrees digest N ev out pure"
    and "\<And>r ev'. memo_sound digest N ev' \<Longrightarrow> same_base ev ev' \<Longrightarrow> out = Inr (r, ev') \<Longrightarrow> pure = Inr (erase r) \<Longrightarrow>
      agrees digest N ev (g (r, ev')) (h (erase r))"
  shows "agrees digest N ev (ebind out g) (ebind pure h)"
  using assms by (cases pure) (auto simp: agrees_def [of _ _ _ out])

lemma agrees_same_base: "agrees digest N ev' out pure \<Longrightarrow> same_base ev ev' \<Longrightarrow> agrees digest N ev out pure"
  by (auto simp: agrees_def split: sum.splits intro: same_base_trans)

lemma eval_unary_erase:
  "ebind (eval_unary sn cutoff f t r) (\<lambda>x. Inr (erase x)) = ebind (eval_unary sn cutoff f t (erase r)) (\<lambda>x. Inr (erase x))"
proof -
  have "reduce_result sn cutoff f t (erase r) = reduce_result sn cutoff f t r"
    by (simp add: reduce_result_def cong: option.case_cong)
  then show ?thesis by (simp add: eval_unary_def absolute_result_def)
qed

lemma arithmetic_result_erase [simp]:
  "arithmetic_result sn cutoff f t (erase l) r = arithmetic_result sn cutoff f t l r"
  "arithmetic_result sn cutoff f t l (erase r) = arithmetic_result sn cutoff f t l r"
  by (simp_all add: arithmetic_result_def)

lemma eval_leaf_erase: "eval_leaf sn cutoff n t c = Inr r \<Longrightarrow> erase r = r"
  by (auto simp: eval_leaf_def literal_result_def current_observe_def current_indicator_def current_result_def
      history_result_def Let_def erase_def plain_result_def split: if_splits list.splits elim!: ebind_InrE)

lemma arithmetic_result_plain: "arithmetic_result sn cutoff f t l r = Inr x \<Longrightarrow> erase x = x"
  by (auto simp: arithmetic_result_def erase_def plain_result_def elim!: ebind_InrE)

lemma eval_unary_plain: "eval_unary sn cutoff f t r = Inr x \<Longrightarrow> erase r = r \<Longrightarrow> erase x = x"
  by (auto simp: eval_unary_def reduce_result_def absolute_result_def erase_def plain_result_def Let_def
      split: if_splits option.splits elim!: ebind_InrE)

lemma eval_pure_plain: "eval_pure sn cutoff c b n = Inr r \<Longrightarrow> erase r = r"
proof (induction n arbitrary: r)
  case (Daily_node f ops)
  show ?case
  proof (cases rule: node_shape_cases [where f = f and ops = ops])
    case leaf
    then show ?thesis using Daily_node.prems eval_leaf_erase by (auto simp: eval_pure_leaf elim!: ebind_InrE)
  next
    case (unary op0 rest)
    then show ?thesis using Daily_node.prems Daily_node.IH [of op0] eval_unary_plain
      by (auto simp: eval_pure_unary elim!: ebind_InrE)
  next
    case (arithmetic op0 op1 rest)
    then show ?thesis using Daily_node.prems arithmetic_result_plain
      by (auto simp: eval_pure_arithmetic elim!: ebind_InrE)
  qed (use Daily_node.prems in \<open>auto simp: eval_pure_no_operand eval_pure_arithmetic1 elim!: ebind_InrE\<close>)
qed

text \<open>The body of a miss.\<close>

definition evaluate_body :: "(daily_node \<Rightarrow> string) \<Rightarrow> string option \<Rightarrow> string option \<Rightarrow> node_fields \<Rightarrow> daily_node list \<Rightarrow> evaluator \<Rightarrow> (daily_result \<times> evaluator) res" where
  "evaluate_body digest candidate binding f ops ev =
     (let n = Daily_node f ops; sn = ev_snapshot ev; cutoff = ev_cutoff_index ev in
      ebind (infer_daily_type binding n) (\<lambda>t.
        if is_leaf_kind (nf_kind f)
        then ebind (eval_leaf sn cutoff n t candidate) (\<lambda>r. Inr (r, count_evaluation n ev))
        else (case ops of
                [] \<Rightarrow> Inl Index_error
              | op0 # rest \<Rightarrow>
                  ebind (evaluate digest candidate binding op0 (count_evaluation n ev)) (\<lambda>(left, ev1).
                    if nf_kind f = K_arithmetic
                    then (case rest of
                            [] \<Rightarrow> Inl Index_error
                          | op1 # _ \<Rightarrow>
                              ebind (evaluate digest candidate binding op1 ev1) (\<lambda>(right, ev2).
                              ebind (arithmetic_result sn cutoff f t left right) (\<lambda>r. Inr (r, ev2))))
                    else ebind (eval_unary sn cutoff f t left) (\<lambda>r. Inr (r, ev1))))))"

lemma evaluate_unfold:
  "evaluate digest c b (Daily_node f ops) ev =
     (case dget (ev_memo ev) (memo_key digest ev (Daily_node f ops) c b) of
        Some cached \<Rightarrow> Inr (share_cached (memo_key digest ev (Daily_node f ops) c b) (Daily_node f ops) cached ev)
      | None \<Rightarrow> ebind (evaluate_body digest c b f ops ev)
                  (store_result digest (memo_key digest ev (Daily_node f ops) c b) (Daily_node f ops) c b))"
  by (cases "dget (ev_memo ev) (memo_key digest ev (Daily_node f ops) c b)")
    (simp_all add: evaluate.simps [of _ _ _ f] evaluate_body_def Let_def)

lemma agrees_leaf:
  assumes "memo_sound digest N ev" "eval_leaf sn cutoff n t c = out"
  shows "agrees digest N ev (ebind out (\<lambda>r. Inr (r, count_evaluation m ev))) out"
  using assms eval_leaf_erase by (cases out) (auto intro!: agrees_InrI memo_sound_count)

lemma agrees_pure_step:
  assumes "memo_sound digest N ev'" "same_base ev ev'"
    "ebind out (\<lambda>x. Inr (erase x)) = ebind pure (\<lambda>x. Inr (erase x))" "\<And>x. pure = Inr x \<Longrightarrow> erase x = x"
  shows "agrees digest N ev (ebind out (\<lambda>r. Inr (r, ev'))) pure"
  using assms by (cases out; cases pure) (auto intro!: agrees_InrI)

lemma body_agrees:
  assumes IH: "\<And>m ev'. m \<in> set ops \<Longrightarrow> memo_sound digest N ev' \<Longrightarrow> same_base ev ev' \<Longrightarrow>
      agrees digest N ev' (evaluate digest c b m ev') (eval_pure (ev_snapshot ev) (ev_cutoff_index ev) c b m)"
    and sound: "memo_sound digest N ev"
  shows "agrees digest N ev (evaluate_body digest c b f ops ev)
    (eval_pure (ev_snapshot ev) (ev_cutoff_index ev) c b (Daily_node f ops))"
proof (cases "infer_daily_type b (Daily_node f ops)")
  case (Inl e)
  then show ?thesis by (simp add: evaluate_body_def eval_pure.simps Let_def)
next
  case (Inr t)
  let ?ev0 = "count_evaluation (Daily_node f ops) ev"
  have s0: "memo_sound digest N ?ev0" using sound by (rule memo_sound_count)
  have first: "agrees digest N ev (evaluate digest c b op0 ?ev0) (eval_pure (ev_snapshot ev) (ev_cutoff_index ev) c b op0)"
    if "op0 \<in> set ops" for op0
    by (rule agrees_same_base [OF IH [OF that s0]]) simp_all
  show ?thesis
  proof (cases rule: node_shape_cases [where f = f and ops = ops])
    case leaf
    then show ?thesis using Inr agrees_leaf [OF sound refl] by (simp add: evaluate_body_def eval_pure_leaf Let_def)
  next
    case no_operand
    then show ?thesis using Inr by (simp add: evaluate_body_def eval_pure_no_operand Let_def)
  next
    case (unary op0 rest)
    have "agrees digest N ev
       (ebind (evaluate digest c b op0 ?ev0) (\<lambda>(left, ev1).
          ebind (eval_unary (ev_snapshot ev) (ev_cutoff_index ev) f t left) (\<lambda>r. Inr (r, ev1))))
       (ebind (eval_pure (ev_snapshot ev) (ev_cutoff_index ev) c b op0) (eval_unary (ev_snapshot ev) (ev_cutoff_index ev) f t))"
      using unary(3) eval_unary_erase eval_unary_plain
      by (intro agrees_bind [OF first]) (auto intro!: agrees_pure_step)
    then show ?thesis using Inr unary by (simp add: evaluate_body_def eval_pure_unary Let_def)
  next
    case (arithmetic1 op0)
    have "agrees digest N ev (ebind (evaluate digest c b op0 ?ev0) (\<lambda>(left, ev1). Inl Index_error))
       (ebind (eval_pure (ev_snapshot ev) (ev_cutoff_index ev) c b op0) (\<lambda>_. Inl Index_error))"
      using arithmetic1(2) by (intro agrees_bind [OF first]) auto
    then show ?thesis using Inr arithmetic1 by (simp add: evaluate_body_def eval_pure_arithmetic1 Let_def)
  next
    case (arithmetic op0 op1 rest)
    have second: "agrees digest N ev (evaluate digest c b op1 ev1) (eval_pure (ev_snapshot ev) (ev_cutoff_index ev) c b op1)"
      if "memo_sound digest N ev1" "same_base ev ev1" for ev1
      using arithmetic(2) that by (intro agrees_same_base [OF IH]) auto
    have "agrees digest N ev
       (ebind (evaluate digest c b op0 ?ev0) (\<lambda>(left, ev1).
          ebind (evaluate digest c b op1 ev1) (\<lambda>(right, ev2).
          ebind (arithmetic_result (ev_snapshot ev) (ev_cutoff_index ev) f t left right) (\<lambda>r. Inr (r, ev2)))))
       (ebind (eval_pure (ev_snapshot ev) (ev_cutoff_index ev) c b op0) (\<lambda>left.
          ebind (eval_pure (ev_snapshot ev) (ev_cutoff_index ev) c b op1) (arithmetic_result (ev_snapshot ev) (ev_cutoff_index ev) f t left)))"
      using arithmetic(2) arithmetic_result_plain
      by (intro agrees_bind [OF first]) (auto intro!: agrees_bind [OF second] agrees_pure_step)
    then show ?thesis using Inr arithmetic by (simp add: evaluate_body_def eval_pure_arithmetic Let_def)
  qed
qed

lemma evaluate_agrees:
  assumes "collision_free digest N"
  shows "memo_sound digest N ev \<Longrightarrow> valid_cutoff ev \<Longrightarrow> set (subnodes n) \<subseteq> N \<Longrightarrow> well_shaped n \<Longrightarrow>
    agrees digest N ev (evaluate digest c b n ev) (eval_pure (ev_snapshot ev) (ev_cutoff_index ev) c b n)"
proof (induction n arbitrary: ev)
  case (Daily_node f ops)
  let ?n = "Daily_node f ops" and ?pure = "eval_pure (ev_snapshot ev) (ev_cutoff_index ev) c b (Daily_node f ops)"
  let ?key = "memo_key digest ev ?n c b"
  have n: "?n \<in> N" using Daily_node.prems(3) by simp
  show ?case
  proof (cases "dget (ev_memo ev) ?key")
    case (Some r)
    note hit = memo_hit [OF Daily_node.prems(1) assms n Some]
    show ?thesis
      using share_cached_agrees [OF Daily_node.prems(1) n hit] hit Some
      by (cases "share_cached ?key ?n r ev") (auto simp: evaluate_unfold intro!: agrees_InrI)
  next
    case None
    have IH: "agrees digest N ev' (evaluate digest c b m ev') (eval_pure (ev_snapshot ev) (ev_cutoff_index ev) c b m)"
      if "m \<in> set ops" "memo_sound digest N ev'" "same_base ev ev'" for m ev'
    proof -
      have "ev_snapshot ev' = ev_snapshot ev" "ev_cutoff_index ev' = ev_cutoff_index ev" "valid_cutoff ev'"
        using that(3) Daily_node.prems(2) by (auto simp: same_base_def valid_cutoff_def)
      moreover have "set (subnodes m) \<subseteq> N" using that(1) Daily_node.prems(3) by auto
      moreover have "well_shaped m" using that(1) Daily_node.prems(4) by (auto simp: list_all_iff)
      ultimately show ?thesis using Daily_node.IH [OF that(1,2)] by simp
    qed
    have body: "agrees digest N ev (evaluate_body digest c b f ops ev) ?pure"
      by (rule body_agrees [OF IH Daily_node.prems(1)])
    have "agrees digest N ev (ebind (evaluate_body digest c b f ops ev) (store_result digest ?key ?n c b))
      (ebind ?pure Inr)"
    proof (rule agrees_bind [OF body])
      fix r ev'
      assume h: "memo_sound digest N ev'" "same_base ev ev'" "?pure = Inr (erase r)"
      have base: "ev_snapshot ev' = ev_snapshot ev" "ev_cutoff_index ev' = ev_cutoff_index ev"
        using h(2) by (auto simp: same_base_def)
      obtain p where p: "build_provenance digest (ev_snapshot ev') (ev_cutoff_index ev') ?n c b = Inr p"
        using provenance_total [OF h(3) Daily_node.prems(4)] Daily_node.prems(2) base by (auto simp: valid_cutoff_def)
      have "memo_sound digest N (ev'\<lparr>ev_memo := dset (memo_key digest ev' ?n c b) (r\<lparr>dr_provenance := Some p\<rparr>) (ev_memo ev')\<rparr>)"
        using h base n by (intro memo_sound_store) auto
      then show "agrees digest N ev (store_result digest ?key ?n c b (r, ev')) (Inr (erase r))"
        using p h(2) memo_key_same_base [OF h(2), of digest]
        by (auto simp: store_result_def Let_def same_base_def intro!: agrees_InrI)
    qed
    moreover have "ebind ?pure Inr = ?pure" by (cases ?pure) simp_all
    ultimately show ?thesis using None by (simp add: evaluate_unfold)
  qed
qed

end
