(* ===== verification/Selection_Exec.thy ===== *)
theory Selection_Exec
  imports Daily_Memo Program_Validation
begin

text \<open>
  \<open>compare_daily_values\<close> and \<open>combine_truth\<close> of \<open>strategy/v2/daily_values.py\<close>,
  \<open>validate_strategy_v2\<close> of \<open>strategy/v2/validation.py\<close>, and the Profile A executor of
  \<open>strategy/v2/execution.py\<close>, whose one evaluator is threaded through every observation.
\<close>

subsection \<open>Comparisons of results\<close>

record daily_truth =
  dt_axes :: "axis list"
  dt_values :: "(coordinate, truth) dict"
  dt_reasons :: "(coordinate, string option) dict"

text \<open>\<open>_keys_for_static\<close>: both branches return in the first round, so only the left result is read.\<close>

definition keys_for_static :: "axis \<Rightarrow> daily_result \<Rightarrow> string list res" where
  "keys_for_static a left =
     emap (\<lambda>key. if ax_name a = Ax_time \<and> length (dr_axes left) \<noteq> 1 then py_index key (- 1) else py_index key 0)
       (dkeys (dr_cells left))"

fun compare_values :: "compare_op \<Rightarrow> decimal \<Rightarrow> decimal \<Rightarrow> bool" where
  "compare_values Lt x y \<longleftrightarrow> x < y"
| "compare_values Lte x y \<longleftrightarrow> x \<le> y"
| "compare_values Eq x y \<longleftrightarrow> x = y"
| "compare_values Neq x y \<longleftrightarrow> x \<noteq> y"
| "compare_values Gte x y \<longleftrightarrow> y \<le> x"
| "compare_values Gt x y \<longleftrightarrow> y < x"

definition compare_cells :: "compare_op \<Rightarrow> daily_cell \<Rightarrow> daily_cell \<Rightarrow> truth \<times> string option" where
  "compare_cells f a b =
     (case (dc_value a, dc_value b) of
        (Some x, Some y) \<Rightarrow> (truth_of_bool (compare_values f x y), None)
      | _ \<Rightarrow> (T_unknown, if truthy (dc_reason a) then dc_reason a else dc_reason b))"

definition compare_daily_values :: "daily_result \<Rightarrow> daily_result \<Rightarrow> compare_op \<Rightarrow> daily_truth res" where
  "compare_daily_values left right f =
     ebind (require_compatible_values (dr_semantic_type left) (dr_semantic_type right)) (\<lambda>axes.
     ebind (emap (\<lambda>a. keys_for_static a left) axes) (\<lambda>kss.
     ebind (efold (\<lambda>coordinate cells.
              ebind (child_coordinate axes (dr_axes left) coordinate) (\<lambda>lc.
              ebind (child_coordinate axes (dr_axes right) coordinate) (\<lambda>rc.
              ebind (lookup_or_raise (dr_cells left) lc) (\<lambda>a.
              ebind (lookup_or_raise (dr_cells right) rc) (\<lambda>b.
                Inr (dset coordinate (compare_cells f a b) cells))))))
            (product_lists kss) []) (\<lambda>cells.
       Inr \<lparr>dt_axes = axes, dt_values = map (\<lambda>(k, t, r). (k, t)) cells,
            dt_reasons = map (\<lambda>(k, t, r). (k, r)) cells\<rparr>)))"

datatype truth_operator = Op_all | Op_any | Op_not | Op_other

definition combine_truth :: "truth_operator \<Rightarrow> truth list \<Rightarrow> truth res" where
  "combine_truth f vs =
     (if f = Op_not
      then (case vs of [v] \<Rightarrow> Inr (truth_not v) | _ \<Rightarrow> Inl (Daily_value_error ''not_requires_one_operand''))
      else if vs = [] then Inl (Daily_value_error ''explicit_empty_truth_policy_required'')
      else if f = Op_all then Inr (all_of vs)
      else if f = Op_any then Inr (any_of vs)
      else Inl (Daily_value_error ''unknown_truth_operator''))"

subsection \<open>Validation of a Strategy\<close>

definition group_ids :: "canonical_v2 \<Rightarrow> string list" where
  "group_ids s = map gd_id (df_groups (cv_definitions s))"

definition asset_set_ids :: "canonical_v2 \<Rightarrow> string list" where
  "asset_set_ids s = map ad_id (df_asset_sets (cv_definitions s))"

definition selection_diagnostics :: "canonical_v2 \<Rightarrow> selection \<Rightarrow> diagnostic list res" where
  "selection_diagnostics s sl =
     (let b = Some (sl_binding_id sl) in
      ebind (case sl_eligibility sl of None \<Rightarrow> Inr [] | Some c \<Rightarrow> validate_condition Role_eligibility b c) (\<lambda>ds.
      ebind (try_value_error (infer_value_type b (sl_ranking sl))
               (\<lambda>e. [diagnostic_of (error_code e) ''selection.ranking''])
               (\<lambda>t. if st_dtype t \<notin> {DT_decimal, DT_integer} \<or> st_axes t \<noteq> []
                     then [diagnostic_of ''ranking_not_comparable'' ''selection.ranking''] else [])) (\<lambda>rs.
        Inr (ds @ rs @
             (if sl_universe_id sl \<notin> set (group_ids s @ asset_set_ids s)
              then [diagnostic_of ''unknown_selection_universe'' ''selection.universe_id''] else [])))))"

definition strategy_values :: "canonical_v2 \<Rightarrow> value_expr list" where
  "strategy_values s =
     (case cv_selection s of None \<Rightarrow> [] | Some sl \<Rightarrow> selection_values sl) @ optional_values (cv_predicate s)"

definition node_diagnostics :: "canonical_v2 \<Rightarrow> daily_node \<Rightarrow> diagnostic list" where
  "node_diagnostics s n =
     (let f = dn_fields n in
      (if unsupported_field n then [diagnostic_of ''provider_capability_unavailable'' (nf_semantic_id f)] else [])
      @ (if nf_subject_kind f = Some Subject_group_members \<and> nf_subject_id f \<notin> Some ` set (group_ids s)
         then [diagnostic_of ''unknown_static_group'' (nf_semantic_id f)] else []))"

definition direct_nodes :: "value_expr \<Rightarrow> daily_node list" where
  "direct_nodes v = (case v of V_daily n \<Rightarrow> stack_nodes n | _ \<Rightarrow> [])"

definition validate_strategy :: "(program \<Rightarrow> json) \<Rightarrow> (json \<Rightarrow> string) \<Rightarrow> canonical_v2 \<Rightarrow> diagnostic list res" where
  "validate_strategy dump hash s =
     ebind (case cv_selection s of None \<Rightarrow> Inr [] | Some sl \<Rightarrow> selection_diagnostics s sl) (\<lambda>ds1.
     ebind (case cv_predicate s of None \<Rightarrow> Inr [] | Some c \<Rightarrow> validate_condition Role_predicate None c) (\<lambda>ds2.
     ebind (case cv_program s of None \<Rightarrow> Inr [] | Some p \<Rightarrow> validate_program dump hash p) (\<lambda>ds4.
       Inr (ds1 @ ds2
            @ concat (map (\<lambda>v. concat (map (node_diagnostics s) (direct_nodes v))) (strategy_values s))
            @ ds4))))"

text \<open>\<open>requirements_for_strategy\<close>: State and Event-window conditions add nothing.\<close>

fun condition_history :: "(daily_node \<Rightarrow> string) \<Rightarrow> condition \<Rightarrow> history_requirement list res" where
  "condition_history digest (C_comparison _ _ l r) =
     ebind (value_history digest l) (\<lambda>a. ebind (value_history digest r) (\<lambda>b. Inr [a, b]))"
| "condition_history digest (C_group _ _ cs) = ebind (emap (condition_history digest) cs) (\<lambda>hs. Inr (concat hs))"
| "condition_history digest (C_n_of_m _ _ cs) = ebind (emap (condition_history digest) cs) (\<lambda>hs. Inr (concat hs))"
| "condition_history digest (C_not _ c) = condition_history digest c"
| "condition_history digest _ = Inr []"

definition optional_history :: "(daily_node \<Rightarrow> string) \<Rightarrow> condition option \<Rightarrow> history_requirement list res" where
  "optional_history digest c = (case c of None \<Rightarrow> Inr [] | Some k \<Rightarrow> condition_history digest k)"

definition requirements_for_strategy :: "(daily_node \<Rightarrow> string) \<Rightarrow> canonical_v2 \<Rightarrow> history_requirement res" where
  "requirements_for_strategy digest s =
     ebind (case cv_selection s of
              None \<Rightarrow> Inr []
            | Some sl \<Rightarrow> ebind (value_history digest (sl_ranking sl)) (\<lambda>h.
                         ebind (optional_history digest (sl_eligibility sl)) (\<lambda>hs. Inr (h # hs)))) (\<lambda>hs1.
     ebind (optional_history digest (cv_predicate s)) (\<lambda>hs2.
     ebind (case cv_program s of
              None \<Rightarrow> Inr []
            | Some p \<Rightarrow> emap (\<lambda>n. value_history digest (V_daily n))
                          (concat (map daily_nodes_for_value (program_values p)))) (\<lambda>hs3.
       let hs = map hr_minimum_history_lower_bound (hs1 @ hs2 @ hs3) in
       if hs = [] then Inr (history_requirement_of 0)
       else ebind (py_max hs) (\<lambda>m. Inr (history_requirement_of m)))))"

subsection \<open>Observations\<close>

record value_evidence =
  ve_semantic_id :: string
  ve_candidate :: "string option"
  ve_value :: "decimal option"
  ve_reason :: "string option"
  ve_observed_at :: string
  ve_expression_hash :: string
  ve_operator_versions :: "string list"

record comparison_evidence =
  ce_semantic_id :: string
  ce_candidate :: "string option"
  ce_operator :: compare_op
  ce_left :: value_evidence
  ce_right :: value_evidence
  ce_outcome :: truth
  ce_reason :: "string option"

definition observation_of ::
  "(daily_node \<Rightarrow> string) \<Rightarrow> daily_node \<Rightarrow> string option \<Rightarrow> string option \<Rightarrow> evaluator \<Rightarrow> ((daily_result \<times> value_evidence) \<times> evaluator) res" where
  "observation_of digest n candidate binding ev =
     ebind (evaluate digest candidate binding n ev) (\<lambda>(r, ev').
       if dr_axes r \<noteq> [] then Inl (V2_execution_error ''selection_value_must_be_candidate_scalar'')
       else
         ebind (lookup_or_raise (dr_cells r) []) (\<lambda>cell.
         ebind (py_index (dr_observed_at r) (- 1)) (\<lambda>when.
           Inr ((r, \<lparr>ve_semantic_id = nf_semantic_id (dn_fields n), ve_candidate = candidate,
                     ve_value = dc_value cell, ve_reason = dc_reason cell, ve_observed_at = when,
                     ve_expression_hash =
                       (case dr_provenance r of Some p \<Rightarrow> pv_expression_hash p | None \<Rightarrow> content_hash digest n),
                     ve_operator_versions =
                       (case dr_provenance r of Some p \<Rightarrow> pv_operator_versions p | None \<Rightarrow> [])\<rparr>), ev'))))"

definition compare_nodes ::
  "(daily_node \<Rightarrow> string) \<Rightarrow> string option \<Rightarrow> string option \<Rightarrow> string \<Rightarrow> compare_op \<Rightarrow> daily_node \<Rightarrow> daily_node \<Rightarrow> evaluator \<Rightarrow> ((truth \<times> comparison_evidence list) \<times> evaluator) res" where
  "compare_nodes digest candidate binding i f l r ev =
     ebind (observation_of digest l candidate binding ev) (\<lambda>((left, lv), ev1).
     ebind (observation_of digest r candidate binding ev1) (\<lambda>((right, rv), ev2).
     ebind (compare_daily_values left right f) (\<lambda>result.
     ebind (lookup_or_raise (dt_values result) []) (\<lambda>outcome.
     ebind (lookup_or_raise (dt_reasons result) []) (\<lambda>reason.
       Inr ((outcome, [\<lparr>ce_semantic_id = i, ce_candidate = candidate, ce_operator = f, ce_left = lv,
                        ce_right = rv, ce_outcome = outcome, ce_reason = reason\<rparr>]), ev2))))))"

text \<open>
  \<open>_condition\<close>. N_OF_M reaches \<open>combine_truth\<close> with a kind it does not know, after its
  children are evaluated; State and Event-window conditions have no children.
\<close>

fun check_condition_v2 ::
  "(daily_node \<Rightarrow> string) \<Rightarrow> string option \<Rightarrow> string option \<Rightarrow> condition \<Rightarrow> evaluator \<Rightarrow> ((truth \<times> comparison_evidence list) \<times> evaluator) res" where
  "check_condition_v2 digest c b (C_comparison i f l r) ev =
     (case (l, r) of
        (V_daily left, V_daily right) \<Rightarrow> compare_nodes digest c b i f left right ev
      | _ \<Rightarrow> Inl (V2_execution_error ''legacy_v2_bridge_value_not_supported_by_general_executor''))"
| "check_condition_v2 digest c b (C_not i child) ev =
     ebind (check_condition_v2 digest c b child ev) (\<lambda>((t, es), ev').
     ebind (combine_truth Op_not [t]) (\<lambda>t'. Inr ((t', es), ev')))"
| "check_condition_v2 digest c b (C_group k i cs) ev =
     ebind (emap_st (check_condition_v2 digest c b) cs ev) (\<lambda>(rs, ev').
     ebind (combine_truth (if k = Group_all then Op_all else Op_any) (map fst rs)) (\<lambda>t.
       Inr ((t, concat (map snd rs)), ev')))"
| "check_condition_v2 digest c b (C_n_of_m i n cs) ev =
     ebind (emap_st (check_condition_v2 digest c b) cs ev) (\<lambda>(rs, ev').
     ebind (combine_truth Op_other (map fst rs)) (\<lambda>t. Inr ((t, concat (map snd rs)), ev')))"
| "check_condition_v2 digest c b (C_state_equals i k e) ev = Inl Attribute_error"
| "check_condition_v2 digest c b (C_event_window i e w n) ev = Inl Attribute_error"

subsection \<open>Selection\<close>

record selection_evidence =
  se_semantic_id :: string
  se_universe_id :: string
  se_requested_members :: "string list"
  se_eligible_members :: "string list"
  se_unknown_members :: "string list"
  se_ranked_members :: "string list"
  se_selected_members :: "string list"
  se_fallback_used :: bool
  se_comparisons :: "comparison_evidence list"
  se_ranking_observations :: "value_evidence list"

record selection_execution =
  sx_selected_assets :: "string list"
  sx_complete :: bool
  sx_evidence :: selection_evidence

definition selection_members :: "canonical_v2 \<Rightarrow> selection \<Rightarrow> snapshot \<Rightarrow> string list res" where
  "selection_members s sl sn =
     (case dget (sn_domains sn) (sl_universe_id sl) of
        Some ms \<Rightarrow> Inr ms
      | None \<Rightarrow>
          let set_id = (case find (\<lambda>g. gd_id g = sl_universe_id sl) (df_groups (cv_definitions s)) of
                          Some g \<Rightarrow> gd_asset_set_ref g | None \<Rightarrow> sl_universe_id sl)
          in case find (\<lambda>a. ad_id a = set_id) (df_asset_sets (cv_definitions s)) of
               None \<Rightarrow> Inl (V2_execution_error ''selection_universe_unavailable'')
             | Some a \<Rightarrow> Inr (ad_assets a))"

definition member_outcome ::
  "(daily_node \<Rightarrow> string) \<Rightarrow> selection \<Rightarrow> string \<Rightarrow> evaluator \<Rightarrow> ((truth \<times> comparison_evidence list) \<times> evaluator) res" where
  "member_outcome digest sl m ev =
     (case sl_eligibility sl of
        None \<Rightarrow> Inr ((T_true, []), ev)
      | Some c \<Rightarrow> check_condition_v2 digest (Some m) (Some (sl_binding_id sl)) c ev)"

text \<open>\<open>sort(key=(value, member), reverse=...)\<close>: in reverse, equal values come by falling member.\<close>

definition rank_v2 :: "sort_direction \<Rightarrow> (decimal \<times> string) list \<Rightarrow> (decimal \<times> string) list" where
  "rank_v2 dir ps =
     (let up = sort_key fst (sort_key snd ps) in if dir = Descending then List.rev up else up)"

definition pick_v2 :: "selection \<Rightarrow> string list \<Rightarrow> string list \<times> bool" where
  "pick_v2 sl ranked =
     (if sl_count sl \<le> int (length ranked) \<or> sl_shortage_policy sl = Choose_all
      then (take (nat (sl_count sl)) ranked, False)
      else if truthy (sl_fallback_asset sl) then ([the (sl_fallback_asset sl)], True)
      else ([], False))"

definition ranked_pairs :: "(string \<times> value_evidence) list \<Rightarrow> (decimal \<times> string) list" where
  "ranked_pairs es = List.map_filter (\<lambda>(m, e). map_option (\<lambda>x. (x, m)) (ve_value e)) es"

definition run_selection_v2 ::
  "(daily_node \<Rightarrow> string) \<Rightarrow> selection \<Rightarrow> string list \<Rightarrow> evaluator \<Rightarrow> selection_execution res" where
  "run_selection_v2 digest sl members ev =
     ebind (emap_st (member_outcome digest sl) members ev) (\<lambda>(outcomes, ev1).
       let eligible = map fst (filter (\<lambda>(m, t, _). t = T_true) (zip members outcomes));
           unknown = map fst (filter (\<lambda>(m, t, _). t = T_unknown) (zip members outcomes)) in
       case sl_ranking sl of
         V_daily n \<Rightarrow>
           ebind (emap_st (\<lambda>m. observation_of digest n (Some m) (Some (sl_binding_id sl))) eligible ev1) (\<lambda>(obs, ev2).
             let es = zip eligible (map snd obs);
                 unranked = map fst (filter (\<lambda>(m, e). ve_value e = None) es);
                 ranked = map snd (rank_v2 (sl_direction sl) (ranked_pairs es));
                 (selected, fallback) = pick_v2 sl ranked in
             Inr \<lparr>sx_selected_assets = selected, sx_complete = (sl_count sl \<le> int (length ranked)),
                  sx_evidence =
                    \<lparr>se_semantic_id = sl_semantic_id sl, se_universe_id = sl_universe_id sl,
                     se_requested_members = members, se_eligible_members = eligible,
                     se_unknown_members = py_unique (unknown @ unranked), se_ranked_members = ranked,
                     se_selected_members = selected, se_fallback_used = fallback,
                     se_comparisons = concat (map snd outcomes), se_ranking_observations = map snd obs\<rparr>\<rparr>)
       | _ \<Rightarrow> Inl (V2_execution_error ''legacy_v2_bridge_value_not_supported_by_general_executor''))"

definition execute_selection ::
  "(program \<Rightarrow> json) \<Rightarrow> (json \<Rightarrow> string) \<Rightarrow> (daily_node \<Rightarrow> string) \<Rightarrow> canonical_v2 \<Rightarrow> snapshot \<Rightarrow> int option \<Rightarrow> selection_execution res" where
  "execute_selection dump hash digest s sn cutoff_index =
     ebind (validate_strategy dump hash s) (\<lambda>issues.
       if issues \<noteq> []
       then Inl (V2_execution_error (join_with ''; '' (map (\<lambda>d. sd_path d @ '': '' @ sd_code d) issues)))
       else case cv_selection s of
              None \<Rightarrow> Inl (V2_execution_error ''compatibility_selection_missing; execute Semantic Program instead'')
            | Some sl \<Rightarrow>
                ebind (selection_members s sl sn) (\<lambda>members.
                  run_selection_v2 digest sl members (new_evaluator sn cutoff_index)))"

definition evaluate_predicate ::
  "(daily_node \<Rightarrow> string) \<Rightarrow> canonical_v2 \<Rightarrow> snapshot \<Rightarrow> int option \<Rightarrow> (truth \<times> comparison_evidence list) res" where
  "evaluate_predicate digest s sn cutoff_index =
     (case cv_predicate s of
        None \<Rightarrow> Inr (T_true, [])
      | Some c \<Rightarrow> ebind (check_condition_v2 digest None None c (new_evaluator sn cutoff_index)) (\<lambda>(out, _). Inr out))"

end
