(* ===== verification/V2_Values.thy ===== *)
theory V2_Values
  imports Lean_Lowering Selection_Exec
begin

text \<open>
  The Values and Conditions of \<open>strategy/v2/bridge.py\<close>, which lowers a Semantic Program to the LEAN
  plan: \<open>_program_value\<close>, \<open>_lean_daily_value\<close>, \<open>_lean_score_value\<close>, \<open>_program_comparisons\<close>,
  \<open>_temporal_value\<close>, \<open>_temporal_condition\<close>, \<open>_temporal_action\<close> and the policy targets. A
  \<open>V2LoweringError\<close> is a \<open>V2_lowering_error\<close>; what the functions called may raise besides is an
  \<open>Other_error\<close>. The documents hold the value of a decimal; the plan writes it with the least
  exponent that represents it.
\<close>

datatype bridge_error = V2_lowering_error string | Other_error py_error | Nesting_exceeded | Adapter_needed

type_synonym 'a bridged = "bridge_error + 'a"

subsection \<open>Writing a decimal\<close>

text \<open>The decimal places of a fraction with denominator \<open>q\<close>.\<close>

function places :: "nat \<Rightarrow> nat" where
  "places q = (let g = gcd q 10 in if q \<le> 1 \<or> g = 1 then 0 else Suc (places (q div g)))"
  by pat_completeness auto
termination
proof (relation "measure id")
  fix q g :: nat
  assume g: "g = gcd q 10" and n: "\<not> (q \<le> 1 \<or> g = 1)"
  have "g \<noteq> 0" using g by simp
  then have "1 < g" using n by simp
  then show "(q div g, q) \<in> measure id" using n by simp
qed simp

declare places.simps [simp del]

definition written :: "decimal \<Rightarrow> py_decimal" where
  "written x =
     (let (p, q) = quotient_of x; k = places (nat q)
      in Dec (p < 0) (nat (\<bar>p\<bar> * 10 ^ k div q)) (- int k))"

lemma places_enough: "0 < q \<Longrightarrow> q dvd 10 ^ k \<Longrightarrow> q dvd 10 ^ places q"
proof (induction q arbitrary: k rule: places.induct)
  case (1 q)
  define g where "g = gcd q 10"
  show ?case
  proof (cases "q \<le> 1 \<or> g = 1")
    case True
    have "q = 1"
    proof (cases "q \<le> 1")
      case False
      with True have "coprime q 10" by (simp add: g_def coprime_iff_gcd_eq_1)
      then have "coprime q (10 ^ k)" by simp
      then show ?thesis using "1.prems"(2) by (metis coprime_absorb_left nat_dvd_1_iff_1)
    qed (use "1.prems"(1) in simp)
    then show ?thesis by simp
  next
    case False
    have g: "g dvd q" "g dvd 10" "0 < g" by (simp_all add: g_def)
    define r where "r = q div g"
    have q: "q = g * r" using g by (simp add: r_def)
    have cop: "coprime r (10 div g)"
      unfolding r_def g_def using "1.prems"(1) by (intro div_gcd_coprime) simp
    have "k \<noteq> 0" using False "1.prems"(2) by (cases k) auto
    then obtain m where k: "k = Suc m" by (cases k) auto
    have ten: "10 = g * (10 div g)" using g(2) by simp
    have "g * r dvd g * ((10 div g) * 10 ^ m)"
      using "1.prems"(2) unfolding q k by (subst (asm) power_Suc, subst (asm) (1) ten) (simp only: mult.assoc)
    then have "r dvd (10 div g) * 10 ^ m" using g(3) by simp
    then have "r dvd 10 ^ m" using cop by (simp add: coprime_dvd_mult_right_iff)
    moreover have "0 < r" using q "1.prems"(1) by (cases r) auto
    ultimately have "r dvd 10 ^ places r" using "1.IH" [OF g_def] False unfolding r_def by blast
    then have "g * r dvd 10 * 10 ^ places r" using g(2) by (rule mult_dvd_mono [rotated])
    moreover have "places q = Suc (places r)"
      using False by (simp add: places.simps [of q] g_def r_def Let_def)
    ultimately show ?thesis using q by simp
  qed
qed

text \<open>A decimal: a fraction whose denominator divides a power of ten. It is written exactly.\<close>

definition is_decimal :: "rat \<Rightarrow> bool" where
  "is_decimal x \<longleftrightarrow> (let q = nat (snd (quotient_of x)) in q dvd 10 ^ places q)"

lemma is_decimal_iff: "is_decimal x \<longleftrightarrow> (\<exists>k. nat (snd (quotient_of x)) dvd 10 ^ k)"
proof -
  have "0 < nat (snd (quotient_of x))" using quotient_of_denom_pos' by simp
  then show ?thesis using places_enough by (auto simp: is_decimal_def Let_def)
qed

lemma decimal_value_written:
  assumes "is_decimal x"
  shows "decimal_value (written x) = x"
proof -
  obtain p q where pq: "quotient_of x = (p, q)" by fastforce
  have q: "0 < q" and x: "x = of_int p / of_int q"
    using pq quotient_of_denom_pos [OF pq] quotient_of_div [OF pq] by auto
  define k where "k = places (nat q)"
  from assms pq have "nat q dvd 10 ^ k" by (simp add: is_decimal_def k_def Let_def)
  then have "int (nat q) dvd int (10 ^ k)" by (simp only: of_nat_dvd_iff)
  then have "q dvd 10 ^ k" using q by simp
  then obtain c where c: "10 ^ k = q * c" by (auto elim: dvdE)
  have c0: "0 < c" using c q by (metis zero_less_mult_pos zero_less_numeral zero_less_power)
  have n: "\<bar>p\<bar> * 10 ^ k div q = \<bar>p\<bar> * c" using c q by (simp add: ac_simps)
  have "rat_of_int (10 ^ k) = of_int (q * c)" using c by simp
  then have ten: "(10 :: rat) ^ k = of_int q * of_int c" by simp
  have num: "of_nat (nat (\<bar>p\<bar> * c)) = rat_of_int (\<bar>p\<bar> * c)" using c0 by simp
  have val: "decimal_value (Dec (p < 0) (nat (\<bar>p\<bar> * c)) (- int k)) =
             (if p < 0 then - 1 else 1) * rat_of_int (\<bar>p\<bar> * c) / (10 :: rat) ^ k"
    unfolding decimal_value_def py_decimal.case num by (cases "k = 0") simp_all
  have "decimal_value (written x) = decimal_value (Dec (p < 0) (nat (\<bar>p\<bar> * c)) (- int k))"
    unfolding written_def pq using n by (simp add: Let_def k_def)
  also have "\<dots> = of_int p / of_int q"
    unfolding val ten using c0 q by (auto simp: field_simps)
  finally show ?thesis using x by simp
qed

subsection \<open>Literals of the plan\<close>

fun compare_text :: "compare_op \<Rightarrow> string" where
  "compare_text Lt = ''lt''"
| "compare_text Lte = ''lte''"
| "compare_text Eq = ''eq''"
| "compare_text Neq = ''neq''"
| "compare_text Gte = ''gte''"
| "compare_text Gt = ''gt''"

definition direction_text :: "sort_direction \<Rightarrow> string" where
  "direction_text d = (case d of Ascending \<Rightarrow> ''ascending'' | Descending \<Rightarrow> ''descending'')"

definition shortage_text :: "shortage_policy \<Rightarrow> string" where
  "shortage_text p = (case p of Choose_all \<Rightarrow> ''choose_all'' | Require_full \<Rightarrow> ''require_full'')"

definition score_missing_text :: "score_missing \<Rightarrow> string" where
  "score_missing_text p =
     (case p of Score_require_all \<Rightarrow> ''require_all'' | Score_renormalize_available \<Rightarrow> ''renormalize_available'')"

definition score_normalization_text :: "score_normalization \<Rightarrow> string" where
  "score_normalization_text n = (case n of Norm_none \<Rightarrow> ''none'' | Norm_sum_abs \<Rightarrow> ''sum_abs'')"

definition unknown_text :: "unknown_policy \<Rightarrow> string" where
  "unknown_text p = (case p of Unknown_retain \<Rightarrow> ''retain'' | Unknown_otherwise \<Rightarrow> ''otherwise'')"

fun method_text :: "allocation_method \<Rightarrow> string" where
  "method_text M_equal = ''equal''"
| "method_text M_fixed = ''fixed''"
| "method_text M_proportional_score = ''proportional_score''"
| "method_text M_inverse_volatility = ''inverse_volatility''"

fun target_text :: "target_kind \<Rightarrow> string" where
  "target_text Target_asset = ''asset''"
| "target_text Target_selection = ''selection''"
| "target_text Target_group = ''group''"
| "target_text Target_cash = ''cash''"
| "target_text Target_retain = ''retain''"

fun trigger_text :: "event_trigger \<Rightarrow> string" where
  "trigger_text Rising_edge = ''rising_edge''"
| "trigger_text Falling_edge = ''falling_edge''"
| "trigger_text While_true = ''while_true''"
| "trigger_text Became_true = ''became_true''"
| "trigger_text Became_false = ''became_false''"
| "trigger_text Crosses_above = ''crosses_above''"
| "trigger_text Crosses_below = ''crosses_below''"
| "trigger_text Scheduled = ''scheduled''"

definition occurrence_text :: "event_occurrence \<Rightarrow> string" where
  "occurrence_text p = (case p of Occ_every \<Rightarrow> ''every'' | Occ_first \<Rightarrow> ''first'' | Occ_ordinal \<Rightarrow> ''ordinal'')"

subsection \<open>Values\<close>

definition no_value :: "string \<Rightarrow> 'a bridged" where
  "no_value what = Inl (V2_lowering_error (what @ '' has no maintained LEAN lowering''))"

definition lean_literal :: "string \<Rightarrow> py_decimal option \<Rightarrow> lean_value" where
  "lean_literal ty x = Lean_value ''literal'' ty None None x None None None None [] None None None None"

definition current_price_of :: "string \<Rightarrow> string option \<Rightarrow> lean_value" where
  "current_price_of subject asset =
     Lean_value ''current_price'' ''money_per_share'' (Some subject) asset None None None None None [] None None None None"

definition trailing_return_of :: "string \<Rightarrow> string option \<Rightarrow> int option \<Rightarrow> lean_value" where
  "trailing_return_of subject asset n =
     Lean_value ''trailing_return'' ''percentage'' (Some subject) asset None n None None None [] None None None None"

definition rolling_mean_of :: "string \<Rightarrow> string option \<Rightarrow> int option \<Rightarrow> lean_value" where
  "rolling_mean_of subject asset n =
     Lean_value ''rolling_price'' ''money_per_share'' (Some subject) asset None n (Some ''mean'') None None [] None None None None"

definition scale_of :: "lean_value \<Rightarrow> py_decimal option \<Rightarrow> lean_value" where
  "scale_of v factor = Lean_value ''scale'' ''decimal'' None None None None None (Some v) factor [] None None None None"

definition observes_candidate :: "daily_node \<Rightarrow> bool" where
  "observes_candidate n \<longleftrightarrow> nf_subject_kind (dn_fields n) = Some Subject_candidate"

definition adjusted_close :: "daily_node \<Rightarrow> bool" where
  "adjusted_close n \<longleftrightarrow>
     nf_kind (dn_fields n) = K_observe \<and> nf_field (dn_fields n) = Some F_close \<and> nf_basis (dn_fields n) = Some B_adjusted"

definition literal_factor :: "daily_node \<Rightarrow> bool" where
  "literal_factor n \<longleftrightarrow> nf_kind (dn_fields n) = K_literal \<and> nf_value (dn_fields n) \<noteq> None"

text \<open>\<open>_lean_daily_value\<close>: the scalar terms of a Score, over the Candidate only.\<close>

fun lean_daily_value :: "daily_node \<Rightarrow> lean_value bridged" where
  "lean_daily_value (Daily_node f ops) =
     (if nf_kind f = K_literal then Inr (lean_literal ''decimal'' (map_option written (nf_value f)))
      else if nf_kind f = K_trailing_return \<and> ops \<noteq> [] \<and> observes_candidate (hd ops)
      then Inr (trailing_return_of ''candidate'' None (nf_observations f))
      else if adjusted_close (Daily_node f ops) \<and> observes_candidate (Daily_node f ops)
      then Inr (current_price_of ''candidate'' None)
      else if nf_kind f = K_sma \<and> ops \<noteq> [] \<and> observes_candidate (hd ops)
      then Inr (rolling_mean_of ''candidate'' None (nf_observations f))
      else if nf_kind f = K_arithmetic \<and> nf_arithmetic f = Some A_multiply
      then (case ops of
              a # b # _ \<Rightarrow>
                if literal_factor b
                then ebind (lean_daily_value a) (\<lambda>v. Inr (scale_of v (map_option written (nf_value (dn_fields b)))))
                else if literal_factor a
                then ebind (lean_daily_value b) (\<lambda>v. Inr (scale_of v (map_option written (nf_value (dn_fields a)))))
                else no_value ''DailyValue''
            | _ \<Rightarrow> Inl (Other_error Index_error))
      else no_value ''DailyValue'')"

definition lean_score_term :: "score_term \<Rightarrow> (lean_value \<times> py_decimal) bridged" where
  "lean_score_term t =
     (case t of Score_term _ v w \<Rightarrow>
        (case v of
           V_daily n \<Rightarrow> ebind (lean_daily_value n) (\<lambda>x. Inr (x, written w))
         | _ \<Rightarrow> Inl (V2_lowering_error ''weighted-Score LEAN lowering currently requires scalar DailyValue terms'')))"

definition lean_score_value ::
  "score_term list \<Rightarrow> point_term list \<Rightarrow> score_missing \<Rightarrow> score_normalization \<Rightarrow> decimal option \<Rightarrow> decimal option \<Rightarrow>
   lean_value bridged" where
  "lean_score_value terms points missing normalization cmin cmax =
     (if points \<noteq> [] then Inl (V2_lowering_error ''weighted-Score LEAN lowering currently requires Value terms only'')
      else ebind (emap lean_score_term terms) (\<lambda>ts.
        Inr (Lean_value ''weighted_score'' ''decimal'' None None None None None None None ts
               (Some (score_missing_text missing)) (Some (score_normalization_text normalization))
               (map_option written cmin) (map_option written cmax))))"

definition literal_type :: "quantity \<Rightarrow> unit_of \<Rightarrow> string" where
  "literal_type q u =
     (if q = Q_return \<and> u = U_ratio then ''percentage''
      else if q = Q_price \<and> u = U_usd_per_share then ''money_per_share'' else ''decimal'')"

text \<open>The subject and the asset of the node a transform reads.\<close>

definition lean_subject :: "daily_node \<Rightarrow> string \<times> string option" where
  "lean_subject n =
     (if observes_candidate n then (''candidate'', None) else (''asset'', nf_subject_id (dn_fields n)))"

definition program_daily_value :: "daily_node \<Rightarrow> lean_value bridged" where
  "program_daily_value n =
     (let f = dn_fields n in
      if nf_kind f = K_literal
      then (case (nf_quantity f, nf_unit f) of
              (Some q, Some u) \<Rightarrow> Inr (lean_literal (literal_type q u) (map_option written (nf_value f)))
            | _ \<Rightarrow> Inl (Other_error Attribute_error))
      else if adjusted_close n
      then (let (subject, asset) = lean_subject n in Inr (current_price_of subject asset))
      else if nf_kind f = K_trailing_return \<and> operands n \<noteq> []
      then (let (subject, asset) = lean_subject (hd (operands n)) in
            Inr (trailing_return_of subject asset (nf_observations f)))
      else if nf_kind f = K_sma \<and> operands n \<noteq> []
      then (let (subject, asset) = lean_subject (hd (operands n)) in
            Inr (rolling_mean_of subject asset (nf_observations f)))
      else no_value ''Program Value'')"

definition program_value :: "value_expr \<Rightarrow> lean_value bridged" where
  "program_value v =
     (case v of
        V_daily n \<Rightarrow> program_daily_value n
      | V_candidate_trailing_return _ _ n _ \<Rightarrow> Inr (trailing_return_of ''candidate'' None (Some n))
      | V_candidate_current_price _ _ _ \<Rightarrow> Inr (current_price_of ''candidate'' None)
      | V_literal _ x q u _ \<Rightarrow> Inr (lean_literal (literal_type q u) (Some (written x)))
      | V_score _ terms points missing normalization cmin cmax \<Rightarrow>
          lean_score_value terms points missing normalization cmin cmax
      | _ \<Rightarrow> no_value ''Program Value'')"

text \<open>\<open>_lean_value_observations\<close>: how many observations of history a lowered Value reads.\<close>

lemma score_term_smaller [termination_simp]:
  "t \<in> set ts \<Longrightarrow> size (fst t) < Suc (n + size_list (\<lambda>p. size_prod size (\<lambda>_. 0) p) ts)"
  by (induction ts) (auto simp: size_prod_def split: prod.splits)

fun lean_value_observations :: "lean_value \<Rightarrow> int" where
  "lean_value_observations (Lean_value kind ty subject asset literal observations aggregate operand factor terms mp nm lo hi) =
     (if kind = ''literal'' then 0
      else if kind = ''current_price'' then 1
      else if kind = ''trailing_return'' then (case observations of None \<Rightarrow> 0 | Some n \<Rightarrow> n) + 1
      else if kind = ''rolling_price'' then (case observations of None \<Rightarrow> 0 | Some n \<Rightarrow> n)
      else if kind = ''scale'' \<and> operand \<noteq> None then (case operand of Some v \<Rightarrow> lean_value_observations v | None \<Rightarrow> 0)
      else if kind = ''weighted_score''
      then (let xs = map (\<lambda>t. lean_value_observations (fst t)) terms in if xs = [] then 0 else Max (set xs))
      else 0)"

subsection \<open>Conditions\<close>

text \<open>\<open>_program_comparisons\<close> flattens a conjunction to its comparisons.\<close>

definition lower_compared :: "compare_op \<times> value_expr \<times> value_expr \<Rightarrow> lean_comparison bridged" where
  "lower_compared q =
     (case q of (f, l, r) \<Rightarrow>
        ebind (program_value l) (\<lambda>left. ebind (program_value r) (\<lambda>right.
          Inr \<lparr>lc_operator = compare_text f, lc_left = left, lc_right = right\<rparr>)))"

fun program_comparisons :: "condition \<Rightarrow> lean_comparison list bridged" where
  "program_comparisons (C_comparison _ f l r) = ebind (lower_compared (f, l, r)) (\<lambda>c. Inr [c])"
| "program_comparisons (C_group Group_all _ cs) = ebind (emap program_comparisons cs) (\<lambda>xss. Inr (concat xss))"
| "program_comparisons _ =
     Inl (V2_lowering_error ''Program Condition is valid but has no maintained conditional LEAN lowering'')"

subsection \<open>The temporal profile\<close>

definition temporal_value_of :: "string \<Rightarrow> string \<Rightarrow> lean_temporal_value" where
  "temporal_value_of kind i =
     \<lparr>tv_kind = kind, tv_semantic_id = i, tv_asset = None, tv_literal = None, tv_memory_id = None,
      tv_event_id = None, tv_clock_id = None\<rparr>"

definition asset_close :: "daily_node \<Rightarrow> bool" where
  "asset_close n \<longleftrightarrow>
     adjusted_close n \<and> nf_subject_kind (dn_fields n) = Some Subject_asset \<and> truthy (nf_subject_id (dn_fields n))"

definition no_temporal_value :: "lean_temporal_value bridged" where
  "no_temporal_value = Inl (V2_lowering_error ''temporal profile cannot lower Value'')"

definition temporal_value :: "value_expr \<Rightarrow> lean_temporal_value bridged" where
  "temporal_value v =
     (case v of
        V_daily n \<Rightarrow>
          (let i = nf_semantic_id (dn_fields n) in
           if literal_factor n
           then Inr ((temporal_value_of ''literal'' i)\<lparr>tv_literal := map_option written (nf_value (dn_fields n))\<rparr>)
           else if asset_close n
           then Inr ((temporal_value_of ''current_price'' i)\<lparr>tv_asset := nf_subject_id (dn_fields n)\<rparr>)
           else no_temporal_value)
      | V_clocked i n k \<Rightarrow>
          if asset_close n
          then Inr ((temporal_value_of ''completed_weekly_price'' i)
                      \<lparr>tv_asset := nf_subject_id (dn_fields n), tv_clock_id := Some k\<rparr>)
          else no_temporal_value
      | V_literal i x _ _ _ \<Rightarrow> Inr ((temporal_value_of ''literal'' i)\<lparr>tv_literal := Some (written x)\<rparr>)
      | V_remembered i m _ _ _ \<Rightarrow> Inr ((temporal_value_of ''remembered'' i)\<lparr>tv_memory_id := Some m\<rparr>)
      | V_bars_since_event i e \<Rightarrow> Inr ((temporal_value_of ''bars_since_event'' i)\<lparr>tv_event_id := Some e\<rparr>)
      | _ \<Rightarrow> no_temporal_value)"

text \<open>\<open>_temporal_condition\<close>: a conjunction of at most one State guard, one Event window and one
  Comparison, in any order.\<close>

record temporal_parts =
  pp_state :: "(string \<times> string) option"
  pp_window :: "(string \<times> window_relation \<times> int option) option"
  pp_comparison :: "(compare_op \<times> value_expr \<times> value_expr) option"

definition take_part :: "condition \<Rightarrow> temporal_parts \<Rightarrow> temporal_parts bridged" where
  "take_part c parts =
     (let refused = Inl (V2_lowering_error
            ''temporal event profile requires at most one State guard, one Event window, and one Comparison'') in
      case c of
        C_state_equals _ k e \<Rightarrow> if pp_state parts = None then Inr (parts\<lparr>pp_state := Some (k, e)\<rparr>) else refused
      | C_event_window _ e r n \<Rightarrow> if pp_window parts = None then Inr (parts\<lparr>pp_window := Some (e, r, n)\<rparr>) else refused
      | C_comparison _ f l r \<Rightarrow>
          if pp_comparison parts = None then Inr (parts\<lparr>pp_comparison := Some (f, l, r)\<rparr>) else refused
      | _ \<Rightarrow> refused)"

definition conjuncts :: "condition \<Rightarrow> condition list" where
  "conjuncts c = (case c of C_group Group_all _ cs \<Rightarrow> cs | _ \<Rightarrow> [c])"

definition temporal_parts_of :: "condition \<Rightarrow> temporal_parts bridged" where
  "temporal_parts_of c = efold take_part (conjuncts c) \<lparr>pp_state = None, pp_window = None, pp_comparison = None\<rparr>"

definition temporal_condition :: "condition \<Rightarrow> lean_temporal_condition bridged" where
  "temporal_condition c =
     ebind (temporal_parts_of c) (\<lambda>parts.
     case pp_comparison parts of
       None \<Rightarrow> Inl (V2_lowering_error ''temporal event profile requires one typed Comparison'')
     | Some (f, l, r) \<Rightarrow>
         ebind (guard (case pp_window parts of None \<Rightarrow> True | Some (_, relation, _) \<Rightarrow> relation = Within)
           (V2_lowering_error ''temporal LEAN profile currently lowers only within Event windows'')) (\<lambda>_.
         ebind (temporal_value l) (\<lambda>left.
         ebind (temporal_value r) (\<lambda>right.
         Inr \<lparr>tk_semantic_id = condition_semantic_id c, tk_operator = compare_text f, tk_left = left, tk_right = right,
              tk_required_state_key = map_option fst (pp_state parts),
              tk_required_state_value = map_option snd (pp_state parts),
              tk_after_event_id = map_option fst (pp_window parts),
              tk_within_observations = Option.bind (pp_window parts) (snd \<circ> snd)\<rparr>))))"

definition temporal_action :: "statement \<Rightarrow> lean_temporal_action bridged" where
  "temporal_action st =
     (case st of
        S_remember i m v _ \<Rightarrow>
          ebind (temporal_value v) (\<lambda>x.
            Inr \<lparr>ta_kind = ''remember'', ta_semantic_id = i, ta_memory_id = Some m, ta_value = Some x,
                 ta_state_key = None, ta_from_value = None, ta_to_value = None\<rparr>)
      | S_transition i tr \<Rightarrow>
          (case tr_when tr of
             C_state_equals _ k e \<Rightarrow>
               if k \<noteq> tr_state_key tr \<or> Some e \<noteq> tr_from_value tr
               then Inl (V2_lowering_error ''temporal transition State guard must match from_value'')
               else Inr \<lparr>ta_kind = ''transition'', ta_semantic_id = i, ta_memory_id = None, ta_value = None,
                         ta_state_key = Some (tr_state_key tr), ta_from_value = tr_from_value tr,
                         ta_to_value = Some (tr_to_value tr)\<rparr>
           | _ \<Rightarrow> Inl (V2_lowering_error ''temporal transition action requires a State equality guard''))
      | _ \<Rightarrow> Inl (V2_lowering_error ''unsupported temporal Event action''))"

subsection \<open>Policy targets\<close>

text \<open>\<open>_fixed_policy_target\<close>.\<close>

definition fixed_policy_target :: "allocation \<Rightarrow> string \<Rightarrow> string \<Rightarrow> string \<Rightarrow> lean_policy_target bridged" where
  "fixed_policy_target a i state_key state_value =
     (case as_legs a of
        [leg] \<Rightarrow>
          if as_method a \<noteq> M_fixed \<or> al_weight leg \<noteq> Some 1
          then Inl (V2_lowering_error ''temporal policy requires a single fixed 100% target'')
          else if al_target_kind leg \<notin> {Target_asset, Target_cash, Target_retain}
          then Inl (V2_lowering_error ''temporal policy target must be asset, cash, or retain'')
          else Inr \<lparr>pt_semantic_id = i, pt_state_key = state_key, pt_state_value = state_value,
                    pt_target_kind = target_text (al_target_kind leg), pt_asset = al_target_ref leg, pt_weight = 1,
                    pt_allocation_method = ''fixed'', pt_legs = []\<rparr>
      | _ \<Rightarrow> Inl (V2_lowering_error ''temporal policy requires a single fixed 100% target''))"

text \<open>\<open>_composable_policy_target\<close>: the Selections by their output.\<close>

definition policy_leg :: "(string, string) dict \<Rightarrow> allocation_leg \<Rightarrow> lean_temporal_leg bridged" where
  "policy_leg outputs leg =
     (let lowered = (\<lambda>ref. \<lparr>tl_semantic_id = al_semantic_id leg, tl_target_kind = target_text (al_target_kind leg),
                            tl_target_ref = ref, tl_weight = map_option written (al_weight leg)\<rparr>) in
      case al_target_kind leg of
        Target_selection \<Rightarrow>
          (case dget outputs (or_empty (al_target_ref leg)) of
             None \<Rightarrow> Inl (V2_lowering_error ''policy references unknown Selection output'')
           | Some selection_id \<Rightarrow> Inr (lowered (Some selection_id)))
      | Target_group \<Rightarrow>
          Inl (V2_lowering_error ''composable policy supports asset, Selection, cash, and retain targets'')
      | _ \<Rightarrow> Inr (lowered (al_target_ref leg)))"

definition composable_policy_target ::
  "(string, string) dict \<Rightarrow> allocation \<Rightarrow> string \<Rightarrow> string \<Rightarrow> string \<Rightarrow> lean_policy_target bridged" where
  "composable_policy_target outputs a i state_key state_value =
     (if as_method a = M_inverse_volatility
      then Inl (V2_lowering_error ''composable policy cannot lower this allocation'')
      else ebind (emap (policy_leg outputs) (as_legs a)) (\<lambda>legs.
        Inr \<lparr>pt_semantic_id = i, pt_state_key = state_key, pt_state_value = state_value,
             pt_target_kind = ''portfolio'', pt_asset = None, pt_weight = 1,
             pt_allocation_method = method_text (as_method a), pt_legs = legs\<rparr>))"

end
