(* ===== verification/V2_Lowering.thy ===== *)
theory V2_Lowering
  imports V2_Values
begin

text \<open>
  The lowering of a Semantic Program in \<open>strategy/v2/bridge.py\<close>: \<open>_compile_static_program\<close>,
  \<open>_compile_temporal_program\<close>, \<open>_program_selection\<close> and \<open>compile_v2_strategy_to_lean_plan\<close>. The
  digests of documents are the parameters \<open>hashing\<close>. Where the last hands a document to the V1
  adapter, which is not modelled, the outcome is \<open>Adapter_needed\<close>. The compiler calls itself on a
  Program of one Selection and one Allocation; \<open>compile_v2_at\<close> bounds the nesting.
\<close>

record hashing =
  hs_dump :: "program \<Rightarrow> json"
  hs_digest :: "json \<Rightarrow> string"
  hs_strategy :: "canonical_v2 \<Rightarrow> string"
  hs_checkpoint :: "canonical_v2 \<Rightarrow> string \<Rightarrow> string"

definition lift_res :: "'a res \<Rightarrow> 'a bridged" where
  "lift_res m = (case m of Inl e \<Rightarrow> Inl (Other_error e) | Inr x \<Rightarrow> Inr x)"

definition refuse_v2 :: "string \<Rightarrow> 'a bridged" where
  "refuse_v2 s = Inl (V2_lowering_error s)"

definition or_first_clock :: "program \<Rightarrow> string option \<Rightarrow> string bridged" where
  "or_first_clock p c =
     (if truthy c then Inr (or_empty c)
      else case pg_clocks p of [] \<Rightarrow> Inl (Other_error Index_error) | k # _ \<Rightarrow> Inr (pc_id k))"

subsection \<open>Statements\<close>

text \<open>\<open>_program_statements\<close>: every statement, each before the ones nested in it.\<close>

fun program_statements :: "statement list \<Rightarrow> statement list" where
  "program_statements [] = []"
| "program_statements (S_control i c yes no u k # rest) =
     S_control i c yes no u k # program_statements yes @ program_statements no @ program_statements rest"
| "program_statements (S_event i e body # rest) = S_event i e body # program_statements body @ program_statements rest"
| "program_statements (st # rest) = st # program_statements rest"

definition selections_in :: "statement list \<Rightarrow> selection_statement list" where
  "selections_in sts = List.map_filter (\<lambda>st. case st of S_select s \<Rightarrow> Some s | _ \<Rightarrow> None) sts"

definition allocations_in :: "statement list \<Rightarrow> allocation list" where
  "allocations_in sts = List.map_filter (\<lambda>st. case st of S_allocate a \<Rightarrow> Some a | _ \<Rightarrow> None) sts"

record control =
  ct_semantic_id :: string
  ct_condition :: condition
  ct_then :: "statement list"
  ct_otherwise :: "statement list"
  ct_unknown_policy :: unknown_policy
  ct_clock_id :: "string option"

definition controls_in :: "statement list \<Rightarrow> control list" where
  "controls_in sts =
     List.map_filter (\<lambda>st. case st of
        S_control i c yes no u k \<Rightarrow>
          Some \<lparr>ct_semantic_id = i, ct_condition = c, ct_then = yes, ct_otherwise = no, ct_unknown_policy = u,
                ct_clock_id = k\<rparr>
      | _ \<Rightarrow> None) sts"

definition is_initial_retain :: "statement \<Rightarrow> bool" where
  "is_initial_retain st \<longleftrightarrow>
     (case st of
        S_allocate a \<Rightarrow> as_semantic_id a = ''initial-retain-allocation'' \<and> length (as_legs a) = 1
          \<and> al_target_kind (hd (as_legs a)) = Target_retain
      | _ \<Rightarrow> False)"

definition static_statement :: "statement \<Rightarrow> bool" where
  "static_statement st \<longleftrightarrow>
     (case st of S_select _ \<Rightarrow> True | S_allocate _ \<Rightarrow> True | S_control _ _ _ _ _ _ \<Rightarrow> True | _ \<Rightarrow> False)"

subsection \<open>Static Programs: Selections\<close>

record static_state =
  sx_selections :: "(string, lean_momentum_selection) dict"
  sx_symbols :: "string list"
  sx_sleeves :: "(string, lean_target_sleeve) dict"

definition empty_static :: static_state where
  "empty_static = \<lparr>sx_selections = [], sx_symbols = [], sx_sleeves = []\<rparr>"

definition group_assets :: "definitions \<Rightarrow> string \<Rightarrow> string list" where
  "group_assets df i =
     (case dget (dict_of (map (\<lambda>g. (gd_id g, g)) (df_groups df))) i of
        None \<Rightarrow> []
      | Some g \<Rightarrow> dget_or (dict_of (map (\<lambda>a. (ad_id a, ad_assets a)) (df_asset_sets df))) (gd_asset_set_ref g) [])"

definition is_score :: "value_expr \<Rightarrow> bool" where
  "is_score v \<longleftrightarrow> (case v of V_score _ _ _ _ _ _ _ \<Rightarrow> True | _ \<Rightarrow> False)"

definition optional_comparisons :: "condition option \<Rightarrow> lean_comparison list bridged" where
  "optional_comparisons c = (case c of None \<Rightarrow> Inr [] | Some k \<Rightarrow> program_comparisons k)"

definition static_selection ::
  "selection_statement \<Rightarrow> string list \<Rightarrow> lean_value \<Rightarrow> lean_comparison list \<Rightarrow> lean_momentum_selection" where
  "static_selection st assets ranking eligibility =
     (let s = ss_selection st; i = ss_semantic_id st in
      \<lparr>ms_id = sl_semantic_id s,
       ms_score_component = (if is_score (sl_ranking s) then value_semantic_id (sl_ranking s) else i @ ''-score''),
       ms_rank_component = i @ ''-rank'',
       ms_selection_component = i,
       ms_symbols = assets,
       ms_lookback_bars = max 1 (lean_value_observations ranking - 1),
       ms_count = sl_count s,
       ms_direction = direction_text (sl_direction s),
       ms_price_field = ''adjusted_close'',
       ms_filter_component = (if eligibility \<noteq> [] then Some (i @ ''-eligibility'') else None),
       ms_filter_operator = None,
       ms_filter_threshold = None,
       ms_filter_clauses = [],
       ms_shortage_policy = shortage_text (sl_shortage_policy s),
       ms_cooldown_state = None,
       ms_ranking_value = Some ranking,
       ms_eligibility = eligibility,
       ms_score_field = (if is_score (sl_ranking s) then ''selection.ranking'' else ''config.lookback_bars'')\<rparr>)"

definition fallback_symbols :: "selection \<Rightarrow> string list" where
  "fallback_symbols s = (if truthy (sl_fallback_asset s) then [or_empty (sl_fallback_asset s)] else [])"

definition lower_selection :: "definitions \<Rightarrow> selection_statement \<Rightarrow> static_state \<Rightarrow> static_state bridged" where
  "lower_selection df st x =
     (let s = ss_selection st; universe = group_assets df (sl_universe_id s) in
      ebind (guard (universe \<noteq> []) (V2_lowering_error ''Selection requires a non-empty Group'')) (\<lambda>_.
      ebind (program_value (sl_ranking s)) (\<lambda>ranking.
      ebind (optional_comparisons (sl_eligibility s)) (\<lambda>eligibility.
      Inr (x\<lparr>sx_selections := dset (sl_semantic_id s) (static_selection st universe ranking eligibility) (sx_selections x),
             sx_symbols := sx_symbols x @ universe @ fallback_symbols s\<rparr>)))))"

subsection \<open>Static Programs: Allocations\<close>

text \<open>What a leg of an Allocation holds: its symbols, its Selection statement and the fallback.\<close>

definition leg_assets ::
  "definitions \<Rightarrow> (string, selection_statement) dict \<Rightarrow> static_state \<Rightarrow> allocation_leg \<Rightarrow>
   (string list \<times> selection_statement option) bridged" where
  "leg_assets df outputs x leg =
     (case (al_target_kind leg, truthy (al_target_ref leg)) of
        (Target_asset, True) \<Rightarrow> Inr ([or_empty (al_target_ref leg)], None)
      | (Target_group, True) \<Rightarrow> Inr (group_assets df (or_empty (al_target_ref leg)), None)
      | (Target_selection, True) \<Rightarrow>
          (case dget outputs (or_empty (al_target_ref leg)) of
             None \<Rightarrow> refuse_v2 ''Investment references unknown Subgroup''
           | Some st \<Rightarrow>
               ebind (lift_res (lookup_or_raise (sx_selections x) (sl_semantic_id (ss_selection st)))) (\<lambda>m.
                 Inr (ms_symbols m, Some st)))
      | _ \<Rightarrow> refuse_v2 ''Program target has no maintained static lowering'')"

definition static_sleeve ::
  "allocation \<Rightarrow> allocation_leg \<Rightarrow> decimal \<Rightarrow> string list \<Rightarrow> selection_statement option \<Rightarrow> lean_target_sleeve" where
  "static_sleeve a leg w assets chosen =
     (let fallback = (case chosen of None \<Rightarrow> [] | Some st \<Rightarrow> fallback_symbols (ss_selection st));
          split = 1 < length (as_legs a) in
      \<lparr>sl_id = al_semantic_id leg,
       sl_symbols = assets,
       sl_total_weight = w,
       sl_selection_id = map_option (\<lambda>st. sl_semantic_id (ss_selection st)) chosen,
       sl_fallback_component =
         (case chosen of Some st \<Rightarrow> if fallback \<noteq> [] then Some (ss_semantic_id st @ ''-fallback'') else None
          | None \<Rightarrow> None),
       sl_fallback_symbols = fallback,
       sl_source_sleeve = (if split then Some (al_semantic_id leg) else None),
       sl_local_total_weight = (if split then Some 1 else None),
       sl_source_allocation = (if split then Some w else None),
       sl_weighting_method = (if as_method a = M_proportional_score then ''proportional_score'' else ''equal''),
       sl_allocation_component = Some (as_semantic_id a)\<rparr>)"

definition leg_weight :: "allocation \<Rightarrow> allocation_leg \<Rightarrow> decimal bridged" where
  "leg_weight a leg =
     (if as_method a = M_fixed
      then (case al_weight leg of None \<Rightarrow> Inl (Other_error Assertion_error) | Some w \<Rightarrow> Inr w)
      else Inr 1)"

definition lower_leg ::
  "definitions \<Rightarrow> (string, selection_statement) dict \<Rightarrow> allocation \<Rightarrow> allocation_leg \<Rightarrow> static_state \<Rightarrow>
   static_state bridged" where
  "lower_leg df outputs a leg x =
     ebind (leg_assets df outputs x leg) (\<lambda>(symbols, chosen).
     ebind (guard (symbols \<noteq> []) (V2_lowering_error ''Investment target has no assets'')) (\<lambda>_.
     ebind (leg_weight a leg) (\<lambda>w.
     let sleeve = static_sleeve a leg w symbols chosen in
     Inr (x\<lparr>sx_sleeves := dset (sl_id sleeve) sleeve (sx_sleeves x),
            sx_symbols := sx_symbols x @ symbols @ sl_fallback_symbols sleeve\<rparr>))))"

definition stored_weight :: "static_state \<Rightarrow> string \<Rightarrow> decimal" where
  "stored_weight x i = (case dget (sx_sleeves x) i of None \<Rightarrow> 0 | Some s \<Rightarrow> sl_total_weight s)"

text \<open>\<open>allocation_sleeves\<close>.\<close>

definition allocation_sleeves ::
  "definitions \<Rightarrow> (string, selection_statement) dict \<Rightarrow> allocation \<Rightarrow> static_state \<Rightarrow> (string list \<times> static_state) bridged" where
  "allocation_sleeves df outputs a x =
     (if as_minimum_weight a \<noteq> None \<or> as_maximum_weight a \<noteq> None \<or> as_cash_remainder_asset a \<noteq> None
      then refuse_v2 ''bounded Program allocation has no maintained LEAN lowering''
      else if as_method a = M_inverse_volatility then refuse_v2 ''unsupported Program allocation''
      else ebind (efold (lower_leg df outputs a) (as_legs a) x) (\<lambda>x1.
        let ids = map al_semantic_id (as_legs a) in
        if dsum (map (stored_weight x1) ids) \<noteq> 1
        then refuse_v2 ''Portfolio Investment weights must sum exactly to 1''
        else Inr (ids, x1)))"

subsection \<open>Static Programs: routing\<close>

definition static_rebalance :: "string \<Rightarrow> string list \<Rightarrow> lean_rebalance" where
  "static_rebalance i ids =
     \<lparr>rb_id = i, rb_sleeve_ids = ids, rb_snapshot_allocations = [], rb_exit_state_ids = [], rb_predicate = None,
      rb_condition = [], rb_three_valued = False, rb_unknown_policy = ''retain'', rb_otherwise_sleeve_ids = [],
      rb_otherwise_snapshot_allocations = [], rb_otherwise_exit_state_ids = []\<rparr>"

definition route_control ::
  "definitions \<Rightarrow> (string, selection_statement) dict \<Rightarrow> control \<Rightarrow> static_state \<Rightarrow> (lean_rebalance \<times> static_state) bridged" where
  "route_control df outputs k x =
     (case (allocations_in (ct_then k), allocations_in (ct_otherwise k)) of
        ([a], [b]) \<Rightarrow>
          ebind (allocation_sleeves df outputs a x) (\<lambda>(ids, x1).
          ebind (program_comparisons (ct_condition k)) (\<lambda>comparisons.
          ebind (allocation_sleeves df outputs b x1) (\<lambda>(other, x2).
          Inr ((static_rebalance (ct_semantic_id k) ids)
                 \<lparr>rb_condition := comparisons, rb_three_valued := True,
                  rb_unknown_policy := unknown_text (ct_unknown_policy k), rb_otherwise_sleeve_ids := other\<rparr>, x2))))
      | _ \<Rightarrow> refuse_v2 ''conditional Investment requires one Allocation in THEN and OTHERWISE'')"

text \<open>The routing statement: the rebalance, its clock and the state; \<^term>\<open>None\<close> without one.\<close>

definition route_static ::
  "definitions \<Rightarrow> program \<Rightarrow> (string, selection_statement) dict \<Rightarrow> statement list \<Rightarrow> static_state \<Rightarrow>
   (lean_rebalance \<times> string \<times> static_state) option bridged" where
  "route_static df p outputs body x =
     (let allocations = allocations_in body; controls = controls_in body in
      if allocations \<noteq> [] \<and> controls \<noteq> []
      then refuse_v2 ''top-level Allocation and conditional routing cannot be mixed''
      else if 1 < length allocations \<or> 1 < length controls
      then refuse_v2 ''static Program lowering requires one Portfolio routing statement''
      else case (allocations, controls) of
        (a # _, _) \<Rightarrow>
          ebind (allocation_sleeves df outputs a x) (\<lambda>(ids, x1).
          ebind (or_first_clock p (as_clock_id a)) (\<lambda>clock.
          Inr (Some (static_rebalance (as_semantic_id a) ids, clock, x1))))
      | ([], k # _) \<Rightarrow>
          ebind (route_control df outputs k x) (\<lambda>(r, x1).
          ebind (or_first_clock p (ct_clock_id k)) (\<lambda>clock.
          Inr (Some (r, clock, x1))))
      | ([], []) \<Rightarrow> Inr None)"

definition referenced_selections :: "static_state \<Rightarrow> lean_rebalance \<Rightarrow> string list" where
  "referenced_selections x r =
     List.map_filter (\<lambda>i. Option.bind (dget (sx_sleeves x) i) sl_selection_id)
       (rb_sleeve_ids r @ rb_otherwise_sleeve_ids r)"

definition static_event :: "program_clock \<Rightarrow> string list \<Rightarrow> lean_rebalance \<Rightarrow> lean_event" where
  "static_event clock required r =
     \<lparr>ev_id = pc_id clock @ ''-event'', ev_anchor_symbol = hd required, ev_rebalance_ids = [rb_id r],
      ev_required_symbols = required, ev_refresh_ids = []\<rparr>"

text \<open>The plan before it is normalised. There is one rebalance, so its clock agrees with itself.\<close>

definition static_plan :: "string \<Rightarrow> program_clock \<Rightarrow> lean_rebalance \<Rightarrow> static_state \<Rightarrow> lean_plan" where
  "static_plan identity clock r x =
     (let symbols = sorted_set (sx_symbols x); event = static_event clock symbols r in
      \<lparr>lp_identity = identity,
       lp_subscriptions = map subscription_of symbols,
       lp_random_selections = [],
       lp_target_sleeves = dvalues (sx_sleeves x),
       lp_rebalances = [r],
       lp_monthly_events = (if pc_timeframe clock = TF_monthly then [monthly_event 1 ''end'' event] else []),
       lp_momentum_selections = dvalues (sx_selections x),
       lp_target_snapshots = [],
       lp_quarterly_events = [],
       lp_daily_events = (if pc_timeframe clock = TF_daily then [event] else []),
       lp_cooldown_states = [],
       lp_temporal_program = None\<rparr>)"

definition finish_static ::
  "string \<Rightarrow> program \<Rightarrow> lean_rebalance \<Rightarrow> string \<Rightarrow> static_state \<Rightarrow> lean_plan bridged" where
  "finish_static identity p r clock_id x =
     (if set (referenced_selections x r) \<noteq> set (dkeys (sx_selections x))
      then refuse_v2 ''Selection outputs have no Investment''
      else ebind (lift_res (lookup_or_raise (dict_of (map (\<lambda>k. (pc_id k, k)) (pg_clocks p))) clock_id)) (\<lambda>clock.
        if pc_timeframe clock \<notin> {TF_daily, TF_monthly}
        then refuse_v2 ''Program timing has no maintained static LEAN lowering''
        else if sx_symbols x = [] then refuse_v2 ''static Program execution requires at least one asset''
        else lift_res (normalize_lean_plan (static_plan identity clock r x))))"

definition static_outputs :: "selection_statement list \<Rightarrow> (string, selection_statement) dict" where
  "static_outputs sts = dict_of (map (\<lambda>st. (ss_output_id st, st)) sts)"

definition compile_static_program :: "hashing \<Rightarrow> canonical_v2 \<Rightarrow> lean_plan option bridged" where
  "compile_static_program hs s =
     (case cv_program s of
        None \<Rightarrow> Inr None
      | Some p \<Rightarrow>
          let df = cv_definitions s;
              body = filter (\<lambda>st. \<not> is_initial_retain st) (pg_statements p);
              flattened = program_statements body;
              selections = selections_in flattened in
          if body = [] \<or> \<not> list_all static_statement body \<or> \<not> list_all static_statement flattened then Inr None
          else if \<not> distinct (map ss_output_id selections)
          then refuse_v2 ''Program Selection outputs must be unique''
          else
            ebind (efold (lower_selection df) selections empty_static) (\<lambda>x.
            ebind (route_static df p (static_outputs selections) body x) (\<lambda>route.
            case route of
              None \<Rightarrow> Inr None
            | Some (r, clock_id, x1) \<Rightarrow>
                ebind (finish_static (hs_strategy hs s) p r clock_id x1) (\<lambda>plan. Inr (Some plan)))))"

end
