(* ===== verification/V2_Compile.thy ===== *)
theory V2_Compile
  imports Program_Run V2_Lowering
begin

text \<open>
  \<open>_compile_temporal_program\<close> and \<open>compile_v2_strategy_to_lean_plan\<close> of \<open>strategy/v2/bridge.py\<close>. The
  temporal lowering compiles each Selection as a Program of its own; that call is the parameter
  \<open>recur\<close>.
\<close>

subsection \<open>Events\<close>

definition clocks_by_id :: "program \<Rightarrow> (string, program_clock) dict" where
  "clocks_by_id p = dict_of (map (\<lambda>k. (pc_id k, k)) (pg_clocks p))"

definition price_kinds :: "string list" where
  "price_kinds = [''current_price'', ''completed_weekly_price'']"

definition check_weekly :: "program \<Rightarrow> program_clock \<Rightarrow> lean_temporal_value \<Rightarrow> unit bridged" where
  "check_weekly p clock v =
     (if tv_kind v = ''completed_weekly_price''
      then (case dget (clocks_by_id p) (or_empty (tv_clock_id v)) of
              None \<Rightarrow> refuse_v2 ''multi-clock temporal profile requires a completed weekly close clock''
            | Some weekly \<Rightarrow>
                if pc_timeframe weekly \<noteq> TF_weekly
                then refuse_v2 ''multi-clock temporal profile requires a completed weekly close clock''
                else if pc_timezone weekly \<noteq> pc_timezone clock \<or> pc_timezone weekly \<noteq> ''America/New_York''
                then refuse_v2 ''multi-clock temporal profile requires aligned America/New_York clocks''
                else Inr ())
      else Inr ())"

definition lower_event ::
  "program \<Rightarrow> string \<times> event_definition \<times> statement list \<Rightarrow> lean_temporal_event bridged" where
  "lower_event p q =
     (case q of (i, e, body) \<Rightarrow>
      (case dget (clocks_by_id p) (ed_clock_id e) of
         None \<Rightarrow> refuse_v2 ''event-state-daily@1 requires a completed daily close clock''
       | Some clock \<Rightarrow>
           if pc_timeframe clock \<noteq> TF_daily
           then refuse_v2 ''event-state-daily@1 requires a completed daily close clock''
           else if ed_trigger e \<notin> {Rising_edge, While_true, Crosses_above, Crosses_below}
           then refuse_v2 ''unsupported temporal Event trigger''
           else if ed_occurrence e \<notin> {Occ_every, Occ_first}
           then refuse_v2 ''unsupported temporal Event occurrence''
           else
             ebind (case ed_condition e of
                      None \<Rightarrow>
                        refuse_v2 ''temporal event profile requires at most one State guard, one Event window, and one Comparison''
                    | Some c \<Rightarrow> temporal_condition c) (\<lambda>k.
             ebind (check_weekly p clock (tk_left k)) (\<lambda>_.
             ebind (check_weekly p clock (tk_right k)) (\<lambda>_.
             ebind (emap temporal_action body) (\<lambda>actions.
             Inr \<lparr>te_semantic_id = ed_semantic_id e, te_statement_id = i, te_clock_id = ed_clock_id e,
                  te_trigger = trigger_text (ed_trigger e), te_occurrence = occurrence_text (ed_occurrence e),
                  te_condition = k, te_actions = actions\<rparr>))))))"

definition event_values :: "lean_temporal_event \<Rightarrow> lean_temporal_value list" where
  "event_values e = [tk_left (te_condition e), tk_right (te_condition e)]"

definition event_symbols :: "lean_temporal_event list \<Rightarrow> string list" where
  "event_symbols es =
     List.map_filter (\<lambda>v. if tv_kind v \<in> set price_kinds \<and> truthy (tv_asset v) then tv_asset v else None)
       (concat (map event_values es))"

definition anchor_candidates :: "lean_temporal_event list \<Rightarrow> string list" where
  "anchor_candidates es =
     List.map_filter (\<lambda>v. if truthy (tv_asset v) then tv_asset v else None) (concat (map event_values es))"

subsection \<open>The guarded policy\<close>

record policy =
  gp_semantic_id :: string
  gp_guard :: "condition option"
  gp_primary :: allocation
  gp_overrides :: "override_rule list"
  gp_fallback :: "allocation option"

definition events_in :: "statement list \<Rightarrow> (string \<times> event_definition \<times> statement list) list" where
  "events_in sts = List.map_filter (\<lambda>st. case st of S_event i e body \<Rightarrow> Some (i, e, body) | _ \<Rightarrow> None) sts"

definition policies_in :: "statement list \<Rightarrow> policy list" where
  "policies_in sts =
     List.map_filter (\<lambda>st. case st of
        S_guarded i g a overrides fallback _ \<Rightarrow>
          Some \<lparr>gp_semantic_id = i, gp_guard = g, gp_primary = a, gp_overrides = overrides, gp_fallback = fallback\<rparr>
      | _ \<Rightarrow> None) sts"

type_synonym lowers_target = "allocation \<Rightarrow> string \<Rightarrow> string \<Rightarrow> string \<Rightarrow> lean_policy_target bridged"

definition target_lowering :: "selection_statement list \<Rightarrow> lowers_target" where
  "target_lowering selections =
     (if selections \<noteq> []
      then composable_policy_target (dict_of (map (\<lambda>st. (ss_output_id st, sl_semantic_id (ss_selection st))) selections))
      else fixed_policy_target)"

definition lower_override ::
  "lowers_target \<Rightarrow> override_rule \<Rightarrow> string option \<times> lean_policy_target list \<Rightarrow>
   (string option \<times> lean_policy_target list) bridged" where
  "lower_override lowering r acc =
     (case ov_when r of
        C_state_equals _ k expected \<Rightarrow>
          (let axis_key = (case fst acc of None \<Rightarrow> k | Some j \<Rightarrow> j) in
           if k \<noteq> axis_key then refuse_v2 ''composable temporal policy requires one explicit State axis''
           else ebind (lowering (ov_action r) (ov_semantic_id r) k expected) (\<lambda>t.
             Inr (Some axis_key, snd acc @ [t])))
      | _ \<Rightarrow> refuse_v2 ''temporal policy override requires a State equality condition'')"

text \<open>The overrides by falling priority, and the primary allocation for every other state.\<close>

definition lower_policy :: "lowers_target \<Rightarrow> policy \<Rightarrow> lean_policy_target list bridged" where
  "lower_policy lowering po =
     (if gp_guard po \<noteq> None \<or> gp_fallback po \<noteq> None \<or> gp_overrides po = []
      then refuse_v2 ''temporal policy requires State overrides and a primary target''
      else ebind (efold (lower_override lowering) (by_priority (gp_overrides po)) (None, [])) (\<lambda>(key, targets).
        case key of
          None \<Rightarrow> Inl (Other_error Assertion_error)
        | Some k \<Rightarrow>
            ebind (lowering (gp_primary po) (as_semantic_id (gp_primary po)) k ''*'') (\<lambda>t.
            Inr (targets @ [t]))))"

definition target_symbols :: "lean_policy_target \<Rightarrow> string list" where
  "target_symbols t =
     (if truthy (pt_asset t) then [or_empty (pt_asset t)] else [])
     @ List.map_filter (\<lambda>l. if tl_target_kind l = ''asset'' \<and> truthy (tl_target_ref l) then tl_target_ref l else None)
         (pt_legs t)"

text \<open>The assets of the Selections' Groups, read when nothing else names one.\<close>

definition universe_symbols :: "definitions \<Rightarrow> selection_statement \<Rightarrow> string list" where
  "universe_symbols df st =
     (case find (\<lambda>g. gd_id g = sl_universe_id (ss_selection st)) (df_groups df) of
        None \<Rightarrow> []
      | Some g \<Rightarrow>
          (case find (\<lambda>a. ad_id a = gd_asset_set_ref g) (df_asset_sets df) of
             None \<Rightarrow> []
           | Some a \<Rightarrow> ad_assets a))"

definition temporal_symbols ::
  "definitions \<Rightarrow> selection_statement list \<Rightarrow> lean_temporal_event list \<Rightarrow> lean_policy_target list \<Rightarrow> string list" where
  "temporal_symbols df selections es targets =
     (let named = event_symbols es @ concat (map target_symbols targets)
                  @ concat (map (\<lambda>st. fallback_symbols (ss_selection st)) selections) in
      if named \<noteq> [] then named else concat (map (universe_symbols df) selections))"

subsection \<open>Selections of a temporal Program\<close>

text \<open>The Program of one Selection, without its fallback, and one Allocation to it.\<close>

definition isolated_leg :: "selection_statement \<Rightarrow> allocation_leg" where
  "isolated_leg st =
     \<lparr>al_semantic_id = ss_semantic_id st @ ''-execution-leg'',
      al_target_semantic_id = ss_semantic_id st @ ''-execution-target'',
      al_target_kind = Target_selection, al_target_ref = Some (ss_output_id st), al_weight = None\<rparr>"

definition isolated_method :: "lean_policy_target list \<Rightarrow> string \<Rightarrow> allocation_method" where
  "isolated_method targets selection_id =
     (case filter (\<lambda>t. list_ex (\<lambda>l. tl_target_kind l = ''selection'' \<and> tl_target_ref l = Some selection_id) (pt_legs t))
             targets of
        t # _ \<Rightarrow> if pt_allocation_method t = ''proportional_score'' then M_proportional_score else M_equal
      | [] \<Rightarrow> M_equal)"

definition isolated_program :: "program \<Rightarrow> allocation_method \<Rightarrow> selection_statement \<Rightarrow> program" where
  "isolated_program p m st =
     p\<lparr>pg_statements :=
        [S_select (st\<lparr>ss_selection := (ss_selection st)\<lparr>sl_fallback_asset := None\<rparr>\<rparr>),
         S_allocate \<lparr>as_semantic_id = ss_semantic_id st @ ''-execution-allocation'', as_method = m,
                     as_legs = [isolated_leg st], as_clock_id = ss_clock_id st, as_minimum_weight = None,
                     as_maximum_weight = None, as_cash_remainder_asset = None\<rparr>]\<rparr>"

definition isolated_strategy :: "canonical_v2 \<Rightarrow> program \<Rightarrow> allocation_method \<Rightarrow> selection_statement \<Rightarrow> canonical_v2" where
  "isolated_strategy s p m st = s\<lparr>cv_program := Some (isolated_program p m st)\<rparr>"

text \<open>Its sleeves under the id of the Selection, with the fallback put back.\<close>

definition adopt_sleeve ::
  "selection_statement \<Rightarrow> string \<Rightarrow> lean_target_sleeve \<Rightarrow> lean_target_sleeve" where
  "adopt_sleeve st original sleeve =
     (let i = sl_semantic_id (ss_selection st);
          renamed = (if sl_selection_id sleeve = Some original
                     then sleeve\<lparr>sl_id := i @ ''-sleeve'', sl_selection_id := Some i\<rparr> else sleeve)
      in if truthy (sl_fallback_asset (ss_selection st)) \<and> sl_selection_id renamed = Some i
         then renamed\<lparr>sl_fallback_component := Some (ss_semantic_id st @ ''-fallback''),
                      sl_fallback_symbols := fallback_symbols (ss_selection st)\<rparr>
         else renamed)"

definition adopt_plan :: "selection_statement \<Rightarrow> lean_plan \<Rightarrow> lean_plan bridged" where
  "adopt_plan st plan =
     (case lp_momentum_selections plan of
        [m] \<Rightarrow>
          Inr (plan\<lparr>lp_momentum_selections := [m\<lparr>ms_id := sl_semantic_id (ss_selection st)\<rparr>],
                    lp_target_sleeves := map (adopt_sleeve st (ms_id m)) (lp_target_sleeves plan)\<rparr>)
      | _ \<Rightarrow> refuse_v2 ''composable Selection must lower to one typed ranking node'')"

definition isolated_plan ::
  "(canonical_v2 \<Rightarrow> lean_plan bridged) \<Rightarrow> canonical_v2 \<Rightarrow> program \<Rightarrow> lean_policy_target list \<Rightarrow> selection_statement \<Rightarrow>
   lean_plan bridged" where
  "isolated_plan recur s p targets st =
     ebind (recur (isolated_strategy s p (isolated_method targets (sl_semantic_id (ss_selection st))) st)) (adopt_plan st)"

text \<open>The legs are looked up by the Selections' ids, which were kept.\<close>

definition compiled_leg :: "(string, string) dict \<Rightarrow> lean_temporal_leg \<Rightarrow> lean_temporal_leg" where
  "compiled_leg ids l =
     l\<lparr>tl_target_ref := (case dget ids (or_empty (tl_target_ref l)) of None \<Rightarrow> tl_target_ref l | Some i \<Rightarrow> Some i)\<rparr>"

definition compiled_target :: "(string, string) dict \<Rightarrow> lean_policy_target \<Rightarrow> lean_policy_target" where
  "compiled_target ids t = t\<lparr>pt_legs := map (compiled_leg ids) (pt_legs t)\<rparr>"

definition compiled_selection_ids :: "selection_statement list \<Rightarrow> (string, string) dict" where
  "compiled_selection_ids selections =
     dict_of (map (\<lambda>st. (sl_semantic_id (ss_selection st), sl_semantic_id (ss_selection st))) selections)"

subsection \<open>The temporal plan\<close>

definition clock_profile :: "lean_temporal_event list \<Rightarrow> string" where
  "clock_profile es =
     (if list_ex (\<lambda>v. tv_kind v = ''completed_weekly_price'') (concat (map event_values es))
      then ''event-state-multiclock@1'' else ''event-state-daily@1'')"

definition execution_order :: "string list" where
  "execution_order =
     [''data_clocks'', ''value_readiness'', ''conditions'', ''events'', ''state_memory'', ''policy'', ''universe'',
      ''score_rank'', ''selection_fallback'', ''allocation_aggregation'', ''order_intent'', ''checkpoint_evidence'']"

definition temporal_clock :: "program \<Rightarrow> lean_temporal_event list \<Rightarrow> selection_statement list \<Rightarrow> string bridged" where
  "temporal_clock p es selections =
     (case es of
        e # _ \<Rightarrow> Inr (te_clock_id e)
      | [] \<Rightarrow> (case selections of
               [] \<Rightarrow> Inl (Other_error Index_error)
             | st # _ \<Rightarrow> or_first_clock p (ss_clock_id st)))"

definition temporal_program_of ::
  "hashing \<Rightarrow> canonical_v2 \<Rightarrow> program \<Rightarrow> lean_temporal_event list \<Rightarrow> selection_statement list \<Rightarrow> string \<Rightarrow>
   lean_policy_target list \<Rightarrow> string \<Rightarrow> string \<Rightarrow> string list \<Rightarrow> lean_temporal_program" where
  "temporal_program_of hs s p es selections policy_id targets clock anchor universe =
     \<lparr>tp_profile = (if selections \<noteq> [] then ''composable-semantic-execution@1'' else clock_profile es),
      tp_semantic_id = pg_semantic_id p,
      tp_checkpoint_identity = hs_checkpoint hs s (clock_profile es),
      tp_operator_versions = sort_key fst (cv_operator_lock s),
      tp_clock_id = clock,
      tp_anchor_symbol = anchor,
      tp_initial_state = sort_key fst (pg_initial_state p),
      tp_events = es,
      tp_policy_statement_id = policy_id,
      tp_policy_targets = targets,
      tp_asset_universe = universe,
      tp_execution_order = execution_order\<rparr>"

definition temporal_plan :: "string \<Rightarrow> lean_subscription list \<Rightarrow> lean_plan list \<Rightarrow> lean_temporal_program \<Rightarrow> lean_plan" where
  "temporal_plan identity subscriptions plans tp =
     \<lparr>lp_identity = identity,
      lp_subscriptions = subscriptions,
      lp_random_selections = [],
      lp_target_sleeves = concat (map lp_target_sleeves plans),
      lp_rebalances = [],
      lp_monthly_events = [],
      lp_momentum_selections = concat (map lp_momentum_selections plans),
      lp_target_snapshots = [],
      lp_quarterly_events = [],
      lp_daily_events = [],
      lp_cooldown_states = [],
      lp_temporal_program = Some tp\<rparr>"

text \<open>From the lowered events and policy targets to the plan.\<close>

definition assemble_temporal ::
  "(canonical_v2 \<Rightarrow> lean_plan bridged) \<Rightarrow> hashing \<Rightarrow> canonical_v2 \<Rightarrow> program \<Rightarrow> lean_temporal_event list \<Rightarrow>
   selection_statement list \<Rightarrow> string \<Rightarrow> lean_policy_target list \<Rightarrow> lean_plan bridged" where
  "assemble_temporal recur hs s p es selections policy_id targets =
     (let named = temporal_symbols (cv_definitions s) selections es targets in
      if named = [] then refuse_v2 ''event-state-daily@1 currently requires one adjusted-close asset''
      else
        ebind (emap (isolated_plan recur s p targets) selections) (\<lambda>plans.
        let anchor = (case anchor_candidates es of a # _ \<Rightarrow> a | [] \<Rightarrow> hd (sorted_set named));
            subscriptions = dict_of (map (\<lambda>x. (x, subscription_of x)) named
              @ concat (map (\<lambda>q. map (\<lambda>u. (su_symbol u, u)) (lp_subscriptions q)) plans)) in
        ebind (temporal_clock p es selections) (\<lambda>clock.
        lift_res (normalize_lean_plan
          (temporal_plan (hs_strategy hs s) (dvalues subscriptions) plans
             (temporal_program_of hs s p es selections policy_id
                (map (compiled_target (compiled_selection_ids selections)) targets)
                clock anchor (sort (dkeys subscriptions))))))))"

definition compile_temporal_program ::
  "(canonical_v2 \<Rightarrow> lean_plan bridged) \<Rightarrow> hashing \<Rightarrow> canonical_v2 \<Rightarrow> lean_plan option bridged" where
  "compile_temporal_program recur hs s =
     (case cv_program s of
        None \<Rightarrow> Inr None
      | Some p \<Rightarrow>
          let sts = pg_statements p; events = events_in sts; selections = selections_in sts; policies = policies_in sts in
          if events = [] \<and> policies = [] then Inr None
          else case policies of
            [po] \<Rightarrow>
              if length events + length selections + 1 \<noteq> length sts
              then refuse_v2 ''temporal execution requires Selections, ordered Events, and one guarded policy''
              else
                ebind (emap (lower_event p) events) (\<lambda>es.
                ebind (lower_policy (target_lowering selections) po) (\<lambda>targets.
                ebind (assemble_temporal recur hs s p es selections (gp_semantic_id po) targets) (\<lambda>plan.
                Inr (Some plan))))
          | _ \<Rightarrow> refuse_v2 ''temporal execution requires Selections, ordered Events, and one guarded policy'')"

subsection \<open>The compiler\<close>

text \<open>\<open>_program_selection\<close>.\<close>

definition unsupported_statement :: "statement \<Rightarrow> bool" where
  "unsupported_statement st \<longleftrightarrow> (case st of S_select _ \<Rightarrow> False | S_allocate _ \<Rightarrow> False | _ \<Rightarrow> True)"

definition allocates_selection :: "selection_statement \<Rightarrow> allocation \<Rightarrow> bool" where
  "allocates_selection st a \<longleftrightarrow>
     list_ex (\<lambda>l. al_target_kind l = Target_selection \<and> al_target_ref l = Some (ss_output_id st)) (as_legs a)"

definition program_selection :: "canonical_v2 \<Rightarrow> (selection_statement \<times> allocation \<times> timeframe) bridged" where
  "program_selection s =
     (case cv_program s of
        None \<Rightarrow> refuse_v2 ''Program-native lowering requires a Semantic Program''
      | Some p \<Rightarrow>
          let sts = program_statements (pg_statements p) in
          if list_ex unsupported_statement sts
          then refuse_v2 ''Program statement is reference-valid but has no maintained LEAN lowering''
          else case selections_in sts of
            [st] \<Rightarrow>
              (case filter (allocates_selection st) (allocations_in sts) of
                 [a] \<Rightarrow>
                   if as_method a \<notin> {M_equal, M_proportional_score}
                   then refuse_v2 ''production Program lowering requires one supported Selection allocation''
                   else if as_minimum_weight a \<noteq> None \<or> as_maximum_weight a \<noteq> None \<or> as_cash_remainder_asset a \<noteq> None
                   then refuse_v2 ''bounded Selection allocation has no maintained LEAN lowering''
                   else
                     (let clock_id = (if truthy (ss_clock_id st) then ss_clock_id st else as_clock_id a) in
                      case pg_clocks p of
                        [] \<Rightarrow> Inl (Other_error Index_error)
                      | first # _ \<Rightarrow>
                          (let clock = (case find (\<lambda>k. Some (pc_id k) = clock_id) (pg_clocks p) of
                                          None \<Rightarrow> first | Some k \<Rightarrow> k) in
                           if pc_timeframe clock \<notin> {TF_daily, TF_monthly}
                           then refuse_v2 ''Program timing has no maintained LEAN lowering''
                           else Inr (st, a, pc_timeframe clock)))
               | _ \<Rightarrow> refuse_v2 ''production Program lowering requires one supported Selection allocation'')
          | _ \<Rightarrow> refuse_v2 ''production Program lowering currently requires exactly one Selection'')"

text \<open>\<open>compile_v2_strategy_to_lean_plan\<close>, up to the calls of the V1 adapter.\<close>

primrec compile_v2_at :: "nat \<Rightarrow> hashing \<Rightarrow> canonical_v2 \<Rightarrow> lean_plan bridged" where
  "compile_v2_at 0 hs s = Inl Nesting_exceeded"
| "compile_v2_at (Suc n) hs s =
     ebind (lift_res (validate_strategy (hs_dump hs) (hs_digest hs) s)) (\<lambda>issues.
     if issues \<noteq> [] then refuse_v2 (''v2 semantic validation failed: '' @ issues_text issues)
     else if cv_selection s \<noteq> None \<or> cv_program s = None then Inl Adapter_needed
     else
       ebind (compile_temporal_program (compile_v2_at n hs) hs s) (\<lambda>temporal.
       case temporal of
         Some plan \<Rightarrow> Inr plan
       | None \<Rightarrow>
           ebind (compile_static_program hs s) (\<lambda>static.
           case static of
             Some plan \<Rightarrow> Inr plan
           | None \<Rightarrow> ebind (program_selection s) (\<lambda>_. Inl Adapter_needed))))"

definition compile_v2 :: "hashing \<Rightarrow> canonical_v2 \<Rightarrow> lean_plan bridged" where
  "compile_v2 = compile_v2_at 2"

end
