(* ===== verification/V2_Routing.thy ===== *)
theory V2_Routing
  imports V2_Compile
begin

text \<open>
  Which branches of \<open>compile_v2_strategy_to_lean_plan\<close> a Program can take: the temporal and the
  static lowering between them answer every document with a Program and without a legacy Selection
  without the V1 adapter, and the nested call
  of the temporal lowering never nests further. An outcome is settled when it is a plan or an
  error of the lowering itself.
\<close>

subsection \<open>Settled outcomes\<close>

definition settled :: "'a bridged \<Rightarrow> bool" where
  "settled r \<longleftrightarrow> r \<noteq> Inl Adapter_needed \<and> r \<noteq> Inl Nesting_exceeded"

named_theorems settled_intros \<open>settled outcomes\<close>

lemma settled_simps [simp]:
  "settled (Inr x)" "settled (Inl (V2_lowering_error m))" "settled (Inl (Other_error e))"
  "settled (refuse_v2 m)" "settled (no_value m)" "settled no_temporal_value" "settled (lift_res r)"
  "\<not> settled (Inl Adapter_needed)" "\<not> settled (Inl Nesting_exceeded)"
  by (simp_all add: settled_def refuse_v2_def no_value_def no_temporal_value_def lift_res_def split: sum.split)

lemma settled_guard [simp]: "settled (guard c (V2_lowering_error m))"
  by (simp add: guard_def)

lemma settled_ebind [settled_intros]: "settled m \<Longrightarrow> (\<And>x. m = Inr x \<Longrightarrow> settled (f x)) \<Longrightarrow> settled (ebind m f)"
  by (cases m) (auto simp: settled_def)

lemma settled_pair [settled_intros]:
  "settled m \<Longrightarrow> (\<And>x y. m = Inr (x, y) \<Longrightarrow> settled (f x y)) \<Longrightarrow> settled (ebind m (\<lambda>(x, y). f x y))"
  by (cases m) (auto simp: settled_def)

lemma settled_if [settled_intros]: "(c \<Longrightarrow> settled a) \<Longrightarrow> (\<not> c \<Longrightarrow> settled b) \<Longrightarrow> settled (if c then a else b)"
  by simp

lemma settled_option [settled_intros]:
  "(x = None \<Longrightarrow> settled a) \<Longrightarrow> (\<And>y. x = Some y \<Longrightarrow> settled (f y)) \<Longrightarrow> settled (case x of None \<Rightarrow> a | Some y \<Rightarrow> f y)"
  by (cases x) auto

lemma settled_list [settled_intros]:
  "settled a \<Longrightarrow> (\<And>y ys. x = y # ys \<Longrightarrow> settled (f y ys)) \<Longrightarrow> settled (case x of [] \<Rightarrow> a | y # ys \<Rightarrow> f y ys)"
  by (cases x) auto

lemma settled_emap: "(\<And>x. x \<in> set xs \<Longrightarrow> settled (f x)) \<Longrightarrow> settled (emap f xs)"
  by (induction xs) (auto intro!: settled_ebind)

lemma settled_efold: "(\<And>x s. x \<in> set xs \<Longrightarrow> settled (f x s)) \<Longrightarrow> settled (efold f xs s)"
  by (induction xs arbitrary: s) (auto intro!: settled_ebind)

lemma lean_daily_value_settled: "settled (lean_daily_value n)"
  by (induction n rule: lean_daily_value.induct)
    (simp split: list.split; intro conjI impI allI settled_ebind; simp?; blast?)

lemma lean_score_settled: "settled (lean_score_value terms points mp nm lo hi)"
  unfolding lean_score_value_def lean_score_term_def
  by (auto intro!: settled_ebind settled_emap simp: lean_daily_value_settled split: score_term.split value_expr.split)

lemma program_value_settled: "settled (program_value v)"
  unfolding program_value_def program_daily_value_def Let_def
  by (auto simp: lean_score_settled split: value_expr.split option.split prod.split)

lemma lower_compared_settled: "settled (lower_compared q)"
  unfolding lower_compared_def
  by (auto intro!: settled_ebind simp: program_value_settled split: prod.split)

lemma program_comparisons_settled: "settled (program_comparisons c)"
  by (induction c rule: program_comparisons.induct)
    (auto intro!: settled_ebind settled_emap simp: lower_compared_settled)

lemma lower_selection_settled: "settled (lower_selection df st x)"
  unfolding lower_selection_def Let_def optional_comparisons_def
  by (auto intro!: settled_ebind simp: program_value_settled program_comparisons_settled split: option.split)

lemma lower_leg_settled: "settled (lower_leg df outputs a leg x)"
  unfolding lower_leg_def leg_assets_def leg_weight_def Let_def
  by (intro settled_pair settled_ebind)
    (auto intro!: settled_ebind split: target_kind.split option.split bool.split)

lemma allocation_sleeves_settled: "settled (allocation_sleeves df outputs a x)"
  unfolding allocation_sleeves_def Let_def
  by (auto intro!: settled_ebind settled_efold simp: lower_leg_settled)

lemma or_first_clock_settled: "settled (or_first_clock p c)"
  by (simp add: or_first_clock_def split: list.split)

lemma route_static_settled: "settled (route_static df p outputs body x)"
  unfolding route_static_def route_control_def Let_def
  by (auto intro!: settled_ebind settled_pair
      simp: allocation_sleeves_settled or_first_clock_settled program_comparisons_settled split: list.split)

lemma finish_static_settled: "settled (finish_static identity p r clock_id x)"
  unfolding finish_static_def by (auto intro!: settled_ebind)

lemma compile_static_settled: "settled (compile_static_program hs s)"
  unfolding compile_static_program_def Let_def
  by (auto intro!: settled_ebind settled_efold
      simp: lower_selection_settled route_static_settled finish_static_settled split: option.split)

lemma temporal_value_settled: "settled (temporal_value v)"
  unfolding temporal_value_def Let_def by (auto split: value_expr.split)

lemma temporal_parts_settled: "settled (temporal_parts_of c)"
  unfolding temporal_parts_of_def take_part_def Let_def
  by (rule settled_efold) (auto split: condition.split)

lemma temporal_condition_settled: "settled (temporal_condition c)"
  unfolding temporal_condition_def
  by (auto intro!: settled_ebind simp: temporal_parts_settled temporal_value_settled split: option.split)

lemma temporal_action_settled: "settled (temporal_action st)"
  unfolding temporal_action_def
  by (auto intro!: settled_ebind simp: temporal_value_settled split: statement.split condition.split)

lemma lower_event_settled: "settled (lower_event p q)"
  unfolding lower_event_def check_weekly_def
  by (auto intro!: settled_ebind settled_emap simp: temporal_condition_settled temporal_action_settled
      split: prod.split option.split)

lemma policy_leg_settled: "settled (policy_leg outputs leg)"
  unfolding policy_leg_def Let_def by (cases "al_target_kind leg") (auto split: option.split)

lemma composable_settled: "settled (composable_policy_target outputs a i k v)"
  unfolding composable_policy_target_def
  by (intro settled_intros settled_emap) (simp_all add: policy_leg_settled)

lemma fixed_settled: "settled (fixed_policy_target a i k v)"
  unfolding fixed_policy_target_def by (intro settled_intros) simp_all

lemma target_lowering_settled: "settled (target_lowering selections a i k v)"
  by (simp add: target_lowering_def composable_settled fixed_settled)

lemma lower_policy_settled: "settled (lower_policy (target_lowering selections) po)"
  unfolding lower_policy_def lower_override_def Let_def
  by (auto intro!: settled_ebind settled_pair settled_efold simp: target_lowering_settled
      split: condition.split option.split)

lemma adopt_plan_settled: "settled (adopt_plan st plan)"
  by (simp add: adopt_plan_def split: list.split)

lemma temporal_clock_settled: "settled (temporal_clock p es selections)"
  by (simp add: temporal_clock_def or_first_clock_settled split: list.split)

lemma program_selection_settled: "settled (program_selection s)"
  unfolding program_selection_def Let_def by (intro settled_intros) simp_all

text \<open>The temporal lowering is settled when the compiler is on the Programs it isolates.\<close>

lemma compile_temporal_settled:
  assumes "\<And>p m st. cv_program s = Some p \<Longrightarrow> settled (recur (isolated_strategy s p m st))"
  shows "settled (compile_temporal_program recur hs s)"
  unfolding compile_temporal_program_def assemble_temporal_def isolated_plan_def Let_def
  by (auto intro!: settled_ebind settled_emap simp: assms adopt_plan_settled temporal_clock_settled
      lower_event_settled lower_policy_settled split: option.split list.split)

subsection \<open>Statements, flattened\<close>

lemma set_program_statements: "set (program_statements sts) = (\<Union>st\<in>set sts. set (program_statements [st]))"
  by (induction sts rule: program_statements.induct) auto

lemma program_statements_mono: "set xs \<subseteq> set ys \<Longrightarrow> set (program_statements xs) \<subseteq> set (program_statements ys)"
  unfolding set_program_statements [of xs] set_program_statements [of ys] by (rule UN_mono) simp_all

lemma statement_in_itself: "st \<in> set (program_statements [st])"
  by (cases st) simp_all

lemma program_statements_superset: "set sts \<subseteq> set (program_statements sts)"
  using statement_in_itself by (auto simp: set_program_statements [of sts])

lemma program_statements_flat:
  "list_all (\<lambda>st. \<not> unsupported_statement st) sts \<Longrightarrow> program_statements sts = sts"
  by (induction sts rule: program_statements.induct) (auto simp: unsupported_statement_def)

lemma unsupported_refused:
  assumes "cv_program s = Some p" and "st \<in> set (program_statements (pg_statements p))" and "unsupported_statement st"
  shows "program_selection s = refuse_v2 ''Program statement is reference-valid but has no maintained LEAN lowering''"
  using assms by (auto simp: program_selection_def Let_def list_ex_iff)

lemma retained_not_allocated:
  assumes "is_initial_retain (S_allocate a)"
  shows "\<not> allocates_selection st a"
  using assms by (cases "as_legs a") (auto simp: is_initial_retain_def allocates_selection_def)

lemma set_allocations_in: "a \<in> set (allocations_in sts) \<longleftrightarrow> S_allocate a \<in> set sts"
  by (induction sts) (auto simp: allocations_in_def map_filter_simps split: statement.splits)

lemma set_selections_in: "st \<in> set (selections_in sts) \<longleftrightarrow> S_select st \<in> set sts"
  by (induction sts) (auto simp: selections_in_def map_filter_simps split: statement.splits)

lemma controls_in_Nil: "controls_in sts = [] \<Longrightarrow> S_control i c yes no u k \<notin> set sts"
  by (induction sts) (auto simp: controls_in_def map_filter_simps split: statement.splits)

subsection \<open>A Program without a static plan\<close>

text \<open>Without a routing statement only Selections remain beside the initial retain allocation.\<close>

lemma unrouted_refused:
  assumes p: "cv_program s = Some p"
    and body: "list_all static_statement (filter (\<lambda>st. \<not> is_initial_retain st) (pg_statements p))"
    and none: "allocations_in (filter (\<lambda>st. \<not> is_initial_retain st) (pg_statements p)) = []"
      "controls_in (filter (\<lambda>st. \<not> is_initial_retain st) (pg_statements p)) = []"
  shows "\<exists>m. program_selection s = refuse_v2 m"
proof -
  let ?sts = "pg_statements p"
  have kinds: "\<not> unsupported_statement st" if st: "st \<in> set ?sts" for st
  proof (cases "is_initial_retain st")
    case True
    then show ?thesis by (auto simp: is_initial_retain_def unsupported_statement_def split: statement.splits)
  next
    case False
    with st body have "static_statement st" by (auto simp: list_all_iff)
    then show ?thesis
      using controls_in_Nil [OF none(2)] st False
      by (auto simp: static_statement_def unsupported_statement_def split: statement.splits)
  qed
  then have flat: "program_statements ?sts = ?sts"
    by (intro program_statements_flat) (simp add: list_all_iff)
  have retained: "is_initial_retain (S_allocate a)" if "a \<in> set (allocations_in ?sts)" for a
  proof (rule ccontr)
    assume "\<not> is_initial_retain (S_allocate a)"
    then have "a \<in> set (allocations_in (filter (\<lambda>st. \<not> is_initial_retain st) ?sts))"
      using that by (simp add: set_allocations_in)
    with none(1) show False by simp
  qed
  have "filter (allocates_selection st) (allocations_in ?sts) = []" for st
    using retained retained_not_allocated by (auto simp: filter_empty_conv)
  then show ?thesis
    unfolding program_selection_def using p kinds
    by (auto simp: Let_def flat list_ex_iff split: list.split)
qed

lemma static_none_refused:
  assumes p: "cv_program s = Some p" and none: "compile_static_program hs s = Inr None"
  shows "\<exists>m. program_selection s = refuse_v2 m"
proof -
  let ?sts = "pg_statements p"
  let ?body = "filter (\<lambda>st. \<not> is_initial_retain st) ?sts"
  show ?thesis
  proof (cases "list_all static_statement (program_statements ?body)")
    case False
    then obtain st where st: "st \<in> set (program_statements ?body)" "\<not> static_statement st"
      by (auto simp: list_all_iff)
    have "set (program_statements ?body) \<subseteq> set (program_statements ?sts)"
      by (rule program_statements_mono) auto
    moreover have "unsupported_statement st"
      using st(2) by (cases st) (simp_all add: static_statement_def unsupported_statement_def)
    ultimately show ?thesis using unsupported_refused [OF p] st(1) by blast
  next
    case True
    then have body: "list_all static_statement ?body"
      using program_statements_superset [of ?body] by (auto simp: list_all_iff)
    have "?body = [] \<or> (allocations_in ?body = [] \<and> controls_in ?body = [])"
      using none p True body
      by (auto simp: compile_static_program_def Let_def route_static_def refuse_v2_def
          elim!: ebind_InrE split: if_splits list.splits option.splits prod.splits)
    then have "allocations_in ?body = [] \<and> controls_in ?body = []"
      by (auto simp: allocations_in_def controls_in_def map_filter_simps)
    then show ?thesis using unrouted_refused [OF p body] by blast
  qed
qed

subsection \<open>The nested call\<close>

lemma isolated_has_no_temporal_plan: "compile_temporal_program recur hs (isolated_strategy s p m st) = Inr None"
  by (simp add: compile_temporal_program_def isolated_strategy_def isolated_program_def events_in_def policies_in_def
      map_filter_simps)

lemma isolated_fields [simp]:
  "cv_program (isolated_strategy s p m st) = Some (isolated_program p m st)"
  "cv_selection (isolated_strategy s p m st) = cv_selection s"
  by (simp_all add: isolated_strategy_def)

lemma compile_isolated:
  "compile_v2_at (Suc n) hs (isolated_strategy s p m st) = compile_v2_at (Suc k) hs (isolated_strategy s p m st)"
  by (simp add: isolated_has_no_temporal_plan cong: if_cong)

lemma compile_temporal_recur:
  assumes "\<And>p m st. cv_program s = Some p \<Longrightarrow> f (isolated_strategy s p m st) = g (isolated_strategy s p m st)"
  shows "compile_temporal_program f hs s = compile_temporal_program g hs s"
proof (cases "cv_program s")
  case (Some p)
  then have "isolated_plan f s p = isolated_plan g s p"
    using assms by (auto simp: isolated_plan_def fun_eq_iff)
  then have same: "assemble_temporal f hs s p = assemble_temporal g hs s p" by (intro ext) (simp add: assemble_temporal_def cong: if_cong)
  show ?thesis unfolding compile_temporal_program_def Some option.case same ..
qed (simp add: compile_temporal_program_def)

text \<open>The tail of the compiler, from the static lowering on.\<close>

lemma static_tail_settled:
  assumes p: "cv_program s = Some p"
  shows "settled (ebind (compile_static_program hs s) (\<lambda>static. case static of
    Some plan \<Rightarrow> Inr plan | None \<Rightarrow> ebind (program_selection s) (\<lambda>_. Inl Adapter_needed)))"
proof (rule settled_ebind [OF compile_static_settled])
  fix static assume static: "compile_static_program hs s = Inr static"
  then show "settled (case static of Some plan \<Rightarrow> Inr plan | None \<Rightarrow> ebind (program_selection s) (\<lambda>_. Inl Adapter_needed))"
  proof (cases static)
    case None
    then obtain m where "program_selection s = refuse_v2 m" using static_none_refused [OF p] static by blast
    then show ?thesis by (simp add: None refuse_v2_def)
  qed simp
qed

lemma settled_without_adapter:
  assumes "cv_program s = Some p" and "cv_selection s = None"
    and "settled (compile_temporal_program (compile_v2_at n hs) hs s)"
  shows "settled (compile_v2_at (Suc n) hs s)"
proof -
  have "settled (ebind (compile_temporal_program (compile_v2_at n hs) hs s) (\<lambda>temporal. case temporal of
     Some plan \<Rightarrow> Inr plan
   | None \<Rightarrow> ebind (compile_static_program hs s) (\<lambda>static. case static of
       Some plan \<Rightarrow> Inr plan | None \<Rightarrow> ebind (program_selection s) (\<lambda>_. Inl Adapter_needed))))"
    by (intro settled_ebind [OF assms(3)] settled_option static_tail_settled [OF assms(1)]) simp
  note tail = this
  show ?thesis unfolding compile_v2_at.simps
  proof (rule settled_ebind, goal_cases)
    case (2 issues)
    show ?case using assms(1,2) tail by (cases "issues = []") simp_all
  qed simp
qed

lemma isolated_settled:
  assumes "cv_selection s = None"
  shows "settled (compile_v2_at (Suc n) hs (isolated_strategy s p m st))"
  by (rule settled_without_adapter [OF isolated_fields(1)]) (simp_all add: assms isolated_has_no_temporal_plan)

lemma compile_v2_settled:
  assumes "cv_program s \<noteq> None" and "cv_selection s = None"
  shows "settled (compile_v2_at (Suc (Suc n)) hs s)"
proof -
  obtain p where "cv_program s = Some p" using assms(1) by blast
  then show ?thesis
    using assms(2) by (intro settled_without_adapter compile_temporal_settled isolated_settled)
qed

lemma compile_v2_nesting: "compile_v2_at (Suc (Suc n)) hs s = compile_v2 hs s"
proof -
  have "compile_temporal_program (compile_v2_at (Suc n) hs) hs s = compile_temporal_program (compile_v2_at (Suc 0) hs) hs s"
    by (rule compile_temporal_recur) (rule compile_isolated)
  then show ?thesis unfolding compile_v2_def numeral_2_eq_2 compile_v2_at.simps(2) [of "Suc n"] compile_v2_at.simps(2) [of "Suc 0"]
    by (simp only:)
qed

end
