(* ===== verification/Lowering_Invariants.thy ===== *)
theory Lowering_Invariants
  imports Lean_Lowering
begin

text \<open>
  Facts every proof about the lowering shares: how far a recursion along the operands of a
  well-formed IR can go, and what the five dictionaries and the lowered targets satisfy after
  any of the steps (keys are ids, references point to entries that exist, symbols are known).
\<close>

subsection \<open>Depth of an acyclic IR\<close>

definition height :: "strategy_ir \<Rightarrow> string \<Rightarrow> nat" where
  "height ir i = card ((operand_relation ir)\<^sup>+ `` {i})"

lemma finite_operands: "finite (operand_relation ir)"
proof -
  have "operand_relation ir \<subseteq> (\<Union>x\<in>set (ir_operations ir). {op_id x} \<times> set (operand_ids (op_body x)))"
    by (auto simp: operand_relation_def)
  then show ?thesis by (rule finite_subset) auto
qed

lemma finite_descendants: "finite ((operand_relation ir)\<^sup>+ `` {i})"
  by (simp add: finite_operands finite_trancl)

lemma height_decreases:
  assumes "acyclic (operand_relation ir)" and "(i, j) \<in> operand_relation ir"
  shows "height ir j < height ir i"
  unfolding height_def
proof (rule psubset_card_mono [OF finite_descendants])
  have "j \<notin> (operand_relation ir)\<^sup>+ `` {j}" using assms(1) by (auto simp: acyclic_def)
  moreover have "j \<in> (operand_relation ir)\<^sup>+ `` {i}" using assms(2) by auto
  moreover have "(operand_relation ir)\<^sup>+ `` {j} \<subseteq> (operand_relation ir)\<^sup>+ `` {i}"
    using assms(2) by (auto intro: trancl_into_trancl2)
  ultimately show "(operand_relation ir)\<^sup>+ `` {j} \<subset> (operand_relation ir)\<^sup>+ `` {i}" by blast
qed

lemma wf_irD:
  assumes "well_formed_ir ir"
  shows "unique_ids ir" and "well_typed_operands ir" and "acyclic (operand_relation ir)"
  using assms by (auto simp: well_formed_ir_def unique_ids_def well_formed_operation_def)

lemma height_bound:
  assumes "well_formed_ir ir"
  shows "height ir i < search_fuel ir"
proof -
  have "(operand_relation ir)\<^sup>+ `` {i} \<subseteq> set (map op_id (ir_operations ir))"
  proof
    fix j assume "j \<in> (operand_relation ir)\<^sup>+ `` {i}"
    then obtain k where "(k, j) \<in> operand_relation ir" by (auto elim: tranclE)
    then obtain x where "x \<in> set (ir_operations ir)" "j \<in> set (operand_ids (op_body x))"
      by (auto simp: operand_relation_def)
    with wf_irD(2) [OF assms] show "j \<in> set (map op_id (ir_operations ir))"
      by (force simp: well_typed_operands_def operand_ids_def)
  qed
  then have "height ir i \<le> card (set (map op_id (ir_operations ir)))"
    unfolding height_def by (intro card_mono) auto
  also have "\<dots> \<le> length (ir_operations ir)" using card_length [of "map op_id (ir_operations ir)"] by simp
  finally show ?thesis by (simp add: search_fuel_def)
qed

text \<open>An operand of a body that is looked up is a step of the relation.\<close>

lemma operand_step:
  assumes "unique_ids ir" and "body_of (operations_by_id ir) i = Some b" and "j \<in> set (operand_ids b)"
  shows "(i, j) \<in> operand_relation ir"
  using assms body_of_unique [OF assms(1), of i b] by (auto simp: operand_relation_def)

lemma operand_height:
  assumes "well_formed_ir ir" and "body_of (operations_by_id ir) i = Some b" and "j \<in> set (operand_ids b)"
  shows "height ir j < height ir i"
  using height_decreases [OF wf_irD(3) operand_step] wf_irD(1) assms by blast

lemmas operand_simps = operand_ids_def operands_def

lemma asset_symbols_answer:
  assumes "well_formed_ir ir" and "height ir i < fuel"
  shows "asset_symbols fuel (operations_by_id ir) i \<noteq> None"
  using assms(2)
proof (induction fuel arbitrary: i)
  case (Suc fuel)
  have down: "height ir j < fuel" if "body_of (operations_by_id ir) i = Some b" "j \<in> set (operand_ids b)" for b j
    using operand_height [OF assms(1) that] Suc.prems by simp
  show ?case
  proof (cases "body_of (operations_by_id ir) i")
    case (Some b)
    then show ?thesis using down [OF Some] Suc.IH by (cases b) (auto simp: operand_simps)
  qed simp
qed simp

lemma calendar_symbols_answer:
  assumes "well_formed_ir ir"
  shows "calendars_of (search_fuel ir) (operations_by_id ir) xs \<noteq> None"
proof (induction xs)
  case (Cons x xs)
  have "asset_symbols (search_fuel ir) (operations_by_id ir) (op_id x) \<noteq> None"
    using asset_symbols_answer [OF assms height_bound [OF assms]] .
  with Cons show ?case by auto
qed simp

lemma analysis_answers:
  assumes "well_formed_ir ir"
  shows "\<exists>rq. analyze_strategy_ir ir = Some rq"
proof -
  obtain cs where "calendars_of (search_fuel ir) (operations_by_id ir) (ir_operations ir) = Some cs"
    using calendar_symbols_answer [OF assms, of "ir_operations ir"] by auto
  then show ?thesis by (simp add: analyze_strategy_ir_def Let_def)
qed

subsection \<open>Dictionaries whose values carry their key\<close>

definition entries_ok :: "('k \<Rightarrow> 'v \<Rightarrow> bool) \<Rightarrow> ('k, 'v) dict \<Rightarrow> bool" where
  "entries_ok P d \<longleftrightarrow> distinct (dkeys d) \<and> (\<forall>k v. dget d k = Some v \<longrightarrow> P k v)"

lemma entries_ok_empty [simp]: "entries_ok P []"
  by (simp add: entries_ok_def dkeys_def dget_def)

lemma entries_ok_dset: "entries_ok P d \<Longrightarrow> P k v \<Longrightarrow> entries_ok P (dset k v d)"
  by (auto simp: entries_ok_def distinct_dkeys_dset)

lemma entries_ok_mono: "entries_ok P d \<Longrightarrow> (\<And>k v. P k v \<Longrightarrow> Q k v) \<Longrightarrow> entries_ok Q d"
  by (auto simp: entries_ok_def)

lemma entries_ok_values:
  assumes "entries_ok P d" and "v \<in> set (dvalues d)"
  shows "\<exists>k\<in>set (dkeys d). P k v"
proof -
  from assms(2) obtain k where "(k, v) \<in> set d" by (auto simp: dvalues_def)
  then have "map_of d k = Some v" "k \<in> set (dkeys d)"
    using assms(1) by (auto simp: entries_ok_def dkeys_def intro: map_of_is_SomeI rev_image_eqI)
  with assms(1) show ?thesis by (auto simp: entries_ok_def dget_def)
qed

text \<open>When a value's id is its key, the ids of the values are the keys.\<close>

lemma entries_ok_ids:
  assumes "entries_ok (\<lambda>k v. f v = k \<and> Q k v) d"
  shows "map f (dvalues d) = dkeys d"
proof -
  have "f v = k" if "(k, v) \<in> set d" for k v
    using assms that by (auto simp: entries_ok_def dget_def dkeys_def intro: map_of_is_SomeI)
  then show ?thesis by (auto simp: dvalues_def dkeys_def)
qed

subsection \<open>The recursion of the targets ends\<close>

definition fails_cleanly :: "'a lowered \<Rightarrow> bool" where
  "fails_cleanly r \<longleftrightarrow> (\<forall>e. r = Inl e \<longrightarrow> (\<exists>m. e = Lean_lowering_error m))"

lemma fails_cleanly_simps [simp]: "fails_cleanly (Inr x)" "fails_cleanly (Inl (Lean_lowering_error m))"
  by (simp_all add: fails_cleanly_def)

lemma fails_cleanly_ebind [intro]: "fails_cleanly m \<Longrightarrow> (\<And>x. m = Inr x \<Longrightarrow> fails_cleanly (f x)) \<Longrightarrow> fails_cleanly (ebind m f)"
  by (cases m) (auto simp: fails_cleanly_def)

lemma fails_cleanly_pair [intro]:
  "fails_cleanly m \<Longrightarrow> (\<And>x y. m = Inr (x, y) \<Longrightarrow> fails_cleanly (f x y)) \<Longrightarrow> fails_cleanly (ebind m (\<lambda>(x, y). f x y))"
  by (cases m) (auto simp: fails_cleanly_def)

lemma lower_momentum_clean: "fails_cleanly (lower_momentum_selection cx tc r n sh i c st)"
  by (simp add: lower_momentum_selection_def split: option.splits)

lemma lower_sleeve_assets_clean: "fails_cleanly (lower_sleeve_assets cx i st)"
  using lower_momentum_clean
  by (auto simp: lower_sleeve_assets_def split: option.splits ir_body.splits list.splits)

lemma lower_sleeve_clean: "fails_cleanly (lower_sleeve cx i st)"
  using lower_sleeve_assets_clean
  by (auto simp: lower_sleeve_def Let_def split: option.splits ir_body.splits)

lemma lower_fallback_clean: "fails_cleanly (lower_fallback cx c i j sc src st)"
  using lower_sleeve_clean
  by (auto simp: lower_fallback_def Let_def split: option.splits ir_body.splits list.splits if_splits)

lemma lower_snapshot_clean:
  assumes "\<And>st. fails_cleanly (lw targets st)"
  shows "fails_cleanly (lower_snapshot_with lw cx i targets st)"
  using assms by (auto simp: lower_snapshot_with_def Let_def split: option.splits if_splits)

lemma lower_targets_clean:
  assumes wf: "well_formed_ir ir" and cx: "lx_operations cx = operations_by_id ir" and "height ir i < fuel"
  shows "fails_cleanly (lower_targets fuel cx i scale source st)"
  using assms(3)
proof (induction fuel arbitrary: i scale source st)
  case (Suc fuel)
  have down: "height ir j < fuel" if "lx_body cx i = Some b" "j \<in> set (operand_ids b)" for b j
    using operand_height [OF wf that(1) [unfolded cx] that(2)] Suc.prems by simp
  have down2: "height ir k < fuel"
    if "lx_body cx i = Some b" "j \<in> set (operand_ids b)" "lx_body cx j = Some c" "k \<in> set (operand_ids c)" for b j c k
    using operand_height [OF wf that(3) [unfolded cx] that(4)] down [OF that(1,2)] by simp
  show ?case
  proof (cases "lx_body cx i")
    case (Some b)
    show ?thesis
    proof (cases b)
      case (Merge_targets_op l r)
      then have "height ir l < fuel" "height ir r < fuel" using down [OF Some] by (auto simp: operand_simps)
      with Suc.IH show ?thesis by (auto simp: Some Merge_targets_op intro!: fails_cleanly_pair)
    next
      case (Scale_targets_op t f)
      then have t: "height ir t < fuel" using down [OF Some] by (auto simp: operand_simps)
      have "fails_cleanly (lower_snapshot_with (\<lambda>j. lower_targets fuel cx j 1 None) cx t k st)"
        if "lx_body cx t = Some (Retain_targets_op k)" for k
        by (rule lower_snapshot_clean, rule Suc.IH, rule down2 [OF Some _ that])
          (auto simp: Scale_targets_op operand_simps)
      then show ?thesis using Suc.IH [OF t]
        by (auto simp: Some Scale_targets_op split: option.splits ir_body.splits)
    next
      case (Equal_weight_op a w)
      then show ?thesis using lower_sleeve_clean by (auto simp: Some Let_def)
    next
      case (Observe_target_exits_op t s)
      then have "height ir t < fuel" using down [OF Some] by (auto simp: operand_simps)
      with Suc.IH show ?thesis by (auto simp: Some Observe_target_exits_op split: if_splits)
    qed (simp_all add: Some lower_fallback_clean)
  qed simp
qed simp

subsection \<open>What the dictionaries and the lowered targets satisfy\<close>

definition good_sleeve :: "string set \<Rightarrow> lowering_state \<Rightarrow> string \<Rightarrow> lean_target_sleeve \<Rightarrow> bool" where
  "good_sleeve A st k s \<longleftrightarrow>
     sl_id s = k \<and> set (sl_symbols s) \<subseteq> A \<and> set (sl_fallback_symbols s) \<subseteq> A \<and>
     (\<forall>i. sl_selection_id s = Some i \<longrightarrow> i \<in> set (dkeys (ls_selections st)) \<union> set (dkeys (ls_momentum st)))"

definition good_state :: "string set \<Rightarrow> lowering_state \<Rightarrow> bool" where
  "good_state A st \<longleftrightarrow>
     entries_ok (\<lambda>k r. rs_id r = k \<and> set (rs_symbols r) \<subseteq> A) (ls_selections st) \<and>
     entries_ok (\<lambda>k m. ms_id m = k \<and> set (ms_symbols m) \<subseteq> A \<and>
       set_option (ms_cooldown_state m) \<subseteq> set (dkeys (ls_cooldown st))) (ls_momentum st) \<and>
     entries_ok (\<lambda>k c. cs_id c = k \<and> set (cs_symbols c) \<subseteq> A \<and> cs_calendar_symbol c \<in> A) (ls_cooldown st) \<and>
     entries_ok (good_sleeve A st) (ls_sleeves st) \<and>
     entries_ok (\<lambda>k t. ts_id t = k \<and> set (ts_sleeve_ids t) \<subseteq> set (dkeys (ls_sleeves st))) (ls_snapshots st)"

definition only_grows :: "lowering_state \<Rightarrow> lowering_state \<Rightarrow> bool" where
  "only_grows s t \<longleftrightarrow>
     set (dkeys (ls_selections s)) \<subseteq> set (dkeys (ls_selections t)) \<and>
     set (dkeys (ls_momentum s)) \<subseteq> set (dkeys (ls_momentum t)) \<and>
     set (dkeys (ls_cooldown s)) \<subseteq> set (dkeys (ls_cooldown t)) \<and>
     set (dkeys (ls_sleeves s)) \<subseteq> set (dkeys (ls_sleeves t)) \<and>
     set (dkeys (ls_snapshots s)) \<subseteq> set (dkeys (ls_snapshots t))"

definition good_targets :: "lowering_state \<Rightarrow> lowered_targets \<Rightarrow> bool" where
  "good_targets st t \<longleftrightarrow>
     set (map sl_id (lt_sleeves t)) \<subseteq> set (dkeys (ls_sleeves st)) \<and>
     set (map sa_snapshot_id (lt_snapshot_allocations t)) \<subseteq> set (dkeys (ls_snapshots st)) \<and>
     set (lt_exit_state_ids t) \<subseteq> set (dkeys (ls_cooldown st))"

definition good_context :: "string set \<Rightarrow> lowering_context \<Rightarrow> bool" where
  "good_context A cx \<longleftrightarrow>
     (\<forall>i symbols. Option.bind (lx_body cx i) market_symbols = Some symbols \<longrightarrow> set symbols \<subseteq> A) \<and>
     (\<forall>i c. dget (lx_calendars cx) i = Some c \<longrightarrow> set (tc_symbols c) \<subseteq> A) \<and>
     (\<forall>i b. lx_body cx i = Some b \<longrightarrow> set (used_assets b) \<subseteq> A)"

lemma good_context_UNIV [simp]: "good_context UNIV cx"
  by (simp add: good_context_def)

lemma good_empty [simp]: "good_state A empty_lowering"
  by (simp add: good_state_def empty_lowering_def)

lemma only_grows_refl [simp]: "only_grows s s"
  by (simp add: only_grows_def)

lemma only_grows_trans: "only_grows r s \<Longrightarrow> only_grows s t \<Longrightarrow> only_grows r t"
  by (auto simp: only_grows_def)

lemma good_targets_grows: "good_targets s t \<Longrightarrow> only_grows s u \<Longrightarrow> good_targets u t"
  by (auto simp: good_targets_def only_grows_def)

lemma good_no_targets [simp]: "good_targets s no_targets"
  by (simp add: good_targets_def no_targets_def)

text \<open>Storing one entry keeps the invariant.\<close>

lemma good_sleeve_grows: "good_sleeve A s k v \<Longrightarrow> only_grows s t \<Longrightarrow> good_sleeve A t k v"
  by (auto simp: good_sleeve_def only_grows_def)

lemma store_sleeve_good:
  assumes "good_state A st" and "good_sleeve A st (sl_id s) s"
  shows "good_state A (store_sleeve s st)" and "only_grows st (store_sleeve s st)"
    and "dget (ls_sleeves (store_sleeve s st)) (sl_id s) = Some s"
proof -
  show g: "only_grows st (store_sleeve s st)" by (auto simp: only_grows_def store_sleeve_def set_dkeys_dset)
  have "entries_ok (good_sleeve A st) (dset (sl_id s) s (ls_sleeves st))"
    using assms by (intro entries_ok_dset) (auto simp: good_state_def)
  then have "entries_ok (good_sleeve A (store_sleeve s st)) (dset (sl_id s) s (ls_sleeves st))"
    by (rule entries_ok_mono) (rule good_sleeve_grows [OF _ g])
  moreover have "entries_ok (\<lambda>k t. ts_id t = k \<and> set (ts_sleeve_ids t) \<subseteq> set (dkeys (ls_sleeves (store_sleeve s st))))
      (ls_snapshots st)"
    using assms(1) by (auto simp: good_state_def store_sleeve_def set_dkeys_dset elim!: entries_ok_mono)
  ultimately show "good_state A (store_sleeve s st)" using assms(1) by (simp add: good_state_def store_sleeve_def)
  show "dget (ls_sleeves (store_sleeve s st)) (sl_id s) = Some s" by (simp add: store_sleeve_def)
qed

lemma good_state_sleeves:
  assumes "good_state A st" and "only_grows st t" and "ls_sleeves t = ls_sleeves st"
  shows "entries_ok (good_sleeve A t) (ls_sleeves t)"
  using assms by (auto simp: good_state_def elim!: entries_ok_mono intro: good_sleeve_grows)

lemma store_selection_good:
  assumes "good_state A st" and "set symbols \<subseteq> A"
    and t_def: "t = st\<lparr>ls_selections := dset i \<lparr>rs_id = i, rs_component = c, rs_symbols = symbols, rs_count = n,
                     rs_resample = r, rs_bindings = b\<rparr> (ls_selections st)\<rparr>"
  shows "good_state A t \<and> only_grows st t"
proof -
  have g: "only_grows st t" by (auto simp: t_def only_grows_def set_dkeys_dset)
  have "entries_ok (good_sleeve A t) (ls_sleeves t)"
    by (rule good_state_sleeves [OF assms(1) g]) (simp add: t_def)
  then show ?thesis using assms(1,2) g by (simp add: good_state_def t_def entries_ok_dset)
qed

lemma good_context_symbols:
  "good_context A cx \<Longrightarrow> Option.bind (lx_body cx i) market_symbols = Some symbols \<Longrightarrow> set symbols \<subseteq> A"
  by (simp add: good_context_def)

lemma momentum_chain_source:
  assumes "momentum_chain_of cx ranked = Some chain"
  shows "\<exists>assets. Option.bind (lx_body cx assets) market_symbols = Some (mc_symbols chain)"
  using assms unfolding momentum_chain_of_def
  by (auto simp: Let_def split: option.splits ir_body.splits prod.splits)

lemma momentum_chain_symbols:
  assumes "momentum_chain_of cx ranked = Some chain" and "good_context A cx"
  shows "set (mc_symbols chain) \<subseteq> A"
  using momentum_chain_source [OF assms(1)] good_context_symbols [OF assms(2)] by blast

lemma lower_momentum_good:
  assumes "lower_momentum_selection cx tc ranked n sh i c st = Inr (symbols, t)" and "good_state A st" and "good_context A cx"
    and "set_option c \<subseteq> set (dkeys (ls_cooldown st))"
  shows "good_state A t \<and> only_grows st t \<and> set symbols \<subseteq> A \<and> i \<in> set (dkeys (ls_momentum t)) \<and> ls_sleeves t = ls_sleeves st"
proof -
  from assms(1) obtain chain history where
    chain: "momentum_chain_of cx ranked = Some chain" and symbols: "symbols = mc_symbols chain"
    and t: "t = st\<lparr>ls_momentum := dset i (momentum_selection cx tc n sh i c chain history) (ls_momentum st)\<rparr>"
    by (auto simp: lower_momentum_selection_def split: option.splits)
  have A: "set symbols \<subseteq> A" using momentum_chain_symbols [OF chain assms(3)] symbols by simp
  have g: "only_grows st t" by (auto simp: t only_grows_def set_dkeys_dset)
  have "entries_ok (good_sleeve A t) (ls_sleeves t)" by (rule good_state_sleeves [OF assms(2) g]) (simp add: t)
  moreover have "entries_ok (\<lambda>k m. ms_id m = k \<and> set (ms_symbols m) \<subseteq> A \<and>
      set_option (ms_cooldown_state m) \<subseteq> set (dkeys (ls_cooldown t))) (ls_momentum t)"
    using assms(2,4) A symbols by (auto simp: t good_state_def momentum_selection_def Let_def intro!: entries_ok_dset)
  ultimately show ?thesis using assms(2) A g by (auto simp: good_state_def t set_dkeys_dset)
qed

text \<open>A gated selection is stored before the cooldown state it names; the two stores commute.\<close>

lemma lower_momentum_cooldown:
  assumes "lower_momentum_selection cx tc ranked n sh i c st = Inr (symbols, t)"
  shows "lower_momentum_selection cx tc ranked n sh i c (st\<lparr>ls_cooldown := d\<rparr>) = Inr (symbols, t\<lparr>ls_cooldown := d\<rparr>)"
    and "ls_cooldown t = ls_cooldown st"
  using assms by (auto simp: lower_momentum_selection_def split: option.splits)

lemma lower_momentum_symbols:
  assumes "lower_momentum_selection cx tc ranked n sh i c st = Inr (symbols, t)" and "good_context A cx"
  shows "set symbols \<subseteq> A"
  using assms(1) momentum_chain_symbols [OF _ assms(2)]
  by (auto simp: lower_momentum_selection_def split: option.splits)

lemma store_cooldown_good:
  assumes "good_state A st" and "cs_id c = s" and "set (cs_symbols c) \<subseteq> A" and "cs_calendar_symbol c \<in> A"
  shows "good_state A (st\<lparr>ls_cooldown := dset s c (ls_cooldown st)\<rparr>) \<and> only_grows st (st\<lparr>ls_cooldown := dset s c (ls_cooldown st)\<rparr>)"
proof -
  let ?t = "st\<lparr>ls_cooldown := dset s c (ls_cooldown st)\<rparr>"
  have g: "only_grows st ?t" by (auto simp: only_grows_def set_dkeys_dset)
  have "entries_ok (good_sleeve A ?t) (ls_sleeves ?t)" by (rule good_state_sleeves [OF assms(1) g]) simp
  moreover have "entries_ok (\<lambda>k m. ms_id m = k \<and> set (ms_symbols m) \<subseteq> A \<and>
      set_option (ms_cooldown_state m) \<subseteq> set (dkeys (ls_cooldown ?t))) (ls_momentum ?t)"
    using assms(1) by (auto simp: good_state_def set_dkeys_dset elim!: entries_ok_mono)
  ultimately show ?thesis using assms g by (simp add: good_state_def entries_ok_dset)
qed

lemma lower_sleeve_assets_good:
  assumes "lower_sleeve_assets cx i st = Inr ((symbols, selection_id), t)" and "good_state A st" and "good_context A cx"
  shows "good_state A t \<and> only_grows st t \<and> set symbols \<subseteq> A \<and>
    (\<forall>j. selection_id = Some j \<longrightarrow> j \<in> set (dkeys (ls_selections t)) \<union> set (dkeys (ls_momentum t))) \<and>
    ls_sleeves t = ls_sleeves st"
proof -
  obtain b where b: "lx_body cx i = Some b" using assms(1) by (auto simp: lower_sleeve_assets_def split: option.splits)
  have market: "set s \<subseteq> A" if "lx_body cx j = Some c" "market_symbols c = Some s" for j c s
    by (rule good_context_symbols [OF assms(3), of j]) (simp add: that)
  show ?thesis
  proof (cases b)
    case (Random_n_op source n r bs)
    with assms(1) b obtain s where s: "Option.bind (lx_body cx source) market_symbols = Some s"
      and out: "symbols = s" "selection_id = Some i"
      and t: "t = st\<lparr>ls_selections := dset i \<lparr>rs_id = i, rs_component = lx_component cx i, rs_symbols = s, rs_count = n,
                 rs_resample = r, rs_bindings = bs\<rparr> (ls_selections st)\<rparr>"
      by (auto simp: lower_sleeve_assets_def split: option.splits)
    have A: "set s \<subseteq> A" using s assms(3) by (simp add: good_context_def)
    show ?thesis using store_selection_good [OF assms(2) A t] A out by (simp add: t set_dkeys_dset)
  next
    case (Top_n_op ranked n sh)
    with assms(1) b have "lower_momentum_selection cx (lx_component cx i) ranked n sh i None st = Inr (symbols, t)"
      and "selection_id = Some i"
      by (auto simp: lower_sleeve_assets_def ebind_eq_Inr)
    with lower_momentum_good [OF this(1) assms(2,3)] show ?thesis by auto
  next
    case (Elapsed_sessions_gate_op candidates s minimum)
    with assms(1) b obtain ranked n sh where top: "lx_body cx candidates = Some (Top_n_op ranked n sh)"
      by (auto simp: lower_sleeve_assets_def split: option.split_asm ir_body.split_asm)
    with assms(1) b Elapsed_sessions_gate_op obtain symbols' u where
      m': "lower_momentum_selection cx (lx_component cx candidates) ranked n sh i (Some s) st = Inr (symbols', u)"
      by (auto simp: lower_sleeve_assets_def ebind_eq_Inr)
    with assms(1) b Elapsed_sessions_gate_op top obtain calendar c cs where
      cal: "dget (lx_calendars cx) (lx_component cx i) = Some calendar" "tc_symbols calendar = c # cs"
      by (auto simp: lower_sleeve_assets_def split: option.split_asm list.split_asm)
    have m: "lower_momentum_selection cx (lx_component cx candidates) ranked n sh i (Some s) st = Inr (symbols, u)"
      and out: "selection_id = Some i"
      and t: "t = u\<lparr>ls_cooldown := dset s \<lparr>cs_id = s, cs_component = lx_component cx i, cs_symbols = symbols,
                 cs_required_sessions = minimum, cs_calendar_symbol = c\<rparr> (ls_cooldown u)\<rparr>"
      using assms(1) b Elapsed_sessions_gate_op top m' cal by (auto simp: lower_sleeve_assets_def)
    let ?c = "\<lparr>cs_id = s, cs_component = lx_component cx i, cs_symbols = symbols,
                 cs_required_sessions = minimum, cs_calendar_symbol = c\<rparr>"
    let ?st = "st\<lparr>ls_cooldown := dset s ?c (ls_cooldown st)\<rparr>"
    have "set (tc_symbols calendar) \<subseteq> A" using assms(3) cal(1) by (auto simp: good_context_def)
    then have "c \<in> A" using cal(2) by simp
    then have st: "good_state A ?st \<and> only_grows st ?st"
      by (intro store_cooldown_good [OF assms(2)]) (use lower_momentum_symbols [OF m assms(3)] in simp_all)
    have m2: "lower_momentum_selection cx (lx_component cx candidates) ranked n sh i (Some s) ?st = Inr (symbols, t)"
      using lower_momentum_cooldown [OF m] by (simp add: t)
    have "good_state A t \<and> only_grows ?st t \<and> set symbols \<subseteq> A \<and> i \<in> set (dkeys (ls_momentum t)) \<and> ls_sleeves t = ls_sleeves ?st"
      by (rule lower_momentum_good [OF m2 _ assms(3)]) (use st in \<open>auto simp: set_dkeys_dset\<close>)
    with st only_grows_trans out show ?thesis by auto
  qed (use assms(1,2) b market [OF b] in \<open>auto simp: lower_sleeve_assets_def market_symbols_def split: option.splits\<close>)
qed

lemma lower_sleeve_good:
  assumes "lower_sleeve cx i st = Inr (s, t)" and "good_state A st" and "good_context A cx"
  shows "good_state A t \<and> only_grows st t \<and> good_sleeve A t i s"
proof -
  from assms(1) obtain assets w symbols selection_id u where
    a: "lower_sleeve_assets cx assets st = Inr ((symbols, selection_id), u)"
    and s: "s = plain_sleeve i w symbols selection_id" and t: "t = store_sleeve s u"
    by (auto simp: lower_sleeve_def ebind_eq_Inr Let_def split: option.splits ir_body.splits)
  have u: "good_state A u" "only_grows st u" "set symbols \<subseteq> A"
    "\<forall>j. selection_id = Some j \<longrightarrow> j \<in> set (dkeys (ls_selections u)) \<union> set (dkeys (ls_momentum u))"
    using lower_sleeve_assets_good [OF a assms(2,3)] by auto
  have s_ok: "good_sleeve A u (sl_id s) s" and i: "sl_id s = i"
    using u by (auto simp: s good_sleeve_def plain_sleeve_def)
  from store_sleeve_good [OF u(1) s_ok] u(2) only_grows_trans good_sleeve_grows [OF s_ok] show ?thesis
    by (auto simp: t i)
qed

lemma scaled_sleeve_good: "good_sleeve A st k s \<Longrightarrow> good_sleeve A st k (scaled_sleeve scale source s)"
  by (auto simp: good_sleeve_def scaled_sleeve_def)

lemma store_one_good:
  assumes "good_state A st" and "good_sleeve A st k s"
  shows "good_state A (store_sleeve s st) \<and> only_grows st (store_sleeve s st) \<and>
    good_targets (store_sleeve s st) (no_targets\<lparr>lt_sleeves := [s]\<rparr>)"
proof -
  have k: "sl_id s = k" using assms(2) by (simp add: good_sleeve_def)
  show ?thesis using store_sleeve_good [OF assms(1), of s] assms(2)
    by (simp add: k good_targets_def no_targets_def store_sleeve_def set_dkeys_dset)
qed

lemma lower_fallback_good:
  assumes "lower_fallback cx c i j scale source st = Inr (r, t)" and "good_state A st" and "good_context A cx"
  shows "good_state A t \<and> only_grows st t \<and> good_targets t r"
proof -
  from assms(1) obtain fallback_assets symbol local u lowered where
    f: "Option.bind (lx_body cx fallback_assets) market_symbols = Some [symbol]"
    and l: "lower_sleeve cx i st = Inr (local, u)"
    and lowered: "lowered = (scaled_sleeve scale source local)\<lparr>sl_fallback_component := Some c, sl_fallback_symbols := [symbol]\<rparr>"
    and r: "r = no_targets\<lparr>lt_sleeves := [lowered]\<rparr>" and t: "t = store_sleeve lowered u"
    by (auto simp: lower_fallback_def ebind_eq_Inr Let_def split: option.splits ir_body.splits list.splits if_splits)
  have u: "good_state A u" "only_grows st u" "good_sleeve A u i local" using lower_sleeve_good [OF l assms(2,3)] by auto
  have "set [symbol] \<subseteq> A" by (rule good_context_symbols [OF assms(3) f])
  with scaled_sleeve_good [OF u(3)] have "good_sleeve A u i lowered" by (auto simp: lowered good_sleeve_def)
  from store_one_good [OF u(1) this] u(2) only_grows_trans show ?thesis by (auto simp: r t)
qed

lemma lower_snapshot_good:
  assumes "lower_snapshot_with lw cx i targets st = Inr (s, t)" and "good_state A st"
    and lw: "\<And>r u. lw targets st = Inr (r, u) \<Longrightarrow> good_state A u \<and> only_grows st u \<and> good_targets u r"
  shows "good_state A t \<and> only_grows st t \<and> ts_id s = i \<and> i \<in> set (dkeys (ls_snapshots t))"
proof (cases "dget (ls_snapshots st) i")
  case (Some existing)
  then have "i \<in> set (dkeys (ls_snapshots st))" using dhas_iff [of "ls_snapshots st" i] by (simp add: dhas_def dget_def)
  with Some assms(1,2) show ?thesis by (auto simp: lower_snapshot_with_def good_state_def entries_ok_def)
next
  case None
  with assms(1) obtain r u where r: "lw targets st = Inr (r, u)"
    and s: "s = \<lparr>ts_id = i, ts_sleeve_ids = map sl_id (lt_sleeves r), ts_source_sleeve = lx_component cx i\<rparr>"
    and t: "t = u\<lparr>ls_snapshots := dset i s (ls_snapshots u)\<rparr>"
    by (auto simp: lower_snapshot_with_def ebind_eq_Inr Let_def split: if_splits)
  have u: "good_state A u" "only_grows st u" "good_targets u r" using lw [OF r] by auto
  have g: "only_grows u t" by (auto simp: t only_grows_def set_dkeys_dset)
  have "entries_ok (good_sleeve A t) (ls_sleeves t)" by (rule good_state_sleeves [OF u(1) g]) (simp add: t)
  then have "good_state A t" using u(1,3)
    by (auto simp: good_state_def good_targets_def t s intro!: entries_ok_dset)
  with u(2) g only_grows_trans show ?thesis by (auto simp: s t set_dkeys_dset)
qed

lemma lower_targets_good:
  assumes "lower_targets fuel cx i scale source st = Inr (r, t)" and "good_state A st" and "good_context A cx"
  shows "good_state A t \<and> only_grows st t \<and> good_targets t r"
  using assms(1,2)
proof (induction fuel arbitrary: i scale source st r t)
  case (Suc fuel)
  obtain b where b: "lx_body cx i = Some b" using Suc.prems(1) by (auto split: option.splits)
  show ?case
  proof (cases b)
    case (Merge_targets_op left right)
    with Suc.prems(1) b obtain x y u where
      x: "lower_targets fuel cx left scale source st = Inr (x, u)"
      and y: "lower_targets fuel cx right scale source u = Inr (y, t)" and r: "r = merged x y"
      by (auto simp: ebind_eq_Inr)
    have u: "good_state A u" "only_grows st u" "good_targets u x" using Suc.IH [OF x Suc.prems(2)] by auto
    have "good_state A t" "only_grows u t" "good_targets t y" using Suc.IH [OF y u(1)] by auto
    with u only_grows_trans good_targets_grows [OF u(3)] show ?thesis by (auto simp: r merged_def good_targets_def)
  next
    case (Scale_targets_op targets factor)
    show ?thesis
    proof (cases "\<exists>k. lx_body cx targets = Some (Retain_targets_op k)")
      case True
      then obtain k where k: "lx_body cx targets = Some (Retain_targets_op k)" ..
      with Suc.prems(1) b Scale_targets_op obtain s where
        s: "lower_snapshot_with (\<lambda>j. lower_targets fuel cx j 1 None) cx targets k st = Inr (s, t)"
        and r: "map sa_snapshot_id (lt_snapshot_allocations r) = [ts_id s]" "lt_sleeves r = []" "lt_exit_state_ids r = []"
        by (auto simp: ebind_eq_Inr no_targets_def split: if_splits)
      have "good_state A t \<and> only_grows st t \<and> ts_id s = targets \<and> targets \<in> set (dkeys (ls_snapshots t))"
        by (rule lower_snapshot_good [OF s Suc.prems(2)]) (rule Suc.IH [OF _ Suc.prems(2)])
      with r show ?thesis by (simp add: good_targets_def)
    next
      case False
      with Suc.prems(1) b Scale_targets_op
      have "lower_targets fuel cx targets (dmul scale factor) (Some (lx_component cx i)) st = Inr (r, t)"
        by (auto split: if_splits option.splits ir_body.splits)
      then show ?thesis by (rule Suc.IH [OF _ Suc.prems(2)])
    qed
  next
    case (Equal_weight_op assets w)
    with Suc.prems(1) b obtain s u where
      s: "lower_sleeve cx i st = Inr (s, u)" and r: "r = no_targets\<lparr>lt_sleeves := [scaled_sleeve scale source s]\<rparr>"
      and t: "t = store_sleeve (scaled_sleeve scale source s) u"
      by (auto simp: ebind_eq_Inr Let_def)
    have u: "good_state A u" "only_grows st u" "good_sleeve A u i s" using lower_sleeve_good [OF s Suc.prems(2) assms(3)] by auto
    from store_one_good [OF u(1) scaled_sleeve_good [OF u(3)]] u(2) only_grows_trans show ?thesis by (auto simp: r t)
  next
    case (First_non_empty_targets_op primary fallback)
    with Suc.prems(1) b show ?thesis using lower_fallback_good [OF _ Suc.prems(2) assms(3)] by simp
  next
    case (Observe_target_exits_op targets s)
    with Suc.prems(1) b obtain x where x: "lower_targets fuel cx targets scale source st = Inr (x, t)"
      and s: "dhas (ls_cooldown t) s" and r: "r = x\<lparr>lt_exit_state_ids := lt_exit_state_ids x @ [s]\<rparr>"
      by (auto simp: ebind_eq_Inr split: if_splits)
    show ?thesis using Suc.IH [OF x Suc.prems(2)] s by (simp add: r good_targets_def dhas_iff)
  qed (use Suc.prems(1) b in auto)
qed simp

end
