(* ===== verification/Plan_Normalization.thy ===== *)
theory Plan_Normalization
  imports Lean_Plan
begin

text \<open>
  What \<open>normalize_lean_plan\<close> keeps: grouping equivalent events loses no scheduled rebalance or
  refresh, ids stay unique, and a normalised plan is a fixed point, which matters because the
  code generator normalises the plan it is given once more.
\<close>

subsection \<open>Sorting\<close>

lemma sort_key_idem [simp]: "sort_key f (sort_key f xs) = sort_key f xs"
  by (rule sort_key_id_if_sorted) simp

lemma distinct_map_sort_key [simp]: "distinct (map f (sort_key g xs)) \<longleftrightarrow> distinct (map f xs)"
  by (simp add: distinct_map)

lemma set_sorted_set [simp]: "set (sorted_set xs) = set xs"
  by (simp add: sorted_set_def)

subsection \<open>Subscriptions\<close>

lemma set_dset: "distinct (dkeys d) \<Longrightarrow> set (dset k v d) = insert (k, v) {(l, w) \<in> set d. l \<noteq> k}"
  unfolding dkeys_def dset_def
  by (induction d) (auto simp: image_iff split: if_splits)

text \<open>The table of subscriptions is keyed by symbol.\<close>

definition keyed_by_symbol :: "(string, lean_subscription) dict \<Rightarrow> bool" where
  "keyed_by_symbol d \<longleftrightarrow> distinct (dkeys d) \<and> (\<forall>(k, s)\<in>set d. su_symbol s = k)"

lemma keyed_by_symbol_dset: "keyed_by_symbol d \<Longrightarrow> keyed_by_symbol (dset (su_symbol s) s d)"
  by (auto simp: keyed_by_symbol_def set_dset distinct_dkeys_dset)

lemma collect_subscriptions_keyed: "collect_subscriptions xs = Inr d \<Longrightarrow> keyed_by_symbol d"
  unfolding collect_subscriptions_def
  by (rule efold_invariant [where P = keyed_by_symbol])
    (auto simp: keyed_by_symbol_def [of "[]"] dkeys_def [of "[]"] keyed_by_symbol_dset split: option.splits if_splits)

lemma collect_subscriptions_distinct:
  assumes "distinct (map su_symbol xs)"
  shows "collect_subscriptions xs = Inr (map (\<lambda>s. (su_symbol s, s)) xs)"
proof -
  let ?f = "\<lambda>item d. case dget d (su_symbol item) of
         None \<Rightarrow> Inr (dset (su_symbol item) item d)
       | Some existing \<Rightarrow>
           if existing \<noteq> item then Inl (Value_error (''conflicting subscription for '' @ su_symbol item))
           else Inr (dset (su_symbol item) item d)"
  have "efold ?f ys d = Inr (d @ map (\<lambda>s. (su_symbol s, s)) ys)"
    if "distinct (dkeys d @ map su_symbol ys)" for ys d
    using that
  proof (induction ys arbitrary: d)
    case (Cons y ys)
    then have "su_symbol y \<notin> set (dkeys d)" by simp
    then have "dget d (su_symbol y) = None" "dset (su_symbol y) y d = d @ [(su_symbol y, y)]"
      by (auto simp: dget_def dkeys_def map_of_eq_None_iff dset_absent)
    moreover have "distinct (dkeys (d @ [(su_symbol y, y)]) @ map su_symbol ys)"
      using Cons.prems by (auto simp: dkeys_def)
    ultimately show ?case using Cons.IH [of "d @ [(su_symbol y, y)]"] by simp
  qed simp
  from this [of "[]" xs] assms show ?thesis by (simp add: collect_subscriptions_def dkeys_def)
qed

lemma subscriptions_fixed:
  assumes "keyed_by_symbol d"
  shows "collect_subscriptions (map snd (sort_key fst d)) = Inr (sort_key fst d)"
proof -
  have pairs: "map (\<lambda>s. (su_symbol s, s)) (map snd (sort_key fst d)) = sort_key fst d"
    using assms by (auto simp: keyed_by_symbol_def intro!: map_idI)
  then have "map su_symbol (map snd (sort_key fst d)) = map fst (sort_key fst d)"
    by (metis (no_types, lifting) comp_apply fst_conv list.map_comp map_eq_conv)
  moreover have "distinct (map fst (sort_key fst d))"
    using assms by (simp add: keyed_by_symbol_def dkeys_def)
  ultimately have "distinct (map su_symbol (map snd (sort_key fst d)))" by (simp only:)
  from collect_subscriptions_distinct [OF this] pairs show ?thesis by simp
qed

subsection \<open>Grouping\<close>

text \<open>Who is due under a key.\<close>

definition due :: "('a lean_period_event_scheme \<Rightarrow> string list) \<Rightarrow> 'a lean_period_event_scheme set \<Rightarrow> (event_key \<times> string) set" where
  "due ids es = {(event_key e, i) |e i. e \<in> es \<and> i \<in> set (ids e)}"

definition keyed_events :: "(event_key, 'a lean_period_event_scheme) dict \<Rightarrow> bool" where
  "keyed_events d \<longleftrightarrow> distinct (dkeys d) \<and> (\<forall>(k, e)\<in>set d. event_key e = k)"

lemma event_key_merge [simp]: "event_key (merge_events a b) = event_key a"
  by (simp add: event_key_def merge_events_def)

lemma ev_id_merge [simp]: "ev_id (merge_events a b) = ev_id a"
  by (simp add: merge_events_def)

lemma keyed_dset:
  assumes "keyed_events d" and "event_key e = k"
  shows "keyed_events (dset k e d)"
  using assms by (auto simp: keyed_events_def set_dset distinct_dkeys_dset)

lemma keyed_lookup: "keyed_events d \<Longrightarrow> dget d k = Some e \<Longrightarrow> event_key e = k"
  by (auto simp: keyed_events_def dget_def dest: map_of_SomeD)

lemma keyed_group: "keyed_events d \<Longrightarrow> keyed_events (group_event d e)"
  by (auto simp: group_event_def intro!: keyed_dset dest: keyed_lookup split: option.splits)

lemma dget_members: "distinct (dkeys d) \<Longrightarrow> dget d k = Some e \<longleftrightarrow> (k, e) \<in> set d"
  by (simp add: dget_def dkeys_def)

lemma due_UN: "due ids A = (\<Union>e\<in>A. Pair (event_key e) ` set (ids e))"
  by (auto simp: due_def)

text \<open>Grouping one event adds what it schedules under its key, and nothing else.\<close>

lemma group_event_due:
  assumes d: "keyed_events d" and ids: "ids = ev_rebalance_ids \<or> ids = ev_refresh_ids"
  shows "due ids (set (dvalues (group_event d e))) = due ids (set (dvalues d)) \<union> due ids {e}"
proof (cases "dget d (event_key e)")
  case None
  then have "event_key e \<notin> set (dkeys d)" by (simp add: dget_def dkeys_def map_of_eq_None_iff)
  with None have "group_event d e = d @ [(event_key e, e)]" by (simp add: group_event_def dset_absent)
  then show ?thesis by (simp add: dvalues_def due_UN Un_commute)
next
  case (Some old)
  let ?m = "merge_events old e"
  have old: "event_key old = event_key e" "(event_key e, old) \<in> set d"
    using Some keyed_lookup [OF d Some] d by (auto simp: dget_members keyed_events_def)
  have "set (ids ?m) = set (ids old) \<union> set (ids e)" using ids by (auto simp: merge_events_def)
  then have m: "due ids {?m} = due ids {old} \<union> due ids {e}" by (simp add: due_UN old(1) image_Un)
  have "set (group_event d e) = insert (event_key e, ?m) {(l, w) \<in> set d. l \<noteq> event_key e}"
    using Some d by (simp add: group_event_def set_dset keyed_events_def)
  then have "set (dvalues (group_event d e)) = insert ?m (snd ` {(l, w) \<in> set d. l \<noteq> event_key e})"
    by (simp add: dvalues_def)
  moreover have "{(l, w) \<in> set d. l = event_key e} = {(event_key e, old)}"
    using d old(2) by (auto simp: keyed_events_def dkeys_def eq_key_imp_eq_value)
  then have "set (dvalues d) = insert old (snd ` {(l, w) \<in> set d. l \<noteq> event_key e})"
    using old(2) by (force simp: dvalues_def)
  ultimately show ?thesis using m by (auto simp: due_UN)
qed

lemma fold_groups:
  assumes "keyed_events d"
  shows "keyed_events (foldl group_event d es)"
    and "ids = ev_rebalance_ids \<or> ids = ev_refresh_ids \<Longrightarrow>
      due ids (set (dvalues (foldl group_event d es))) = due ids (set (dvalues d)) \<union> due ids (set es)"
  using assms
proof (induction es arbitrary: d)
  case Nil
  { case 1 then show ?case by simp next case 2 then show ?case by (simp add: due_def) }
next
  case (Cons e es)
  {
    case 1
    then show ?case using Cons.IH(1) [OF keyed_group [OF 1]] by simp
  next
    case 2
    then show ?case using Cons.IH(2) [OF 2(1) keyed_group [OF 2(2)]] group_event_due [OF 2(2,1)]
      by (auto simp: due_UN)
  }
qed

lemma keyed_Nil [simp]: "keyed_events []"
  by (simp add: keyed_events_def dkeys_def)

lemma group_events_due:
  assumes "ids = ev_rebalance_ids \<or> ids = ev_refresh_ids"
  shows "due ids (set (group_events es)) = due ids (set es)"
  unfolding group_events_def using fold_groups(2) [OF keyed_Nil assms, of "sort_key ev_id es"]
  by (simp add: dvalues_def due_def)

text \<open>Every group stands for one of its members.\<close>

definition stands_for :: "'a lean_period_event_scheme \<Rightarrow> 'a lean_period_event_scheme \<Rightarrow> bool" where
  "stands_for g e \<longleftrightarrow>
     ev_id g = ev_id e \<and> event_key g = event_key e \<and> lean_period_event.more g = lean_period_event.more e"

lemma stands_for_merge: "stands_for a e \<Longrightarrow> stands_for (merge_events a b) e"
  by (simp add: stands_for_def event_key_def merge_events_def)

lemma fold_groups_stand:
  assumes "keyed_events d" and "\<forall>g\<in>set (dvalues d). \<exists>e\<in>E. stands_for g e" and "set es \<subseteq> E"
  shows "\<forall>g\<in>set (dvalues (foldl group_event d es)). \<exists>e\<in>E. stands_for g e"
  using assms
proof (induction es arbitrary: d)
  case (Cons e es)
  have "\<forall>g\<in>set (dvalues (group_event d e)). \<exists>e\<in>E. stands_for g e"
  proof (cases "dget d (event_key e)")
    case None
    then have "set (dvalues (group_event d e)) \<subseteq> insert e (set (dvalues d))"
      using Cons.prems(1) by (auto simp: group_event_def dvalues_def set_dset keyed_events_def)
    moreover have "stands_for e e" by (simp add: stands_for_def)
    ultimately show ?thesis using Cons.prems(2,3) by auto
  next
    case (Some old)
    then have "old \<in> set (dvalues d)"
      using Cons.prems(1) by (force simp: dget_members keyed_events_def dvalues_def)
    moreover have "set (dvalues (group_event d e)) \<subseteq> insert (merge_events old e) (set (dvalues d))"
      using Some Cons.prems(1) by (auto simp: group_event_def dvalues_def set_dset keyed_events_def)
    ultimately show ?thesis using Cons.prems(2) stands_for_merge by blast
  qed
  then show ?case using Cons.IH [OF keyed_group [OF Cons.prems(1)]] Cons.prems(3) by simp
qed simp

lemma group_events_stand: "g \<in> set (group_events es) \<Longrightarrow> \<exists>e\<in>set es. stands_for g e"
  using fold_groups_stand [OF keyed_Nil, of "set es" "sort_key ev_id es"] by (auto simp: group_events_def dvalues_def)

lemma group_events_keys: "distinct (map event_key (group_events es))"
proof -
  have "keyed_events (foldl group_event [] (sort_key ev_id es))" by (rule fold_groups(1)) simp
  moreover from this have "map event_key (group_events es) = dkeys (foldl group_event [] (sort_key ev_id es))"
    by (auto simp: group_events_def dvalues_def dkeys_def keyed_events_def)
  ultimately show ?thesis by (simp add: keyed_events_def)
qed

lemma group_events_ids:
  assumes "distinct (map ev_id es)"
  shows "distinct (map ev_id (group_events es))"
proof -
  have "g = h" if g: "g \<in> set (group_events es)" and h: "h \<in> set (group_events es)" and i: "ev_id g = ev_id h" for g h
  proof -
    from group_events_stand [OF g] group_events_stand [OF h] obtain a b where
      "a \<in> set es" "b \<in> set es" "stands_for g a" "stands_for h b" by blast
    moreover from this i assms have "a = b" by (auto simp: distinct_map stands_for_def dest: inj_onD)
    ultimately have "event_key g = event_key h" by (simp add: stands_for_def)
    with g h group_events_keys [of es] show ?thesis by (auto simp: distinct_map dest: inj_onD)
  qed
  then show ?thesis using group_events_keys [of es] by (auto simp: distinct_map inj_on_def)
qed

lemma group_events_fixed:
  assumes "distinct (map event_key es)" and "sort_key ev_id es = es"
  shows "group_events es = es"
proof -
  have "foldl group_event d xs = d @ map (\<lambda>e. (event_key e, e)) xs"
    if "distinct (dkeys d @ map event_key xs)" for d and xs :: "'a lean_period_event_scheme list"
    using that
  proof (induction xs arbitrary: d)
    case (Cons x xs)
    then have "event_key x \<notin> set (dkeys d)" by simp
    then have "dget d (event_key x) = None" by (simp add: dget_def dkeys_def map_of_eq_None_iff)
    then have "group_event d x = d @ [(event_key x, x)]"
      using \<open>event_key x \<notin> set (dkeys d)\<close> by (simp add: group_event_def dset_absent)
    with Cons.IH [of "d @ [(event_key x, x)]"] Cons.prems show ?case by (simp add: dkeys_def)
  qed simp
  from this [of "[]" es] assms show ?thesis by (simp add: group_events_def dkeys_def dvalues_def comp_def)
qed

subsection \<open>The whole plan\<close>

lemma check_plan_ids_Inr:
  "check_plan_ids p = Inr () \<longleftrightarrow>
     distinct (map rs_id (lp_random_selections p)) \<and> distinct (map ms_id (lp_momentum_selections p)) \<and>
     distinct (map sl_id (lp_target_sleeves p)) \<and> distinct (map rb_id (lp_rebalances p)) \<and>
     distinct (map ev_id (lp_monthly_events p)) \<and> distinct (map ts_id (lp_target_snapshots p)) \<and>
     distinct (map ev_id (lp_quarterly_events p)) \<and> distinct (map ev_id (lp_daily_events p)) \<and>
     distinct (map cs_id (lp_cooldown_states p)) \<and> check_temporal_ids (lp_temporal_program p) = Inr ()"
  by (auto simp: check_plan_ids_def unique_by_id_def ebind_eq_Inr)

text \<open>The fields of a normalised plan.\<close>

definition normal_form :: "(string, lean_subscription) dict \<Rightarrow> lean_plan \<Rightarrow> lean_plan" where
  "normal_form subscriptions p =
     p\<lparr>lp_subscriptions := map snd (sort_key fst subscriptions),
       lp_random_selections := sort_key rs_id (lp_random_selections p),
       lp_momentum_selections := sort_key ms_id (lp_momentum_selections p),
       lp_target_sleeves := sort_key sl_id (lp_target_sleeves p),
       lp_rebalances := sort_key rb_id (lp_rebalances p),
       lp_monthly_events := sort_key ev_id (group_events (lp_monthly_events p)),
       lp_target_snapshots := sort_key ts_id (lp_target_snapshots p),
       lp_quarterly_events := sort_key ev_id (group_events (lp_quarterly_events p)),
       lp_daily_events := sort_key ev_id (lp_daily_events p),
       lp_cooldown_states := sort_key cs_id (lp_cooldown_states p)\<rparr>"

lemma normalize_Inr:
  "normalize_lean_plan p = Inr q \<longleftrightarrow>
     (\<exists>d. collect_subscriptions (lp_subscriptions p) = Inr d \<and> check_plan_ids p = Inr () \<and> q = normal_form d p)"
  by (auto simp: normalize_lean_plan_def normal_form_def ebind_eq_Inr)

lemma grouped_sorted_fixed:
  "group_events (sort_key ev_id (group_events es)) = sort_key ev_id (group_events es)"
  by (rule group_events_fixed) (simp_all add: group_events_keys)

lemma normal_form_checks: "check_plan_ids p = Inr () \<Longrightarrow> check_plan_ids (normal_form d p) = Inr ()"
  by (simp add: check_plan_ids_Inr normal_form_def group_events_ids)

lemma normal_form_fixed: "normal_form (sort_key fst d) (normal_form d p) = normal_form d p"
  by (simp add: normal_form_def grouped_sorted_fixed)

lemma normalize_fixed:
  assumes "normalize_lean_plan p = Inr q"
  shows "normalize_lean_plan q = Inr q"
proof -
  from assms obtain d where d: "collect_subscriptions (lp_subscriptions p) = Inr d" "check_plan_ids p = Inr ()"
    and q: "q = normal_form d p" by (auto simp: normalize_Inr)
  have "lp_subscriptions q = map snd (sort_key fst d)" by (simp add: q normal_form_def)
  then have "collect_subscriptions (lp_subscriptions q) = Inr (sort_key fst d)"
    using subscriptions_fixed [OF collect_subscriptions_keyed [OF d(1)]] by simp
  then show ?thesis using normal_form_checks [OF d(2)] normal_form_fixed [of d p] q by (auto simp: normalize_Inr)
qed

end
