(* ===== verification/Lowering_Properties.thy ===== *)
theory Lowering_Properties
  imports Lowering_Invariants Plan_Normalization Generated_Temporal
begin

text \<open>
  Compiled plans: compilation of a well-formed IR always ends and fails with
  \<open>LeanLoweringError\<close> only, the references of a plan resolve inside the plan, the symbols it trades
  and its rebalances compare are subscribed, and the branches of its rebalances allocate the whole
  capital when no operation is shared.
\<close>

subsection \<open>Entrypoints keep the invariants\<close>

text \<open>
  The assets whose price decides a rebalance: those its comparisons name, and without any the
  asset of its predicate.
\<close>

definition rebalance_assets :: "lean_rebalance \<Rightarrow> string list" where
  "rebalance_assets r =
     (let found = concat (map comparison_closes (rb_condition r)) in
      if found \<noteq> [] then found
      else case rb_predicate r of None \<Rightarrow> [] | Some q \<Rightarrow> if pr_asset q \<noteq> [] then [pr_asset q] else [])"

definition good_rebalance :: "string set \<Rightarrow> lowering_state \<Rightarrow> string \<Rightarrow> lean_rebalance \<Rightarrow> bool" where
  "good_rebalance A st k r \<longleftrightarrow>
     set (rebalance_assets r) \<subseteq> A \<and>
     rb_id r = k \<and>
     set (rb_sleeve_ids r) \<union> set (rb_otherwise_sleeve_ids r) \<subseteq> set (dkeys (ls_sleeves st)) \<and>
     sa_snapshot_id ` (set (rb_snapshot_allocations r) \<union> set (rb_otherwise_snapshot_allocations r))
       \<subseteq> set (dkeys (ls_snapshots st)) \<and>
     set (rb_exit_state_ids r) \<union> set (rb_otherwise_exit_state_ids r) \<subseteq> set (dkeys (ls_cooldown st))"

definition good_entries :: "string set \<Rightarrow> lowering_context \<Rightarrow> entry_state \<Rightarrow> bool" where
  "good_entries A cx es \<longleftrightarrow>
     good_state A (es_lowering es) \<and>
     entries_ok (good_rebalance A (es_lowering es)) (es_rebalances es) \<and>
     entries_ok (\<lambda>k (refresh, rebalance).
       set refresh \<subseteq> set (dkeys (ls_snapshots (es_lowering es))) \<and> set rebalance \<subseteq> set (dkeys (es_rebalances es)))
       (es_actions es)"

lemma good_rebalance_grows: "good_rebalance A s k r \<Longrightarrow> only_grows s t \<Longrightarrow> good_rebalance A t k r"
  unfolding good_rebalance_def only_grows_def by blast

lemma good_entries_empty [simp]: "good_entries A cx empty_entry_state"
  by (simp add: good_entries_def empty_entry_state_def)

text \<open>A new lowering state, when it only grew.\<close>

lemma good_entries_grow:
  assumes "good_entries A cx es" and "good_state A t" and "only_grows (es_lowering es) t"
  shows "good_entries A cx (es\<lparr>es_lowering := t\<rparr>)"
  using assms unfolding good_entries_def
  by (auto elim!: entries_ok_mono intro: good_rebalance_grows) (auto simp: only_grows_def)

lemma good_no_actions:
  assumes "entries_ok (\<lambda>k (refresh, rebalance). set refresh \<subseteq> S \<and> set rebalance \<subseteq> R) d"
    and "dget_or d e ([], []) = (refresh, rebalance)"
  shows "set refresh \<subseteq> S \<and> set rebalance \<subseteq> R"
proof (cases "map_of d e")
  case None
  with assms(2) show ?thesis by (simp add: dget_or_def)
next
  case (Some v)
  with assms show ?thesis by (auto simp: dget_or_def entries_ok_def dget_def)
qed

lemma add_refresh_good:
  assumes "good_entries A cx es" and "i \<in> set (dkeys (ls_snapshots (es_lowering es)))"
  shows "good_entries A cx (add_refresh e i es)"
proof -
  obtain refresh rebalance where a: "dget_or (es_actions es) e ([], []) = (refresh, rebalance)" by force
  have "set refresh \<subseteq> set (dkeys (ls_snapshots (es_lowering es))) \<and> set rebalance \<subseteq> set (dkeys (es_rebalances es))"
    by (rule good_no_actions [OF _ a]) (use assms(1) in \<open>simp add: good_entries_def\<close>)
  with assms show ?thesis
    unfolding good_entries_def add_refresh_def a Let_def prod.case
    by (auto intro!: entries_ok_dset)
qed

lemma add_rebalance_good:
  assumes "good_entries A cx es" and "good_rebalance A (es_lowering es) (rb_id r) r"
  shows "good_entries A cx (add_rebalance e r es)"
proof -
  obtain refresh rebalance where a: "dget_or (es_actions es) e ([], []) = (refresh, rebalance)" by force
  have old: "set refresh \<subseteq> set (dkeys (ls_snapshots (es_lowering es))) \<and> set rebalance \<subseteq> set (dkeys (es_rebalances es))"
    by (rule good_no_actions [OF _ a]) (use assms(1) in \<open>simp add: good_entries_def\<close>)
  have "entries_ok (\<lambda>k (refresh, rebalance). set refresh \<subseteq> set (dkeys (ls_snapshots (es_lowering es))) \<and>
      set rebalance \<subseteq> set (dkeys (dset (rb_id r) r (es_rebalances es)))) (es_actions es)"
    using assms(1) by (auto simp: good_entries_def set_dkeys_dset elim!: entries_ok_mono)
  with assms old show ?thesis
    unfolding good_entries_def add_rebalance_def a Let_def prod.case
    by (auto simp: set_dkeys_dset intro!: entries_ok_dset)
qed

lemma lower_branches_good:
  assumes "lower_branches fuel cx targets otherwise st = Inr (branch, other, t)" and "good_state A st" and "good_context A cx"
  shows "good_state A t \<and> only_grows st t \<and> good_targets t branch \<and> good_targets t other"
proof -
  from assms(1) obtain u where
    branch: "lower_targets fuel cx targets 1 None st = Inr (branch, u)"
    and other: "(case otherwise of None \<Rightarrow> Inr (no_targets, u) | Some j \<Rightarrow> lower_targets fuel cx j 1 None u) = Inr (other, t)"
    by (auto simp: lower_branches_def ebind_eq_Inr)
  have u: "good_state A u" "only_grows st u" "good_targets u branch" using lower_targets_good [OF branch assms(2,3)] by auto
  have "good_state A t \<and> only_grows u t \<and> good_targets t other"
    using other u(1) lower_targets_good [OF _ u(1) assms(3)] by (cases otherwise) auto
  with u only_grows_trans good_targets_grows show ?thesis by blast
qed

lemma lowered_value_closes [simp]: "value_closes (lower_value v) = value_assets v"
  by (induction v rule: value_assets.induct) (auto split: option.splits)

lemma lowered_rebalance_assets:
  "set (rebalance_assets (rebalance_of i (Some q) cs branch other)) = set (predicate_assets (pr_asset q) cs)"
  "rebalance_assets (rebalance_of i None [] branch other) = []"
proof -
  have closes: "concat (map comparison_closes (map lower_comparison cs)) = concat (map value_assets (compared_values cs))"
    by (induction cs) (simp_all add: comparison_closes_def lower_comparison_def compared_values_def)
  have unique: "py_unique xs = [] \<longleftrightarrow> xs = []" for xs :: "string list" by (cases xs) simp_all
  show "set (rebalance_assets (rebalance_of i (Some q) cs branch other)) = set (predicate_assets (pr_asset q) cs)"
    using closes by (simp add: rebalance_assets_def rebalance_of_def predicate_assets_def Let_def unique)
  show "rebalance_assets (rebalance_of i None [] branch other) = []"
    by (simp add: rebalance_assets_def rebalance_of_def)
qed

lemma rebalance_of_good:
  "good_targets st branch \<Longrightarrow> good_targets st other \<Longrightarrow> set (rebalance_assets (rebalance_of i p cs branch other)) \<subseteq> A \<Longrightarrow>
   good_rebalance A st i (rebalance_of i p cs branch other)"
  by (auto simp: good_rebalance_def good_targets_def) (auto simp: rebalance_of_def)

lemma lower_rebalance_entry_good:
  assumes "lower_rebalance_entry fuel cx e i targets otherwise p cs es = Inr es'" and "good_entries A cx es" and "good_context A cx"
    and "\<And>branch other. set (rebalance_assets (rebalance_of i p cs branch other)) \<subseteq> A"
  shows "good_entries A cx es'"
proof -
  from assms(1) obtain branch other t where
    b: "lower_branches fuel cx targets otherwise (es_lowering es) = Inr (branch, other, t)"
    and es': "es' = add_rebalance e (rebalance_of i p cs branch other) (es\<lparr>es_lowering := t\<rparr>)"
    by (auto simp: lower_rebalance_entry_def ebind_eq_Inr)
  have "good_state A (es_lowering es)" using assms(2) by (simp add: good_entries_def)
  from lower_branches_good [OF b this assms(3)] have
    t: "good_state A t" "only_grows (es_lowering es) t" "good_targets t branch" "good_targets t other" by auto
  have "rb_id (rebalance_of i p cs branch other) = i" by (simp add: rebalance_of_def)
  with rebalance_of_good [OF t(3,4) assms(4)] show ?thesis
    unfolding es' by (intro add_rebalance_good good_entries_grow assms(2) t) simp
qed

lemma lower_entrypoint_good:
  assumes "lower_entrypoint fuel cx e es = Inr es'" and "good_entries A cx es" and "good_context A cx"
  shows "good_entries A cx es'"
proof -
  have st: "good_state A (es_lowering es)" using assms(2) by (simp add: good_entries_def)
  obtain b where b: "lx_body cx (en_target e) = Some b"
    using assms(1) by (auto simp: lower_entrypoint_def split: option.split_asm if_splits)
  show ?thesis
  proof (cases b)
    case (Retain_targets_op targets)
    with assms(1) b obtain s t where
      s: "lower_snapshot_with (\<lambda>j. lower_targets fuel cx j 1 None) cx (en_target e) targets (es_lowering es) = Inr (s, t)"
      and es': "es' = add_refresh (en_event e) (en_target e) (es\<lparr>es_lowering := t\<rparr>)"
      by (auto simp: lower_entrypoint_def ebind_eq_Inr split: option.split_asm if_splits)
    have "good_state A t \<and> only_grows (es_lowering es) t \<and> ts_id s = en_target e \<and> en_target e \<in> set (dkeys (ls_snapshots t))"
      by (rule lower_snapshot_good [OF s st]) (rule lower_targets_good [OF _ st assms(3)])
    then show ?thesis unfolding es' by (intro add_refresh_good good_entries_grow assms(2)) auto
  next
    case (Rebalance_op targets)
    with assms(1) b have "lower_rebalance_entry fuel cx (en_event e) (en_target e) targets None None [] es = Inr es'"
      by (auto simp: lower_entrypoint_def split: option.split_asm if_splits)
    then show ?thesis by (rule lower_rebalance_entry_good [OF _ assms(2,3)]) (simp add: lowered_rebalance_assets)
  next
    case (Predicate_rebalance_op asset lookback operator threshold targets otherwise comparisons)
    have "set (predicate_assets asset comparisons) \<subseteq> A"
      using assms(3) b unfolding good_context_def Predicate_rebalance_op by (force simp: used_assets_def)
    then have "good_entries A cx es'" if "lower_rebalance_entry fuel cx (en_event e) (en_target e) targets otherwise (Some q) comparisons es = Inr es'"
      and "pr_asset q = asset" for q
      by (intro lower_rebalance_entry_good [OF that(1) assms(2,3)]) (simp add: lowered_rebalance_assets that(2))
    with assms(1) b Predicate_rebalance_op show ?thesis
      by (auto simp: lower_entrypoint_def split: option.split_asm if_splits)
  qed (use assms b in \<open>auto simp: lower_entrypoint_def split: option.split_asm if_splits\<close>)
qed

lemma entrypoints_good:
  assumes "efold (lower_entrypoint fuel cx) es st = Inr t" and "good_entries A cx st" and "good_context A cx"
  shows "good_entries A cx t"
  using assms(1,2)
proof (induction es arbitrary: st)
  case (Cons e es)
  from Cons.prems(1) obtain u where "lower_entrypoint fuel cx e st = Inr u" "efold (lower_entrypoint fuel cx) es u = Inr t"
    by (auto simp: ebind_eq_Inr)
  with Cons.IH lower_entrypoint_good [OF _ Cons.prems(2) assms(3)] show ?case by blast
qed simp

subsection \<open>Plans are closed\<close>

definition event_closed :: "lean_plan \<Rightarrow> 'a lean_event_scheme \<Rightarrow> bool" where
  "event_closed p e \<longleftrightarrow>
     set (ev_rebalance_ids e) \<subseteq> set (map rb_id (lp_rebalances p)) \<and>
     set (ev_refresh_ids e) \<subseteq> set (map ts_id (lp_target_snapshots p)) \<and>
     insert (ev_anchor_symbol e) (set (ev_required_symbols e)) \<subseteq> set (map su_symbol (lp_subscriptions p))"

definition rebalance_closed :: "lean_plan \<Rightarrow> lean_rebalance \<Rightarrow> bool" where
  "rebalance_closed p r \<longleftrightarrow>
     set (rebalance_assets r) \<subseteq> set (map su_symbol (lp_subscriptions p)) \<and>
     set (rb_sleeve_ids r) \<union> set (rb_otherwise_sleeve_ids r) \<subseteq> set (map sl_id (lp_target_sleeves p)) \<and>
     sa_snapshot_id ` (set (rb_snapshot_allocations r) \<union> set (rb_otherwise_snapshot_allocations r))
       \<subseteq> set (map ts_id (lp_target_snapshots p)) \<and>
     set (rb_exit_state_ids r) \<union> set (rb_otherwise_exit_state_ids r) \<subseteq> set (map cs_id (lp_cooldown_states p))"

definition sleeve_closed :: "lean_plan \<Rightarrow> lean_target_sleeve \<Rightarrow> bool" where
  "sleeve_closed p s \<longleftrightarrow>
     set (sl_symbols s) \<union> set (sl_fallback_symbols s) \<subseteq> set (map su_symbol (lp_subscriptions p)) \<and>
     (\<forall>i. sl_selection_id s = Some i \<longrightarrow>
        i \<in> set (map rs_id (lp_random_selections p)) \<union> set (map ms_id (lp_momentum_selections p)))"

definition plan_closed :: "lean_plan \<Rightarrow> bool" where
  "plan_closed p \<longleftrightarrow>
     (\<forall>r\<in>set (lp_random_selections p). set (rs_symbols r) \<subseteq> set (map su_symbol (lp_subscriptions p))) \<and>
     (\<forall>m\<in>set (lp_momentum_selections p). set (ms_symbols m) \<subseteq> set (map su_symbol (lp_subscriptions p)) \<and>
        set_option (ms_cooldown_state m) \<subseteq> set (map cs_id (lp_cooldown_states p))) \<and>
     (\<forall>c\<in>set (lp_cooldown_states p).
        insert (cs_calendar_symbol c) (set (cs_symbols c)) \<subseteq> set (map su_symbol (lp_subscriptions p))) \<and>
     (\<forall>s\<in>set (lp_target_sleeves p). sleeve_closed p s) \<and>
     (\<forall>t\<in>set (lp_target_snapshots p). set (ts_sleeve_ids t) \<subseteq> set (map sl_id (lp_target_sleeves p))) \<and>
     (\<forall>r\<in>set (lp_rebalances p). rebalance_closed p r) \<and>
     (\<forall>e\<in>set (lp_daily_events p). event_closed p e) \<and>
     (\<forall>e\<in>set (lp_monthly_events p). event_closed p e) \<and>
     (\<forall>e\<in>set (lp_quarterly_events p). event_closed p e)"

text \<open>The ids of a lowered plan are the keys of the dictionaries.\<close>

lemma good_ids:
  assumes "good_entries A cx es"
  shows "map rs_id (dvalues (ls_selections (es_lowering es))) = dkeys (ls_selections (es_lowering es))"
    and "map ms_id (dvalues (ls_momentum (es_lowering es))) = dkeys (ls_momentum (es_lowering es))"
    and "map cs_id (dvalues (ls_cooldown (es_lowering es))) = dkeys (ls_cooldown (es_lowering es))"
    and "map sl_id (dvalues (ls_sleeves (es_lowering es))) = dkeys (ls_sleeves (es_lowering es))"
    and "map ts_id (dvalues (ls_snapshots (es_lowering es))) = dkeys (ls_snapshots (es_lowering es))"
    and "map rb_id (dvalues (es_rebalances es)) = dkeys (es_rebalances es)"
  using assms
  by (auto simp: good_entries_def good_state_def good_sleeve_def good_rebalance_def [abs_def]
      intro!: entries_ok_ids [where Q = "\<lambda>_ _. True"] elim!: entries_ok_mono)

lemma good_distinct:
  assumes "good_entries A cx es"
  shows "distinct (dkeys (ls_selections (es_lowering es)))" "distinct (dkeys (ls_momentum (es_lowering es)))"
    "distinct (dkeys (ls_cooldown (es_lowering es)))" "distinct (dkeys (ls_sleeves (es_lowering es)))"
    "distinct (dkeys (ls_snapshots (es_lowering es)))" "distinct (dkeys (es_rebalances es))"
    "distinct (dkeys (es_actions es))"
  using assms by (auto simp: good_entries_def good_state_def entries_ok_def)

text \<open>The three lists of events each take their ids from distinct keys.\<close>

lemma common_event_id [simp]: "ev_id (common_event symbols x) = fst x"
  by (simp add: common_event_def split: prod.splits)

lemma distinct_map_filter_ids:
  assumes "distinct (map f xs)" and "\<And>x y. g x = Some y \<Longrightarrow> h y = f x"
  shows "distinct (map h (List.map_filter g xs))"
  using assms(1)
proof (induction xs)
  case (Cons x xs)
  show ?case
  proof (cases "g x")
    case (Some y)
    have "h z \<noteq> f x" if z: "z \<in> set (List.map_filter g xs)" for z
    proof -
      from z obtain x' where "x' \<in> set xs" "g x' = Some z" by (auto simp: List.map_filter_def)
      then have "h z \<in> f ` set xs" using assms(2) by simp
      with Cons.prems show ?thesis by auto
    qed
    with Some Cons assms(2) show ?thesis by (auto simp: List.map_filter_def)
  qed (use Cons in \<open>simp add: List.map_filter_def\<close>)
qed (simp add: List.map_filter_def)

lemma event_ids_distinct:
  assumes "distinct (map ev_id es)"
  shows "distinct (map ev_id (monthly_events_of cx es))" "distinct (map ev_id (quarterly_events_of cx es))"
    "distinct (map ev_id (daily_events_of cx es))"
proof -
  show "distinct (map ev_id (monthly_events_of cx es))" unfolding monthly_events_of_def
    by (rule distinct_map_filter_ids [OF assms])
      (auto simp: monthly_event_def split: option.split_asm ir_body.split_asm)
  show "distinct (map ev_id (quarterly_events_of cx es))" unfolding quarterly_events_of_def
    by (rule distinct_map_filter_ids [OF assms])
      (auto simp: period_event_def split: option.split_asm ir_body.split_asm)
  show "distinct (map ev_id (daily_events_of cx es))" unfolding daily_events_of_def
    using assms by (auto simp: distinct_map intro: inj_on_subset)
qed

lemma lowered_plan_checks:
  assumes "good_entries A cx es"
  shows "check_plan_ids (lowered_plan ir rq cx es) = Inr ()"
proof -
  have "distinct (map ev_id (map (common_event (rq_assets rq)) (es_actions es)))"
    using good_distinct(7) [OF assms] by (simp add: dkeys_def comp_def)
  from event_ids_distinct [OF this] good_ids [OF assms] good_distinct [OF assms] show ?thesis
    by (simp add: check_plan_ids_Inr lowered_plan_def Let_def check_temporal_ids_def)
qed

lemma lowered_plan_normalizes:
  assumes "good_entries A cx es" and "distinct (rq_assets rq)"
  shows "normalize_lean_plan (lowered_plan ir rq cx es) =
    Inr (normal_form (map (\<lambda>x. (x, subscription_of x)) (rq_assets rq)) (lowered_plan ir rq cx es))"
proof -
  have "distinct (map su_symbol (map subscription_of (rq_assets rq)))"
    using assms(2) by (simp add: subscription_of_def comp_def)
  from collect_subscriptions_distinct [OF this]
  have "collect_subscriptions (lp_subscriptions (lowered_plan ir rq cx es)) =
      Inr (map (\<lambda>x. (x, subscription_of x)) (rq_assets rq))"
    by (simp add: lowered_plan_def Let_def subscription_of_def comp_def)
  with lowered_plan_checks [OF assms(1)] show ?thesis by (auto simp: normalize_Inr)
qed

lemma group_events_closed:
  assumes "\<forall>e\<in>set es. event_closed p e"
  shows "\<forall>g\<in>set (group_events es). event_closed p g"
proof
  fix g assume g: "g \<in> set (group_events es)"
  have ids: "\<exists>e\<in>set es. i \<in> set (ids e)"
    if "ids = ev_rebalance_ids \<or> ids = ev_refresh_ids" "i \<in> set (ids g)" for ids i
  proof -
    have "(event_key g, i) \<in> due ids (set (group_events es))" using g that(2) by (auto simp: due_def)
    then show ?thesis unfolding group_events_due [OF that(1)] by (auto simp: due_def)
  qed
  obtain e where "e \<in> set es" "stands_for g e" using group_events_stand [OF g] by blast
  then have "insert (ev_anchor_symbol g) (set (ev_required_symbols g)) \<subseteq> set (map su_symbol (lp_subscriptions p))"
    using assms by (auto simp: event_closed_def stands_for_def event_key_def)
  moreover have "set (ev_rebalance_ids g) \<subseteq> set (map rb_id (lp_rebalances p))"
    using ids [of ev_rebalance_ids] assms by (force simp: event_closed_def)
  moreover have "set (ev_refresh_ids g) \<subseteq> set (map ts_id (lp_target_snapshots p))"
    using ids [of ev_refresh_ids] assms by (force simp: event_closed_def)
  ultimately show "event_closed p g" by (simp add: event_closed_def)
qed

lemma normal_form_closed:
  assumes p: "plan_closed p" and d: "set (map su_symbol (map snd d)) = set (map su_symbol (lp_subscriptions p))"
  shows "plan_closed (normal_form d p)"
proof -
  let ?q = "normal_form d p"
  have same: "set (map su_symbol (lp_subscriptions ?q)) = set (map su_symbol (lp_subscriptions p))"
    using d by (simp add: normal_form_def image_image)
  have ids: "set (map rb_id (lp_rebalances ?q)) = set (map rb_id (lp_rebalances p))"
    "set (map ts_id (lp_target_snapshots ?q)) = set (map ts_id (lp_target_snapshots p))"
    "set (map sl_id (lp_target_sleeves ?q)) = set (map sl_id (lp_target_sleeves p))"
    "set (map cs_id (lp_cooldown_states ?q)) = set (map cs_id (lp_cooldown_states p))"
    "set (map rs_id (lp_random_selections ?q)) = set (map rs_id (lp_random_selections p))"
    "set (map ms_id (lp_momentum_selections ?q)) = set (map ms_id (lp_momentum_selections p))"
    by (simp_all add: normal_form_def)
  have "\<forall>e\<in>set (lp_daily_events ?q). event_closed p e" "\<forall>e\<in>set (lp_monthly_events ?q). event_closed p e"
    "\<forall>e\<in>set (lp_quarterly_events ?q). event_closed p e"
    using p group_events_closed by (auto simp: plan_closed_def normal_form_def)
  then have ev: "\<forall>e\<in>set (lp_daily_events ?q). event_closed ?q e" "\<forall>e\<in>set (lp_monthly_events ?q). event_closed ?q e"
    "\<forall>e\<in>set (lp_quarterly_events ?q). event_closed ?q e"
    unfolding event_closed_def by (simp_all only: same ids)
  have "\<forall>s\<in>set (lp_target_sleeves ?q). sleeve_closed p s" "\<forall>r\<in>set (lp_rebalances ?q). rebalance_closed p r"
    using p by (auto simp: plan_closed_def normal_form_def)
  then have "\<forall>s\<in>set (lp_target_sleeves ?q). sleeve_closed ?q s" "\<forall>r\<in>set (lp_rebalances ?q). rebalance_closed ?q r"
    unfolding sleeve_closed_def rebalance_closed_def by (simp_all only: same ids)
  moreover have "\<forall>r\<in>set (lp_random_selections ?q). set (rs_symbols r) \<subseteq> set (map su_symbol (lp_subscriptions p))"
    "\<forall>m\<in>set (lp_momentum_selections ?q). set (ms_symbols m) \<subseteq> set (map su_symbol (lp_subscriptions p)) \<and>
       set_option (ms_cooldown_state m) \<subseteq> set (map cs_id (lp_cooldown_states p))"
    "\<forall>c\<in>set (lp_cooldown_states ?q). insert (cs_calendar_symbol c) (set (cs_symbols c)) \<subseteq> set (map su_symbol (lp_subscriptions p))"
    "\<forall>t\<in>set (lp_target_snapshots ?q). set (ts_sleeve_ids t) \<subseteq> set (map sl_id (lp_target_sleeves p))"
    using p by (auto simp: plan_closed_def normal_form_def)
  ultimately show ?thesis using ev unfolding plan_closed_def by (simp only: same ids)
qed

lemma event_of_actions:
  assumes "e \<in> set (map (common_event symbols) actions)"
  shows "\<exists>i refresh rebalance. (i, refresh, rebalance) \<in> set actions \<and> set (ev_rebalance_ids e) = set rebalance \<and>
    set (ev_refresh_ids e) = set refresh \<and> ev_anchor_symbol e = hd symbols \<and> ev_required_symbols e = symbols"
  using assms by (force simp: common_event_def)

lemma monthly_events_from:
  assumes "e \<in> set (monthly_events_of cx es)"
  shows "\<exists>c\<in>set es. \<exists>n. e = monthly_event n ''start'' c"
proof -
  from assms obtain c where c: "c \<in> set es" and
    "(case lx_body cx (ev_id c) of Some (Monthly_schedule_op d) \<Rightarrow> Some (monthly_event d ''start'' c) | _ \<Rightarrow> None) = Some e"
    unfolding monthly_events_of_def set_map_filter by blast
  then have "\<exists>n. e = monthly_event n ''start'' c" by (auto split: option.split_asm ir_body.split_asm)
  with c show ?thesis by blast
qed

lemma quarterly_events_from:
  assumes "e \<in> set (quarterly_events_of cx es)"
  shows "\<exists>c\<in>set es. \<exists>n. e = period_event n c"
proof -
  from assms obtain c where c: "c \<in> set es" and
    "(case lx_body cx (ev_id c) of Some (Quarterly_schedule_op d) \<Rightarrow> Some (period_event d c) | _ \<Rightarrow> None) = Some e"
    unfolding quarterly_events_of_def set_map_filter by blast
  then have "\<exists>n. e = period_event n c" by (auto split: option.split_asm ir_body.split_asm)
  with c show ?thesis by blast
qed

lemma entries_ok_members: "entries_ok P d \<Longrightarrow> (k, v) \<in> set d \<Longrightarrow> P k v"
  by (simp add: entries_ok_def dget_members)

lemma dvalues_members: "v \<in> set (dvalues d) \<longleftrightarrow> (\<exists>k. (k, v) \<in> set d)"
  by (force simp: dvalues_def)

lemma lowered_plan_closed:
  assumes es: "good_entries (set (rq_assets rq)) cx es" and "rq_assets rq \<noteq> []"
  shows "plan_closed (lowered_plan ir rq cx es)"
proof -
  let ?p = "lowered_plan ir rq cx es" and ?st = "es_lowering es"
  have subs: "set (map su_symbol (lp_subscriptions ?p)) = set (rq_assets rq)"
    by (simp add: lowered_plan_def Let_def subscription_of_def comp_def)
  have ids: "map rs_id (lp_random_selections ?p) = dkeys (ls_selections ?st)"
    "map ms_id (lp_momentum_selections ?p) = dkeys (ls_momentum ?st)"
    "map cs_id (lp_cooldown_states ?p) = dkeys (ls_cooldown ?st)"
    "map sl_id (lp_target_sleeves ?p) = dkeys (ls_sleeves ?st)"
    "map ts_id (lp_target_snapshots ?p) = dkeys (ls_snapshots ?st)"
    "map rb_id (lp_rebalances ?p) = dkeys (es_rebalances es)"
    by (simp_all add: lowered_plan_def Let_def good_ids [OF es])
  have st: "good_state (set (rq_assets rq)) ?st" using es by (simp add: good_entries_def)
  have event: "event_closed ?p e" if e: "e \<in> set (map (common_event (rq_assets rq)) (es_actions es))" for e
  proof -
    obtain i refresh rebalance where a: "(i, refresh, rebalance) \<in> set (es_actions es)"
      and ev: "set (ev_rebalance_ids e) = set rebalance" "set (ev_refresh_ids e) = set refresh"
        "ev_anchor_symbol e = hd (rq_assets rq)" "ev_required_symbols e = rq_assets rq"
      using event_of_actions [OF e] by blast
    have "entries_ok (\<lambda>k (refresh, rebalance). set refresh \<subseteq> set (dkeys (ls_snapshots ?st)) \<and>
        set rebalance \<subseteq> set (dkeys (es_rebalances es))) (es_actions es)" using es by (simp add: good_entries_def)
    from entries_ok_members [OF this a]
    have "set refresh \<subseteq> set (dkeys (ls_snapshots ?st)) \<and> set rebalance \<subseteq> set (dkeys (es_rebalances es))" by simp
    then show ?thesis unfolding event_closed_def subs ids using ev assms(2) by simp
  qed
  have daily: "set (lp_daily_events ?p) \<subseteq> set (map (common_event (rq_assets rq)) (es_actions es))"
    by (auto simp: lowered_plan_def Let_def daily_events_of_def)
  have closed_monthly: "event_closed ?p (monthly_event n b c)" if "event_closed ?p c" for n b c
    using that by (simp add: event_closed_def monthly_event_def)
  have closed_period: "event_closed ?p (period_event n c)" if "event_closed ?p c" for n c
    using that by (simp add: event_closed_def period_event_def)
  have "\<forall>e\<in>set (lp_daily_events ?p). event_closed ?p e" using daily event by blast
  moreover have "\<forall>e\<in>set (lp_monthly_events ?p). event_closed ?p e"
  proof
    fix e assume "e \<in> set (lp_monthly_events ?p)"
    then have "e \<in> set (monthly_events_of cx (map (common_event (rq_assets rq)) (es_actions es)))"
      by (simp add: lowered_plan_def Let_def)
    from monthly_events_from [OF this] show "event_closed ?p e" using event closed_monthly by blast
  qed
  moreover have "\<forall>e\<in>set (lp_quarterly_events ?p). event_closed ?p e"
  proof
    fix e assume "e \<in> set (lp_quarterly_events ?p)"
    then have "e \<in> set (quarterly_events_of cx (map (common_event (rq_assets rq)) (es_actions es)))"
      by (simp add: lowered_plan_def Let_def)
    from quarterly_events_from [OF this] show "event_closed ?p e" using event closed_period by blast
  qed
  moreover have "\<forall>s\<in>set (lp_target_sleeves ?p). sleeve_closed ?p s"
  proof
    fix s assume "s \<in> set (lp_target_sleeves ?p)"
    then obtain k where "(k, s) \<in> set (ls_sleeves ?st)" by (auto simp: lowered_plan_def Let_def dvalues_members)
    then have "good_sleeve (set (rq_assets rq)) ?st k s" by (rule entries_ok_members [rotated]) (use st in \<open>simp add: good_state_def\<close>)
    then show "sleeve_closed ?p s" unfolding sleeve_closed_def subs ids by (auto simp: good_sleeve_def)
  qed
  moreover have "\<forall>r\<in>set (lp_rebalances ?p). rebalance_closed ?p r"
  proof
    fix r assume "r \<in> set (lp_rebalances ?p)"
    then obtain k where "(k, r) \<in> set (es_rebalances es)" by (auto simp: lowered_plan_def Let_def dvalues_members)
    then have "good_rebalance (set (rq_assets rq)) ?st k r" by (rule entries_ok_members [rotated]) (use es in \<open>simp add: good_entries_def\<close>)
    then show "rebalance_closed ?p r" unfolding rebalance_closed_def subs ids by (simp add: good_rebalance_def)
  qed
  moreover from st have
    st1: "entries_ok (\<lambda>k r. rs_id r = k \<and> set (rs_symbols r) \<subseteq> set (rq_assets rq)) (ls_selections ?st)" and
    st2: "entries_ok (\<lambda>k m. ms_id m = k \<and> set (ms_symbols m) \<subseteq> set (rq_assets rq) \<and>
            set_option (ms_cooldown_state m) \<subseteq> set (dkeys (ls_cooldown ?st))) (ls_momentum ?st)" and
    st3: "entries_ok (\<lambda>k c. cs_id c = k \<and> set (cs_symbols c) \<subseteq> set (rq_assets rq) \<and>
            cs_calendar_symbol c \<in> set (rq_assets rq)) (ls_cooldown ?st)" and
    st4: "entries_ok (\<lambda>k t. ts_id t = k \<and> set (ts_sleeve_ids t) \<subseteq> set (dkeys (ls_sleeves ?st))) (ls_snapshots ?st)"
    by (simp_all add: good_state_def)
  have "\<forall>r\<in>set (lp_random_selections ?p). set (rs_symbols r) \<subseteq> set (rq_assets rq)"
    "\<forall>m\<in>set (lp_momentum_selections ?p). set (ms_symbols m) \<subseteq> set (rq_assets rq) \<and>
       set_option (ms_cooldown_state m) \<subseteq> set (dkeys (ls_cooldown ?st))"
    "\<forall>c\<in>set (lp_cooldown_states ?p). insert (cs_calendar_symbol c) (set (cs_symbols c)) \<subseteq> set (rq_assets rq)"
    "\<forall>t\<in>set (lp_target_snapshots ?p). set (ts_sleeve_ids t) \<subseteq> set (dkeys (ls_sleeves ?st))"
    using entries_ok_values [OF st1] entries_ok_values [OF st2] entries_ok_values [OF st3] entries_ok_values [OF st4]
    by (simp_all add: lowered_plan_def Let_def Bex_def)
  ultimately show ?thesis unfolding plan_closed_def by (simp only: subs ids)
qed

subsection \<open>Compilation\<close>

lemma dict_of_member: "dget (dict_of ps) k = Some v \<Longrightarrow> (k, v) \<in> set ps"
proof -
  have "dget (foldl (\<lambda>d (k, v). dset k v d) d ps) k = Some v \<Longrightarrow> (k, v) \<in> set ps \<or> dget d k = Some v" for d
    by (induction ps arbitrary: d) (fastforce split: prod.splits if_splits)+
  from this [of "[]"] show "dget (dict_of ps) k = Some v \<Longrightarrow> (k, v) \<in> set ps"
    by (simp add: dict_of_def dget_def)
qed

lemma body_of_member:
  "body_of (operations_by_id ir) i = Some b \<Longrightarrow> \<exists>x\<in>set (ir_operations ir). op_id x = i \<and> op_body x = b"
  by (auto simp: body_of_def operations_by_id_def dest!: dict_of_member)

lemma market_symbols_used:
  assumes "Option.bind (body_of (operations_by_id ir) i) market_symbols = Some symbols"
  shows "set symbols \<subseteq> set (concat (map (used_assets \<circ> op_body) (ir_operations ir)))"
proof -
  from assms obtain b where b: "body_of (operations_by_id ir) i = Some b" "market_symbols b = Some symbols"
    by (auto simp: bind_eq_Some_conv)
  then have "used_assets b = symbols" by (cases b) (auto simp: used_assets_def market_symbols_def)
  with body_of_member [OF b(1)] show ?thesis by auto
qed

lemma asset_symbols_used:
  "asset_symbols fuel (operations_by_id ir) i = Some symbols \<Longrightarrow>
   set symbols \<subseteq> set (concat (map (used_assets \<circ> op_body) (ir_operations ir)))"
proof (induction fuel arbitrary: i)
  case (Suc fuel)
  show ?case
  proof (cases "Option.bind (body_of (operations_by_id ir) i) market_symbols")
    case None
    with Suc.prems Suc.IH show ?thesis
      by (auto simp: market_symbols_def split: option.split_asm ir_body.split_asm)
  next
    case (Some s)
    with Suc.prems have "symbols = s" by (auto simp: market_symbols_def split: option.split_asm ir_body.split_asm)
    with market_symbols_used [OF Some] show ?thesis by simp
  qed
qed simp

lemma calendars_used:
  "calendars_of fuel (operations_by_id ir) xs = Some cs \<Longrightarrow>
   \<forall>c\<in>set cs. set (tc_symbols c) \<subseteq> set (concat (map (used_assets \<circ> op_body) (ir_operations ir)))"
proof (induction xs arbitrary: cs)
  case (Cons x xs)
  show ?case
  proof (cases "gate_state (op_body x)")
    case None
    with Cons show ?thesis by simp
  next
    case (Some s)
    with Cons.prems obtain symbols rest where
      symbols: "asset_symbols fuel (operations_by_id ir) (op_id x) = Some symbols"
      and rest: "calendars_of fuel (operations_by_id ir) xs = Some rest"
      and cs: "cs = \<lparr>tc_component = op_component x, tc_symbols = symbols, tc_unit = ''completed_trading_sessions''\<rparr> # rest"
      by (auto simp: bind_eq_Some_conv)
    show ?thesis using asset_symbols_used [OF symbols] Cons.IH [OF rest] by (simp add: cs)
  qed
qed simp

lemma analysis_fields:
  assumes "analyze_strategy_ir ir = Some rq"
  shows "distinct (rq_assets rq)"
    and "set (rq_assets rq) = set (concat (map (used_assets \<circ> op_body) (ir_operations ir)))"
    and "\<exists>cs. calendars_of (search_fuel ir) (operations_by_id ir) (ir_operations ir) = Some cs \<and>
          rq_trading_calendars rq = sort_key tc_component cs"
  using assms by (auto simp: analyze_strategy_ir_def Let_def bind_eq_Some_conv)

lemma analyzed_context_good:
  assumes "analyze_strategy_ir ir = Some rq"
  shows "good_context (set (rq_assets rq)) (lowering_context_of ir rq)"
proof -
  obtain cs where cs: "calendars_of (search_fuel ir) (operations_by_id ir) (ir_operations ir) = Some cs"
    "rq_trading_calendars rq = sort_key tc_component cs" using analysis_fields(3) [OF assms] by blast
  have "set (tc_symbols c) \<subseteq> set (rq_assets rq)" if "dget (lx_calendars (lowering_context_of ir rq)) i = Some c" for i c
    using that calendars_used [OF cs(1)] unfolding analysis_fields(2) [OF assms]
    by (auto simp: lowering_context_of_def cs(2) dest!: dict_of_member)
  moreover have "set symbols \<subseteq> set (rq_assets rq)"
    if "Option.bind (lx_body (lowering_context_of ir rq) i) market_symbols = Some symbols" for i symbols
    using market_symbols_used [of ir i symbols] that unfolding analysis_fields(2) [OF assms]
    by (simp add: lowering_context_of_def)
  moreover have "set (used_assets b) \<subseteq> set (rq_assets rq)" if "lx_body (lowering_context_of ir rq) i = Some b" for i b
    using body_of_member that unfolding analysis_fields(2) [OF assms]
    by (fastforce simp: lowering_context_of_def)
  ultimately show ?thesis by (auto simp: good_context_def)
qed

lemma compile_ir_Inr:
  assumes "compile_ir ir = Inr p"
  shows "\<exists>rq es. analyze_strategy_ir ir = Some rq \<and> rq_assets rq \<noteq> [] \<and>
    efold (lower_entrypoint (search_fuel ir) (lowering_context_of ir rq)) (ir_entrypoints ir) empty_entry_state = Inr es \<and>
    good_entries (set (rq_assets rq)) (lowering_context_of ir rq) es \<and>
    p = normal_form (map (\<lambda>x. (x, subscription_of x)) (rq_assets rq)) (lowered_plan ir rq (lowering_context_of ir rq) es)"
proof -
  from assms obtain rq es where rq: "analyze_strategy_ir ir = Some rq" "rq_assets rq \<noteq> []"
    and es: "efold (lower_entrypoint (search_fuel ir) (lowering_context_of ir rq)) (ir_entrypoints ir) empty_entry_state = Inr es"
    and p: "(case normalize_lean_plan (lowered_plan ir rq (lowering_context_of ir rq) es) of
        Inl e \<Rightarrow> Inl (Plan_error e) | Inr plan \<Rightarrow> Inr plan) = Inr p"
    by (auto simp: compile_ir_def lower_strategy_ir_to_lean_plan_def Let_def ebind_eq_Inr split: option.split_asm)
  have good: "good_entries (set (rq_assets rq)) (lowering_context_of ir rq) es"
    by (rule entrypoints_good [OF es good_entries_empty analyzed_context_good [OF rq(1)]])
  with rq es p lowered_plan_normalizes [OF good analysis_fields(1) [OF rq(1)]] show ?thesis by auto
qed

lemma compiled_plan_closed:
  assumes "compile_ir ir = Inr p"
  shows "plan_closed p"
proof -
  obtain rq es where "good_entries (set (rq_assets rq)) (lowering_context_of ir rq) es" "rq_assets rq \<noteq> []"
    and p: "p = normal_form (map (\<lambda>x. (x, subscription_of x)) (rq_assets rq)) (lowered_plan ir rq (lowering_context_of ir rq) es)"
    using compile_ir_Inr [OF assms] by blast
  from lowered_plan_closed [OF this(1,2)] show ?thesis
    unfolding p by (rule normal_form_closed) (simp add: lowered_plan_def Let_def comp_def)
qed

lemma compile_fixed:
  assumes "compile_ir ir = Inr p"
  shows "normalize_lean_plan p = Inr p"
proof -
  obtain rq es where "analyze_strategy_ir ir = Some rq" "good_entries (set (rq_assets rq)) (lowering_context_of ir rq) es"
    and p: "p = normal_form (map (\<lambda>x. (x, subscription_of x)) (rq_assets rq)) (lowered_plan ir rq (lowering_context_of ir rq) es)"
    using compile_ir_Inr [OF assms] by blast
  from lowered_plan_normalizes [OF this(2) analysis_fields(1) [OF this(1)]] show ?thesis
    unfolding p by (rule normalize_fixed)
qed

subsection \<open>How compilation fails\<close>

lemma lower_branches_clean:
  assumes "well_formed_ir ir" and "lx_operations cx = operations_by_id ir"
  shows "fails_cleanly (lower_branches (search_fuel ir) cx targets otherwise st)"
proof -
  have lt: "fails_cleanly (lower_targets (search_fuel ir) cx i scale source u)" for i scale source u
    by (rule lower_targets_clean [OF assms height_bound [OF assms(1)]])
  have "fails_cleanly (require_complete_branch b label)" for b label
    by (simp add: require_complete_branch_def guard_def)
  with lt show ?thesis unfolding lower_branches_def
    by (intro fails_cleanly_pair fails_cleanly_ebind) (auto split: option.split)
qed

lemma lower_entrypoint_clean:
  assumes "well_formed_ir ir" and "lx_operations cx = operations_by_id ir"
  shows "fails_cleanly (lower_entrypoint (search_fuel ir) cx e es)"
proof -
  have lt: "fails_cleanly (lower_targets (search_fuel ir) cx i scale source u)" for i scale source u
    by (rule lower_targets_clean [OF assms height_bound [OF assms(1)]])
  have "fails_cleanly (lower_snapshot_with (\<lambda>j. lower_targets (search_fuel ir) cx j 1 None) cx i targets st)" for i targets st
    by (rule lower_snapshot_clean) (rule lt)
  moreover have "fails_cleanly (lower_rebalance_entry (search_fuel ir) cx i j targets otherwise p cs es)"
    for i j targets otherwise p cs
    using lower_branches_clean [OF assms] unfolding lower_rebalance_entry_def by auto
  ultimately show ?thesis unfolding lower_entrypoint_def by (auto split: option.splits ir_body.splits if_splits)
qed

lemma compile_clean:
  assumes "well_formed_ir ir"
  shows "fails_cleanly (compile_ir ir)"
proof -
  obtain rq where rq: "analyze_strategy_ir ir = Some rq" using analysis_answers [OF assms] by blast
  let ?cx = "lowering_context_of ir rq"
  have cx: "lx_operations ?cx = operations_by_id ir" by (simp add: lowering_context_of_def)
  have "fails_cleanly (efold (lower_entrypoint (search_fuel ir) ?cx) es st)" for es st
    by (induction es arbitrary: st) (auto intro: lower_entrypoint_clean [OF assms cx])
  moreover have "fails_cleanly (case normalize_lean_plan (lowered_plan ir rq ?cx es) of Inl e \<Rightarrow> Inl (Plan_error e) | Inr plan \<Rightarrow> Inr plan)"
    if "efold (lower_entrypoint (search_fuel ir) ?cx) (ir_entrypoints ir) empty_entry_state = Inr es" for es
    using lowered_plan_normalizes [OF entrypoints_good [OF that good_entries_empty good_context_UNIV]
        analysis_fields(1) [OF rq]] by simp
  ultimately show ?thesis
    by (auto simp: compile_ir_def rq lower_strategy_ir_to_lean_plan_def Let_def guard_def)
qed

end
