(* ===== verification/Lowering_Weights.thy ===== *)
theory Lowering_Weights
  imports Lowering_Properties
begin

text \<open>
  Does a plan allocate the whole capital? \<open>require_complete_branch\<close> checks the weights of a
  branch while it is lowered, but the plan keeps one sleeve per operation, so an allocation that
  two branches use at different scales keeps the weight of the last. Where no allocation is used
  twice, the sleeves of the plan themselves add up to one.
\<close>

subsection \<open>At which scale an operation is lowered\<close>

definition target_operands :: "ir_body \<Rightarrow> string list" where
  "target_operands b = map (fst \<circ> snd) (filter (\<lambda>(_, _, t). t = Portfolio_targets_type) (operands b))"

definition allocations_used_once :: "strategy_ir \<Rightarrow> bool" where
  "allocations_used_once ir \<longleftrightarrow> distinct (concat (map (target_operands \<circ> op_body) (ir_operations ir)))"

definition branch_roots :: "ir_body \<Rightarrow> string list" where
  "branch_roots b =
     (case b of
        Retain_targets_op t \<Rightarrow> [t]
      | Rebalance_op t \<Rightarrow> [t]
      | Predicate_rebalance_op _ _ _ _ t otherwise _ \<Rightarrow> t # (case otherwise of None \<Rightarrow> [] | Some j \<Rightarrow> [j])
      | _ \<Rightarrow> [])"

definition hands_down :: "ir_body \<Rightarrow> bool" where
  "hands_down b =
     (case b of Merge_targets_op _ _ \<Rightarrow> True | Scale_targets_op _ _ \<Rightarrow> True | Observe_target_exits_op _ _ \<Rightarrow> True | _ \<Rightarrow> False)"

definition handed_down :: "lowering_context \<Rightarrow> string \<Rightarrow> ir_body \<Rightarrow> decimal \<times> string option \<Rightarrow> decimal \<times> string option" where
  "handed_down cx i b p =
     (case b of Scale_targets_op _ f \<Rightarrow> (dmul (fst p) f, Some (lx_component cx i)) | _ \<Rightarrow> p)"

text \<open>The scale and the portfolio sleeve that the operations above an allocation give it.\<close>

inductive placed :: "lowering_context \<Rightarrow> string \<Rightarrow> decimal \<times> string option \<Rightarrow> bool" for cx where
  root: "lx_body cx i = Some b \<Longrightarrow> j \<in> set (branch_roots b) \<Longrightarrow> placed cx j (1, None)"
| down: "placed cx i p \<Longrightarrow> lx_body cx i = Some b \<Longrightarrow> hands_down b \<Longrightarrow> j \<in> set (target_operands b) \<Longrightarrow>
    placed cx j (handed_down cx i b p)"

text \<open>The weight a sleeve may have: the weight of its allocation at the scale of its place.\<close>

inductive allowed :: "lowering_context \<Rightarrow> string \<Rightarrow> decimal \<Rightarrow> bool" for cx where
  equal: "placed cx i (s, src) \<Longrightarrow> lx_body cx i = Some (Equal_weight_op a w) \<Longrightarrow> allowed cx i (dmul w s)"
| fallback: "placed cx i (s, src) \<Longrightarrow> lx_body cx i = Some (First_non_empty_targets_op j k) \<Longrightarrow>
    lx_body cx j = Some (Equal_weight_op a w) \<Longrightarrow> allowed cx j (dmul w s)"

definition weights_allowed :: "lowering_context \<Rightarrow> lowering_state \<Rightarrow> bool" where
  "weights_allowed cx st \<longleftrightarrow> (\<forall>k s. dget (ls_sleeves st) k = Some s \<longrightarrow> allowed cx k (sl_total_weight s))"

definition targets_allowed :: "lowering_context \<Rightarrow> lowered_targets \<Rightarrow> bool" where
  "targets_allowed cx r \<longleftrightarrow> (\<forall>s\<in>set (lt_sleeves r). allowed cx (sl_id s) (sl_total_weight s))"

lemma targets_allowed_no_targets [simp]: "targets_allowed cx no_targets"
  by (simp add: targets_allowed_def no_targets_def)

lemma lower_sleeve_weights:
  assumes "lower_sleeve cx i st = Inr (s, t)"
  shows "\<exists>a w. lx_body cx i = Some (Equal_weight_op a w) \<and> sl_id s = i \<and> sl_total_weight s = w \<and>
    ls_sleeves t = dset i s (ls_sleeves st)"
proof -
  from assms obtain assets w symbols selection_id u where
    b: "lx_body cx i = Some (Equal_weight_op assets w)"
    and a: "lower_sleeve_assets cx assets st = Inr ((symbols, selection_id), u)"
    and s: "s = plain_sleeve i w symbols selection_id" and t: "t = store_sleeve s u"
    by (auto simp: lower_sleeve_def ebind_eq_Inr Let_def split: option.split_asm ir_body.split_asm)
  have "ls_sleeves u = ls_sleeves st" using a
    by (auto simp: lower_sleeve_assets_def lower_momentum_selection_def ebind_eq_Inr
        split: option.split_asm ir_body.split_asm list.split_asm)
  then show ?thesis by (simp add: b s t store_sleeve_def plain_sleeve_def)
qed

lemma dset_dset [simp]: "dset k v (dset k w d) = dset k v d"
  unfolding dset_def by (induction d) auto

lemma store_allowed:
  assumes "weights_allowed cx st" and "allowed cx i (sl_total_weight s)" and "sl_id s = i"
    and "ls_sleeves u = dset i s' (ls_sleeves st)"
  shows "weights_allowed cx (store_sleeve s u)"
  using assms by (auto simp: weights_allowed_def store_sleeve_def)

lemma scaled_sleeve_weight [simp]:
  "sl_id (scaled_sleeve scale source s) = sl_id s"
  "sl_total_weight (scaled_sleeve scale source s) = dmul (sl_total_weight s) scale"
  by (simp_all add: scaled_sleeve_def)

lemma lower_fallback_allowed:
  assumes "lower_fallback cx c i j scale source st = Inr (r, t)" and "weights_allowed cx st"
    and "placed cx k (scale, src)" and "lx_body cx k = Some (First_non_empty_targets_op i j)"
  shows "weights_allowed cx t \<and> targets_allowed cx r"
proof -
  from assms(1) obtain symbol local u lowered where
    l: "lower_sleeve cx i st = Inr (local, u)"
    and lowered: "lowered = (scaled_sleeve scale source local)\<lparr>sl_fallback_component := Some c, sl_fallback_symbols := [symbol]\<rparr>"
    and r: "r = no_targets\<lparr>lt_sleeves := [lowered]\<rparr>" and t: "t = store_sleeve lowered u"
    by (auto simp: lower_fallback_def ebind_eq_Inr Let_def split: option.split_asm ir_body.split_asm list.split_asm if_splits)
  obtain a w where l': "lx_body cx i = Some (Equal_weight_op a w)" "sl_id local = i" "sl_total_weight local = w"
    "ls_sleeves u = dset i local (ls_sleeves st)" using lower_sleeve_weights [OF l] by blast
  have al: "allowed cx i (sl_total_weight lowered)"
    using allowed.fallback [OF assms(3,4) l'(1)] by (simp add: lowered l'(3))
  have id: "sl_id lowered = i" by (simp add: lowered l'(2))
  show ?thesis using store_allowed [OF assms(2) al id l'(4)] al id by (simp add: t r targets_allowed_def)
qed

lemma lower_targets_allowed:
  assumes "lower_targets fuel cx i scale source st = Inr (r, t)" and "weights_allowed cx st" and "placed cx i (scale, source)"
  shows "weights_allowed cx t \<and> targets_allowed cx r"
  using assms
proof (induction fuel arbitrary: i scale source st r t)
  case (Suc fuel)
  obtain b where b: "lx_body cx i = Some b" using Suc.prems(1) by (auto split: option.splits)
  show ?case
  proof (cases b)
    case (Merge_targets_op left right)
    with Suc.prems(1) b obtain x y u where
      x: "lower_targets fuel cx left scale source st = Inr (x, u)"
      and y: "lower_targets fuel cx right scale source u = Inr (y, t)" and r: "r = merged x y"
      by (auto simp: ebind_eq_Inr)
    have below: "placed cx j (scale, source)" if "j \<in> {left, right}" for j
      using placed.down [OF Suc.prems(3) b] that
      by (auto simp: Merge_targets_op hands_down_def handed_down_def target_operands_def operands_def)
    have u: "weights_allowed cx u" "targets_allowed cx x"
      using Suc.IH [OF x Suc.prems(2) below] by auto
    then show ?thesis using Suc.IH [OF y u(1) below]
      by (auto simp: r merged_def targets_allowed_def)
  next
    case (Scale_targets_op targets factor)
    note m = b [unfolded Scale_targets_op]
    show ?thesis
    proof (cases "\<exists>k. lx_body cx targets = Some (Retain_targets_op k)")
      case True
      then obtain k where k: "lx_body cx targets = Some (Retain_targets_op k)" ..
      with Suc.prems(1) m obtain s where
        s: "lower_snapshot_with (\<lambda>j. lower_targets fuel cx j 1 None) cx targets k st = Inr (s, t)"
        and r: "lt_sleeves r = []"
        by (auto simp: ebind_eq_Inr no_targets_def split: if_splits)
      have p: "placed cx k (1, None)" by (rule placed.root [OF k]) (simp add: branch_roots_def)
      have "weights_allowed cx t"
        using s Suc.prems(2) Suc.IH [OF _ _ p]
        by (auto simp: lower_snapshot_with_def ebind_eq_Inr weights_allowed_def Let_def split: option.split_asm if_splits)
      with r show ?thesis by (simp add: targets_allowed_def)
    next
      case False
      with Suc.prems(1) m
      have l: "lower_targets fuel cx targets (dmul scale factor) (Some (lx_component cx i)) st = Inr (r, t)"
        by (auto split: if_splits option.splits ir_body.splits)
      have "placed cx targets (dmul scale factor, Some (lx_component cx i))"
        using placed.down [OF Suc.prems(3) m, of targets]
        by (simp add: hands_down_def handed_down_def target_operands_def operands_def)
      then show ?thesis by (rule Suc.IH [OF l Suc.prems(2)])
    qed
  next
    case (Equal_weight_op assets w)
    with Suc.prems(1) b obtain s u where
      s: "lower_sleeve cx i st = Inr (s, u)" and r: "r = no_targets\<lparr>lt_sleeves := [scaled_sleeve scale source s]\<rparr>"
      and t: "t = store_sleeve (scaled_sleeve scale source s) u"
      by (auto simp: ebind_eq_Inr Let_def)
    obtain a v where l: "lx_body cx i = Some (Equal_weight_op a v)" "sl_id s = i" "sl_total_weight s = v"
      "ls_sleeves u = dset i s (ls_sleeves st)" using lower_sleeve_weights [OF s] by blast
    have al: "allowed cx i (sl_total_weight (scaled_sleeve scale source s))"
      using allowed.equal [OF Suc.prems(3) l(1)] l(3) by simp
    show ?thesis using store_allowed [OF Suc.prems(2) al _ l(4)] al l(2) by (simp add: r t targets_allowed_def)
  next
    case (First_non_empty_targets_op primary fallback)
    with Suc.prems b lower_fallback_allowed [OF _ Suc.prems(2,3)] show ?thesis by simp
  next
    case (Observe_target_exits_op targets s)
    with Suc.prems(1) b obtain x where x: "lower_targets fuel cx targets scale source st = Inr (x, t)"
      and r: "r = x\<lparr>lt_exit_state_ids := lt_exit_state_ids x @ [s]\<rparr>"
      by (auto simp: ebind_eq_Inr split: if_splits)
    have "placed cx targets (scale, source)"
      using placed.down [OF Suc.prems(3) b, of targets]
      by (simp add: Observe_target_exits_op hands_down_def handed_down_def target_operands_def operands_def)
    then show ?thesis using Suc.IH [OF x Suc.prems(2)] by (simp add: r targets_allowed_def)
  qed (use Suc.prems(1) b in auto)
qed simp

subsection \<open>One place per allocation\<close>

lemma distinct_concat_nth:
  "distinct (concat (map f xs)) \<Longrightarrow> n < length xs \<Longrightarrow> m < length xs \<Longrightarrow> n \<noteq> m \<Longrightarrow>
   set (f (xs ! n)) \<inter> set (f (xs ! m)) = {}"
proof (induction xs arbitrary: n m)
  case (Cons x xs)
  have other: "set (f x) \<inter> set (f (xs ! k)) = {}" if "k < length xs" for k
    using Cons.prems(1) that by (auto dest: nth_mem)
  show ?case
  proof (cases n)
    case 0
    with Cons.prems obtain k where "m = Suc k" by (cases m) auto
    with 0 other [of k] Cons.prems show ?thesis by simp
  next
    case (Suc l)
    then show ?thesis using Cons other [of l] by (cases m) (auto simp: Int_commute)
  qed
qed simp

lemma consumer_unique:
  assumes u: "unique_ids ir" and once: "allocations_used_once ir"
    and i: "body_of (operations_by_id ir) i = Some b" "j \<in> set (target_operands b)"
    and k: "body_of (operations_by_id ir) k = Some c" "j \<in> set (target_operands c)"
  shows "i = k"
proof -
  obtain x y where x: "x \<in> set (ir_operations ir)" "op_id x = i" "op_body x = b"
    and y: "y \<in> set (ir_operations ir)" "op_id y = k" "op_body y = c"
    using i(1) k(1) unfolding body_of_unique [OF u] by blast
  obtain n m where n: "n < length (ir_operations ir)" "ir_operations ir ! n = x"
    and m: "m < length (ir_operations ir)" "ir_operations ir ! m = y" using x(1) y(1) by (auto simp: in_set_conv_nth)
  have "n = m"
    using distinct_concat_nth [OF once [unfolded allocations_used_once_def] n(1) m(1)] i(2) k(2) n m x y by auto
  with n m x y show ?thesis by simp
qed

lemma branch_roots_operands: "j \<in> set (branch_roots b) \<Longrightarrow> j \<in> set (target_operands b)"
  by (cases b) (auto simp: branch_roots_def target_operands_def operands_def split: option.splits)

lemma roots_hand_nothing_down: "j \<in> set (branch_roots b) \<Longrightarrow> \<not> hands_down b"
  by (cases b) (simp_all add: branch_roots_def hands_down_def)

lemma placed_unique:
  assumes wf: "unique_ids ir" "allocations_used_once ir" and cx: "lx_operations cx = operations_by_id ir"
  shows "placed cx j p \<Longrightarrow> placed cx j q \<Longrightarrow> p = q"
proof (induction arbitrary: q rule: placed.induct)
  case (root i b j)
  note parent = consumer_unique [OF wf root(1) [unfolded cx] branch_roots_operands [OF root(2)]]
  from root(3) show ?case
  proof (cases rule: placed.cases)
    case (down k r c)
    with parent [of k c] have "k = i" by (simp add: cx)
    with down root(1,2) roots_hand_nothing_down [of j b] show ?thesis by auto
  qed simp
next
  case (down i p b j)
  note parent = consumer_unique [OF wf down(2) [unfolded cx] down(4)] and IH = down.IH and b = down(2,3)
  from down.prems show ?case
  proof (cases rule: placed.cases)
    case (root k c)
    with parent [of k c] branch_roots_operands have "k = i" by (simp add: cx)
    with root b roots_hand_nothing_down [of j b] show ?thesis by auto
  next
    case (down k r c)
    with parent [of k c] have "k = i" by (simp add: cx)
    with down b IH [of r] show ?thesis by simp
  qed
qed

text \<open>So an allocation has one weight in the whole plan.\<close>

lemma allowed_unique:
  assumes wf: "unique_ids ir" "allocations_used_once ir" and cx: "lx_operations cx = operations_by_id ir"
    and "allowed cx i v" and "allowed cx i w"
  shows "v = w"
proof -
  note unique = placed_unique [OF wf cx]
  have not_both: False
    if "lx_body cx k = Some (First_non_empty_targets_op j l)" "placed cx j p" "lx_body cx j = Some (Equal_weight_op a u)" for k j l p a u
    using that(2)
  proof (cases rule: placed.cases)
    case (root i b)
    have "i = k"
      by (rule consumer_unique [OF wf root(2) [unfolded cx] branch_roots_operands [OF root(3)] that(1) [unfolded cx]])
        (simp add: target_operands_def operands_def)
    with root(2,3) that(1) show False by (auto simp: branch_roots_def)
  next
    case (down i q b)
    have "i = k"
      by (rule consumer_unique [OF wf down(3) [unfolded cx] down(5) that(1) [unfolded cx]])
        (simp add: target_operands_def operands_def)
    with down(3,4) that(1) show False by (auto simp: hands_down_def)
  qed
  from assms(4,5) show ?thesis
  proof (cases rule: allowed.cases [case_product allowed.cases])
    case (equal_equal i1 s src a v' i2 s' src' a' w')
    then show ?thesis using unique [of i "(s, src)" "(s', src')"] by simp
  next
    case (equal_fallback i1 s src a v' k s' src' i2 l a' w')
    then show ?thesis using not_both by blast
  next
    case (fallback_equal k s src i1 l a v' i2 s' src' a' w')
    then show ?thesis using not_both by blast
  next
    case (fallback_fallback k s src i1 l a v' k' s' src' i2 l' a' w')
    have "k = k'"
      using consumer_unique [OF wf, of k "First_non_empty_targets_op i1 l" i1 k' "First_non_empty_targets_op i1 l'"]
        fallback_fallback by (simp add: cx target_operands_def operands_def)
    with fallback_fallback show ?thesis using unique [of k "(s, src)" "(s', src')"] by simp
  qed
qed

subsection \<open>Every rebalance allocates the capital\<close>

definition sleeve_weight :: "lean_plan \<Rightarrow> string \<Rightarrow> decimal" where
  "sleeve_weight p i = (case find (\<lambda>s. sl_id s = i) (lp_target_sleeves p) of None \<Rightarrow> 0 | Some s \<Rightarrow> sl_total_weight s)"

text \<open>What the stored sleeves and snapshots of a branch add up to, as the code generator reads it.\<close>

definition allocated :: "lean_plan \<Rightarrow> string list \<Rightarrow> lean_snapshot_allocation list \<Rightarrow> decimal" where
  "allocated p sleeve_ids snapshots =
     dadd (dsum (map (sleeve_weight p) sleeve_ids)) (dsum (map sa_factor snapshots))"

definition complete_branch :: "lowering_context \<Rightarrow> string list \<Rightarrow> lean_snapshot_allocation list \<Rightarrow> bool" where
  "complete_branch cx ids snapshots \<longleftrightarrow>
     (\<exists>ws. list_all2 (allowed cx) ids ws \<and> dadd (dsum ws) (dsum (map sa_factor snapshots)) = 1)"

definition complete_rebalance :: "lowering_context \<Rightarrow> lean_rebalance \<Rightarrow> bool" where
  "complete_rebalance cx r \<longleftrightarrow>
     complete_branch cx (rb_sleeve_ids r) (rb_snapshot_allocations r) \<and>
     (rb_otherwise_sleeve_ids r = [] \<and> rb_otherwise_snapshot_allocations r = [] \<or>
      complete_branch cx (rb_otherwise_sleeve_ids r) (rb_otherwise_snapshot_allocations r))"

definition entries_complete :: "lowering_context \<Rightarrow> entry_state \<Rightarrow> bool" where
  "entries_complete cx es \<longleftrightarrow>
     weights_allowed cx (es_lowering es) \<and> (\<forall>k r. dget (es_rebalances es) k = Some r \<longrightarrow> complete_rebalance cx r)"

lemma complete_branchI:
  assumes "targets_allowed cx b" and "branch_total b = 1"
  shows "complete_branch cx (map sl_id (lt_sleeves b)) (lt_snapshot_allocations b)"
  unfolding complete_branch_def
proof (intro exI conjI)
  show "list_all2 (allowed cx) (map sl_id (lt_sleeves b)) (map sl_total_weight (lt_sleeves b))"
    using assms(1) by (auto simp: targets_allowed_def list_all2_conv_all_nth)
  show "dadd (dsum (map sl_total_weight (lt_sleeves b))) (dsum (map sa_factor (lt_snapshot_allocations b))) = 1"
    using assms(2) by (simp add: branch_total_def)
qed

lemma lower_rebalance_complete:
  assumes "lower_rebalance_entry fuel cx e i targets otherwise p cs es = Inr es'" and "entries_complete cx es"
    and "placed cx targets (1, None)" and "\<And>j. otherwise = Some j \<Longrightarrow> placed cx j (1, None)"
  shows "entries_complete cx es'"
proof -
  from assms(1) obtain branch other t where
    b: "lower_branches fuel cx targets otherwise (es_lowering es) = Inr (branch, other, t)"
    and es': "es' = add_rebalance e (rebalance_of i p cs branch other) (es\<lparr>es_lowering := t\<rparr>)"
    by (auto simp: lower_rebalance_entry_def ebind_eq_Inr)
  from b obtain u where branch: "lower_targets fuel cx targets 1 None (es_lowering es) = Inr (branch, u)"
    and other: "(case otherwise of None \<Rightarrow> Inr (no_targets, u) | Some j \<Rightarrow> lower_targets fuel cx j 1 None u) = Inr (other, t)"
    and total: "branch_total branch = 1" and total': "otherwise \<noteq> None \<Longrightarrow> branch_total other = 1"
    by (auto simp: lower_branches_def ebind_eq_Inr require_complete_branch_def split: if_splits)
  have u: "weights_allowed cx u" "targets_allowed cx branch"
    using lower_targets_allowed [OF branch _ assms(3)] assms(2) by (auto simp: entries_complete_def)
  have t: "weights_allowed cx t \<and> targets_allowed cx other"
    using other u(1) lower_targets_allowed [OF _ u(1) assms(4)] by (cases otherwise) auto
  have "complete_rebalance cx (rebalance_of i p cs branch other)"
    using complete_branchI [OF u(2) total] complete_branchI [of cx other] t total' other
    by (cases otherwise) (auto simp: complete_rebalance_def rebalance_of_def no_targets_def)
  then show ?thesis using assms(2) t
    by (auto simp: es' entries_complete_def add_rebalance_def Let_def split_beta)
qed

lemma lower_entrypoint_complete:
  assumes "lower_entrypoint fuel cx e es = Inr es'" and "entries_complete cx es"
  shows "entries_complete cx es'"
proof -
  obtain b where b: "lx_body cx (en_target e) = Some b"
    using assms(1) by (auto simp: lower_entrypoint_def split: option.split_asm if_splits)
  have roots: "placed cx j (1, None)" if "j \<in> set (branch_roots b)" for j by (rule placed.root [OF b that])
  show ?thesis
  proof (cases b)
    case (Retain_targets_op targets)
    with assms(1) b obtain s t where
      s: "lower_snapshot_with (\<lambda>j. lower_targets fuel cx j 1 None) cx (en_target e) targets (es_lowering es) = Inr (s, t)"
      and es': "es' = add_refresh (en_event e) (en_target e) (es\<lparr>es_lowering := t\<rparr>)"
      by (auto simp: lower_entrypoint_def ebind_eq_Inr split: option.split_asm if_splits)
    have p: "placed cx targets (1, None)" by (rule roots) (simp add: Retain_targets_op branch_roots_def)
    have st: "weights_allowed cx (es_lowering es)" using assms(2) by (simp add: entries_complete_def)
    have "weights_allowed cx t" using s st lower_targets_allowed [OF _ st p]
      by (auto simp: lower_snapshot_with_def ebind_eq_Inr weights_allowed_def Let_def split: option.split_asm if_splits)
    then show ?thesis using assms(2)
      by (simp add: es' entries_complete_def add_refresh_def Let_def split_beta)
  next
    case (Rebalance_op targets)
    with assms(1) b have "lower_rebalance_entry fuel cx (en_event e) (en_target e) targets None None [] es = Inr es'"
      by (auto simp: lower_entrypoint_def split: option.split_asm if_splits)
    then show ?thesis
      by (rule lower_rebalance_complete [OF _ assms(2)]) (simp_all add: roots Rebalance_op branch_roots_def)
  next
    case (Predicate_rebalance_op asset lookback operator threshold targets otherwise comparisons)
    with assms(1) b have "lower_rebalance_entry fuel cx (en_event e) (en_target e) targets otherwise
        (Some \<lparr>pr_component = lx_component cx (en_target e), pr_asset = asset, pr_lookback_bars = lookback,
               pr_operator = operator, pr_threshold = threshold\<rparr>) comparisons es = Inr es'"
      by (auto simp: lower_entrypoint_def split: option.split_asm if_splits)
    then show ?thesis
      by (rule lower_rebalance_complete [OF _ assms(2)]) (simp_all add: roots Predicate_rebalance_op branch_roots_def)
  qed (use assms(1) b in \<open>auto simp: lower_entrypoint_def split: option.split_asm if_splits\<close>)
qed

lemma find_by_id:
  assumes "distinct (map f xs)" and "x \<in> set xs"
  shows "find (\<lambda>y. f y = f x) xs = Some x"
  using assms by (induction xs) (auto simp: image_iff)

lemma sleeve_weight_stored:
  assumes es: "good_entries A cx es" and p: "p = normal_form d (lowered_plan ir rq cx es)"
    and i: "i \<in> set (dkeys (ls_sleeves (es_lowering es)))"
  shows "\<exists>s. dget (ls_sleeves (es_lowering es)) i = Some s \<and> sleeve_weight p i = sl_total_weight s"
proof -
  have ok: "entries_ok (good_sleeve A (es_lowering es)) (ls_sleeves (es_lowering es))"
    using es by (simp add: good_entries_def good_state_def)
  obtain s where s: "dget (ls_sleeves (es_lowering es)) i = Some s"
    using i by (auto simp: dget_def dkeys_def map_of_eq_None_iff dest: map_of_eq_None_iff [THEN iffD1])
      (metis dget_def dhas_def dhas_iff dkeys_def i list.set_map option.exhaust)
  have id: "sl_id s = i" using ok s by (auto simp: entries_ok_def good_sleeve_def)
  have "s \<in> set (dvalues (ls_sleeves (es_lowering es)))"
    using s ok by (force simp: entries_ok_def dget_members dvalues_def)
  moreover have sleeves: "lp_target_sleeves p = sort_key sl_id (dvalues (ls_sleeves (es_lowering es)))"
    by (simp add: p normal_form_def lowered_plan_def Let_def)
  moreover have "distinct (map sl_id (lp_target_sleeves p))"
    unfolding sleeves using good_ids(4) [OF es] good_distinct(4) [OF es] by simp
  ultimately have "find (\<lambda>y. sl_id y = sl_id s) (lp_target_sleeves p) = Some s" by (intro find_by_id) simp_all
  with s id show ?thesis by (auto simp: sleeve_weight_def)
qed

lemma complete_branch_allocated:
  assumes es: "good_entries A cx es" and p: "p = normal_form d (lowered_plan ir rq cx es)"
    and wf: "unique_ids ir" "allocations_used_once ir" and cx: "lx_operations cx = operations_by_id ir"
    and st: "weights_allowed cx (es_lowering es)"
    and b: "complete_branch cx ids snapshots" and ids: "set ids \<subseteq> set (dkeys (ls_sleeves (es_lowering es)))"
  shows "allocated p ids snapshots = 1"
proof -
  obtain ws where ws: "list_all2 (allowed cx) ids ws" "dadd (dsum ws) (dsum (map sa_factor snapshots)) = 1"
    using b by (auto simp: complete_branch_def)
  have "map (sleeve_weight p) ids = ws"
  proof (rule nth_equalityI)
    show "length (map (sleeve_weight p) ids) = length ws" using ws(1) by (simp add: list_all2_lengthD)
    fix n assume "n < length (map (sleeve_weight p) ids)"
    then have n: "n < length ids" by simp
    obtain s where s: "dget (ls_sleeves (es_lowering es)) (ids ! n) = Some s" "sleeve_weight p (ids ! n) = sl_total_weight s"
      using sleeve_weight_stored [OF es p] ids n nth_mem by blast
    have "allowed cx (ids ! n) (sl_total_weight s)" using st s(1) by (simp add: weights_allowed_def)
    moreover have "allowed cx (ids ! n) (ws ! n)" using ws(1) n by (simp add: list_all2_nthD)
    ultimately show "map (sleeve_weight p) ids ! n = ws ! n"
      using allowed_unique [OF wf cx] n s(2) by simp
  qed
  with ws(2) show ?thesis by (simp add: allocated_def)
qed

lemma compiled_rebalances_allocate:
  assumes c: "compile_ir ir = Inr p" and wf: "unique_ids ir" "allocations_used_once ir" and r: "r \<in> set (lp_rebalances p)"
  shows "allocated p (rb_sleeve_ids r) (rb_snapshot_allocations r) = 1 \<and>
    (rb_otherwise_sleeve_ids r = [] \<and> rb_otherwise_snapshot_allocations r = [] \<or>
     allocated p (rb_otherwise_sleeve_ids r) (rb_otherwise_snapshot_allocations r) = 1)"
proof -
  obtain rq es where rq: "analyze_strategy_ir ir = Some rq"
    and run: "efold (lower_entrypoint (search_fuel ir) (lowering_context_of ir rq)) (ir_entrypoints ir) empty_entry_state = Inr es"
    and es: "good_entries (set (rq_assets rq)) (lowering_context_of ir rq) es"
    and p: "p = normal_form (map (\<lambda>x. (x, subscription_of x)) (rq_assets rq)) (lowered_plan ir rq (lowering_context_of ir rq) es)"
    using compile_ir_Inr [OF c] by blast
  let ?cx = "lowering_context_of ir rq"
  have cx: "lx_operations ?cx = operations_by_id ir" by (simp add: lowering_context_of_def)
  have "entries_complete ?cx empty_entry_state"
    by (simp add: entries_complete_def empty_entry_state_def empty_lowering_def weights_allowed_def dget_def)
  then have complete: "entries_complete ?cx es"
    by (rule efold_invariant [OF run]) (rule lower_entrypoint_complete)
  have "r \<in> set (dvalues (es_rebalances es))" using r by (simp add: p normal_form_def lowered_plan_def Let_def)
  then obtain k where k: "(k, r) \<in> set (es_rebalances es)" by (auto simp: dvalues_members)
  have ok: "entries_ok (good_rebalance (set (rq_assets rq)) (es_lowering es)) (es_rebalances es)" using es by (simp add: good_entries_def)
  have "complete_rebalance ?cx r" using complete k ok by (auto simp: entries_complete_def entries_ok_def dget_members)
  moreover have "good_rebalance (set (rq_assets rq)) (es_lowering es) k r" by (rule entries_ok_members [OF ok k])
  moreover have "weights_allowed ?cx (es_lowering es)" using complete by (simp add: entries_complete_def)
  ultimately show ?thesis
    using complete_branch_allocated [OF es p wf cx] by (auto simp: complete_rebalance_def good_rebalance_def)
qed

end
