(* ===== verification/V2_Meaning.thy ===== *)
theory V2_Meaning
  imports V2_Routing Lowering_Weights
begin

text \<open>
  What the lowering of a Program keeps: the three-valued truth of a Condition that is flattened to
  comparisons, and the capital a static plan allocates.
\<close>

subsection \<open>Flattened conjunctions\<close>

fun conjunction :: "condition \<Rightarrow> (compare_op \<times> value_expr \<times> value_expr) list" where
  "conjunction (C_comparison _ f l r) = [(f, l, r)]"
| "conjunction (C_group Group_all _ cs) = concat (map conjunction cs)"
| "conjunction _ = []"

definition compared :: "compare_op \<times> value_expr \<times> value_expr \<Rightarrow> condition" where
  "compared q = (case q of (f, l, r) \<Rightarrow> C_comparison [] f l r)"

text \<open>Reading conditions in order, and their conjunction.\<close>

definition all_true ::
  "platform \<Rightarrow> runtime \<Rightarrow> string list \<Rightarrow> string option \<Rightarrow> string option \<Rightarrow> condition list \<Rightarrow> log \<Rightarrow> (truth \<times> log) res" where
  "all_true pf rt ms b c ks obs =
     ebind (emap_st (eval_condition pf rt ms b c) ks obs) (\<lambda>(vs, obs'). Inr (all_of vs, obs'))"

lemma emap_append: "emap f (xs @ ys) = ebind (emap f xs) (\<lambda>us. ebind (emap f ys) (\<lambda>vs. Inr (us @ vs)))"
  by (induction xs) (auto simp: ebind_assoc cong: ebind_cong, (cases "emap f ys"; simp)?)

lemma emap_st_append:
  "emap_st f (xs @ ys) s = ebind (emap_st f xs s) (\<lambda>(us, t). ebind (emap_st f ys t) (\<lambda>(vs, u). Inr (us @ vs, u)))"
proof (induction xs arbitrary: s)
  case Nil
  show ?case by (cases "emap_st f ys s") auto
next
  case (Cons x xs)
  show ?case
  proof (cases "f x s")
    case (Inr q)
    then obtain y t where q: "f x s = Inr (y, t)" by (cases q) auto
    show ?thesis
    proof (cases "emap_st f xs t")
      case (Inr z)
      then obtain us u where z: "emap_st f xs t = Inr (us, u)" by (cases z) auto
      show ?thesis using q z Cons.IH [of t] by (cases "emap_st f ys u") auto
    qed (use q Cons.IH [of t] in simp)
  qed simp
qed

lemma emap_concat:
  assumes "\<And>x ys. x \<in> set xs \<Longrightarrow> g x = Inr ys \<Longrightarrow> emap f (k x) = Inr ys"
    and "emap g xs = Inr yss"
  shows "emap f (concat (map k xs)) = Inr (concat yss)"
  using assms by (induction xs arbitrary: yss) (auto simp: emap_append elim!: ebind_InrE)

lemma all_of_append: "all_of (us @ vs) = truth_and (all_of us) (all_of vs)"
  by (auto simp: all_of_def truth_and_def)

lemma all_true_Nil [simp]: "all_true pf rt ms b c [] obs = Inr (T_true, obs)"
  by (simp add: all_true_def all_of_def)

lemma all_true_append:
  "all_true pf rt ms b c (ks @ js) obs =
     ebind (all_true pf rt ms b c ks obs) (\<lambda>(t, obs1).
     ebind (all_true pf rt ms b c js obs1) (\<lambda>(u, obs2). Inr (truth_and t u, obs2)))"
proof (cases "emap_st (eval_condition pf rt ms b c) ks obs")
  case (Inr q)
  then obtain us obs1 where q: "emap_st (eval_condition pf rt ms b c) ks obs = Inr (us, obs1)" by (cases q) auto
  then show ?thesis
    by (cases "emap_st (eval_condition pf rt ms b c) js obs1") (auto simp: all_true_def emap_st_append all_of_append)
qed (simp add: all_true_def emap_st_append)

lemma all_true_single: "all_true pf rt ms b c [k] obs = eval_condition pf rt ms b c k obs"
proof (cases "eval_condition pf rt ms b c k obs")
  case (Inr q)
  then show ?thesis by (cases q; cases "fst q") (auto simp: all_true_def all_of_def)
qed (simp add: all_true_def)

lemma group_all_true: "eval_condition pf rt ms b c (C_group Group_all i ks) obs = all_true pf rt ms b c ks obs"
  by (simp add: all_true_def group_truth_def)

text \<open>Every child replaced by the conjunction it stands for.\<close>

lemma all_true_concat:
  assumes "\<And>k obs. k \<in> set ks \<Longrightarrow> eval_condition pf rt ms b c k obs = all_true pf rt ms b c (f k) obs"
  shows "all_true pf rt ms b c ks obs = all_true pf rt ms b c (concat (map f ks)) obs"
  using assms
proof (induction ks arbitrary: obs)
  case (Cons k ks)
  have "all_true pf rt ms b c (k # ks) obs = ebind (eval_condition pf rt ms b c k obs) (\<lambda>(t, obs1).
     ebind (all_true pf rt ms b c ks obs1) (\<lambda>(u, obs2). Inr (truth_and t u, obs2)))"
    using all_true_append [of pf rt ms b c "[k]" ks obs] by (simp add: all_true_single)
  also have "\<dots> = all_true pf rt ms b c (f k @ concat (map f ks)) obs"
    unfolding all_true_append using Cons by simp
  finally show ?case by simp
qed simp

lemma program_comparisons_conjunction:
  "program_comparisons k = Inr cs \<Longrightarrow> emap lower_compared (conjunction k) = Inr cs"
proof (induction k arbitrary: cs rule: program_comparisons.induct)
  case (2 i ks)
  from "2.prems" obtain css where css: "emap program_comparisons ks = Inr css" "cs = concat css"
    by (auto elim!: ebind_InrE)
  have "emap lower_compared (concat (map conjunction ks)) = Inr (concat css)"
    using "2.IH" css(1) by (intro emap_concat) auto
  with css(2) show ?case by simp
qed (auto elim!: ebind_InrE)

lemma conjunction_truth:
  "program_comparisons k = Inr cs \<Longrightarrow>
   eval_condition pf rt ms b c k obs = all_true pf rt ms b c (map compared (conjunction k)) obs"
proof (induction k arbitrary: cs obs rule: program_comparisons.induct)
  case (1 i f l r)
  then show ?case by (simp add: all_true_single compared_def)
next
  case (2 i ks)
  from "2.prems" obtain css where css: "emap program_comparisons ks = Inr css" by (auto elim!: ebind_InrE)
  have "eval_condition pf rt ms b c j o' = all_true pf rt ms b c (map compared (conjunction j)) o'"
    if "j \<in> set ks" for j o'
  proof -
    from css that obtain ds where "program_comparisons j = Inr ds"
      unfolding emap_eq_Inr_iff list_all2_conv_all_nth by (metis in_set_conv_nth)
    with "2.IH" that show ?thesis by blast
  qed
  then show ?case
    unfolding group_all_true conjunction.simps map_concat map_map comp_def by (rule all_true_concat)
qed simp_all

subsection \<open>Capital of a static plan\<close>

text \<open>The two branches of a routing statement may share a leg's id; then they must weigh it alike.\<close>

definition legs_agree :: "allocation \<Rightarrow> allocation \<Rightarrow> bool" where
  "legs_agree a b \<longleftrightarrow>
     list_all (\<lambda>l. list_all (\<lambda>m. al_semantic_id l = al_semantic_id m \<longrightarrow> leg_weight a l = leg_weight b m)
       (as_legs b)) (as_legs a)"

definition branches_agree :: "program \<Rightarrow> bool" where
  "branches_agree p \<longleftrightarrow>
     list_all (\<lambda>k. list_all (\<lambda>a. list_all (legs_agree a) (allocations_in (ct_otherwise k))) (allocations_in (ct_then k)))
       (controls_in (pg_statements p))"

abbreviation keyed_sleeves :: "static_state \<Rightarrow> bool" where
  "keyed_sleeves x \<equiv> entries_ok (\<lambda>k s. sl_id s = k) (sx_sleeves x)"

lemma static_sleeve_fields [simp]:
  "sl_id (static_sleeve a leg w members chosen) = al_semantic_id leg"
  "sl_total_weight (static_sleeve a leg w members chosen) = w"
  by (simp_all add: static_sleeve_def Let_def)

lemma lower_leg_sleeve:
  assumes "lower_leg df outputs a leg x = Inr y"
  shows "\<exists>s. sl_id s = al_semantic_id leg \<and> leg_weight a leg = Inr (sl_total_weight s) \<and>
    sx_sleeves y = dset (al_semantic_id leg) s (sx_sleeves x)"
proof -
  obtain members chosen w where "leg_weight a leg = Inr w"
    "sx_sleeves y = dset (al_semantic_id leg) (static_sleeve a leg w members chosen) (sx_sleeves x)"
    using assms by (auto simp: lower_leg_def Let_def elim!: ebind_InrE split: prod.splits)
  then show ?thesis by (intro exI [of _ "static_sleeve a leg w members chosen"]) simp
qed

text \<open>After the legs of an Allocation: its ids are stored at one of its weights, the others as before.\<close>

lemma efold_legs:
  assumes "efold (lower_leg df outputs a) legs x = Inr y" and "keyed_sleeves x"
  shows "keyed_sleeves y \<and>
    (\<forall>i. if i \<in> al_semantic_id ` set legs
         then \<exists>l s. l \<in> set legs \<and> al_semantic_id l = i \<and> dget (sx_sleeves y) i = Some s \<and> leg_weight a l = Inr (sl_total_weight s)
         else dget (sx_sleeves y) i = dget (sx_sleeves x) i)"
  using assms
proof (induction legs arbitrary: x)
  case (Cons leg legs)
  from Cons.prems(1) obtain z where z: "lower_leg df outputs a leg x = Inr z" "efold (lower_leg df outputs a) legs z = Inr y"
    by (auto elim!: ebind_InrE)
  from lower_leg_sleeve [OF z(1)] obtain s where s: "sl_id s = al_semantic_id leg" "leg_weight a leg = Inr (sl_total_weight s)"
    "sx_sleeves z = dset (al_semantic_id leg) s (sx_sleeves x)" by blast
  have "keyed_sleeves z" using Cons.prems(2) s(1) unfolding s(3) by (intro entries_ok_dset) simp_all
  note ih = Cons.IH [OF z(2) this]
  show ?case
  proof (intro conjI allI)
    show "keyed_sleeves y" using ih by blast
    fix i
    consider "i \<in> al_semantic_id ` set legs" | "i \<notin> al_semantic_id ` set legs" "i = al_semantic_id leg"
      | "i \<notin> al_semantic_id ` set (leg # legs)" by auto
    then show "if i \<in> al_semantic_id ` set (leg # legs)
      then \<exists>l s. l \<in> set (leg # legs) \<and> al_semantic_id l = i \<and> dget (sx_sleeves y) i = Some s \<and> leg_weight a l = Inr (sl_total_weight s)
      else dget (sx_sleeves y) i = dget (sx_sleeves x) i"
    proof cases
      case 1
      then obtain l t where "l \<in> set legs" "al_semantic_id l = i" "dget (sx_sleeves y) i = Some t"
        "leg_weight a l = Inr (sl_total_weight t)" using spec [OF conjunct2 [OF ih], of i] by auto
      then show ?thesis using 1 by auto
    next
      case 2
      then have "dget (sx_sleeves y) i = Some s" using ih s(3) by (auto split: if_splits)
      then show ?thesis using 2(2) s(2) by auto
    next
      case 3
      then have "dget (sx_sleeves y) i = dget (sx_sleeves z) i" using ih by auto
      then show ?thesis using 3 s(3) by auto
    qed
  qed
qed simp

lemma allocation_sleeves_fold:
  assumes "allocation_sleeves df outputs a x = Inr (ids, y)"
  shows "efold (lower_leg df outputs a) (as_legs a) x = Inr y \<and> ids = map al_semantic_id (as_legs a) \<and>
    dsum (map (stored_weight y) ids) = 1"
  using assms by (auto simp: allocation_sleeves_def Let_def refuse_v2_def elim!: ebind_InrE split: if_splits)

text \<open>A second Allocation keeps the weights of the first.\<close>

lemma weights_kept:
  assumes a: "allocation_sleeves df outputs a x = Inr (ids, y)" and b: "allocation_sleeves df outputs b y = Inr (other, z)"
    and keyed: "keyed_sleeves x" and agree: "legs_agree a b" and i: "i \<in> set ids"
  shows "stored_weight z i = stored_weight y i"
proof -
  note fa = allocation_sleeves_fold [OF a] and fb = allocation_sleeves_fold [OF b]
  note ya = efold_legs [OF conjunct1 [OF fa] keyed]
  note zb = efold_legs [OF conjunct1 [OF fb] conjunct1 [OF ya]]
  show ?thesis
  proof (cases "i \<in> al_semantic_id ` set (as_legs b)")
    case True
    then obtain m t where m: "m \<in> set (as_legs b)" "al_semantic_id m = i" "dget (sx_sleeves z) i = Some t"
      "leg_weight b m = Inr (sl_total_weight t)" using spec [OF conjunct2 [OF zb], of i] by auto
    have "i \<in> al_semantic_id ` set (as_legs a)" using i fa by auto
    then obtain l s where l: "l \<in> set (as_legs a)" "al_semantic_id l = i" "dget (sx_sleeves y) i = Some s"
      "leg_weight a l = Inr (sl_total_weight s)" using spec [OF conjunct2 [OF ya], of i] by auto
    have "leg_weight a l = leg_weight b m" using agree l(1,2) m(1,2) by (auto simp: legs_agree_def list_all_iff)
    then show ?thesis using l m by (simp add: stored_weight_def)
  next
    case False
    then have "dget (sx_sleeves z) i = dget (sx_sleeves y) i" using zb by auto
    then show ?thesis by (simp add: stored_weight_def)
  qed
qed

lemma lower_selection_sleeves: "lower_selection df st x = Inr y \<Longrightarrow> sx_sleeves y = sx_sleeves x"
  by (auto simp: lower_selection_def Let_def elim!: ebind_InrE)

lemma efold_selection_sleeves: "efold (lower_selection df) sts x = Inr y \<Longrightarrow> sx_sleeves y = sx_sleeves x"
proof (induction sts arbitrary: x)
  case (Cons st sts)
  then obtain z where "lower_selection df st x = Inr z" "efold (lower_selection df) sts z = Inr y" by (auto elim!: ebind_InrE)
  with Cons.IH lower_selection_sleeves show ?case by metis
qed simp

definition fully_weighted :: "static_state \<Rightarrow> string list \<Rightarrow> bool" where
  "fully_weighted x ids \<longleftrightarrow> dsum (map (stored_weight x) ids) = 1"

lemma allocation_sleeves_complete:
  "allocation_sleeves df outputs a x = Inr (ids, y) \<Longrightarrow> keyed_sleeves x \<Longrightarrow> keyed_sleeves y \<and> fully_weighted y ids"
  using allocation_sleeves_fold efold_legs by (metis fully_weighted_def)

lemma route_complete:
  assumes r: "route_static df p outputs body x = Inr (Some (r, clock, y))" and keyed: "keyed_sleeves x"
    and agree: "\<And>k a b. k \<in> set (controls_in body) \<Longrightarrow> a \<in> set (allocations_in (ct_then k)) \<Longrightarrow>
      b \<in> set (allocations_in (ct_otherwise k)) \<Longrightarrow> legs_agree a b"
  shows "keyed_sleeves y \<and> fully_weighted y (rb_sleeve_ids r) \<and>
    (rb_otherwise_sleeve_ids r = [] \<or> fully_weighted y (rb_otherwise_sleeve_ids r))"
proof (cases "allocations_in body")
  case (Cons a as)
  with r obtain ids where "allocation_sleeves df outputs a x = Inr (ids, y)" "r = static_rebalance (as_semantic_id a) ids"
    by (auto simp: route_static_def Let_def refuse_v2_def elim!: ebind_InrE split: if_splits list.splits)
  then show ?thesis using allocation_sleeves_complete keyed by (auto simp: static_rebalance_def)
next
  case Nil
  with r obtain k ks where k: "controls_in body = k # ks" "route_control df outputs k x = Inr (r, y)"
    by (auto simp: route_static_def Let_def refuse_v2_def elim!: ebind_InrE split: if_splits list.splits)
  from k(2) obtain a b where ab: "allocations_in (ct_then k) = [a]" "allocations_in (ct_otherwise k) = [b]"
    by (auto simp: route_control_def refuse_v2_def split: list.splits)
  with k(2) obtain ids u other where u: "allocation_sleeves df outputs a x = Inr (ids, u)"
    "allocation_sleeves df outputs b u = Inr (other, y)" "rb_sleeve_ids r = ids" "rb_otherwise_sleeve_ids r = other"
    by (auto simp: route_control_def static_rebalance_def elim!: ebind_InrE)
  have "legs_agree a b" using agree [of k a b] k(1) ab by simp
  then have "map (stored_weight y) ids = map (stored_weight u) ids"
    using weights_kept [OF u(1,2) keyed] by auto
  moreover note allocation_sleeves_complete [OF u(1) keyed]
  ultimately have "fully_weighted y ids" "keyed_sleeves u" by (simp_all add: fully_weighted_def del: map_eq_conv)
  then show ?thesis using allocation_sleeves_complete [OF u(2)] u(3,4) by auto
qed

lemma plan_weight_stored:
  assumes keyed: "keyed_sleeves x" and n: "normalize_lean_plan (static_plan identity clock r x) = Inr plan"
  shows "sleeve_weight plan i = stored_weight x i"
proof -
  obtain d where "plan = normal_form d (static_plan identity clock r x)" using n by (auto simp: normalize_Inr)
  then have plan: "lp_target_sleeves plan = sort_key sl_id (dvalues (sx_sleeves x))"
    by (simp add: normal_form_def static_plan_def Let_def)
  have ids: "map sl_id (dvalues (sx_sleeves x)) = dkeys (sx_sleeves x)"
    using keyed by (intro entries_ok_ids [where Q = "\<lambda>_ _. True"]) simp
  have dist: "distinct (dkeys (sx_sleeves x))" using keyed by (simp add: entries_ok_def)
  show ?thesis
  proof (cases "dget (sx_sleeves x) i")
    case None
    then have "i \<notin> set (map sl_id (dvalues (sx_sleeves x)))"
      unfolding ids by (simp add: dget_def dkeys_def map_of_eq_None_iff)
    then have "find (\<lambda>s. sl_id s = i) (lp_target_sleeves plan) = None" by (auto simp: plan find_None_iff)
    then show ?thesis by (simp add: sleeve_weight_def stored_weight_def None)
  next
    case (Some s)
    then have "s \<in> set (lp_target_sleeves plan)" "sl_id s = i"
      using keyed dist by (force simp: plan entries_ok_def dget_members dvalues_def)+
    moreover have "distinct (map sl_id (lp_target_sleeves plan))" using dist by (simp add: plan ids)
    ultimately have "find (\<lambda>y. sl_id y = i) (lp_target_sleeves plan) = Some s" using find_by_id by metis
    then show ?thesis by (simp add: sleeve_weight_def stored_weight_def Some)
  qed
qed

lemma controls_in_filter: "set (controls_in (filter P sts)) \<subseteq> set (controls_in sts)"
  by (induction sts) (auto simp: controls_in_def map_filter_simps split: statement.splits option.splits)

lemma static_plan_complete:
  assumes c: "compile_static_program hs s = Inr (Some plan)" and p: "cv_program s = Some p" and agree: "branches_agree p"
    and r: "r \<in> set (lp_rebalances plan)"
  shows "dsum (map (sleeve_weight plan) (rb_sleeve_ids r)) = 1 \<and>
    (rb_otherwise_sleeve_ids r = [] \<or> dsum (map (sleeve_weight plan) (rb_otherwise_sleeve_ids r)) = 1)"
proof -
  let ?body = "filter (\<lambda>st. \<not> is_initial_retain st) (pg_statements p)"
  let ?df = "cv_definitions s" and ?ss = "selections_in (program_statements ?body)"
  obtain x q clock y where x: "efold (lower_selection ?df) ?ss empty_static = Inr x"
    and q: "route_static ?df p (static_outputs ?ss) ?body x = Inr (Some (q, clock, y))"
    and f: "finish_static (hs_strategy hs s) p q clock y = Inr plan"
    using c p by (auto simp: compile_static_program_def Let_def refuse_v2_def elim!: ebind_InrE split: if_splits option.splits)
  have "sx_sleeves x = []" using efold_selection_sleeves [OF x] by (simp add: empty_static_def)
  then have keyed: "keyed_sleeves x" by simp
  have agreed: "legs_agree a b" if "k \<in> set (controls_in ?body)" "a \<in> set (allocations_in (ct_then k))"
    "b \<in> set (allocations_in (ct_otherwise k))" for k a b
    using agree that controls_in_filter by (fastforce simp: branches_agree_def list_all_iff)
  have y: "keyed_sleeves y \<and> fully_weighted y (rb_sleeve_ids q) \<and>
      (rb_otherwise_sleeve_ids q = [] \<or> fully_weighted y (rb_otherwise_sleeve_ids q))"
    by (rule route_complete [OF q keyed]) (rule agreed)
  obtain k where n: "normalize_lean_plan (static_plan (hs_strategy hs s) k q y) = Inr plan"
    using f by (auto simp: finish_static_def refuse_v2_def lift_res_def elim!: ebind_InrE split: if_splits sum.splits)
  have w: "sleeve_weight plan = stored_weight y" using plan_weight_stored [OF conjunct1 [OF y] n] by (intro ext)
  have "r = q" using r n by (auto simp: normalize_Inr normal_form_def static_plan_def Let_def)
  then show ?thesis using y by (simp add: w fully_weighted_def)
qed

end
