(* ===== verification/Generated_Conditions.thy ===== *)
theory Generated_Conditions
  imports Generated_Temporal V2_Meaning Program_Exec
begin

text \<open>
  The Conditions of the generated algorithm against those of \<open>strategy/v2/program_execution.py\<close>:
  the relation \<open>in_step\<close> between the fields of the algorithm and the state of the runtime, the
  values both read of it, and the truth of a Condition lowered by \<open>_temporal_condition\<close>.
\<close>

subsection \<open>What the runtime reads of a snapshot\<close>

text \<open>The adjusted close of an asset at a cutoff.\<close>

definition snapshot_close :: "snapshot \<Rightarrow> int \<Rightarrow> string \<Rightarrow> decimal option" where
  "snapshot_close sn i a =
     (case field_values sn a F_close B_adjusted of
        Inl _ \<Rightarrow> None
      | Inr vs \<Rightarrow> (case py_index (py_slice vs 0 (i + 1)) (- 1) of Inl _ \<Rightarrow> None | Inr v \<Rightarrow> v))"

definition observed_asset :: "daily_node \<Rightarrow> string" where
  "observed_asset n = or_empty (nf_subject_id (dn_fields n))"

lemma leaf_evaluation:
  assumes "evaluate digest c b n (new_evaluator sn (Some i)) = Inr (r, ev)" and "is_leaf_kind (nf_kind (dn_fields n))"
  shows "\<exists>t r0. eval_leaf sn i n t c = Inr r0 \<and> dr_cells r = dr_cells r0 \<and> dr_axes r = dr_axes r0"
proof (cases n)
  case (Daily_node f ops)
  show ?thesis
    using assms unfolding Daily_node evaluate.simps
    by (auto simp: new_evaluator_def dget_def store_result_def Let_def elim!: ebind_InrE)
      (intro exI conjI, assumption, rule refl, rule refl)
qed

lemma daily_observation_evaluates:
  assumes "daily_observation pf rt n c b i obs = Inr (ob, obs')" and "0 \<le> i" "i < int (length (sn_dates (rt_snapshot rt)))"
  shows "\<exists>r ev cell. evaluate (pf_node_digest pf) c b n (new_evaluator (rt_snapshot rt) (Some i)) = Inr (r, ev) \<and>
    dr_axes r = [] \<and> dget (dr_cells r) [] = Some cell \<and> po_value ob = dc_value cell"
  using assms
  by (auto simp: daily_observation_def Let_def lookup_or_raise_def dget_def elim!: ebind_InrE split: if_splits option.splits)

lemma observe_reads_close:
  assumes o': "daily_observation pf rt n c b i obs = Inr (ob, obs')"
    and i: "0 \<le> i" "i < int (length (sn_dates (rt_snapshot rt)))" and n: "asset_close n"
  shows "po_value ob = snapshot_close (rt_snapshot rt) i (observed_asset n)"
proof -
  let ?sn = "rt_snapshot rt"
  obtain f ops where f: "n = Daily_node f ops" by (cases n)
  have kinds: "nf_kind f = K_observe" "nf_field f = Some F_close" "nf_basis f = Some B_adjusted"
    "nf_subject_kind f = Some Subject_asset"
    using n by (simp_all add: f asset_close_def adjusted_close_def)
  obtain r ev cell where r: "evaluate (pf_node_digest pf) c b n (new_evaluator ?sn (Some i)) = Inr (r, ev)"
    "dr_axes r = []" "dget (dr_cells r) [] = Some cell" "po_value ob = dc_value cell"
    using daily_observation_evaluates [OF o' i] by blast
  obtain t r0 where r0: "eval_leaf ?sn i n t c = Inr r0" "dr_cells r = dr_cells r0" "dr_axes r = dr_axes r0"
    using leaf_evaluation [OF r(1)] kinds by (auto simp: f is_leaf_kind_def)
  then have "current_observe ?sn i n t c = Inr r0" using kinds by (simp add: eval_leaf_def f)
  moreover have "st_axes t = []"
    using r(2) r0 kinds by (auto simp: eval_leaf_def f current_observe_def current_result_def plain_result_def elim!: ebind_InrE)
  ultimately obtain vs v where "field_values ?sn (observed_asset n) F_close B_adjusted = Inr vs"
    "py_index (py_slice vs 0 (i + 1)) (- 1) = Inr v" "dr_cells r0 = [([], cell_of v ''observation_unavailable'')]"
    using kinds
    by (auto simp: f current_observe_def current_result_def symbols_def current_cells_def first_if_scalar_def plain_result_def
        field_or_close_def basis_or_adjusted_def observed_asset_def dset_def elim!: ebind_InrE)
  then show ?thesis using r(3,4) r0(2) by (auto simp: snapshot_close_def cell_of_def dget_def)
qed

lemma literal_reads_value:
  assumes o': "daily_observation pf rt n c b i obs = Inr (ob, obs')"
    and i: "0 \<le> i" "i < int (length (sn_dates (rt_snapshot rt)))" and n: "nf_kind (dn_fields n) = K_literal"
  shows "po_value ob = nf_value (dn_fields n)"
proof -
  let ?sn = "rt_snapshot rt"
  obtain r ev cell where r: "evaluate (pf_node_digest pf) c b n (new_evaluator ?sn (Some i)) = Inr (r, ev)"
    "dget (dr_cells r) [] = Some cell" "po_value ob = dc_value cell"
    using daily_observation_evaluates [OF o' i] by blast
  obtain t r0 where "eval_leaf ?sn i n t c = Inr r0" "dr_cells r = dr_cells r0"
    using leaf_evaluation [OF r(1)] n by (auto simp: is_leaf_kind_def)
  then show ?thesis
    using r(2,3) n by (auto simp: eval_leaf_def literal_result_def plain_result_def dget_def missing_cell_def elim!: ebind_InrE)
qed

subsection \<open>Agreement of the two states\<close>

text \<open>\<open>seen\<close> are the Events already executed at this boundary: the algorithm has overwritten their
  truth, the runtime keeps the one before apart.\<close>

definition in_step :: "string set \<Rightarrow> runtime \<Rightarrow> generated \<Rightarrow> bool" where
  "in_step seen rt g \<longleftrightarrow>
     rt_cutoff rt = gs_boundary g \<and>
     (\<forall>k. dget (rt_state rt) k = dget (gs_state g) k) \<and>
     (\<forall>e. dget (rt_event_cutoffs rt) e = dget (gs_event_cutoffs g) e) \<and>
     (\<forall>e. dget (rt_event_counts rt) e = dget (gs_event_counts g) e) \<and>
     (\<forall>m. dget (rt_remembered_values rt) m = dget (gs_memory g) m) \<and>
     (\<forall>e. dget (gs_event_truths g) e = dget (if e \<in> seen then rt_event_truths rt else rt_prior_event_truths rt) e)"

text \<open>The feed shows the closes of the snapshot for every symbol whose closes the algorithm keeps.\<close>

definition feed_shows :: "lean_plan \<Rightarrow> snapshot \<Rightarrow> int \<Rightarrow> feed \<Rightarrow> bool" where
  "feed_shows plan sn i fd \<longleftrightarrow> list_all (\<lambda>a. fd_close fd a = snapshot_close sn i a) (history_symbols plan)"

definition in_range :: "snapshot \<Rightarrow> int \<Rightarrow> bool" where
  "in_range sn i \<longleftrightarrow> 0 \<le> i \<and> i < int (length (sn_dates sn))"

text \<open>The Values the algorithm can read: no completed weeks, and prices only of kept symbols.\<close>

definition readable :: "lean_plan \<Rightarrow> lean_temporal_value \<Rightarrow> bool" where
  "readable plan v \<longleftrightarrow>
     tv_kind v \<noteq> ''completed_weekly_price'' \<and>
     (tv_kind v = ''current_price'' \<longrightarrow> or_empty (tv_asset v) \<in> set (history_symbols plan))"

definition decimal_literal :: "value_expr \<Rightarrow> bool" where
  "decimal_literal v \<longleftrightarrow>
     (case v of
        V_literal _ x _ _ _ \<Rightarrow> is_decimal x
      | V_daily n \<Rightarrow> (case nf_value (dn_fields n) of None \<Rightarrow> True | Some x \<Rightarrow> is_decimal x)
      | _ \<Rightarrow> True)"

lemma in_step_observations [simp]: "in_step seen (rt\<lparr>rt_observations := z\<rparr>) g \<longleftrightarrow> in_step seen rt g"
  by (simp add: in_step_def)

lemma in_step_evidence [simp]: "in_step seen (add_evidence i k x d rt) g \<longleftrightarrow> in_step seen rt g"
  by (simp add: in_step_def add_evidence_def)

lemma record_optional_value: "record_optional pf rt v c reason x obs = Inr (ob, obs') \<Longrightarrow> po_value ob = x"
  by (auto simp: record_optional_def record_value_def observation_at_def Let_def elim!: ebind_InrE)

lemma value_agrees:
  assumes low: "temporal_value v = Inr tv" and rd: "readable plan tv" and dl: "decimal_literal v"
    and ag: "in_step seen rt g" and fd: "feed_shows plan (rt_snapshot rt) (rt_cutoff rt) fd"
    and rg: "in_range (rt_snapshot rt) (rt_cutoff rt)"
    and ev: "eval_value pf rt [] None None v obs = Inr (ob, obs')"
  shows "po_value ob = generated_value plan fd g tv"
proof (cases v)
  case (V_daily n)
  with ev have o': "daily_observation pf rt n None None (rt_cutoff rt) obs = Inr (ob, obs')" by simp
  have i: "0 \<le> rt_cutoff rt" "rt_cutoff rt < int (length (sn_dates (rt_snapshot rt)))" using rg by (simp_all add: in_range_def)
  show ?thesis
  proof (cases "literal_factor n")
    case True
    then obtain x where x: "nf_value (dn_fields n) = Some x" "nf_kind (dn_fields n) = K_literal" by (auto simp: literal_factor_def)
    then have "po_value ob = Some x" using literal_reads_value [OF o' i] by simp
    moreover have "is_decimal x" using dl x(1) by (simp add: V_daily decimal_literal_def)
    ultimately show ?thesis
      using low True x(1) decimal_value_written
      by (auto simp: V_daily temporal_value_def Let_def generated_value_def temporal_value_of_def)
  next
    case False
    then have n: "asset_close n" and tv: "tv = (temporal_value_of ''current_price'' (nf_semantic_id (dn_fields n)))\<lparr>tv_asset := nf_subject_id (dn_fields n)\<rparr>"
      using low by (auto simp: V_daily temporal_value_def Let_def no_temporal_value_def split: if_splits)
    from n have a: "nf_subject_id (dn_fields n) = Some (observed_asset n)"
      by (auto simp: asset_close_def observed_asset_def truthy_def or_empty_def split: option.splits)
    have "observed_asset n \<in> set (history_symbols plan)" using rd a by (simp add: readable_def tv temporal_value_of_def or_empty_def)
    moreover have "po_value ob = snapshot_close (rt_snapshot rt) (rt_cutoff rt) (observed_asset n)"
      by (rule observe_reads_close [OF o' i n])
    ultimately show ?thesis
      using fd a by (simp add: tv temporal_value_of_def generated_value_def current_price_def feed_shows_def list_all_iff)
  qed
next
  case (V_literal i x q u r)
  then have "po_value ob = Some x" using ev by (auto simp: observation_at_def elim!: ebind_InrE)
  then show ?thesis
    using low dl decimal_value_written
    by (auto simp: V_literal temporal_value_def generated_value_def temporal_value_of_def decimal_literal_def)
next
  case (V_remembered i m q u r)
  then show ?thesis
    using low ag record_optional_value ev
    by (auto simp: temporal_value_def generated_value_def temporal_value_of_def in_step_def)
next
  case (V_bars_since_event i e)
  then show ?thesis
    using low ag record_optional_value ev
    by (auto simp: temporal_value_def generated_value_def temporal_value_of_def in_step_def bars_since_def)
next
  case (V_clocked i n k)
  then show ?thesis using low rd
    by (auto simp: temporal_value_def no_temporal_value_def readable_def temporal_value_of_def split: if_splits)
qed (use low in \<open>auto simp: temporal_value_def no_temporal_value_def\<close>)

subsection \<open>Conditions\<close>

lemma compare_text_generated: "generated_compare (compare_text f) x y = compare_decimals f x y"
  by (cases f) (simp_all add: generated_compare_def)

lemma truth_text_of_bool: "truth_text (truth_of_bool b) = text_of_bool b"
  by (simp add: truth_text_def truth_of_bool_def text_of_bool_def)

lemma truth_text_inject [simp]: "truth_text a = truth_text b \<longleftrightarrow> a = b"
  by (cases a; cases b) (simp_all add: truth_text_def)

lemma truth_text_and: "truth_text (truth_and a b) = all_truth (truth_text a) (truth_text b)"
  by (cases a; cases b) (simp_all add: truth_text_def truth_and_def all_truth_def)

text \<open>The truths of the parts of a temporal condition, \<open>tc\<close> that of its comparison.\<close>

definition part_truths :: "runtime \<Rightarrow> truth \<Rightarrow> temporal_parts \<Rightarrow> truth set" where
  "part_truths rt tc parts =
     (case pp_state parts of None \<Rightarrow> {} | Some (k, e) \<Rightarrow> {state_truth rt k e})
     \<union> (case pp_window parts of None \<Rightarrow> {} | Some (e, r, n) \<Rightarrow> {event_window_truth rt e r n})
     \<union> (case pp_comparison parts of None \<Rightarrow> {} | Some _ \<Rightarrow> {tc})"

lemma take_part_truths:
  assumes "take_part c q = Inr parts" and "eval_condition pf rt ms b cand c obs = Inr (t, obs')"
    and "\<And>i f l r. c = C_comparison i f l r \<Longrightarrow> t = tc"
  shows "part_truths rt tc parts = insert t (part_truths rt tc q)"
  using assms by (cases c) (auto simp: take_part_def part_truths_def Let_def split: if_splits)

lemma take_part_comparison: "take_part c q = Inr parts \<Longrightarrow> pp_comparison q = Some x \<Longrightarrow> pp_comparison parts = Some x"
  by (cases c) (auto simp: take_part_def Let_def split: if_splits)

lemma parts_comparison: "efold take_part cs q = Inr parts \<Longrightarrow> pp_comparison q = Some x \<Longrightarrow> pp_comparison parts = Some x"
  by (induction cs arbitrary: q) (auto elim!: ebind_InrE dest: take_part_comparison)

lemma parts_comparison_of:
  "efold take_part cs q = Inr parts \<Longrightarrow> C_comparison i f l r \<in> set cs \<Longrightarrow> pp_comparison parts = Some (f, l, r)"
proof (induction cs arbitrary: q)
  case (Cons c cs)
  from Cons.prems(1) obtain z where z: "take_part c q = Inr z" "efold take_part cs z = Inr parts" by (auto elim!: ebind_InrE)
  show ?case
  proof (cases "c = C_comparison i f l r")
    case True
    then have "pp_comparison z = Some (f, l, r)" using z(1) by (auto simp: take_part_def Let_def split: if_splits)
    then show ?thesis by (rule parts_comparison [OF z(2)])
  qed (use Cons z(2) in auto)
qed simp

lemma fold_part_truths:
  assumes "efold take_part cs q = Inr parts" and "emap_st (eval_condition pf rt ms b cand) cs obs = Inr (vs, obs')"
    and "\<And>i f l r obs obs' t. C_comparison i f l r \<in> set cs \<Longrightarrow>
      eval_condition pf rt ms b cand (C_comparison i f l r) obs = Inr (t, obs') \<Longrightarrow> t = tc"
  shows "part_truths rt tc parts = set vs \<union> part_truths rt tc q"
  using assms
proof (induction cs arbitrary: q obs vs)
  case (Cons c cs)
  from Cons.prems(1) obtain z where z: "take_part c q = Inr z" "efold take_part cs z = Inr parts" by (auto elim!: ebind_InrE)
  from Cons.prems(2) obtain t obs1 ts where t: "eval_condition pf rt ms b cand c obs = Inr (t, obs1)"
    "emap_st (eval_condition pf rt ms b cand) cs obs1 = Inr (ts, obs')" "vs = t # ts" by (auto elim!: ebind_InrE)
  have "part_truths rt tc parts = set ts \<union> part_truths rt tc z"
    by (rule Cons.IH [OF z(2) t(2)]) (rule Cons.prems(3) [OF list.set_intros(2)])
  moreover have "t = tc" if "c = C_comparison i f l r" for i f l r
    using Cons.prems(3) [of i f l r obs t obs1] t(1) that by (simp del: eval_condition.simps)
  then have "part_truths rt tc z = insert t (part_truths rt tc q)" by (rule take_part_truths [OF z(1) t(1)])
  ultimately show ?case using t(3) by auto
qed simp

lemma all_of_insert: "set vs = insert t A \<Longrightarrow> set ws = A \<Longrightarrow> all_of vs = truth_and t (all_of ws)"
  by (auto simp: all_of_def truth_and_def)

lemma conjuncts_truth: "all_true pf rt ms b cand (conjuncts c) obs = eval_condition pf rt ms b cand c obs"
proof (cases c)
  case (C_group k i cs)
  then show ?thesis by (cases k) (simp_all add: conjuncts_def group_all_true all_true_single del: eval_condition.simps)
qed (simp_all add: conjuncts_def all_true_single del: eval_condition.simps)

text \<open>An Event window and the boundary of its own Event.\<close>

definition window_applies :: "runtime \<Rightarrow> lean_temporal_condition \<Rightarrow> bool" where
  "window_applies rt k \<longleftrightarrow>
     (case tk_after_event_id k of None \<Rightarrow> True | Some e \<Rightarrow> dget (rt_event_cutoffs rt) e \<noteq> Some (rt_cutoff rt))"

lemma window_text_truth:
  assumes "in_step seen rt g" and "dget (rt_event_cutoffs rt) e \<noteq> Some (rt_cutoff rt)"
  shows "window_text g e n = truth_text (event_window_truth rt e Within n)"
proof (cases "dget (rt_event_cutoffs rt) e")
  case None
  then show ?thesis using assms(1) by (simp add: in_step_def window_text_def event_window_truth_def truth_text_def)
next
  case (Some c)
  then have c: "dget (gs_event_cutoffs g) e = Some c" "gs_boundary g = rt_cutoff rt" "c \<noteq> rt_cutoff rt"
    using assms by (auto simp: in_step_def)
  have "c < rt_cutoff rt \<longleftrightarrow> 0 \<le> rt_cutoff rt - c" using c(3) by auto
  then show ?thesis
    using Some c by (cases n) (auto simp: window_text_def event_window_truth_def Let_def truth_text_of_bool or_zero_def)
qed

definition condition_readable :: "lean_plan \<Rightarrow> lean_temporal_condition \<Rightarrow> bool" where
  "condition_readable plan k \<longleftrightarrow> readable plan (tk_left k) \<and> readable plan (tk_right k)"

definition decimal_condition :: "condition \<Rightarrow> bool" where
  "decimal_condition c \<longleftrightarrow> list_all (\<lambda>k. list_all decimal_literal (condition_values k)) (conjuncts c)"

text \<open>A condition evaluates in the runtime to what the algorithm computes.\<close>

lemma condition_agrees:
  assumes low: "temporal_condition c = Inr k" and rd: "condition_readable plan k" and dl: "decimal_condition c"
    and ag: "in_step seen rt g" and fd: "feed_shows plan (rt_snapshot rt) (rt_cutoff rt) fd"
    and rg: "in_range (rt_snapshot rt) (rt_cutoff rt)" and win: "window_applies rt k"
    and ev: "eval_condition pf rt [] None None c obs = Inr (t, obs')"
  shows "truth_text t = generated_truth plan fd g k"
proof -
  from low obtain parts f l r where parts: "temporal_parts_of c = Inr parts" "pp_comparison parts = Some (f, l, r)"
    by (auto simp: temporal_condition_def elim!: ebind_InrE split: option.splits)
  with low obtain tl tr where tl: "temporal_value l = Inr tl" "temporal_value r = Inr tr"
    and within: "\<And>e q n. pp_window parts = Some (e, q, n) \<Longrightarrow> q = Within"
    and k: "tk_operator k = compare_text f" "tk_left k = tl" "tk_right k = tr"
      "tk_required_state_key k = map_option fst (pp_state parts)" "tk_required_state_value k = map_option snd (pp_state parts)"
      "tk_after_event_id k = map_option fst (pp_window parts)" "tk_within_observations k = Option.bind (pp_window parts) (snd \<circ> snd)"
    by (auto simp: temporal_condition_def elim!: ebind_InrE split: option.splits)
  note folded = parts(1) [unfolded temporal_parts_of_def]
  have values_of: "decimal_literal l \<and> decimal_literal r" if "C_comparison i f l r \<in> set (conjuncts c)" for i
    using dl that by (auto simp: decimal_condition_def list_all_iff dest!: bspec)
  have cmp: "truth_text u = comparison_text plan fd g k"
    if "C_comparison i f' l' r' \<in> set (conjuncts c)" "eval_condition pf rt [] None None (C_comparison i f' l' r') o1 = Inr (u, o2)"
    for i f' l' r' u o1 o2
  proof -
    have same: "f' = f" "l' = l" "r' = r" using parts_comparison_of [OF folded that(1)] parts(2) by simp_all
    note dec = values_of [OF that(1) [unfolded same]]
    from that(2) obtain a b o' where ab: "eval_value pf rt [] None None l o1 = Inr (a, o')"
      "eval_value pf rt [] None None r o' = Inr (b, o2)" "u = compare_truth f (po_value a) (po_value b)"
      by (auto simp: same elim!: ebind_InrE)
    have "po_value a = generated_value plan fd g tl"
      by (rule value_agrees [OF tl(1) _ _ ag fd rg ab(1)]) (use rd k dec in \<open>auto simp: condition_readable_def\<close>)
    moreover have "po_value b = generated_value plan fd g tr"
      by (rule value_agrees [OF tl(2) _ _ ag fd rg ab(2)]) (use rd k dec in \<open>auto simp: condition_readable_def\<close>)
    ultimately show ?thesis
      using ab(3) by (auto simp: comparison_text_def k compare_truth_def truth_text_of_bool compare_text_generated
          truth_text_def [of T_unknown] split: option.split)
  qed
  have "all_true pf rt [] None None (conjuncts c) obs = Inr (t, obs')" using ev by (simp only: conjuncts_truth)
  then obtain vs obs1 where vs: "emap_st (eval_condition pf rt [] None None) (conjuncts c) obs = Inr (vs, obs1)" "t = all_of vs"
    unfolding all_true_def by (auto elim!: ebind_InrE)
  define tc where "tc = (if comparison_text plan fd g k = ''true'' then T_true
    else if comparison_text plan fd g k = ''false'' then T_false else T_unknown)"
  have tc: "truth_text tc = comparison_text plan fd g k"
    by (auto simp: tc_def comparison_text_def text_of_bool_def truth_text_def split: option.split)
  have "u = tc" if "C_comparison i f' l' r' \<in> set (conjuncts c)"
    "eval_condition pf rt [] None None (C_comparison i f' l' r') o1 = Inr (u, o2)" for i f' l' r' u o1 o2
    using cmp [OF that] unfolding tc [symmetric] by simp
  from fold_part_truths [OF folded vs(1) this]
  have set_vs: "set vs = part_truths rt tc parts" by (simp add: part_truths_def)
  show ?thesis
  proof -
    let ?s = "case pp_state parts of None \<Rightarrow> T_true | Some (key, x) \<Rightarrow> state_truth rt key x"
    let ?w = "case pp_window parts of None \<Rightarrow> T_true | Some (e, q, n) \<Rightarrow> event_window_truth rt e q n"
    have "all_of vs = truth_and (truth_and tc ?s) ?w"
      unfolding all_of_def truth_and_def set_vs part_truths_def parts(2)
      by (cases "pp_state parts"; cases "pp_window parts") (auto split: prod.splits)
    then have "truth_text t = all_truth (all_truth (truth_text tc) (truth_text ?s)) (truth_text ?w)"
      by (simp add: vs(2) truth_text_and)
    moreover have "all_truth x ''true'' = x" if "x \<in> {''true'', ''false'', ''unknown''}" for x
      using that by (auto simp: all_truth_def)
    moreover have "comparison_text plan fd g k \<in> {''true'', ''false'', ''unknown''}" unfolding tc [symmetric] truth_text_def
      by (auto split: truth.split)
    moreover have "all_truth x y \<in> {''true'', ''false'', ''unknown''}" for x y by (auto simp: all_truth_def)
    moreover have "truth_text (state_truth rt key x) = text_of_bool (state_equals g key x)" for key x
      using ag by (simp add: state_truth_def truth_text_of_bool state_equals_def in_step_def)
    moreover have "truth_text ?w = window_text g e n" if "pp_window parts = Some (e, q, n)" for e q n
      using window_text_truth [OF ag, of e n] win within [OF that] that by (simp add: window_applies_def k)
    ultimately show ?thesis
      unfolding generated_truth_def Let_def k tc
      by (cases "pp_state parts"; cases "pp_window parts") (auto simp: truth_text_def [of T_true] split: prod.splits)
  qed
qed

end
