(* ===== verification/Generated_Refinement.thy ===== *)
theory Generated_Refinement
  imports Generated_Conditions
begin

text \<open>
  The generated algorithm against the reference runtime of \<open>strategy/v2/program_execution.py\<close>: an
  Event lowered by \<open>strategy/v2/bridge.py\<close> fires in the one exactly when it fires in the other and
  has the same effects, and the policy targets are chosen as the guarded Allocation chooses.
\<close>

subsection \<open>Actions\<close>

text \<open>An action without a clock of its own, whose literals are decimals; a transition leaves a
  non-empty state.\<close>

definition plain_action :: "statement \<Rightarrow> bool" where
  "plain_action st \<longleftrightarrow>
     (case st of
        S_remember _ _ v k \<Rightarrow> k = None \<and> decimal_literal v
      | S_transition _ tr \<Rightarrow> tr_clock_id tr = None \<and> tr_from_value tr \<noteq> Some []
      | _ \<Rightarrow> False)"

definition action_readable :: "lean_plan \<Rightarrow> lean_temporal_action \<Rightarrow> bool" where
  "action_readable plan a \<longleftrightarrow> (case ta_value a of None \<Rightarrow> True | Some v \<Rightarrow> readable plan v)"

text \<open>What stays fixed at a boundary.\<close>

definition same_boundary :: "runtime \<Rightarrow> runtime \<Rightarrow> bool" where
  "same_boundary rt rt' \<longleftrightarrow>
     rt_program rt' = rt_program rt \<and> rt_snapshot rt' = rt_snapshot rt \<and> rt_cutoff rt' = rt_cutoff rt \<and>
     rt_prior_event_truths rt' = rt_prior_event_truths rt"

lemma same_boundary_refl [simp]: "same_boundary rt rt"
  by (simp add: same_boundary_def)

lemma same_boundary_trans [trans]: "same_boundary a b \<Longrightarrow> same_boundary b c \<Longrightarrow> same_boundary a c"
  by (simp add: same_boundary_def)

lemma run_value_keeps: "run_value pf ms b c v rt = Inr (ob, rt') \<Longrightarrow>
    \<exists>z. eval_value pf rt ms b c v (rt_observations rt) = Inr (ob, z) \<and> rt' = rt\<lparr>rt_observations := z\<rparr>"
  by (auto simp: run_value_def elim!: ebind_InrE)

lemma run_condition_keeps: "run_condition pf ms b c k rt = Inr (t, rt') \<Longrightarrow>
    \<exists>z. eval_condition pf rt ms b c k (rt_observations rt) = Inr (t, z) \<and> rt' = rt\<lparr>rt_observations := z\<rparr>"
  by (auto simp: run_condition_def elim!: ebind_InrE)

lemma run_remember_result:
  assumes "run_remember pf i m v rt = Inr rt'" and "run_value pf [] None None v rt = Inr (ob, rt1)"
  shows "\<exists>x d. rt' = add_evidence i ''remember'' x d (case po_value ob of None \<Rightarrow> rt1
    | Some y \<Rightarrow> rt1\<lparr>rt_remembered_values := dset m y (rt_remembered_values rt1)\<rparr>)"
proof (cases "po_value ob")
  case None
  then have "rt' = add_evidence i ''remember'' ''unavailable''
      (Detail (if truthy (po_reason ob) then or_empty (po_reason ob) else ''unknown'')) rt1"
    using assms by (simp add: run_remember_def)
  then show ?thesis unfolding None option.case by (intro exI)
next
  case (Some y)
  then have "rt' = add_evidence i ''remember'' ''stored'' (Detail_memory m y (po_expression_hash ob))
      (rt1\<lparr>rt_remembered_values := dset m y (rt_remembered_values rt1)\<rparr>)"
    using assms by (simp add: run_remember_def)
  then show ?thesis unfolding Some option.case by (intro exI)
qed

lemma run_transition_result:
  assumes "run_transition pf i tr rt = Inr rt'" and "tr_when tr = C_state_equals j (tr_state_key tr) e"
    and "tr_from_value tr = Some e"
  shows "\<exists>z x d n. rt' = add_evidence i ''transition'' x d (if dget (rt_state rt) (tr_state_key tr) = Some e
    then rt\<lparr>rt_observations := z, rt_state := dset (tr_state_key tr) (tr_to_value tr) (rt_state rt), rt_state_entered_cutoffs := n\<rparr>
    else rt\<lparr>rt_observations := z\<rparr>)"
proof (cases "dget (rt_state rt) (tr_state_key tr) = Some e")
  case True
  then have "rt' = add_evidence i ''transition'' (truth_text T_true) (Detail_state (tr_state_key tr) (Some (tr_to_value tr)))
    (rt\<lparr>rt_observations := rt_observations rt, rt_state := dset (tr_state_key tr) (tr_to_value tr) (rt_state rt),
        rt_state_entered_cutoffs := (if Some e \<noteq> Some (tr_to_value tr)
          then dset (tr_state_key tr) (rt_cutoff rt) (rt_state_entered_cutoffs rt) else rt_state_entered_cutoffs rt)\<rparr>)"
    using assms by (simp add: run_transition_def Let_def run_condition_def state_truth_def truth_of_bool_def)
  then show ?thesis unfolding if_P [OF True] by (intro exI)
next
  case False
  then have "rt' = add_evidence i ''transition'' (truth_text T_false) (Detail_state (tr_state_key tr) (dget (rt_state rt) (tr_state_key tr)))
      (rt\<lparr>rt_observations := rt_observations rt\<rparr>)"
    using assms by (simp add: run_transition_def Let_def)
  then show ?thesis unfolding if_not_P [OF False] by (intro exI)
qed

lemma remember_agrees:
  assumes low: "temporal_action (S_remember i m v k) = Inr a" and plain: "plain_action (S_remember i m v k)"
    and rd: "action_readable plan a" and ag: "in_step seen rt g"
    and fd: "feed_shows plan (rt_snapshot rt) (rt_cutoff rt) fd" and rg: "in_range (rt_snapshot rt) (rt_cutoff rt)"
    and run: "run_statement pf (S_remember i m v k) rt = Inr rt'"
  shows "in_step seen rt' (generated_action plan fd a g) \<and> same_boundary rt rt'"
proof -
  from low obtain tv where tv: "temporal_value v = Inr tv"
    "ta_kind a = ''remember''" "ta_memory_id a = Some m" "ta_value a = Some tv"
    by (auto simp: temporal_action_def elim!: ebind_InrE)
  have "run_remember pf i m v rt = Inr rt'" using run plain by (simp add: plain_action_def when_due_def clock_due_def)
  moreover from this obtain ob rt1 where ob: "run_value pf [] None None v rt = Inr (ob, rt1)"
    by (auto simp: run_remember_def elim!: ebind_InrE)
  ultimately obtain x d where rt': "rt' = add_evidence i ''remember'' x d (case po_value ob of None \<Rightarrow> rt1
      | Some y \<Rightarrow> rt1\<lparr>rt_remembered_values := dset m y (rt_remembered_values rt1)\<rparr>)"
    using run_remember_result by blast
  from run_value_keeps [OF ob] obtain z where z: "eval_value pf rt [] None None v (rt_observations rt) = Inr (ob, z)"
    "rt1 = rt\<lparr>rt_observations := z\<rparr>" by blast
  have "po_value ob = generated_value plan fd g tv"
    by (rule value_agrees [OF tv(1) _ _ ag fd rg z(1)]) (use rd plain tv in \<open>auto simp: action_readable_def plain_action_def\<close>)
  then show ?thesis
    using rt' z(2) tv ag
    by (auto simp: generated_action_def Let_def in_step_def add_evidence_def same_boundary_def split: option.splits)
qed

lemma transition_agrees:
  assumes low: "temporal_action (S_transition i tr) = Inr a" and plain: "plain_action (S_transition i tr)"
    and ag: "in_step seen rt g" and run: "run_statement pf (S_transition i tr) rt = Inr rt'"
  shows "in_step seen rt' (generated_action plan fd a g) \<and> same_boundary rt rt'"
proof -
  from low obtain j e where tr: "tr_when tr = C_state_equals j (tr_state_key tr) e" "tr_from_value tr = Some e"
    and a: "ta_kind a = ''transition''" "ta_state_key a = Some (tr_state_key tr)" "ta_from_value a = Some e"
      "ta_to_value a = Some (tr_to_value tr)"
    by (auto simp: temporal_action_def split: condition.splits if_splits)
  have e: "e \<noteq> []" using plain tr by (simp add: plain_action_def)
  let ?key = "tr_state_key tr"
  have "run_transition pf i tr rt = Inr rt'" using run plain by (simp add: plain_action_def when_due_def clock_due_def)
  then obtain z x d n where rt': "rt' = add_evidence i ''transition'' x d (if dget (rt_state rt) ?key = Some e
      then rt\<lparr>rt_observations := z, rt_state := dset ?key (tr_to_value tr) (rt_state rt), rt_state_entered_cutoffs := n\<rparr>
      else rt\<lparr>rt_observations := z\<rparr>)"
    using run_transition_result [OF _ tr] by blast
  have g: "dget_or (gs_state g) ?key [] = e \<longleftrightarrow> dget (rt_state rt) ?key = Some e"
    using ag e by (auto simp: in_step_def dget_or_def dget_def split: option.splits)
  show ?thesis
    using rt' g a ag by (auto simp: generated_action_def Let_def in_step_def add_evidence_def same_boundary_def split: if_splits)
qed

lemma actions_agree:
  assumes "emap temporal_action body = Inr as" and "list_all plain_action body" and "list_all (action_readable plan) as"
    and "in_step seen rt g" and "feed_shows plan (rt_snapshot rt) (rt_cutoff rt) fd"
    and "in_range (rt_snapshot rt) (rt_cutoff rt)" and "efold (run_statement pf) body rt = Inr rt'"
  shows "in_step seen rt' (fold (generated_action plan fd) as g) \<and> same_boundary rt rt'"
  using assms
proof (induction body arbitrary: as rt g)
  case (Cons st body)
  from Cons.prems(1) obtain a bs where as: "temporal_action st = Inr a" "emap temporal_action body = Inr bs" "as = a # bs"
    by (auto elim!: ebind_InrE)
  from Cons.prems(7) obtain rt1 where run: "run_statement pf st rt = Inr rt1" "efold (run_statement pf) body rt1 = Inr rt'"
    by (auto elim!: ebind_InrE)
  have plain: "plain_action st" "list_all plain_action body" and rd: "action_readable plan a" "list_all (action_readable plan) bs"
    using Cons.prems(2,3) as(3) by simp_all
  have step: "in_step seen rt1 (generated_action plan fd a g) \<and> same_boundary rt rt1"
  proof (cases st)
    case (S_remember i m v k)
    then show ?thesis
      using remember_agrees [OF _ _ rd(1) Cons.prems(4,5,6)] as(1) plain(1) run(1) by blast
  next
    case (S_transition i tr)
    then show ?thesis using transition_agrees [OF _ _ Cons.prems(4)] as(1) plain(1) run(1) by blast
  qed (use plain(1) in \<open>simp_all add: plain_action_def\<close>)
  then have keep: "rt_snapshot rt1 = rt_snapshot rt" "rt_cutoff rt1 = rt_cutoff rt" by (simp_all add: same_boundary_def)
  have "in_step seen rt' (fold (generated_action plan fd) bs (generated_action plan fd a g)) \<and> same_boundary rt1 rt'"
    by (rule Cons.IH [OF as(2) plain(2) rd(2) conjunct1 [OF step] _ _ run(2)]) (use Cons.prems(5,6) keep in simp_all)
  then show ?case using step as(3) same_boundary_trans by auto
qed simp

subsection \<open>Events\<close>

text \<open>An Event whose windows do not open at their own boundary and whose body is plain. \<open>restarted\<close>:
  the runtime has the Event's last truth, or none is due.\<close>

definition plain_event :: "string \<times> event_definition \<times> statement list \<Rightarrow> bool" where
  "plain_event q \<longleftrightarrow>
     (case q of (i, e, body) \<Rightarrow>
        (case ed_condition e of None \<Rightarrow> False | Some c \<Rightarrow> decimal_condition c) \<and> list_all plain_action body)"

definition event_readable :: "lean_plan \<Rightarrow> lean_temporal_event \<Rightarrow> bool" where
  "event_readable plan le \<longleftrightarrow>
     condition_readable plan (te_condition le) \<and> tk_after_event_id (te_condition le) = None \<and>
     list_all (action_readable plan) (te_actions le)"

definition restarted :: "runtime \<Rightarrow> string \<Rightarrow> bool" where
  "restarted rt e \<longleftrightarrow> dhas (rt_prior_event_truths rt) e \<or> rt_cutoff rt \<le> 0"

lemma trigger_agrees:
  "t \<in> {Rising_edge, While_true, Crosses_above, Crosses_below} \<Longrightarrow>
   edge_triggered t current previous = generated_trigger (trigger_text t) current previous"
  by (cases t) (simp_all add: edge_triggered_def generated_trigger_def rising_def falling_def)

lemma find_map_of: "map_of (map (\<lambda>k. (f k, k)) xs) i = Some k \<Longrightarrow> find (\<lambda>k. f k = i) xs = Some k"
  by (induction xs) (auto split: if_splits)

lemma daily_clock_due:
  assumes "distinct (map pc_id (pg_clocks p))" and "dget (clocks_by_id p) i = Some k" and "pc_timeframe k = TF_daily"
    and "rt_program rt = p"
  shows "clock_due rt (Some i) = Inr True"
proof -
  have "map_of (map (\<lambda>k. (pc_id k, k)) (pg_clocks p)) i = Some k"
    using assms(1,2) by (simp add: clocks_by_id_def dict_of_distinct comp_def dget_def)
  then have "find (\<lambda>k. pc_id k = i) (pg_clocks p) = Some k" by (rule find_map_of)
  then show ?thesis using assms(3,4) by (simp add: clock_due_def clock_due_at_def find_clock_def)
qed

lemma lower_event_parts:
  assumes "lower_event p (i, e, body) = Inr le"
  shows "te_semantic_id le = ed_semantic_id e \<and> te_trigger le = trigger_text (ed_trigger e) \<and>
    te_occurrence le = occurrence_text (ed_occurrence e) \<and> emap temporal_action body = Inr (te_actions le) \<and>
    (\<exists>c. ed_condition e = Some c \<and> temporal_condition c = Inr (te_condition le)) \<and>
    ed_trigger e \<in> {Rising_edge, While_true, Crosses_above, Crosses_below} \<and> ed_occurrence e \<in> {Occ_every, Occ_first} \<and>
    (\<exists>k. dget (clocks_by_id p) (ed_clock_id e) = Some k \<and> pc_timeframe k = TF_daily)"
  using assms by (auto simp: lower_event_def refuse_v2_def elim!: ebind_InrE split: option.splits if_splits)

lemma fire_event_fields:
  assumes "fire_event pf i e rt = Inr (fires, rt')" and "current_truth pf e rt = Inr (current, rt1)"
    and "previous_truth pf e rt1 = Inr previous"
    and edge: "edge = edge_triggered (ed_trigger e) current previous"
    and count: "count = dget_or (rt_event_counts rt1) (ed_semantic_id e) 0 + 1"
  shows "fires = (edge \<and> occurrence_admits e count) \<and> rt_program rt' = rt_program rt1 \<and> rt_snapshot rt' = rt_snapshot rt1 \<and>
    rt_cutoff rt' = rt_cutoff rt1 \<and> rt_state rt' = rt_state rt1 \<and> rt_remembered_values rt' = rt_remembered_values rt1 \<and>
    rt_prior_event_truths rt' = rt_prior_event_truths rt1 \<and>
    rt_event_truths rt' = dset (ed_semantic_id e) current (rt_event_truths rt1) \<and>
    rt_event_counts rt' = (if edge then dset (ed_semantic_id e) count (rt_event_counts rt1) else rt_event_counts rt1) \<and>
    rt_event_cutoffs rt' = (if fires then dset (ed_semantic_id e) (rt_cutoff rt1) (rt_event_cutoffs rt1) else rt_event_cutoffs rt1)"
proof (cases edge)
  case True
  then show ?thesis
    using assms(1-3) unfolding edge count
    by (cases "occurrence_admits e count") (auto simp: fire_event_def Let_def add_evidence_def count)
next
  case False
  then show ?thesis
    using assms(1-3) unfolding edge count by (auto simp: fire_event_def Let_def add_evidence_def)
qed

text \<open>The header of an Event: both fire, or neither does.\<close>

lemma fire_agrees:
  assumes le: "lower_event p (i, e, body) = Inr le" and c: "ed_condition e = Some c" and dl: "decimal_condition c"
    and rd: "condition_readable plan (te_condition le)" and win: "window_applies rt (te_condition le)"
    and ag: "in_step seen rt g" and fresh: "ed_semantic_id e \<notin> seen" and restart: "restarted rt (ed_semantic_id e)"
    and fd: "feed_shows plan (rt_snapshot rt) (rt_cutoff rt) fd" and rg: "in_range (rt_snapshot rt) (rt_cutoff rt)"
    and fire: "fire_event pf i e rt = Inr (fires, rt')"
  shows "same_boundary rt rt' \<and> (\<exists>g'. in_step (insert (ed_semantic_id e) seen) rt' g' \<and>
    generated_event plan fd le g = (if fires then fold (generated_action plan fd) (te_actions le) g' else g'))"
proof -
  note parts = lower_event_parts [OF le]
  let ?a = "ed_semantic_id e"
  obtain k where k: "temporal_condition c = Inr k" "te_condition le = k" using parts c by auto
  have trig: "ed_trigger e \<noteq> Scheduled" using parts by auto
  from fire obtain t rt1 where t: "run_condition pf [] None None c rt = Inr (t, rt1)"
    using trig c by (auto simp: fire_event_def current_truth_def required_condition_def Let_def elim!: ebind_InrE)
  then have cur: "current_truth pf e rt = Inr (truth_text t, rt1)"
    using trig c by (simp add: current_truth_def required_condition_def)
  from run_condition_keeps [OF t] obtain z where z: "eval_condition pf rt [] None None c (rt_observations rt) = Inr (t, z)"
    "rt1 = rt\<lparr>rt_observations := z\<rparr>" by blast
  have prev: "previous_truth pf e rt1 = Inr (dget_or (rt_prior_event_truths rt) ?a ''false'')"
    using restart z(2) by (auto simp: previous_truth_def restarted_def)
  have truth: "truth_text t = generated_truth plan fd g k"
    by (rule condition_agrees [OF k(1) _ dl ag fd rg _ z(1)]) (use rd win k(2) in simp_all)
  have previous: "dget_or (gs_event_truths g) ?a ''false'' = dget_or (rt_prior_event_truths rt) ?a ''false''"
    using ag fresh by (auto simp: in_step_def dget_or_def dget_def)
  have counts: "dget_or (gs_event_counts g) ?a 0 = dget_or (rt_event_counts rt) ?a 0"
    using ag by (simp add: in_step_def dget_or_def dget_def)
  define edge where "edge = edge_triggered (ed_trigger e) (truth_text t) (dget_or (rt_prior_event_truths rt) ?a ''false'')"
  define count where "count = dget_or (rt_event_counts rt) ?a 0 + 1"
  have edge: "generated_trigger (te_trigger le) (generated_truth plan fd g k) (dget_or (gs_event_truths g) ?a ''false'') = edge"
    using parts by (simp add: edge_def truth previous trigger_agrees)
  have "fires = (edge \<and> occurrence_admits e count) \<and> rt_program rt' = rt_program rt1 \<and> rt_snapshot rt' = rt_snapshot rt1 \<and>
    rt_cutoff rt' = rt_cutoff rt1 \<and> rt_state rt' = rt_state rt1 \<and> rt_remembered_values rt' = rt_remembered_values rt1 \<and>
    rt_prior_event_truths rt' = rt_prior_event_truths rt1 \<and>
    rt_event_truths rt' = dset ?a (truth_text t) (rt_event_truths rt1) \<and>
    rt_event_counts rt' = (if edge then dset ?a count (rt_event_counts rt1) else rt_event_counts rt1) \<and>
    rt_event_cutoffs rt' = (if fires then dset ?a (rt_cutoff rt1) (rt_event_cutoffs rt1) else rt_event_cutoffs rt1)"
    by (rule fire_event_fields [OF fire cur prev]) (simp_all add: edge_def count_def z(2))
  then have admits: "fires = (edge \<and> occurrence_admits e count)" and same: "same_boundary rt rt'"
    and fields: "rt_cutoff rt' = rt_cutoff rt" "rt_state rt' = rt_state rt" "rt_remembered_values rt' = rt_remembered_values rt"
      "rt_prior_event_truths rt' = rt_prior_event_truths rt"
      "rt_event_truths rt' = dset ?a (truth_text t) (rt_event_truths rt)"
      "rt_event_counts rt' = (if edge then dset ?a count (rt_event_counts rt) else rt_event_counts rt)"
      "rt_event_cutoffs rt' = (if fires then dset ?a (rt_cutoff rt) (rt_event_cutoffs rt) else rt_event_cutoffs rt)"
    by (simp_all add: z(2) same_boundary_def)
  have fires: "fires = (edge \<and> (te_occurrence le = ''first'' \<longrightarrow> count = 1))"
    using admits parts by (auto simp: occurrence_admits_def occurrence_text_def)
  define g1 where "g1 = g\<lparr>gs_event_truths := dset ?a (generated_truth plan fd g k) (gs_event_truths g)\<rparr>"
  define g2 where "g2 = (if edge then g1\<lparr>gs_event_counts := dset ?a count (gs_event_counts g1)\<rparr> else g1)"
  define g3 where "g3 = (if fires then g2\<lparr>gs_event_cutoffs := dset ?a (gs_boundary g2) (gs_event_cutoffs g2)\<rparr> else g2)"
  have gen: "generated_event plan fd le g = (if fires then fold (generated_action plan fd) (te_actions le) g3 else g3)"
    unfolding generated_event_def Let_def
    using parts edge fires counts by (simp add: k(2) g1_def g2_def g3_def count_def)
  have gen_fields: "gs_boundary g3 = gs_boundary g" "gs_state g3 = gs_state g" "gs_memory g3 = gs_memory g"
    "gs_event_truths g3 = dset ?a (generated_truth plan fd g k) (gs_event_truths g)"
    "gs_event_counts g3 = (if edge then dset ?a count (gs_event_counts g) else gs_event_counts g)"
    "gs_event_cutoffs g3 = (if fires then dset ?a (gs_boundary g) (gs_event_cutoffs g) else gs_event_cutoffs g)"
    by (simp_all add: g1_def g2_def g3_def)
  have "in_step (insert ?a seen) rt' g3"
    using ag truth unfolding in_step_def fields gen_fields by simp
  then show ?thesis using gen same by blast
qed

definition event_statement :: "string \<times> event_definition \<times> statement list \<Rightarrow> statement" where
  "event_statement q = (case q of (i, e, body) \<Rightarrow> S_event i e body)"

definition event_address :: "string \<times> event_definition \<times> statement list \<Rightarrow> string" where
  "event_address q = (case q of (i, e, body) \<Rightarrow> ed_semantic_id e)"

lemma event_agrees:
  assumes le: "lower_event (rt_program rt) q = Inr le" and plain: "plain_event q" and rd: "event_readable plan le"
    and clocks: "distinct (map pc_id (pg_clocks (rt_program rt)))"
    and ag: "in_step seen rt g" and fresh: "event_address q \<notin> seen" and restart: "restarted rt (event_address q)"
    and fd: "feed_shows plan (rt_snapshot rt) (rt_cutoff rt) fd" and rg: "in_range (rt_snapshot rt) (rt_cutoff rt)"
    and run: "run_statement pf (event_statement q) rt = Inr rt'"
  shows "in_step (insert (event_address q) seen) rt' (generated_event plan fd le g) \<and> same_boundary rt rt'"
proof -
  obtain i e body where q: "q = (i, e, body)" by (cases q) auto
  note le' = le [unfolded q] and parts = lower_event_parts [OF le [unfolded q]]
  obtain c where c: "ed_condition e = Some c" "decimal_condition c" and body: "list_all plain_action body"
    using plain by (auto simp: q plain_event_def split: option.splits)
  have "clock_due rt (Some (ed_clock_id e)) = Inr True"
    using parts daily_clock_due [OF clocks _ _ refl] by blast
  with run obtain fires rt1 where fire: "fire_event pf i e rt = Inr (fires, rt1)"
    and rest: "(if fires then efold (run_statement pf) body rt1 else Inr rt1) = Inr rt'"
    by (auto simp: q event_statement_def when_due_def elim!: ebind_InrE)
  have cond: "condition_readable plan (te_condition le)" "window_applies rt (te_condition le)"
    and acts: "list_all (action_readable plan) (te_actions le)"
    using rd by (simp_all add: event_readable_def window_applies_def)
  obtain g' where same: "same_boundary rt rt1" and g': "in_step (insert (ed_semantic_id e) seen) rt1 g'"
    "generated_event plan fd le g = (if fires then fold (generated_action plan fd) (te_actions le) g' else g')"
    using fire_agrees [OF le' c cond ag _ _ fd rg fire] fresh restart by (auto simp: q event_address_def)
  show ?thesis
  proof (cases fires)
    case True
    have keep: "rt_snapshot rt1 = rt_snapshot rt" "rt_cutoff rt1 = rt_cutoff rt" using same by (simp_all add: same_boundary_def)
    have "in_step (insert (ed_semantic_id e) seen) rt' (fold (generated_action plan fd) (te_actions le) g') \<and> same_boundary rt1 rt'"
      by (rule actions_agree [OF _ body acts g'(1)]) (use parts rest True fd rg keep in simp_all)
    then show ?thesis using g'(2) True same same_boundary_trans by (auto simp: q event_address_def)
  next
    case False
    then show ?thesis using rest g' same by (simp add: q event_address_def)
  qed
qed

lemma events_agree:
  assumes "emap (lower_event (rt_program rt)) qs = Inr les" and "list_all plain_event qs" and "list_all (event_readable plan) les"
    and "distinct (map pc_id (pg_clocks (rt_program rt)))" and "in_step seen rt g"
    and "distinct (map event_address qs)" and "set (map event_address qs) \<inter> seen = {}"
    and "list_all (restarted rt) (map event_address qs)"
    and "feed_shows plan (rt_snapshot rt) (rt_cutoff rt) fd" and "in_range (rt_snapshot rt) (rt_cutoff rt)"
    and "efold (run_statement pf) (map event_statement qs) rt = Inr rt'"
  shows "in_step (set (map event_address qs) \<union> seen) rt' (fold (generated_event plan fd) les g) \<and> same_boundary rt rt'"
  using assms
proof (induction qs arbitrary: les rt g seen)
  case (Cons q qs)
  from Cons.prems(1) obtain le ls where les: "lower_event (rt_program rt) q = Inr le"
    "emap (lower_event (rt_program rt)) qs = Inr ls" "les = le # ls" by (auto elim!: ebind_InrE)
  from Cons.prems(11) obtain rt1 where run: "run_statement pf (event_statement q) rt = Inr rt1"
    "efold (run_statement pf) (map event_statement qs) rt1 = Inr rt'" by (auto elim!: ebind_InrE)
  have first: "in_step (insert (event_address q) seen) rt1 (generated_event plan fd le g) \<and> same_boundary rt rt1"
    by (rule event_agrees [OF les(1) _ _ Cons.prems(4,5) _ _ Cons.prems(9,10) run(1)])
      (use Cons.prems(2,3,7,8) les(3) in simp_all)
  then have keep: "rt_program rt1 = rt_program rt" "rt_snapshot rt1 = rt_snapshot rt" "rt_cutoff rt1 = rt_cutoff rt"
    "rt_prior_event_truths rt1 = rt_prior_event_truths rt" by (simp_all add: same_boundary_def)
  have "restarted rt1 = restarted rt" by (simp add: fun_eq_iff restarted_def keep)
  then have "in_step (set (map event_address qs) \<union> insert (event_address q) seen) rt'
      (fold (generated_event plan fd) ls (generated_event plan fd le g)) \<and> same_boundary rt1 rt'"
    by (intro Cons.IH [OF _ _ _ _ conjunct1 [OF first] _ _ _ _ _ run(2)]) (use Cons.prems les keep in auto)
  then show ?case using first les(3) same_boundary_trans by auto
qed simp

subsection \<open>The plan of a temporal Program\<close>

lemma temporal_plan_events:
  assumes c: "compile_temporal_program recur hs s = Inr (Some plan)" and p: "cv_program s = Some p"
  shows "\<exists>tp po. lp_temporal_program plan = Some tp \<and> policies_in (pg_statements p) = [po] \<and>
    emap (lower_event p) (events_in (pg_statements p)) = Inr (tp_events tp) \<and>
    (\<exists>targets. lower_policy (target_lowering (selections_in (pg_statements p))) po = Inr targets \<and>
      tp_policy_targets tp = map (compiled_target (compiled_selection_ids (selections_in (pg_statements p)))) targets)"
proof -
  obtain po es targets where po: "policies_in (pg_statements p) = [po]"
    and es: "emap (lower_event p) (events_in (pg_statements p)) = Inr es"
    and targets: "lower_policy (target_lowering (selections_in (pg_statements p))) po = Inr targets"
    and plan: "assemble_temporal recur hs s p es (selections_in (pg_statements p)) (gp_semantic_id po) targets = Inr plan"
    using c p by (auto simp: compile_temporal_program_def Let_def refuse_v2_def elim!: ebind_InrE split: if_splits list.splits)
  from plan show ?thesis
    using po es targets
    by (auto simp: assemble_temporal_def Let_def refuse_v2_def lift_res_def normalize_Inr normal_form_def temporal_plan_def
        temporal_program_of_def elim!: ebind_InrE split: if_splits sum.splits)
qed

text \<open>One boundary: after the Events the algorithm is in the state of the runtime.\<close>

lemma generated_events_follow_runtime:
  assumes c: "compile_temporal_program recur hs s = Inr (Some plan)" and tp: "lp_temporal_program plan = Some tp"
    and p: "cv_program s = Some p" and rt: "rt_program rt = p"
    and clocks: "distinct (map pc_id (pg_clocks p))" and ids: "distinct (map event_address (events_in (pg_statements p)))"
    and plain: "list_all plain_event (events_in (pg_statements p))" and rd: "list_all (event_readable plan) (tp_events tp)"
    and ag: "in_step {} rt g" and restart: "list_all (restarted rt) (map event_address (events_in (pg_statements p)))"
    and fd: "feed_shows plan (rt_snapshot rt) (rt_cutoff rt) fd" and rg: "in_range (rt_snapshot rt) (rt_cutoff rt)"
    and run: "run_statements pf (map event_statement (events_in (pg_statements p))) rt = Inr rt'"
  shows "in_step (set (map event_address (events_in (pg_statements p)))) rt' (fold (generated_event plan fd) (tp_events tp) g)"
proof -
  have "emap (lower_event p) (events_in (pg_statements p)) = Inr (tp_events tp)"
    using temporal_plan_events [OF c p] tp by auto
  then have les: "emap (lower_event (rt_program rt)) (events_in (pg_statements p)) = Inr (tp_events tp)" by (simp add: rt)
  have "in_step (set (map event_address (events_in (pg_statements p))) \<union> {}) rt' (fold (generated_event plan fd) (tp_events tp) g)
      \<and> same_boundary rt rt'"
    by (rule events_agree [OF les plain rd _ ag ids _ restart fd rg]) (use clocks rt run in \<open>simp_all add: run_statements_def\<close>)
  then show ?thesis by simp
qed

subsection \<open>The policy\<close>

lemma target_lowering_fields:
  "target_lowering sels a i k v = Inr t \<Longrightarrow> pt_semantic_id t = i \<and> pt_state_key t = k \<and> pt_state_value t = v"
  by (auto simp: target_lowering_def composable_policy_target_def fixed_policy_target_def
      elim!: ebind_InrE split: if_splits list.splits)

definition lowers_override :: "lowers_target \<Rightarrow> override_rule \<Rightarrow> lean_policy_target \<Rightarrow> bool" where
  "lowers_override lowering r t \<longleftrightarrow>
     (\<exists>j k e. ov_when r = C_state_equals j k e \<and> lowering (ov_action r) (ov_semantic_id r) k e = Inr t)"

lemma lower_overrides:
  assumes "efold (lower_override lowering) rs acc = Inr (key, ts)"
  shows "\<exists>us. ts = snd acc @ us \<and> list_all2 (lowers_override lowering) rs us"
  using assms
proof (induction rs arbitrary: acc)
  case (Cons r rs)
  from Cons.prems obtain z where z: "lower_override lowering r acc = Inr z" "efold (lower_override lowering) rs z = Inr (key, ts)"
    by (auto elim!: ebind_InrE)
  obtain t where t: "snd z = snd acc @ [t]" "lowers_override lowering r t"
    using z(1) by (auto simp: lower_override_def Let_def refuse_v2_def lowers_override_def
        elim!: ebind_InrE split: condition.splits if_splits)
  from Cons.IH [OF z(2)] obtain us where "ts = snd z @ us" "list_all2 (lowers_override lowering) rs us" by blast
  with t show ?case by (intro exI [of _ "t # us"]) simp
qed simp

lemma lower_policy_targets:
  assumes "lower_policy lowering po = Inr targets"
  shows "\<exists>us k t. targets = us @ [t] \<and> list_all2 (lowers_override lowering) (by_priority (gp_overrides po)) us \<and>
    lowering (gp_primary po) (as_semantic_id (gp_primary po)) k ''*'' = Inr t"
proof -
  from assms obtain k ts t where "efold (lower_override lowering) (by_priority (gp_overrides po)) (None, []) = Inr (Some k, ts)"
    "lowering (gp_primary po) (as_semantic_id (gp_primary po)) k ''*'' = Inr t" "targets = ts @ [t]"
    by (auto simp: lower_policy_def refuse_v2_def elim!: ebind_InrE split: if_splits option.splits)
  with lower_overrides [of lowering "by_priority (gp_overrides po)" "(None, [])" "Some k" ts] show ?thesis by auto
qed

text \<open>No override waits for the state that stands for every state.\<close>

definition named_state :: "override_rule \<Rightarrow> bool" where
  "named_state r \<longleftrightarrow> (case ov_when r of C_state_equals _ _ e \<Rightarrow> e \<noteq> ''*'' | _ \<Rightarrow> False)"

definition applies :: "generated \<Rightarrow> lean_policy_target \<Rightarrow> bool" where
  "applies g t \<longleftrightarrow> pt_state_value t = ''*'' \<or> state_equals g (pt_state_key t) (pt_state_value t)"

lemma generated_policy_find: "generated_policy targets g = find (applies g) targets"
  by (simp add: generated_policy_def applies_def [abs_def])

lemma override_applies:
  assumes "lowers_override (target_lowering sels) r t" and "named_state r" and "in_step seen rt g"
  shows "eval_condition pf rt [] None None (ov_when r) obs = Inr (truth_of_bool (applies g t), obs)"
  using assms target_lowering_fields
  by (fastforce simp: lowers_override_def named_state_def applies_def state_truth_def state_equals_def in_step_def)

lemma find_first_override:
  assumes "list_all2 (lowers_override (target_lowering sels)) rs us" and "list_all named_state rs" and "in_step seen rt g"
    and "first_override pf rs rt = Inr (chosen, rt')"
  shows "case chosen of
      None \<Rightarrow> find (applies g) us = None
    | Some r \<Rightarrow> \<exists>t. find (applies g) us = Some t \<and> lowers_override (target_lowering sels) r t"
  using assms
proof (induction rs us arbitrary: rt rule: list_all2_induct)
  case (Cons r rs t us)
  have eval: "run_condition pf [] None None (ov_when r) rt = Inr (truth_of_bool (applies g t), rt)"
    using override_applies [OF Cons.hyps(1) _ Cons.prems(2), of pf] Cons.prems(1) by (simp add: run_condition_def)
  show ?case
  proof (cases "applies g t")
    case True
    then have "chosen = Some r" using Cons.prems(3) eval by (simp add: truth_of_bool_def)
    then show ?thesis using True Cons.hyps(1) by auto
  next
    case False
    then have "first_override pf rs rt = Inr (chosen, rt')" using Cons.prems(3) eval by (simp add: truth_of_bool_def)
    then show ?thesis using Cons.IH [of rt] Cons.prems(1,2) False by (cases chosen) auto
  qed
qed simp

lemma compiled_target_fields [simp]:
  "pt_semantic_id (compiled_target ids t) = pt_semantic_id t" "applies g (compiled_target ids t) = applies g t"
  by (simp_all add: compiled_target_def applies_def)

lemma find_map: "find P (map f xs) = map_option f (find (P \<circ> f) xs)"
  by (induction xs) auto

lemma find_append: "find P (xs @ ys) = (case find P xs of None \<Rightarrow> find P ys | Some x \<Rightarrow> Some x)"
  by (induction xs) auto

text \<open>The target the algorithm takes is the one of the Allocation the runtime takes.\<close>

lemma policy_follows_runtime:
  assumes c: "compile_temporal_program recur hs s = Inr (Some plan)" and tp: "lp_temporal_program plan = Some tp"
    and p: "cv_program s = Some p" and po: "policies_in (pg_statements p) = [po]"
    and named: "list_all named_state (gp_overrides po)" and ag: "in_step seen rt g"
    and run: "first_override pf (by_priority (gp_overrides po)) rt = Inr (chosen, rt')"
  shows "\<exists>t k v. generated_policy (tp_policy_targets tp) g =
      Some (compiled_target (compiled_selection_ids (selections_in (pg_statements p))) t) \<and>
    (case chosen of
       Some r \<Rightarrow> target_lowering (selections_in (pg_statements p)) (ov_action r) (ov_semantic_id r) k v = Inr t
     | None \<Rightarrow> target_lowering (selections_in (pg_statements p)) (gp_primary po) (as_semantic_id (gp_primary po)) k v = Inr t)"
proof -
  let ?sels = "selections_in (pg_statements p)"
  obtain targets where targets: "lower_policy (target_lowering ?sels) po = Inr targets"
    "tp_policy_targets tp = map (compiled_target (compiled_selection_ids ?sels)) targets"
    using temporal_plan_events [OF c p] tp po by auto
  obtain us k t where us: "targets = us @ [t]" "list_all2 (lowers_override (target_lowering ?sels)) (by_priority (gp_overrides po)) us"
    "target_lowering ?sels (gp_primary po) (as_semantic_id (gp_primary po)) k ''*'' = Inr t"
    using lower_policy_targets [OF targets(1)] by blast
  have rest: "applies g t" using target_lowering_fields [OF us(3)] by (simp add: applies_def)
  have "list_all named_state (by_priority (gp_overrides po))" using named by (simp add: by_priority_def list_all_iff)
  note found = find_first_override [OF us(2) this ag run]
  have policy: "generated_policy (tp_policy_targets tp) g = map_option (compiled_target (compiled_selection_ids ?sels)) (find (applies g) targets)"
    by (simp add: generated_policy_find targets(2) find_map comp_def)
  show ?thesis
  proof (cases chosen)
    case None
    then have "find (applies g) targets = Some t" using found rest by (simp add: us(1) find_append)
    then show ?thesis using None us(3) policy by auto
  next
    case (Some r)
    then obtain u where u: "find (applies g) us = Some u" "lowers_override (target_lowering ?sels) r u" using found by auto
    then have "find (applies g) targets = Some u" by (simp add: us(1) find_append)
    then show ?thesis using Some u(2) policy by (auto simp: lowers_override_def)
  qed
qed

end
