(* ===== verification/V2_Subscriptions.thy ===== *)
theory V2_Subscriptions
  imports V2_Meaning Generated_Temporal
begin

text \<open>
  The symbols of a plan compiled by \<open>strategy/v2/bridge.py\<close> and those whose closes the generated
  algorithm keeps: a static plan subscribes to what its Program holds and to nothing else, a
  temporal plan without Selections keeps the closes of its anchor only.
\<close>

subsection \<open>What a static Program holds\<close>

definition held_by_leg :: "definitions \<Rightarrow> allocation_leg \<Rightarrow> string list" where
  "held_by_leg df leg =
     (case (al_target_kind leg, truthy (al_target_ref leg)) of
        (Target_asset, True) \<Rightarrow> [or_empty (al_target_ref leg)]
      | (Target_group, True) \<Rightarrow> group_assets df (or_empty (al_target_ref leg))
      | _ \<Rightarrow> [])"

definition held_by_selection :: "definitions \<Rightarrow> selection_statement \<Rightarrow> string list" where
  "held_by_selection df st = group_assets df (sl_universe_id (ss_selection st)) @ fallback_symbols (ss_selection st)"

definition allocations_of :: "statement list \<Rightarrow> allocation list" where
  "allocations_of body =
     allocations_in body
     @ concat (map (\<lambda>k. allocations_in (ct_then k) @ allocations_in (ct_otherwise k)) (controls_in body))"

definition held_assets :: "definitions \<Rightarrow> program \<Rightarrow> string list" where
  "held_assets df p =
     (let body = filter (\<lambda>st. \<not> is_initial_retain st) (pg_statements p) in
      concat (map (held_by_selection df) (selections_in (program_statements body)))
      @ concat (map (\<lambda>a. concat (map (held_by_leg df) (as_legs a))) (allocations_of body)))"

text \<open>The symbols of the state stay within what is held.\<close>

definition holds_only :: "string set \<Rightarrow> static_state \<Rightarrow> bool" where
  "holds_only H x \<longleftrightarrow>
     set (sx_symbols x) \<subseteq> H \<and> (\<forall>i m. dget (sx_selections x) i = Some m \<longrightarrow> set (ms_symbols m) \<subseteq> H)"

lemma holds_symbols: "holds_only H x \<Longrightarrow> dget (sx_selections x) i = Some m \<Longrightarrow> a \<in> set (ms_symbols m) \<Longrightarrow> a \<in> H"
  by (auto simp: holds_only_def)

lemma static_selection_symbols [simp]: "ms_symbols (static_selection st members ranking eligibility) = members"
  by (simp add: static_selection_def Let_def)

lemma lower_selection_holds:
  assumes "lower_selection df st x = Inr y" and "set (held_by_selection df st) \<subseteq> H" and "holds_only H x"
  shows "holds_only H y"
proof -
  let ?members = "group_assets df (sl_universe_id (ss_selection st))"
  obtain ranking eligibility where y: "y = x\<lparr>sx_selections := dset (sl_semantic_id (ss_selection st))
        (static_selection st ?members ranking eligibility) (sx_selections x),
      sx_symbols := sx_symbols x @ ?members @ fallback_symbols (ss_selection st)\<rparr>"
    using assms(1) by (auto simp: lower_selection_def Let_def elim!: ebind_InrE)
  show ?thesis
    using assms(2,3) by (simp add: y holds_only_def held_by_selection_def)
qed

lemma lower_selections_hold:
  "efold (lower_selection df) sts x = Inr y \<Longrightarrow> \<forall>st\<in>set sts. set (held_by_selection df st) \<subseteq> H \<Longrightarrow>
   holds_only H x \<Longrightarrow> holds_only H y"
  by (induction sts arbitrary: x) (auto elim!: ebind_InrE dest: lower_selection_holds)

lemma leg_assets_held:
  assumes "leg_assets df outputs x leg = Inr (xs, chosen)" and "set (held_by_leg df leg) \<subseteq> H" and "holds_only H x"
  shows "set xs \<subseteq> H \<and> (\<forall>st. chosen = Some st \<longrightarrow> dget outputs (or_empty (al_target_ref leg)) = Some st)"
  using assms
  by (auto simp: leg_assets_def held_by_leg_def holds_only_def refuse_v2_def lift_res_def lookup_or_raise_def dget_def
      elim!: ebind_InrE split: target_kind.splits bool.splits option.splits sum.splits)

lemma lower_leg_holds:
  assumes "lower_leg df outputs a leg x = Inr y" and "set (held_by_leg df leg) \<subseteq> H" and "holds_only H x"
    and out: "\<And>i st. dget outputs i = Some st \<Longrightarrow> set (fallback_symbols (ss_selection st)) \<subseteq> H"
  shows "holds_only H y"
proof -
  from assms(1) obtain xs chosen w where leg: "leg_assets df outputs x leg = Inr (xs, chosen)"
    and y: "y = x\<lparr>sx_sleeves := dset (sl_id (static_sleeve a leg w xs chosen)) (static_sleeve a leg w xs chosen) (sx_sleeves x),
      sx_symbols := sx_symbols x @ xs @ sl_fallback_symbols (static_sleeve a leg w xs chosen)\<rparr>"
    by (auto simp: lower_leg_def Let_def elim!: ebind_InrE)
  have "set (sl_fallback_symbols (static_sleeve a leg w xs chosen)) \<subseteq> H"
    using leg_assets_held [OF leg assms(2,3)] out [of "or_empty (al_target_ref leg)"]
    by (cases chosen) (simp_all add: static_sleeve_def Let_def)
  then show ?thesis
    using leg_assets_held [OF leg assms(2,3)] assms(3) by (simp add: y holds_only_def)
qed

lemma lower_legs_hold:
  assumes "efold (lower_leg df outputs a) legs x = Inr y" and "\<forall>l\<in>set legs. set (held_by_leg df l) \<subseteq> H" and "holds_only H x"
    and out: "\<And>i st. dget outputs i = Some st \<Longrightarrow> set (fallback_symbols (ss_selection st)) \<subseteq> H"
  shows "holds_only H y"
  using assms(1-3)
proof (induction legs arbitrary: x)
  case (Cons l legs)
  from Cons.prems(1) obtain z where z: "lower_leg df outputs a l x = Inr z" "efold (lower_leg df outputs a) legs z = Inr y"
    by (auto elim!: ebind_InrE)
  have "holds_only H z" by (rule lower_leg_holds [OF z(1) _ _ out]) (use Cons.prems in auto)
  with Cons.IH [OF z(2)] Cons.prems(2) show ?case by simp
qed simp

lemma allocation_sleeves_hold:
  assumes "allocation_sleeves df outputs a x = Inr (ids, y)" and "\<forall>l\<in>set (as_legs a). set (held_by_leg df l) \<subseteq> H"
    and "holds_only H x" and out: "\<And>i st. dget outputs i = Some st \<Longrightarrow> set (fallback_symbols (ss_selection st)) \<subseteq> H"
  shows "holds_only H y"
  using allocation_sleeves_fold [OF assms(1)] assms(2,3) out by (intro lower_legs_hold [of df outputs a "as_legs a" x y]) auto

text \<open>The routing statement.\<close>

lemma route_holds:
  assumes r: "route_static df p outputs body x = Inr (Some (r, clock, y))"
    and held: "\<forall>a\<in>set (allocations_of body). \<forall>l\<in>set (as_legs a). set (held_by_leg df l) \<subseteq> H" and x: "holds_only H x"
    and out: "\<And>i st. dget outputs i = Some st \<Longrightarrow> set (fallback_symbols (ss_selection st)) \<subseteq> H"
  shows "holds_only H y"
proof (cases "allocations_in body")
  case (Cons a as)
  with r obtain ids where "allocation_sleeves df outputs a x = Inr (ids, y)"
    by (auto simp: route_static_def Let_def refuse_v2_def elim!: ebind_InrE split: if_splits list.splits)
  then show ?thesis by (rule allocation_sleeves_hold [OF _ _ x out]) (use held Cons in \<open>simp_all add: allocations_of_def\<close>)
next
  case Nil
  with r obtain k ks where k: "controls_in body = k # ks" "route_control df outputs k x = Inr (r, y)"
    by (auto simp: route_static_def Let_def refuse_v2_def elim!: ebind_InrE split: if_splits list.splits)
  from k(2) obtain a b where ab: "allocations_in (ct_then k) = [a]" "allocations_in (ct_otherwise k) = [b]"
    by (auto simp: route_control_def refuse_v2_def split: list.splits)
  with k(2) obtain ids u other where u: "allocation_sleeves df outputs a x = Inr (ids, u)"
    "allocation_sleeves df outputs b u = Inr (other, y)"
    by (auto simp: route_control_def static_rebalance_def elim!: ebind_InrE)
  have legs: "\<forall>l\<in>set (as_legs a). set (held_by_leg df l) \<subseteq> H" "\<forall>l\<in>set (as_legs b). set (held_by_leg df l) \<subseteq> H"
    using held k(1) ab by (simp_all add: allocations_of_def)
  have "holds_only H u" by (rule allocation_sleeves_hold [OF u(1) legs(1) x out])
  then show ?thesis by (intro allocation_sleeves_hold [OF u(2) legs(2) _ out])
qed

text \<open>The subscriptions of the plan.\<close>

lemma static_subscriptions_held:
  assumes c: "compile_static_program hs s = Inr (Some plan)" and p: "cv_program s = Some p"
  shows "su_symbol ` set (lp_subscriptions plan) \<subseteq> set (held_assets (cv_definitions s) p)"
proof -
  let ?body = "filter (\<lambda>st. \<not> is_initial_retain st) (pg_statements p)"
  let ?df = "cv_definitions s" and ?ss = "selections_in (program_statements ?body)"
  let ?H = "set (held_assets ?df p)"
  obtain x q clock y where x: "efold (lower_selection ?df) ?ss empty_static = Inr x"
    and q: "route_static ?df p (static_outputs ?ss) ?body x = Inr (Some (q, clock, y))"
    and f: "finish_static (hs_strategy hs s) p q clock y = Inr plan"
    using c p by (auto simp: compile_static_program_def Let_def refuse_v2_def elim!: ebind_InrE split: if_splits option.splits)
  have sel: "set (held_by_selection ?df st) \<subseteq> ?H" if "st \<in> set ?ss" for st
    using that by (auto simp: held_assets_def Let_def)
  have "holds_only ?H x"
    by (rule lower_selections_hold [OF x]) (use sel in \<open>auto simp: holds_only_def empty_static_def dget_def\<close>)
  moreover have "set (fallback_symbols (ss_selection st)) \<subseteq> ?H" if "dget (static_outputs ?ss) i = Some st" for i st
    using dict_of_member [OF that [unfolded static_outputs_def]] sel by (auto simp: held_by_selection_def)
  ultimately have "holds_only ?H y"
    by (intro route_holds [OF q]) (auto simp: held_assets_def Let_def)
  moreover obtain k where n: "normalize_lean_plan (static_plan (hs_strategy hs s) k q y) = Inr plan"
    using f by (auto simp: finish_static_def refuse_v2_def lift_res_def elim!: ebind_InrE split: if_splits sum.splits)
  then obtain d where d: "collect_subscriptions (map subscription_of (sorted_set (sx_symbols y))) = Inr d"
    "lp_subscriptions plan = map snd (sort_key fst d)"
    by (auto simp: normalize_Inr normal_form_def static_plan_def Let_def)
  have "distinct (map su_symbol (map subscription_of (sorted_set (sx_symbols y))))"
    by (simp add: comp_def subscription_of_def sorted_set_def)
  from collect_subscriptions_distinct [OF this] d have "su_symbol ` set (lp_subscriptions plan) = set (sx_symbols y)"
    by (auto simp: comp_def subscription_of_def image_image sorted_set_def)
  ultimately show ?thesis by (simp add: holds_only_def)
qed

lemma condition_closes_kept: "r \<in> set (lp_rebalances plan) \<Longrightarrow> k \<in> set (rb_condition r) \<Longrightarrow> a \<in> set (comparison_closes k) \<Longrightarrow>
    a \<in> set (history_symbols plan)"
  by (auto simp: history_symbols_def)

subsection \<open>What a temporal Program can read\<close>

lemma temporal_history:
  assumes c: "compile_temporal_program recur hs s = Inr (Some plan)" and p: "cv_program s = Some p"
    and sels: "selections_in (pg_statements p) = []" and tp: "lp_temporal_program plan = Some tp"
  shows "set (history_symbols plan) = {tp_anchor_symbol tp}"
proof -
  obtain es i targets where "assemble_temporal recur hs s p es [] i targets = Inr plan"
    using c p sels by (auto simp: compile_temporal_program_def Let_def refuse_v2_def elim!: ebind_InrE split: if_splits list.splits)
  then have "lp_momentum_selections plan = [] \<and> lp_rebalances plan = []"
    by (auto simp: assemble_temporal_def Let_def refuse_v2_def lift_res_def normalize_Inr normal_form_def temporal_plan_def
        elim!: ebind_InrE split: if_splits sum.splits)
  then show ?thesis using tp by (auto simp: history_symbols_def predicate_closes_def)
qed

text \<open>A price the algorithm does not keep.\<close>

definition unseen_price :: "lean_plan \<Rightarrow> lean_temporal_value \<Rightarrow> bool" where
  "unseen_price plan v \<longleftrightarrow> tv_kind v = ''current_price'' \<and> or_empty (tv_asset v) \<notin> set (history_symbols plan)"

lemma all_truth_unknown: "all_truth ''unknown'' x \<noteq> ''true''" "all_truth (all_truth ''unknown'' x) y \<noteq> ''true''"
  by (auto simp: all_truth_def)

lemma unseen_has_no_value: "unseen_price plan v \<Longrightarrow> generated_value plan fd g v = None"
  by (cases "tv_asset v") (simp_all add: unseen_price_def generated_value_def current_price_def or_empty_def)

lemma unseen_never_true:
  assumes "unseen_price plan (tk_left k) \<or> unseen_price plan (tk_right k)"
  shows "generated_truth plan fd g k \<noteq> ''true''"
proof -
  have "comparison_text plan fd g k = ''unknown''"
    using assms by (auto simp: comparison_text_def unseen_has_no_value split: option.split)
  then show ?thesis
    by (auto simp: generated_truth_def Let_def all_truth_unknown split: option.split)
qed

definition silent :: "string \<Rightarrow> generated \<Rightarrow> bool" where
  "silent i g \<longleftrightarrow> dget (gs_event_truths g) i \<noteq> Some ''true'' \<and> dget (gs_event_counts g) i = None"

lemma actions_silent: "silent i (fold (generated_action plan fd) as g) \<longleftrightarrow> silent i g"
proof (induction as arbitrary: g)
  case (Cons a as)
  have "silent i (generated_action plan fd a g) \<longleftrightarrow> silent i g"
    by (simp add: generated_action_def silent_def Let_def split: option.split)
  then show ?case using Cons by simp
qed simp

lemma other_event_silent:
  "te_semantic_id e \<noteq> i \<Longrightarrow> silent i g \<Longrightarrow> silent i (generated_event plan fd e g)"
  by (auto simp: generated_event_def Let_def actions_silent) (auto simp: silent_def)

lemma unseen_event_silent:
  assumes "unseen_price plan (tk_left (te_condition e)) \<or> unseen_price plan (tk_right (te_condition e))"
    and "silent (te_semantic_id e) g"
  shows "silent (te_semantic_id e) (generated_event plan fd e g)"
proof -
  have "\<not> generated_trigger (te_trigger e) (generated_truth plan fd g (te_condition e))
      (dget_or (gs_event_truths g) (te_semantic_id e) ''false'')"
    using unseen_never_true [OF assms(1), of fd g] assms(2)
    by (auto simp: generated_trigger_def silent_def dget_or_def dget_def split: option.splits)
  then show ?thesis
    using unseen_never_true [OF assms(1), of fd g] assms(2) by (simp add: generated_event_def Let_def silent_def)
qed

definition run_boundaries :: "lean_plan \<Rightarrow> lean_temporal_program \<Rightarrow> feed list \<Rightarrow> generated \<Rightarrow> generated" where
  "run_boundaries plan tp fds g = fold (\<lambda>fd g. fst (generated_boundary plan tp fd g)) fds g"

lemma run_boundaries_silent:
  assumes "\<forall>d\<in>set (tp_events tp). te_semantic_id d = i \<longrightarrow>
      unseen_price plan (tk_left (te_condition d)) \<or> unseen_price plan (tk_right (te_condition d))"
    and "silent i g"
  shows "silent i (run_boundaries plan tp fds g)"
proof -
  have events: "silent i (fold (generated_event plan fd) es h)" if "set es \<subseteq> set (tp_events tp)" "silent i h" for es fd h
    using that
  proof (induction es arbitrary: h)
    case (Cons e es)
    have "silent i (generated_event plan fd e h)"
      using assms(1) Cons.prems other_event_silent unseen_event_silent by (cases "te_semantic_id e = i") auto
    then show ?case using Cons by simp
  qed simp
  have "silent i (fst (generated_boundary plan tp fd h))" if "silent i h" for fd h
    using events [of "tp_events tp" "h\<lparr>gs_boundary := gs_boundary h + 1\<rparr>" fd] that
    by (simp add: generated_boundary_def Let_def silent_def)
  then show ?thesis
    using assms(2) unfolding run_boundaries_def by (induction fds arbitrary: g) simp_all
qed

end
