(* ===== verification/Program_Invariants.thy ===== *)
theory Program_Invariants
  imports Program_Run
begin

text \<open>
  What every statement keeps of the runtime: the run's fixed inputs, the order of evidence and
  observations, and the shape of the checkpoint a run leaves behind, so that a later run
  accepts it. One lemma per operation, combined over the statement tree.
\<close>

named_theorems run_simps \<open>fields an operation leaves alone\<close>

subsection \<open>Observations are appended\<close>

lemma record_value_extends: "record_value pf rt v c x r obs = Inr (ob, obs') \<Longrightarrow> \<exists>z. obs' = obs @ z"
  by (auto simp: record_value_def Let_def elim!: ebind_InrE)

lemma record_members_extends: "record_members pf rt v c a b d out obs = Inr (ob, obs') \<Longrightarrow> \<exists>z. obs' = obs @ z"
  by (auto simp: record_members_def Let_def elim!: ebind_InrE)

lemma daily_observation_extends: "daily_observation pf rt n c b i obs = Inr (ob, obs') \<Longrightarrow> \<exists>z. obs' = obs @ z"
  by (auto simp: daily_observation_def Let_def split: if_splits elim!: ebind_InrE)

lemma event_relative_extends: "event_relative_value pf rt c b v e n off obs = Inr (ob, obs') \<Longrightarrow> \<exists>z. obs' = obs @ z"
  by (auto simp: event_relative_value_def Let_def split: option.splits elim!: ebind_InrE dest!: daily_observation_extends)

lemma clocked_extends: "clocked_value pf rt c b v n k obs = Inr (ob, obs') \<Longrightarrow> \<exists>z. obs' = obs @ z"
  by (auto simp: clocked_value_def Let_def split: option.splits elim!: ebind_InrE
      dest!: daily_observation_extends record_value_extends)

lemma emap_st_extends:
  assumes "emap_st f xs obs = Inr (ys, obs')"
    and "\<And>x obs y obs'. x \<in> set xs \<Longrightarrow> f x obs = Inr (y, obs') \<Longrightarrow> \<exists>z. obs' = obs @ z"
  shows "\<exists>z. obs' = obs @ z"
  using emap_st_invariant [OF assms(1), where P = "\<lambda>o'. \<exists>z. o' = obs @ z" and Q = "\<lambda>_ _. True"] assms(2)
  by fastforce

lemma eval_extends:
  "eval_value pf rt ms b c v obs = Inr (ob, obs') \<Longrightarrow> \<exists>z. obs' = obs @ z"
  "eval_condition pf rt ms b c k obs = Inr (t, obs') \<Longrightarrow> \<exists>z. obs' = obs @ z"
proof (induction pf rt ms b c v obs and pf rt ms b c k obs arbitrary: ob obs' and t obs'
    rule: eval_value_eval_condition.induct)
  case (9 pf rt ms b c i s u t d n obs)
  from "9.prems" obtain candidate items obs1 out where c: "c = Some candidate"
    and items: "emap_st (\<lambda>m. eval_value pf rt ms b (Some m) s) ms obs = Inr (items, obs1)"
    and last: "record_members pf rt (V_cross_sectional i s u t d n) c ms
      (map snd (rank_pairs d (available_pairs ms items))) (missing_of ms items) out obs1 = Inr (ob, obs')"
    by (auto simp: Let_def split: option.splits elim!: ebind_InrE)
  have "\<exists>z. obs1 = obs @ z" using items "9.IH" [OF c] by (rule emap_st_extends) blast
  with record_members_extends [OF last] show ?case by auto
next
  case (10 pf rt ms b c i s u r cov obs)
  from "10.prems" obtain items obs1 a1 a2 out where
    items: "emap_st (\<lambda>m. eval_value pf rt ms b (Some m) s) ms obs = Inr (items, obs1)"
    and last: "record_members pf rt (V_cross_aggregate i s u r cov) c ms a1 a2 out obs1 = Inr (ob, obs')"
    by (auto simp: Let_def elim!: ebind_InrE)
  have "\<exists>z. obs1 = obs @ z" using items "10.IH" by (rule emap_st_extends) blast
  with record_members_extends [OF last] show ?case by auto
next
  case (11 pf rt ms b c i terms points mp nrm lo hi obs)
  from "11.prems" obtain items obs1 outcomes obs2 x y where
    items: "emap_st (\<lambda>t. case t of Score_term j v w \<Rightarrow> eval_value pf rt ms b c v) terms obs = Inr (items, obs1)"
    and outcomes: "emap_st (\<lambda>t. case t of Point_term j k x y z \<Rightarrow> eval_condition pf rt ms b c k) points obs1 = Inr (outcomes, obs2)"
    and last: "record_value pf rt (V_score i terms points mp nrm lo hi) c x y obs2 = Inr (ob, obs')"
    by (auto elim!: ebind_InrE)
  have "\<exists>z. obs1 = obs @ z"
    using items by (rule emap_st_extends) (use "11.IH"(1) in \<open>auto split: score_term.splits\<close>)
  moreover have "\<exists>z. obs2 = obs1 @ z"
    using outcomes by (rule emap_st_extends) (use "11.IH"(2) [OF items] in \<open>auto split: point_term.splits\<close>)
  ultimately show ?case using record_value_extends [OF last] by auto
next
  case (15 pf rt ms b c i f l r obs)
  then show ?case by (fastforce elim!: ebind_InrE)
next
  case (18 pf rt ms b c i child obs)
  then show ?case by (auto elim!: ebind_InrE)
next
  case (19 pf rt ms b c i n children obs)
  from "19.prems" obtain vs where "emap_st (eval_condition pf rt ms b c) children obs = Inr (vs, obs')"
    by (auto elim!: ebind_InrE)
  then show ?case by (rule emap_st_extends) (use "19.IH" in blast)
next
  case (20 pf rt ms b c g i children obs)
  from "20.prems" obtain vs where "emap_st (eval_condition pf rt ms b c) children obs = Inr (vs, obs')"
    by (auto elim!: ebind_InrE)
  then show ?case by (rule emap_st_extends) (use "20.IH" in blast)
qed (auto simp: record_optional_def elim!: ebind_InrE
    dest!: daily_observation_extends event_relative_extends clocked_extends record_value_extends)

subsection \<open>What a step keeps\<close>

definition same_run :: "runtime \<Rightarrow> runtime \<Rightarrow> bool" where
  "same_run rt rt' \<longleftrightarrow>
     rt_program rt' = rt_program rt \<and> rt_snapshot rt' = rt_snapshot rt \<and> rt_cutoff rt' = rt_cutoff rt \<and>
     rt_prior_state rt' = rt_prior_state rt \<and> rt_prior_event_truths rt' = rt_prior_event_truths rt"

definition appends :: "runtime \<Rightarrow> runtime \<Rightarrow> bool" where
  "appends rt rt' \<longleftrightarrow>
     (\<exists>z. rt_evidence rt' = rt_evidence rt @ z) \<and> (\<exists>z. rt_observations rt' = rt_observations rt @ z)"

text \<open>
  The checkpoint a runtime carries, over the declared Events, memories and state keys: the
  guards of \<open>execute_program_v2\<close> as an invariant.
\<close>

definition indices_ok :: "int \<Rightarrow> string list \<Rightarrow> (string, int) dict \<Rightarrow> bool" where
  "indices_ok cutoff ids d \<longleftrightarrow> set (dkeys d) \<subseteq> set ids \<and> (\<forall>i \<in> set (dvalues d). 0 \<le> i \<and> i \<le> cutoff)"

definition truth_texts :: "string list" where
  "truth_texts = [''true'', ''false'', ''unknown'']"

definition checkpoint_shape :: "string list \<Rightarrow> string list \<Rightarrow> string list \<Rightarrow> runtime \<Rightarrow> bool" where
  "checkpoint_shape events memories states rt \<longleftrightarrow>
     indices_ok (rt_cutoff rt) events (rt_event_cutoffs rt) \<and>
     set (dkeys (rt_event_truths rt)) \<subseteq> set events \<and> set (dvalues (rt_event_truths rt)) \<subseteq> set truth_texts \<and>
     set (dkeys (rt_event_counts rt)) \<subseteq> set events \<and> (\<forall>n \<in> set (dvalues (rt_event_counts rt)). 0 \<le> n) \<and>
     indices_ok (rt_cutoff rt) states (rt_state_entered_cutoffs rt) \<and>
     set (dkeys (rt_remembered_values rt)) \<subseteq> set memories \<and>
     set (dkeys (rt_state rt)) = set states"

text \<open>
  What is written: an Event count only grows, an Event or a state entry is dated with the
  current cutoff, and a memory once stored stays.
\<close>

definition dated :: "int \<Rightarrow> (string, int) dict \<Rightarrow> (string, int) dict \<Rightarrow> bool" where
  "dated cutoff d d' \<longleftrightarrow> (\<forall>k. dget d' k = dget d k \<or> dget d' k = Some cutoff)"

definition history_grows :: "runtime \<Rightarrow> runtime \<Rightarrow> bool" where
  "history_grows rt rt' \<longleftrightarrow>
     (\<forall>k. dget_or (rt_event_counts rt) k 0 \<le> dget_or (rt_event_counts rt') k 0) \<and>
     dated (rt_cutoff rt) (rt_event_cutoffs rt) (rt_event_cutoffs rt') \<and>
     dated (rt_cutoff rt) (rt_state_entered_cutoffs rt) (rt_state_entered_cutoffs rt') \<and>
     set (dkeys (rt_remembered_values rt)) \<subseteq> set (dkeys (rt_remembered_values rt'))"

text \<open>The fields a checkpoint is made of.\<close>

definition same_checkpoint :: "runtime \<Rightarrow> runtime \<Rightarrow> bool" where
  "same_checkpoint rt rt' \<longleftrightarrow>
     rt_state rt' = rt_state rt \<and> rt_event_cutoffs rt' = rt_event_cutoffs rt \<and>
     rt_event_truths rt' = rt_event_truths rt \<and> rt_event_counts rt' = rt_event_counts rt \<and>
     rt_state_entered_cutoffs rt' = rt_state_entered_cutoffs rt \<and> rt_remembered_values rt' = rt_remembered_values rt"

definition step_ok :: "string list \<Rightarrow> string list \<Rightarrow> string list \<Rightarrow> runtime \<Rightarrow> runtime \<Rightarrow> bool" where
  "step_ok events memories states rt rt' \<longleftrightarrow>
     same_run rt rt' \<and> appends rt rt' \<and> history_grows rt rt' \<and>
     (0 \<le> rt_cutoff rt \<longrightarrow> checkpoint_shape events memories states rt \<longrightarrow> checkpoint_shape events memories states rt')"

lemma step_ok_refl [simp]: "step_ok E M S rt rt"
  by (simp add: step_ok_def same_run_def appends_def history_grows_def dated_def)

lemma dated_trans: "dated i a b \<Longrightarrow> dated i b c \<Longrightarrow> dated i a c"
  by (auto simp: dated_def) metis

lemma dated_dset: "dated i d (dset k i d)"
  by (simp add: dated_def)

lemma dated_refl [simp]: "dated i d d"
  by (simp add: dated_def)

lemma history_grows_trans:
  "rt_cutoff b = rt_cutoff a \<Longrightarrow> history_grows a b \<Longrightarrow> history_grows b c \<Longrightarrow> history_grows a c"
  by (auto simp: history_grows_def intro: dated_trans order_trans)

lemma step_ok_trans: "step_ok E M S a b \<Longrightarrow> step_ok E M S b c \<Longrightarrow> step_ok E M S a c"
  using history_grows_trans [of b a c] by (fastforce simp: step_ok_def same_run_def appends_def)

lemma step_ok_reading:
  "same_run rt rt' \<Longrightarrow> appends rt rt' \<Longrightarrow> same_checkpoint rt rt' \<Longrightarrow> step_ok E M S rt rt'"
  by (simp add: step_ok_def same_run_def same_checkpoint_def checkpoint_shape_def history_grows_def)

lemma dvalues_dset: "set (dvalues (dset k v d)) \<subseteq> insert v (set (dvalues d))"
  unfolding dvalues_def dset_def by (induction d) auto

lemma indices_ok_dset:
  "indices_ok c ids d \<Longrightarrow> k \<in> set ids \<Longrightarrow> 0 \<le> i \<Longrightarrow> i \<le> c \<Longrightarrow> indices_ok c ids (dset k i d)"
  using dvalues_dset [of k i d] by (auto simp: indices_ok_def set_dkeys_dset)

lemma add_evidence_step: "step_ok E M S rt (add_evidence i k out d rt)"
  by (rule step_ok_reading) (simp_all add: add_evidence_def same_run_def appends_def same_checkpoint_def)

text \<open>Adding evidence after a step is a step.\<close>

lemma step_ok_evidence: "step_ok E M S rt rt' \<Longrightarrow> step_ok E M S rt (add_evidence i k out d rt')"
  by (erule step_ok_trans) (rule add_evidence_step)

lemma run_value_step: "run_value pf ms b c v rt = Inr (ob, rt') \<Longrightarrow> step_ok E M S rt rt'"
  by (intro step_ok_reading)
    (auto simp: run_value_def same_run_def appends_def same_checkpoint_def elim!: ebind_InrE dest!: eval_extends(1))

lemma run_condition_step: "run_condition pf ms b c k rt = Inr (t, rt') \<Longrightarrow> step_ok E M S rt rt'"
  by (intro step_ok_reading)
    (auto simp: run_condition_def same_run_def appends_def same_checkpoint_def elim!: ebind_InrE dest!: eval_extends(2))

lemma retain_step: "step_ok E M S rt (rt\<lparr>rt_retained := True\<rparr>)"
  by (rule step_ok_reading) (simp_all add: same_run_def appends_def same_checkpoint_def)

subsection \<open>Selections and Allocations\<close>

lemma member_score_step: "member_score pf s ms m rt = Inr (x, rt') \<Longrightarrow> step_ok E M S rt rt'"
  by (auto simp: member_score_def split: option.splits if_splits elim!: ebind_InrE
      intro: run_condition_step run_value_step step_ok_trans [OF run_condition_step run_value_step])

lemma emap_st_step:
  assumes "emap_st f xs rt = Inr (ys, rt')"
    and "\<And>x s y t. x \<in> set xs \<Longrightarrow> f x s = Inr (y, t) \<Longrightarrow> step_ok E M S s t"
  shows "step_ok E M S rt rt'"
proof -
  have "step_ok E M S rt rt' \<and> list_all2 (\<lambda>_ _. True) xs ys"
    by (rule emap_st_invariant [OF assms(1)]) (use assms(2) step_ok_trans in \<open>auto\<close>)
  then show ?thesis ..
qed

lemma efold_step:
  assumes "efold f xs rt = Inr rt'"
    and "\<And>x s t. x \<in> set xs \<Longrightarrow> f x s = Inr t \<Longrightarrow> step_ok E M S s t"
  shows "step_ok E M S rt rt'"
  by (rule efold_invariant [OF assms(1), where P = "step_ok E M S rt"])
    (use assms(2) step_ok_trans in \<open>auto\<close>)

lemma select_step: "step_ok E M S rt (rt\<lparr>rt_selections := a, rt_selection_scores := b\<rparr>)"
  by (rule step_ok_reading) (simp_all add: same_run_def appends_def same_checkpoint_def)

lemma weights_step: "step_ok E M S rt (rt\<lparr>rt_target_weights := w, rt_retained := r\<rparr>)"
  by (rule step_ok_reading) (simp_all add: same_run_def appends_def same_checkpoint_def)

lemma run_selection_step:
  assumes "run_selection pf st rt = Inr rt'"
  shows "step_ok E M S rt rt'"
proof -
  obtain due where due: "clock_due rt (ss_clock_id st) = Inr due"
    using assms by (auto simp: run_selection_def Let_def elim!: ebind_InrE)
  show ?thesis
  proof (cases due)
    case False
    then show ?thesis using assms due by (auto simp: run_selection_def Let_def add_evidence_step)
  next
    case True
    then obtain ms scores rt1 i out d a b where
      m: "emap_st (member_score pf (ss_selection st) ms) ms rt = Inr (scores, rt1)"
      and r: "rt' = add_evidence i ''selection'' out d (rt1\<lparr>rt_selections := a, rt_selection_scores := b\<rparr>)"
      using assms due by (auto simp: run_selection_def Let_def split: prod.splits elim!: ebind_InrE)
    have "step_ok E M S rt rt1" using m by (rule emap_st_step) (rule member_score_step)
    then show ?thesis unfolding r
      by (intro step_ok_evidence) (erule step_ok_trans, rule select_step)
  qed
qed

lemma run_allocation_step: "run_allocation pf a out rt = Inr rt' \<Longrightarrow> step_ok E M S rt rt'"
  by (auto simp: run_allocation_def Let_def split: if_splits option.splits list.splits elim!: ebind_InrE
      intro!: step_ok_evidence retain_step weights_step)

lemma first_override_step: "first_override pf rs rt = Inr (r, rt') \<Longrightarrow> step_ok E M S rt rt'"
proof (induction rs arbitrary: rt)
  case (Cons q rs)
  then show ?case
    by (auto split: if_splits elim!: ebind_InrE intro: run_condition_step step_ok_trans [OF run_condition_step])
qed simp

lemma run_guarded_step:
  assumes "run_guarded pf i g primary overrides fallback policy rt = Inr rt'"
  shows "step_ok E M S rt rt'"
proof -
  obtain t rt1 where guard: "(case g of None \<Rightarrow> Inr (T_true, rt) | Some k \<Rightarrow> run_condition pf [] None None k rt) = Inr (t, rt1)"
    using assms by (auto simp: run_guarded_def elim!: ebind_InrE)
  then have s1: "step_ok E M S rt rt1" by (auto split: option.splits intro: run_condition_step)
  show ?thesis
  proof (cases "t = T_false \<or> (t = T_unknown \<and> policy = Guard_block)")
    case True
    then have "rt' = add_evidence i ''guarded_allocation'' ''guard_blocked'' (Detail (truth_text t)) (rt1\<lparr>rt_retained := True\<rparr>)"
      using assms guard by (simp add: run_guarded_def)
    then show ?thesis by (simp add: step_ok_evidence [OF step_ok_trans [OF s1 retain_step]])
  next
    case False
    then obtain chosen rt2 where o: "first_override pf (by_priority overrides) rt1 = Inr (chosen, rt2)"
      using assms guard by (auto simp: run_guarded_def elim!: ebind_InrE)
    have s2: "step_ok E M S rt rt2" using s1 first_override_step [OF o] by (rule step_ok_trans)
    have "step_ok E M S rt2 rt'"
      using assms guard False o
      by (auto simp: run_guarded_def split: option.splits if_splits elim!: ebind_InrE
          intro!: step_ok_evidence retain_step intro: run_allocation_step)
    with s2 show ?thesis by (rule step_ok_trans)
  qed
qed

subsection \<open>Events, transitions, memories\<close>

lemma truth_text_member: "truth_text t \<in> set truth_texts"
  by (cases t) (simp_all add: truth_text_def truth_texts_def)

lemma current_truth_step:
  "current_truth pf e rt = Inr (t, rt') \<Longrightarrow> step_ok E M S rt rt' \<and> t \<in> set truth_texts"
  using truth_text_member
  by (auto simp: current_truth_def truth_texts_def split: if_splits elim!: ebind_InrE intro: run_condition_step)

lemma dset_keys_subset: "k \<in> A \<Longrightarrow> set (dkeys d) \<subseteq> A \<Longrightarrow> set (dkeys (dset k v d)) \<subseteq> A"
  by (simp add: set_dkeys_dset)

lemma dset_values_subset: "v \<in> A \<Longrightarrow> set (dvalues d) \<subseteq> A \<Longrightarrow> set (dvalues (dset k v d)) \<subseteq> A"
  using dvalues_dset [of k v d] by auto

lemma dset_values_ball: "P v \<Longrightarrow> \<forall>x \<in> set (dvalues d). P x \<Longrightarrow> \<forall>x \<in> set (dvalues (dset k v d)). P x"
  using dvalues_dset [of k v d] by auto

lemma dget_or_values: "dget_or d k x = y \<Longrightarrow> y = x \<or> y \<in> set (dvalues d)"
  by (auto simp: dget_or_def dvalues_def split: option.splits dest!: map_of_SomeD intro: rev_image_eqI)

lemma event_truth_step:
  "k \<in> set E \<Longrightarrow> t \<in> set truth_texts \<Longrightarrow> step_ok E M S rt (rt\<lparr>rt_event_truths := dset k t (rt_event_truths rt)\<rparr>)"
  by (auto simp: step_ok_def same_run_def appends_def history_grows_def dated_def checkpoint_shape_def
      intro: dset_keys_subset [THEN subsetD] dset_values_subset [THEN subsetD])

lemma event_count_step:
  assumes "k \<in> set E"
  shows "step_ok E M S rt (rt\<lparr>rt_event_counts := dset k (dget_or (rt_event_counts rt) k 0 + 1) (rt_event_counts rt)\<rparr>)"
proof -
  have "0 \<le> dget_or (rt_event_counts rt) k 0 + 1" if "\<forall>n \<in> set (dvalues (rt_event_counts rt)). 0 \<le> n"
    using dget_or_values [OF refl, of "rt_event_counts rt" k 0] that by auto
  then show ?thesis
    using assms by (auto simp: step_ok_def same_run_def appends_def history_grows_def dated_def checkpoint_shape_def
        intro: dset_keys_subset [THEN subsetD] dset_values_ball [THEN bspec])
qed

lemma event_cutoff_step:
  "k \<in> set E \<Longrightarrow> step_ok E M S rt (rt\<lparr>rt_event_cutoffs := dset k (rt_cutoff rt) (rt_event_cutoffs rt)\<rparr>)"
  by (auto simp: step_ok_def same_run_def appends_def history_grows_def dated_def checkpoint_shape_def intro: indices_ok_dset)

lemma fire_event_step:
  assumes "fire_event pf i e rt = Inr (fires, rt')" and "ed_semantic_id e \<in> set E"
  shows "step_ok E M S rt rt'"
proof -
  let ?a = "ed_semantic_id e"
  obtain current rt1 where c: "current_truth pf e rt = Inr (current, rt1)"
    using assms(1) by (auto simp: fire_event_def Let_def elim!: ebind_InrE)
  obtain previous where p: "previous_truth pf e rt1 = Inr previous"
    using assms(1) c by (auto simp: fire_event_def Let_def elim!: ebind_InrE)
  let ?edge = "edge_triggered (ed_trigger e) current previous"
  let ?rt2 = "rt1\<lparr>rt_event_truths := dset ?a current (rt_event_truths rt1)\<rparr>"
  let ?count = "dget_or (rt_event_counts ?rt2) ?a 0 + 1"
  let ?rt3 = "if ?edge then ?rt2\<lparr>rt_event_counts := dset ?a ?count (rt_event_counts ?rt2)\<rparr> else ?rt2"
  have s1: "step_ok E M S rt rt1" and t: "current \<in> set truth_texts"
    using current_truth_step [OF c] by auto
  have s2: "step_ok E M S rt ?rt2" by (rule step_ok_trans [OF s1 event_truth_step [OF assms(2) t]])
  have s3: "step_ok E M S rt ?rt3"
    using s2 step_ok_trans [OF s2 event_count_step [OF assms(2)]] by auto
  obtain out d where rt': "rt' = (let rt4 = add_evidence i ''event'' out d ?rt3 in
      if fires then rt4\<lparr>rt_event_cutoffs := dset ?a (rt_cutoff rt4) (rt_event_cutoffs rt4)\<rparr> else rt4)"
    using assms(1) c p by (auto simp: fire_event_def Let_def)
  show ?thesis
    using step_ok_evidence [OF s3, of i "''event''" out d]
      step_ok_trans [OF step_ok_evidence [OF s3, of i "''event''" out d] event_cutoff_step [OF assms(2)]]
    unfolding rt' Let_def by auto
qed

lemma state_update_step:
  assumes "k \<in> set S"
  shows "step_ok E M S rt (rt\<lparr>rt_state := dset k v (rt_state rt),
    rt_state_entered_cutoffs := (if changed then dset k (rt_cutoff rt) (rt_state_entered_cutoffs rt) else rt_state_entered_cutoffs rt)\<rparr>)"
  using assms by (auto simp: step_ok_def same_run_def appends_def history_grows_def dated_def checkpoint_shape_def set_dkeys_dset intro: indices_ok_dset)

lemma run_transition_step:
  assumes "run_transition pf i tr rt = Inr rt'" and "tr_state_key tr \<in> set S"
  shows "step_ok E M S rt rt'"
proof -
  let ?key = "tr_state_key tr"
  obtain t rt1 where c: "(if tr_from_value tr = None \<or> dget (rt_state rt) ?key = tr_from_value tr
      then run_condition pf [] None None (tr_when tr) rt else Inr (T_false, rt)) = Inr (t, rt1)"
    using assms(1) by (auto simp: run_transition_def Let_def elim!: ebind_InrE)
  have s1: "step_ok E M S rt rt1" using c by (auto split: if_splits intro: run_condition_step)
  let ?rt2 = "if t = T_true
     then rt1\<lparr>rt_state := dset ?key (tr_to_value tr) (rt_state rt1),
            rt_state_entered_cutoffs := (if dget (rt_state rt1) ?key \<noteq> Some (tr_to_value tr)
              then dset ?key (rt_cutoff rt1) (rt_state_entered_cutoffs rt1) else rt_state_entered_cutoffs rt1)\<rparr>
     else rt1"
  have s2: "step_ok E M S rt ?rt2"
    using s1 step_ok_trans [OF s1 state_update_step [OF assms(2)]] by auto
  have "rt' = add_evidence i ''transition'' (truth_text t) (Detail_state ?key (dget (rt_state ?rt2) ?key)) ?rt2"
    using assms(1) c by (simp add: run_transition_def Let_def)
  then show ?thesis using step_ok_evidence [OF s2] by simp
qed

lemma memory_step:
  "m \<in> set M \<Longrightarrow> step_ok E M S rt (rt\<lparr>rt_remembered_values := dset m x (rt_remembered_values rt)\<rparr>)"
  by (auto simp: step_ok_def same_run_def appends_def history_grows_def dated_def checkpoint_shape_def set_dkeys_dset)

lemma run_remember_step:
  assumes "run_remember pf i m v rt = Inr rt'" and "m \<in> set M"
  shows "step_ok E M S rt rt'"
proof -
  obtain ob rt1 where v: "run_value pf [] None None v rt = Inr (ob, rt1)"
    using assms(1) by (auto simp: run_remember_def elim!: ebind_InrE)
  have s: "step_ok E M S rt rt1" by (rule run_value_step [OF v])
  show ?thesis
    using assms(1) v s step_ok_evidence [OF s] step_ok_evidence [OF step_ok_trans [OF s memory_step [OF assms(2)]]]
    by (auto simp: run_remember_def split: option.splits)
qed

subsection \<open>Statements\<close>

fun transition_keys :: "statement \<Rightarrow> string list" where
  "transition_keys (S_transition _ tr) = [tr_state_key tr]"
| "transition_keys (S_event _ _ body) = concat (map transition_keys body)"
| "transition_keys (S_control _ _ yes no _ _) = concat (map transition_keys yes) @ concat (map transition_keys no)"
| "transition_keys _ = []"

definition addresses_within :: "string list \<Rightarrow> string list \<Rightarrow> string list \<Rightarrow> statement \<Rightarrow> bool" where
  "addresses_within E M S st \<longleftrightarrow>
     set (event_addresses st) \<subseteq> set E \<and> set (memory_addresses st) \<subseteq> set M \<and> set (transition_keys st) \<subseteq> set S"

lemma when_due_step:
  assumes "when_due c rt body = Inr rt'" and "body = Inr rt' \<Longrightarrow> step_ok E M S rt rt'"
  shows "step_ok E M S rt rt'"
  using assms by (auto simp: when_due_def split: if_splits elim!: ebind_InrE)

lemma run_statement_step:
  "run_statement pf st rt = Inr rt' \<Longrightarrow> addresses_within E M S st \<Longrightarrow> step_ok E M S rt rt'"
proof (induction st arbitrary: rt rt')
  case (S_select st)
  then show ?case by (auto intro: run_selection_step)
next
  case (S_allocate a)
  then show ?case by (auto intro: run_allocation_step)
next
  case (S_control i k yes no policy clock_id)
  have sub: "step_ok E M S a b" if "efold (run_statement pf) sts a = Inr b" "sts = yes \<or> sts = no" for sts a b
  proof (rule efold_step [OF that(1)])
    show "step_ok E M S s t" if "st \<in> set sts" "run_statement pf st s = Inr t" for st s t
    proof -
      have "addresses_within E M S st"
        using S_control.prems(2) that(1) \<open>sts = yes \<or> sts = no\<close> by (auto simp: addresses_within_def)
      then show ?thesis
        using S_control.IH(1) [OF _ that(2)] S_control.IH(2) [OF _ that(2)] that(1) \<open>sts = yes \<or> sts = no\<close> by auto
    qed
  qed
  show ?case
  proof (rule when_due_step)
    show "when_due clock_id rt
       (ebind (run_condition pf [] None None k rt) (\<lambda>(t, rt1).
          let rt2 = add_evidence i ''control'' (truth_text t) (Detail (control_detail t policy)) rt1 in
          if t = T_true then efold (run_statement pf) yes rt2
          else if t = T_false \<or> policy = Unknown_otherwise then efold (run_statement pf) no rt2
          else Inr (rt2\<lparr>rt_retained := True\<rparr>))) = Inr rt'"
      using S_control.prems(1) by simp
  next
    assume "ebind (run_condition pf [] None None k rt) (\<lambda>(t, rt1).
          let rt2 = add_evidence i ''control'' (truth_text t) (Detail (control_detail t policy)) rt1 in
          if t = T_true then efold (run_statement pf) yes rt2
          else if t = T_false \<or> policy = Unknown_otherwise then efold (run_statement pf) no rt2
          else Inr (rt2\<lparr>rt_retained := True\<rparr>)) = Inr rt'"
    then obtain t rt1 where c: "run_condition pf [] None None k rt = Inr (t, rt1)"
      and r: "(let rt2 = add_evidence i ''control'' (truth_text t) (Detail (control_detail t policy)) rt1 in
          if t = T_true then efold (run_statement pf) yes rt2
          else if t = T_false \<or> policy = Unknown_otherwise then efold (run_statement pf) no rt2
          else Inr (rt2\<lparr>rt_retained := True\<rparr>)) = Inr rt'"
      by (auto elim!: ebind_InrE)
    let ?rt2 = "add_evidence i ''control'' (truth_text t) (Detail (control_detail t policy)) rt1"
    have "step_ok E M S rt ?rt2" by (rule step_ok_evidence [OF run_condition_step [OF c]])
    moreover have "step_ok E M S ?rt2 rt'"
      using r sub by (auto simp: Let_def retain_step split: if_splits)
    ultimately show "step_ok E M S rt rt'" by (rule step_ok_trans)
  qed
next
  case (S_event i e body)
  have e: "ed_semantic_id e \<in> set E" using S_event.prems(2) by (simp add: addresses_within_def)
  have sub: "step_ok E M S a b" if "efold (run_statement pf) body a = Inr b" for a b
  proof (rule efold_step [OF that])
    show "step_ok E M S s t" if "st \<in> set body" "run_statement pf st s = Inr t" for st s t
    proof -
      have "addresses_within E M S st"
        using S_event.prems(2) that(1) by (auto simp: addresses_within_def)
      then show ?thesis using S_event.IH [OF that] by simp
    qed
  qed
  show ?case
    using S_event.prems(1)
    by (auto elim!: when_due_step ebind_InrE split: if_splits
        intro: fire_event_step [OF _ e] step_ok_trans [OF fire_event_step [OF _ e] sub])
next
  case (S_transition i tr)
  then show ?case
    by (auto elim!: when_due_step intro!: run_transition_step simp: addresses_within_def)
next
  case (S_remember i m v clock_id)
  then show ?case
    by (auto elim!: when_due_step intro!: run_remember_step simp: addresses_within_def)
next
  case (S_guarded i g primary overrides fallback policy)
  then show ?case by (auto intro: run_guarded_step)
qed simp

lemma run_statements_step:
  assumes "run_statements pf sts rt = Inr rt'" and "\<And>st. st \<in> set sts \<Longrightarrow> addresses_within E M S st"
  shows "step_ok E M S rt rt'"
  using assms(1) unfolding run_statements_def
  by (rule efold_step) (rule run_statement_step, use assms(2) in auto)

end
