(* ===== verification/Validation_Sound.thy ===== *)
theory Validation_Sound
  imports Program_Run
begin

text \<open>
  What an empty list of diagnostics means. Every check only appends diagnostics, so when the
  final list is empty each check on the way passed; the lemmas read off, operation by
  operation, the facts the check stands for.
\<close>

named_theorems check_simps \<open>fields and diagnostics of the checker\<close>

lemma report_fields [simp, check_simps]:
  "ch_diagnostics (report_if c code path ck) = [] \<longleftrightarrow> \<not> c \<and> ch_diagnostics ck = []"
  "ch_statement_ids (report_if c code path ck) = ch_statement_ids ck"
  "ch_event_ids (report_if c code path ck) = ch_event_ids ck"
  "ch_outputs (report_if c code path ck) = ch_outputs ck"
  "ch_memories (report_if c code path ck) = ch_memories ck"
  "ch_diagnostics (report code path ck) \<noteq> []"
  "ch_statement_ids (report code path ck) = ch_statement_ids ck"
  "ch_event_ids (report code path ck) = ch_event_ids ck"
  "ch_outputs (report code path ck) = ch_outputs ck"
  "ch_memories (report code path ck) = ch_memories ck"
  by (simp_all add: report_if_def report_def)

text \<open>Checks that touch nothing but the diagnostics, types, windows and condition ids.\<close>

definition same_declared :: "checker \<Rightarrow> checker \<Rightarrow> bool" where
  "same_declared ck ck' \<longleftrightarrow>
     ch_statement_ids ck' = ch_statement_ids ck \<and> ch_event_ids ck' = ch_event_ids ck \<and>
     ch_outputs ck' = ch_outputs ck \<and> ch_memories ck' = ch_memories ck"

lemma same_declared_refl [simp]: "same_declared ck ck"
  by (simp add: same_declared_def)

lemma same_declared_trans: "same_declared a b \<Longrightarrow> same_declared b c \<Longrightarrow> same_declared a c"
  by (simp add: same_declared_def)

lemma fold_report:
  "ch_diagnostics (fold (\<lambda>x. report_if (c x) code (path x)) xs ck) = [] \<longleftrightarrow>
     (\<forall>x \<in> set xs. \<not> c x) \<and> ch_diagnostics ck = []"
  "same_declared ck (fold (\<lambda>x. report_if (c x) code (path x)) xs ck)"
  by (induction xs arbitrary: ck) (auto simp: same_declared_def)

definition clock_known :: "program \<Rightarrow> string option \<Rightarrow> bool" where
  "clock_known p c \<longleftrightarrow> (case c of None \<Rightarrow> True | Some i \<Rightarrow> i \<in> set (map pc_id (pg_clocks p)))"

lemma check_clock_sound [simp, check_simps]:
  "ch_diagnostics (check_clock p c path ck) = [] \<longleftrightarrow> clock_known p c \<and> ch_diagnostics ck = []"
  "same_declared ck (check_clock p c path ck)"
  by (auto simp: check_clock_def clock_known_def same_declared_def split: option.splits)

text \<open>A Condition in its place: well typed for the role, over declared state keys.\<close>

definition condition_ok :: "program \<Rightarrow> semantic_role \<Rightarrow> string option \<Rightarrow> condition \<Rightarrow> bool" where
  "condition_ok p role b c \<longleftrightarrow>
     validate_condition role b c = Inr [] \<and> (\<forall>k \<in> set (condition_state_keys c). dhas (pg_initial_state p) k)"

definition optional_ok :: "program \<Rightarrow> semantic_role \<Rightarrow> string option \<Rightarrow> condition option \<Rightarrow> bool" where
  "optional_ok p role b c \<longleftrightarrow> (case c of None \<Rightarrow> True | Some k \<Rightarrow> condition_ok p role b k)"

lemma check_condition_sound:
  assumes "check_condition p c path role b ck = Inr ck'"
  shows "same_declared ck ck'"
    and "ch_diagnostics ck' = [] \<Longrightarrow> ch_diagnostics ck = [] \<and> condition_ok p role b c"
proof -
  obtain ds where v: "validate_condition role b c = Inr ds"
    and ck': "ck' = fold (\<lambda>k. report_if (\<not> dhas (pg_initial_state p) k) ''undeclared_state'' path) (condition_state_keys c)
      (ck\<lparr>ch_diagnostics := ch_diagnostics ck @ ds, ch_condition_ids := ch_condition_ids ck @ condition_semantic_ids c,
          ch_event_windows := ch_event_windows ck @ map (\<lambda>e. (e, path)) (condition_event_windows c)\<rparr>)"
    using assms by (auto simp: check_condition_def Let_def elim!: ebind_InrE)
  show "same_declared ck ck'"
    unfolding ck' by (rule same_declared_trans [OF _ fold_report(2)]) (simp add: same_declared_def)
  show "ch_diagnostics ck = [] \<and> condition_ok p role b c" if "ch_diagnostics ck' = []"
    using that v unfolding ck' fold_report condition_ok_def by auto
qed

lemma check_optional_sound:
  assumes "check_optional p c path ck = Inr ck'"
  shows "same_declared ck ck'" and "ch_diagnostics ck' = [] \<Longrightarrow> ch_diagnostics ck = [] \<and> optional_ok p Role_predicate None c"
  using assms check_condition_sound by (auto simp: check_optional_def optional_ok_def split: option.splits)

lemma check_allocation_sound:
  assumes "check_allocation p a path available ck = Inr ck'"
  shows "same_declared ck ck'"
    and "ch_diagnostics ck' = [] \<Longrightarrow> ch_diagnostics ck = [] \<and> clock_known p (as_clock_id a)
      \<and> (\<forall>l \<in> set (as_legs a). al_target_kind l = Target_selection \<longrightarrow> al_target_ref l \<in> Some ` set available)"
proof -
  let ?ck0 = "check_clock p (as_clock_id a) (path @ ''.clock_id'') ck"
  let ?ck1 = "check_legs available path (as_legs a) ?ck0"
  have legs: "check_legs available path (as_legs a) =
      fold (\<lambda>q. report_if (al_target_kind (snd q) = Target_selection \<and> al_target_ref (snd q) \<notin> Some ` set available)
        ''unknown_selection_output'' (indexed (path @ ''.legs'') (fst q) @ ''.target.ref'')) (zip [0..<length (as_legs a)] (as_legs a))"
    by (simp add: check_legs_def case_prod_unfold)
  have each: "\<exists>q \<in> set (zip [0..<length (as_legs a)] (as_legs a)). snd q = l" if "l \<in> set (as_legs a)" for l
    using that map_snd_zip [of "[0..<length (as_legs a)]" "as_legs a"]
    by (metis diff_zero imageE length_upt list.set_map)
  have s1: "same_declared ck ?ck1"
    unfolding legs by (rule same_declared_trans [OF check_clock_sound(2) fold_report(2)])
  have d1: "ch_diagnostics ck = [] \<and> clock_known p (as_clock_id a)
      \<and> (\<forall>l \<in> set (as_legs a). al_target_kind l = Target_selection \<longrightarrow> al_target_ref l \<in> Some ` set available)"
    if "ch_diagnostics ?ck1 = []"
    using that each unfolding legs fold_report by fastforce
  have "same_declared ck ck' \<and> (ch_diagnostics ck' = [] \<longrightarrow> ch_diagnostics ?ck1 = [])"
    using assms s1 by (auto simp: check_allocation_def Let_def same_declared_def split: if_splits list.splits option.splits)
  then show "same_declared ck ck'" "ch_diagnostics ck' = [] \<Longrightarrow> ch_diagnostics ck = [] \<and> clock_known p (as_clock_id a)
      \<and> (\<forall>l \<in> set (as_legs a). al_target_kind l = Target_selection \<longrightarrow> al_target_ref l \<in> Some ` set available)"
    using d1 by auto
qed

subsection \<open>The declarations of a statement\<close>

text \<open>In the order the validator visits them.\<close>

fun statement_ids :: "statement \<Rightarrow> string list" where
  "statement_ids (S_control i _ yes no _ _) = i # concat (map statement_ids yes) @ concat (map statement_ids no)"
| "statement_ids (S_event i _ body) = i # concat (map statement_ids body)"
| "statement_ids (S_guarded i _ primary overrides fallback _) =
     i # as_semantic_id primary # map (\<lambda>r. as_semantic_id (ov_action r)) overrides
       @ (case fallback of None \<Rightarrow> [] | Some a \<Rightarrow> [as_semantic_id a])"
| "statement_ids st = [statement_semantic_id st]"

fun output_ids :: "statement \<Rightarrow> string list" where
  "output_ids (S_select st) = [ss_output_id st]"
| "output_ids (S_control _ _ yes no _ _) = concat (map output_ids yes) @ concat (map output_ids no)"
| "output_ids (S_event _ _ body) = concat (map output_ids body)"
| "output_ids _ = []"

text \<open>
  The facts about a statement: nothing unresolved inside, declared clocks only, every Condition
  in its place, in whatever position it stands, every Selection ranked by a scalar over its own
  Group, and every Selection a leg refers to among the outputs available before it.
\<close>

definition legs_available :: "string list \<Rightarrow> allocation \<Rightarrow> bool" where
  "legs_available available a \<longleftrightarrow>
     (\<forall>l \<in> set (as_legs a). al_target_kind l = Target_selection \<longrightarrow> al_target_ref l \<in> Some ` set available)"

definition allocation_ok :: "program \<Rightarrow> string list \<Rightarrow> allocation \<Rightarrow> bool" where
  "allocation_ok p available a \<longleftrightarrow> clock_known p (as_clock_id a) \<and> legs_available available a"

definition selection_ok :: "program \<Rightarrow> selection_statement \<Rightarrow> bool" where
  "selection_ok p st \<longleftrightarrow>
     (let s = ss_selection st in
      clock_known p (ss_clock_id st) \<and> optional_ok p Role_eligibility (Some (sl_binding_id s)) (sl_eligibility s) \<and>
      (\<forall>c \<in> set (score_conditions (sl_ranking s)). condition_ok p Role_eligibility (Some (sl_binding_id s)) c) \<and>
      (\<forall>v \<in> set (selection_values s). \<forall>d \<in> set (cross_domains v). d = sl_universe_id s) \<and>
      (\<exists>t. infer_program_value_type (Some (sl_binding_id s)) (sl_ranking s) = Inr t \<and>
        st_dtype t \<in> {DT_decimal, DT_integer} \<and> st_axes t = []))"

fun outputs_after :: "statement \<Rightarrow> string list \<Rightarrow> string list"
  and outputs_after_all :: "statement list \<Rightarrow> string list \<Rightarrow> string list" where
  "outputs_after (S_select st) available = ss_output_id st # available"
| "outputs_after (S_control _ _ yes no _ _) available =
     available @ filter (\<lambda>x. x \<in> set (outputs_after_all no available)) (outputs_after_all yes available)"
| "outputs_after st available = available"
| "outputs_after_all [] available = available"
| "outputs_after_all (st # sts) available = outputs_after_all sts (outputs_after st available)"

fun statement_ok :: "program \<Rightarrow> statement \<Rightarrow> string list \<Rightarrow> bool"
  and statements_ok :: "program \<Rightarrow> statement list \<Rightarrow> string list \<Rightarrow> bool" where
  "statement_ok p (S_unresolved _ _ _ _) available \<longleftrightarrow> False"
| "statement_ok p (S_select st) available \<longleftrightarrow> selection_ok p st"
| "statement_ok p (S_allocate a) available \<longleftrightarrow> allocation_ok p available a"
| "statement_ok p (S_control _ k yes no _ c) available \<longleftrightarrow>
     clock_known p c \<and> condition_ok p Role_predicate None k \<and>
     statements_ok p yes available \<and> statements_ok p no available"
| "statement_ok p (S_event _ e body) available \<longleftrightarrow>
     clock_known p (Some (ed_clock_id e)) \<and> optional_ok p Role_predicate None (ed_condition e) \<and> statements_ok p body available"
| "statement_ok p (S_remember _ _ _ c) available \<longleftrightarrow> clock_known p c"
| "statement_ok p (S_transition _ tr) available \<longleftrightarrow>
     clock_known p (tr_clock_id tr) \<and> condition_ok p Role_predicate None (tr_when tr) \<and>
     dhas (pg_initial_state p) (tr_state_key tr)"
| "statement_ok p (S_guarded _ g primary overrides fallback _) available \<longleftrightarrow>
     optional_ok p Role_predicate None g \<and> allocation_ok p available primary \<and> distinct (map ov_priority overrides) \<and>
     (\<forall>r \<in> set overrides. condition_ok p Role_predicate None (ov_when r) \<and> allocation_ok p available (ov_action r)) \<and>
     (case fallback of None \<Rightarrow> True | Some a \<Rightarrow> allocation_ok p available a)"
| "statements_ok p [] available \<longleftrightarrow> True"
| "statements_ok p (st # sts) available \<longleftrightarrow>
     statement_ok p st available \<and> statements_ok p sts (outputs_after st available)"

text \<open>How a visit moves the declared ids, and what it stands for.\<close>

definition declares :: "string list \<Rightarrow> string list \<Rightarrow> string list \<Rightarrow> string list \<Rightarrow> checker \<Rightarrow> checker \<Rightarrow> bool" where
  "declares sids eids outs mems ck ck' \<longleftrightarrow>
     ch_statement_ids ck' = rev sids @ ch_statement_ids ck \<and> ch_event_ids ck' = rev eids @ ch_event_ids ck \<and>
     ch_outputs ck' = rev outs @ ch_outputs ck \<and> ch_memories ck' = rev mems @ ch_memories ck"

definition ids_distinct :: "checker \<Rightarrow> bool" where
  "ids_distinct ck \<longleftrightarrow>
     distinct (ch_statement_ids ck) \<and> distinct (ch_event_ids ck) \<and> distinct (ch_outputs ck) \<and> distinct (ch_memories ck)"

definition passed :: "bool \<Rightarrow> checker \<Rightarrow> checker \<Rightarrow> bool" where
  "passed ok ck ck' \<longleftrightarrow>
     (ch_diagnostics ck' = [] \<longrightarrow> ch_diagnostics ck = [] \<and> ok \<and> (ids_distinct ck \<longrightarrow> ids_distinct ck'))"

lemma declares_same: "declares [] [] [] [] ck ck' \<longleftrightarrow> same_declared ck ck'"
  by (auto simp: declares_def same_declared_def)

lemma declares_trans:
  "declares a b c d x y \<Longrightarrow> declares a' b' c' d' y z \<Longrightarrow> declares (a @ a') (b @ b') (c @ c') (d @ d') x z"
  by (simp add: declares_def)

lemma passed_trans: "passed p a b \<Longrightarrow> passed q b c \<Longrightarrow> passed (p \<and> q) a c"
  by (auto simp: passed_def)

lemma passed_weaken: "passed p a b \<Longrightarrow> (p \<Longrightarrow> q) \<Longrightarrow> passed q a b"
  by (auto simp: passed_def)

text \<open>Both together, for one operation that may raise.\<close>

definition visits :: "string list \<Rightarrow> string list \<Rightarrow> string list \<Rightarrow> string list \<Rightarrow> bool \<Rightarrow> checker \<Rightarrow> checker \<Rightarrow> bool" where
  "visits sids eids outs mems ok ck ck' \<longleftrightarrow> declares sids eids outs mems ck ck' \<and> passed ok ck ck'"

lemma visits_trans:
  "visits a b c d p x y \<Longrightarrow> visits a' b' c' d' q y z \<Longrightarrow> visits (a @ a') (b @ b') (c @ c') (d @ d') (p \<and> q) x z"
  by (auto simp: visits_def intro: declares_trans passed_trans)

lemma visits_weaken: "visits a b c d p x y \<Longrightarrow> (p \<Longrightarrow> q) \<Longrightarrow> visits a b c d q x y"
  by (auto simp: visits_def intro: passed_weaken)

lemma visits_check:
  assumes "same_declared ck ck'" and "ch_diagnostics ck' = [] \<Longrightarrow> ch_diagnostics ck = [] \<and> ok"
  shows "visits [] [] [] [] ok ck ck'"
  using assms by (auto simp: visits_def declares_same passed_def ids_distinct_def same_declared_def)

lemma visits_clock: "visits [] [] [] [] (clock_known p c) ck (check_clock p c path ck)"
  by (rule visits_check) simp_all

lemma visits_report: "visits [] [] [] [] (\<not> c) ck (report_if c code path ck)"
  by (rule visits_check) (simp_all add: same_declared_def)

lemma visits_register: "visits [i] [] [] [] True ck (register_statement i path ck)"
  by (auto simp: visits_def declares_def passed_def ids_distinct_def register_statement_def Let_def)

lemma visits_condition:
  "check_condition p c path role b ck = Inr ck' \<Longrightarrow>
    visits [] [] [] [] (condition_ok p role b c) ck ck'"
  using check_condition_sound by (intro visits_check) blast+

lemma visits_optional: "check_optional p c path ck = Inr ck' \<Longrightarrow> visits [] [] [] [] (optional_ok p Role_predicate None c) ck ck'"
  using check_optional_sound by (intro visits_check) blast+

lemma visits_allocation:
  "check_allocation p a path available ck = Inr ck' \<Longrightarrow> visits [] [] [] [] (allocation_ok p available a) ck ck'"
  using check_allocation_sound unfolding allocation_ok_def legs_available_def by (intro visits_check) blast+

lemma visits_registered_allocation:
  "check_allocation p a path available (register_statement (as_semantic_id a) path' ck) = Inr ck' \<Longrightarrow>
    visits [as_semantic_id a] [] [] [] (allocation_ok p available a) ck ck'"
  using visits_trans [OF visits_register visits_allocation] by simp

subsection \<open>Selections, guarded Allocations, Events\<close>

lemma efold_visits:
  assumes "efold f xs ck = Inr ck'"
    and "\<And>x a b. x \<in> set xs \<Longrightarrow> f x a = Inr b \<Longrightarrow> visits (g x) [] [] [] (q x) a b"
  shows "visits (concat (map g xs)) [] [] [] (\<forall>x \<in> set xs. q x) ck ck'"
  using assms
proof (induction xs arbitrary: ck)
  case Nil
  then show ?case by (simp add: visits_check)
next
  case (Cons x xs)
  then obtain c where c: "f x ck = Inr c" "efold f xs c = Inr ck'"
    by (auto elim!: ebind_InrE)
  have "visits (g x @ concat (map g xs)) [] [] [] (q x \<and> (\<forall>y \<in> set xs. q y)) ck ck'"
    using visits_trans [OF Cons.prems(2) [OF _ c(1)] Cons.IH [OF c(2)]] Cons.prems(2) by simp
  then show ?case by simp
qed

lemma fold_visits:
  assumes "\<And>x c. x \<in> set xs \<Longrightarrow> visits [] [] [] [] (q x) c (f x c)"
  shows "visits [] [] [] [] (\<forall>x \<in> set xs. q x) ck (fold f xs ck)"
  using assms
proof (induction xs arbitrary: ck)
  case Nil
  show ?case by (simp add: visits_check)
next
  case (Cons x xs)
  have "visits ([] @ []) ([] @ []) ([] @ []) ([] @ []) (q x \<and> (\<forall>y \<in> set xs. q y)) ck (fold f xs (f x ck))"
    by (rule visits_trans [OF _ Cons.IH]) (simp_all add: Cons.prems)
  then show ?case by simp
qed

lemma fold_report_visits: "visits [] [] [] [] (\<forall>x \<in> set xs. \<not> c x) ck (fold (\<lambda>x. report_if (c x) code (path x)) xs ck)"
  by (rule visits_check [OF fold_report(2)]) (simp add: fold_report(1))

lemma numbered_members: "(\<forall>q \<in> set (zip [0..<length xs] xs). P (snd q)) \<longleftrightarrow> (\<forall>x \<in> set xs. P x)"
proof -
  have "set xs = snd ` set (zip [0..<length xs] xs)"
    using map_snd_zip [of "[0..<length xs]" xs] by (metis diff_zero length_upt set_map)
  then show ?thesis by (metis image_iff)
qed

lemma check_domains_visits:
  "visits [] [] [] [] (\<forall>v \<in> set (selection_values s). \<forall>d \<in> set (cross_domains v). d = sl_universe_id s) ck (check_domains s path ck)"
proof -
  let ?q = "\<lambda>v. \<forall>d \<in> set (cross_domains v). d = sl_universe_id s"
  have "visits [] [] [] [] (\<forall>q \<in> set (zip [0..<length (selection_values s)] (selection_values s)). ?q (snd q)) ck (check_domains s path ck)"
    unfolding check_domains_def Let_def
    by (rule fold_visits) (auto intro!: visits_weaken [OF fold_report_visits] split: prod.splits)
  then show ?thesis unfolding numbered_members [of "selection_values s" ?q] .
qed

lemma concat_map_Nil [simp]: "concat (map (\<lambda>_. []) xs) = []"
  by (induction xs) simp_all

lemma check_score_conditions_visits:
  assumes "check_score_conditions p s path ck = Inr ck'"
  shows "visits [] [] [] []
    (\<forall>c \<in> set (score_conditions (sl_ranking s)). condition_ok p Role_eligibility (Some (sl_binding_id s)) c) ck ck'"
proof -
  let ?zip = "zip [0..<length (score_conditions (sl_ranking s))] (score_conditions (sl_ranking s))"
  have "visits (concat (map (\<lambda>_. []) ?zip)) [] [] []
    (\<forall>q \<in> set ?zip. condition_ok p Role_eligibility (Some (sl_binding_id s)) (snd q)) ck ck'"
    using assms unfolding check_score_conditions_def Let_def
    by (rule efold_visits) (auto intro: visits_condition split: prod.splits)
  then show ?thesis
    unfolding numbered_members [where P = "condition_ok p Role_eligibility (Some (sl_binding_id s))"] by simp
qed

lemma check_ranking_visits:
  assumes "check_ranking st path ck = Inr ck'"
  shows "visits [] [] [] [] (\<exists>t. infer_program_value_type (Some (sl_binding_id (ss_selection st))) (sl_ranking (ss_selection st)) = Inr t \<and>
    st_dtype t \<in> {DT_decimal, DT_integer} \<and> st_axes t = []) ck ck'"
  using assms
  by (intro visits_check)
    (auto simp: check_ranking_def Let_def try_value_error_def same_declared_def split: sum.splits if_splits)

lemma check_selection_visits:
  assumes "check_selection p st path ck = Inr ck'"
  shows "visits [] [] [ss_output_id st] [] (selection_ok p st) ck ck'"
proof -
  let ?ck1 = "check_clock p (ss_clock_id st) (path @ ''.clock_id'') ck"
  let ?ck2 = "report_if (ss_output_id st \<in> set (ch_outputs ?ck1)) ''duplicate_selection_output'' (path @ ''.output_id'') ?ck1"
  let ?ck2' = "?ck2\<lparr>ch_outputs := ss_output_id st # ch_outputs ?ck2\<rparr>"
  let ?ck3 = "check_domains (ss_selection st) path ?ck2'"
  obtain ck4 ck5 where
    e: "(case sl_eligibility (ss_selection st) of None \<Rightarrow> Inr ?ck3
         | Some c \<Rightarrow> check_condition p c (path @ ''.selection.eligibility'') Role_eligibility (Some (sl_binding_id (ss_selection st))) ?ck3) = Inr ck4"
    and s: "check_score_conditions p (ss_selection st) path ck4 = Inr ck5" and r: "check_ranking st path ck5 = Inr ck'"
    using assms by (auto simp: check_selection_def Let_def elim!: ebind_InrE)
  have out: "visits [] [] [ss_output_id st] [] True ?ck1 ?ck2'"
    by (auto simp: visits_def declares_def passed_def ids_distinct_def)
  have el: "visits [] [] [] [] (optional_ok p Role_eligibility (Some (sl_binding_id (ss_selection st))) (sl_eligibility (ss_selection st))) ?ck3 ck4"
    using e by (auto simp: optional_ok_def split: option.splits intro: visits_condition visits_check)
  note v = visits_trans [OF visits_clock visits_trans [OF out visits_trans [OF check_domains_visits visits_trans [OF el
      visits_trans [OF check_score_conditions_visits [OF s] check_ranking_visits [OF r]]]]]]
  from v show ?thesis by (simp add: selection_ok_def Let_def conj_ac)
qed

lemma check_override_visits:
  assumes "ebind (check_condition p (ov_when r) wpath Role_predicate None c) (\<lambda>c1.
      check_allocation p (ov_action r) apath available (register_statement (as_semantic_id (ov_action r)) apath c1)) = Inr c'"
  shows "visits [as_semantic_id (ov_action r)] [] [] []
    (condition_ok p Role_predicate None (ov_when r) \<and> allocation_ok p available (ov_action r)) c c'"
proof -
  obtain c1 where c: "check_condition p (ov_when r) wpath Role_predicate None c = Inr c1"
    and a: "check_allocation p (ov_action r) apath available (register_statement (as_semantic_id (ov_action r)) apath c1) = Inr c'"
    using assms by (auto elim!: ebind_InrE)
  from visits_trans [OF visits_condition [OF c] visits_registered_allocation [OF a]]
  show ?thesis by (auto intro: visits_weaken)
qed

lemma check_guarded_visits:
  assumes "check_guarded p g primary overrides fallback path available ck = Inr ck'"
  shows "visits (as_semantic_id primary # map (\<lambda>r. as_semantic_id (ov_action r)) overrides
      @ (case fallback of None \<Rightarrow> [] | Some a \<Rightarrow> [as_semantic_id a])) [] [] []
    (optional_ok p Role_predicate None g \<and> allocation_ok p available primary \<and> distinct (map ov_priority overrides) \<and>
     (\<forall>r \<in> set overrides. condition_ok p Role_predicate None (ov_when r) \<and> allocation_ok p available (ov_action r)) \<and>
     (case fallback of None \<Rightarrow> True | Some a \<Rightarrow> allocation_ok p available a)) ck ck'"
proof -
  let ?zip = "zip [0..<length overrides] overrides"
  obtain ck1 where g: "check_optional p g (path @ ''.guard'') ck = Inr ck1"
    using assms by (auto simp: check_guarded_def elim!: ebind_InrE)
  let ?ck2 = "report_if (\<not> distinct (map ov_priority overrides)) ''duplicate_override_priority'' (path @ ''.overrides'') ck1"
  obtain ck3 ck4 where
    a: "check_allocation p primary (path @ ''.primary'') available (register_statement (as_semantic_id primary) (path @ ''.primary'') ?ck2) = Inr ck3"
    and ov: "efold (\<lambda>(i, r) c.
          let rpath = indexed (path @ ''.overrides'') i; apath = rpath @ ''.action'' in
          ebind (check_condition p (ov_when r) (rpath @ ''.when'') Role_predicate None c) (\<lambda>c1.
            check_allocation p (ov_action r) apath available (register_statement (as_semantic_id (ov_action r)) apath c1)))
        ?zip ck3 = Inr ck4"
    and f: "(case fallback of None \<Rightarrow> Inr ck4
       | Some a \<Rightarrow> check_allocation p a (path @ ''.fallback'') available (register_statement (as_semantic_id a) (path @ ''.fallback'') ck4)) = Inr ck'"
    using assms g by (auto simp: check_guarded_def Let_def elim!: ebind_InrE)
  have vo: "visits (concat (map (\<lambda>q. [as_semantic_id (ov_action (snd q))]) ?zip)) [] [] []
      (\<forall>q \<in> set ?zip. condition_ok p Role_predicate None (ov_when (snd q)) \<and> allocation_ok p available (ov_action (snd q))) ck3 ck4"
    using ov by (rule efold_visits) (auto simp: Let_def intro: check_override_visits split: prod.splits)
  have ids: "concat (map (\<lambda>q. [as_semantic_id (ov_action (snd q))]) ?zip) = map (\<lambda>r. as_semantic_id (ov_action r)) overrides"
    using map_snd_zip [of "[0..<length overrides]" overrides]
    by (metis (no_types, lifting) concat_map_singleton length_upt map_eq_conv map_map minus_nat.diff_0 o_apply)
  have vf: "visits (case fallback of None \<Rightarrow> [] | Some a \<Rightarrow> [as_semantic_id a]) [] [] []
      (case fallback of None \<Rightarrow> True | Some a \<Rightarrow> allocation_ok p available a) ck4 ck'"
    using f by (cases fallback) (auto intro: visits_registered_allocation visits_check)
  from visits_trans [OF visits_optional [OF g] visits_trans [OF visits_report
      visits_trans [OF visits_registered_allocation [OF a] visits_trans [OF vo vf]]]]
  show ?thesis
    unfolding ids numbered_members [where P = "\<lambda>r. condition_ok p Role_predicate None (ov_when r) \<and> allocation_ok p available (ov_action r)"]
    by (auto elim!: visits_weaken)
qed

lemma check_event_header_visits:
  assumes "check_event_header p e path ck = Inr ck'"
  shows "visits [] [ed_semantic_id e] [] [] (clock_known p (Some (ed_clock_id e)) \<and> optional_ok p Role_predicate None (ed_condition e)) ck ck'"
proof -
  let ?ck1 = "check_clock p (Some (ed_clock_id e)) (path @ ''.event.clock_id'') ck"
  let ?ck2 = "report_if (ed_semantic_id e \<in> set (ch_event_ids ?ck1)) ''duplicate_event_id'' (path @ ''.event.semantic_id'') ?ck1"
  have e: "visits [] [ed_semantic_id e] [] [] True ?ck1 (?ck2\<lparr>ch_event_ids := ed_semantic_id e # ch_event_ids ?ck2\<rparr>)"
    by (auto simp: visits_def declares_def passed_def ids_distinct_def)
  have opt: "visits [] [] [] [] (optional_ok p Role_predicate None (ed_condition e)) (?ck2\<lparr>ch_event_ids := ed_semantic_id e # ch_event_ids ?ck2\<rparr>) ck'"
    using assms by (auto simp: check_event_header_def Let_def intro: visits_optional)
  from visits_trans [OF visits_clock visits_trans [OF e opt]] show ?thesis by simp
qed

subsection \<open>Visiting the statements\<close>

lemma visit_sound:
  "visit p st path available ck = Inr (available', ck') \<Longrightarrow>
    available' = outputs_after st available \<and>
    visits (statement_ids st) (event_addresses st) (output_ids st) (memory_addresses st) (statement_ok p st available) ck ck'"
  "visit_all p sts i path available ck = Inr (available', ck') \<Longrightarrow>
    available' = outputs_after_all sts available \<and>
    visits (concat (map statement_ids sts)) (concat (map event_addresses sts)) (concat (map output_ids sts))
      (concat (map memory_addresses sts)) (statements_ok p sts available) ck ck'"
proof (induction p st path available ck and p sts i path available ck arbitrary: available' ck' and available' ck'
    rule: visit_visit_all.induct)
  case (1 p i phrase category reason path available ck)
  then show ?case
    by (auto simp: visits_def declares_def passed_def register_statement_def Let_def)
next
  case (2 p st path available ck)
  then obtain "available' = ss_output_id st # available"
    and c: "check_selection p st path (register_statement (ss_semantic_id st) path ck) = Inr ck'"
    by (auto elim!: ebind_InrE)
  then show ?case using visits_trans [OF visits_register check_selection_visits [OF c]] by simp
next
  case (3 p a path available ck)
  then show ?case by (auto elim!: ebind_InrE intro: visits_registered_allocation)
next
  case (4 p i k yes no policy clock_id path available ck)
  let ?ck0 = "check_clock p clock_id (path @ ''.clock_id'') (register_statement i path ck)"
  obtain ck1 then_outputs ck2 otherwise_outputs where
    c: "check_condition p k (path @ ''.condition'') Role_predicate None ?ck0 = Inr ck1"
    and y: "visit_all p yes 0 (path @ ''.then'') available ck1 = Inr (then_outputs, ck2)"
    and n: "visit_all p no 0 (path @ ''.otherwise'') available ck2 = Inr (otherwise_outputs, ck')"
    and a: "available' = available @ filter (\<lambda>x. x \<in> set otherwise_outputs) then_outputs"
    using "4.prems" by (auto elim!: ebind_InrE)
  have yes: "then_outputs = outputs_after_all yes available"
    "visits (concat (map statement_ids yes)) (concat (map event_addresses yes)) (concat (map output_ids yes))
      (concat (map memory_addresses yes)) (statements_ok p yes available) ck1 ck2"
    using "4.IH"(1) [OF c y] by auto
  have no: "otherwise_outputs = outputs_after_all no available"
    "visits (concat (map statement_ids no)) (concat (map event_addresses no)) (concat (map output_ids no))
      (concat (map memory_addresses no)) (statements_ok p no available) ck2 ck'"
    using "4.IH"(2) [OF c y refl n] by auto
  note v = visits_trans [OF visits_register visits_trans [OF visits_clock visits_trans [OF visits_condition [OF c]
      visits_trans [OF yes(2) no(2)]]]]
  show ?case using v a yes(1) no(1) by (auto elim!: visits_weaken)
next
  case (5 p i e body path available ck)
  obtain ck1 outs where
    h: "check_event_header p e path (register_statement i path ck) = Inr ck1"
    and b: "visit_all p body 0 (path @ ''.statements'') available ck1 = Inr (outs, ck')"
    and a: "available' = available"
    using "5.prems" by (auto elim!: ebind_InrE)
  have "visits (concat (map statement_ids body)) (concat (map event_addresses body)) (concat (map output_ids body))
      (concat (map memory_addresses body)) (statements_ok p body available) ck1 ck'"
    using "5.IH" [OF h b] by simp
  note v = visits_trans [OF visits_register visits_trans [OF check_event_header_visits [OF h] this]]
  show ?case using v a by simp
next
  case (6 p i memory v clock_id path available ck)
  let ?ck1 = "check_clock p clock_id (path @ ''.clock_id'') (register_statement i path ck)"
  let ?ck2 = "report_if (memory \<in> set (ch_memories ?ck1)) ''duplicate_memory_id'' (path @ ''.memory_id'') ?ck1"
  have m: "visits [] [] [] [memory] True ?ck1 (?ck2\<lparr>ch_memories := memory # ch_memories ?ck2\<rparr>)"
    by (auto simp: visits_def declares_def passed_def ids_distinct_def)
  have "available' = available" "ck' = ?ck2\<lparr>ch_memories := memory # ch_memories ?ck2\<rparr>"
    using "6.prems" by (simp_all add: Let_def)
  then show ?case
    using visits_trans [OF visits_register visits_trans [OF visits_clock m]] by simp
next
  case (7 p i tr path available ck)
  let ?ck0 = "check_clock p (tr_clock_id tr) (path @ ''.transition.clock_id'') (register_statement i path ck)"
  obtain ck1 where c: "check_condition p (tr_when tr) (path @ ''.transition.when'') Role_predicate None ?ck0 = Inr ck1"
    and r: "available' = available" "ck' = report_if (\<not> dhas (pg_initial_state p) (tr_state_key tr)) ''undeclared_state'' (path @ ''.transition.state_key'') ck1"
    using "7.prems" by (auto elim!: ebind_InrE)
  from visits_trans [OF visits_register visits_trans [OF visits_clock visits_trans [OF visits_condition [OF c] visits_report]]]
  have "visits [i] [] [] [] (clock_known p (tr_clock_id tr) \<and> condition_ok p Role_predicate None (tr_when tr) \<and>
      dhas (pg_initial_state p) (tr_state_key tr)) ck ck'"
    unfolding r by (metis (no_types, lifting) append_Nil append_Nil2 visits_weaken)
  then show ?case by (simp add: r(1))
next
  case (8 p i g primary overrides fallback policy path available ck)
  then obtain r: "available' = available"
    and g: "check_guarded p g primary overrides fallback path available (register_statement i path ck) = Inr ck'"
    by (auto elim!: ebind_InrE)
  show ?case using visits_trans [OF visits_register check_guarded_visits [OF g]] r by simp
next
  case (9 p i path available ck)
  then show ?case by (simp add: visits_check)
next
  case (10 p st sts i path available ck)
  obtain av1 ck1 where
    h: "visit p st (indexed path i) available ck = Inr (av1, ck1)"
    and t: "visit_all p sts (Suc i) path av1 ck1 = Inr (available', ck')"
    using "10.prems" by (auto elim!: ebind_InrE)
  show ?case
    using "10.IH"(1) [OF h] "10.IH"(2) [OF h refl t] visits_trans by fastforce
qed

text \<open>A program without diagnostics.\<close>

lemma validate_program_sound:
  assumes "validate_program dump hash p = Inr []"
  shows "statements_ok p (pg_statements p) []"
    and "distinct (concat (map statement_ids (pg_statements p)))"
    and "distinct (concat (map event_addresses (pg_statements p)))"
    and "distinct (concat (map output_ids (pg_statements p)))"
    and "distinct (concat (map memory_addresses (pg_statements p)))"
proof -
  obtain av ck where v: "visit_all p (pg_statements p) 0 ''program.statements'' []
      (start_checker (identity_diagnostics hash (dump p))) = Inr (av, ck)" and d: "ch_diagnostics ck = []"
    using assms by (auto simp: validate_program_def elim!: ebind_InrE)
  note s = visit_sound(2) [OF v]
  have start: "ids_distinct (start_checker ds)" for ds
    by (simp add: ids_distinct_def start_checker_def)
  have "statements_ok p (pg_statements p) [] \<and> ids_distinct ck"
    using s d start by (auto simp: visits_def passed_def)
  then show "statements_ok p (pg_statements p) []"
    "distinct (concat (map statement_ids (pg_statements p)))"
    "distinct (concat (map event_addresses (pg_statements p)))"
    "distinct (concat (map output_ids (pg_statements p)))"
    "distinct (concat (map memory_addresses (pg_statements p)))"
    using s by (auto simp: ids_distinct_def visits_def declares_def start_checker_def)
qed

text \<open>Transitions of a validated program touch declared state keys only.\<close>

lemma statements_ok_member: "statements_ok p sts available \<Longrightarrow> st \<in> set sts \<Longrightarrow> \<exists>av. statement_ok p st av"
  by (induction sts arbitrary: available) auto

end
