(* ===== verification/Validation_References.thy ===== *)
theory Validation_References
  imports Validation_Sound
begin

text \<open>
  The references a Program without diagnostics may make. The validator collects the Event
  windows and the ids of every Condition on its way and looks at them, and at the Values of the
  Program, only when the visit is over; here is what that collection holds, and what an empty
  list of diagnostics says of it.
\<close>

subsection \<open>The Conditions of a statement\<close>

text \<open>In the order the validator visits them.\<close>

definition optional_conditions :: "condition option \<Rightarrow> condition list" where
  "optional_conditions c = (case c of None \<Rightarrow> [] | Some k \<Rightarrow> [k])"

fun statement_conditions :: "statement \<Rightarrow> condition list" where
  "statement_conditions (S_select st) =
     optional_conditions (sl_eligibility (ss_selection st)) @ score_conditions (sl_ranking (ss_selection st))"
| "statement_conditions (S_control _ k yes no _ _) =
     k # concat (map statement_conditions yes) @ concat (map statement_conditions no)"
| "statement_conditions (S_event _ e body) =
     optional_conditions (ed_condition e) @ concat (map statement_conditions body)"
| "statement_conditions (S_transition _ tr) = [tr_when tr]"
| "statement_conditions (S_guarded _ g _ overrides _ _) = optional_conditions g @ map ov_when overrides"
| "statement_conditions _ = []"

definition program_conditions :: "program \<Rightarrow> condition list" where
  "program_conditions p = concat (map statement_conditions (pg_statements p))"

text \<open>What a step of the checker collects.\<close>

definition collects :: "condition list \<Rightarrow> checker \<Rightarrow> checker \<Rightarrow> bool" where
  "collects cs ck ck' \<longleftrightarrow>
     map fst (ch_event_windows ck') = map fst (ch_event_windows ck) @ concat (map condition_event_windows cs) \<and>
     ch_condition_ids ck' = ch_condition_ids ck @ concat (map condition_semantic_ids cs)"

lemma collects_refl [simp]: "collects [] ck ck"
  by (simp add: collects_def)

lemma collects_trans: "collects a x y \<Longrightarrow> collects b y z \<Longrightarrow> collects (a @ b) x z"
  by (simp add: collects_def)

lemma collects_silent:
  "ch_event_windows ck' = ch_event_windows ck \<Longrightarrow> ch_condition_ids ck' = ch_condition_ids ck \<Longrightarrow> collects [] ck ck'"
  by (simp add: collects_def)

lemma silent_simps [simp]:
  "ch_event_windows (report code path ck) = ch_event_windows ck"
  "ch_condition_ids (report code path ck) = ch_condition_ids ck"
  "ch_event_windows (report_if c code path ck) = ch_event_windows ck"
  "ch_condition_ids (report_if c code path ck) = ch_condition_ids ck"
  "ch_event_windows (check_clock p k path ck) = ch_event_windows ck"
  "ch_condition_ids (check_clock p k path ck) = ch_condition_ids ck"
  "ch_event_windows (register_statement i path ck) = ch_event_windows ck"
  "ch_condition_ids (register_statement i path ck) = ch_condition_ids ck"
  by (simp_all add: report_def report_if_def check_clock_def register_statement_def Let_def)

lemma collects_report: "collects [] ck (report_if c code path ck)"
  and collects_clock: "collects [] ck (check_clock p k path ck)"
  and collects_register: "collects [] ck (register_statement i path ck)"
  by (simp_all add: collects_silent)

lemma collects_fold:
  assumes "\<And>x c. x \<in> set xs \<Longrightarrow> collects [] c (f x c)"
  shows "collects [] ck (fold f xs ck)"
  using assms
proof (induction xs arbitrary: ck)
  case (Cons x xs)
  show ?case using collects_trans [OF Cons.prems [of x ck] Cons.IH [of "f x ck"]] Cons.prems by simp
qed simp

lemma collects_efold:
  assumes "efold f xs ck = Inr ck'" and "\<And>x a b. x \<in> set xs \<Longrightarrow> f x a = Inr b \<Longrightarrow> collects (g x) a b"
  shows "collects (concat (map g xs)) ck ck'"
  using assms
proof (induction xs arbitrary: ck)
  case (Cons x xs)
  then obtain c where c: "f x ck = Inr c" "efold f xs c = Inr ck'"
    by (auto elim!: ebind_InrE)
  show ?case using collects_trans [OF Cons.prems(2) [OF _ c(1)] Cons.IH [OF c(2)]] Cons.prems(2) by simp
qed simp

lemma collects_condition:
  assumes "check_condition p c path role b ck = Inr ck'"
  shows "collects [c] ck ck'"
proof -
  have fields: "ch_event_windows (fold (\<lambda>k. report_if (q k) code path) ks c0) = ch_event_windows c0"
    "ch_condition_ids (fold (\<lambda>k. report_if (q k) code path) ks c0) = ch_condition_ids c0" for q code ks c0
    by (induction ks arbitrary: c0) simp_all
  show ?thesis
    using assms by (auto simp: check_condition_def Let_def collects_def fields o_def elim!: ebind_InrE)
qed

lemma collects_optional: "check_optional p c path ck = Inr ck' \<Longrightarrow> collects (optional_conditions c) ck ck'"
  by (auto simp: check_optional_def optional_conditions_def intro: collects_condition split: option.splits)

lemma collects_legs: "collects [] ck (check_legs available path legs ck)"
  unfolding check_legs_def by (rule collects_fold) (auto intro: collects_report)

lemma collects_allocation:
  assumes "check_allocation p a path available ck = Inr ck'"
  shows "collects [] ck ck'"
proof -
  let ?ck1 = "check_legs available path (as_legs a) (check_clock p (as_clock_id a) (path @ ''.clock_id'') ck)"
  have "collects [] ck ?ck1" using collects_trans [OF collects_clock collects_legs] by simp
  moreover have "collects [] ?ck1 ck'"
    using assms by (intro collects_silent) (auto simp: check_allocation_def Let_def split: if_splits list.splits option.splits)
  ultimately show ?thesis using collects_trans by fastforce
qed

lemma collects_registered_allocation:
  "check_allocation p a path available (register_statement i path' ck) = Inr ck' \<Longrightarrow> collects [] ck ck'"
  using collects_trans [OF collects_register collects_allocation] by simp

subsection \<open>Selections, guarded Allocations, Events\<close>

lemma numbered_map: "map (\<lambda>q. f (snd q)) (zip [0..<length xs] xs) = map f xs"
proof -
  have "map snd (zip [0..<length xs] xs) = xs" by (simp add: map_snd_zip)
  then show ?thesis by (metis (no_types, lifting) map_eq_conv map_map o_apply)
qed

lemma concat_singletons [simp]: "concat (map (\<lambda>x. [f x]) xs) = map f xs"
  by (induction xs) simp_all

lemma collects_domains: "collects [] ck (check_domains s path ck)"
  unfolding check_domains_def Let_def by (rule collects_fold) (auto intro!: collects_fold collects_report)

lemma collects_score_conditions:
  assumes "check_score_conditions p s path ck = Inr ck'"
  shows "collects (score_conditions (sl_ranking s)) ck ck'"
proof -
  let ?zip = "zip [0..<length (score_conditions (sl_ranking s))] (score_conditions (sl_ranking s))"
  have "collects (concat (map (\<lambda>q. [snd q]) ?zip)) ck ck'"
    using assms unfolding check_score_conditions_def Let_def
    by (rule collects_efold) (auto intro: collects_condition)
  then show ?thesis using numbered_map [of "\<lambda>c. c" "score_conditions (sl_ranking s)"] by simp
qed

lemma collects_ranking: "check_ranking st path ck = Inr ck' \<Longrightarrow> collects [] ck ck'"
  by (rule collects_silent) (auto simp: check_ranking_def Let_def try_value_error_def split: sum.splits if_splits)

lemma collects_selection:
  assumes "check_selection p st path ck = Inr ck'"
  shows "collects (statement_conditions (S_select st)) ck ck'"
proof -
  let ?s = "ss_selection st" and ?ck1 = "check_clock p (ss_clock_id st) (path @ ''.clock_id'') ck"
  let ?ck2 = "report_if (ss_output_id st \<in> set (ch_outputs ?ck1)) ''duplicate_selection_output'' (path @ ''.output_id'') ?ck1"
  let ?ck3 = "check_domains ?s path (?ck2\<lparr>ch_outputs := ss_output_id st # ch_outputs ?ck2\<rparr>)"
  obtain ck4 ck5 where
    e: "(case sl_eligibility ?s of None \<Rightarrow> Inr ?ck3
         | Some c \<Rightarrow> check_condition p c (path @ ''.selection.eligibility'') Role_eligibility (Some (sl_binding_id ?s)) ?ck3) = Inr ck4"
    and s: "check_score_conditions p ?s path ck4 = Inr ck5" and r: "check_ranking st path ck5 = Inr ck'"
    using assms by (auto simp: check_selection_def Let_def elim!: ebind_InrE)
  have "collects [] ck (?ck2\<lparr>ch_outputs := ss_output_id st # ch_outputs ?ck2\<rparr>)" by (rule collects_silent) simp_all
  moreover have "collects (optional_conditions (sl_eligibility ?s)) ?ck3 ck4"
    using e by (auto simp: optional_conditions_def split: option.splits intro: collects_condition)
  ultimately show ?thesis
    using collects_trans [OF _ collects_trans [OF collects_domains collects_trans [OF _ collects_trans [OF collects_score_conditions [OF s] collects_ranking [OF r]]]]]
    by fastforce
qed

lemma collects_guarded:
  assumes "check_guarded p g primary overrides fallback path available ck = Inr ck'"
  shows "collects (optional_conditions g @ map ov_when overrides) ck ck'"
proof -
  let ?zip = "zip [0..<length overrides] overrides"
  obtain ck1 where g: "check_optional p g (path @ ''.guard'') ck = Inr ck1"
    using assms by (auto simp: check_guarded_def elim!: ebind_InrE)
  let ?ck2 = "report_if (\<not> distinct (map ov_priority overrides)) ''duplicate_override_priority'' (path @ ''.overrides'') ck1"
  obtain ck3 ck4 where
    a: "check_allocation p primary (path @ ''.primary'') available (register_statement (as_semantic_id primary) (path @ ''.primary'') ?ck2) = Inr ck3"
    and ov: "efold (\<lambda>(i, r) c.
          let rpath = indexed (path @ ''.overrides'') i; apath = rpath @ ''.action'' in
          ebind (check_condition p (ov_when r) (rpath @ ''.when'') Role_predicate None c) (\<lambda>c1.
            check_allocation p (ov_action r) apath available (register_statement (as_semantic_id (ov_action r)) apath c1)))
        ?zip ck3 = Inr ck4"
    and f: "(case fallback of None \<Rightarrow> Inr ck4
       | Some a \<Rightarrow> check_allocation p a (path @ ''.fallback'') available (register_statement (as_semantic_id a) (path @ ''.fallback'') ck4)) = Inr ck'"
    using assms g by (auto simp: check_guarded_def Let_def elim!: ebind_InrE)
  have "collects (concat (map (\<lambda>q. [ov_when (snd q)]) ?zip)) ck3 ck4"
    using ov
  proof (rule collects_efold)
    fix q c c'
    assume "(case q of (i, r) \<Rightarrow> \<lambda>c. let rpath = indexed (path @ ''.overrides'') i; apath = rpath @ ''.action'' in
        ebind (check_condition p (ov_when r) (rpath @ ''.when'') Role_predicate None c) (\<lambda>c1.
          check_allocation p (ov_action r) apath available (register_statement (as_semantic_id (ov_action r)) apath c1))) c = Inr c'"
    then show "collects [ov_when (snd q)] c c'"
      using collects_trans [OF collects_condition collects_registered_allocation]
      by (auto simp: Let_def elim!: ebind_InrE split: prod.splits)
  qed
  then have "collects (map ov_when overrides) ck3 ck4" using numbered_map [of ov_when overrides] by simp
  moreover have "collects [] ck4 ck'"
    using f by (cases fallback) (auto intro: collects_registered_allocation)
  ultimately show ?thesis
    using collects_trans [OF collects_optional [OF g] collects_trans [OF collects_report collects_trans [OF collects_registered_allocation [OF a] collects_trans]]]
    by fastforce
qed

lemma collects_event_header:
  assumes "check_event_header p e path ck = Inr ck'"
  shows "collects (optional_conditions (ed_condition e)) ck ck'"
proof -
  let ?ck1 = "check_clock p (Some (ed_clock_id e)) (path @ ''.event.clock_id'') ck"
  let ?ck2 = "report_if (ed_semantic_id e \<in> set (ch_event_ids ?ck1)) ''duplicate_event_id'' (path @ ''.event.semantic_id'') ?ck1"
  let ?ck3 = "?ck2\<lparr>ch_event_ids := ed_semantic_id e # ch_event_ids ?ck2\<rparr>"
  have "collects [] ck ?ck3" by (rule collects_silent) simp_all
  moreover have "collects (optional_conditions (ed_condition e)) ?ck3 ck'"
    using assms by (auto simp: check_event_header_def Let_def intro: collects_optional)
  ultimately show ?thesis using collects_trans by fastforce
qed

subsection \<open>Visiting the statements\<close>

lemma visit_collects:
  "visit p st path available ck = Inr (available', ck') \<Longrightarrow> collects (statement_conditions st) ck ck'"
  "visit_all p sts i path available ck = Inr (available', ck') \<Longrightarrow> collects (concat (map statement_conditions sts)) ck ck'"
proof (induction p st path available ck and p sts i path available ck arbitrary: available' ck' and available' ck'
    rule: visit_visit_all.induct)
  case (1 p i phrase category reason path available ck)
  then show ?case by (auto intro: collects_silent)
next
  case (2 p st path available ck)
  then show ?case using collects_trans [OF collects_register collects_selection] by (auto elim!: ebind_InrE)
next
  case (3 p a path available ck)
  then show ?case by (auto elim!: ebind_InrE intro: collects_registered_allocation)
next
  case (4 p i k yes no policy clock_id path available ck)
  let ?ck0 = "check_clock p clock_id (path @ ''.clock_id'') (register_statement i path ck)"
  obtain ck1 y ck2 n where
    c: "check_condition p k (path @ ''.condition'') Role_predicate None ?ck0 = Inr ck1"
    and y: "visit_all p yes 0 (path @ ''.then'') available ck1 = Inr (y, ck2)"
    and n: "visit_all p no 0 (path @ ''.otherwise'') available ck2 = Inr (n, ck')"
    using "4.prems" by (auto elim!: ebind_InrE)
  show ?case
    using collects_trans [OF collects_register collects_trans [OF collects_clock collects_trans [OF collects_condition [OF c]
      collects_trans [OF "4.IH"(1) [OF c y] "4.IH"(2) [OF c y refl n]]]]] by simp
next
  case (5 p i e body path available ck)
  obtain ck1 outs where
    h: "check_event_header p e path (register_statement i path ck) = Inr ck1"
    and b: "visit_all p body 0 (path @ ''.statements'') available ck1 = Inr (outs, ck')"
    using "5.prems" by (auto elim!: ebind_InrE)
  show ?case using collects_trans [OF collects_register collects_trans [OF collects_event_header [OF h] "5.IH" [OF h b]]] by simp
next
  case (6 p i memory v clock_id path available ck)
  then show ?case by (auto simp: Let_def intro!: collects_silent)
next
  case (7 p i tr path available ck)
  obtain ck1 where c: "check_condition p (tr_when tr) (path @ ''.transition.when'') Role_predicate None
      (check_clock p (tr_clock_id tr) (path @ ''.transition.clock_id'') (register_statement i path ck)) = Inr ck1"
    and r: "ck' = report_if (\<not> dhas (pg_initial_state p) (tr_state_key tr)) ''undeclared_state'' (path @ ''.transition.state_key'') ck1"
    using "7.prems" by (auto elim!: ebind_InrE)
  show ?case
    using collects_trans [OF collects_register collects_trans [OF collects_clock collects_trans [OF collects_condition [OF c] collects_report]]]
    unfolding r by simp
next
  case (8 p i g primary overrides fallback policy path available ck)
  then show ?case using collects_trans [OF collects_register collects_guarded] by (auto elim!: ebind_InrE)
next
  case (9 p i path available ck)
  then show ?case by simp
next
  case (10 p st sts i path available ck)
  obtain av1 ck1 where
    h: "visit p st (indexed path i) available ck = Inr (av1, ck1)"
    and t: "visit_all p sts (Suc i) path av1 ck1 = Inr (available', ck')"
    using "10.prems" by (auto elim!: ebind_InrE)
  show ?case using collects_trans [OF "10.IH"(1) [OF h] "10.IH"(2) [OF h refl t]] by simp
qed

subsection \<open>What the references are\<close>

text \<open>
  A Value in its place: the Events, memories, state keys and clocks it names are declared in the
  Program, a cross section observes its candidate, and what is observed is the adjusted close,
  the one field the data has.
\<close>

definition observes_candidate :: "value_expr \<Rightarrow> bool" where
  "observes_candidate s \<longleftrightarrow>
     (\<exists>n \<in> set (daily_nodes_for_value s). nf_subject_kind (dn_fields n) = Some Subject_candidate)"

fun names_declared :: "program \<Rightarrow> value_expr \<Rightarrow> bool" where
  "names_declared p (V_cross_sectional _ s _ _ _ _) \<longleftrightarrow> observes_candidate s"
| "names_declared p (V_cross_aggregate _ s _ _ _) \<longleftrightarrow> observes_candidate s"
| "names_declared p (V_event_relative _ e _ _) \<longleftrightarrow> e \<in> set (fst (checkpoint_addresses p))"
| "names_declared p (V_bars_since_event _ e) \<longleftrightarrow> e \<in> set (fst (checkpoint_addresses p))"
| "names_declared p (V_time_since_event _ e) \<longleftrightarrow> e \<in> set (fst (checkpoint_addresses p))"
| "names_declared p (V_bars_since_state _ k) \<longleftrightarrow> dhas (pg_initial_state p) k"
| "names_declared p (V_time_since_state _ k) \<longleftrightarrow> dhas (pg_initial_state p) k"
| "names_declared p (V_remembered _ m _ _ _) \<longleftrightarrow> m \<in> set (snd (checkpoint_addresses p))"
| "names_declared p (V_clocked _ _ k) \<longleftrightarrow> clock_known p (Some k)"
| "names_declared p _ \<longleftrightarrow> True"

definition value_ok :: "program \<Rightarrow> value_expr \<Rightarrow> bool" where
  "value_ok p v \<longleftrightarrow> names_declared p v \<and>
     (\<forall>n \<in> set (daily_nodes_for_value v). nf_kind (dn_fields n) = K_observe \<longrightarrow>
        nf_field (dn_fields n) = Some F_close \<and> nf_basis (dn_fields n) = Some B_adjusted)"

text \<open>The ids a formalized phrase may be traced to.\<close>

definition declared_ids :: "program \<Rightarrow> string set" where
  "declared_ids p =
     set (concat (map statement_ids (pg_statements p))) \<union> set (fst (checkpoint_addresses p)) \<union>
     set (snd (checkpoint_addresses p)) \<union> set (concat (map output_ids (pg_statements p))) \<union>
     set (concat (map condition_semantic_ids (program_conditions p))) \<union>
     set (concat (map value_semantic_ids (program_values p)))"

definition references_ok :: "program \<Rightarrow> bool" where
  "references_ok p \<longleftrightarrow>
     (\<forall>v \<in> set (program_values p). value_ok p v) \<and>
     (\<forall>c \<in> set (program_conditions p). set (condition_event_windows c) \<subseteq> set (fst (checkpoint_addresses p))) \<and>
     (\<forall>z \<in> set (pg_formalizations p). fz_status z \<noteq> Unresolved_phrase \<and> set (fz_semantic_ids z) \<subseteq> declared_ids p)"

lemma value_diagnostics_sound:
  assumes "value_diagnostics p ck v = []"
    and "set (ch_event_ids ck) = set (fst (checkpoint_addresses p))" "set (ch_memories ck) = set (snd (checkpoint_addresses p))"
  shows "value_ok p v"
proof -
  have "names_declared p v"
    using assms by (cases v)
      (auto simp: value_diagnostics_def reference_code_def lacks_candidate_def observes_candidate_def clock_known_def list_ex_iff
        split: if_splits)
  then show ?thesis
    using assms(1) by (auto simp: value_ok_def value_diagnostics_def unsupported_field_def Let_def filter_empty_conv)
qed

lemma validated_references:
  assumes "validate_program dump hash p = Inr []"
  shows "references_ok p"
proof -
  let ?start = "start_checker (identity_diagnostics hash (dump p))"
  let ?numbered = "zip [0..<length (pg_formalizations p)] (pg_formalizations p)"
  obtain av ck where v: "visit_all p (pg_statements p) 0 ''program.statements'' [] ?start = Inr (av, ck)"
    and sound: "\<forall>v \<in> set (program_values p). value_diagnostics p ck v = []"
    and windows: "window_diagnostics ck = []"
    and phrases: "\<forall>q \<in> set ?numbered. formalization_diagnostics (executable_ids p ck) q = []"
    using assms by (auto simp: validate_program_def elim!: ebind_InrE)
  have ids: "ch_event_ids ck = rev (fst (checkpoint_addresses p))" "ch_memories ck = rev (snd (checkpoint_addresses p))"
    "ch_statement_ids ck = rev (concat (map statement_ids (pg_statements p)))"
    "ch_outputs ck = rev (concat (map output_ids (pg_statements p)))"
    using visit_sound(2) [OF v] by (auto simp: visits_def declares_def start_checker_def checkpoint_addresses_def)
  have noted: "map fst (ch_event_windows ck) = concat (map condition_event_windows (program_conditions p))"
    "ch_condition_ids ck = concat (map condition_semantic_ids (program_conditions p))"
    using visit_collects(2) [OF v] by (auto simp: collects_def start_checker_def program_conditions_def)
  have "set (map fst (ch_event_windows ck)) \<subseteq> set (ch_event_ids ck)"
    using windows by (auto simp: window_diagnostics_def filter_empty_conv)
  then have w: "\<forall>c \<in> set (program_conditions p). set (condition_event_windows c) \<subseteq> set (fst (checkpoint_addresses p))"
    unfolding noted ids by auto
  have "set (executable_ids p ck) = declared_ids p"
    by (auto simp: executable_ids_def declared_ids_def ids noted)
  then have "fz_status z \<noteq> Unresolved_phrase \<and> set (fz_semantic_ids z) \<subseteq> declared_ids p"
    if "formalization_diagnostics (executable_ids p ck) (i, z) = []" for i z
    using that by (auto simp: formalization_diagnostics_def Let_def filter_empty_conv split: if_splits)
  then have "\<forall>q \<in> set ?numbered. fz_status (snd q) \<noteq> Unresolved_phrase \<and> set (fz_semantic_ids (snd q)) \<subseteq> declared_ids p"
    using phrases by (metis prod.collapse)
  then have z: "\<forall>z \<in> set (pg_formalizations p). fz_status z \<noteq> Unresolved_phrase \<and> set (fz_semantic_ids z) \<subseteq> declared_ids p"
    by (simp only: numbered_members [where P = "\<lambda>z. fz_status z \<noteq> Unresolved_phrase \<and> set (fz_semantic_ids z) \<subseteq> declared_ids p"])
  have "value_ok p v" if "v \<in> set (program_values p)" for v
    using value_diagnostics_sound [of p ck v] sound that by (simp add: ids(1,2))
  then show ?thesis unfolding references_ok_def using w z by blast
qed

end
