(* ===== verification/Replay.thy ===== *)
theory Replay
  imports Program_Invariants Validation_References
begin

text \<open>
  Running a Program session by session: each execution continues from the checkpoint of the one
  before, as \<open>evaluate_corpus_entry\<close> in \<open>strategy/v2/corpus.py\<close> and the LEAN differential do.
  The checkpoint an execution leaves is one a later execution accepts, so that the guards never
  refuse a replay.
\<close>

subsection \<open>The checkpoint of a result\<close>

definition checkpoint_after :: "execution_result option \<Rightarrow> checkpoint" where
  "checkpoint_after prior =
     (case prior of
        None \<Rightarrow> \<lparr>cp_prior_state = None, cp_event_cutoffs = [], cp_prior_event_truths = [], cp_event_counts = [],
                 cp_state_entered_cutoffs = [], cp_remembered_values = []\<rparr>
      | Some r \<Rightarrow> \<lparr>cp_prior_state = Some (er_state r), cp_event_cutoffs = er_event_cutoffs r,
                   cp_prior_event_truths = er_event_truths r, cp_event_counts = er_event_counts r,
                   cp_state_entered_cutoffs = er_state_entered_cutoffs r, cp_remembered_values = er_remembered_values r\<rparr>)"

text \<open>\<open>for index in range(last + 1)\<close>; the result is the last one, and with none the assertion fails.\<close>

definition replay_step ::
  "(program \<Rightarrow> json) \<Rightarrow> (json \<Rightarrow> string) \<Rightarrow> platform \<Rightarrow> program \<Rightarrow> snapshot \<Rightarrow> int \<Rightarrow> execution_result option \<Rightarrow> execution_result option res" where
  "replay_step dump hash pf p sn index prior =
     ebind (execute_program dump hash pf p sn (Some index) None (checkpoint_after prior)) (\<lambda>r. Inr (Some r))"

definition replay_program ::
  "(program \<Rightarrow> json) \<Rightarrow> (json \<Rightarrow> string) \<Rightarrow> platform \<Rightarrow> program \<Rightarrow> snapshot \<Rightarrow> int option \<Rightarrow> execution_result res" where
  "replay_program dump hash pf p sn cutoff_index =
     (let last = (case cutoff_index of None \<Rightarrow> int (length (sn_dates sn)) - 1 | Some i \<Rightarrow> i) in
      ebind (efold (replay_step dump hash pf p sn) (map int [0..<nat (last + 1)]) None) (\<lambda>final.
        case final of None \<Rightarrow> Inl Assertion_error | Some r \<Rightarrow> Inr r))"

subsection \<open>What the guards accept\<close>

definition accepted_checkpoint :: "program \<Rightarrow> int \<Rightarrow> checkpoint \<Rightarrow> bool" where
  "accepted_checkpoint p cutoff cp \<longleftrightarrow>
     (let E = fst (checkpoint_addresses p); M = snd (checkpoint_addresses p); S = dkeys (pg_initial_state p) in
      (\<forall>s. cp_prior_state cp = Some s \<longrightarrow> set (dkeys s) = set S) \<and>
      indices_ok cutoff E (cp_event_cutoffs cp) \<and>
      set (dkeys (cp_event_counts cp)) \<subseteq> set E \<and> (\<forall>n \<in> set (dvalues (cp_event_counts cp)). 0 \<le> n) \<and>
      set (dkeys (cp_prior_event_truths cp)) \<subseteq> set E \<and> set (dvalues (cp_prior_event_truths cp)) \<subseteq> set truth_texts \<and>
      indices_ok cutoff S (cp_state_entered_cutoffs cp) \<and> set (dkeys (cp_remembered_values cp)) \<subseteq> set M)"

lemma check_addresses_iff: "check_addresses name d allowed = Inr u \<longleftrightarrow> set (dkeys d) \<subseteq> set allowed"
  by (auto simp: check_addresses_def Let_def refuse_def filter_empty_conv)

lemma list_ex_outside: "list_ex (\<lambda>i. i < 0 \<or> cutoff < i) xs \<longleftrightarrow> \<not> (\<forall>i \<in> set xs. 0 \<le> i \<and> i \<le> (cutoff :: int))"
  by (induction xs) auto

lemma refuse_neq [simp]: "refuse s \<noteq> Inr u"
  by (simp add: refuse_def)

lemma check_checkpoint_iff: "check_checkpoint p cutoff cp = Inr u \<longleftrightarrow> accepted_checkpoint p cutoff cp"
proof -
  have truths: "list_ex (\<lambda>t. t \<notin> {''true'', ''false'', ''unknown''}) xs \<longleftrightarrow> \<not> set xs \<subseteq> set truth_texts" for xs
    by (induction xs) (auto simp: truth_texts_def)
  have counts: "list_ex (\<lambda>n. n < 0) xs \<longleftrightarrow> \<not> (\<forall>n \<in> set xs. (0 :: int) \<le> n)" for xs
    by (induction xs) auto
  show ?thesis
    unfolding check_checkpoint_def checkpoint_addresses_def accepted_checkpoint_def Let_def prod.case fst_conv snd_conv
      list_ex_outside truths counts indices_ok_def
    by (cases "cp_prior_state cp") (auto simp: ebind_eq_Inr check_addresses_iff)
qed

lemma check_checkpoint_cases:
  obtains "check_checkpoint p cutoff cp = Inr ()" "accepted_checkpoint p cutoff cp"
  | e where "check_checkpoint p cutoff cp = Inl e" "\<not> accepted_checkpoint p cutoff cp"
  using check_checkpoint_iff [of p cutoff cp] by (cases "check_checkpoint p cutoff cp") auto

lemma accepted_start: "accepted_checkpoint p cutoff (checkpoint_after None)"
  by (simp add: accepted_checkpoint_def checkpoint_after_def Let_def indices_ok_def dkeys_def dvalues_def)

subsection \<open>Runs of a validated program\<close>

lemma statement_ok_transition_keys:
  "statement_ok p st available \<Longrightarrow> set (transition_keys st) \<subseteq> set (dkeys (pg_initial_state p))"
  "statements_ok p sts available \<Longrightarrow> set (concat (map transition_keys sts)) \<subseteq> set (dkeys (pg_initial_state p))"
proof (induction p st available and p sts available rule: statement_ok_statements_ok.induct)
  case (7 p i tr available)
  then show ?case by (simp add: dhas_iff)
qed auto

abbreviation program_step :: "program \<Rightarrow> runtime \<Rightarrow> runtime \<Rightarrow> bool" where
  "program_step p \<equiv> step_ok (fst (checkpoint_addresses p)) (snd (checkpoint_addresses p)) (dkeys (pg_initial_state p))"

lemma program_run_step:
  assumes "statements_ok p (pg_statements p) []" and "run_statements pf (pg_statements p) rt = Inr rt'"
  shows "program_step p rt rt'"
proof (rule run_statements_step [OF assms(2)])
  fix st assume st: "st \<in> set (pg_statements p)"
  then have "set (transition_keys st) \<subseteq> set (dkeys (pg_initial_state p))"
    using statement_ok_transition_keys(2) [OF assms(1)] by auto
  then show "addresses_within (fst (checkpoint_addresses p)) (snd (checkpoint_addresses p)) (dkeys (pg_initial_state p)) st"
    using st by (auto simp: addresses_within_def checkpoint_addresses_def)
qed

lemma start_shape:
  assumes "accepted_checkpoint p cutoff cp"
  shows "checkpoint_shape (fst (checkpoint_addresses p)) (snd (checkpoint_addresses p)) (dkeys (pg_initial_state p))
    (start_runtime p sn cutoff cp)"
  using assms
  by (auto simp: accepted_checkpoint_def Let_def checkpoint_shape_def start_runtime_def new_runtime_def dkeys_def dvalues_def
      split: option.splits)

lemma accepted_of_shape:
  assumes "checkpoint_shape (fst (checkpoint_addresses p)) (snd (checkpoint_addresses p)) (dkeys (pg_initial_state p)) rt"
    and "rt_cutoff rt \<le> cutoff"
  shows "accepted_checkpoint p cutoff (checkpoint_after (Some (result_of revision p sn date rt)))"
  using assms
  by (force simp: accepted_checkpoint_def Let_def checkpoint_shape_def checkpoint_after_def result_of_def indices_ok_def)

subsection \<open>Executions and replays of a validated program\<close>

lemma execute_valid:
  assumes "validate_program dump hash p = Inr []" and "i < length (sn_dates sn)"
  shows "execute_program dump hash pf p sn (Some (int i)) revision cp =
    ebind (check_checkpoint p (int i) cp) (\<lambda>_.
    ebind (run_statements pf (pg_statements p) (start_runtime p sn (int i) cp)) (\<lambda>rt.
      Inr (result_of revision p sn (sn_dates sn ! i) rt)))"
  using assms by (simp add: execute_program_def py_index_nat Let_def)

text \<open>A successful execution, inverted: the guards passed and the statements ran.\<close>

lemma execute_InrE:
  assumes "execute_program dump hash pf p sn cutoff_index revision cp = Inr r"
  obtains cutoff rt date where "cutoff = (case cutoff_index of None \<Rightarrow> int (length (sn_dates sn)) - 1 | Some i \<Rightarrow> i)"
    and "validate_program dump hash p = Inr []" and "0 \<le> cutoff" and "cutoff < int (length (sn_dates sn))"
    and "accepted_checkpoint p cutoff cp"
    and "run_statements pf (pg_statements p) (start_runtime p sn cutoff cp) = Inr rt"
    and "r = result_of revision p sn date rt" and "date = sn_dates sn ! nat cutoff"
proof -
  define cutoff where "cutoff = (case cutoff_index of None \<Rightarrow> int (length (sn_dates sn)) - 1 | Some i \<Rightarrow> i)"
  from assms obtain rt date u where v: "validate_program dump hash p = Inr []"
    and c: "0 \<le> cutoff" "cutoff < int (length (sn_dates sn))"
    and k: "check_checkpoint p cutoff cp = Inr u"
    and s: "run_statements pf (pg_statements p) (start_runtime p sn cutoff cp) = Inr rt"
    and w: "py_index (sn_dates sn) cutoff = Inr date" and r: "r = result_of revision p sn date rt"
    unfolding execute_program_def Let_def cutoff_def [symmetric]
    by (auto split: if_splits elim!: ebind_InrE)
  have "date = sn_dates sn ! nat cutoff"
    using w c py_index_nat [of "nat cutoff" "sn_dates sn"] by (simp add: nat_less_iff)
  then show thesis
    using that v c k s r check_checkpoint_iff cutoff_def by blast
qed

lemma start_runtime_cutoff [simp]: "rt_cutoff (start_runtime p sn i cp) = i"
  by (simp add: start_runtime_def new_runtime_def Let_def)

text \<open>The runtime at the end of a session, and the shape of the checkpoint it carries.\<close>

lemma session_shape:
  assumes "validate_program dump hash p = Inr []" and "accepted_checkpoint p i cp" and "0 \<le> i"
    and "run_statements pf (pg_statements p) (start_runtime p sn i cp) = Inr rt"
  shows "rt_cutoff rt = i" and "checkpoint_shape (fst (checkpoint_addresses p)) (snd (checkpoint_addresses p))
    (dkeys (pg_initial_state p)) rt"
  using program_run_step [OF validate_program_sound(1) [OF assms(1)] assms(4)] start_shape [OF assms(2)] assms(3)
  by (auto simp: step_ok_def same_run_def)

text \<open>The sessions without the guards: a checkpoint is what the runtime carries.\<close>

definition carried :: "runtime option \<Rightarrow> checkpoint" where
  "carried prior =
     (case prior of
        None \<Rightarrow> checkpoint_after None
      | Some rt \<Rightarrow> \<lparr>cp_prior_state = Some (rt_state rt), cp_event_cutoffs = rt_event_cutoffs rt,
                    cp_prior_event_truths = rt_event_truths rt, cp_event_counts = rt_event_counts rt,
                    cp_state_entered_cutoffs = rt_state_entered_cutoffs rt, cp_remembered_values = rt_remembered_values rt\<rparr>)"

lemma carried_result: "checkpoint_after (map_option (result_of revision p sn date) prior) = carried prior"
  by (cases prior) (simp_all add: carried_def checkpoint_after_def result_of_def)

definition run_session :: "platform \<Rightarrow> program \<Rightarrow> snapshot \<Rightarrow> int \<Rightarrow> runtime option \<Rightarrow> runtime option res" where
  "run_session pf p sn i prior =
     ebind (run_statements pf (pg_statements p) (start_runtime p sn i (carried prior))) (\<lambda>rt. Inr (Some rt))"

definition run_sessions :: "platform \<Rightarrow> program \<Rightarrow> snapshot \<Rightarrow> nat \<Rightarrow> runtime option res" where
  "run_sessions pf p sn n = efold (run_session pf p sn) (map int [0..<n]) None"

lemma efold_single: "efold f [x] = f x"
proof
  show "efold f [x] s = f x s" for s by (cases "f x s") simp_all
qed

lemma run_sessions_Suc:
  "run_sessions pf p sn (Suc n) = ebind (run_sessions pf p sn n) (run_session pf p sn (int n))"
  by (simp add: run_sessions_def efold_append efold_single del: efold.simps)

text \<open>What the sessions carry is accepted by every later session.\<close>

lemma sessions_accepted:
  assumes "validate_program dump hash p = Inr []" and "run_sessions pf p sn n = Inr prior"
  shows "(prior = None \<longleftrightarrow> n = 0) \<and> (int n \<le> cutoff + 1 \<longrightarrow> accepted_checkpoint p cutoff (carried prior))"
  using assms(2)
proof (induction n arbitrary: prior cutoff)
  case 0
  then show ?case by (simp add: run_sessions_def carried_def accepted_start)
next
  case (Suc n)
  then obtain before rt where b: "run_sessions pf p sn n = Inr before"
    and rt: "run_statements pf (pg_statements p) (start_runtime p sn (int n) (carried before)) = Inr rt" "prior = Some rt"
    by (auto simp: run_sessions_Suc run_session_def elim!: ebind_InrE)
  have "accepted_checkpoint p (int n) (carried before)"
    using Suc.IH [OF b] by simp
  note s = session_shape [OF assms(1) this _ rt(1)]
  show ?case
    using s accepted_of_shape [of p rt cutoff None sn "[]"] carried_result [of None p sn "[]" "Some rt"] rt(2) by simp
qed

lemma replay_loop:
  assumes "validate_program dump hash p = Inr []" and "n \<le> length (sn_dates sn)"
  shows "efold (replay_step dump hash pf p sn) (map int [0..<n]) None =
    ebind (run_sessions pf p sn n) (\<lambda>prior. Inr (map_option (result_of None p sn (sn_dates sn ! (n - 1))) prior))"
  using assms(2)
proof (induction n)
  case 0
  then show ?case by (simp add: run_sessions_def)
next
  case (Suc n)
  show ?case
  proof (cases "run_sessions pf p sn n")
    case (Inl e)
    then show ?thesis using Suc by (simp add: run_sessions_Suc efold_append)
  next
    case (Inr prior)
    have "accepted_checkpoint p (int n) (carried prior)"
      using sessions_accepted [OF assms(1) Inr] by simp
    then have "check_checkpoint p (int n) (carried prior) = Inr ()"
      by (simp add: check_checkpoint_iff)
    then show ?thesis
      using Suc Inr
      by (simp add: run_sessions_Suc efold_append replay_step_def run_session_def carried_result
          execute_valid [OF assms(1)] ebind_assoc)
  qed
qed

end
