(* ===== verification/Generated_Sessions.thy ===== *)
theory Generated_Sessions
  imports Generated_Refinement V2_Subscriptions Replay
begin

text \<open>
  The generated algorithm over a whole run: session after session its fields stay in agreement with
  the runtime of a replay, for Programs of Events followed by one guarded policy.
\<close>

subsection \<open>What a policy leaves alone\<close>

lemma run_allocation_keeps: "run_allocation pf a out rt = Inr rt' \<Longrightarrow> same_checkpoint rt rt' \<and> same_run rt rt'"
  by (auto simp: run_allocation_def Let_def add_evidence_def same_checkpoint_def same_run_def
      elim!: ebind_InrE split: if_splits option.splits list.splits)

lemma first_override_keeps: "first_override pf rs rt = Inr (r, rt') \<Longrightarrow> same_checkpoint rt rt' \<and> same_run rt rt'"
proof (induction rs arbitrary: rt)
  case (Cons q rs)
  from Cons.prems obtain t rt1 where t: "run_condition pf [] None None (ov_when q) rt = Inr (t, rt1)"
    "(if t = T_true then Inr (Some q, rt1) else first_override pf rs rt1) = Inr (r, rt')" by (auto elim!: ebind_InrE)
  from run_condition_keeps [OF t(1)] have "same_checkpoint rt rt1 \<and> same_run rt rt1"
    by (auto simp: same_checkpoint_def same_run_def)
  with t(2) Cons.IH [of rt1] show ?case by (auto simp: same_checkpoint_def same_run_def split: if_splits)
qed (simp add: same_checkpoint_def same_run_def)

text \<open>A policy that \<open>lower_policy\<close> accepts has neither a guard nor a fallback.\<close>

lemma run_policy_keeps:
  assumes "run_guarded pf i None primary overrides None policy rt = Inr rt'"
  shows "same_checkpoint rt rt' \<and> same_run rt rt'"
proof -
  from assms obtain chosen rt1 where o: "first_override pf (by_priority overrides) rt = Inr (chosen, rt1)"
    by (auto simp: run_guarded_def elim!: ebind_InrE)
  have evidence: "same_checkpoint rt1 (add_evidence j x y d rt2) \<and> same_run rt1 (add_evidence j x y d rt2)"
    if "run_allocation pf a out rt1 = Inr rt2" for j x y d a out rt2
    using run_allocation_keeps [OF that] by (simp add: same_checkpoint_def same_run_def add_evidence_def)
  have "same_checkpoint rt1 rt' \<and> same_run rt1 rt'"
    using assms o evidence
    by (auto simp: run_guarded_def split: option.splits if_splits elim!: ebind_InrE)
      (auto simp: same_checkpoint_def same_run_def add_evidence_def)
  then show ?thesis
    using first_override_keeps [OF o] by (simp add: same_checkpoint_def same_run_def)
qed

lemma in_step_kept: "same_checkpoint rt rt' \<Longrightarrow> same_run rt rt' \<Longrightarrow> in_step seen rt g \<Longrightarrow> in_step seen rt' g"
  by (simp add: same_checkpoint_def same_run_def in_step_def)

subsection \<open>Programs of Events and a policy\<close>

definition policy_statement :: "policy \<Rightarrow> guard_policy \<Rightarrow> statement" where
  "policy_statement po b =
     S_guarded (gp_semantic_id po) (gp_guard po) (gp_primary po) (gp_overrides po) (gp_fallback po) b"

definition event_program :: "program \<Rightarrow> bool" where
  "event_program p \<longleftrightarrow>
     (\<exists>po b. pg_statements p = map event_statement (events_in (pg_statements p)) @ [policy_statement po b] \<and>
       gp_guard po = None \<and> gp_fallback po = None) \<and>
     list_all plain_event (events_in (pg_statements p))"

abbreviation event_ids :: "program \<Rightarrow> string list" where
  "event_ids p \<equiv> map event_address (events_in (pg_statements p))"

lemma plain_body_addresses: "list_all plain_action body \<Longrightarrow> concat (map event_addresses body) = []"
  by (induction body) (auto simp: plain_action_def split: statement.splits)

lemma plain_event_addresses: "plain_event q \<Longrightarrow> event_addresses (event_statement q) = [event_address q]"
  by (cases q) (auto simp: plain_event_def event_statement_def event_address_def plain_body_addresses)

lemma event_program_addresses:
  assumes "event_program p"
  shows "fst (checkpoint_addresses p) = event_ids p"
proof -
  obtain po b where sts: "pg_statements p = map event_statement (events_in (pg_statements p)) @ [policy_statement po b]"
    using assms by (auto simp: event_program_def)
  have "concat (map event_addresses (map event_statement qs)) = map event_address qs" if "list_all plain_event qs" for qs
    using that by (induction qs) (auto simp: plain_event_addresses)
  then show ?thesis
    using assms unfolding checkpoint_addresses_def fst_conv event_program_def
    by (subst sts) (simp add: policy_statement_def)
qed

subsection \<open>The truths the algorithm keeps\<close>

lemma generated_actions_truths [simp]: "gs_event_truths (fold (generated_action plan fd) as g) = gs_event_truths g"
proof (induction as arbitrary: g)
  case (Cons a as)
  have "gs_event_truths (generated_action plan fd a g) = gs_event_truths g"
    by (simp add: generated_action_def Let_def split: option.split)
  then show ?case by (simp add: Cons)
qed simp

lemma dhas_dget: "dhas d k \<longleftrightarrow> dget d k \<noteq> None"
  by (simp add: dhas_def dget_def)

lemma dhas_Nil [simp]: "\<not> dhas [] k"
  by (simp add: dhas_def)

lemma generated_event_truths:
  "dhas (gs_event_truths (generated_event plan fd e g)) i \<longleftrightarrow> i = te_semantic_id e \<or> dhas (gs_event_truths g) i"
  by (simp add: generated_event_def Let_def dhas_dget)

lemma generated_events_truths:
  "dhas (gs_event_truths (fold (generated_event plan fd) es g)) i \<longleftrightarrow> i \<in> te_semantic_id ` set es \<or> dhas (gs_event_truths g) i"
  by (induction es arbitrary: g) (auto simp: generated_event_truths)

lemma lowered_ids: "emap (lower_event p) qs = Inr es \<Longrightarrow> map te_semantic_id es = map event_address qs"
proof (induction qs arbitrary: es)
  case (Cons q qs)
  then obtain e rest where e: "lower_event p q = Inr e" "emap (lower_event p) qs = Inr rest" "es = e # rest"
    by (auto elim!: ebind_InrE)
  then show ?case using Cons.IH lower_event_parts by (cases q) (fastforce simp: event_address_def)
qed simp

subsection \<open>One session\<close>

text \<open>\<open>_eventTruth\<close> holds the Events of the plan once they have run.\<close>

definition linked :: "program \<Rightarrow> runtime option \<Rightarrow> generated \<Rightarrow> bool" where
  "linked p prior g \<longleftrightarrow>
     (case prior of
        None \<Rightarrow> gs_boundary g = - 1 \<and> gs_event_cutoffs g = [] \<and> gs_event_counts g = [] \<and> gs_memory g = [] \<and>
          gs_event_truths g = [] \<and> (\<forall>k. dget (gs_state g) k = dget (pg_initial_state p) k)
      | Some rt \<Rightarrow> in_step (set (event_ids p)) rt g \<and> (\<forall>i. dhas (gs_event_truths g) i \<longleftrightarrow> i \<in> set (event_ids p)) \<and>
          set (dkeys (rt_event_truths rt)) \<subseteq> set (event_ids p))"

lemma dget_none: "k \<notin> set (dkeys d) \<Longrightarrow> dget d k = None"
  by (simp add: dget_def dkeys_def map_of_eq_None_iff)

lemma start_in_step:
  assumes "linked p prior g" and "prior = None \<longleftrightarrow> n = 0" and "\<And>rt. prior = Some rt \<Longrightarrow> rt_cutoff rt = int n - 1"
  shows "in_step {} (start_runtime p sn (int n) (carried prior)) (g\<lparr>gs_boundary := gs_boundary g + 1\<rparr>)"
proof (cases prior)
  case None
  then show ?thesis
    using assms(1,2) by (simp add: linked_def in_step_def start_runtime_def new_runtime_def Let_def carried_def checkpoint_after_def)
next
  case (Some rt)
  have "dget (gs_event_truths g) e = dget (rt_event_truths rt) e" for e
  proof (cases "e \<in> set (event_ids p)")
    case True
    then show ?thesis using assms(1) Some by (simp add: linked_def in_step_def)
  next
    case False
    then have "dget (gs_event_truths g) e = None" "dget (rt_event_truths rt) e = None"
      using assms(1) Some by (auto simp: linked_def dhas_dget intro: dget_none)
    then show ?thesis by simp
  qed
  then show ?thesis
    using assms(1,3) Some by (simp add: linked_def in_step_def start_runtime_def new_runtime_def Let_def carried_def)
qed

lemma start_restarted:
  assumes "linked p prior g" and "prior = None \<longleftrightarrow> n = 0"
  shows "list_all (restarted (start_runtime p sn (int n) (carried prior))) (event_ids p)"
proof (cases prior)
  case None
  then show ?thesis
    using assms(2) by (simp add: restarted_def list_all_iff)
next
  case (Some rt)
  have "dhas (rt_event_truths rt) e" if e: "e \<in> set (event_ids p)" for e
  proof -
    have "dhas (gs_event_truths g) e" "dget (gs_event_truths g) e = dget (rt_event_truths rt) e"
      using assms(1) Some e by (simp_all add: linked_def in_step_def)
    then show ?thesis by (simp add: dhas_dget)
  qed
  then show ?thesis
    using Some by (simp add: restarted_def list_all_iff start_runtime_def new_runtime_def Let_def carried_def)
qed

text \<open>Everything the agreement rests on, for a plan and a snapshot.\<close>

definition comparable :: "program \<Rightarrow> lean_plan \<Rightarrow> lean_temporal_program \<Rightarrow> bool" where
  "comparable p plan tp \<longleftrightarrow>
     event_program p \<and> distinct (map pc_id (pg_clocks p)) \<and> distinct (event_ids p) \<and>
     list_all (event_readable plan) (tp_events tp)"

lemma session_linked:
  assumes c: "compile_temporal_program recur hs s = Inr (Some plan)" and tp: "lp_temporal_program plan = Some tp"
    and p: "cv_program s = Some p" and ok: "comparable p plan tp" and valid: "validate_program dump hash p = Inr []"
    and n: "n < length (sn_dates sn)" and fd: "feed_shows plan sn (int n) fd"
    and before: "run_sessions pf p sn n = Inr prior" and link: "linked p prior g"
    and cut: "\<And>rt. prior = Some rt \<Longrightarrow> rt_cutoff rt = int n - 1"
    and run: "run_statements pf (pg_statements p) (start_runtime p sn (int n) (carried prior)) = Inr rt'"
  shows "linked p (Some rt') (fst (generated_boundary plan tp fd g)) \<and> rt_cutoff rt' = int n"
proof -
  let ?start = "start_runtime p sn (int n) (carried prior)" and ?g = "g\<lparr>gs_boundary := gs_boundary g + 1\<rparr>"
  have ep: "event_program p" "distinct (map pc_id (pg_clocks p))" "distinct (event_ids p)"
    "list_all (event_readable plan) (tp_events tp)" "list_all plain_event (events_in (pg_statements p))"
    using ok by (simp_all add: comparable_def event_program_def)
  obtain po b where sts: "pg_statements p = map event_statement (events_in (pg_statements p)) @ [policy_statement po b]"
    "gp_guard po = None" "gp_fallback po = None" using ep(1) by (auto simp: event_program_def)
  have first: "prior = None \<longleftrightarrow> n = 0" and accepted: "accepted_checkpoint p (int n) (carried prior)"
    using sessions_accepted [OF valid before] by simp_all
  from run obtain rt1 where events: "run_statements pf (map event_statement (events_in (pg_statements p))) ?start = Inr rt1"
    and policy: "run_guarded pf (gp_semantic_id po) None (gp_primary po) (gp_overrides po) None b rt1 = Inr rt'"
    using sts(2,3) by (subst (asm) sts(1)) (auto simp: run_statements_def efold_append policy_statement_def elim!: ebind_InrE)
  have fields: "rt_program ?start = p" "rt_snapshot ?start = sn"
    by (simp_all add: start_runtime_def new_runtime_def Let_def)
  have "in_step (set (event_ids p)) rt1 (fold (generated_event plan fd) (tp_events tp) ?g)"
    by (rule generated_events_follow_runtime [OF c tp p fields(1) ep(2,3,5,4) start_in_step [OF link first cut]
          start_restarted [OF link first] _ _ events])
      (use fd n in \<open>simp_all add: fields in_range_def\<close>)
  then have step: "in_step (set (event_ids p)) rt' (fst (generated_boundary plan tp fd g))"
    using run_policy_keeps [OF policy] unfolding generated_boundary_def Let_def fst_conv by (blast intro: in_step_kept)
  have "emap (lower_event p) (events_in (pg_statements p)) = Inr (tp_events tp)"
    using temporal_plan_events [OF c p] tp by auto
  then have "te_semantic_id ` set (tp_events tp) = set (event_ids p)" using lowered_ids by (metis set_map)
  then have "dhas (gs_event_truths (fst (generated_boundary plan tp fd g))) i \<longleftrightarrow> i \<in> set (event_ids p)" for i
    using link by (cases prior) (auto simp: generated_boundary_def Let_def generated_events_truths linked_def)
  moreover have "rt_cutoff rt' = int n" "set (dkeys (rt_event_truths rt')) \<subseteq> set (event_ids p)"
    using session_shape [OF valid accepted _ run] event_program_addresses [OF ep(1)] by (simp_all add: checkpoint_shape_def)
  ultimately show ?thesis using step by (simp add: linked_def)
qed

subsection \<open>The whole run\<close>

text \<open>The algorithm after \<open>Initialize\<close>, without a checkpoint to import.\<close>

definition initial_generated :: "lean_temporal_program \<Rightarrow> generated" where
  "initial_generated tp =
     \<lparr>gs_boundary = - 1, gs_state = dict_of (tp_initial_state tp), gs_event_truths = [], gs_event_counts = [], gs_event_cutoffs = [],
      gs_memory = [], gs_memory_cutoffs = [], gs_memory_values = [], gs_state_entered = []\<rparr>"

lemma map_of_sorted: "distinct (map fst ps) \<Longrightarrow> map_of (sort_key f ps) = map_of ps"
  by (subst map_of_inject_set) (simp_all add: distinct_map)

lemma temporal_plan_initial:
  assumes c: "compile_temporal_program recur hs s = Inr (Some plan)" and p: "cv_program s = Some p"
    and tp: "lp_temporal_program plan = Some tp"
  shows "tp_initial_state tp = sort_key fst (pg_initial_state p)"
proof -
  obtain es sels i targets where "assemble_temporal recur hs s p es sels i targets = Inr plan"
    using c p by (auto simp: compile_temporal_program_def Let_def refuse_v2_def elim!: ebind_InrE split: if_splits list.splits)
  then show ?thesis
    using tp by (auto simp: assemble_temporal_def Let_def refuse_v2_def lift_res_def normalize_Inr normal_form_def
        temporal_plan_def temporal_program_of_def elim!: ebind_InrE split: if_splits sum.splits)
qed

lemma run_boundaries_Suc:
  "run_boundaries plan tp (map feeds [0..<Suc n]) g = fst (generated_boundary plan tp (feeds n) (run_boundaries plan tp (map feeds [0..<n]) g))"
  by (simp add: run_boundaries_def)

lemma sessions_linked:
  assumes c: "compile_temporal_program recur hs s = Inr (Some plan)" and tp: "lp_temporal_program plan = Some tp"
    and p: "cv_program s = Some p" and ok: "comparable p plan tp" and valid: "validate_program dump hash p = Inr []"
    and keys: "distinct (dkeys (pg_initial_state p))" and fd: "\<And>i. i < n \<Longrightarrow> feed_shows plan sn (int i) (feeds i)"
    and n: "n \<le> length (sn_dates sn)" and run: "run_sessions pf p sn n = Inr prior"
  shows "linked p prior (run_boundaries plan tp (map feeds [0..<n]) (initial_generated tp)) \<and>
    (\<forall>rt. prior = Some rt \<longrightarrow> rt_cutoff rt = int n - 1)"
  using fd n run
proof (induction n arbitrary: prior)
  case 0
  have "distinct (map fst (tp_initial_state tp))" "map_of (tp_initial_state tp) = map_of (pg_initial_state p)"
    using temporal_plan_initial [OF c p tp] keys map_of_sorted [of "pg_initial_state p" fst]
    by (simp_all add: dkeys_def distinct_map)
  then have "\<forall>k. dget (gs_state (initial_generated tp)) k = dget (pg_initial_state p) k"
    by (simp add: initial_generated_def dict_of_distinct dget_def)
  then show ?case using 0 by (simp add: run_sessions_def linked_def run_boundaries_def initial_generated_def)
next
  case (Suc n)
  from Suc.prems(3) obtain q rt' where q: "run_sessions pf p sn n = Inr q"
    "run_statements pf (pg_statements p) (start_runtime p sn (int n) (carried q)) = Inr rt'" "prior = Some rt'"
    by (auto simp: run_sessions_Suc run_session_def elim!: ebind_InrE)
  note ih = Suc.IH [OF _ _ q(1)]
  have "linked p (Some rt') (fst (generated_boundary plan tp (feeds n) (run_boundaries plan tp (map feeds [0..<n]) (initial_generated tp)))) \<and>
      rt_cutoff rt' = int n"
    by (rule session_linked [OF c tp p ok valid _ _ q(1) _ _ q(2)]) (use Suc.prems(1,2) ih in auto)
  then show ?case by (simp only: run_boundaries_Suc q(3)) simp
qed

text \<open>What a replay reports and the fields of the algorithm.\<close>

definition same_outcome :: "execution_result \<Rightarrow> generated \<Rightarrow> bool" where
  "same_outcome r g \<longleftrightarrow>
     (\<forall>k. dget (er_state r) k = dget (gs_state g) k) \<and>
     (\<forall>e. dget (er_event_truths r) e = dget (gs_event_truths g) e) \<and>
     (\<forall>e. dget (er_event_counts r) e = dget (gs_event_counts g) e) \<and>
     (\<forall>e. dget (er_event_cutoffs r) e = dget (gs_event_cutoffs g) e) \<and>
     (\<forall>m. dget (er_remembered_values r) m = dget (gs_memory g) m)"

lemma linked_outcome: "linked p (Some rt) g \<Longrightarrow> same_outcome (result_of revision p sn d rt) g"
proof -
  assume link: "linked p (Some rt) g"
  have "dget (rt_event_truths rt) e = dget (gs_event_truths g) e" for e
  proof (cases "e \<in> set (event_ids p)")
    case True
    then show ?thesis using link by (simp add: linked_def in_step_def)
  next
    case False
    then have "dget (gs_event_truths g) e = None" "dget (rt_event_truths rt) e = None"
      using link by (auto simp: linked_def dhas_dget intro: dget_none)
    then show ?thesis by simp
  qed
  then show ?thesis using link by (simp add: same_outcome_def result_of_def linked_def in_step_def)
qed

lemma replay_outcome:
  assumes c: "compile_temporal_program recur hs s = Inr (Some plan)" and tp: "lp_temporal_program plan = Some tp"
    and p: "cv_program s = Some p" and ok: "comparable p plan tp" and keys: "distinct (dkeys (pg_initial_state p))"
    and fd: "\<And>i. i \<le> m \<Longrightarrow> feed_shows plan sn (int i) (feeds i)"
    and n: "m < length (sn_dates sn)" and valid: "validate_program dump hash p = Inr []"
    and run: "replay_program dump hash pf p sn (Some (int m)) = Inr r"
  shows "same_outcome r (run_boundaries plan tp (map feeds [0..<Suc m]) (initial_generated tp))"
proof -
  have "Suc m \<le> length (sn_dates sn)" and "nat (int m + 1) = Suc m" using n by simp_all
  note loop = replay_loop [OF valid this(1), of pf] and days = this(2)
  from run obtain rt where rt: "run_sessions pf p sn (Suc m) = Inr (Some rt)"
    "r = result_of None p sn (sn_dates sn ! m) rt"
    unfolding replay_program_def Let_def option.case days loop by (auto elim!: ebind_InrE split: option.splits)
  have "linked p (Some rt) (run_boundaries plan tp (map feeds [0..<Suc m]) (initial_generated tp))"
    using sessions_linked [OF c tp p ok valid keys _ _ rt(1), of feeds] fd n by (simp add: less_Suc_eq_le)
  then show ?thesis unfolding rt(2) by (rule linked_outcome)
qed

end
