(* ===== verification/Daily_Lookahead.thy ===== *)
theory Daily_Lookahead
  imports Daily_Memo
begin

text \<open>
  Evaluation at a cutoff reads nothing after it: cutting the snapshot after the cutoff leaves
  every result and every error unchanged, provided no History node skips past the first
  observation. Beyond that skip the slice bound turns negative and wraps around, so the
  proviso is needed.
\<close>

subsection \<open>The axis of a History node\<close>

lemma history_marker:
  "split_on CHR '':'' (ax_domain_id (history_axis count skip)) =
     [''daily-close'', ''observations'', str_of_opt str_of_int count, ''skip'', str_of_int skip]"
proof -
  have c: "CHR '':'' \<notin> set (str_of_opt str_of_int count)"
    by (cases count) (simp_all add: str_of_opt_def str_of_int_no_colon)
  have "ax_domain_id (history_axis count skip) =
      ''daily-close'' @ CHR '':'' # ''observations'' @ CHR '':'' # str_of_opt str_of_int count
        @ CHR '':'' # ''skip'' @ CHR '':'' # str_of_int skip"
    by (simp add: history_axis_def)
  then show ?thesis
    using c by (simp only: split_on_append_sep split_on_no_sep str_of_int_no_colon not_False_eq_True) (simp add: split_on_append_sep split_on_no_sep str_of_int_no_colon)
qed

text \<open>The keys of the axis are the dates the History node covered.\<close>

lemma axis_keys_history:
  "axis_keys sn cutoff (history_axis count skip) =
     (case count of
        Some n \<Rightarrow> Inr (history_dates sn cutoff n skip)
      | None \<Rightarrow> ebind (int_of_str ''None'') (\<lambda>n. Inr (history_dates sn cutoff n skip)))"
proof -
  have t: "ax_name (history_axis count skip) = Ax_time" by (simp add: history_axis_def)
  have i: "py_index [a, b, c, d, e] (- 3) = Inr c" "py_index [a, b, c, d, e] (- 1) = Inr e" for a b c d e :: string
    by (simp_all add: py_index_def Let_def)
  show ?thesis
    unfolding axis_keys_def Let_def history_marker i t
    by (cases count) (simp_all add: str_of_opt_def int_of_str_of_int)
qed

subsection \<open>Cutting a snapshot\<close>

definition cut_columns :: "nat \<Rightarrow> (string, decimal option list) dict \<Rightarrow> (string, decimal option list) dict" where
  "cut_columns k columns = map (\<lambda>(key, vs). (key, take k vs)) columns"

definition cut_snapshot :: "snapshot \<Rightarrow> int \<Rightarrow> snapshot" where
  "cut_snapshot sn cutoff =
     sn\<lparr>sn_series := map (\<lambda>(symbol, columns). (symbol, cut_columns (nat (cutoff + 1)) columns)) (sn_series sn),
        sn_dates := take (nat (cutoff + 1)) (sn_dates sn)\<rparr>"

fun history_fits :: "int \<Rightarrow> daily_node \<Rightarrow> bool" where
  "history_fits cutoff (Daily_node f ops) \<longleftrightarrow>
     (nf_kind f = K_history \<longrightarrow> 0 \<le> nf_skip f \<and> nf_skip f \<le> cutoff + 1) \<and> list_all (history_fits cutoff) ops"

lemma map_of_map_snd: "map_of (map (\<lambda>(k, v). (k, g v)) d) x = map_option g (map_of d x)"
  by (induction d) auto

lemma field_values_cut:
  "field_values (cut_snapshot sn cutoff) symbol f b =
     ebind (field_values sn symbol f b) (\<lambda>vs. Inr (take (nat (cutoff + 1)) vs))"
  by (auto simp: field_values_def cut_snapshot_def cut_columns_def dget_def map_of_map_snd split: option.splits)

lemma cut_fields [simp]:
  "sn_domains (cut_snapshot sn cutoff) = sn_domains sn"
  "sn_dates (cut_snapshot sn cutoff) = take (nat (cutoff + 1)) (sn_dates sn)"
  by (simp_all add: cut_snapshot_def)

lemma symbols_cut [simp]: "symbols (cut_snapshot sn cutoff) = symbols sn"
  by (auto simp: fun_eq_iff symbols_def split: option.splits subject_kind.splits)

lemma py_slice_take: "0 \<le> a \<Longrightarrow> 0 \<le> b \<Longrightarrow> b \<le> int k \<Longrightarrow> py_slice (take k xs) a b = py_slice xs a b"
  by (simp add: py_slice_nonneg min_def nat_le_iff)

lemma py_index_take: "0 \<le> i \<Longrightarrow> i < int k \<Longrightarrow> i < int (length xs) \<Longrightarrow> py_index (take k xs) i = py_index xs i"
  by (auto simp: py_index_def Let_def)

definition cutoff_in :: "snapshot \<Rightarrow> int \<Rightarrow> bool" where
  "cutoff_in sn cutoff \<longleftrightarrow> 0 \<le> cutoff \<and> cutoff < int (length (sn_dates sn))"

lemma date_cut: "cutoff_in sn cutoff \<Longrightarrow> py_index (take (nat (cutoff + 1)) (sn_dates sn)) cutoff = py_index (sn_dates sn) cutoff"
  by (intro py_index_take) (simp_all add: cutoff_in_def)

lemma stream_cut: "0 \<le> cutoff \<Longrightarrow> stream (cut_snapshot sn cutoff) cutoff n s = stream sn cutoff n s"
proof (induction n)
  case (Daily_node f ops)
  have slice: "py_slice (take (nat (cutoff + 1)) vs) 0 (cutoff + 1) = py_slice vs 0 (cutoff + 1)"
    for vs :: "decimal option list"
    using Daily_node.prems by (simp add: py_slice_take)
  have o: "stream (cut_snapshot sn cutoff) cutoff op0 s = stream sn cutoff op0 s" if "ops = op0 # rest" for op0 rest
    using Daily_node that by simp
  show ?case
    by (cases ops) (simp_all add: field_values_cut ebind_assoc slice o)
qed

lemma current_result_cut:
  "cutoff_in sn cutoff \<Longrightarrow> current_result (cut_snapshot sn cutoff) cutoff n f t c reason = current_result sn cutoff n f t c reason"
  by (simp add: current_result_def current_cells_def stream_cut date_cut cutoff_in_def [THEN iffD1])

lemma history_dates_cut:
  "0 \<le> skip \<Longrightarrow> skip \<le> cutoff + 1 \<Longrightarrow> history_dates (cut_snapshot sn cutoff) cutoff count skip = history_dates sn cutoff count skip"
  unfolding history_dates_def Let_def cut_fields by (rule py_slice_take) simp_all

lemma history_result_cut:
  assumes "0 \<le> nf_skip f" and "nf_skip f \<le> cutoff + 1" and "0 \<le> cutoff"
  shows "history_result (cut_snapshot sn cutoff) cutoff f source t c = history_result sn cutoff f source t c"
  by (simp add: history_result_def Let_def history_dates_cut [OF assms(1,2)] stream_cut [OF assms(3)])

lemma eval_leaf_cut:
  assumes "history_fits cutoff n" and "cutoff_in sn cutoff"
  shows "eval_leaf (cut_snapshot sn cutoff) cutoff n t c = eval_leaf sn cutoff n t c"
proof (cases n)
  case (Daily_node f ops)
  have "0 \<le> cutoff" using assms(2) by (simp add: cutoff_in_def)
  then show ?thesis
    using assms(1) Daily_node date_cut [OF assms(2)] current_result_cut [OF assms(2)]
    by (auto simp: eval_leaf_def Let_def literal_result_def current_observe_def current_indicator_def
        history_result_cut split: list.splits)
qed

definition cut_axis :: "int \<Rightarrow> axis \<Rightarrow> bool" where
  "cut_axis cutoff a \<longleftrightarrow> ax_name a = Ax_asset \<or> (\<exists>count skip. a = history_axis count skip \<and> 0 \<le> skip \<and> skip \<le> cutoff + 1)"

lemma axis_keys_cut: "cut_axis cutoff a \<Longrightarrow> axis_keys (cut_snapshot sn cutoff) cutoff a = axis_keys sn cutoff a"
proof -
  assume "cut_axis cutoff a"
  then consider "ax_name a = Ax_asset" | count skip where "a = history_axis count skip" "0 \<le> skip" "skip \<le> cutoff + 1"
    by (auto simp: cut_axis_def)
  then show ?thesis
  proof cases
    case 1
    then show ?thesis by (simp add: axis_keys_def)
  next
    case 2
    then show ?thesis
      by (simp add: axis_keys_history history_dates_cut cong: option.case_cong)
  qed
qed

lemma emap_axis_keys_cut:
  "list_all (cut_axis cutoff) axes \<Longrightarrow> emap (axis_keys (cut_snapshot sn cutoff) cutoff) axes = emap (axis_keys sn cutoff) axes"
  by (intro emap_cong) (auto simp: list_all_iff axis_keys_cut)

text \<open>Every axis of an inferred type is an asset axis or comes from a History node.\<close>

lemma observe_type_axes: "observe_type f b = Inr t \<Longrightarrow> list_all (cut_axis cutoff) (st_axes t)"
  by (auto simp: observe_type_def Let_def cut_axis_def asset_axis_def split: if_splits)

lemma arithmetic_type_axes:
  assumes "arithmetic_type a l r = Inr t" and "list_all (cut_axis cutoff) (st_axes l)" and "list_all (cut_axis cutoff) (st_axes r)"
  shows "list_all (cut_axis cutoff) (st_axes t)"
proof -
  obtain axes where "aligned_axes l r = Inr axes" "st_axes t = axes"
    using assms(1) by (auto simp: arithmetic_type_def split: if_splits elim!: ebind_InrE)
  then show ?thesis using aligned_axes_cases(1) assms(2,3) by metis
qed

lemma unary_type_axes:
  assumes "unary_type f l = Inr t" and "list_all (cut_axis cutoff) (st_axes l)"
    and "nf_kind f = K_history \<Longrightarrow> 0 \<le> nf_skip f \<and> nf_skip f \<le> cutoff + 1"
  shows "list_all (cut_axis cutoff) (st_axes t)"
  using assms
  by (cases "nf_kind f") (auto simp: unary_type_def Let_def cut_axis_def list_all_iff split: if_splits elim!: ebind_InrE)

lemma inferred_axes: "infer_daily_type b n = Inr t \<Longrightarrow> history_fits cutoff n \<Longrightarrow> list_all (cut_axis cutoff) (st_axes t)"
proof (induction n arbitrary: t)
  case (Daily_node f ops)
  have IH: "list_all (cut_axis cutoff) (st_axes u)" if "m \<in> set ops" "infer_daily_type b m = Inr u" for m u
    using Daily_node that by (auto simp: list_all_iff)
  consider "nf_kind f = K_literal" | "nf_kind f = K_observe"
    | op0 rest l where "nf_kind f \<notin> {K_literal, K_observe, K_arithmetic}" "ops = op0 # rest" "infer_daily_type b op0 = Inr l" "unary_type f l = Inr t"
    | op0 op1 rest l r where "nf_kind f = K_arithmetic" "ops = op0 # op1 # rest" "infer_daily_type b op0 = Inr l"
        "infer_daily_type b op1 = Inr r" "arithmetic_type (nf_arithmetic f) l r = Inr t"
    using Daily_node.prems(1)
    by (cases "nf_kind f") (auto simp: infer_daily_type.simps split: list.splits elim!: ebind_InrE)
  then show ?case
  proof cases
    case 1
    with Daily_node.prems(1) show ?thesis by (auto simp: infer_daily_type.simps split: option.splits)
  next
    case 2
    with Daily_node.prems(1) show ?thesis by (auto simp: infer_daily_type.simps intro: observe_type_axes)
  next
    case (3 op0 rest l)
    show ?thesis
      using unary_type_axes [OF 3(4) IH [OF _ 3(3)]] 3(2) Daily_node.prems(2) by simp
  next
    case (4 op0 op1 rest l r)
    show ?thesis
      using arithmetic_type_axes [OF 4(5) IH [OF _ 4(3)] IH [OF _ 4(4)]] 4(2) by simp
  qed
qed

lemma result_axes:
  "eval_pure sn cutoff c b n = Inr r \<Longrightarrow> history_fits cutoff n \<Longrightarrow> list_all (cut_axis cutoff) (dr_axes r)"
proof (induction n arbitrary: r)
  case (Daily_node f ops)
  have IH: "list_all (cut_axis cutoff) (dr_axes u)" if "m \<in> set ops" "eval_pure sn cutoff c b m = Inr u" for m u
    using Daily_node that by (auto simp: list_all_iff)
  obtain t where t: "infer_daily_type b (Daily_node f ops) = Inr t" "list_all (cut_axis cutoff) (st_axes t)"
    using eval_pure_typed [OF Daily_node.prems(1)] inferred_axes Daily_node.prems(2) by blast
  show ?case
  proof (cases rule: node_shape_cases [where f = f and ops = ops])
    case leaf
    then have "eval_leaf sn cutoff (Daily_node f ops) t c = Inr r"
      using Daily_node.prems(1) t(1) by (simp add: eval_pure_leaf)
    then have "dr_axes r = st_axes t \<or> dr_axes r = []"
      by (auto simp: eval_leaf_def Let_def literal_result_def current_observe_def current_indicator_def current_result_def
          history_result_def plain_result_def split: if_splits list.splits elim!: ebind_InrE)
    then show ?thesis using t(2) by auto
  next
    case (unary op0 rest)
    then obtain u where u: "eval_pure sn cutoff c b op0 = Inr u" "eval_unary sn cutoff f t u = Inr r"
      using Daily_node.prems(1) t(1) by (auto simp: eval_pure_unary elim!: ebind_InrE)
    have "set (dr_axes r) \<subseteq> set (dr_axes u)"
      using u(2) by (auto simp: eval_unary_def absolute_result_def reduce_result_def plain_result_def Let_def
          split: if_splits option.splits elim!: ebind_InrE)
    then show ?thesis using IH [OF _ u(1)] unary(3) by (auto simp: list_all_iff)
  next
    case (arithmetic op0 op1 rest)
    then have "dr_axes r = st_axes t"
      using Daily_node.prems(1) t(1)
      by (auto simp: eval_pure_arithmetic arithmetic_result_def plain_result_def elim!: ebind_InrE)
    then show ?thesis using t(2) by simp
  qed (use Daily_node.prems(1) t in \<open>auto simp: eval_pure_no_operand eval_pure_arithmetic1 elim!: ebind_InrE\<close>)
qed

lemma axis_position_nth: "axis_position axes n = Some i \<Longrightarrow> i < length axes"
  by (auto simp: axis_position_def find_Some_iff)

lemma eval_unary_cut:
  assumes "list_all (cut_axis cutoff) (dr_axes r)"
  shows "eval_unary (cut_snapshot sn cutoff) cutoff f t r = eval_unary sn cutoff f t r"
proof -
  have keys: "emap (axis_keys (cut_snapshot sn cutoff) cutoff) (filter p (dr_axes r)) = emap (axis_keys sn cutoff) (filter p (dr_axes r))" for p
    using assms by (intro emap_axis_keys_cut) (auto simp: list_all_iff)
  have nth: "axis_keys (cut_snapshot sn cutoff) cutoff (dr_axes r ! i) = axis_keys sn cutoff (dr_axes r ! i)"
    if "axis_position (dr_axes r) n = Some i" for n i
    using assms axis_position_nth [OF that] by (intro axis_keys_cut) (auto simp: list_all_length)
  show ?thesis
    by (auto simp: eval_unary_def reduce_result_def Let_def keys nth split: option.splits)
qed

lemma eval_pure_cut:
  "cutoff_in sn cutoff \<Longrightarrow> history_fits cutoff n \<Longrightarrow> eval_pure (cut_snapshot sn cutoff) cutoff c b n = eval_pure sn cutoff c b n"
proof (induction n)
  case (Daily_node f ops)
  have IH: "eval_pure (cut_snapshot sn cutoff) cutoff c b m = eval_pure sn cutoff c b m"
    and fits: "history_fits cutoff m" if "m \<in> set ops" for m
    using Daily_node that by (auto simp: list_all_iff)
  show ?case
  proof (cases rule: node_shape_cases [where f = f and ops = ops])
    case leaf
    then show ?thesis using eval_leaf_cut [OF Daily_node.prems(2,1)] by (simp add: eval_pure_leaf)
  next
    case (unary op0 rest)
    have "ebind (eval_pure sn cutoff c b op0) (eval_unary (cut_snapshot sn cutoff) cutoff f t)
      = ebind (eval_pure sn cutoff c b op0) (eval_unary sn cutoff f t)" for t
      using result_axes [OF _ fits [of op0]] eval_unary_cut unary(3) by (intro ebind_cong) auto
    then show ?thesis using IH [of op0] unary by (simp add: eval_pure_unary)
  next
    case (arithmetic op0 op1 rest)
    have "arithmetic_result (cut_snapshot sn cutoff) cutoff f t l r = arithmetic_result sn cutoff f t l r"
      if "infer_daily_type b (Daily_node f ops) = Inr t" for t l r
      using emap_axis_keys_cut [OF inferred_axes [OF that Daily_node.prems(2)]]
      by (simp add: arithmetic_result_def)
    then show ?thesis
      using IH [of op0] IH [of op1] arithmetic
      by (simp add: eval_pure_arithmetic cong: ebind_cong)
  next
    case no_operand
    then show ?thesis by (simp add: eval_pure_no_operand)
  next
    case (arithmetic1 op0)
    then show ?thesis using IH [of op0] by (simp add: eval_pure_arithmetic1)
  qed
qed

end
