(* ===== verification/Daily_Properties.thy ===== *)
theory Daily_Properties
  imports Daily_Lookahead
begin

text \<open>
  What the daily layer guarantees: one memoising evaluator answers a series of requests as
  evaluation without a memo does, nothing after the cutoff is read, a scalar Value has one
  cell, and the ranges and availability of the transforms, with the places where the code
  raises instead. The sample data below are the inputs of the witnesses.
\<close>

subsection \<open>Sample data\<close>

definition sample_snapshot :: snapshot where
  "sample_snapshot =
     \<lparr>sn_id = ''sample'', sn_clock = daily_close,
      sn_series = [(''A'', [(''close:adjusted'', [Some 10, Some 11, Some 13])]),
                   (''B'', [(''close:adjusted'', [Some 20, None, Some 19])])],
      sn_domains = [(''g'', [''A'', ''B''])],
      sn_dates = [''2024-01-03'', ''2024-01-04'', ''2024-01-05'']\<rparr>"

definition close_of :: "string \<Rightarrow> string \<Rightarrow> daily_node" where
  "close_of sid symbol =
     Daily_node ((node_defaults sid K_observe)\<lparr>nf_subject_kind := Some Subject_asset, nf_subject_id := Some symbol,
       nf_field := Some F_close, nf_basis := Some B_adjusted\<rparr>) []"

definition candidate_close :: "string \<Rightarrow> daily_node" where
  "candidate_close sid =
     Daily_node ((node_defaults sid K_observe)\<lparr>nf_subject_kind := Some Subject_candidate, nf_binding_id := Some ''c'',
       nf_field := Some F_close, nf_basis := Some B_adjusted\<rparr>) []"

definition windowed_of :: "string \<Rightarrow> value_kind \<Rightarrow> int \<Rightarrow> daily_node \<Rightarrow> daily_node" where
  "windowed_of sid k n source = Daily_node ((node_defaults sid k)\<lparr>nf_observations := Some n\<rparr>) [source]"

definition history_of :: "string \<Rightarrow> int \<Rightarrow> int \<Rightarrow> daily_node \<Rightarrow> daily_node" where
  "history_of sid n skip source =
     Daily_node ((node_defaults sid K_history)\<lparr>nf_observations := Some n, nf_skip := skip\<rparr>) [source]"

definition kind_digest :: "daily_node \<Rightarrow> string" where
  "kind_digest n = (case nf_kind (dn_fields n) of K_sma \<Rightarrow> ''sma'' | K_observe \<Rightarrow> ''observe'' | _ \<Rightarrow> ''other'')"

lemmas sample_simps =
  sample_snapshot_def close_of_def candidate_close_def windowed_of_def history_of_def node_defaults_def

subsection \<open>The evaluator and its specification\<close>

type_synonym request = "daily_node \<times> string option \<times> string option"

definition evaluate_all :: "(daily_node \<Rightarrow> string) \<Rightarrow> request list \<Rightarrow> evaluator \<Rightarrow> daily_result list res" where
  "evaluate_all digest requests ev =
     ebind (emap_st (\<lambda>(n, c, b). evaluate digest c b n) requests ev) (\<lambda>(rs, _). Inr (map erase rs))"

lemma emap_evaluate_agrees:
  assumes "collision_free digest N" and "memo_sound digest N ev" and "valid_cutoff ev"
    and "\<And>n c b. (n, c, b) \<in> set requests \<Longrightarrow> set (subnodes n) \<subseteq> N \<and> well_shaped n"
  shows "evaluate_all digest requests ev =
    emap (\<lambda>(n, c, b). eval_pure (ev_snapshot ev) (ev_cutoff_index ev) c b n) requests"
  using assms(2-4)
proof (induction requests arbitrary: ev)
  case Nil
  show ?case by (simp add: evaluate_all_def)
next
  case (Cons q requests)
  obtain n c b where q: "q = (n, c, b)" by (cases q)
  let ?pure = "eval_pure (ev_snapshot ev) (ev_cutoff_index ev) c b n"
  have a: "agrees digest N ev (evaluate digest c b n ev) ?pure"
    using Cons.prems q by (intro evaluate_agrees [OF assms(1)]) auto
  show ?case
  proof (cases ?pure)
    case (Inl e)
    with a have "evaluate digest c b n ev = Inl e" by (simp add: agrees_def)
    then show ?thesis using Inl q by (simp add: evaluate_all_def)
  next
    case (Inr r)
    with a obtain r' ev' where e: "evaluate digest c b n ev = Inr (r', ev')" "erase r' = r"
      "memo_sound digest N ev'" "same_base ev ev'"
      by (auto simp: agrees_def)
    have base: "ev_snapshot ev' = ev_snapshot ev" "ev_cutoff_index ev' = ev_cutoff_index ev"
      using e(4) by (auto simp: same_base_def)
    have rest: "emap (\<lambda>(n, c, b). eval_pure (ev_snapshot ev) (ev_cutoff_index ev) c b n) requests
        = evaluate_all digest requests ev'"
    proof (subst Cons.IH [OF e(3)])
      show "valid_cutoff ev'" using Cons.prems(2) base by (simp add: valid_cutoff_def)
      show "set (subnodes n) \<subseteq> N \<and> well_shaped n" if "(n, c, b) \<in> set requests" for n c b
        using that by (intro Cons.prems(3) [of n c b]) simp
    qed (simp add: base)
    show ?thesis
      using e(1,2) Inr q rest
      by (cases "emap_st (\<lambda>(n, c, b). evaluate digest c b n) requests ev'") (auto simp: evaluate_all_def)
  qed
qed


definition sample_requests :: "request list" where
  "sample_requests =
     [(windowed_of ''x'' K_sma 2 (close_of ''y'' ''A''), None, None), (windowed_of ''z'' K_sma 2 (close_of ''y'' ''A''), None, None)]"


text \<open>C3: Evaluation at a cutoff does not look ahead where every History node skips at most one observation more than there are up to the cutoff: deleting every later observation from the snapshot then leaves the result, or the error, unchanged. Beyond that the proviso is needed: the end of the slice is negative, counts from the end of the data, and the code can look ahead.\<close>

theorem evaluation_no_lookahead:
  assumes "0 \<le> cutoff" and "cutoff < int (length (sn_dates sn))" and "history_fits cutoff n"
  shows "eval_pure (cut_snapshot sn cutoff) cutoff c b n = eval_pure sn cutoff c b n"
  using assms by (simp add: eval_pure_cut cutoff_in_def)

lemma evaluation_no_lookahead_witness:
  "eval_pure (cut_snapshot sample_snapshot 1) 1 None None (history_of ''h'' 2 1 (close_of ''y'' ''A''))
    = eval_pure sample_snapshot 1 None None (history_of ''h'' 2 1 (close_of ''y'' ''A''))"
  by (rule evaluation_no_lookahead) (simp_all add: sample_simps)

subsection \<open>Axes and cells of a result\<close>

lemma first_if_scalar_cells:
  "first_if_scalar [] cells = Inr cells' \<Longrightarrow> \<exists>c. cells' = [([], c)]"
  by (auto simp: first_if_scalar_def split: list.splits)

lemma leaf_shape:
  assumes "eval_leaf sn cutoff n t c = Inr r" and "is_leaf_kind (nf_kind (dn_fields n))"
    and "infer_daily_type b n = Inr t"
  shows "dr_axes r = st_axes t \<and> (st_axes t = [] \<longrightarrow> (\<exists>cell. dr_cells r = [([], cell)]))"
proof (cases n)
  case (Daily_node f ops)
  have lit: "nf_kind f = K_literal \<Longrightarrow> st_axes t = []"
    using assms(3) Daily_node by (auto simp: infer_daily_type.simps split: option.splits)
  have hist: "nf_kind f = K_history \<Longrightarrow> st_axes t \<noteq> []"
    using assms(3) Daily_node
    by (auto simp: infer_daily_type.simps unary_type_def split: list.splits elim!: ebind_InrE)
  show ?thesis
    using assms(1) Daily_node lit hist
    by (auto simp: eval_leaf_def Let_def literal_result_def current_observe_def current_indicator_def
        current_result_def history_result_def plain_result_def
        split: if_splits list.splits elim!: ebind_InrE dest!: first_if_scalar_cells)
qed

lemma product_one_cell:
  "efold (\<lambda>k d. ebind (g k) (\<lambda>c. Inr (dset k c d))) (product_lists []) [] = Inr d \<Longrightarrow> \<exists>c. d = [([], c)]"
  by (auto simp: dset_def elim!: ebind_InrE)

lemma result_shape:
  "eval_pure sn cutoff c b n = Inr r \<Longrightarrow> infer_daily_type b n = Inr t \<Longrightarrow>
    dr_axes r = st_axes t \<and> (st_axes t = [] \<longrightarrow> (\<exists>cell. dr_cells r = [([], cell)]))"
proof (induction n arbitrary: r t)
  case (Daily_node f ops)
  show ?case
  proof (cases rule: node_shape_cases [where f = f and ops = ops])
    case leaf
    then show ?thesis
      using Daily_node.prems leaf_shape [of sn cutoff "Daily_node f ops" t c r b] by (simp add: eval_pure_leaf)
  next
    case (unary op0 rest)
    then obtain u where u: "eval_pure sn cutoff c b op0 = Inr u" "eval_unary sn cutoff f t u = Inr r"
      using Daily_node.prems by (auto simp: eval_pure_unary elim!: ebind_InrE)
    obtain l where l: "infer_daily_type b op0 = Inr l" "unary_type f l = Inr t"
      using Daily_node.prems(2) unary
      by (cases "nf_kind f") (auto simp: infer_daily_type.simps is_leaf_kind_def elim!: ebind_InrE)
    have IH: "dr_axes u = st_axes l" "st_axes l = [] \<Longrightarrow> \<exists>cell. dr_cells u = [([], cell)]"
      using Daily_node.IH [OF _ u(1) l(1)] unary(3) by auto
    consider "nf_kind f = K_current" | "nf_kind f = K_absolute" | "nf_kind f = K_reduce"
      using unary(1,2) by (cases "nf_kind f") (auto simp: is_leaf_kind_def indicator_def)
    then show ?thesis
    proof cases
      case 1
      then show ?thesis using u(2) l(2) IH by (simp add: eval_unary_def unary_type_def)
    next
      case 2
      then show ?thesis using u(2) l(2) IH
        by (auto simp: eval_unary_def unary_type_def absolute_result_def plain_result_def)
    next
      case 3
      then have t: "st_axes t = filter (\<lambda>a. Some (ax_name a) \<noteq> nf_axis f) (st_axes l)"
        using l(2) by (auto simp: unary_type_def Let_def split: if_splits)
      have r: "reduce_result sn cutoff f t u = Inr r" using 3 u(2) by (simp add: eval_unary_def)
      then show ?thesis
        using t IH(1)
        by (auto simp: reduce_result_def plain_result_def Let_def dset_def split: option.splits elim!: ebind_InrE)
    qed
  next
    case (arithmetic op0 op1 rest)
    then show ?thesis
      using Daily_node.prems
      by (auto simp: eval_pure_arithmetic arithmetic_result_def plain_result_def dset_def elim!: ebind_InrE)
  qed (use Daily_node.prems in \<open>auto simp: eval_pure_no_operand eval_pure_arithmetic1 elim!: ebind_InrE\<close>)
qed

text \<open>A result has the axes of its node's inferred type, and a node typed as a scalar evaluates to exactly one cell, at the empty coordinate, whatever its operators.\<close>

theorem scalar_value_has_one_cell:
  assumes "eval_pure sn cutoff c b n = Inr r" and "infer_daily_type b n = Inr t"
  shows "dr_axes r = st_axes t \<and> (st_axes t = [] \<longrightarrow> (\<exists>cell. dr_cells r = [([], cell)]))"
  using result_shape [OF assms] .

lemma sample_sma_value:
  "eval_pure sample_snapshot 2 None None (windowed_of ''x'' K_sma 2 (close_of ''y'' ''A'')) =
     Inr (plain_result (case infer_daily_type None (close_of ''y'' ''A'') of Inr t \<Rightarrow> t) []
            [([], available_cell 12)] [''2024-01-05''])"
  by code_simp

lemma sample_sma_type:
  "infer_daily_type None (windowed_of ''x'' K_sma 2 (close_of ''y'' ''A'')) =
     Inr \<lparr>st_dtype = DT_decimal, st_quantity = Q_price, st_unit = U_usd_per_share,
          st_refinement = Some ''adjusted_close'', st_axes = [], st_clock = Some daily_close\<rparr>"
  by code_simp

lemma scalar_value_has_one_cell_witness:
  "\<exists>r. eval_pure sample_snapshot 2 None None (windowed_of ''x'' K_sma 2 (close_of ''y'' ''A'')) = Inr r \<and>
       (\<exists>cell. dr_cells r = [([], cell)])"
  using scalar_value_has_one_cell [OF sample_sma_value sample_sma_type] sample_sma_value by simp

subsection \<open>Ranges and availability of the transforms\<close>

lemma transform_rsi_cell:
  assumes "transform K_rsi p s = Inr r" and "0 < p" and "e < length s" and "r ! e = Some v"
  shows "rsi_cell p s e = Inr (Some v)"
  using transform_nth [OF assms(1,3)] assms(4)
  by (auto simp: transform_cell_window [OF assms(3,2)] Let_def split: if_splits)

text \<open>Every RSI value the code produces lies between 0 and 100, for every window, series and day, rounding included.\<close>

theorem rsi_in_range:
  assumes "transform K_rsi p s = Inr r" and "0 < p" and "e < length s" and "r ! e = Some v"
  shows "0 \<le> v \<and> v \<le> 100"
  using rsi_cell_range [OF transform_rsi_cell [OF assms] assms(2)] .

lemma rsi_in_range_witness: "0 \<le> (100::rat) \<and> (100::rat) \<le> 100"
proof (rule rsi_in_range [of 2 _ _ 2])
  show "transform K_rsi 2 [Some 10, Some 11, Some 13] = Inr [None, None, Some 100]" by code_simp
qed simp_all

text \<open>SMA over any series has a value exactly on the days that have a full window of present observations, and that value is the rounded sum of the window divided by the period.\<close>

theorem sma_value:
  assumes "transform K_sma p s = Inr r" and "0 < p" and "e < length s"
  shows "r ! e = (if full_window s p e then Some (rnd (dsum (map the (window s p e)) / of_int p)) else None)"
  by (rule sma_cell [OF assms])

lemma sma_value_witness:
  "[None, Some (21/2), Some 12] ! 2 =
     (if full_window [Some 10, Some 11, Some 13] 2 2
      then Some (rnd (dsum (map the (window [Some 10, Some 11, Some 13] 2 2)) / of_int 2)) else (None :: rat option))"
proof (rule sma_value)
  show "transform K_sma 2 [Some 10, Some 11, Some 13] = Inr [None, Some (21/2), Some 12]" by code_simp
qed simp_all

text \<open>An EMA is seeded once, on day period - 1: when that day has no full window, which is so for an EMA taken over any other windowed value, no later day ever has a value, however long the series is.\<close>

theorem ema_over_warm_up_never_available:
  assumes "transform K_ema p s = Inr r" and "0 < p" and "\<not> full_window s p (nat (p - 1))"
  shows "list_all (\<lambda>x. x = None) r"
  using ema_unseeded [OF assms] transform_length [OF assms(1)] by (auto simp: list_all_length)

lemma ema_over_warm_up_never_available_witness:
  "list_all (\<lambda>x. x = None) [None, None, None, None, None :: rat option]"
proof (rule ema_over_warm_up_never_available)
  show "transform K_ema 2 [None, Some 10, Some 11, Some 13, Some 12] = Inr [None, None, None, None, None]" by code_simp
  show "\<not> full_window [None, Some 10, Some 11, Some 13, Some 12] 2 (nat (2 - 1))" by code_simp
qed simp

lemma rsi_step_missing:
  assumes "0 < p" and "s ! 0 = None" and "e < length s"
  shows "transform_cell K_rsi p s prev e = Inr None \<or> transform_cell K_rsi p s prev e = Inl Type_error"
proof (cases "full_window s p e \<and> p \<le> int e")
  case True
  then show ?thesis
    using rsi_seed_missing [of p e s] assms by (auto simp: transform_cell_window [OF assms(3,1)] Let_def rsi_cell_def)
next
  case False
  then show ?thesis
    using assms by (auto simp: transform_cell_window [OF assms(3,1)] Let_def rsi_cell_def)
qed

lemma efold_error:
  assumes "efold f xs s = Inl e" and "\<And>x t e. x \<in> set xs \<Longrightarrow> f x t = Inl e \<Longrightarrow> e = E"
  shows "e = E"
  using assms
proof (induction xs arbitrary: s)
  case (Cons x xs)
  show ?case
  proof (cases "f x s")
    case (Inl e')
    with Cons.prems(1) have "f x s = Inl e" by simp
    with Cons.prems(2) [of x s e] show ?thesis by simp
  next
    case (Inr t)
    with Cons.prems(1) have "efold f xs t = Inl e" by simp
    then show ?thesis using Cons.prems(2) by (intro Cons.IH) auto
  qed
qed simp

text \<open>An RSI over a series whose first observation is missing (for example the RSI of an SMA) raises TypeError as soon as one later day has a full window: the code subtracts a missing value instead of reporting the value unavailable.\<close>

theorem rsi_missing_start_raises:
  assumes "0 < p" and "s ! 0 = None" and "e < length s" and "p \<le> int e" and "full_window s p e"
  shows "transform K_rsi p s = Inl Type_error"
proof (cases "transform K_rsi p s")
  case (Inl err)
  have "err = Type_error"
    using Inl unfolding transform_def
  proof (rule efold_error)
    show "err' = Type_error" if "e' \<in> set [0..<length s]" "transform_step K_rsi p s e' t = Inl err'" for e' t err'
      using rsi_step_missing [OF assms(1,2), of e' "last_cell t"] that by (auto simp: transform_step_def)
  qed
  with Inl show ?thesis by simp
next
  case (Inr r)
  have "rsi_seed p s = Inl Type_error" by (rule rsi_seed_missing [OF assms(1,4,3,2)])
  with transform_nth [OF Inr assms(3)] assms show ?thesis
    by (simp add: transform_cell_window [OF assms(3,1)] Let_def rsi_cell_def)
qed

lemma rsi_missing_start_raises_witness: "transform K_rsi 2 [None, Some 10, Some 11, Some 13] = Inl Type_error"
proof (rule rsi_missing_start_raises [of _ _ 2])
  show "full_window [None, Some 10, Some 11, Some 13] 2 2" by code_simp
qed simp_all

subsection \<open>Histories\<close>

text \<open>The axis id of a History node is a faithful code of its window: the evaluator reads back from it exactly the dates the node covers, the requested number of observations ending the given skip before the cutoff, fewer at the start of the data.\<close>

theorem history_axis_roundtrip:
  assumes "0 \<le> skip" and "skip \<le> cutoff" and "0 \<le> count"
  shows "axis_keys sn cutoff (history_axis (Some count) skip) =
    Inr (drop (nat (cutoff - skip + 1 - count)) (take (nat (cutoff - skip + 1)) (sn_dates sn)))"
proof -
  have "history_dates sn cutoff count skip =
      drop (nat (cutoff - skip + 1 - count)) (take (nat (cutoff - skip + 1)) (sn_dates sn))"
    using assms by (cases "0 \<le> cutoff - skip - count + 1") (simp_all add: history_dates_def Let_def py_slice_nonneg max_def algebra_simps)
  then show ?thesis by (simp add: axis_keys_history)
qed

lemma history_axis_roundtrip_witness:
  "axis_keys sample_snapshot 2 (history_axis (Some 2) 1) = Inr [''2024-01-03'', ''2024-01-04'']"
  using history_axis_roundtrip [of 1 2 2 sample_snapshot] by (simp add: sample_snapshot_def)

lemma slice_negative_end:
  "0 < k \<Longrightarrow> k \<le> int (length xs) \<Longrightarrow> py_slice xs 0 (- k) = take (nat (int (length xs) - k)) xs"
  by (simp add: py_slice_def slice_bound_def Let_def min_def)



subsection \<open>Arithmetic\<close>

text \<open>Arithmetic on two cells: a missing operand gives a missing cell with the first reason there is; division of a non-zero value by zero gives an unavailable cell, but zero divided by zero raises InvalidOperation, which the code does not catch.\<close>

theorem divide_cell_cases:
  "arith_cell (Some A_divide) (available_cell x) (available_cell y) =
     (if y \<noteq> 0 then Inr (available_cell (rnd (x / y)))
      else if x \<noteq> 0 then Inr (missing_cell (Some ''division_by_zero''))
      else Inl Invalid_operation)
   \<and> arith_cell a (missing_cell (Some (c # cs))) r = Inr (missing_cell (Some (c # cs)))"
  by (simp add: arith_cell_def arith_apply_def ddiv_def available_cell_def missing_cell_def truthy_def)

end
