(* ===== verification/Program_Samples.thy ===== *)
theory Program_Samples
  imports Replay Daily_Properties
begin

text \<open>
  A small Program with every kind of acting statement, its market data and a platform: the
  inputs of the witnesses about Programs.
\<close>

definition sample_platform :: platform where
  "sample_platform = \<lparr>pf_node_digest = kind_digest, pf_value_digest = value_semantic_id, pf_set_order = sort\<rparr>"

definition price_literal :: "string \<Rightarrow> decimal \<Rightarrow> value_expr" where
  "price_literal i x = V_literal i x Q_price U_usd_per_share (Some ''adjusted_close'')"

definition sample_clock :: program_clock where
  "sample_clock = \<lparr>pc_id = ''daily'', pc_timeframe = TF_daily, pc_timezone = ''America/New_York'',
     pc_terminal_boundary_policy = Not_due\<rparr>"

definition above :: "string \<Rightarrow> string \<Rightarrow> decimal \<Rightarrow> condition" where
  "above i symbol x = C_comparison i Gt (V_daily (close_of (i @ ''-close'') symbol)) (price_literal (i @ ''-level'') x)"

definition sample_event :: event_definition where
  "sample_event = \<lparr>ed_semantic_id = ''breakout'', ed_clock_id = ''daily'', ed_condition = Some (above ''over'' ''A'' 10),
     ed_trigger = Rising_edge, ed_occurrence = Occ_every, ed_ordinal = None\<rparr>"

definition sample_transition :: state_transition where
  "sample_transition = \<lparr>tr_semantic_id = ''enter'', tr_state_key = ''mode'', tr_from_value = Some ''out'', tr_to_value = ''in'',
     tr_when = above ''high'' ''A'' 12, tr_clock_id = None\<rparr>"

definition sample_selection :: selection_statement where
  "sample_selection =
     \<lparr>ss_semantic_id = ''choose'',
      ss_selection = \<lparr>sl_semantic_id = ''selection'', sl_universe_id = ''g'', sl_binding_id = ''c'', sl_binding_domain_id = ''g'',
        sl_eligibility = None, sl_ranking = V_daily (candidate_close ''rank''), sl_direction = Descending,
        sl_count = 1, sl_shortage_policy = Choose_all, sl_fallback_asset = None\<rparr>,
      ss_output_id = ''picked'', ss_clock_id = Some ''daily''\<rparr>"

definition leg_of :: "string \<Rightarrow> target_kind \<Rightarrow> string \<Rightarrow> allocation_leg" where
  "leg_of i k ref = \<lparr>al_semantic_id = i, al_target_semantic_id = i @ ''-target'', al_target_kind = k,
     al_target_ref = Some ref, al_weight = None\<rparr>"

definition sample_allocation :: allocation where
  "sample_allocation = \<lparr>as_semantic_id = ''invest'', as_method = M_equal,
     as_legs = [leg_of ''leg'' Target_selection ''picked''], as_clock_id = Some ''daily'',
     as_minimum_weight = None, as_maximum_weight = None, as_cash_remainder_asset = None\<rparr>"

definition sample_program :: program where
  "sample_program =
     \<lparr>pg_semantic_id = ''sample'', pg_clocks = [sample_clock], pg_initial_state = [(''mode'', ''out'')],
      pg_formalizations = [],
      pg_statements =
        [S_event ''on-breakout'' sample_event
           [S_remember ''keep'' ''entry'' (V_daily (close_of ''kept-close'' ''A'')) None],
         S_transition ''enter'' sample_transition,
         S_select sample_selection,
         S_allocate sample_allocation]\<rparr>"

text \<open>The document the identities are read from; its identifiers are distinct.\<close>

definition sample_dump :: "program \<Rightarrow> json" where
  "sample_dump p = J_object []"

definition sample_hash :: "json \<Rightarrow> string" where
  "sample_hash j = []"

lemmas program_sample_simps =
  sample_simps sample_platform_def price_literal_def sample_clock_def above_def sample_event_def sample_transition_def
  sample_selection_def leg_of_def sample_allocation_def sample_program_def sample_dump_def sample_hash_def

end
