(* ===== verification/Sample_Runs.thy ===== *)
theory Sample_Runs
  imports Program_Samples
begin

text \<open>The small Program evaluated: every run the witnesses about Programs need, computed together.\<close>

definition sample_checkpoint :: checkpoint where
  "sample_checkpoint = checkpoint_after None"

definition sample_runtime :: "int \<Rightarrow> runtime" where
  "sample_runtime i = start_runtime sample_program sample_snapshot i sample_checkpoint"

definition first_breakout :: event_definition where
  "first_breakout = sample_event\<lparr>ed_occurrence := Occ_first\<rparr>"

definition sample_overrides :: "override_rule list" where
  "sample_overrides =
     [\<lparr>ov_semantic_id = ''low'', ov_priority = 1, ov_when = above ''low-when'' ''A'' 5, ov_action = sample_allocation\<rparr>,
      \<lparr>ov_semantic_id = ''high'', ov_priority = 9, ov_when = above ''high-when'' ''A'' 100, ov_action = sample_allocation\<rparr>,
      \<lparr>ov_semantic_id = ''middle'', ov_priority = 5, ov_when = above ''middle-when'' ''A'' 9, ov_action = sample_allocation\<rparr>]"

lemma sample_runs:
  "validate_program sample_dump sample_hash sample_program = Inr [] \<and>
   \<not> isl (execute_program sample_dump sample_hash sample_platform sample_program sample_snapshot (Some 1) None sample_checkpoint) \<and>
   \<not> isl (run_statements sample_platform (pg_statements sample_program) (sample_runtime 1)) \<and>
   map_sum id fst (fire_event sample_platform ''on'' first_breakout (sample_runtime 1)) = Inr True \<and>
   \<not> isl (ebind (fire_event sample_platform ''on'' first_breakout (sample_runtime 1))
      (\<lambda>(_, rt2). fire_event sample_platform ''again'' first_breakout rt2)) \<and>
   0 \<le> dget_or (rt_event_counts (sample_runtime 1)) (ed_semantic_id first_breakout) 0 \<and>
   \<not> isl (run_selection sample_platform sample_selection (sample_runtime 2)) \<and>
   clock_due (sample_runtime 2) (ss_clock_id sample_selection) = Inr True \<and>
   universe_members (sample_runtime 2) (sl_universe_id (ss_selection sample_selection)) = Inr [''A'', ''B''] \<and>
   map_sum id (\<lambda>(r, _). map_option ov_semantic_id r)
     (first_override sample_platform (by_priority sample_overrides) (sample_runtime 1)) = Inr (Some ''middle'')"
  by code_simp

end
