(* ===== verification/V2_Samples.thy ===== *)
theory V2_Samples
  imports Generated_Sessions Sample_Runs
begin

text \<open>
  Programs for the witnesses about the lowering: one with an Event and a guarded policy, one with a
  Selection and a routed Allocation, and small variants of both.
\<close>

definition sample_hashes :: hashing where
  "sample_hashes = \<lparr>hs_dump = sample_dump, hs_digest = sample_hash, hs_strategy = (\<lambda>_. ''identity''),
     hs_checkpoint = (\<lambda>_ profile. profile)\<rparr>"

definition sample_definitions :: definitions where
  "sample_definitions =
     \<lparr>df_asset_sets = [\<lparr>ad_id = ''pair'', ad_assets = [''A'', ''B'']\<rparr>],
      df_groups = [\<lparr>gd_id = ''g'', gd_name = ''Pair'', gd_asset_set_ref = ''pair'', gd_description = []\<rparr>],
      df_asset_axis = asset_axis ''g''\<rparr>"

definition strategy_of :: "program \<Rightarrow> canonical_v2" where
  "strategy_of p =
     \<lparr>cv_definitions = sample_definitions, cv_operator_lock = [(''compare'', ''1'')], cv_selection = None,
      cv_predicate = None, cv_program = Some p\<rparr>"

definition program_of :: "statement list \<Rightarrow> program" where
  "program_of sts =
     \<lparr>pg_semantic_id = ''program'', pg_clocks = [sample_clock], pg_initial_state = [(''mode'', ''out'')],
      pg_formalizations = [], pg_statements = sts\<rparr>"

definition fixed_to :: "string \<Rightarrow> (target_kind \<times> string option \<times> decimal) list \<Rightarrow> allocation" where
  "fixed_to i targets =
     \<lparr>as_semantic_id = i, as_method = M_fixed,
      as_legs = map (\<lambda>(k, ref, w). \<lparr>al_semantic_id = i @ ''-'' @ target_text k @ or_empty ref,
        al_target_semantic_id = i @ ''-target'', al_target_kind = k, al_target_ref = ref, al_weight = Some w\<rparr>) targets,
      as_clock_id = None, as_minimum_weight = None, as_maximum_weight = None, as_cash_remainder_asset = None\<rparr>"

subsection \<open>A temporal Program\<close>

definition enter_transition :: state_transition where
  "enter_transition = \<lparr>tr_semantic_id = ''enter-mode'', tr_state_key = ''mode'', tr_from_value = Some ''out'', tr_to_value = ''in'',
     tr_when = C_state_equals ''is-out'' ''mode'' ''out'', tr_clock_id = None\<rparr>"

definition watch_event :: statement where
  "watch_event = S_event ''on-breakout'' sample_event
     [S_remember ''keep'' ''entry'' (V_daily (close_of ''kept-close'' ''A'')) None, S_transition ''enter'' enter_transition]"

definition watch_override :: override_rule where
  "watch_override = \<lparr>ov_semantic_id = ''while-in'', ov_priority = 1, ov_when = C_state_equals ''is-in'' ''mode'' ''in'',
     ov_action = fixed_to ''all-in'' [(Target_asset, Some ''A'', 1)]\<rparr>"

definition watch_policy :: statement where
  "watch_policy = S_guarded ''policy'' None (fixed_to ''rest'' [(Target_cash, None, 1)]) [watch_override] None Guard_block"

definition watch_program :: program where
  "watch_program = program_of [watch_event, watch_policy]"

definition policy_program :: program where
  "policy_program = program_of [watch_policy]"

subsection \<open>A static Program\<close>

definition routed :: "condition \<Rightarrow> statement" where
  "routed c = S_control ''route'' c
     [S_allocate (fixed_to ''split'' [(Target_selection, Some ''picked'', 1 / 2), (Target_asset, Some ''B'', 1 / 2)])]
     [S_allocate (fixed_to ''hold'' [(Target_asset, Some ''B'', 1)])] Unknown_otherwise None"

definition routed_program :: "condition \<Rightarrow> program" where
  "routed_program c = program_of [S_select sample_selection, routed c]"

definition both_above :: condition where
  "both_above = C_group Group_all ''both'' [above ''first'' ''A'' 10, C_group Group_all ''inner'' [above ''second'' ''B'' 5]]"

lemma watch_compiled:
  "map_sum id (\<lambda>p. (map su_symbol (lp_subscriptions p), history_symbols p,
       map_option (\<lambda>t. (tp_profile t, map te_semantic_id (tp_events t), map pt_state_value (tp_policy_targets t))) (lp_temporal_program p)))
     (compile_v2 sample_hashes (strategy_of watch_program)) =
   Inr ([''A''], [''A''], Some (''event-state-daily@1'', [''breakout''], [''in'', ''*'']))"
  by code_simp

lemma policy_refused:
  "validate_strategy sample_dump sample_hash (strategy_of policy_program) = Inr [] \<and>
   compile_v2 sample_hashes (strategy_of policy_program) = Inl (Other_error Index_error) \<and>
   events_in (pg_statements policy_program) = [] \<and> selections_in (pg_statements policy_program) = [] \<and>
   length (policies_in (pg_statements policy_program)) = 1 \<and>
   list_all (\<lambda>po. map_sum id (map target_symbols) (lower_policy (target_lowering []) po) = Inr [[''A''], []])
     (policies_in (pg_statements policy_program))"
  by code_simp

subsection \<open>Variants\<close>

text \<open>A routing condition on an asset no Allocation holds, and one with an equality.\<close>

definition benchmark_program :: program where
  "benchmark_program = routed_program (above ''benchmark'' ''C'' 10)"

definition equality :: condition where
  "equality = C_comparison ''same'' Eq (V_daily (close_of ''same-close'' ''A'')) (price_literal ''same-level'' 10)"

lemma equality_compiled:
  "map_sum id (\<lambda>p. map (\<lambda>r. map lc_operator (rb_condition r)) (lp_rebalances p))
     (compile_v2 sample_hashes (strategy_of (routed_program equality))) = Inr [[''eq'']]"
  by code_simp

text \<open>The Event and a policy over the Selection, with and without a phrase that names the Event.\<close>

definition composed_program :: "formalization list \<Rightarrow> program" where
  "composed_program zs =
     (program_of [watch_event, S_select sample_selection,
        S_guarded ''policy'' None sample_allocation [watch_override] None Guard_block])\<lparr>pg_formalizations := zs\<rparr>"

definition breakout_phrase :: formalization where
  "breakout_phrase = \<lparr>fz_source_phrase = ''when it breaks out'', fz_status = Formalized, fz_semantic_ids = [''breakout''],
     fz_interpretation = Some ''an Event''\<rparr>"

lemma composed_compiled:
  "map_sum id (\<lambda>p. (map ms_id (lp_momentum_selections p), map sl_id (lp_target_sleeves p)))
     (compile_v2 sample_hashes (strategy_of (composed_program []))) = Inr ([''selection''], [''selection-sleeve''])"
  by code_simp

lemma composed_refused:
  "validate_strategy sample_dump sample_hash (strategy_of (composed_program [breakout_phrase])) = Inr [] \<and>
   (case compile_v2 sample_hashes (strategy_of (composed_program [breakout_phrase])) of
      Inl (V2_lowering_error _) \<Rightarrow> True | _ \<Rightarrow> False)"
  by code_simp

text \<open>An Event that compares the closes of two assets.\<close>

definition pair_event :: statement where
  "pair_event = S_event ''on-lead''
     (sample_event\<lparr>ed_semantic_id := ''lead'', ed_condition := Some (C_comparison ''leads'' Gt
       (V_daily (close_of ''first-close'' ''A'')) (V_daily (close_of ''second-close'' ''B'')))\<rparr>)
     [S_transition ''enter'' enter_transition]"

definition pair_program :: program where
  "pair_program = program_of [pair_event, watch_policy]"

lemma pair_compiled:
  "map_sum id (map_option (\<lambda>p. map_option (\<lambda>tp. (tp_anchor_symbol tp,
       map (\<lambda>e. (te_semantic_id e, tv_kind (tk_right (te_condition e)), tv_asset (tk_right (te_condition e)))) (tp_events tp)))
     (lp_temporal_program p)))
     (compile_temporal_program (\<lambda>_. Inl Nesting_exceeded) sample_hashes (strategy_of pair_program)) =
   Inr (Some (Some (''A'', [(''lead'', ''current_price'', Some ''B'')]))) \<and>
   validate_strategy sample_dump sample_hash (strategy_of pair_program) = Inr []"
  by code_simp

subsection \<open>A boundary of the temporal Program\<close>

definition watch_runtime :: runtime where
  "watch_runtime = new_runtime watch_program sample_snapshot 1 None [] [(''breakout'', ''false'')] [] [] []"

definition watch_state :: generated where
  "watch_state =
     \<lparr>gs_boundary = 1, gs_state = [(''mode'', ''out'')], gs_event_truths = [(''breakout'', ''false'')], gs_event_counts = [],
      gs_event_cutoffs = [], gs_memory = [], gs_memory_cutoffs = [], gs_memory_values = [], gs_state_entered = []\<rparr>"

lemma watch_fields [simp]:
  "rt_program watch_runtime = watch_program" "rt_snapshot watch_runtime = sample_snapshot" "rt_cutoff watch_runtime = 1"
  by (simp_all add: watch_runtime_def new_runtime_def Let_def)

lemma watch_in_step: "in_step {} watch_runtime watch_state"
  by (simp add: in_step_def watch_runtime_def watch_state_def new_runtime_def watch_program_def program_of_def Let_def)

lemma watch_plan:
  "map_sum id (map_option (\<lambda>p. map_option (\<lambda>tp. list_all (event_readable p) (tp_events tp)) (lp_temporal_program p)))
     (compile_temporal_program (\<lambda>_. Inl Nesting_exceeded) sample_hashes (strategy_of watch_program)) = Inr (Some (Some True))"
  by code_simp

lemma watch_conditions:
  "list_all plain_event (events_in (pg_statements watch_program)) \<and>
   map event_address (events_in (pg_statements watch_program)) = [''breakout''] \<and>
   distinct (map pc_id (pg_clocks watch_program)) \<and>
   restarted watch_runtime ''breakout'' \<and>
   in_range sample_snapshot 1 \<and>
   list_all (\<lambda>po. list_all named_state (gp_overrides po)) (policies_in (pg_statements watch_program)) \<and>
   map gp_semantic_id (policies_in (pg_statements watch_program)) = [''policy'']"
  by code_simp

subsection \<open>A run of the temporal Program\<close>

definition snapshot_feed :: "nat \<Rightarrow> feed" where
  "snapshot_feed i = \<lparr>fd_close = snapshot_close sample_snapshot (int i), fd_weekly = None\<rparr>"

lemma snapshot_feed_shows: "feed_shows plan sample_snapshot (int i) (snapshot_feed i)"
  by (simp add: feed_shows_def snapshot_feed_def list_all_iff)

definition watch_policy_parts :: policy where
  "watch_policy_parts = \<lparr>gp_semantic_id = ''policy'', gp_guard = None, gp_primary = fixed_to ''rest'' [(Target_cash, None, 1)],
     gp_overrides = [watch_override], gp_fallback = None\<rparr>"

lemma watch_comparable: "list_all (event_readable plan) (tp_events tp) \<Longrightarrow> comparable watch_program plan tp"
proof -
  assume readable: "list_all (event_readable plan) (tp_events tp)"
  have "event_program watch_program"
    unfolding event_program_def
  proof (intro conjI exI)
    show "pg_statements watch_program = map event_statement (events_in (pg_statements watch_program)) @
        [policy_statement watch_policy_parts Guard_block]"
      by (simp add: watch_program_def program_of_def events_in_def watch_event_def watch_policy_def map_filter_simps
          event_statement_def policy_statement_def watch_policy_parts_def)
  qed (simp_all add: watch_policy_parts_def watch_conditions)
  then show ?thesis using readable watch_conditions by (simp add: comparable_def)
qed

lemma watch_replay:
  "map_sum id (\<lambda>r. (dget (er_state r) ''mode'', dget (er_event_cutoffs r) ''breakout'', dget (er_remembered_values r) ''entry''))
     (replay_program sample_dump sample_hash sample_platform watch_program sample_snapshot (Some 1)) =
   Inr (Some ''in'', Some 1, Some 11)"
  by code_simp

lemma watch_valid:
  "validate_program sample_dump sample_hash watch_program = Inr [] \<and>
   distinct (dkeys (pg_initial_state watch_program)) \<and> length (sn_dates sample_snapshot) = 3"
  by code_simp

end
