(* ===== verification/V2_Properties.thy ===== *)
theory V2_Properties
  imports V2_Samples V2_Subscriptions
begin

text \<open>
  Properties of the compilation of \<open>strategy/v2/bridge.py\<close> and of the generated boundary method, with
  the witnesses on the Programs of \<open>V2_Samples\<close>.
\<close>

subsection \<open>The route of a Program\<close>

text \<open>C11: a document with a Program and without a legacy Selection is compiled, or refused, from the
  Program alone: no such document reaches the conversion to a first-generation document, and one
  nested compilation is enough for the Selections of a temporal Program.\<close>

theorem programs_need_no_legacy_adapter:
  assumes "cv_program s \<noteq> None" and "cv_selection s = None"
  shows "compile_v2 hs s \<noteq> Inl Adapter_needed \<and> compile_v2 hs s \<noteq> Inl Nesting_exceeded \<and>
    compile_v2_at (Suc (Suc n)) hs s = compile_v2 hs s"
proof -
  have "settled (compile_v2_at (Suc (Suc 0)) hs s)" by (rule compile_v2_settled [OF assms])
  then show ?thesis by (simp only: compile_v2_nesting settled_def simp_thms)
qed

theorem programs_need_no_legacy_adapter_witness:
  "compile_v2 sample_hashes (strategy_of watch_program) \<noteq> Inl Adapter_needed \<and>
   (\<exists>plan. compile_v2_at 5 sample_hashes (strategy_of watch_program) = Inr plan \<and> lp_temporal_program plan \<noteq> None)"
proof -
  have s: "cv_program (strategy_of watch_program) \<noteq> None" "cv_selection (strategy_of watch_program) = None"
    by (simp_all add: strategy_of_def)
  have five: "compile_v2_at 5 sample_hashes (strategy_of watch_program) = compile_v2 sample_hashes (strategy_of watch_program)"
    using programs_need_no_legacy_adapter [OF s, of sample_hashes 3] by (simp add: eval_nat_numeral)
  obtain plan where "compile_v2 sample_hashes (strategy_of watch_program) = Inr plan" "lp_temporal_program plan \<noteq> None"
    using watch_compiled by (cases "compile_v2 sample_hashes (strategy_of watch_program)") auto
  then show ?thesis using five programs_need_no_legacy_adapter [OF s] by auto
qed

subsection \<open>Static Programs\<close>

text \<open>C19: in the plan of a static Program every branch of the routing statement allocates exactly the
  whole capital: the weights of its sleeves sum to one, unless two branches give a leg they share
  different weights.\<close>

theorem static_plan_allocates_all_capital:
  assumes "compile_static_program hs s = Inr (Some plan)" and "cv_program s = Some p" and "branches_agree p"
    and "r \<in> set (lp_rebalances plan)"
  shows "dsum (map (sleeve_weight plan) (rb_sleeve_ids r)) = 1 \<and>
    (rb_otherwise_sleeve_ids r = [] \<or> dsum (map (sleeve_weight plan) (rb_otherwise_sleeve_ids r)) = 1)"
  using assms by (rule static_plan_complete)

lemma routed_static:
  "map_sum id (map_option (\<lambda>q. map (\<lambda>r. (rb_sleeve_ids r, rb_otherwise_sleeve_ids r)) (lp_rebalances q)))
     (compile_static_program sample_hashes (strategy_of (routed_program both_above))) =
   Inr (Some [([''split-selectionpicked'', ''split-assetB''], [''hold-assetB''])]) \<and>
   branches_agree (routed_program both_above)"
  by code_simp

theorem static_plan_allocates_all_capital_witness:
  "\<exists>plan r. compile_static_program sample_hashes (strategy_of (routed_program both_above)) = Inr (Some plan) \<and>
     r \<in> set (lp_rebalances plan) \<and> rb_sleeve_ids r = [''split-selectionpicked'', ''split-assetB''] \<and>
     dsum (map (sleeve_weight plan) (rb_sleeve_ids r)) = 1 \<and>
     dsum (map (sleeve_weight plan) (rb_otherwise_sleeve_ids r)) = 1"
proof -
  from routed_static obtain plan r where plan:
    "compile_static_program sample_hashes (strategy_of (routed_program both_above)) = Inr (Some plan)"
    "lp_rebalances plan = [r]" "rb_sleeve_ids r = [''split-selectionpicked'', ''split-assetB'']"
    "rb_otherwise_sleeve_ids r = [''hold-assetB'']"
    by (cases "compile_static_program sample_hashes (strategy_of (routed_program both_above))") (auto split: option.splits)
  have "cv_program (strategy_of (routed_program both_above)) = Some (routed_program both_above)" by (simp add: strategy_of_def)
  from static_plan_allocates_all_capital [OF plan(1) this] plan routed_static show ?thesis by auto
qed

text \<open>C20: a Condition lowered to a list of comparisons keeps its truth: the plan compares, in the
  order of the Condition, exactly the comparisons of its nested conjunctions, and for every runtime
  the Condition evaluates to their three-valued conjunction, with the same observations.\<close>

theorem lowered_condition_keeps_its_truth:
  assumes "program_comparisons k = Inr cs"
  shows "emap lower_compared (conjunction k) = Inr cs \<and>
    eval_condition pf rt ms b c k obs =
      ebind (emap_st (eval_condition pf rt ms b c) (map compared (conjunction k)) obs)
        (\<lambda>(vs, obs'). Inr (all_of vs, obs'))"
  using program_comparisons_conjunction [OF assms] conjunction_truth [OF assms, of pf rt ms b c obs]
  by (simp add: all_true_def)

lemma both_above_lowered:
  "map_sum id (map lc_operator) (program_comparisons both_above) = Inr [''gt'', ''gt''] \<and>
   map fst (conjunction both_above) = [Gt, Gt] \<and>
   map_sum id fst (eval_condition sample_platform watch_runtime [] None None both_above []) = Inr T_unknown"
  by code_simp

theorem lowered_condition_keeps_its_truth_witness:
  "\<exists>cs obs. program_comparisons both_above = Inr cs \<and> map lc_operator cs = [''gt'', ''gt''] \<and>
     emap lower_compared (conjunction both_above) = Inr cs \<and>
     ebind (emap_st (eval_condition sample_platform watch_runtime [] None None) (map compared (conjunction both_above)) [])
       (\<lambda>(vs, obs'). Inr (all_of vs, obs')) = Inr (T_unknown, obs)"
proof -
  from both_above_lowered obtain cs where cs: "program_comparisons both_above = Inr cs" "map lc_operator cs = [''gt'', ''gt'']"
    by (cases "program_comparisons both_above") auto
  from both_above_lowered obtain obs where "eval_condition sample_platform watch_runtime [] None None both_above [] = Inr (T_unknown, obs)"
    by (cases "eval_condition sample_platform watch_runtime [] None None both_above []") auto
  note ready = this lowered_condition_keeps_its_truth [OF cs(1), of sample_platform watch_runtime "[]" None None "[]"]
  show ?thesis
    by (intro exI [of _ cs] exI [of _ obs] conjI) (use cs ready in \<open>simp_all only: simp_thms\<close>)
qed

text \<open>C31: the assets a routing Condition reads are not among the subscriptions of the plan unless the
  Program also holds them, while the algorithm keeps their closes and looks their symbols up at
  every slice.\<close>

theorem routed_benchmark_is_not_subscribed:
  assumes "compile_static_program hs s = Inr (Some plan)" and "cv_program s = Some p"
    and "r \<in> set (lp_rebalances plan)" and "k \<in> set (rb_condition r)" and "a \<in> set (comparison_closes k)"
    and "a \<notin> set (held_assets (cv_definitions s) p)"
  shows "a \<in> set (history_symbols plan) \<and> a \<notin> su_symbol ` set (lp_subscriptions plan)"
  using static_subscriptions_held [OF assms(1,2)] condition_closes_kept [OF assms(3,4,5)] assms(6) by blast

lemma benchmark_static:
  "map_sum id (map_option (\<lambda>q. map (\<lambda>r. map (\<lambda>k. list_ex (\<lambda>x. x = ''C'') (comparison_closes k)) (rb_condition r)) (lp_rebalances q)))
     (compile_static_program sample_hashes (strategy_of benchmark_program)) = Inr (Some [[True]]) \<and>
   list_all (\<lambda>x. x \<noteq> ''C'') (held_assets sample_definitions benchmark_program) \<and>
   validate_strategy sample_dump sample_hash (strategy_of benchmark_program) = Inr []"
  by code_simp

theorem routed_benchmark_is_not_subscribed_witness:
  "\<exists>plan. compile_static_program sample_hashes (strategy_of benchmark_program) = Inr (Some plan) \<and>
     ''C'' \<in> set (history_symbols plan) \<and> ''C'' \<notin> su_symbol ` set (lp_subscriptions plan)"
proof -
  from benchmark_static obtain plan r k where plan:
    "compile_static_program sample_hashes (strategy_of benchmark_program) = Inr (Some plan)"
    "r \<in> set (lp_rebalances plan)" "k \<in> set (rb_condition r)" "''C'' \<in> set (comparison_closes k)"
    by (cases "compile_static_program sample_hashes (strategy_of benchmark_program)")
      (auto simp: list_ex_iff split: option.splits)
  have "''C'' \<notin> set (held_assets (cv_definitions (strategy_of benchmark_program)) benchmark_program)"
    using benchmark_static by (auto simp: list_all_iff strategy_of_def)
  from routed_benchmark_is_not_subscribed [OF plan(1) _ plan(2-4) this] plan(1)
  show ?thesis by (auto simp: strategy_of_def)
qed

subsection \<open>Temporal Programs\<close>

text \<open>C8: for a comparable Program the generated algorithm follows the reference runtime over
  a whole run. Comparable Programs are validated and consist of Events followed by one guarded
  policy without a guard and without a fallback, with distinct clocks and Events; no Event has a
  window of its own; the prices that its Events and remembered values read are daily closes of the
  anchor, the one symbol the algorithm keeps, and literals are finite decimals; every
  Event has a Condition; its actions have no clock of their own and its transitions leave a
  non-empty state. Started from the initial state and fed
  the closes of a snapshot session by session, the algorithm ends with the State, the truths,
  counts and cutoffs of the Events and the remembered values that replaying the Program through
  execute_program_v2 reports. Outside this class the two do differ, over Event
  windows and over prices of other assets.\<close>

theorem generated_run_follows_the_replay:
  assumes "compile_temporal_program recur hs s = Inr (Some plan)" and "lp_temporal_program plan = Some tp"
    and "cv_program s = Some p" and "comparable p plan tp" and "distinct (dkeys (pg_initial_state p))"
    and "\<And>i. i \<le> m \<Longrightarrow> feed_shows plan sn (int i) (feeds i)"
    and "m < length (sn_dates sn)" and "validate_program dump hash p = Inr []"
    and "replay_program dump hash pf p sn (Some (int m)) = Inr r"
  shows "same_outcome r (run_boundaries plan tp (map feeds [0..<Suc m]) (initial_generated tp))"
  using assms by (rule replay_outcome)

theorem generated_run_follows_the_replay_witness:
  "\<exists>plan tp. compile_temporal_program (\<lambda>_. Inl Nesting_exceeded) sample_hashes (strategy_of watch_program) = Inr (Some plan) \<and>
     lp_temporal_program plan = Some tp \<and>
     dget (gs_state (run_boundaries plan tp (map snapshot_feed [0..<2]) (initial_generated tp))) ''mode'' = Some ''in'' \<and>
     dget (gs_memory (run_boundaries plan tp (map snapshot_feed [0..<2]) (initial_generated tp))) ''entry'' = Some 11"
proof -
  from watch_plan obtain plan tp where plan:
    "compile_temporal_program (\<lambda>_. Inl Nesting_exceeded) sample_hashes (strategy_of watch_program) = Inr (Some plan)"
    "lp_temporal_program plan = Some tp" "list_all (event_readable plan) (tp_events tp)"
    by (cases "compile_temporal_program (\<lambda>_. Inl Nesting_exceeded) sample_hashes (strategy_of watch_program)")
      (auto split: option.splits)
  have s: "cv_program (strategy_of watch_program) = Some watch_program" by (simp add: strategy_of_def)
  from watch_replay obtain r where
    run: "replay_program sample_dump sample_hash sample_platform watch_program sample_snapshot (Some (int 1)) = Inr r"
    and r: "dget (er_state r) ''mode'' = Some ''in''" "dget (er_remembered_values r) ''entry'' = Some 11"
    by (cases "replay_program sample_dump sample_hash sample_platform watch_program sample_snapshot (Some 1)") auto
  have "same_outcome r (run_boundaries plan tp (map snapshot_feed [0..<Suc 1]) (initial_generated tp))"
    by (rule generated_run_follows_the_replay [OF plan(1,2) s watch_comparable [OF plan(3)] _ snapshot_feed_shows _ _ run])
      (use watch_valid in simp_all)
  then show ?thesis using plan(1,2) r by (auto simp: same_outcome_def eval_nat_numeral)
qed

text \<open>C10: the policy of the generated algorithm takes the target of the Allocation the runtime takes: the
  first target in the plan that applies is the lowering of the override of highest priority whose
  State holds, and of the primary Allocation when there is none.\<close>

theorem generated_policy_follows_the_runtime:
  assumes "compile_temporal_program recur hs s = Inr (Some plan)" and "lp_temporal_program plan = Some tp"
    and "cv_program s = Some p" and "policies_in (pg_statements p) = [po]"
    and "list_all named_state (gp_overrides po)" and "in_step seen rt g"
    and "first_override pf (by_priority (gp_overrides po)) rt = Inr (chosen, rt')"
  shows "\<exists>t k v. generated_policy (tp_policy_targets tp) g =
      Some (compiled_target (compiled_selection_ids (selections_in (pg_statements p))) t) \<and>
    (case chosen of
       Some r \<Rightarrow> target_lowering (selections_in (pg_statements p)) (ov_action r) (ov_semantic_id r) k v = Inr t
     | None \<Rightarrow> target_lowering (selections_in (pg_statements p)) (gp_primary po) (as_semantic_id (gp_primary po)) k v = Inr t)"
  using assms by (rule policy_follows_runtime)

lemma watch_first_override:
  "list_all (\<lambda>po. map_sum id fst (first_override sample_platform (by_priority (gp_overrides po)) watch_runtime) = Inr None \<and>
     as_semantic_id (gp_primary po) = ''rest'' \<and> list_all named_state (gp_overrides po))
     (policies_in (pg_statements watch_program)) \<and>
   length (policies_in (pg_statements watch_program)) = 1 \<and> selections_in (pg_statements watch_program) = []"
  by code_simp

theorem generated_policy_follows_the_runtime_witness:
  "\<exists>plan tp t. compile_temporal_program (\<lambda>_. Inl Nesting_exceeded) sample_hashes (strategy_of watch_program) = Inr (Some plan) \<and>
     lp_temporal_program plan = Some tp \<and> generated_policy (tp_policy_targets tp) watch_state = Some t \<and>
     pt_semantic_id t = ''rest''"
proof -
  from watch_plan obtain plan tp where plan:
    "compile_temporal_program (\<lambda>_. Inl Nesting_exceeded) sample_hashes (strategy_of watch_program) = Inr (Some plan)"
    "lp_temporal_program plan = Some tp"
    by (cases "compile_temporal_program (\<lambda>_. Inl Nesting_exceeded) sample_hashes (strategy_of watch_program)")
      (auto split: option.splits)
  from watch_first_override obtain po where po: "policies_in (pg_statements watch_program) = [po]"
    by (auto simp: length_Suc_conv)
  with watch_first_override obtain rt' where first:
    "first_override sample_platform (by_priority (gp_overrides po)) watch_runtime = Inr (None, rt')"
    "as_semantic_id (gp_primary po) = ''rest''" "list_all named_state (gp_overrides po)"
    by (cases "first_override sample_platform (by_priority (gp_overrides po)) watch_runtime") auto
  have "cv_program (strategy_of watch_program) = Some watch_program" by (simp add: strategy_of_def)
  from generated_policy_follows_the_runtime [OF plan this po first(3) watch_in_step first(1)]
  obtain t k v where "generated_policy (tp_policy_targets tp) watch_state = Some (compiled_target (compiled_selection_ids []) t)"
    "target_lowering [] (gp_primary po) ''rest'' k v = Inr t"
    using watch_first_override first(2) by auto
  moreover from this(2) have "pt_semantic_id t = ''rest''" by (simp add: target_lowering_fields)
  ultimately show ?thesis using plan by auto
qed

subsection \<open>Where the two differ\<close>

text \<open>C30: an Event window of the generated algorithm leaves out the boundary of its own Event, which the
  runtime counts as within it; at every other boundary the two agree.\<close>

theorem own_boundary_window_differs:
  assumes "in_step seen rt g" and "dget (rt_event_cutoffs rt) e = Some c" and "0 \<le> or_zero n"
  shows "window_text g e n = truth_text (event_window_truth rt e Within n) \<longleftrightarrow> c \<noteq> rt_cutoff rt"
proof
  assume "c \<noteq> rt_cutoff rt"
  then show "window_text g e n = truth_text (event_window_truth rt e Within n)"
    using assms(2) by (intro window_text_truth [OF assms(1)]) simp
next
  assume same: "window_text g e n = truth_text (event_window_truth rt e Within n)"
  show "c \<noteq> rt_cutoff rt"
  proof
    assume c: "c = rt_cutoff rt"
    then have "event_window_truth rt e Within n = T_true"
      using assms(2,3) by (cases n) (simp_all add: event_window_truth_def Let_def truth_of_bool_def or_zero_def)
    moreover have "window_text g e n = ''false''"
      using assms(1,2) c by (simp add: window_text_def in_step_def text_of_bool_def)
    ultimately show False using same by (simp add: truth_text_def)
  qed
qed

definition window_runtime :: runtime where
  "window_runtime = watch_runtime\<lparr>rt_event_cutoffs := [(''breakout'', 1)]\<rparr>"

theorem own_boundary_window_differs_witness:
  "event_window_truth window_runtime ''breakout'' Within (Some 3) = T_true \<and>
   window_text (watch_state\<lparr>gs_event_cutoffs := [(''breakout'', 1)]\<rparr>) ''breakout'' (Some 3) = ''false'' \<and>
   window_text (watch_state\<lparr>gs_event_cutoffs := [(''breakout'', 1)]\<rparr>) ''breakout'' (Some 3)
     \<noteq> truth_text (event_window_truth window_runtime ''breakout'' Within (Some 3))"
proof -
  have "in_step {} window_runtime (watch_state\<lparr>gs_event_cutoffs := [(''breakout'', 1)]\<rparr>)"
    using watch_in_step by (simp add: in_step_def window_runtime_def)
  moreover have "dget (rt_event_cutoffs window_runtime) ''breakout'' = Some 1" by code_simp
  ultimately have "window_text (watch_state\<lparr>gs_event_cutoffs := [(''breakout'', 1)]\<rparr>) ''breakout'' (Some 3)
     \<noteq> truth_text (event_window_truth window_runtime ''breakout'' Within (Some 3))"
    using own_boundary_window_differs [of "{}" window_runtime _ "''breakout''" 1 "Some 3"]
    by (auto simp: window_runtime_def or_zero_def)
  moreover have "event_window_truth window_runtime ''breakout'' Within (Some 3) = T_true \<and>
     window_text (watch_state\<lparr>gs_event_cutoffs := [(''breakout'', 1)]\<rparr>) ''breakout'' (Some 3) = ''false''" by code_simp
  ultimately show ?thesis by blast
qed

text \<open>C21: an Event of a Program without Selections that compares the price of an asset other than the
  anchor never fires in the generated algorithm, whatever prices the feed shows, from any state in
  which it was not true and has not fired (the initial state is one): without Selections the
  algorithm keeps the closes of the anchor only.\<close>

theorem second_asset_never_triggers:
  assumes "compile_temporal_program recur hs s = Inr (Some plan)" and "cv_program s = Some p"
    and "selections_in (pg_statements p) = []" and "lp_temporal_program plan = Some tp"
    and "e \<in> set (tp_events tp)" and "distinct (map te_semantic_id (tp_events tp))"
    and "v \<in> {tk_left (te_condition e), tk_right (te_condition e)}"
    and "tv_kind v = ''current_price''" and "or_empty (tv_asset v) \<noteq> tp_anchor_symbol tp"
    and "silent (te_semantic_id e) g"
  shows "dget (gs_event_counts (run_boundaries plan tp fds g)) (te_semantic_id e) = None"
proof -
  have "unseen_price plan (tk_left (te_condition e)) \<or> unseen_price plan (tk_right (te_condition e))"
    using assms(7-9) temporal_history [OF assms(1-4)] by (auto simp: unseen_price_def)
  moreover have "d = e" if "d \<in> set (tp_events tp)" "te_semantic_id d = te_semantic_id e" for d
    using that assms(5,6) by (auto simp: distinct_map inj_on_def)
  ultimately have "silent (te_semantic_id e) (run_boundaries plan tp fds g)"
    using assms(10) by (intro run_boundaries_silent) auto
  then show ?thesis by (simp add: silent_def)
qed

theorem second_asset_never_triggers_witness:
  "\<exists>plan tp. compile_temporal_program (\<lambda>_. Inl Nesting_exceeded) sample_hashes (strategy_of pair_program) = Inr (Some plan) \<and>
     lp_temporal_program plan = Some tp \<and>
     dget (gs_event_counts (run_boundaries plan tp
       [\<lparr>fd_close = \<lambda>x. Some (if x = ''A'' then 1 else 2), fd_weekly = None\<rparr>,
        \<lparr>fd_close = \<lambda>x. Some (if x = ''A'' then 3 else 2), fd_weekly = None\<rparr>] watch_state)) ''lead'' = None"
proof -
  from pair_compiled obtain plan tp e where plan:
    "compile_temporal_program (\<lambda>_. Inl Nesting_exceeded) sample_hashes (strategy_of pair_program) = Inr (Some plan)"
    "lp_temporal_program plan = Some tp" "tp_anchor_symbol tp = ''A''" "tp_events tp = [e]" "te_semantic_id e = ''lead''"
    "tv_kind (tk_right (te_condition e)) = ''current_price''" "tv_asset (tk_right (te_condition e)) = Some ''B''"
    by (cases "compile_temporal_program (\<lambda>_. Inl Nesting_exceeded) sample_hashes (strategy_of pair_program)")
      (auto split: option.splits)
  have s: "cv_program (strategy_of pair_program) = Some pair_program" by (simp add: strategy_of_def)
  have "silent (te_semantic_id e) watch_state" "selections_in (pg_statements pair_program) = []"
    by (simp_all add: silent_def watch_state_def plan(5) dget_def)
      (simp_all add: pair_program_def program_of_def selections_in_def pair_event_def watch_policy_def map_filter_simps)
  then have "dget (gs_event_counts (run_boundaries plan tp fds watch_state)) (te_semantic_id e) = None" for fds
    by (intro second_asset_never_triggers [OF plan(1) s _ plan(2), of e "tk_right (te_condition e)"])
      (simp_all add: plan or_empty_def)
  then show ?thesis using plan(1,2,5) by auto
qed

text \<open>C40: a Program that passes the validator, in a document without a legacy Selection, whose
  only statement is a guarded policy that lowers to targets and names at least one asset, cannot be
  compiled: once its targets are lowered the compiler asks for the clock of a Selection that is not
  there and raises an IndexError. A policy that does not lower raises before that.\<close>

theorem guarded_policy_alone_raises_index_error:
  assumes "validate_strategy (hs_dump hs) (hs_digest hs) s = Inr []" and "cv_program s = Some p" and "cv_selection s = None"
    and "events_in (pg_statements p) = []" and "selections_in (pg_statements p) = []"
    and "length (pg_statements p) = 1" and "policies_in (pg_statements p) = [po]"
    and "lower_policy (target_lowering []) po = Inr targets" and "concat (map target_symbols targets) \<noteq> []"
  shows "compile_v2 hs s = Inl (Other_error Index_error)"
proof -
  have "compile_temporal_program recur hs s = Inl (Other_error Index_error)" for recur
    using assms(2-9)
    by (auto simp: compile_temporal_program_def Let_def assemble_temporal_def temporal_symbols_def event_symbols_def
        map_filter_simps temporal_clock_def)
  then show ?thesis
    using assms(1-3) by (simp add: compile_v2_def numeral_2_eq_2 lift_res_def)
qed

theorem guarded_policy_alone_raises_index_error_witness:
  "compile_v2 sample_hashes (strategy_of policy_program) = Inl (Other_error Index_error)"
proof -
  from policy_refused obtain po where po: "policies_in (pg_statements policy_program) = [po]" by (auto simp: length_Suc_conv)
  with policy_refused obtain targets where targets: "lower_policy (target_lowering []) po = Inr targets"
    "map target_symbols targets = [[''A''], []]" by (cases "lower_policy (target_lowering []) po") auto
  have "validate_strategy (hs_dump sample_hashes) (hs_digest sample_hashes) (strategy_of policy_program) = Inr []"
    "length (pg_statements policy_program) = 1"
    using policy_refused by (simp_all add: sample_hashes_def policy_program_def program_of_def)
  with policy_refused po targets show ?thesis
    by (intro guarded_policy_alone_raises_index_error [where p = policy_program and po = po and targets = targets])
      (simp_all add: strategy_of_def)
qed

end
