(* ===== verification/Compiler_Samples.thy ===== *)
theory Compiler_Samples
  imports Lowering_Weights
begin

text \<open>
  Two small IRs for the witnesses. \<open>sample_ir\<close> is a momentum rotation: on the first trading day
  of a month, half of the capital goes to the best of two assets by trailing return and half to a
  fixed asset. \<open>shared_ir\<close> is a conditional rebalance whose two branches use one allocation.
\<close>

definition sample_operation :: "string \<Rightarrow> ir_body \<Rightarrow> ir_operation" where
  "sample_operation i b = \<lparr>op_id = i, op_component = i, op_tag = operation_tag b, op_body = b\<rparr>"

definition sample_ir :: strategy_ir where
  "sample_ir =
     \<lparr>ir_identity = ''momentum'',
      ir_operations = map (\<lambda>(i, b). sample_operation i b)
        [(''assets'', Asset_set_op [''SPY'', ''QQQ'']), (''bonds'', Asset_set_op [''TLT'']),
         (''half1'', Scale_targets_op ''pick'' (1 / 2)), (''half2'', Scale_targets_op ''hold'' (1 / 2)),
         (''hold'', Equal_weight_op ''bonds'' 1), (''month'', Monthly_schedule_op 1),
         (''pick'', Equal_weight_op ''top'' 1), (''rank'', Rank_op ''returns'' ''descending'' None),
         (''rebalance'', Rebalance_op ''total''), (''returns'', Trailing_return_op ''assets'' 60),
         (''top'', Top_n_op ''rank'' 1 ''require_full''), (''total'', Merge_targets_op ''half1'' ''half2'')],
      ir_entrypoints = [\<lparr>en_event = ''month'', en_target = ''rebalance''\<rparr>],
      ir_user_state = []\<rparr>"

definition sample_condition :: executable_comparison where
  "sample_condition =
     \<lparr>xc_operator = ''gt'',
      xc_left = Executable_value ''trailing_return'' ''percentage'' (Some ''asset'') (Some ''SPY'') None (Some 20) None None None,
      xc_right = Executable_value ''literal'' ''percentage'' None None (Some (Dec False 0 0)) None None None None\<rparr>"

definition shared_ir :: strategy_ir where
  "shared_ir =
     \<lparr>ir_identity = ''shared'',
      ir_operations = map (\<lambda>(i, b). sample_operation i b)
        [(''bonds'', Asset_set_op [''TLT'']), (''half1'', Scale_targets_op ''safe'' (1 / 2)),
         (''half2'', Scale_targets_op ''risky'' (1 / 2)), (''month'', Monthly_schedule_op 1),
         (''risky'', Equal_weight_op ''stocks'' 1),
         (''rule'', Predicate_rebalance_op ''SPY'' 20 ''gt'' (Dec False 0 0) ''total'' (Some ''safe'') [sample_condition]),
         (''safe'', Equal_weight_op ''bonds'' 1), (''stocks'', Asset_set_op [''SPY'']),
         (''total'', Merge_targets_op ''half1'' ''half2'')],
      ir_entrypoints = [\<lparr>en_event = ''month'', en_target = ''rule''\<rparr>],
      ir_user_state = []\<rparr>"

text \<open>A well-formed IR the backend refuses: it is due on the fifteenth.\<close>

definition late_ir :: strategy_ir where
  "late_ir =
     \<lparr>ir_identity = ''late'',
      ir_operations = map (\<lambda>(i, b). sample_operation i b)
        [(''bonds'', Asset_set_op [''TLT'']), (''hold'', Equal_weight_op ''bonds'' 1),
         (''month'', Monthly_schedule_op 15), (''rebalance'', Rebalance_op ''hold'')],
      ir_entrypoints = [\<lparr>en_event = ''month'', en_target = ''rebalance''\<rparr>],
      ir_user_state = []\<rparr>"

text \<open>A momentum selection of members that beat a benchmark outside the asset set.\<close>

definition candidate_return :: executable_value where
  "candidate_return = Executable_value ''trailing_return'' ''percentage'' (Some ''candidate'') None None (Some 60) None None None"

definition benchmark_return :: executable_value where
  "benchmark_return = Executable_value ''trailing_return'' ''percentage'' (Some ''asset'') (Some ''SPY'') None (Some 60) None None None"

definition benchmark_ir :: strategy_ir where
  "benchmark_ir =
     \<lparr>ir_identity = ''benchmark'',
      ir_operations = map (\<lambda>(i, b). sample_operation i b)
        [(''assets'', Asset_set_op [''QQQ'', ''TLT'']),
         (''beats'', Filter_op ''returns'' ''gt'' (Dec False 0 0)
            [\<lparr>fc_operator = ''gt'', fc_threshold = Dec False 0 0,
              fc_comparison = Some \<lparr>xc_operator = ''gt'', xc_left = candidate_return, xc_right = benchmark_return\<rparr>\<rparr>]),
         (''month'', Monthly_schedule_op 1), (''pick'', Equal_weight_op ''top'' 1),
         (''rank'', Rank_op ''beats'' ''descending'' None), (''rebalance'', Rebalance_op ''pick''),
         (''returns'', Trailing_return_op ''assets'' 60), (''top'', Top_n_op ''rank'' 1 ''choose_all'')],
      ir_entrypoints = [\<lparr>en_event = ''month'', en_target = ''rebalance''\<rparr>],
      ir_user_state = []\<rparr>"

lemma samples_accepted:
  "validate_strategy_ir sample_ir = Some (Inr ()) \<and> allocations_used_once sample_ir \<and>
   validate_strategy_ir shared_ir = Some (Inr ()) \<and> validate_strategy_ir late_ir = Some (Inr ()) \<and>
   validate_strategy_ir benchmark_ir = Some (Inr ())"
  by code_simp

lemma late_refused:
  "compile_ir late_ir = Inl (Lean_lowering_error ''LEAN compiler v0 supports only the first trading day of a period'')"
  by code_simp

lemma benchmark_compiled:
  "case compile_ir benchmark_ir of Inl _ \<Rightarrow> False
   | Inr p \<Rightarrow> map su_symbol (lp_subscriptions p) = [''QQQ'', ''TLT''] \<and>
       map (map (lv_asset \<circ> lc_right) \<circ> ms_eligibility) (lp_momentum_selections p) = [[Some ''SPY'']]"
  by code_simp

lemma sample_compiled:
  "case compile_ir sample_ir of Inl _ \<Rightarrow> False
   | Inr p \<Rightarrow> map rb_sleeve_ids (lp_rebalances p) = [[''pick'', ''hold'']]"
  by code_simp

lemma shared_compiled:
  "case compile_ir shared_ir of Inl _ \<Rightarrow> False
   | Inr p \<Rightarrow> (case lp_rebalances p of
        [r] \<Rightarrow> allocated p (rb_sleeve_ids r) (rb_snapshot_allocations r) = 3 / 2
      | _ \<Rightarrow> False)"
  by code_simp

lemma samples_well_formed: "well_formed_ir sample_ir" "well_formed_ir late_ir"
  using samples_accepted validator_accepts_iff by auto

lemma sample_plan: "\<exists>p. compile_ir sample_ir = Inr p \<and> map rb_sleeve_ids (lp_rebalances p) = [[''pick'', ''hold'']]"
  using sample_compiled by (auto split: sum.splits)

end
