(* ===== verification/Compiler_Properties.thy ===== *)
theory Compiler_Properties
  imports Compiler_Samples
begin

text \<open>
  What the compiler from the Strategy IR to the LEAN plan promises: the validator decides a
  declarative well-formedness, compilation of a well-formed IR ends and fails in one way only,
  and the plans it returns are closed, normal and, where no allocation is shared, complete.
\<close>

text \<open>C6: validate_strategy_ir always answers: it accepts exactly the IRs that are well formed
  by the declarative description (unique ids, every operand resolved at its type, an acyclic
  dataflow, every operation used by an entrypoint, one gate and one observer per state), and
  rejects every other with at least one issue.\<close>

theorem ir_validator_decides_well_formedness:
  "(validate_strategy_ir ir = Some (Inr ()) \<longleftrightarrow> well_formed_ir ir) \<and>
   ((\<exists>issues. validate_strategy_ir ir = Some (Inl issues) \<and> issues \<noteq> []) \<longleftrightarrow> \<not> well_formed_ir ir)"
proof -
  obtain issues where "collect_ir_validation_issues ir = Some issues" using collection_answers [of ir] by blast
  then show ?thesis using validator_accepts_iff [of ir] by (auto simp: validate_strategy_ir_def split: if_splits)
qed

text \<open>C22: compiling a well-formed IR never runs out of recursion and never raises the ValueError
  of the plan's own normalisation: the only failure is a LeanLoweringError.\<close>

theorem compilation_raises_only_lowering_errors:
  assumes "well_formed_ir ir" and "compile_ir ir = Inl e"
  shows "\<exists>m. e = Lean_lowering_error m"
  using compile_clean [OF assms(1)] assms(2) by (simp add: fails_cleanly_def)

lemma compilation_raises_only_lowering_errors_witness:
  "\<exists>m. compile_ir late_ir = Inl (Lean_lowering_error m)"
  using compilation_raises_only_lowering_errors [OF samples_well_formed(2) late_refused] late_refused by blast

text \<open>C7: a compiled plan is closed. Its rebalances, snapshots and events refer to sleeves,
  snapshots, cooldown states and rebalances of the plan, its sleeves to its selections, and a
  selection gated by a cooldown to a cooldown state of the plan; every symbol that a selection
  picks from, a sleeve, a fallback, a cooldown or an event names is subscribed, and so is every
  asset the comparisons of a rebalance name, or without any the asset of its predicate. The
  assets that a ranking value or an eligibility comparison names are not covered: they need not
  be subscribed, as eligibility_assets_are_not_subscribed shows.\<close>

theorem compiled_plan_refers_to_itself_only:
  assumes "compile_ir ir = Inr p"
  shows "plan_closed p"
  by (rule compiled_plan_closed [OF assms])

lemma compiled_plan_refers_to_itself_only_witness:
  "\<exists>p. compile_ir sample_ir = Inr p \<and> plan_closed p"
  using sample_plan compiled_plan_refers_to_itself_only by blast

text \<open>C18: where no allocation is the target of two operations, the sleeves and snapshots that the
  plan stores for a rebalance add up to exactly one, in its THEN branch and in its OTHERWISE
  branch when it has one.\<close>

theorem rebalances_allocate_all_capital:
  assumes "compile_ir ir = Inr p" and "well_formed_ir ir" and "allocations_used_once ir"
    and "r \<in> set (lp_rebalances p)"
  shows "allocated p (rb_sleeve_ids r) (rb_snapshot_allocations r) = 1 \<and>
    (rb_otherwise_sleeve_ids r = [] \<and> rb_otherwise_snapshot_allocations r = [] \<or>
     allocated p (rb_otherwise_sleeve_ids r) (rb_otherwise_snapshot_allocations r) = 1)"
  by (rule compiled_rebalances_allocate [OF assms(1) wf_irD(1) [OF assms(2)] assms(3,4)])

lemma rebalances_allocate_all_capital_witness:
  "\<exists>p r. compile_ir sample_ir = Inr p \<and> r \<in> set (lp_rebalances p) \<and> rb_sleeve_ids r = [''pick'', ''hold''] \<and>
     allocated p (rb_sleeve_ids r) (rb_snapshot_allocations r) = 1"
proof -
  obtain p r where p: "compile_ir sample_ir = Inr p" and r: "r \<in> set (lp_rebalances p)" "rb_sleeve_ids r = [''pick'', ''hold'']"
    using sample_plan by auto
  have "allocations_used_once sample_ir" using samples_accepted by simp
  from rebalances_allocate_all_capital [OF p samples_well_formed(1) this r(1)] p r show ?thesis by blast
qed

text \<open>A shared allocation loses its scale. The validator accepts a conditional rebalance whose
  OTHERWISE branch uses an allocation that THEN uses at half weight, and the plan stores the
  weight of the branch lowered last, so its THEN branch allocates one and a half times the
  capital.\<close>

lemma shared_allocation_exceeds_capital:
  "\<exists>p r. validate_strategy_ir shared_ir = Some (Inr ()) \<and> compile_ir shared_ir = Inr p \<and> r \<in> set (lp_rebalances p) \<and>
     allocated p (rb_sleeve_ids r) (rb_snapshot_allocations r) = 3 / 2"
  using shared_compiled samples_accepted by (auto split: sum.splits list.splits)

text \<open>A normalised plan is a fixed point of the normalisation, which the code generator
  applies once more to the plan it is given.\<close>

theorem plan_normalization_is_idempotent:
  assumes "normalize_lean_plan p = Inr q"
  shows "normalize_lean_plan q = Inr q"
  by (rule normalize_fixed [OF assms])

lemma plan_normalization_is_idempotent_witness:
  "\<exists>p q. compile_ir sample_ir = Inr p \<and> normalize_lean_plan p = Inr q \<and> normalize_lean_plan q = Inr q"
  using sample_plan compile_fixed plan_normalization_is_idempotent by blast


text \<open>The analysis subscribes the members of asset sets and the assets of rebalance conditions, but
  not the assets an eligibility comparison names, whose value the generated program then never
  has.\<close>

lemma eligibility_assets_are_not_subscribed:
  "\<exists>p m c. compile_ir benchmark_ir = Inr p \<and> m \<in> set (lp_momentum_selections p) \<and> c \<in> set (ms_eligibility m) \<and>
     lv_asset (lc_right c) = Some ''SPY'' \<and> ''SPY'' \<notin> set (map su_symbol (lp_subscriptions p))"
proof -
  obtain p where p: "compile_ir benchmark_ir = Inr p" "map su_symbol (lp_subscriptions p) = [''QQQ'', ''TLT'']"
    and m: "map (map (lv_asset \<circ> lc_right) \<circ> ms_eligibility) (lp_momentum_selections p) = [[Some ''SPY'']]"
    using benchmark_compiled by (auto split: sum.splits)
  from m obtain x where "x \<in> set (lp_momentum_selections p)" "map (lv_asset \<circ> lc_right) (ms_eligibility x) = [Some ''SPY'']"
    by auto
  moreover from this obtain c where "c \<in> set (ms_eligibility x)" "lv_asset (lc_right c) = Some ''SPY''" by auto
  moreover have "''SPY'' \<notin> set (map su_symbol (lp_subscriptions p))" using p(2) by simp
  ultimately show ?thesis using p(1) by blast
qed

end
