(* ===== verification/Program_Reading.thy ===== *)
theory Program_Reading
  imports Program_Exec
begin

text \<open>
  Reading is pure: the list of observations is a log that no Value or Condition consults, and
  the other fields of the runtime that statements write are read only where the Value names
  them. A Condition therefore has one truth, and a member of a universe one score, at a given
  runtime.
\<close>

definition pure_log :: "(log \<Rightarrow> ('a \<times> log) res) \<Rightarrow> bool" where
  "pure_log f \<longleftrightarrow> (\<forall>obs. f obs = ebind (f []) (\<lambda>(x, z). Inr (x, obs @ z)))"

lemma pure_logI: "(\<And>obs. f obs = ebind (f []) (\<lambda>(x, z). Inr (x, obs @ z))) \<Longrightarrow> pure_log f"
  unfolding pure_log_def by blast

lemma pure_logD: "pure_log f \<Longrightarrow> f obs = ebind (f []) (\<lambda>(x, z). Inr (x, obs @ z))"
  unfolding pure_log_def by blast

lemma pure_log_ext: "(\<And>obs. f obs = g obs) \<Longrightarrow> pure_log g \<Longrightarrow> pure_log f"
  by presburger

lemma pure_log_return: "pure_log (\<lambda>obs. Inr (x, obs))"
  by (rule pure_logI) simp

lemma pure_log_raise: "pure_log (\<lambda>obs. Inl e)"
  by (rule pure_logI) simp

lemma pure_log_append: "pure_log (\<lambda>obs. Inr (x, obs @ z))"
  by (rule pure_logI) simp

text \<open>Sequencing two readings, and reading something that has no log.\<close>

lemma pure_log_bind:
  assumes "pure_log f" and "\<And>x obs z. f obs = Inr (x, z) \<Longrightarrow> pure_log (g x)"
  shows "pure_log (\<lambda>obs. ebind (f obs) (\<lambda>(x, obs'). g x obs'))"
proof (rule pure_logI)
  fix obs
  note f = pure_logD [OF assms(1), of obs]
  show "ebind (f obs) (\<lambda>(x, obs'). g x obs') =
    ebind (ebind (f []) (\<lambda>(x, obs'). g x obs')) (\<lambda>(y, z). Inr (y, obs @ z))"
  proof (cases "f []")
    case (Inl e)
    then show ?thesis by (subst f) simp
  next
    case (Inr q)
    obtain x z where q: "q = (x, z)" by (cases q)
    have f': "f obs = Inr (x, obs @ z)" by (subst f) (simp add: Inr q)
    have g: "g x w = ebind (g x []) (\<lambda>(y, v). Inr (y, w @ v))" for w
      by (rule pure_logD [OF assms(2) [OF f']])
    have "ebind (g x []) (\<lambda>(y, v). Inr (y, (obs @ z) @ v)) =
        ebind (ebind (g x []) (\<lambda>(y, v). Inr (y, z @ v))) (\<lambda>(y, v). Inr (y, obs @ v))"
      by (cases "g x []") (simp_all add: split_beta)
    then show ?thesis
      unfolding f' Inr q ebind_simps prod.case g [of "obs @ z"] g [of z] .
  qed
qed

lemma pure_log_lift: "(\<And>x. m = Inr x \<Longrightarrow> pure_log (g x)) \<Longrightarrow> pure_log (\<lambda>obs. ebind m (\<lambda>x. g x obs))"
  by (cases m) (simp_all add: pure_log_raise)

lemma pure_log_emap:
  assumes "\<And>x. x \<in> set xs \<Longrightarrow> pure_log (f x)"
  shows "pure_log (emap_st f xs)"
  using assms
proof (induction xs)
  case Nil
  then show ?case using pure_log_return by simp
next
  case (Cons x xs)
  have "pure_log (\<lambda>s. ebind (f x s) (\<lambda>(y, s'). ebind (emap_st f xs s') (\<lambda>(ys, s''). Inr (y # ys, s''))))"
    using Cons by (intro pure_log_bind pure_log_return) auto
  then show ?case by (simp add: case_prod_unfold)
qed

lemmas pure_log_intros = pure_log_return pure_log_raise pure_log_append pure_log_bind pure_log_lift pure_log_emap

subsection \<open>Values and Conditions\<close>

lemma pure_record_value: "pure_log (record_value pf rt v c x r)"
  unfolding record_value_def Let_def by (intro pure_log_intros)

lemma pure_record_members: "pure_log (record_members pf rt v c a b d out)"
  unfolding record_members_def Let_def by (intro pure_log_intros)

lemma pure_daily_observation: "pure_log (daily_observation pf rt n c b i)"
proof (rule pure_logI)
  show "daily_observation pf rt n c b i obs = ebind (daily_observation pf rt n c b i []) (\<lambda>(x, z). Inr (x, obs @ z))" for obs
    by (cases "evaluate (pf_node_digest pf) c b n (new_evaluator (rt_snapshot rt) (Some i))")
      (auto simp: daily_observation_def Let_def ebind_assoc split_beta)
qed

lemma pure_relabel: "pure_log (\<lambda>obs. ebind (daily_observation pf rt n c b i obs) (\<lambda>(ob, obs').
    Inr (relabel pf v c ob, obs' @ [relabel pf v c ob])))"
  by (intro pure_log_bind pure_daily_observation pure_log_append)

lemma pure_event_relative: "pure_log (event_relative_value pf rt c b v e n off)"
proof (cases "dget (rt_event_cutoffs rt) e")
  case None
  then show ?thesis
    by (intro pure_log_ext [OF event_relative_value_def]) (simp add: pure_log_lift pure_log_return)
next
  case (Some anchor)
  then show ?thesis
    using pure_relabel by (intro pure_log_ext [OF event_relative_value_def]) (simp add: Let_def)
qed

lemma pure_clocked: "pure_log (clocked_value pf rt c b v n k)"
proof -
  have "pure_log (\<lambda>obs. case boundary of
      None \<Rightarrow> record_value pf rt v c None (Some ''completed_clock_observation_unavailable'') obs
    | Some i \<Rightarrow> ebind (daily_observation pf rt n c b i obs) (\<lambda>(ob, obs'). Inr (relabel pf v c ob, obs' @ [relabel pf v c ob])))"
    for boundary
    using pure_relabel pure_record_value by (cases boundary) auto
  then show ?thesis
    unfolding clocked_value_def Let_def by (intro pure_log_lift)
qed

lemma pure_record_optional: "pure_log (record_optional pf rt v c reason x)"
  unfolding record_optional_def by (rule pure_record_value)

lemmas eval_rules =
  eval_value.simps [THEN pure_log_ext] eval_condition.simps [THEN pure_log_ext]
  pure_daily_observation pure_event_relative pure_clocked pure_record_value pure_record_optional pure_record_members

fun term_value :: "score_term \<Rightarrow> value_expr" where
  "term_value (Score_term _ v _) = v"

fun point_condition :: "point_term \<Rightarrow> condition" where
  "point_condition (Point_term _ k _ _ _) = k"

lemma term_cases:
  "(case t of Score_term j v w \<Rightarrow> f v) = f (term_value t)"
  "(case q of Point_term j k x y z \<Rightarrow> g k) = g (point_condition q)"
  by (cases t; cases q; simp)+

lemma eval_pure_log:
  "pure_log (eval_value pf rt ms b c v)"
  "pure_log (eval_value pf rt ms b c (term_value t))"
  "pure_log (eval_condition pf rt ms b c (point_condition q))"
  "pure_log (eval_condition pf rt ms b c k)"
proof (induction v and t and q and k arbitrary: c and c and c and c)
  case (V_cross_sectional i s u t d n)
  then show ?case
    by (cases c) (auto simp: Let_def intro!: eval_rules pure_log_intros)
next
  case (V_cross_aggregate i s u r cov)
  then show ?case
    by (auto simp: Let_def intro!: eval_rules pure_log_intros)
next
  case (V_score i terms points mp nrm lo hi)
  then show ?case
    by (auto simp: term_cases intro!: eval_rules pure_log_intros)
qed (auto intro!: eval_rules pure_log_intros)

text \<open>The value of a Value and the truth of a Condition, whatever has been observed before.\<close>

definition reading_of :: "platform \<Rightarrow> runtime \<Rightarrow> string list \<Rightarrow> string option \<Rightarrow> string option \<Rightarrow> value_expr \<Rightarrow> observation res" where
  "reading_of pf rt ms b c v = map_sum id fst (eval_value pf rt ms b c v [])"

definition truth_of :: "platform \<Rightarrow> runtime \<Rightarrow> string list \<Rightarrow> string option \<Rightarrow> string option \<Rightarrow> condition \<Rightarrow> truth res" where
  "truth_of pf rt ms b c k = map_sum id fst (eval_condition pf rt ms b c k [])"

lemma eval_reading: "map_sum id fst (eval_value pf rt ms b c v obs) = reading_of pf rt ms b c v"
  using pure_logD [OF eval_pure_log(1), of pf rt ms b c v obs]
  by (cases "eval_value pf rt ms b c v []") (auto simp: reading_of_def)

lemma eval_truth: "map_sum id fst (eval_condition pf rt ms b c k obs) = truth_of pf rt ms b c k"
  using pure_logD [OF eval_pure_log(4), of pf rt ms b c k obs]
  by (cases "eval_condition pf rt ms b c k []") (auto simp: truth_of_def)

subsection \<open>What reading depends on\<close>

definition same_inputs :: "runtime \<Rightarrow> runtime \<Rightarrow> bool" where
  "same_inputs rt rt' \<longleftrightarrow>
     rt_program rt' = rt_program rt \<and> rt_snapshot rt' = rt_snapshot rt \<and> rt_cutoff rt' = rt_cutoff rt \<and>
     rt_state rt' = rt_state rt \<and> rt_event_cutoffs rt' = rt_event_cutoffs rt \<and>
     rt_state_entered_cutoffs rt' = rt_state_entered_cutoffs rt \<and> rt_remembered_values rt' = rt_remembered_values rt"

lemma same_inputs_refl [simp]: "same_inputs rt rt"
  by (simp add: same_inputs_def)

lemma same_inputs_trans: "same_inputs a b \<Longrightarrow> same_inputs b c \<Longrightarrow> same_inputs a c"
  by (simp add: same_inputs_def)

lemma same_inputs_observations [simp]: "same_inputs rt (rt\<lparr>rt_observations := z\<rparr>)"
  by (simp add: same_inputs_def)

lemma clock_inputs:
  assumes "same_inputs rt rt'"
  shows "date_at rt' i = date_at rt i" "observed_at rt' = observed_at rt"
    "following_date rt' i d = following_date rt i d" "clock_due_at rt' c i a = clock_due_at rt c i a"
    "last_completed_clock_cutoff rt' c = last_completed_clock_cutoff rt c" "clock_due rt' q = clock_due rt q"
    "universe_members rt' u = universe_members rt u"
proof -
  have d: "date_at rt' = date_at rt" using assms by (intro ext) (simp add: date_at_def same_inputs_def cong: if_cong)
  have f: "following_date rt' = following_date rt"
    using assms d by (intro ext) (simp add: following_date_def same_inputs_def cong: if_cong)
  have c: "clock_due_at rt' = clock_due_at rt"
    using assms d f by (intro ext) (simp add: clock_due_at_def same_inputs_def cong: if_cong)
  show "date_at rt' i = date_at rt i" "following_date rt' i d = following_date rt i d"
    "clock_due_at rt' c i a = clock_due_at rt c i a" by (simp_all add: d f c)
  show "observed_at rt' = observed_at rt" "universe_members rt' u = universe_members rt u"
    "last_completed_clock_cutoff rt' c = last_completed_clock_cutoff rt c" "clock_due rt' q = clock_due rt q"
    using assms d c by (simp_all add: observed_at_def universe_members_def last_completed_clock_cutoff_def
        clock_due_def same_inputs_def cong: option.case_cong if_cong)
qed

lemma leaf_inputs:
  assumes "same_inputs rt rt'"
  shows "record_value pf rt' v c x r obs = record_value pf rt v c x r obs"
    "record_optional pf rt' v c s x obs = record_optional pf rt v c s x obs"
    "record_members pf rt' v c a b e out obs = record_members pf rt v c a b e out obs"
    "daily_observation pf rt' n c d i obs = daily_observation pf rt n c d i obs"
    "event_relative_value pf rt' c d v w n off obs = event_relative_value pf rt c d v w n off obs"
    "clocked_value pf rt' c d v n k obs = clocked_value pf rt c d v n k obs"
    "bars_since rt' j = bars_since rt j" "time_since rt' j = time_since rt j"
    "state_truth rt' key y = state_truth rt key y" "event_window_truth rt' w z m = event_window_truth rt w z m"
proof -
  note [simp] = clock_inputs [OF assms]
  have i: "rt_snapshot rt' = rt_snapshot rt" "rt_cutoff rt' = rt_cutoff rt" "rt_event_cutoffs rt' = rt_event_cutoffs rt"
    "rt_state rt' = rt_state rt"
    using assms by (simp_all add: same_inputs_def cong: if_cong)
  have r: "record_value pf rt' = record_value pf rt" by (intro ext) (simp add: record_value_def)
  have d: "daily_observation pf rt' = daily_observation pf rt" by (intro ext) (simp add: daily_observation_def i cong: if_cong)
  show "record_value pf rt' v c x r obs = record_value pf rt v c x r obs"
    "record_optional pf rt' v c s x obs = record_optional pf rt v c s x obs"
    "record_members pf rt' v c a b e out obs = record_members pf rt v c a b e out obs"
    "daily_observation pf rt' n c d i obs = daily_observation pf rt n c d i obs"
    "event_relative_value pf rt' c d v w n off obs = event_relative_value pf rt c d v w n off obs"
    "clocked_value pf rt' c d v n k obs = clocked_value pf rt c d v n k obs"
    "bars_since rt' j = bars_since rt j" "time_since rt' j = time_since rt j"
    "state_truth rt' key y = state_truth rt key y" "event_window_truth rt' w z m = event_window_truth rt w z m"
    by (simp_all add: r d i record_optional_def record_members_def event_relative_value_def clocked_value_def bars_since_def
        time_since_def state_truth_def event_window_truth_def cong: option.case_cong if_cong)
qed

lemma state_inputs:
  "same_inputs rt rt' \<Longrightarrow> rt_cutoff rt' = rt_cutoff rt"
  "same_inputs rt rt' \<Longrightarrow> rt_event_cutoffs rt' = rt_event_cutoffs rt"
  "same_inputs rt rt' \<Longrightarrow> rt_state_entered_cutoffs rt' = rt_state_entered_cutoffs rt"
  "same_inputs rt rt' \<Longrightarrow> rt_remembered_values rt' = rt_remembered_values rt"
  by (simp_all add: same_inputs_def)

lemma eval_inputs:
  "same_inputs rt rt' \<Longrightarrow> eval_value pf rt' ms b c v obs = eval_value pf rt ms b c v obs"
  "same_inputs rt rt' \<Longrightarrow> eval_condition pf rt' ms b c k obs = eval_condition pf rt ms b c k obs"
proof (induction pf rt ms b c v obs and pf rt ms b c k obs rule: eval_value_eval_condition.induct)
  case (9 pf rt ms b c i s u t d n obs)
  then have "emap_st (\<lambda>m. eval_value pf rt' ms b (Some m) s) ms obs = emap_st (\<lambda>m. eval_value pf rt ms b (Some m) s) ms obs"
    if "c = Some m'" for m'
    using that by (intro emap_st_cong) auto
  then show ?case using leaf_inputs [OF 9(2)] by (cases c) simp_all
next
  case (10 pf rt ms b c i s u r cov obs)
  then have "emap_st (\<lambda>m. eval_value pf rt' ms b (Some m) s) ms obs = emap_st (\<lambda>m. eval_value pf rt ms b (Some m) s) ms obs"
    by (intro emap_st_cong) auto
  then show ?case using leaf_inputs [OF 10(2)] by simp
next
  case (11 pf rt ms b c i terms points mp nrm lo hi obs)
  have t: "emap_st (case_score_term (\<lambda>j v w. eval_value pf rt' ms b c v)) terms obs =
      emap_st (case_score_term (\<lambda>j v w. eval_value pf rt ms b c v)) terms obs"
    using 11 by (intro emap_st_cong) (auto split: score_term.splits)
  have p: "emap_st (case_point_term (\<lambda>j k x y z. eval_condition pf rt' ms b c k)) points obs1 =
      emap_st (case_point_term (\<lambda>j k x y z. eval_condition pf rt ms b c k)) points obs1"
    if "emap_st (case_score_term (\<lambda>j v w. eval_value pf rt ms b c v)) terms obs = Inr (items, obs1)" for items obs1
    using 11(2) [OF that refl] 11(3) by (intro emap_st_cong) (auto split: point_term.splits)
  show ?case
    using p leaf_inputs [OF 11(3)] by (auto simp: t intro!: ebind_cong split: prod.splits)
next
  case (19 pf rt ms b c i n children obs)
  then have "emap_st (eval_condition pf rt' ms b c) children obs = emap_st (eval_condition pf rt ms b c) children obs"
    by (intro emap_st_cong) auto
  then show ?case by simp
next
  case (20 pf rt ms b c g i children obs)
  then have "emap_st (eval_condition pf rt' ms b c) children obs = emap_st (eval_condition pf rt ms b c) children obs"
    by (intro emap_st_cong) auto
  then show ?case by simp
next
  case (15 pf rt ms b c i f l r obs)
  then show ?case by (auto intro!: ebind_cong split: prod.splits)
qed (simp_all add: leaf_inputs state_inputs clock_inputs(2))

lemma truth_inputs: "same_inputs rt rt' \<Longrightarrow> truth_of pf rt' ms b c k = truth_of pf rt ms b c k"
  by (simp add: truth_of_def eval_inputs)

lemma reading_inputs: "same_inputs rt rt' \<Longrightarrow> reading_of pf rt' ms b c v = reading_of pf rt ms b c v"
  by (simp add: reading_of_def eval_inputs)

subsection \<open>Reading from a statement\<close>

definition only_observed :: "runtime \<Rightarrow> runtime \<Rightarrow> bool" where
  "only_observed rt rt' \<longleftrightarrow> (\<exists>z. rt' = rt\<lparr>rt_observations := z\<rparr>)"

lemma only_observed_refl [simp]: "only_observed rt rt"
  by (auto simp: only_observed_def intro: exI [of _ "rt_observations rt"])

lemma only_observed_trans: "only_observed a b \<Longrightarrow> only_observed b c \<Longrightarrow> only_observed a c"
  by (auto simp: only_observed_def)

lemma only_observed_inputs: "only_observed rt rt' \<Longrightarrow> same_inputs rt rt'"
  by (auto simp: only_observed_def)

lemma run_condition_truth:
  "run_condition pf ms b c k rt = Inr (t, rt') \<Longrightarrow> truth_of pf rt ms b c k = Inr t \<and> only_observed rt rt'"
  using eval_truth [of pf rt ms b c k "rt_observations rt"]
  by (auto simp: run_condition_def only_observed_def elim!: ebind_InrE)

lemma run_value_reading:
  "run_value pf ms b c v rt = Inr (ob, rt') \<Longrightarrow> reading_of pf rt ms b c v = Inr ob \<and> only_observed rt rt'"
  using eval_reading [of pf rt ms b c v "rt_observations rt"]
  by (auto simp: run_value_def only_observed_def elim!: ebind_InrE)

text \<open>The score of one member, and the scores of a universe.\<close>

definition score_of :: "platform \<Rightarrow> selection \<Rightarrow> string list \<Rightarrow> runtime \<Rightarrow> string \<Rightarrow> decimal option res" where
  "score_of pf s ms rt m =
     ebind (case sl_eligibility s of None \<Rightarrow> Inr T_true | Some k \<Rightarrow> truth_of pf rt ms (Some (sl_binding_id s)) (Some m) k) (\<lambda>t.
       if t \<noteq> T_true then Inr None
       else ebind (reading_of pf rt ms (Some (sl_binding_id s)) (Some m) (sl_ranking s)) (\<lambda>ob. Inr (po_value ob)))"

lemma member_score_of:
  assumes "member_score pf s ms m rt = Inr (x, rt')"
  shows "score_of pf s ms rt m = Inr x \<and> only_observed rt rt'"
proof -
  obtain t rt1 where e: "(case sl_eligibility s of None \<Rightarrow> Inr (T_true, rt)
      | Some k \<Rightarrow> run_condition pf ms (Some (sl_binding_id s)) (Some m) k rt) = Inr (t, rt1)"
    and r: "(if t \<noteq> T_true then Inr (None, rt1)
      else ebind (run_value pf ms (Some (sl_binding_id s)) (Some m) (sl_ranking s) rt1) (\<lambda>(ob, rt2). Inr (po_value ob, rt2)))
      = Inr (x, rt')"
    using assms by (auto simp: member_score_def elim!: ebind_InrE)
  have t: "(case sl_eligibility s of None \<Rightarrow> Inr T_true
      | Some k \<Rightarrow> truth_of pf rt ms (Some (sl_binding_id s)) (Some m) k) = Inr t" and o1: "only_observed rt rt1"
    using e run_condition_truth by (auto split: option.splits)
  show ?thesis
    using r t o1 reading_inputs [OF only_observed_inputs [OF o1]]
    by (fastforce simp: score_of_def split: if_splits elim!: ebind_InrE intro: only_observed_trans dest!: run_value_reading)
qed

lemma member_scores_of:
  assumes "emap_st (member_score pf s ms) xs rt = Inr (scores, rt')"
  shows "emap (score_of pf s ms rt) xs = Inr scores \<and> only_observed rt rt'"
  using assms
proof (induction xs arbitrary: rt scores)
  case (Cons m xs)
  then obtain x rt1 ys where m: "member_score pf s ms m rt = Inr (x, rt1)"
    and r: "emap_st (member_score pf s ms) xs rt1 = Inr (ys, rt')" and ys: "scores = x # ys"
    by (auto elim!: ebind_InrE)
  have "only_observed rt rt1" and x: "score_of pf s ms rt m = Inr x"
    using member_score_of [OF m] by auto
  moreover have "score_of pf s ms rt1 = score_of pf s ms rt"
    using only_observed_inputs [OF calculation(1)]
    by (intro ext) (simp add: score_of_def truth_inputs reading_inputs cong: option.case_cong if_cong)
  ultimately show ?case
    using Cons.IH [OF r] ys by (auto intro: only_observed_trans)
qed simp

text \<open>The override chosen is the first whose Condition is true at the runtime it starts from.\<close>

lemma first_override_spec:
  "first_override pf rs rt = Inr (chosen, rt') \<Longrightarrow>
    only_observed rt rt' \<and>
    (case chosen of
       None \<Rightarrow> \<forall>r \<in> set rs. \<exists>t. truth_of pf rt [] None None (ov_when r) = Inr t \<and> t \<noteq> T_true
     | Some r \<Rightarrow> \<exists>before after. rs = before @ r # after \<and> truth_of pf rt [] None None (ov_when r) = Inr T_true \<and>
         (\<forall>q \<in> set before. \<exists>t. truth_of pf rt [] None None (ov_when q) = Inr t \<and> t \<noteq> T_true))"
proof (induction rs arbitrary: rt)
  case (Cons r rs)
  then obtain t rt1 where c: "run_condition pf [] None None (ov_when r) rt = Inr (t, rt1)"
    and rest: "(if t = T_true then Inr (Some r, rt1) else first_override pf rs rt1) = Inr (chosen, rt')"
    by (auto elim!: ebind_InrE)
  have t: "truth_of pf rt [] None None (ov_when r) = Inr t" and o1: "only_observed rt rt1"
    using run_condition_truth [OF c] by auto
  show ?case
  proof (cases "t = T_true")
    case True
    then have "chosen = Some r" "rt' = rt1" using rest by auto
    moreover have "r # rs = [] @ r # rs" by simp
    ultimately show ?thesis using t o1 True by fastforce
  next
    case False
    note IH = Cons.IH [of rt1] rest
    have same: "truth_of pf rt1 [] None None k = truth_of pf rt [] None None k" for k
      by (rule truth_inputs [OF only_observed_inputs [OF o1]])
    show ?thesis
    proof (cases chosen)
      case None
      then show ?thesis using IH False t o1 by (auto simp: same intro: only_observed_trans)
    next
      case (Some q)
      then obtain before after where s: "rs = before @ q # after" "truth_of pf rt [] None None (ov_when q) = Inr T_true"
        "\<forall>x \<in> set before. \<exists>t. truth_of pf rt [] None None (ov_when x) = Inr t \<and> t \<noteq> T_true" "only_observed rt1 rt'"
        using IH False by (auto simp: same)
      have "r # rs = (r # before) @ q # after" "\<forall>x \<in> set (r # before). \<exists>t. truth_of pf rt [] None None (ov_when x) = Inr t \<and> t \<noteq> T_true"
        using s t False by auto
      moreover have "only_observed rt rt'" by (rule only_observed_trans [OF o1 s(4)])
      ultimately show ?thesis unfolding Some option.case using s(2) by blast
    qed
  qed
qed simp

end
