(* ===== verification/Selection_Ranking.thy ===== *)
theory Selection_Ranking
  imports Program_Reading "HOL-Library.Multiset"
begin

text \<open>
  Ranking: two stable sorts are one sort by value and then by member, so that the members a
  Selection takes are the best of those that have a score, whatever the order of the universe.
\<close>

definition better :: "sort_direction \<Rightarrow> decimal \<times> string \<Rightarrow> decimal \<times> string \<Rightarrow> bool" where
  "better dir p q \<longleftrightarrow>
     (case dir of Ascending \<Rightarrow> fst p < fst q | Descending \<Rightarrow> fst q < fst p) \<or> (fst p = fst q \<and> snd p \<le> snd q)"

lemma insort_key_lexicographic:
  assumes "sorted_wrt (\<lambda>a b. f a < f b \<or> (f a = f b \<and> g a \<le> g b)) ys" and "\<forall>y \<in> set ys. g x \<le> g y"
  shows "sorted_wrt (\<lambda>a b. f a < f b \<or> (f a = f b \<and> g a \<le> g b)) (insort_key f x ys)"
  using assms by (induction ys) (auto simp: set_insort_key)

lemma sort_key_lexicographic:
  fixes f :: "'a \<Rightarrow> 'b::linorder" and g :: "'a \<Rightarrow> 'c::linorder"
  assumes "sorted (map g xs)"
  shows "sorted_wrt (\<lambda>a b. f a < f b \<or> (f a = f b \<and> g a \<le> g b)) (sort_key f xs)"
  using assms by (induction xs) (auto simp: sort_key_simps intro!: insort_key_lexicographic)

lemma rank_pairs_sorted: "sorted_wrt (better dir) (rank_pairs dir ps)"
proof -
  have s: "sorted (map snd (sort_key snd ps))" by simp
  show ?thesis
    using sort_key_lexicographic [OF s, of fst] sort_key_lexicographic [OF s, of "\<lambda>p. - fst p"]
    by (cases dir) (auto simp: rank_pairs_def better_def elim!: sorted_wrt_mono_rel [rotated])
qed

lemma mset_rank_pairs [simp]: "mset (rank_pairs dir ps) = mset ps"
  by (simp add: rank_pairs_def)

lemma set_rank_pairs [simp]: "set (rank_pairs dir ps) = set ps"
  using mset_rank_pairs by (metis set_mset_mset)

lemma length_rank_pairs [simp]: "length (rank_pairs dir ps) = length ps"
  using mset_rank_pairs by (metis size_mset)

lemma distinct_rank_pairs: "distinct (map snd (rank_pairs dir ps)) \<longleftrightarrow> distinct (map snd ps)"
  by (metis mset_map mset_rank_pairs mset_eq_imp_distinct_iff)

text \<open>The specification of a choice of \<open>k\<close> members out of scored ones.\<close>

definition chosen_best :: "sort_direction \<Rightarrow> nat \<Rightarrow> (decimal \<times> string) list \<Rightarrow> string list \<Rightarrow> bool" where
  "chosen_best dir k ps chosen \<longleftrightarrow>
     length chosen = min k (length ps) \<and> distinct chosen \<and> set chosen \<subseteq> snd ` set ps \<and>
     (\<forall>p \<in> set ps. \<forall>q \<in> set ps. snd p \<in> set chosen \<longrightarrow> snd q \<notin> set chosen \<longrightarrow> better dir p q)"

lemma take_ranked_best:
  assumes "distinct (map snd ps)"
  shows "chosen_best dir k ps (take k (map snd (rank_pairs dir ps)))"
proof -
  let ?rs = "rank_pairs dir ps"
  have d: "distinct (map snd ?rs)" using assms by (simp add: distinct_rank_pairs)
  have split: "set ?rs = set (take k ?rs) \<union> set (drop k ?rs)"
    by (metis append_take_drop_id set_append)
  have b: "better dir p q" if "p \<in> set (take k ?rs)" "q \<in> set (drop k ?rs)" for p q
    using rank_pairs_sorted [of dir ps] that by (metis append_take_drop_id sorted_wrt_append)
  have "better dir p q"
    if p: "p \<in> set ps" "snd p \<in> set (take k (map snd ?rs))" and q: "q \<in> set ps" "snd q \<notin> set (take k (map snd ?rs))" for p q
  proof (rule b)
    show "p \<in> set (take k ?rs)"
    proof -
      from p(2) obtain p' where "p' \<in> set (take k ?rs)" "snd p' = snd p" by (auto simp: take_map)
      moreover have "p' \<in> set ?rs" "p \<in> set ?rs" using calculation(1) p(1) by (auto dest: in_set_takeD)
      ultimately show ?thesis using d by (metis distinct_map inj_on_eq_iff)
    qed
    show "q \<in> set (drop k ?rs)"
      using q split by (auto simp: take_map)
  qed
  then show ?thesis
    using d by (auto simp: chosen_best_def min.commute dest!: in_set_takeD)
qed

lemma scored_pairs_Cons:
  "scored_pairs (m # ms) (x # scores) = (case x of None \<Rightarrow> scored_pairs ms scores | Some v \<Rightarrow> (v, m) # scored_pairs ms scores)"
  by (simp add: scored_pairs_def map_filter_simps split: option.splits)

lemma scored_pairs_Nil [simp]: "scored_pairs [] scores = []" "scored_pairs ms [] = []"
  by (simp_all add: scored_pairs_def map_filter_simps)

lemma scored_pairs_set: "set (scored_pairs ms scores) = {(x, m). (m, Some x) \<in> set (zip ms scores)}"
proof (induction ms arbitrary: scores)
  case (Cons m ms)
  then show ?case by (cases scores) (auto simp: scored_pairs_Cons split: option.splits)
qed simp

lemma snd_scored_pairs: "set (map snd (scored_pairs ms scores)) \<subseteq> set ms"
  by (auto simp: scored_pairs_set dest: set_zip_leftD)

lemma distinct_scored_pairs: "distinct ms \<Longrightarrow> distinct (map snd (scored_pairs ms scores))"
proof (induction ms arbitrary: scores)
  case (Cons m ms)
  then show ?case
    using snd_scored_pairs [of ms "tl scores"]
    by (cases scores) (auto simp: scored_pairs_Cons split: option.splits)
qed simp

end
