(* ===== verification/Program_Properties.thy ===== *)
theory Program_Properties
  imports Sample_Runs Selection_Ranking
begin

text \<open>
  What the execution of a Program guarantees: the checkpoint it leaves, a replay session by
  session, what a validated Program can refer to, and what one run may change.
\<close>

lemmas sample_evaluation =
  program_sample_simps

text \<open>C13: The checkpoint an execution leaves behind is accepted by every execution of the same Program at the same or a later cutoff, so no guard on Events, memories, state keys, counts or truths can refuse a continuation.\<close>

theorem execution_leaves_accepted_checkpoint:
  assumes "execute_program dump hash pf p sn (Some i) revision cp = Inr r" and "i \<le> later"
  shows "check_checkpoint p later (checkpoint_after (Some r)) = Inr ()"
  using assms(1)
proof (cases rule: execute_InrE)
  case (1 cutoff rt date)
  then have "rt_cutoff rt = i" "checkpoint_shape (fst (checkpoint_addresses p)) (snd (checkpoint_addresses p))
    (dkeys (pg_initial_state p)) rt"
    using session_shape by auto
  then show ?thesis
    using accepted_of_shape assms(2) 1(7) by (simp add: check_checkpoint_iff)
qed

theorem execution_leaves_accepted_checkpoint_witness:
  "\<exists>r. execute_program sample_dump sample_hash sample_platform sample_program sample_snapshot (Some 1) None sample_checkpoint = Inr r
     \<and> check_checkpoint sample_program 2 (checkpoint_after (Some r)) = Inr ()"
proof -
  have "\<not> isl (execute_program sample_dump sample_hash sample_platform sample_program sample_snapshot (Some 1) None sample_checkpoint)"
    by (simp add: sample_runs)
  then obtain r where r: "execute_program sample_dump sample_hash sample_platform sample_program sample_snapshot (Some 1) None sample_checkpoint = Inr r"
    by (cases "execute_program sample_dump sample_hash sample_platform sample_program sample_snapshot (Some 1) None sample_checkpoint") auto
  show ?thesis
    using r execution_leaves_accepted_checkpoint [OF r, of 2] by auto
qed

text \<open>C5: Replaying a validated Program over its first n sessions, each from the checkpoint of the one before, is exactly running its statements session after session from the carried runtime: the guards never intervene, the result is that of the last session, and an error is one the statements raised.\<close>

theorem replay_runs_the_sessions:
  assumes "validate_program dump hash p = Inr []" and "0 < n" and "n \<le> length (sn_dates sn)"
  shows "replay_program dump hash pf p sn (Some (int n - 1)) =
    ebind (run_sessions pf p sn n) (\<lambda>final. Inr (result_of None p sn (sn_dates sn ! (n - 1)) (the final)))"
proof -
  have "\<exists>rt. prior = Some rt" if "run_sessions pf p sn n = Inr prior" for prior
    using sessions_accepted [OF assms(1) that] assms(2) by auto
  then show ?thesis
    using replay_loop [OF assms(1,3)]
    by (cases "run_sessions pf p sn n") (auto simp: replay_program_def)
qed

theorem replay_runs_the_sessions_witness:
  "replay_program sample_dump sample_hash sample_platform sample_program sample_snapshot (Some 2) =
    ebind (run_sessions sample_platform sample_program sample_snapshot 3) (\<lambda>final.
      Inr (result_of None sample_program sample_snapshot ''2024-01-05'' (the final)))"
  using replay_runs_the_sessions [of sample_dump sample_hash sample_program 3 sample_snapshot sample_platform]
proof -
  have "validate_program sample_dump sample_hash sample_program = Inr []" by (simp add: sample_runs)
  then show ?thesis
    using replay_runs_the_sessions [of sample_dump sample_hash sample_program 3 sample_snapshot sample_platform]
    by (simp add: sample_snapshot_def eval_nat_numeral)
qed



subsection \<open>What a run may change\<close>

lemma run_is_append_only_step:
  assumes "run_statements pf sts rt = Inr rt'"
  shows "same_run rt rt' \<and> appends rt rt' \<and> history_grows rt rt'"
proof -
  let ?all = "\<lambda>f. concat (map f sts)"
  have "addresses_within (?all event_addresses) (?all memory_addresses) (?all transition_keys) st" if "st \<in> set sts" for st
    using that by (auto simp: addresses_within_def)
  from run_statements_step [OF assms this] show ?thesis by (simp add: step_ok_def)
qed

text \<open>C33: Running any list of statements leaves the Program, the data, the cutoff and the prior truths as they were, only appends evidence and observations, never lowers an Event count, dates Events and state entries with the current cutoff only, and never forgets a memory.\<close>

theorem run_is_append_only:
  assumes "run_statements pf sts rt = Inr rt'"
  shows "same_run rt rt' \<and> appends rt rt' \<and> history_grows rt rt'"
  using assms by (rule run_is_append_only_step)

theorem run_is_append_only_witness:
  "\<exists>rt'. run_statements sample_platform (pg_statements sample_program) (sample_runtime 1) = Inr rt' \<and>
     appends (sample_runtime 1) rt'"
proof -
  have "\<not> isl (run_statements sample_platform (pg_statements sample_program) (sample_runtime 1))"
    by (simp add: sample_runs)
  then obtain rt' where r: "run_statements sample_platform (pg_statements sample_program) (sample_runtime 1) = Inr rt'"
    by (cases "run_statements sample_platform (pg_statements sample_program) (sample_runtime 1)") auto
  show ?thesis using r run_is_append_only [OF r] by auto
qed

text \<open>An Event counts its edges, and fires only on one.\<close>

lemma current_truth_counts: "current_truth pf e rt = Inr (t, rt') \<Longrightarrow> rt_event_counts rt' = rt_event_counts rt"
  by (auto simp: current_truth_def only_observed_def dest!: run_condition_truth split: if_splits elim!: ebind_InrE)

lemma fire_event_counts:
  assumes "fire_event pf i e rt = Inr (fires, rt')"
  shows "fires \<longrightarrow> dget_or (rt_event_counts rt') (ed_semantic_id e) 0 = dget_or (rt_event_counts rt) (ed_semantic_id e) 0 + 1"
    and "fires \<longrightarrow> occurrence_admits e (dget_or (rt_event_counts rt) (ed_semantic_id e) 0 + 1)"
proof -
  obtain current rt1 previous where c: "current_truth pf e rt = Inr (current, rt1)"
    and p: "previous_truth pf e rt1 = Inr previous"
    using assms by (auto simp: fire_event_def Let_def elim!: ebind_InrE)
  note n = current_truth_counts [OF c]
  show "fires \<longrightarrow> dget_or (rt_event_counts rt') (ed_semantic_id e) 0 = dget_or (rt_event_counts rt) (ed_semantic_id e) 0 + 1"
    "fires \<longrightarrow> occurrence_admits e (dget_or (rt_event_counts rt) (ed_semantic_id e) 0 + 1)"
    using assms by (auto simp: fire_event_def Let_def c p n add_evidence_def)
qed

text \<open>C28: An Event that asks for its first occurrence fires at most once in a chain of runs that carry its count: after it has fired, whatever statements run and however later runs begin, it does not fire again.\<close>

theorem first_event_fires_once:
  assumes "ed_occurrence e = Occ_first"
    and "fire_event pf i e rt1 = Inr (True, rt2)" and "0 \<le> dget_or (rt_event_counts rt1) (ed_semantic_id e) 0"
    and "run_statements pf sts rt2 = Inr rt3"
    and "rt_event_counts rt4 = rt_event_counts rt3"
    and "fire_event pf j e rt4 = Inr (fires, rt5)"
  shows "\<not> fires"
proof
  assume fires
  have "1 \<le> dget_or (rt_event_counts rt2) (ed_semantic_id e) 0"
    using fire_event_counts(1) [OF assms(2)] assms(3) by simp
  also have "\<dots> \<le> dget_or (rt_event_counts rt4) (ed_semantic_id e) 0"
    using run_is_append_only_step [OF assms(4)] assms(5) by (simp add: history_grows_def)
  finally show False
    using fire_event_counts(2) [OF assms(6)] \<open>fires\<close> assms(1) by (simp add: occurrence_admits_def)
qed

theorem first_event_fires_once_witness:
  "\<exists>rt2 fires rt5. fire_event sample_platform ''on'' first_breakout (sample_runtime 1) = Inr (True, rt2) \<and>
     fire_event sample_platform ''again'' first_breakout rt2 = Inr (fires, rt5) \<and> \<not> fires"
proof -
  let ?fire = "fire_event sample_platform ''on'' first_breakout (sample_runtime 1)"
  have "map_sum id fst ?fire = Inr True" by (simp add: sample_runs)
  then obtain rt2 where one: "?fire = Inr (True, rt2)" by (cases ?fire) auto
  have "\<not> isl (ebind ?fire (\<lambda>(_, rt2). fire_event sample_platform ''again'' first_breakout rt2))" by (simp add: sample_runs)
  then obtain fires rt5 where two: "fire_event sample_platform ''again'' first_breakout rt2 = Inr (fires, rt5)"
    using one by (cases "fire_event sample_platform ''again'' first_breakout rt2") auto
  have "run_statements sample_platform [] rt2 = Inr rt2" by (simp add: run_statements_def)
  moreover have "0 \<le> dget_or (rt_event_counts (sample_runtime 1)) (ed_semantic_id first_breakout) 0" by (simp add: sample_runs)
  ultimately have "\<not> fires"
    using first_event_fires_once [OF _ one _ _ refl two] by (simp add: first_breakout_def)
  then show ?thesis using one two by blast
qed

subsection \<open>Reading\<close>

text \<open>What a Value evaluates to and what a Condition is true of do not depend on what has been observed before: evaluation appends the observations it would make on its own.\<close>

theorem evaluation_is_independent_of_observations:
  "eval_value pf rt ms b c v obs = map_sum id (\<lambda>(ob, z). (ob, obs @ z)) (eval_value pf rt ms b c v []) \<and>
   eval_condition pf rt ms b c k obs = map_sum id (\<lambda>(t, z). (t, obs @ z)) (eval_condition pf rt ms b c k [])"
  using pure_logD [OF eval_pure_log(1), of pf rt ms b c v obs] pure_logD [OF eval_pure_log(4), of pf rt ms b c k obs]
  by (cases "eval_value pf rt ms b c v []"; cases "eval_condition pf rt ms b c k []") auto

text \<open>C27: A due Selection over distinct members scores every member once, at the runtime it starts from, and takes the best: as many as asked for, none beaten by a member left out, ties going to the smaller name; when too few members have a score and the full number is required, or none has one, it takes the fallback asset or nothing.\<close>

theorem selection_picks_the_best:
  assumes "run_selection pf st rt = Inr rt'" and "clock_due rt (ss_clock_id st) = Inr True"
    and "universe_members rt (sl_universe_id (ss_selection st)) = Inr ms" and "distinct ms"
  shows "\<exists>scores. emap (score_of pf (ss_selection st) ms rt) ms = Inr scores \<and>
    (let s = ss_selection st; ps = scored_pairs ms scores; chosen = dget_or (rt_selections rt') (ss_output_id st) [] in
     if ps \<noteq> [] \<and> (sl_count s \<le> int (length ps) \<or> sl_shortage_policy s = Choose_all)
     then chosen_best (sl_direction s) (nat (sl_count s)) ps chosen
     else chosen = (if truthy (sl_fallback_asset s) then [the (sl_fallback_asset s)] else []))"
proof -
  let ?s = "ss_selection st"
  obtain scores rt1 where e: "emap_st (member_score pf ?s ms) ms rt = Inr (scores, rt1)"
    using assms(1-3) by (auto simp: run_selection_def Let_def elim!: ebind_InrE)
  let ?ps = "scored_pairs ms scores"
  have chosen: "dget_or (rt_selections rt') (ss_output_id st) [] = fst (pick_members ?s (map snd (rank_pairs (sl_direction ?s) ?ps)))"
    using assms(1-3) e by (auto simp: run_selection_def Let_def add_evidence_def split: prod.splits)
  have empty: "rank_pairs (sl_direction ?s) ?ps = [] \<longleftrightarrow> ?ps = []"
    by (metis length_rank_pairs length_0_conv)
  have best: "chosen_best (sl_direction ?s) (nat (sl_count ?s)) ?ps (take (nat (sl_count ?s)) (map snd (rank_pairs (sl_direction ?s) ?ps)))"
    by (rule take_ranked_best [OF distinct_scored_pairs [OF assms(4)]])
  show ?thesis
    using member_scores_of [OF e] chosen best empty
    by (intro exI [of _ scores]) (auto simp: Let_def pick_members_def)
qed

theorem selection_picks_the_best_witness:
  "\<exists>rt' scores. run_selection sample_platform sample_selection (sample_runtime 2) = Inr rt' \<and>
     emap (score_of sample_platform (ss_selection sample_selection) [''A'', ''B''] (sample_runtime 2)) [''A'', ''B''] = Inr scores \<and>
     (scored_pairs [''A'', ''B''] scores \<noteq> [] \<longrightarrow>
       chosen_best Descending 1 (scored_pairs [''A'', ''B''] scores) (dget_or (rt_selections rt') ''picked'' []))"
proof -
  let ?run = "run_selection sample_platform sample_selection (sample_runtime 2)"
  have "\<not> isl ?run" by (simp add: sample_runs)
  then obtain rt' where r: "?run = Inr rt'" by (cases ?run) auto
  have d: "clock_due (sample_runtime 2) (ss_clock_id sample_selection) = Inr True" by (simp add: sample_runs)
  have u: "universe_members (sample_runtime 2) (sl_universe_id (ss_selection sample_selection)) = Inr [''A'', ''B'']" by (simp add: sample_runs)
  show ?thesis
    using selection_picks_the_best [OF r d u] r by (auto simp: sample_selection_def Let_def)
qed

text \<open>C34: A guarded Allocation that takes an override takes one of highest priority among those whose Condition is true, all judged at the runtime the search starts from; when it takes none, no override's Condition is true.\<close>

theorem override_is_highest_priority:
  assumes "first_override pf (by_priority rs) rt = Inr (chosen, rt')"
  shows "case chosen of
      None \<Rightarrow> \<forall>r \<in> set rs. truth_of pf rt [] None None (ov_when r) \<noteq> Inr T_true
    | Some r \<Rightarrow> r \<in> set rs \<and> truth_of pf rt [] None None (ov_when r) = Inr T_true \<and>
        (\<forall>q \<in> set rs. truth_of pf rt [] None None (ov_when q) = Inr T_true \<longrightarrow> ov_priority q \<le> ov_priority r)"
proof (cases chosen)
  case None
  then show ?thesis using first_override_spec [OF assms] by (fastforce simp: by_priority_def)
next
  case (Some r)
  then obtain before after where s: "by_priority rs = before @ r # after" "truth_of pf rt [] None None (ov_when r) = Inr T_true"
    "\<forall>q \<in> set before. \<exists>t. truth_of pf rt [] None None (ov_when q) = Inr t \<and> t \<noteq> T_true"
    using first_override_spec [OF assms] by auto
  have set_rs: "set (by_priority rs) = set rs" by (simp add: by_priority_def)
  have "sorted (map (\<lambda>r. - ov_priority r) (by_priority rs))" by (simp add: by_priority_def)
  then have "\<forall>q \<in> set after. ov_priority q \<le> ov_priority r" by (auto simp: s(1) sorted_append)
  moreover have "q \<in> set before \<or> q = r \<or> q \<in> set after" if "q \<in> set rs" for q
    using that s(1) set_rs by (metis UnE set_ConsD set_append)
  ultimately show ?thesis using Some s set_rs by force
qed

theorem override_is_highest_priority_witness:
  "\<exists>r rt'. first_override sample_platform (by_priority sample_overrides) (sample_runtime 1) = Inr (Some r, rt') \<and>
     ov_semantic_id r = ''middle'' \<and>
     (\<forall>q \<in> set sample_overrides. truth_of sample_platform (sample_runtime 1) [] None None (ov_when q) = Inr T_true \<longrightarrow>
        ov_priority q \<le> ov_priority r)"
proof -
  let ?first = "first_override sample_platform (by_priority sample_overrides) (sample_runtime 1)"
  have "map_sum id (\<lambda>(r, _). map_option ov_semantic_id r) ?first = Inr (Some ''middle'')" by (simp add: sample_runs)
  then obtain r rt' where r: "?first = Inr (Some r, rt')" "ov_semantic_id r = ''middle''" by (cases ?first) auto
  show ?thesis using override_is_highest_priority [OF r(1)] r by auto
qed

end
