(* ===== verification/Truth_Clock_Properties.thy ===== *)
theory Truth_Clock_Properties
  imports Program_Samples
begin

text \<open>
  Three-valued connectives as supervaluation, and the clocks: which session a completed week
  ended on, and what the ISO week computes.
\<close>

subsection \<open>Unknown truth\<close>

text \<open>The two-valued truths a list of three-valued ones may turn out to be.\<close>

definition refines :: "bool list \<Rightarrow> truth list \<Rightarrow> bool" where
  "refines bs vs \<longleftrightarrow> list_all2 (\<lambda>b v. v = T_unknown \<or> v = truth_of_bool b) bs vs"

lemma refines_Cons: "refines bs (v # vs) \<longleftrightarrow> (\<exists>b cs. bs = b # cs \<and> (v = T_unknown \<or> v = truth_of_bool b) \<and> refines cs vs)"
  by (auto simp: refines_def list_all2_Cons2)

lemma refines_Nil [simp]: "refines bs [] \<longleftrightarrow> bs = []"
  by (simp add: refines_def)

definition true_count :: "bool list \<Rightarrow> int" where
  "true_count bs = int (count_list bs True)"

definition lowest :: "truth list \<Rightarrow> bool list" where
  "lowest vs = map (\<lambda>v. v = T_true) vs"

definition highest :: "truth list \<Rightarrow> bool list" where
  "highest vs = map (\<lambda>v. v \<noteq> T_false) vs"

lemma refines_extremes: "refines (lowest vs) vs" "refines (highest vs) vs"
  by (induction vs) (auto simp: lowest_def highest_def refines_Cons truth_of_bool_def intro: truth.exhaust)

lemma true_count_extremes:
  "true_count (lowest vs) = int (count_list vs T_true)"
  "true_count (highest vs) = int (count_list vs T_true) + int (count_list vs T_unknown)"
  by (induction vs) (auto simp: true_count_def lowest_def highest_def intro: truth.exhaust)

lemma true_count_bounds:
  "refines bs vs \<Longrightarrow> int (count_list vs T_true) \<le> true_count bs \<and>
    true_count bs \<le> int (count_list vs T_true) + int (count_list vs T_unknown)"
proof (induction vs arbitrary: bs)
  case (Cons v vs)
  then show ?case
    by (cases v) (fastforce simp: refines_Cons true_count_def truth_of_bool_def split: if_splits)+
qed (simp add: true_count_def)

text \<open>A three-valued result is right when it is the two-valued one in every case, and unknown when the cases differ.\<close>

definition decides :: "truth \<Rightarrow> (bool list \<Rightarrow> bool) \<Rightarrow> truth list \<Rightarrow> bool" where
  "decides t f vs \<longleftrightarrow>
     (t = T_true \<longleftrightarrow> (\<forall>bs. refines bs vs \<longrightarrow> f bs)) \<and> (t = T_false \<longleftrightarrow> (\<forall>bs. refines bs vs \<longrightarrow> \<not> f bs))"

lemma n_of_m_decides: "decides (n_of_m k vs) (\<lambda>bs. k \<le> true_count bs) vs"
proof -
  let ?t = "int (count_list vs T_true)" and ?u = "int (count_list vs T_unknown)"
  have "(\<forall>bs. refines bs vs \<longrightarrow> k \<le> true_count bs) \<longleftrightarrow> k \<le> ?t"
    using true_count_bounds refines_extremes(1) true_count_extremes(1) by (metis order_trans)
  moreover have "(\<forall>bs. refines bs vs \<longrightarrow> \<not> k \<le> true_count bs) \<longleftrightarrow> ?t + ?u < k"
    using true_count_bounds refines_extremes(2) true_count_extremes(2) by (metis not_le order_trans)
  ultimately show ?thesis by (auto simp: decides_def n_of_m_def Let_def)
qed

lemma list_all_count: "list_all id bs \<longleftrightarrow> int (length bs) \<le> true_count bs"
proof (induction bs)
  case (Cons b bs)
  moreover have "true_count bs \<le> int (length bs)"
    by (simp add: true_count_def count_le_length)
  ultimately show ?case by (auto simp: true_count_def)
qed (simp add: true_count_def)

lemma list_ex_count: "list_ex id bs \<longleftrightarrow> 1 \<le> true_count bs"
proof (induction bs)
  case (Cons b bs)
  moreover have "0 \<le> true_count bs" by (simp add: true_count_def)
  ultimately show ?case by (auto simp: true_count_def)
qed (simp add: true_count_def)

lemma refines_length: "refines bs vs \<Longrightarrow> length bs = length vs"
  by (simp add: refines_def list_all2_lengthD)

lemma group_as_n_of_m:
  "all_of vs = n_of_m (int (length vs)) vs" "any_of vs = n_of_m 1 vs"
proof -
  have l: "length vs = count_list vs T_true + count_list vs T_unknown + count_list vs T_false"
    by (induction vs) (auto intro: truth.exhaust)
  have z: "count_list vs x = 0 \<longleftrightarrow> x \<notin> set vs" for x :: truth by (simp add: count_list_0_iff)
  have a: "(\<forall>v \<in> set vs. v = T_true) \<longleftrightarrow> T_unknown \<notin> set vs \<and> T_false \<notin> set vs"
    by (metis truth.distinct truth.exhaust)
  show "all_of vs = n_of_m (int (length vs)) vs" "any_of vs = n_of_m 1 vs"
    using l z [of T_true] z [of T_unknown] z [of T_false] a
    by (auto simp: all_of_def any_of_def n_of_m_def Let_def)
qed

text \<open>C24: The connectives over three-valued truths are exactly right: N-of-M, all-of and any-of answer true when every way the unknowns may turn out makes the two-valued connective true, false when every way makes it false, and unknown otherwise.\<close>

theorem connectives_are_supervaluations:
  "decides (n_of_m k vs) (\<lambda>bs. k \<le> true_count bs) vs \<and>
   decides (group_truth Group_all vs) (list_all id) vs \<and>
   decides (group_truth Group_any vs) (list_ex id) vs"
proof -
  have "decides (all_of vs) (list_all id) vs"
    using n_of_m_decides [of "int (length vs)" vs] refines_length
    unfolding group_as_n_of_m decides_def list_all_count by (metis (no_types, lifting))
  moreover have "decides (any_of vs) (list_ex id) vs"
    using n_of_m_decides [of 1 vs] unfolding group_as_n_of_m decides_def list_ex_count .
  ultimately show ?thesis using n_of_m_decides by (simp add: group_truth_def)
qed

subsection \<open>Clocks\<close>

lemma search_down_spec:
  "search_down f n = Inr r \<Longrightarrow>
    (case r of
       None \<Rightarrow> \<forall>j. 0 \<le> j \<longrightarrow> j < int n \<longrightarrow> f j = Inr False
     | Some i \<Rightarrow> 0 \<le> i \<and> i < int n \<and> f i = Inr True \<and> (\<forall>j. i < j \<longrightarrow> j < int n \<longrightarrow> f j = Inr False))"
proof (induction n)
  case (Suc n)
  then obtain b where b: "f (int n) = Inr b" and r: "(if b then Inr (Some (int n)) else search_down f n) = Inr r"
    by (auto elim!: ebind_InrE)
  have last: "j < int (Suc n) \<longleftrightarrow> j = int n \<or> j < int n" for j by auto
  show ?case
  proof (cases b)
    case True
    then show ?thesis using b r by auto
  next
    case False
    then have "search_down f n = Inr r" using r by simp
    with Suc.IH show ?thesis
      unfolding last using b False by (cases r) auto
  qed
qed simp

definition same_week :: "runtime \<Rightarrow> int \<Rightarrow> cal_date \<Rightarrow> bool" where
  "same_week rt j today \<longleftrightarrow> (\<exists>d. date_at rt j = Inr d \<and> week_number d = week_number today)"

lemma date_at_valid: "date_at rt i = Inr d \<Longrightarrow> valid_date d"
  by (auto simp: date_at_def elim!: ebind_InrE dest: parse_date_valid)

lemma other_week_test:
  assumes "date_at rt (rt_cutoff rt) = Inr today"
  shows "ebind (date_at rt i) (\<lambda>d. Inr (iso_week d \<noteq> iso_week today)) = Inr b \<longleftrightarrow>
    (\<exists>d. date_at rt i = Inr d \<and> b = (week_number d \<noteq> week_number today))"
  using iso_week_eq_iff date_at_valid [OF assms] date_at_valid by (fastforce simp: ebind_eq_Inr)

text \<open>For a weekly clock the last completed observation is the latest session before the cutoff that lies in an earlier or other calendar week, every session between it and the cutoff being in the cutoff's week; there is none only if all earlier sessions are in the cutoff's week.\<close>

theorem weekly_boundary_ends_the_previous_week:
  assumes "find_clock (rt_program rt) c = Inr k" and "pc_timeframe k = TF_weekly"
    and "\<not> terminal_due (rt_cutoff rt = int (length (sn_dates (rt_snapshot rt))) - 1) k"
    and "date_at rt (rt_cutoff rt) = Inr today"
    and "last_completed_clock_cutoff rt c = Inr r"
  shows "case r of
      None \<Rightarrow> \<forall>j. 0 \<le> j \<longrightarrow> j < rt_cutoff rt \<longrightarrow> same_week rt j today
    | Some i \<Rightarrow> 0 \<le> i \<and> i < rt_cutoff rt \<and> (\<exists>d. date_at rt i = Inr d \<and> week_number d \<noteq> week_number today) \<and>
        (\<forall>j. i < j \<longrightarrow> j < rt_cutoff rt \<longrightarrow> same_week rt j today)"
proof -
  have "search_down (\<lambda>i. ebind (date_at rt i) (\<lambda>d. Inr (iso_week d \<noteq> iso_week today))) (nat (rt_cutoff rt)) = Inr r"
    using assms by (simp add: last_completed_clock_cutoff_def)
  from search_down_spec [OF this] show ?thesis
    unfolding other_week_test [OF assms(4)] same_week_def by (cases r) (auto split: if_splits)
qed

text \<open>A session of each of two weeks, and a Friday and a Monday.\<close>

definition two_weeks :: snapshot where
  "two_weeks = sample_snapshot\<lparr>sn_dates := [''2024-01-04'', ''2024-01-05'', ''2024-01-08'', ''2024-01-09'']\<rparr>"

definition weekly_program :: program where
  "weekly_program = sample_program\<lparr>pg_clocks := [sample_clock\<lparr>pc_timeframe := TF_weekly\<rparr>]\<rparr>"

definition weekly_runtime :: runtime where
  "weekly_runtime = start_runtime weekly_program two_weeks 3 (checkpoint_after None)"

theorem weekly_boundary_ends_the_previous_week_witness:
  "last_completed_clock_cutoff weekly_runtime ''daily'' = Inr (Some 1) \<and>
   same_week weekly_runtime 2 \<lparr>cd_year = 2024, cd_month = 1, cd_day = 9\<rparr>"
proof -
  have k: "find_clock (rt_program weekly_runtime) ''daily'' = Inr (sample_clock\<lparr>pc_timeframe := TF_weekly\<rparr>)" by code_simp
  have n: "\<not> terminal_due (rt_cutoff weekly_runtime = int (length (sn_dates (rt_snapshot weekly_runtime))) - 1)
      (sample_clock\<lparr>pc_timeframe := TF_weekly\<rparr>)" by code_simp
  have d: "date_at weekly_runtime (rt_cutoff weekly_runtime) = Inr \<lparr>cd_year = 2024, cd_month = 1, cd_day = 9\<rparr>" by code_simp
  have l: "last_completed_clock_cutoff weekly_runtime ''daily'' = Inr (Some 1)" by code_simp
  have c: "rt_cutoff weekly_runtime = 3" by code_simp
  show ?thesis
    using weekly_boundary_ends_the_previous_week [OF k _ n d l] l by (simp add: c)
qed

text \<open>A clock's last completed observation is a session of the data that is not after the cutoff, for every timeframe, so a clocked Value never reads past it.\<close>

theorem completed_boundary_is_not_after_cutoff:
  assumes "last_completed_clock_cutoff rt c = Inr (Some i)" and "0 \<le> rt_cutoff rt"
  shows "0 \<le> i \<and> i \<le> rt_cutoff rt"
proof -
  obtain k where k: "find_clock (rt_program rt) c = Inr k"
    using assms(1) by (auto simp: last_completed_clock_cutoff_def elim!: ebind_InrE)
  show ?thesis
  proof (cases "pc_timeframe k = TF_weekly")
    case True
    then show ?thesis
      using assms k
      by (fastforce simp: last_completed_clock_cutoff_def split: if_splits elim!: ebind_InrE
          dest!: search_down_spec [of _ _ "Some i", simplified])
  next
    case False
    then have "search_down (\<lambda>i. clock_due_at rt c i (i = rt_cutoff rt)) (nat (rt_cutoff rt + 1)) = Inr (Some i)"
      using assms k by (simp add: last_completed_clock_cutoff_def)
    from search_down_spec [OF this] show ?thesis using assms(2) by simp
  qed
qed

theorem completed_boundary_is_not_after_cutoff_witness:
  "last_completed_clock_cutoff weekly_runtime ''daily'' = Inr (Some 1) \<and> (1 :: int) \<le> rt_cutoff weekly_runtime"
proof -
  have l: "last_completed_clock_cutoff weekly_runtime ''daily'' = Inr (Some 1)" by code_simp
  have "0 \<le> rt_cutoff weekly_runtime" by code_simp
  from completed_boundary_is_not_after_cutoff [OF l this] l show ?thesis by simp
qed

end
