(* ===== verification/Allocation_Properties.thy ===== *)
theory Allocation_Properties
  imports Program_Samples
begin

text \<open>
  Bounded normalisation of raw weights: its clipping rounds always come to an end, and the
  weights they leave are within the floor and the cap.
\<close>

lemma clipped_Nil: "clipped lo hi ws free = [] \<longleftrightarrow> (\<forall>a \<in> set free. lo \<le> dget_or ws a 0 \<and> dget_or ws a 0 \<le> hi)"
proof -
  have "List.map_filter (\<lambda>a. let w = dget_or ws a 0 in if w < lo then Some (a, lo) else if hi < w then Some (a, hi) else None) xs = []
      \<longleftrightarrow> (\<forall>a \<in> set xs. lo \<le> dget_or ws a 0 \<and> dget_or ws a 0 \<le> hi)" for xs
    by (induction xs) (auto simp: map_filter_simps Let_def not_less)
  from this [of "sort free"] show ?thesis by (simp add: clipped_def)
qed

lemma clipped_entries:
  assumes "(a, w) \<in> set (clipped lo hi ws free)"
  shows "a \<in> set free" and "w = lo \<or> w = hi"
proof -
  have "(a, w) \<in> set (List.map_filter (\<lambda>a. let w = dget_or ws a 0 in if w < lo then Some (a, lo) else if hi < w then Some (a, hi) else None) xs)
      \<Longrightarrow> a \<in> set xs \<and> (w = lo \<or> w = hi)" for xs
    by (induction xs) (auto simp: map_filter_simps Let_def split: if_splits)
  from this [of "sort free"] assms show "a \<in> set free" "w = lo \<or> w = hi" by (auto simp: clipped_def)
qed

lemma clipped_shrinks:
  assumes "clipped lo hi ws free \<noteq> []"
  shows "length (filter (\<lambda>a. a \<notin> set (map fst (clipped lo hi ws free))) free) < length free"
proof -
  obtain a w where "(a, w) \<in> set (clipped lo hi ws free)" using assms by (cases "clipped lo hi ws free") auto
  then have "a \<in> set free" "a \<in> set (map fst (clipped lo hi ws free))" using clipped_entries(1) by force+
  then show ?thesis by (intro length_filter_less) auto
qed

text \<open>Spreading never raises: the total it divides by is positive.\<close>

lemma spread_free_ok:
  obtains ws' where "spread_free pf raw fixed free ws = Inr ws'"
    and "set (dkeys ws') \<subseteq> set (dkeys ws) \<union> set (pf_set_order pf free)" and "set (dkeys ws) \<subseteq> set (dkeys ws')"
proof -
  let ?order = "pf_set_order pf free" and ?rest = "dsub 1 (dsum (dvalues fixed))"
  let ?total = "dsum (map (\<lambda>a. dget_or raw a 0) ?order)"
  let ?put = "\<lambda>a ws. ebind (ddiv (dmul ?rest (dget_or raw a 0)) ?total) (\<lambda>w. Inr (dset a w ws))"
  have "\<exists>ws'. efold ?put xs ws = Inr ws' \<and> set (dkeys ws') = set (dkeys ws) \<union> set xs" if "?total \<noteq> 0" for xs ws
  proof (induction xs arbitrary: ws)
    case (Cons a xs)
    define w where "w = rnd (dmul ?rest (dget_or raw a 0) / ?total)"
    have "?put a ws = Inr (dset a w ws)" unfolding ddiv_nonzero [OF \<open>?total \<noteq> 0\<close>] w_def by simp
    then have "efold ?put (a # xs) ws = efold ?put xs (dset a w ws)" by (simp only: efold.simps ebind_simps)
    moreover obtain ws' where "efold ?put xs (dset a w ws) = Inr ws'" "set (dkeys ws') = set (dkeys (dset a w ws)) \<union> set xs"
      using Cons.IH by blast
    ultimately show ?case by (intro exI [of _ ws']) (simp only: set_dkeys_dset, auto)
  qed simp
  then have "\<exists>ws'. spread_free pf raw fixed free ws = Inr ws' \<and>
      set (dkeys ws') \<subseteq> set (dkeys ws) \<union> set ?order \<and> set (dkeys ws) \<subseteq> set (dkeys ws')"
    by (cases "free \<noteq> [] \<and> 0 < ?total") (fastforce simp: spread_free_def Let_def)+
  then show thesis using that by blast
qed

lemma clip_rounds_end:
  assumes "length free < n"
  shows "\<exists>ws' fixed' free'. clip_rounds pf lo hi raw n (ws, fixed, free) = Inr (ws', fixed', free') \<and> clipped lo hi ws' free' = []"
  using assms
proof (induction n arbitrary: ws fixed free)
  case (Suc n)
  obtain ws1 where s: "spread_free pf raw fixed free ws = Inr ws1" by (rule spread_free_ok)
  show ?case
  proof (cases "clipped lo hi ws1 free = []")
    case True
    then show ?thesis using s by simp
  next
    case False
    then have "length (filter (\<lambda>a. a \<notin> set (map fst (clipped lo hi ws1 free))) free) < n"
      using clipped_shrinks [OF False] Suc.prems by linarith
    from Suc.IH [OF this] show ?thesis using s False by (simp add: Let_def)
  qed
qed simp

text \<open>The assets are the fixed ones, at a bound, and the free ones.\<close>

definition clip_inv :: "string set \<Rightarrow> decimal \<Rightarrow> decimal \<Rightarrow> (string, decimal) dict \<times> (string, decimal) dict \<times> string list \<Rightarrow> bool" where
  "clip_inv K lo hi st \<longleftrightarrow>
     (case st of (ws, fixed, free) \<Rightarrow>
        set (dkeys ws) = K \<and> fst ` set fixed \<union> set free = K \<and> (\<forall>p \<in> set fixed. snd p = lo \<or> snd p = hi))"

lemma clip_rounds_inv:
  assumes "clip_rounds pf lo hi raw n st = Inr st'" and "clip_inv K lo hi st"
    and "\<And>xs. set (pf_set_order pf xs) = set xs"
  shows "clip_inv K lo hi st'"
  using assms(1,2)
proof (induction n arbitrary: st)
  case (Suc n)
  obtain ws fixed free where st: "st = (ws, fixed, free)" by (cases st)
  obtain ws1 where s: "spread_free pf raw fixed free ws = Inr ws1"
    and sub: "set (dkeys ws1) \<subseteq> set (dkeys ws) \<union> set (pf_set_order pf free)" "set (dkeys ws) \<subseteq> set (dkeys ws1)"
    by (rule spread_free_ok)
  let ?clip = "clipped lo hi ws1 free"
  have inv: "clip_inv K lo hi (ws1, fixed, free)"
    using Suc.prems(2) sub by (auto simp: st clip_inv_def assms(3))
  show ?case
  proof (cases "?clip = []")
    case True
    then show ?thesis using Suc.prems(1) inv by (simp add: st s)
  next
    case False
    have step: "clip_inv K lo hi (ws1, fixed @ clip, filter (\<lambda>a. a \<notin> set (map fst clip)) free)"
      if "fst ` set clip \<subseteq> set free" "\<forall>p \<in> set clip. snd p = lo \<or> snd p = hi" for clip
      using inv that by (auto simp: clip_inv_def)
    have "fst ` set ?clip \<subseteq> set free" "\<forall>p \<in> set ?clip. snd p = lo \<or> snd p = hi"
      using clipped_entries [where lo = lo and hi = hi and ws = ws1 and free = free] by (simp_all add: image_subset_iff Ball_def split_paired_All)
    then have "clip_inv K lo hi (ws1, fixed @ ?clip, filter (\<lambda>a. a \<notin> set (map fst ?clip)) free)"
      by (rule step)
    moreover have "clip_rounds pf lo hi raw n (ws1, fixed @ ?clip, filter (\<lambda>a. a \<notin> set (map fst ?clip)) free) = Inr st'"
      using Suc.prems(1) False by (simp add: st s Let_def)
    ultimately show ?thesis by (rule Suc.IH [rotated])
  qed
qed simp

text \<open>Writing the fixed weights over the others.\<close>

lemma foldl_dset_get:
  "dget_or (foldl (\<lambda>d (a, w). dset a w d) ws ps) x 0 = (case map_of (rev ps) x of None \<Rightarrow> dget_or ws x 0 | Some w \<Rightarrow> w)"
proof (induction ps rule: rev_induct)
  case (snoc q ps)
  then show ?case by (cases q) simp
qed simp

lemma foldl_dset_keys: "set (dkeys (foldl (\<lambda>d (a, w). dset a w d) ws ps)) = set (dkeys ws) \<union> fst ` set ps"
  by (induction ps arbitrary: ws) (auto simp: set_dkeys_dset)

text \<open>The weights before the remainder is settled.\<close>

lemma clipped_weights_within:
  assumes "clip_rounds pf lo hi raw n (ws, [], free) = Inr (ws', fixed, free')"
    and "length free < n" and "set free = set (dkeys ws)" and "lo \<le> hi"
    and "\<And>xs. set (pf_set_order pf xs) = set xs"
  shows "set (dkeys (foldl (\<lambda>d (a, w). dset a w d) ws' fixed)) = set (dkeys ws)"
    and "a \<in> set (dkeys ws) \<Longrightarrow> lo \<le> dget_or (foldl (\<lambda>d (a, w). dset a w d) ws' fixed) a 0 \<and>
      dget_or (foldl (\<lambda>d (a, w). dset a w d) ws' fixed) a 0 \<le> hi"
proof -
  have i: "clip_inv (set (dkeys ws)) lo hi (ws', fixed, free')"
    by (rule clip_rounds_inv [OF assms(1)]) (simp_all add: clip_inv_def assms)
  have c: "clipped lo hi ws' free' = []"
    using clip_rounds_end [OF assms(2), of pf lo hi raw ws "[]"] assms(1) by simp
  show "set (dkeys (foldl (\<lambda>d (a, w). dset a w d) ws' fixed)) = set (dkeys ws)"
    using i by (auto simp: foldl_dset_keys clip_inv_def)
  show "lo \<le> dget_or (foldl (\<lambda>d (a, w). dset a w d) ws' fixed) a 0 \<and>
      dget_or (foldl (\<lambda>d (a, w). dset a w d) ws' fixed) a 0 \<le> hi" if "a \<in> set (dkeys ws)"
  proof (cases "map_of (rev fixed) a")
    case None
    then have "a \<notin> fst ` set fixed" by (simp add: map_of_eq_None_iff)
    then have "a \<in> set free'" using i that by (auto simp: clip_inv_def)
    then show ?thesis using c None by (simp add: foldl_dset_get clipped_Nil)
  next
    case (Some w)
    then have "(a, w) \<in> set fixed" using map_of_SomeD by fastforce
    then have "w = lo \<or> w = hi" using i by (auto simp: clip_inv_def)
    then show ?thesis using Some assms(4) by (auto simp: foldl_dset_get)
  qed
qed

subsection \<open>The properties\<close>

text \<open>C35: The rounds that clip weights to the floor and the cap never raise and always stop by finding nothing left to clip: a range of one more round than there are free assets is never exhausted.\<close>

theorem clipping_terminates:
  assumes "length free < n"
  shows "\<exists>ws' fixed' free'. clip_rounds pf lo hi raw n (ws, fixed, free) = Inr (ws', fixed', free') \<and>
    (\<forall>a \<in> set free'. lo \<le> dget_or ws' a 0 \<and> dget_or ws' a 0 \<le> hi)"
  using clip_rounds_end [OF assms, of pf lo hi raw ws fixed] by (auto simp: clipped_Nil)

theorem clipping_terminates_witness:
  "\<exists>ws' fixed' free'. clip_rounds sample_platform (1 / 10) (1 / 2) [(''A'', 8), (''B'', 1), (''C'', 1)] 4
      ([], [], [''A'', ''B'', ''C'']) = Inr (ws', fixed', free') \<and>
    (\<forall>a \<in> set free'. 1 / 10 \<le> dget_or ws' a 0 \<and> dget_or ws' a 0 \<le> 1 / 2)"
  by (rule clipping_terminates) simp



end
