(* ===== verification/Timestamps.thy ===== *)
theory Timestamps
  imports Calendar
begin

text \<open>
  The text of a moment in the product database: \<open>_timestamp\<close> writes an aware UTC
  \<open>datetime\<close> in ISO form with \<open>Z\<close> for the offset, and \<open>_parse_timestamp\<close> reads it back. As
  \<open>isoformat\<close> does, the fraction is written only when there are microseconds. Reading accepts
  the two forms that are written; other ISO forms are not modelled.
\<close>

record moment =
  mo_date :: cal_date
  mo_hour :: nat
  mo_minute :: nat
  mo_second :: nat
  mo_microsecond :: nat

definition valid_moment :: "moment \<Rightarrow> bool" where
  "valid_moment t \<longleftrightarrow>
     valid_date (mo_date t) \<and> mo_hour t < 24 \<and> mo_minute t < 60 \<and> mo_second t < 60 \<and> mo_microsecond t < 1000000"

text \<open>A number in exactly \<open>k\<close> digits.\<close>

fun padded :: "nat \<Rightarrow> nat \<Rightarrow> string" where
  "padded 0 n = []"
| "padded (Suc k) n = padded k (n div 10) @ [digit_char (n mod 10)]"

definition date_text :: "cal_date \<Rightarrow> string" where
  "date_text d = padded 4 (nat (cd_year d)) @ ''-'' @ padded 2 (nat (cd_month d)) @ ''-'' @ padded 2 (nat (cd_day d))"

definition time_text :: "moment \<Rightarrow> string" where
  "time_text t = padded 2 (mo_hour t) @ '':'' @ padded 2 (mo_minute t) @ '':'' @ padded 2 (mo_second t)"

definition timestamp :: "moment \<Rightarrow> string" where
  "timestamp t =
     date_text (mo_date t) @ ''T'' @ time_text t
       @ (if mo_microsecond t = 0 then '''' else ''.'' @ padded 6 (mo_microsecond t)) @ ''Z''"

text \<open>Reading the time of day, and the whole.\<close>

definition parse_clock :: "string \<Rightarrow> (nat \<times> nat \<times> nat) res" where
  "parse_clock s =
     (let ws = split_on CHR '':'' s in
      if map length ws = [2, 2, 2]
      then (case (parse_digits (ws ! 0), parse_digits (ws ! 1), parse_digits (ws ! 2)) of
              (Some h, Some m, Some x) \<Rightarrow>
                if h < 24 \<and> m < 60 \<and> x < 60 then Inr (h, m, x) else Inl (Value_error ''isoformat'')
            | _ \<Rightarrow> Inl (Value_error ''isoformat''))
      else Inl (Value_error ''isoformat''))"

definition parse_fraction :: "string list \<Rightarrow> nat res" where
  "parse_fraction ws =
     (case ws of
        [] \<Rightarrow> Inr 0
      | [f] \<Rightarrow> (if length f = 6 then (case parse_digits f of Some n \<Rightarrow> Inr n | None \<Rightarrow> Inl (Value_error ''isoformat''))
               else Inl (Value_error ''isoformat''))
      | _ \<Rightarrow> Inl (Value_error ''isoformat''))"

definition parse_timestamp :: "string \<Rightarrow> moment res" where
  "parse_timestamp s =
     (case split_on CHR ''T'' s of
        [d, rest] \<Rightarrow>
          if rest \<noteq> [] \<and> last rest = CHR ''Z''
          then ebind (parse_date d) (\<lambda>date.
               let ws = split_on CHR ''.'' (butlast rest) in
               ebind (parse_clock (hd ws)) (\<lambda>(h, m, x).
               ebind (parse_fraction (tl ws)) (\<lambda>us.
                 Inr \<lparr>mo_date = date, mo_hour = h, mo_minute = m, mo_second = x, mo_microsecond = us\<rparr>)))
          else Inl (Value_error ''isoformat'')
      | _ \<Rightarrow> Inl (Value_error ''isoformat''))"

subsection \<open>Reading what was written\<close>

lemma length_padded [simp]: "length (padded k n) = k"
  by (induction k arbitrary: n) auto

lemma padded_digits: "c \<in> set (padded k n) \<Longrightarrow> \<exists>d < 10. c = digit_char d"
  by (induction k arbitrary: n) (auto, metis mod_less_divisor zero_less_numeral)

lemma nat_of_digits_padded:
  "n < 10 ^ k \<Longrightarrow> nat_of_digits a (padded k n @ s) = nat_of_digits (a * 10 ^ k + n) s"
proof (induction k arbitrary: n a s)
  case (Suc k)
  have "n div 10 < 10 ^ k" using Suc.prems by (simp add: less_mult_imp_div_less mult.commute)
  from Suc.IH [OF this, of a "digit_char (n mod 10) # s"] show ?case
    by (simp add: digit_val_char algebra_simps)
qed simp

lemma parse_digits_padded: "n < 10 ^ k \<Longrightarrow> 0 < k \<Longrightarrow> parse_digits (padded k n) = Some n"
  using nat_of_digits_padded [of n k 0 "[]"] by (cases k) (auto simp: parse_digits_def)

lemma padded_clean: "digit_val c = None \<Longrightarrow> c \<notin> set (padded k n)"
  using padded_digits digit_val_char by fastforce

lemma separators [simp]:
  "digit_val (CHR ''-'') = None" "digit_val (CHR '':'') = None" "digit_val (CHR ''T'') = None"
  "digit_val (CHR ''.'') = None" "digit_val (CHR ''Z'') = None"
  by (simp_all add: digit_val_def)

lemma parse_date_text:
  assumes "valid_date d"
  shows "parse_date (date_text d) = Inr d"
proof -
  have b: "nat (cd_year d) < 10 ^ 4" "nat (cd_month d) < 10 ^ 2" "nat (cd_day d) < 10 ^ 2"
    "0 \<le> cd_year d" "0 \<le> cd_month d" "0 \<le> cd_day d"
    using assms by (auto simp: valid_date_def days_in_month_def split: if_splits)
  have "split_on CHR ''-'' (date_text d) = [padded 4 (nat (cd_year d)), padded 2 (nat (cd_month d)), padded 2 (nat (cd_day d))]"
    by (simp add: date_text_def split_on_append_sep padded_clean split_on_no_sep)
  then show ?thesis
    using assms b by (cases d) (simp add: parse_date_def Let_def parse_digits_padded)
qed

lemma parse_clock_text:
  assumes "valid_moment t"
  shows "parse_clock (time_text t) = Inr (mo_hour t, mo_minute t, mo_second t)"
proof -
  have b: "mo_hour t < 10 ^ 2" "mo_minute t < 10 ^ 2" "mo_second t < 10 ^ 2"
    using assms by (auto simp: valid_moment_def)
  have "split_on CHR '':'' (time_text t) = [padded 2 (mo_hour t), padded 2 (mo_minute t), padded 2 (mo_second t)]"
    by (simp add: time_text_def split_on_append_sep padded_clean split_on_no_sep)
  then show ?thesis
    using assms b by (simp add: parse_clock_def Let_def parse_digits_padded valid_moment_def)
qed

lemma date_text_clean: "digit_val c = None \<Longrightarrow> c \<noteq> CHR ''-'' \<Longrightarrow> c \<notin> set (date_text d)"
  by (auto simp: date_text_def dest: padded_clean)

lemma time_text_clean: "digit_val c = None \<Longrightarrow> c \<noteq> CHR '':'' \<Longrightarrow> c \<notin> set (time_text t)"
  by (auto simp: time_text_def dest: padded_clean)

lemma parse_timestamp_timestamp:
  assumes "valid_moment t"
  shows "parse_timestamp (timestamp t) = Inr t"
proof -
  define frac where "frac = (if mo_microsecond t = 0 then [] else ''.'' @ padded 6 (mo_microsecond t))"
  have whole: "timestamp t = date_text (mo_date t) @ CHR ''T'' # (time_text t @ frac @ ''Z'')"
    by (simp add: timestamp_def frac_def)
  have "CHR ''T'' \<notin> set (time_text t @ frac @ ''Z'')"
    using time_text_clean [of "CHR ''T''" t] padded_clean [of "CHR ''T''"] by (auto simp: frac_def)
  then have split: "split_on CHR ''T'' (timestamp t) = [date_text (mo_date t), time_text t @ frac @ ''Z'']"
    unfolding whole using date_text_clean [of "CHR ''T''"]
    by (simp add: split_on_append_sep split_on_no_sep)
  have body: "butlast (time_text t @ frac @ ''Z'') = time_text t @ frac" "last (time_text t @ frac @ ''Z'') = CHR ''Z''"
    by (simp_all add: butlast_append)
  have parts: "split_on CHR ''.'' (time_text t @ frac) =
      time_text t # (if mo_microsecond t = 0 then [] else [padded 6 (mo_microsecond t)])"
    using time_text_clean [of "CHR ''.''" t]
    by (simp add: frac_def split_on_no_sep split_on_append_sep padded_clean)
  have us: "parse_fraction (if mo_microsecond t = 0 then [] else [padded 6 (mo_microsecond t)]) = Inr (mo_microsecond t)"
    using assms parse_digits_padded [of "mo_microsecond t" 6] by (auto simp: parse_fraction_def valid_moment_def)
  have "valid_date (mo_date t)" using assms by (simp add: valid_moment_def)
  then show ?thesis
    unfolding parse_timestamp_def split
    by (simp add: body parts us parse_date_text parse_clock_text [OF assms])
qed

text \<open>A UTC time with microseconds, written as the repositories write it and read back, is the
  same time; the text omits the fraction when it is zero.\<close>

theorem timestamp_roundtrip:
  assumes "valid_moment t"
  shows "parse_timestamp (timestamp t) = Inr t"
  using assms by (rule parse_timestamp_timestamp)

theorem timestamp_roundtrip_witness:
  "parse_timestamp (timestamp \<lparr>mo_date = \<lparr>cd_year = 2024, cd_month = 2, cd_day = 29\<rparr>, mo_hour = 23, mo_minute = 59, mo_second = 58, mo_microsecond = 7\<rparr>) =
    Inr \<lparr>mo_date = \<lparr>cd_year = 2024, cd_month = 2, cd_day = 29\<rparr>, mo_hour = 23, mo_minute = 59, mo_second = 58, mo_microsecond = 7\<rparr>"
  by (rule timestamp_roundtrip) (simp add: valid_moment_def valid_date_def days_in_month_def leap_year_def)

end
