(* ===== verification/Store.thy ===== *)
theory Store
  imports Timestamps
begin

text \<open>
  The product database of \<open>persistence/sqlite_strategies.py\<close>: its tables, the constraints and
  triggers of the schema, and the statements the repositories run. A table is the list of its
  rows in the order they were inserted. A statement either changes the database or raises
  \<open>sqlite3.IntegrityError\<close>; the connection's context manager and \<open>rollback\<close> undo everything a
  failed transaction did, so a failure leaves the database as it was. Failures of the disk or of
  locking are not modelled, nor are the migrations of older schema versions.
\<close>

subsection \<open>Errors\<close>

text \<open>
  The exceptions of a backtest (\<open>backtests/errors.py\<close>, and \<open>DecisionEvidenceError\<close>).
  \<open>Sqlite_error\<close> is any \<open>sqlite3.Error\<close>; the others are the program's own classes, with the
  message where one class carries several.
\<close>

datatype backtest_failure =
    Runtime_unavailable string
  | Unsupported_strategy string
  | Invalid_strategy
  | Market_data_unavailable string
  | Execution_failed
  | Malformed_result
  | Other_backtest_error
  | Evidence_failure

datatype store_error =
    Sqlite_error
  | Persistence_error string
  | Invalid_strategy_source "(string \<times> string) list"
  | Strategy_not_found
  | Revision_not_found
  | Strategy_archived string
  | Stale_revision string
  | Invalid_run_config "(string \<times> string) list"
  | Backtest_error backtest_failure
  | Run_not_found
  | Run_persistence_error string
  | Decision_event_not_found
  | Candidate_not_found string
  | Invalid_candidate_change string
  | Candidate_value_mismatch
  | Candidate_archived_strategy string
  | Candidate_persistence_error string
  | Adoption_lineage_mismatch
  | Candidate_run_not_succeeded
  | Comparison_not_found
  | Incomparable_runs string
  | Evidence_unsupported string
  | Comparison_persistence_error string
  | Python_error py_error

type_synonym 'a sres = "store_error + 'a"

text \<open>\<open>except sqlite3.Error as exc: raise e from exc\<close>.\<close>

definition on_sqlite :: "store_error \<Rightarrow> 'a sres \<Rightarrow> 'a sres" where
  "on_sqlite e m = (case m of Inl Sqlite_error \<Rightarrow> Inl e | _ \<Rightarrow> m)"

lemma on_sqlite_Inr [simp]: "on_sqlite e m = Inr x \<longleftrightarrow> m = Inr x"
  by (auto simp: on_sqlite_def split: sum.splits store_error.splits)

definition py_to_store :: "'a res \<Rightarrow> 'a sres" where
  "py_to_store m = map_sum Python_error id m"

lemma py_to_store_Inr [simp]: "py_to_store m = Inr x \<longleftrightarrow> m = Inr x"
  by (cases m) (auto simp: py_to_store_def)

subsection \<open>Tables\<close>

record strategy_row =
  sr_id :: string
  sr_name :: string
  sr_created_at :: string
  sr_updated_at :: string
  sr_current_revision_id :: string
  sr_archived_at :: "string option"

record revision_row =
  rr_id :: string
  rr_strategy_id :: string
  rr_parent_revision_id :: "string option"
  rr_canonical_json :: string
  rr_source_hash :: string
  rr_schema_version :: string
  rr_created_at :: string

record candidate_row =
  cr_id :: string
  cr_base_revision_id :: string
  cr_originating_run_id :: "string option"
  cr_originating_decision_event_id :: "string option"
  cr_change_json :: string
  cr_canonical_json :: string
  cr_source_hash :: string
  cr_schema_version :: string
  cr_created_at :: string
  cr_diagnostics_json :: string

record adoption_row =
  ar_candidate_id :: string
  ar_strategy_id :: string
  ar_revision_id :: string
  ar_adopted_at :: string

datatype run_status = Pending | Running | Succeeded | Failed

record run_row =
  br_id :: string
  br_revision_id :: string
  br_candidate_id :: "string option"
  br_status :: run_status
  br_config_json :: string
  br_result_json :: "string option"
  br_error_json :: "string option"
  br_provenance_json :: string
  br_timings_json :: string
  br_diagnostics_json :: string
  br_created_at :: string
  br_started_at :: "string option"
  br_completed_at :: "string option"

record event_row =
  er_run_id :: string
  er_id :: string
  er_ordinal :: int
  er_schema_version :: int
  er_session_id :: string
  er_phase :: string
  er_kind :: string
  er_source_components_json :: string
  er_evidence_json :: string

record comparison_row =
  pr_id :: string
  pr_candidate_id :: string
  pr_original_run_id :: string
  pr_candidate_run_id :: string
  pr_schema_version :: int
  pr_comparison_json :: string
  pr_created_at :: string
  pr_diagnostics_json :: string

record database =
  db_strategies :: "strategy_row list"
  db_revisions :: "revision_row list"
  db_candidates :: "candidate_row list"
  db_adoptions :: "adoption_row list"
  db_runs :: "run_row list"
  db_events :: "event_row list"
  db_comparisons :: "comparison_row list"

definition empty_database :: database where
  "empty_database =
     \<lparr>db_strategies = [], db_revisions = [], db_candidates = [], db_adoptions = [], db_runs = [],
      db_events = [], db_comparisons = []\<rparr>"

text \<open>\<open>SELECT * ... WHERE key = ?\<close> on a unique key.\<close>

definition select_one :: "('row \<Rightarrow> bool) \<Rightarrow> 'row list \<Rightarrow> 'row option" where
  "select_one p rows = find p rows"

lemma select_one_append:
  "select_one p (xs @ ys) = (case select_one p xs of None \<Rightarrow> select_one p ys | Some x \<Rightarrow> Some x)"
  by (induction xs) (auto simp: select_one_def)

lemma select_one_Nil [simp]: "select_one p [] = None"
  by (simp add: select_one_def)

lemma select_one_Cons [simp]: "select_one p (x # xs) = (if p x then Some x else select_one p xs)"
  by (simp add: select_one_def)

lemma select_one_None: "select_one p xs = None \<longleftrightarrow> (\<forall>x \<in> set xs. \<not> p x)"
  by (induction xs) auto

lemma select_one_SomeD: "select_one p xs = Some x \<Longrightarrow> x \<in> set xs \<and> p x"
  by (induction xs) (auto split: if_splits)

abbreviation strategy_ids :: "database \<Rightarrow> string list" where
  "strategy_ids db \<equiv> map sr_id (db_strategies db)"

abbreviation revision_ids :: "database \<Rightarrow> string list" where
  "revision_ids db \<equiv> map rr_id (db_revisions db)"

abbreviation candidate_ids :: "database \<Rightarrow> string list" where
  "candidate_ids db \<equiv> map cr_id (db_candidates db)"

abbreviation run_ids :: "database \<Rightarrow> string list" where
  "run_ids db \<equiv> map br_id (db_runs db)"

subsection \<open>Inserting\<close>

text \<open>
  Primary keys, unique indexes, checks and immediate foreign keys. A foreign key into the table
  itself is satisfied by the row being inserted. The key of a Strategy to its current Revision is
  deferred to the commit.
\<close>

definition optional_in :: "'a option \<Rightarrow> 'a list \<Rightarrow> bool" where
  "optional_in x xs \<longleftrightarrow> (case x of None \<Rightarrow> True | Some y \<Rightarrow> y \<in> set xs)"

definition insert_strategy :: "strategy_row \<Rightarrow> database \<Rightarrow> database sres" where
  "insert_strategy row db =
     (if sr_id row \<in> set (strategy_ids db) then Inl Sqlite_error
      else Inr (db\<lparr>db_strategies := db_strategies db @ [row]\<rparr>))"

definition insert_revision :: "revision_row \<Rightarrow> database \<Rightarrow> database sres" where
  "insert_revision row db =
     (if rr_id row \<in> set (revision_ids db) \<or> rr_strategy_id row \<notin> set (strategy_ids db)
       \<or> \<not> optional_in (rr_parent_revision_id row) (rr_id row # revision_ids db)
      then Inl Sqlite_error
      else Inr (db\<lparr>db_revisions := db_revisions db @ [row]\<rparr>))"

definition insert_candidate :: "candidate_row \<Rightarrow> database \<Rightarrow> database sres" where
  "insert_candidate row db =
     (if cr_id row \<in> set (candidate_ids db) \<or> cr_base_revision_id row \<notin> set (revision_ids db)
       \<or> \<not> optional_in (cr_originating_run_id row) (run_ids db)
      then Inl Sqlite_error
      else Inr (db\<lparr>db_candidates := db_candidates db @ [row]\<rparr>))"

definition insert_adoption :: "adoption_row \<Rightarrow> database \<Rightarrow> database sres" where
  "insert_adoption row db =
     (if ar_candidate_id row \<in> set (map ar_candidate_id (db_adoptions db))
       \<or> ar_revision_id row \<in> set (map ar_revision_id (db_adoptions db))
       \<or> ar_candidate_id row \<notin> set (candidate_ids db) \<or> ar_strategy_id row \<notin> set (strategy_ids db)
       \<or> ar_revision_id row \<notin> set (revision_ids db)
      then Inl Sqlite_error
      else Inr (db\<lparr>db_adoptions := db_adoptions db @ [row]\<rparr>))"

text \<open>The \<open>CHECK\<close> on the columns of a Run.\<close>

definition lifecycle_columns :: "run_row \<Rightarrow> bool" where
  "lifecycle_columns r \<longleftrightarrow>
     (case br_status r of
        Pending \<Rightarrow> br_started_at r = None \<and> br_completed_at r = None \<and> br_result_json r = None \<and> br_error_json r = None
      | Running \<Rightarrow> br_started_at r \<noteq> None \<and> br_completed_at r = None \<and> br_result_json r = None \<and> br_error_json r = None
      | Succeeded \<Rightarrow> br_started_at r \<noteq> None \<and> br_completed_at r \<noteq> None \<and> br_result_json r \<noteq> None \<and> br_error_json r = None
      | Failed \<Rightarrow> br_started_at r \<noteq> None \<and> br_completed_at r \<noteq> None \<and> br_result_json r = None \<and> br_error_json r \<noteq> None)"

definition insert_run :: "run_row \<Rightarrow> database \<Rightarrow> database sres" where
  "insert_run row db =
     (if br_id row \<in> set (run_ids db) \<or> br_revision_id row \<notin> set (revision_ids db)
       \<or> \<not> optional_in (br_candidate_id row) (candidate_ids db) \<or> \<not> lifecycle_columns row
       \<or> (br_candidate_id row \<noteq> None \<and> br_candidate_id row \<in> set (map br_candidate_id (db_runs db)))
      then Inl Sqlite_error
      else Inr (db\<lparr>db_runs := db_runs db @ [row]\<rparr>))"

text \<open>
  The trigger \<open>decision_events_running_run_only\<close>: when the Run exists its status must be
  running; when it does not, the foreign key fails.
\<close>

definition run_status_of :: "database \<Rightarrow> string \<Rightarrow> run_status option" where
  "run_status_of db i = map_option br_status (select_one (\<lambda>r. br_id r = i) (db_runs db))"

definition insert_event :: "event_row \<Rightarrow> database \<Rightarrow> database sres" where
  "insert_event row db =
     (if run_status_of db (er_run_id row) \<noteq> Some Running
       \<or> (er_run_id row, er_id row) \<in> set (map (\<lambda>e. (er_run_id e, er_id e)) (db_events db))
       \<or> (er_run_id row, er_ordinal row) \<in> set (map (\<lambda>e. (er_run_id e, er_ordinal e)) (db_events db))
       \<or> er_ordinal row \<le> 0 \<or> er_schema_version row \<notin> {1, 2}
      then Inl Sqlite_error
      else Inr (db\<lparr>db_events := db_events db @ [row]\<rparr>))"

definition insert_comparison :: "comparison_row \<Rightarrow> database \<Rightarrow> database sres" where
  "insert_comparison row db =
     (if pr_id row \<in> set (map pr_id (db_comparisons db))
       \<or> pr_candidate_id row \<in> set (map pr_candidate_id (db_comparisons db)) \<or> pr_schema_version row \<noteq> 1
       \<or> pr_candidate_id row \<notin> set (candidate_ids db) \<or> pr_original_run_id row \<notin> set (run_ids db)
       \<or> pr_candidate_run_id row \<notin> set (run_ids db)
      then Inl Sqlite_error
      else Inr (db\<lparr>db_comparisons := db_comparisons db @ [row]\<rparr>))"

subsection \<open>Updating\<close>

text \<open>\<open>UPDATE ... WHERE p\<close>, with \<open>cursor.rowcount\<close>.\<close>

definition update_rows :: "('row \<Rightarrow> bool) \<Rightarrow> ('row \<Rightarrow> 'row) \<Rightarrow> 'row list \<Rightarrow> 'row list \<times> nat" where
  "update_rows p f rows = (map (\<lambda>r. if p r then f r else r) rows, length (filter p rows))"

definition update_strategies :: "(strategy_row \<Rightarrow> bool) \<Rightarrow> (strategy_row \<Rightarrow> strategy_row) \<Rightarrow> database \<Rightarrow> database \<times> nat" where
  "update_strategies p f db = (let (rows, n) = update_rows p f (db_strategies db) in (db\<lparr>db_strategies := rows\<rparr>, n))"

text \<open>
  The triggers on Runs: identity and inputs stay, and the status moves from pending to running
  and from running to an end. They are checked for each row before its update.
\<close>

definition same_run_identity :: "run_row \<Rightarrow> run_row \<Rightarrow> bool" where
  "same_run_identity old new \<longleftrightarrow>
     br_id new = br_id old \<and> br_revision_id new = br_revision_id old \<and> br_candidate_id new = br_candidate_id old \<and>
     br_config_json new = br_config_json old \<and> br_provenance_json new = br_provenance_json old \<and>
     br_created_at new = br_created_at old"

definition lifecycle_step :: "run_status \<Rightarrow> run_status \<Rightarrow> bool" where
  "lifecycle_step old new \<longleftrightarrow> old = Pending \<and> new = Running \<or> old = Running \<and> new \<in> {Succeeded, Failed}"

definition run_update_allowed :: "run_row \<Rightarrow> run_row \<Rightarrow> bool" where
  "run_update_allowed old new \<longleftrightarrow>
     same_run_identity old new \<and> lifecycle_step (br_status old) (br_status new) \<and> lifecycle_columns new"

definition update_runs :: "(run_row \<Rightarrow> bool) \<Rightarrow> (run_row \<Rightarrow> run_row) \<Rightarrow> database \<Rightarrow> (database \<times> nat) sres" where
  "update_runs p f db =
     (if \<not> list_all (\<lambda>r. p r \<longrightarrow> run_update_allowed r (f r)) (db_runs db) then Inl Sqlite_error
      else let (rows, n) = update_rows p f (db_runs db) in Inr (db\<lparr>db_runs := rows\<rparr>, n))"

text \<open>Candidates and Comparisons: only the diagnostics may change.\<close>

definition same_candidate :: "candidate_row \<Rightarrow> candidate_row \<Rightarrow> bool" where
  "same_candidate old new \<longleftrightarrow> new = old\<lparr>cr_diagnostics_json := cr_diagnostics_json new\<rparr>"

definition update_candidates :: "(candidate_row \<Rightarrow> bool) \<Rightarrow> (candidate_row \<Rightarrow> candidate_row) \<Rightarrow> database \<Rightarrow> (database \<times> nat) sres" where
  "update_candidates p f db =
     (if \<not> list_all (\<lambda>r. p r \<longrightarrow> same_candidate r (f r)) (db_candidates db) then Inl Sqlite_error
      else let (rows, n) = update_rows p f (db_candidates db) in Inr (db\<lparr>db_candidates := rows\<rparr>, n))"

definition same_comparison :: "comparison_row \<Rightarrow> comparison_row \<Rightarrow> bool" where
  "same_comparison old new \<longleftrightarrow> new = old\<lparr>pr_diagnostics_json := pr_diagnostics_json new\<rparr>"

definition update_comparisons :: "(comparison_row \<Rightarrow> bool) \<Rightarrow> (comparison_row \<Rightarrow> comparison_row) \<Rightarrow> database \<Rightarrow> (database \<times> nat) sres" where
  "update_comparisons p f db =
     (if \<not> list_all (\<lambda>r. p r \<longrightarrow> same_comparison r (f r)) (db_comparisons db) then Inl Sqlite_error
      else let (rows, n) = update_rows p f (db_comparisons db) in Inr (db\<lparr>db_comparisons := rows\<rparr>, n))"

text \<open>The deferred foreign key, checked at \<open>COMMIT\<close>.\<close>

definition commit :: "database \<Rightarrow> database sres" where
  "commit db =
     (if list_all (\<lambda>s. sr_current_revision_id s \<in> set (revision_ids db)) (db_strategies db) then Inr db
      else Inl Sqlite_error)"

subsection \<open>Ordering\<close>

text \<open>\<open>ORDER BY\<close> with a comparison of rows; equal rows keep their order.\<close>

fun insert_by :: "('a \<Rightarrow> 'a \<Rightarrow> bool) \<Rightarrow> 'a \<Rightarrow> 'a list \<Rightarrow> 'a list" where
  "insert_by lt x [] = [x]"
| "insert_by lt x (y # ys) = (if lt y x then y # insert_by lt x ys else x # y # ys)"

definition order_by :: "('a \<Rightarrow> 'a \<Rightarrow> bool) \<Rightarrow> 'a list \<Rightarrow> 'a list" where
  "order_by lt xs = foldr (insert_by lt) xs []"

text \<open>Texts compare by their characters.\<close>

definition newest_first :: "('a \<Rightarrow> string) \<Rightarrow> ('a \<Rightarrow> string) \<Rightarrow> 'a \<Rightarrow> 'a \<Rightarrow> bool" where
  "newest_first created key x y \<longleftrightarrow> created y < created x \<or> (created x = created y \<and> key y < key x)"

lemma set_insert_by: "set (insert_by lt x ys) = insert x (set ys)"
  by (induction ys) auto

lemma set_order_by [simp]: "set (order_by lt xs) = set xs"
  by (induction xs) (auto simp: order_by_def set_insert_by)

subsection \<open>The contract of a table\<close>

text \<open>
  What every table gives its repository: an insert appends a row with a fresh key, so that a row
  once found under its key is found for ever, and keys stay distinct.
\<close>

locale keyed_table =
  fixes rows :: "database \<Rightarrow> 'row list"
    and key :: "'row \<Rightarrow> 'k"
    and insert_row :: "'row \<Rightarrow> database \<Rightarrow> database sres"
  assumes insert_appends: "insert_row r db = Inr db' \<Longrightarrow> rows db' = rows db @ [r]"
    and insert_fresh: "insert_row r db = Inr db' \<Longrightarrow> key r \<notin> key ` set (rows db)"
begin

lemma insert_distinct:
  "insert_row r db = Inr db' \<Longrightarrow> distinct (map key (rows db)) \<Longrightarrow> distinct (map key (rows db'))"
  using insert_appends insert_fresh by force

lemma lookup_inserted:
  assumes "insert_row r db = Inr db'"
  shows "select_one (\<lambda>x. key x = key r) (rows db') = Some r"
proof -
  have "select_one (\<lambda>x. key x = key r) (rows db) = None"
    using insert_fresh [OF assms] by (auto simp: select_one_None image_iff)
  then show ?thesis by (simp add: insert_appends [OF assms] select_one_append)
qed

lemma lookup_kept:
  "insert_row r db = Inr db' \<Longrightarrow> select_one (\<lambda>x. key x = k) (rows db) = Some y \<Longrightarrow>
    select_one (\<lambda>x. key x = k) (rows db') = Some y"
  by (simp add: insert_appends select_one_append)

lemma lookup_iff:
  assumes "distinct (map key (rows db))"
  shows "select_one (\<lambda>x. key x = k) (rows db) = Some y \<longleftrightarrow> y \<in> set (rows db) \<and> key y = k"
proof
  assume "select_one (\<lambda>x. key x = k) (rows db) = Some y"
  then show "y \<in> set (rows db) \<and> key y = k" by (auto dest: select_one_SomeD)
next
  assume y: "y \<in> set (rows db) \<and> key y = k"
  then obtain z where z: "select_one (\<lambda>x. key x = k) (rows db) = Some z"
    by (cases "select_one (\<lambda>x. key x = k) (rows db)") (auto simp: select_one_None)
  then have "z \<in> set (rows db)" "key z = k" by (auto dest: select_one_SomeD)
  then have "z = y" using y assms by (metis distinct_map inj_on_eq_iff)
  then show "select_one (\<lambda>x. key x = k) (rows db) = Some y" using z by simp
qed

end

text \<open>A table whose rows may be updated within what its triggers allow.\<close>

locale guarded_table = keyed_table rows key insert_row
  for rows :: "database \<Rightarrow> 'row list" and key :: "'row \<Rightarrow> 'k" and insert_row :: "'row \<Rightarrow> database \<Rightarrow> database sres" +
  fixes allowed :: "'row \<Rightarrow> 'row \<Rightarrow> bool"
    and update :: "('row \<Rightarrow> bool) \<Rightarrow> ('row \<Rightarrow> 'row) \<Rightarrow> database \<Rightarrow> (database \<times> nat) sres"
  assumes update_rows: "update p f db = Inr (db', n) \<Longrightarrow> rows db' = map (\<lambda>r. if p r then f r else r) (rows db)"
    and update_count: "update p f db = Inr (db', n) \<Longrightarrow> n = length (filter p (rows db))"
    and update_allowed: "update p f db = Inr (db', n) \<Longrightarrow> r \<in> set (rows db) \<Longrightarrow> p r \<Longrightarrow> allowed r (f r)"
    and allowed_key: "allowed r r' \<Longrightarrow> key r' = key r"
begin

lemma update_keys: "update p f db = Inr (db', n) \<Longrightarrow> map key (rows db') = map key (rows db)"
  by (auto simp: update_rows intro: allowed_key update_allowed)

lemma lookup_updated:
  assumes "update p f db = Inr (db', n)"
  shows "select_one (\<lambda>x. key x = k) (rows db') =
    map_option (\<lambda>r. if p r then f r else r) (select_one (\<lambda>x. key x = k) (rows db))"
proof -
  have "select_one (\<lambda>x. key x = k) (map (\<lambda>r. if p r then f r else r) xs) =
      map_option (\<lambda>r. if p r then f r else r) (select_one (\<lambda>x. key x = k) xs)"
    if "\<forall>r \<in> set xs. p r \<longrightarrow> key (f r) = key r" for xs
    using that by (induction xs) auto
  then show ?thesis
    using update_allowed [OF assms] allowed_key by (simp add: update_rows [OF assms])
qed

end

interpretation strategies: keyed_table db_strategies sr_id insert_strategy
  by unfold_locales (auto simp: insert_strategy_def split: if_splits)

interpretation revisions: keyed_table db_revisions rr_id insert_revision
  by unfold_locales (auto simp: insert_revision_def split: if_splits)

interpretation adoptions: keyed_table db_adoptions ar_candidate_id insert_adoption
  by unfold_locales (auto simp: insert_adoption_def split: if_splits)

interpretation events: keyed_table db_events "\<lambda>e. (er_run_id e, er_id e)" insert_event
  by unfold_locales (auto simp: insert_event_def split: if_splits)

interpretation candidates: guarded_table db_candidates cr_id insert_candidate same_candidate update_candidates
  by unfold_locales (auto simp: insert_candidate_def update_candidates_def update_rows_def same_candidate_def list_all_iff
      split: if_splits, metis candidate_row.select_convs(1) candidate_row.surjective candidate_row.update_convs(10))

interpretation runs: guarded_table db_runs br_id insert_run run_update_allowed update_runs
  by unfold_locales (auto simp: insert_run_def update_runs_def update_rows_def run_update_allowed_def same_run_identity_def
      list_all_iff split: if_splits)

interpretation comparisons: guarded_table db_comparisons pr_id insert_comparison same_comparison update_comparisons
  by unfold_locales (auto simp: insert_comparison_def update_comparisons_def update_rows_def same_comparison_def list_all_iff
      split: if_splits, metis comparison_row.select_convs(1) comparison_row.surjective comparison_row.update_convs(8))

end
