(* ===== verification/Strategy_Store.thy ===== *)
theory Strategy_Store
  imports Store Selection_Exec
begin

text \<open>
  Strategies and their Revisions: the operations of \<open>SQLiteStrategyRepository\<close>
  (\<open>persistence/sqlite_strategies.py\<close>) and of \<open>StrategyService\<close> (\<open>strategies/service.py\<close>), with
  the version dispatch of \<open>strategy/versioning.py\<close>. An operation takes a database to its result
  and the database it leaves; the time and the identifiers it draws are arguments. A \<open>codec\<close>
  stands for JSON, for pydantic's parsing of documents, for the semantic digest and for the
  semantic validation of first-generation documents.
\<close>

subsection \<open>Documents\<close>

text \<open>
  A first-generation document as far as the product services read it: the components of its
  graph with their configuration. The rest is carried along.
\<close>

record v1_component =
  vc_id :: string
  vc_primitive :: string
  vc_config :: "(string, json) dict"
  vc_rest :: json

record canonical_v1 =
  v1_components :: "v1_component list"
  v1_rest :: json

datatype canonical = V1 canonical_v1 | V2 canonical_v2

definition api_version :: "canonical \<Rightarrow> string" where
  "api_version c = (case c of V1 _ \<Rightarrow> ''ruletrade.dev/strategy/v1'' | V2 _ \<Rightarrow> ''ruletrade.dev/strategy/v2'')"

type_synonym source_issue = "string \<times> string"

text \<open>What a caller hands in: a parsed document, a JSON object with its \<open>api_version\<close>, or another value.\<close>

datatype raw_source =
    Parsed canonical
  | Object (object_version: "string option") (object_body: string)
  | No_object

record codec =
  co_dump :: "canonical \<Rightarrow> string"
  co_decode :: "string \<Rightarrow> raw_source res"
  co_validate_v1 :: "string \<Rightarrow> source_issue list + canonical_v1"
  co_validate_v2 :: "string \<Rightarrow> source_issue list + canonical_v2"
  co_digest :: "canonical \<Rightarrow> string"
  co_v1_issues :: "canonical_v1 \<Rightarrow> source_issue list"
  co_program_json :: "program \<Rightarrow> json"
  co_json_hash :: "json \<Rightarrow> string"
  co_message :: "diagnostic \<Rightarrow> string"

text \<open>\<open>ValidationError\<close> carries issues; the other failures are plain \<open>ValueError\<close>s.\<close>

datatype parse_failure = Schema_issues "source_issue list" | Unsupported py_error

definition parse_canonical :: "codec \<Rightarrow> raw_source \<Rightarrow> parse_failure + canonical" where
  "parse_canonical k raw =
     (case raw of
        Parsed c \<Rightarrow> Inr c
      | No_object \<Rightarrow> Inl (Unsupported (Value_error ''canonical Strategy must be an object''))
      | Object version body \<Rightarrow>
          if version \<in> {None, Some ''ruletrade.dev/strategy/v1''}
          then map_sum Schema_issues V1 (co_validate_v1 k body)
          else if version = Some ''ruletrade.dev/strategy/v2''
          then map_sum Schema_issues V2 (co_validate_v2 k body)
          else Inl (Unsupported (Value_error ''unsupported canonical api_version'')))"

definition load_canonical :: "codec \<Rightarrow> string \<Rightarrow> canonical sres" where
  "load_canonical k text =
     ebind (py_to_store (co_decode k text)) (\<lambda>raw.
     case parse_canonical k raw of
       Inl (Schema_issues _) \<Rightarrow> Inl (Python_error (Value_error ''ValidationError''))
     | Inl (Unsupported e) \<Rightarrow> Inl (Python_error e)
     | Inr c \<Rightarrow> Inr c)"

text \<open>
  \<open>validate_source\<close>: only \<open>ValidationError\<close> becomes \<open>InvalidStrategySourceError\<close>. Semantic
  issues are those of the document's own generation.
\<close>

definition semantic_issues :: "codec \<Rightarrow> canonical \<Rightarrow> source_issue list sres" where
  "semantic_issues k c =
     (case c of
        V1 d \<Rightarrow> Inr (co_v1_issues k d)
      | V2 d \<Rightarrow> ebind (py_to_store (validate_strategy (co_program_json k) (co_json_hash k) d))
                  (\<lambda>ds. Inr (map (\<lambda>i. (sd_path i, co_message k i)) ds)))"

definition validate_source :: "codec \<Rightarrow> raw_source \<Rightarrow> canonical sres" where
  "validate_source k raw =
     ebind (case parse_canonical k raw of
              Inl (Schema_issues issues) \<Rightarrow> Inl (Invalid_strategy_source issues)
            | Inl (Unsupported e) \<Rightarrow> Inl (Python_error e)
            | Inr c \<Rightarrow> Inr c) (\<lambda>c.
     ebind (semantic_issues k c) (\<lambda>issues.
       if issues \<noteq> [] then Inl (Invalid_strategy_source issues) else Inr c))"

subsection \<open>Records\<close>

record strategy_record =
  sg_id :: string
  sg_name :: string
  sg_created_at :: moment
  sg_updated_at :: moment
  sg_current_revision_id :: string
  sg_archived_at :: "moment option"

record revision_record =
  rv_id :: string
  rv_strategy_id :: string
  rv_parent_revision_id :: "string option"
  rv_canonical :: canonical
  rv_source_hash :: string
  rv_schema_version :: string
  rv_created_at :: moment

record revision_summary =
  rm_id :: string
  rm_strategy_id :: string
  rm_parent_revision_id :: "string option"
  rm_source_hash :: string
  rm_schema_version :: string
  rm_created_at :: moment

definition read_time :: "string \<Rightarrow> moment sres" where
  "read_time s = py_to_store (parse_timestamp s)"

definition read_optional_time :: "string option \<Rightarrow> moment option sres" where
  "read_optional_time s = (case s of None \<Rightarrow> Inr None | Some t \<Rightarrow> ebind (read_time t) (\<lambda>m. Inr (Some m)))"

definition read_strategy :: "strategy_row \<Rightarrow> strategy_record sres" where
  "read_strategy r =
     ebind (read_time (sr_created_at r)) (\<lambda>created.
     ebind (read_time (sr_updated_at r)) (\<lambda>updated.
     ebind (read_optional_time (sr_archived_at r)) (\<lambda>archived.
       Inr \<lparr>sg_id = sr_id r, sg_name = sr_name r, sg_created_at = created, sg_updated_at = updated,
            sg_current_revision_id = sr_current_revision_id r, sg_archived_at = archived\<rparr>)))"

definition read_revision :: "codec \<Rightarrow> revision_row \<Rightarrow> revision_record sres" where
  "read_revision k r =
     ebind (load_canonical k (rr_canonical_json r)) (\<lambda>c.
     ebind (read_time (rr_created_at r)) (\<lambda>created.
       Inr \<lparr>rv_id = rr_id r, rv_strategy_id = rr_strategy_id r, rv_parent_revision_id = rr_parent_revision_id r,
            rv_canonical = c, rv_source_hash = rr_source_hash r, rv_schema_version = rr_schema_version r,
            rv_created_at = created\<rparr>))"

definition read_summary :: "revision_row \<Rightarrow> revision_summary sres" where
  "read_summary r =
     ebind (read_time (rr_created_at r)) (\<lambda>created.
       Inr \<lparr>rm_id = rr_id r, rm_strategy_id = rr_strategy_id r, rm_parent_revision_id = rr_parent_revision_id r,
            rm_source_hash = rr_source_hash r, rm_schema_version = rr_schema_version r, rm_created_at = created\<rparr>)"

definition strategy_row_of :: "strategy_record \<Rightarrow> strategy_row" where
  "strategy_row_of s =
     \<lparr>sr_id = sg_id s, sr_name = sg_name s, sr_created_at = timestamp (sg_created_at s),
      sr_updated_at = timestamp (sg_updated_at s), sr_current_revision_id = sg_current_revision_id s,
      sr_archived_at = None\<rparr>"

definition revision_row_of :: "revision_record \<Rightarrow> string \<Rightarrow> revision_row" where
  "revision_row_of r text =
     \<lparr>rr_id = rv_id r, rr_strategy_id = rv_strategy_id r, rr_parent_revision_id = rv_parent_revision_id r,
      rr_canonical_json = text, rr_source_hash = rv_source_hash r, rr_schema_version = rv_schema_version r,
      rr_created_at = timestamp (rv_created_at r)\<rparr>"

subsection \<open>Transactions\<close>

text \<open>
  \<open>with connection: BEGIN IMMEDIATE ...\<close>: the database of the body on success; the database as
  it was when the body raises, with \<open>sqlite3.Error\<close> wrapped in the repository's own class.
\<close>

type_synonym 'a action = "database \<Rightarrow> 'a sres \<times> database"

definition transaction :: "store_error \<Rightarrow> (database \<Rightarrow> ('a \<times> database) sres) \<Rightarrow> 'a action" where
  "transaction e body db =
     (case on_sqlite e (body db) of Inl err \<Rightarrow> (Inl err, db) | Inr (x, db') \<Rightarrow> (Inr x, db'))"

definition abind :: "'a action \<Rightarrow> ('a \<Rightarrow> 'b action) \<Rightarrow> 'b action" where
  "abind m f db = (case m db of (Inl e, db') \<Rightarrow> (Inl e, db') | (Inr x, db') \<Rightarrow> f x db')"

definition query :: "(database \<Rightarrow> 'a sres) \<Rightarrow> 'a action" where
  "query f db = (f db, db)"

subsection \<open>The Strategy repository\<close>

definition repo_list_strategies :: "database \<Rightarrow> strategy_record list sres" where
  "repo_list_strategies db =
     emap read_strategy
       (order_by (\<lambda>x y. sr_updated_at y < sr_updated_at x \<or> (sr_updated_at x = sr_updated_at y \<and> sr_id x < sr_id y))
         (filter (\<lambda>r. sr_archived_at r = None) (db_strategies db)))"

definition strategy_row_at :: "string \<Rightarrow> database \<Rightarrow> strategy_row option" where
  "strategy_row_at i db = select_one (\<lambda>r. sr_id r = i) (db_strategies db)"

definition revision_row_at :: "string \<Rightarrow> database \<Rightarrow> revision_row option" where
  "revision_row_at i db = select_one (\<lambda>r. rr_id r = i) (db_revisions db)"

definition eopt :: "('a \<Rightarrow> 'e + 'b) \<Rightarrow> 'a option \<Rightarrow> 'e + 'b option" where
  "eopt f x = (case x of None \<Rightarrow> Inr None | Some y \<Rightarrow> ebind (f y) (\<lambda>z. Inr (Some z)))"

definition repo_get_strategy :: "string \<Rightarrow> database \<Rightarrow> strategy_record option sres" where
  "repo_get_strategy i db = eopt read_strategy (strategy_row_at i db)"

definition repo_get_revision :: "codec \<Rightarrow> string \<Rightarrow> string \<Rightarrow> database \<Rightarrow> revision_record option sres" where
  "repo_get_revision k strategy_id revision_id db =
     eopt (read_revision k) (select_one (\<lambda>r. rr_strategy_id r = strategy_id \<and> rr_id r = revision_id) (db_revisions db))"

definition repo_get_revision_by_id :: "codec \<Rightarrow> string \<Rightarrow> database \<Rightarrow> revision_record option sres" where
  "repo_get_revision_by_id k revision_id db = eopt (read_revision k) (revision_row_at revision_id db)"

definition repo_list_revisions :: "string \<Rightarrow> database \<Rightarrow> revision_summary list sres" where
  "repo_list_revisions strategy_id db =
     emap read_summary
       (order_by (newest_first rr_created_at rr_id) (filter (\<lambda>r. rr_strategy_id r = strategy_id) (db_revisions db)))"

definition repo_create_strategy :: "strategy_record \<Rightarrow> revision_record \<Rightarrow> string \<Rightarrow> unit action" where
  "repo_create_strategy s r text =
     transaction (Persistence_error ''Could not create Strategy.'') (\<lambda>db.
       ebind (insert_strategy (strategy_row_of s) db) (\<lambda>db1.
       ebind (insert_revision (revision_row_of r text) db1) (\<lambda>db2.
       ebind (commit db2) (\<lambda>db3. Inr ((), db3)))))"

datatype append_status = Created | Identical | Stale | Not_found | Archived | Adopted

record append_result =
  ap_status :: append_status
  ap_strategy :: "strategy_record option"
  ap_revision :: "revision_record option"

definition append_outcome :: "append_status \<Rightarrow> strategy_record option \<Rightarrow> revision_record option \<Rightarrow> append_result" where
  "append_outcome st s r = \<lparr>ap_status = st, ap_strategy = s, ap_revision = r\<rparr>"

text \<open>
  The checks both appending operations share. \<open>Inl\<close> is an early return after \<open>rollback\<close>; \<open>Inr\<close>
  gives the Strategy to append to.
\<close>

definition append_checks ::
  "codec \<Rightarrow> string \<Rightarrow> string \<Rightarrow> string \<Rightarrow> database \<Rightarrow> (append_result + strategy_record) sres" where
  "append_checks k strategy_id expected text db =
     (case strategy_row_at strategy_id db of
        None \<Rightarrow> Inr (Inl (append_outcome Not_found None None))
      | Some row \<Rightarrow>
          ebind (read_strategy row) (\<lambda>s.
          case revision_row_at (sg_current_revision_id s) db of
            None \<Rightarrow> Inl (Persistence_error ''Strategy current Revision is missing.'')
          | Some current_row \<Rightarrow>
              ebind (read_revision k current_row) (\<lambda>current.
                if sg_archived_at s \<noteq> None then Inr (Inl (append_outcome Archived (Some s) (Some current)))
                else if sg_current_revision_id s \<noteq> expected then Inr (Inl (append_outcome Stale (Some s) (Some current)))
                else if rr_canonical_json current_row = text then Inr (Inl (append_outcome Identical (Some s) (Some current)))
                else Inr (Inr s))))"

text \<open>Inserting the Revision and moving the Strategy to it.\<close>

definition advance_strategy :: "string \<Rightarrow> revision_record \<Rightarrow> string \<Rightarrow> database \<Rightarrow> database sres" where
  "advance_strategy strategy_id r text db =
     ebind (insert_revision (revision_row_of r text) db) (\<lambda>db1.
       Inr (fst (update_strategies (\<lambda>s. sr_id s = strategy_id)
         (\<lambda>s. s\<lparr>sr_current_revision_id := rv_id r, sr_updated_at := timestamp (rv_created_at r)\<rparr>) db1)))"

definition advanced :: "strategy_record \<Rightarrow> revision_record \<Rightarrow> append_result" where
  "advanced s r =
     append_outcome Created (Some (s\<lparr>sg_current_revision_id := rv_id r, sg_updated_at := rv_created_at r\<rparr>)) (Some r)"

definition repo_append_revision ::
  "codec \<Rightarrow> string \<Rightarrow> string \<Rightarrow> revision_record \<Rightarrow> string \<Rightarrow> append_result action" where
  "repo_append_revision k strategy_id expected r text =
     transaction (Persistence_error ''Could not save Strategy Revision.'') (\<lambda>db.
       ebind (append_checks k strategy_id expected text db) (\<lambda>checked.
       case checked of
         Inl early \<Rightarrow> Inr (early, db)
       | Inr s \<Rightarrow>
           ebind (advance_strategy strategy_id r text db) (\<lambda>db1.
           ebind (commit db1) (\<lambda>db2. Inr (advanced s r, db2)))))"

text \<open>An earlier adoption of the same Candidate is returned as it is.\<close>

definition adopted_before :: "codec \<Rightarrow> adoption_row \<Rightarrow> string \<Rightarrow> database \<Rightarrow> append_result sres" where
  "adopted_before k a strategy_id db =
     (if ar_strategy_id a \<noteq> strategy_id then Inl (Persistence_error ''Candidate adoption Strategy lineage is invalid.'')
      else case (strategy_row_at strategy_id db,
                 select_one (\<lambda>r. rr_id r = ar_revision_id a \<and> rr_strategy_id r = strategy_id) (db_revisions db)) of
             (Some srow, Some rrow) \<Rightarrow>
               ebind (read_strategy srow) (\<lambda>s.
               ebind (read_revision k rrow) (\<lambda>r. Inr (append_outcome Adopted (Some s) (Some r))))
           | _ \<Rightarrow> Inl (Persistence_error ''Candidate adoption history is incomplete.''))"

definition repo_append_candidate_revision ::
  "codec \<Rightarrow> string \<Rightarrow> string \<Rightarrow> string \<Rightarrow> revision_record \<Rightarrow> string \<Rightarrow> append_result action" where
  "repo_append_candidate_revision k candidate_id strategy_id expected r text =
     transaction (Persistence_error ''Could not adopt Candidate as a Strategy Revision.'') (\<lambda>db.
       case select_one (\<lambda>a. ar_candidate_id a = candidate_id) (db_adoptions db) of
         Some a \<Rightarrow> ebind (adopted_before k a strategy_id db) (\<lambda>early. Inr (early, db))
       | None \<Rightarrow>
           ebind (append_checks k strategy_id expected text db) (\<lambda>checked.
           case checked of
             Inl early \<Rightarrow> Inr (early, db)
           | Inr s \<Rightarrow>
               ebind (advance_strategy strategy_id r text db) (\<lambda>db1.
               ebind (insert_adoption \<lparr>ar_candidate_id = candidate_id, ar_strategy_id = strategy_id,
                        ar_revision_id = rv_id r, ar_adopted_at = timestamp (rv_created_at r)\<rparr> db1) (\<lambda>db2.
               ebind (commit db2) (\<lambda>db3. Inr (advanced s r, db3))))))"

text \<open>The row is read inside the transaction and converted after it.\<close>

definition update_active :: "string \<Rightarrow> (strategy_row \<Rightarrow> strategy_row) \<Rightarrow> strategy_record option action" where
  "update_active strategy_id f db =
     (let (db1, n) = update_strategies (\<lambda>s. sr_id s = strategy_id \<and> sr_archived_at s = None) f db
      in if n = 0 then (Inr None, db1)
         else (case strategy_row_at strategy_id db1 of
                 None \<Rightarrow> (Inl (Python_error Type_error), db1)
               | Some row \<Rightarrow> (ebind (read_strategy row) (\<lambda>s. Inr (Some s)), db1)))"

definition repo_rename_strategy :: "string \<Rightarrow> string \<Rightarrow> moment \<Rightarrow> strategy_record option action" where
  "repo_rename_strategy strategy_id name now =
     update_active strategy_id (\<lambda>s. s\<lparr>sr_name := name, sr_updated_at := timestamp now\<rparr>)"

definition repo_archive_strategy :: "string \<Rightarrow> moment \<Rightarrow> strategy_record option action" where
  "repo_archive_strategy strategy_id now =
     update_active strategy_id (\<lambda>s. s\<lparr>sr_archived_at := Some (timestamp now), sr_updated_at := timestamp now\<rparr>)"

subsection \<open>The Strategy service\<close>

record strategy_detail =
  sx_strategy :: strategy_record
  sx_current_revision :: revision_record

record save_response =
  sv_created :: bool
  sv_strategy :: strategy_record
  sv_revision :: revision_record

definition require_strategy :: "string \<Rightarrow> database \<Rightarrow> strategy_record sres" where
  "require_strategy i db =
     ebind (repo_get_strategy i db) (\<lambda>s. case s of None \<Rightarrow> Inl Strategy_not_found | Some x \<Rightarrow> Inr x)"

definition current_revision_of :: "codec \<Rightarrow> strategy_record \<Rightarrow> string \<Rightarrow> database \<Rightarrow> strategy_detail sres" where
  "current_revision_of k s strategy_id db =
     ebind (repo_get_revision k strategy_id (sg_current_revision_id s) db) (\<lambda>r.
     case r of
       None \<Rightarrow> Inl (Persistence_error ''Strategy current Revision is missing.'')
     | Some x \<Rightarrow> Inr \<lparr>sx_strategy = s, sx_current_revision = x\<rparr>)"

definition new_revision :: "codec \<Rightarrow> string \<Rightarrow> string \<Rightarrow> string option \<Rightarrow> canonical \<Rightarrow> moment \<Rightarrow> revision_record" where
  "new_revision k revision_id strategy_id parent c now =
     \<lparr>rv_id = revision_id, rv_strategy_id = strategy_id, rv_parent_revision_id = parent, rv_canonical = c,
      rv_source_hash = co_digest k c, rv_schema_version = api_version c, rv_created_at = now\<rparr>"

definition list_strategies :: "database \<Rightarrow> strategy_record list sres" where
  "list_strategies db = repo_list_strategies db"

definition create_strategy :: "codec \<Rightarrow> moment \<Rightarrow> string \<Rightarrow> string \<Rightarrow> string \<Rightarrow> raw_source \<Rightarrow> strategy_detail action" where
  "create_strategy k now strategy_id revision_id name source =
     abind (query (\<lambda>_. validate_source k source)) (\<lambda>c.
       let s = \<lparr>sg_id = strategy_id, sg_name = name, sg_created_at = now, sg_updated_at = now,
                sg_current_revision_id = revision_id, sg_archived_at = None\<rparr>;
           r = new_revision k revision_id strategy_id None c now
       in abind (repo_create_strategy s r (co_dump k c))
            (\<lambda>_. query (\<lambda>_. Inr \<lparr>sx_strategy = s, sx_current_revision = r\<rparr>)))"

definition get_strategy :: "codec \<Rightarrow> string \<Rightarrow> database \<Rightarrow> strategy_detail sres" where
  "get_strategy k strategy_id db =
     ebind (require_strategy strategy_id db) (\<lambda>s. current_revision_of k s strategy_id db)"

definition rename_strategy :: "codec \<Rightarrow> moment \<Rightarrow> string \<Rightarrow> string \<Rightarrow> strategy_detail action" where
  "rename_strategy k now strategy_id name =
     abind (query (require_strategy strategy_id)) (\<lambda>s.
       if sg_archived_at s \<noteq> None then query (\<lambda>_. Inl (Strategy_archived ''Archived Strategies cannot be renamed.''))
       else abind (repo_rename_strategy strategy_id name now) (\<lambda>updated.
         case updated of
           None \<Rightarrow> query (\<lambda>_. Inl (Strategy_archived ''Archived Strategies cannot be renamed.''))
         | Some u \<Rightarrow> query (current_revision_of k u strategy_id)))"

definition archive_strategy :: "moment \<Rightarrow> string \<Rightarrow> strategy_record action" where
  "archive_strategy now strategy_id =
     abind (query (require_strategy strategy_id)) (\<lambda>s.
       if sg_archived_at s \<noteq> None then query (\<lambda>_. Inr s)
       else abind (repo_archive_strategy strategy_id now) (\<lambda>archived.
         case archived of None \<Rightarrow> query (require_strategy strategy_id) | Some a \<Rightarrow> query (\<lambda>_. Inr a)))"

definition list_revisions :: "string \<Rightarrow> database \<Rightarrow> revision_summary list sres" where
  "list_revisions strategy_id db =
     ebind (require_strategy strategy_id db) (\<lambda>_. repo_list_revisions strategy_id db)"

definition found_revision :: "revision_record option \<Rightarrow> revision_record sres" where
  "found_revision r = (case r of None \<Rightarrow> Inl Revision_not_found | Some x \<Rightarrow> Inr x)"

definition get_revision :: "codec \<Rightarrow> string \<Rightarrow> string \<Rightarrow> database \<Rightarrow> revision_record sres" where
  "get_revision k strategy_id revision_id db =
     ebind (require_strategy strategy_id db) (\<lambda>_.
     ebind (repo_get_revision k strategy_id revision_id db) found_revision)"

definition get_revision_by_id :: "codec \<Rightarrow> string \<Rightarrow> database \<Rightarrow> revision_record sres" where
  "get_revision_by_id k revision_id db = ebind (repo_get_revision_by_id k revision_id db) found_revision"

text \<open>How a service reads the outcome of an append; \<open>message\<close> is the one for archived Strategies.\<close>

definition append_response :: "string \<Rightarrow> append_result \<Rightarrow> save_response sres" where
  "append_response message a =
     (if ap_status a = Not_found then Inl Strategy_not_found
      else if ap_status a = Archived then Inl (Strategy_archived message)
      else if ap_status a = Stale
      then (case ap_strategy a of
              None \<Rightarrow> Inl (Python_error Assertion_error)
            | Some s \<Rightarrow> Inl (Stale_revision (sg_current_revision_id s)))
      else (case (ap_strategy a, ap_revision a) of
              (Some s, Some r) \<Rightarrow> Inr \<lparr>sv_created = (ap_status a = Created), sv_strategy = s, sv_revision = r\<rparr>
            | _ \<Rightarrow> Inl (Python_error Assertion_error)))"

definition save_revision :: "codec \<Rightarrow> moment \<Rightarrow> string \<Rightarrow> string \<Rightarrow> string \<Rightarrow> raw_source \<Rightarrow> save_response action" where
  "save_revision k now revision_id strategy_id expected source =
     abind (query (\<lambda>_. validate_source k source)) (\<lambda>c.
     abind (repo_append_revision k strategy_id expected (new_revision k revision_id strategy_id (Some expected) c now)
              (co_dump k c)) (\<lambda>a.
     query (\<lambda>_. append_response ''Archived Strategies cannot accept new Revisions.'' a)))"

definition adopt_candidate_revision ::
  "codec \<Rightarrow> moment \<Rightarrow> string \<Rightarrow> string \<Rightarrow> string \<Rightarrow> string \<Rightarrow> raw_source \<Rightarrow> save_response action" where
  "adopt_candidate_revision k now revision_id candidate_id strategy_id expected source =
     abind (query (\<lambda>_. validate_source k source)) (\<lambda>c.
     abind (repo_append_candidate_revision k candidate_id strategy_id expected
              (new_revision k revision_id strategy_id (Some expected) c now) (co_dump k c)) (\<lambda>a.
     query (\<lambda>_. append_response ''Archived Strategies cannot accept a Candidate.'' a)))"

end
