(* ===== verification/Decision_Evidence.thy ===== *)
theory Decision_Evidence
  imports Program_Validation Calendar Python_Text
begin

text \<open>
  Decision Evidence: the typed facts a backtest leaves about each decision
  (\<open>decision_evidence/models.py\<close>). Fields with a fixed list of texts are datatypes here; a
  \<open>stopping_stage\<close> that admits one text is a truth value. Decimals appear by their value, which is
  what Python compares.
\<close>

subsection \<open>Evidence\<close>

record source_ref =
  sc_role :: string
  sc_component_id :: string
  sc_field_path :: "string option"

record asset_predicate =
  xp_asset :: string
  xp_observed :: decimal
  xp_passed :: bool
  xp_stopped :: bool

record filter_clause =
  fc_operator :: compare_op
  fc_threshold :: decimal

record filter_evidence =
  fe_operator :: compare_op
  fe_threshold :: decimal
  fe_clauses :: "filter_clause list"
  fe_evaluations :: "asset_predicate list"
  fe_decision_universe :: "string list option"

datatype predicate_branch = Then_branch | Otherwise_branch

record predicate_evidence =
  pe_asset :: string
  pe_lookback_bars :: int
  pe_operator :: compare_op
  pe_observed :: "decimal option"
  pe_threshold :: decimal
  pe_outcome :: bool
  pe_branch :: predicate_branch

datatype condition_scope = Predicate_scope | Eligibility_scope

record value_condition_evidence =
  vd_scope :: condition_scope
  vd_subject :: string
  vd_operator :: compare_op
  vd_left_definition :: "(string \<times> json) list"
  vd_left_type :: string
  vd_left_observed :: "decimal option"
  vd_right_definition :: "(string \<times> json) list"
  vd_right_type :: string
  vd_right_observed :: "decimal option"
  vd_outcome :: bool

datatype selection_stop = Rank_cutoff | Primary_selection_incomplete | Fallback_replacement

record selection_asset_outcome =
  ao_asset :: string
  ao_signal_present :: bool
  ao_rank :: int
  ao_primary_selected :: bool
  ao_stopping_stage :: "selection_stop option"

datatype selection_decision = Executed | Insufficient | Skipped | Signal

record selection_event =
  xe_scores :: "(string, decimal) dict"
  xe_ranked :: "string list"
  xe_candidates :: "string list"
  xe_primary_selected :: "string list"
  xe_decision :: selection_decision
  xe_required_count :: "int option"
  xe_asset_outcomes :: "selection_asset_outcome list option"

datatype resample = Resample_once | Resample_per_event

record random_selection_evidence =
  ra_universe :: "string list"
  ra_selected :: "string list"
  ra_resample :: resample
  ra_required_count :: "int option"

record fallback_evidence =
  fb_asset :: string
  fb_activated :: bool

datatype selection_source = Primary_source | Fallback_source

record final_selection_evidence =
  fs_selected :: "string list"
  fs_source :: selection_source

record cooldown_evidence =
  cd_asset :: string
  cd_signal_candidate :: bool
  cd_last_exit :: "cal_date option"
  cd_elapsed_sessions :: "int option"
  cd_required_sessions :: int
  cd_eligible :: bool
  cd_stopped :: bool

record state_mutation_evidence =
  st_asset :: string
  st_old_value :: "cal_date option"
  st_new_value :: cal_date

datatype snapshot_schedule = Monthly_schedule | Quarterly_schedule

record snapshot_refresh_evidence =
  sf_schedule :: snapshot_schedule
  sf_local_targets :: "(string, decimal) dict"
  sf_snapshot_session :: cal_date

record snapshot_usage_evidence =
  su_schedule :: snapshot_schedule
  su_snapshots :: "(string, cal_date) dict"
  su_executed :: bool

record sleeve_evidence =
  sl_local_selected :: "string list"
  sl_local_targets :: "(string, decimal) dict"
  sl_allocation :: decimal
  sl_scaled_targets :: "(string, decimal) dict"

record final_targets_evidence =
  ft_selected :: "string list"
  ft_targets :: "(string, decimal) dict"

datatype evidence =
    Ev_filter filter_evidence
  | Ev_predicate predicate_evidence
  | Ev_value_condition value_condition_evidence
  | Ev_selection selection_event
  | Ev_random_selection random_selection_evidence
  | Ev_fallback fallback_evidence
  | Ev_final_selection final_selection_evidence
  | Ev_cooldown cooldown_evidence
  | Ev_state_mutation state_mutation_evidence
  | Ev_snapshot_refresh snapshot_refresh_evidence
  | Ev_snapshot_usage snapshot_usage_evidence
  | Ev_sleeve sleeve_evidence
  | Ev_final_targets final_targets_evidence

datatype evidence_kind =
    Kd_filter | Kd_predicate | Kd_value_condition | Kd_selection | Kd_random_selection | Kd_fallback
  | Kd_final_selection | Kd_cooldown | Kd_state_mutation | Kd_snapshot_refresh | Kd_snapshot_usage
  | Kd_sleeve_contribution | Kd_final_targets

fun kind_of :: "evidence \<Rightarrow> evidence_kind" where
  "kind_of (Ev_filter _) = Kd_filter"
| "kind_of (Ev_predicate _) = Kd_predicate"
| "kind_of (Ev_value_condition _) = Kd_value_condition"
| "kind_of (Ev_selection _) = Kd_selection"
| "kind_of (Ev_random_selection _) = Kd_random_selection"
| "kind_of (Ev_fallback _) = Kd_fallback"
| "kind_of (Ev_final_selection _) = Kd_final_selection"
| "kind_of (Ev_cooldown _) = Kd_cooldown"
| "kind_of (Ev_state_mutation _) = Kd_state_mutation"
| "kind_of (Ev_snapshot_refresh _) = Kd_snapshot_refresh"
| "kind_of (Ev_snapshot_usage _) = Kd_snapshot_usage"
| "kind_of (Ev_sleeve _) = Kd_sleeve_contribution"
| "kind_of (Ev_final_targets _) = Kd_final_targets"

fun kind_text :: "evidence_kind \<Rightarrow> string" where
  "kind_text Kd_filter = ''filter''"
| "kind_text Kd_predicate = ''predicate''"
| "kind_text Kd_value_condition = ''value_condition''"
| "kind_text Kd_selection = ''selection''"
| "kind_text Kd_random_selection = ''random_selection''"
| "kind_text Kd_fallback = ''fallback''"
| "kind_text Kd_final_selection = ''final_selection''"
| "kind_text Kd_cooldown = ''cooldown''"
| "kind_text Kd_state_mutation = ''state_mutation''"
| "kind_text Kd_snapshot_refresh = ''snapshot_refresh''"
| "kind_text Kd_snapshot_usage = ''snapshot_usage''"
| "kind_text Kd_sleeve_contribution = ''sleeve_contribution''"
| "kind_text Kd_final_targets = ''final_targets''"

subsection \<open>Events\<close>

datatype phase = Ph_evaluation | Ph_selection | Ph_snapshot_commit | Ph_portfolio_execution | Ph_state_mutation

fun phase_text :: "phase \<Rightarrow> string" where
  "phase_text Ph_evaluation = ''evaluation''"
| "phase_text Ph_selection = ''selection''"
| "phase_text Ph_snapshot_commit = ''snapshot_commit''"
| "phase_text Ph_portfolio_execution = ''portfolio_execution''"
| "phase_text Ph_state_mutation = ''state_mutation''"

record collected_event =
  ce_schema_version :: int
  ce_sequence :: int
  ce_session :: cal_date
  ce_phase :: phase
  ce_sources :: "source_ref list"
  ce_evidence :: evidence

record event_summary =
  es_id :: string
  es_run_id :: string
  es_ordinal :: int
  es_schema_version :: int
  es_session :: cal_date
  es_phase :: phase
  es_kind :: evidence_kind
  es_sources :: "source_ref list"

record event_detail = event_summary +
  ed_evidence :: evidence

text \<open>The pattern of \<open>SourceComponentRef.field_path\<close>.\<close>

definition is_lower_letter :: "char \<Rightarrow> bool" where
  "is_lower_letter c \<longleftrightarrow> (let n = (of_char c :: nat) in 97 \<le> n \<and> n \<le> 122)"

definition indexed_path :: "string \<Rightarrow> string \<Rightarrow> bool" where
  "indexed_path name s \<longleftrightarrow>
     take (length name + 1) s = name @ ''['' \<and>
     (let rest = drop (length name + 1) s in
      rest \<noteq> [] \<and> last rest = CHR '']'' \<and> butlast rest \<noteq> [] \<and> list_all (\<lambda>c. digit_val c \<noteq> None) (butlast rest))"

definition valid_field_path :: "string \<Rightarrow> bool" where
  "valid_field_path s \<longleftrightarrow>
     s = ''condition'' \<or> indexed_path ''actions'' s \<or> indexed_path ''else_actions'' s \<or>
     (take 7 s = ''config.'' \<and> drop 7 s \<noteq> [] \<and> is_lower_letter (hd (drop 7 s)) \<and>
      list_all (\<lambda>c. is_lower_letter c \<or> digit_val c \<noteq> None \<or> c = CHR ''_'') (drop 7 s))"

end
