(* ===== verification/Evidence_Collector.thy ===== *)
theory Evidence_Collector
  imports Decision_Evidence
begin

text \<open>
  \<open>collect_decision_evidence\<close> of \<open>decision_evidence/collector.py\<close>: the evidence lines of a log, read
  into typed events. Fields are a dictionary that \<open>pop\<close> consumes; \<open>json.loads\<close> is a parameter.
  \<open>Contract\<close> is \<open>DecisionEvidenceError\<close>; \<open>Raised\<close> is any other exception before \<open>_record\<close> turns it
  into one.
\<close>

subsection \<open>Reading fields\<close>

datatype evidence_error = Contract string | Raised py_error

type_synonym 'a eres = "evidence_error + 'a"

type_synonym fields = "(string, string) dict"

definition raised :: "'a res \<Rightarrow> 'a eres" where
  "raised m = map_sum Raised id m"

definition dpop :: "'k \<Rightarrow> ('k, 'v) dict \<Rightarrow> ('k, 'v) dict" where
  "dpop k d = filter (\<lambda>(x, _). x \<noteq> k) d"

text \<open>A reader takes the fields that are left to its value and the fields it leaves.\<close>

type_synonym 'a reader = "fields \<Rightarrow> ('a \<times> fields) eres"

definition rbind :: "'a reader \<Rightarrow> ('a \<Rightarrow> 'b reader) \<Rightarrow> 'b reader" where
  "rbind m f d = ebind (m d) (\<lambda>(x, d'). f x d')"

definition rlift :: "'a eres \<Rightarrow> 'a reader" where
  "rlift m d = ebind m (\<lambda>x. Inr (x, d))"

definition pop_field :: "string \<Rightarrow> string reader" where
  "pop_field k d = (case dget d k of None \<Rightarrow> Inl (Raised Key_error) | Some v \<Rightarrow> Inr (v, dpop k d))"

definition pop_field_or :: "string \<Rightarrow> 'a \<Rightarrow> (string \<Rightarrow> 'a) \<Rightarrow> 'a reader" where
  "pop_field_or k x f d = (case dget d k of None \<Rightarrow> Inr (x, d) | Some v \<Rightarrow> Inr (f v, dpop k d))"

definition peek_field :: "string \<Rightarrow> string reader" where
  "peek_field k d = (case dget d k of None \<Rightarrow> Inl (Raised Key_error) | Some v \<Rightarrow> Inr (v, d))"

definition pop_as :: "(string \<Rightarrow> 'a eres) \<Rightarrow> string \<Rightarrow> 'a reader" where
  "pop_as f k = rbind (pop_field k) (\<lambda>v. rlift (f v))"

definition require :: "bool \<Rightarrow> string \<Rightarrow> unit reader" where
  "require ok message = rlift (if ok then Inr () else Inl (Contract message))"

text \<open>One of a \<open>Literal\<close>'s texts; pydantic raises a \<open>ValueError\<close> otherwise.\<close>

definition literal :: "(string \<times> 'a) list \<Rightarrow> string \<Rightarrow> 'a eres" where
  "literal choices s = (case map_of choices s of None \<Rightarrow> Inl (Raised (Value_error ''ValidationError'')) | Some x \<Rightarrow> Inr x)"

definition checked :: "bool \<Rightarrow> 'a \<Rightarrow> 'a eres" where
  "checked ok x = (if ok then Inr x else Inl (Raised (Value_error ''ValidationError'')))"

subsection \<open>Values\<close>

definition symbols_of :: "string \<Rightarrow> string list" where
  "symbols_of v = filter (\<lambda>w. w \<noteq> []) (split_on CHR '','' v)"

definition entry_of :: "char \<Rightarrow> string \<Rightarrow> (string \<times> string) eres" where
  "entry_of c item =
     (case split_first (\<lambda>x. x = c) item of None \<Rightarrow> Inl (Raised (Value_error ''unpack'')) | Some p \<Rightarrow> Inr p)"

definition map_field :: "(string \<Rightarrow> 'a eres) \<Rightarrow> string \<Rightarrow> (string, 'a) dict eres" where
  "map_field f v =
     ebind (emap (\<lambda>item. ebind (entry_of CHR ''='' item) (\<lambda>(key, raw). ebind (f raw) (\<lambda>x. Inr (key, x)))) (symbols_of v))
       (\<lambda>ps. Inr (dict_of ps))"

definition decimal_of :: "string \<Rightarrow> py_decimal eres" where
  "decimal_of s = raised (python_decimal s)"

definition int_of :: "string \<Rightarrow> int eres" where
  "int_of s = raised (python_int s)"

definition date_of :: "string \<Rightarrow> cal_date eres" where
  "date_of s = raised (parse_date s)"

definition decimal_map :: "string \<Rightarrow> (string, py_decimal) dict eres" where
  "decimal_map = map_field decimal_of"

definition date_map :: "string \<Rightarrow> (string, cal_date) dict eres" where
  "date_map = map_field date_of"

definition int_map :: "string \<Rightarrow> (string, int) dict eres" where
  "int_map = map_field int_of"

definition string_map :: "string \<Rightarrow> (string, string) dict eres" where
  "string_map = map_field Inr"

definition bool_of :: "string \<Rightarrow> bool eres" where
  "bool_of v =
     (if v = ''true'' then Inr True else if v = ''false'' then Inr False
      else Inl (Contract ''Boolean evidence values must be true or false.''))"

definition optional_date :: "string \<Rightarrow> cal_date option eres" where
  "optional_date v = (if v = ''none'' then Inr None else ebind (date_of v) (\<lambda>d. Inr (Some d)))"

definition optional_int :: "string \<Rightarrow> int option eres" where
  "optional_int v = (if v = ''none'' then Inr None else ebind (int_of v) (\<lambda>d. Inr (Some d)))"

text \<open>pydantic accepts finite decimals only.\<close>

definition finite_value :: "py_decimal \<Rightarrow> decimal eres" where
  "finite_value d = checked (is_finite d) (decimal_value d)"

definition finite_map :: "(string, py_decimal) dict \<Rightarrow> (string, decimal) dict eres" where
  "finite_map m = emap (\<lambda>(k, d). ebind (finite_value d) (\<lambda>x. Inr (k, x))) m"

definition observed_value :: "string \<Rightarrow> py_decimal option eres" where
  "observed_value s = (if s = [] then Inr None else ebind (decimal_of s) (\<lambda>d. Inr (Some d)))"

definition finite_option :: "py_decimal option \<Rightarrow> decimal option eres" where
  "finite_option d = (case d of None \<Rightarrow> Inr None | Some x \<Rightarrow> ebind (finite_value x) (\<lambda>v. Inr (Some v)))"

definition comparator :: "string \<Rightarrow> compare_op eres" where
  "comparator = literal [(''gt'', Gt), (''gte'', Gte), (''lt'', Lt), (''lte'', Lte)]"

definition json_object :: "(string \<Rightarrow> json res) \<Rightarrow> string \<Rightarrow> json eres" where
  "json_object loads s = raised (loads s)"

definition object_of :: "json \<Rightarrow> (string \<times> json) list eres" where
  "object_of j = (case j of J_object kvs \<Rightarrow> Inr kvs | _ \<Rightarrow> Inl (Raised (Value_error ''ValidationError'')))"

subsection \<open>Payloads\<close>

definition read_value_condition :: "(string \<Rightarrow> json res) \<Rightarrow> evidence reader" where
  "read_value_condition loads =
     rbind (pop_field ''left_observed'') (\<lambda>left_text.
     rbind (pop_field ''right_observed'') (\<lambda>right_text.
     rbind (pop_field ''scope'') (\<lambda>scope.
     rbind (pop_field ''subject'') (\<lambda>subject.
     rbind (pop_field ''operator'') (\<lambda>operator.
     rbind (pop_as (json_object loads) ''left_definition'') (\<lambda>left_definition.
     rbind (pop_field ''left_type'') (\<lambda>left_type.
     rbind (rlift (observed_value left_text)) (\<lambda>left.
     rbind (pop_as (json_object loads) ''right_definition'') (\<lambda>right_definition.
     rbind (pop_field ''right_type'') (\<lambda>right_type.
     rbind (rlift (observed_value right_text)) (\<lambda>right.
     rbind (pop_as bool_of ''outcome'') (\<lambda>outcome.
     rlift (
       ebind (literal [(''predicate'', Predicate_scope), (''eligibility'', Eligibility_scope)] scope) (\<lambda>sc.
       ebind (comparator operator) (\<lambda>op.
       ebind (object_of left_definition) (\<lambda>ld.
       ebind (finite_option left) (\<lambda>lv.
       ebind (object_of right_definition) (\<lambda>rd.
       ebind (finite_option right) (\<lambda>rv.
         Inr (Ev_value_condition
           \<lparr>vd_scope = sc, vd_subject = subject, vd_operator = op, vd_left_definition = ld, vd_left_type = left_type,
            vd_left_observed = lv, vd_right_definition = rd, vd_right_type = right_type, vd_right_observed = rv,
            vd_outcome = outcome\<rparr>))))))))))))))))))))"

definition read_predicate :: "evidence reader" where
  "read_predicate =
     rbind (pop_field ''observed'') (\<lambda>observed_text.
     rbind (pop_field ''asset'') (\<lambda>asset.
     rbind (pop_field ''measure'') (\<lambda>measure.
     rbind (pop_as int_of ''lookback_bars'') (\<lambda>lookback.
     rbind (pop_field ''operator'') (\<lambda>operator.
     rbind (rlift (observed_value observed_text)) (\<lambda>observed.
     rbind (pop_as decimal_of ''threshold'') (\<lambda>threshold.
     rbind (pop_as bool_of ''outcome'') (\<lambda>outcome.
     rbind (pop_field ''branch'') (\<lambda>branch.
     rlift (
       ebind (literal [(''trailing_return'', ())] measure) (\<lambda>_.
       ebind (checked (1 \<le> lookback) lookback) (\<lambda>lb.
       ebind (comparator operator) (\<lambda>op.
       ebind (finite_option observed) (\<lambda>ov.
       ebind (finite_value threshold) (\<lambda>t.
       ebind (literal [(''then'', Then_branch), (''otherwise'', Otherwise_branch)] branch) (\<lambda>br.
         Inr (Ev_predicate
           \<lparr>pe_asset = asset, pe_lookback_bars = lb, pe_operator = op, pe_observed = ov, pe_threshold = t,
            pe_outcome = outcome, pe_branch = br\<rparr>)))))))))))))))))"

definition clause_of :: "string \<Rightarrow> filter_clause eres" where
  "clause_of item =
     ebind (entry_of CHR '':'' item) (\<lambda>(operator, threshold).
     ebind (decimal_of threshold) (\<lambda>d.
     ebind (comparator operator) (\<lambda>op.
     ebind (finite_value d) (\<lambda>t. Inr \<lparr>fc_operator = op, fc_threshold = t\<rparr>))))"

definition evaluation_of :: "bool \<Rightarrow> string list \<Rightarrow> string list \<Rightarrow> string \<times> py_decimal \<Rightarrow> asset_predicate eres" where
  "evaluation_of v2 eligible rejected = (\<lambda>(asset, d).
     ebind (finite_value d) (\<lambda>x.
       Inr \<lparr>xp_asset = asset, xp_observed = x, xp_passed = (asset \<in> set eligible),
            xp_stopped = (v2 \<and> asset \<in> set rejected)\<rparr>))"

definition read_filter :: "int \<Rightarrow> evidence reader" where
  "read_filter version =
     rbind (pop_as decimal_map ''scores'') (\<lambda>scores.
     rbind (pop_field ''eligible'') (\<lambda>eligible_text.
     rbind (pop_field ''rejected'') (\<lambda>rejected_text.
       let eligible = symbols_of eligible_text; rejected = symbols_of rejected_text in
     rbind (require (set (eligible @ rejected) = set (dkeys scores) \<and> set eligible \<inter> set rejected = {})
              ''Filter evidence does not partition observations.'') (\<lambda>_.
     rbind (if 2 \<le> version then rbind (pop_field ''decision_universe'') (\<lambda>t. rlift (Inr (Some (symbols_of t)))) else rlift (Inr None)) (\<lambda>universe.
     rbind (require (case universe of None \<Rightarrow> True | Some u \<Rightarrow> set (dkeys scores) \<subseteq> set u)
              ''Filter evaluations must belong to the decision universe.'') (\<lambda>_.
     rbind (pop_field_or ''clauses'' [] id) (\<lambda>clause_text.
     rbind (rlift (emap clause_of (symbols_of clause_text))) (\<lambda>clauses.
     rbind (pop_field ''operator'') (\<lambda>operator.
     rbind (pop_as decimal_of ''threshold'') (\<lambda>threshold.
     rlift (
       ebind (emap (evaluation_of (2 \<le> version) eligible rejected) scores) (\<lambda>evaluations.
       ebind (comparator operator) (\<lambda>op.
       ebind (finite_value threshold) (\<lambda>t.
         Inr (Ev_filter \<lparr>fe_operator = op, fe_threshold = t, fe_clauses = clauses, fe_evaluations = evaluations,
                         fe_decision_universe = universe\<rparr>)))))))))))))))"

definition stop_of :: "string option \<Rightarrow> selection_stop option eres" where
  "stop_of s =
     (case s of
        None \<Rightarrow> Inr None
      | Some t \<Rightarrow> ebind (literal [(''rank_cutoff'', Rank_cutoff), (''primary_selection_incomplete'', Primary_selection_incomplete),
                             (''fallback_replacement'', Fallback_replacement)] t) (\<lambda>x. Inr (Some x)))"

definition outcome_of ::
  "string list \<Rightarrow> (string, int) dict \<Rightarrow> string list \<Rightarrow> (string, string) dict \<Rightarrow> string \<Rightarrow> selection_asset_outcome eres" where
  "outcome_of present ranks primary stops asset =
     ebind (case dget ranks asset of None \<Rightarrow> Inl (Raised Key_error) | Some r \<Rightarrow> checked (1 \<le> r) r) (\<lambda>rank.
     ebind (stop_of (dget stops asset)) (\<lambda>stop.
       Inr \<lparr>ao_asset = asset, ao_signal_present = (asset \<in> set present), ao_rank = rank,
            ao_primary_selected = (asset \<in> set primary), ao_stopping_stage = stop\<rparr>))"

text \<open>The second version of selection evidence gives an outcome for each asset.\<close>

definition read_outcomes :: "int \<Rightarrow> selection_asset_outcome list reader" where
  "read_outcomes needed =
     rbind (pop_field ''evaluated'') (\<lambda>evaluated_text.
     rbind (pop_field ''signal_present'') (\<lambda>present_text.
     rbind (pop_field ''signal_absent'') (\<lambda>absent_text.
     rbind (pop_as int_map ''ranks'') (\<lambda>ranks.
     rbind (pop_as string_map ''stops'') (\<lambda>stops.
     rbind (peek_field ''ranked'') (\<lambda>ranked_text.
     rbind (peek_field ''candidates'') (\<lambda>candidates_text.
       let evaluated = symbols_of evaluated_text; present = symbols_of present_text; absent = symbols_of absent_text;
           ranked = symbols_of ranked_text; candidates = symbols_of candidates_text in
     rbind (require (set (present @ absent) = set evaluated \<and> set present \<inter> set absent = {})
              ''Selection signal outcomes must partition evaluated assets.'') (\<lambda>_.
     rbind (require (set (dkeys ranks) = set evaluated \<and> set (dkeys stops) \<subseteq> set evaluated)
              ''Selection ranks/stops must refer to evaluated assets.'') (\<lambda>_.
     rbind (require (evaluated = ranked \<and> set present = set candidates \<and>
                map (\<lambda>a. dget ranks a) evaluated = map (\<lambda>i. Some (int i)) [1 ..< length evaluated + 1])
              ''Selection outcomes must match ranked candidates and exact ranks.'') (\<lambda>_.
     rbind (peek_field ''primary_selected'') (\<lambda>primary_text.
       let primary = symbols_of primary_text in
     rbind (require (set primary \<subseteq> set present \<and> int (length candidates) \<le> needed)
              ''Selection membership exceeds its candidate/cardinality contract.'') (\<lambda>_.
     rlift (emap (outcome_of present ranks primary stops) evaluated)))))))))))))"

definition read_selection :: "int \<Rightarrow> evidence reader" where
  "read_selection version =
     rbind (if 2 \<le> version then rbind (pop_as int_of ''required_count'') (\<lambda>n. rlift (Inr (Some n))) else rlift (Inr None)) (\<lambda>needed.
     rbind (case needed of None \<Rightarrow> rlift (Inr None)
            | Some n \<Rightarrow> rbind (read_outcomes n) (\<lambda>os. rlift (Inr (Some os)))) (\<lambda>outcomes.
     rbind (pop_as decimal_map ''scores'') (\<lambda>scores.
     rbind (pop_field ''ranked'') (\<lambda>ranked.
     rbind (pop_field ''candidates'') (\<lambda>candidates.
     rbind (pop_field ''primary_selected'') (\<lambda>primary.
     rbind (pop_field ''decision'') (\<lambda>decision.
     rlift (
       ebind (finite_map scores) (\<lambda>sc.
       ebind (literal [(''executed'', Executed), (''insufficient'', Insufficient), (''skipped'', Skipped), (''signal'', Signal)] decision) (\<lambda>dc.
       ebind (checked (case needed of None \<Rightarrow> True | Some n \<Rightarrow> 1 \<le> n) needed) (\<lambda>n.
         Inr (Ev_selection
           \<lparr>xe_scores = sc, xe_ranked = symbols_of ranked, xe_candidates = symbols_of candidates,
            xe_primary_selected = symbols_of primary, xe_decision = dc, xe_required_count = n, xe_asset_outcomes = outcomes\<rparr>))))))))))))"

definition read_random_selection :: "int \<Rightarrow> evidence reader" where
  "read_random_selection version =
     rbind (pop_field ''universe'') (\<lambda>universe.
     rbind (pop_field ''selected'') (\<lambda>selected.
     rbind (pop_field ''resample'') (\<lambda>resample.
     rbind (if 2 \<le> version then rbind (pop_as int_of ''required_count'') (\<lambda>n. rlift (Inr (Some n))) else rlift (Inr None)) (\<lambda>needed.
     rlift (
       ebind (literal [(''once'', Resample_once), (''per_event'', Resample_per_event)] resample) (\<lambda>rs.
       ebind (checked (case needed of None \<Rightarrow> True | Some n \<Rightarrow> 1 \<le> n) needed) (\<lambda>n.
         Inr (Ev_random_selection \<lparr>ra_universe = symbols_of universe, ra_selected = symbols_of selected,
                                  ra_resample = rs, ra_required_count = n\<rparr>))))))))"

definition read_fallback :: "evidence reader" where
  "read_fallback =
     rbind (pop_field ''asset'') (\<lambda>asset.
     rbind (pop_as bool_of ''activated'') (\<lambda>activated.
     rlift (Inr (Ev_fallback \<lparr>fb_asset = asset, fb_activated = activated\<rparr>))))"

definition read_final_selection :: "evidence reader" where
  "read_final_selection =
     rbind (pop_field ''selected'') (\<lambda>selected.
     rbind (pop_field ''source'') (\<lambda>source.
     rlift (ebind (literal [(''primary'', Primary_source), (''fallback'', Fallback_source)] source) (\<lambda>s.
       Inr (Ev_final_selection \<lparr>fs_selected = symbols_of selected, fs_source = s\<rparr>)))))"

definition read_cooldown :: "int \<Rightarrow> evidence reader" where
  "read_cooldown version =
     rbind (pop_as bool_of ''eligible'') (\<lambda>eligible.
     rbind (if 2 \<le> version then pop_field ''stopping_stage'' else rlift (Inr [])) (\<lambda>stage.
     rbind (require (2 \<le> version \<longrightarrow> (stage = ''cooldown'') \<noteq> eligible)
              ''Cooldown stopping stage must exactly match a blocked decision.'') (\<lambda>_.
     rbind (pop_field ''asset'') (\<lambda>asset.
     rbind (pop_as bool_of ''signal_candidate'') (\<lambda>candidate.
     rbind (pop_as optional_date ''last_exit'') (\<lambda>last_exit.
     rbind (pop_as optional_int ''elapsed_sessions'') (\<lambda>elapsed.
     rbind (pop_as int_of ''required_sessions'') (\<lambda>required.
     rlift (ebind (literal [([], False), (''cooldown'', True)] stage) (\<lambda>stopped.
       Inr (Ev_cooldown
         \<lparr>cd_asset = asset, cd_signal_candidate = candidate, cd_last_exit = last_exit, cd_elapsed_sessions = elapsed,
          cd_required_sessions = required, cd_eligible = eligible, cd_stopped = stopped\<rparr>)))))))))))"

definition read_state_mutation :: "evidence reader" where
  "read_state_mutation =
     rbind (pop_field ''asset'') (\<lambda>asset.
     rbind (pop_field ''state'') (\<lambda>state.
     rbind (pop_as optional_date ''old_value'') (\<lambda>old.
     rbind (pop_as date_of ''new_value'') (\<lambda>new.
     rbind (pop_field ''cause'') (\<lambda>cause.
     rlift (
       ebind (literal [(''last_exit'', ())] state) (\<lambda>_.
       ebind (literal [(''target_exit'', ())] cause) (\<lambda>_.
         Inr (Ev_state_mutation \<lparr>st_asset = asset, st_old_value = old, st_new_value = new\<rparr>)))))))))"

definition schedule_of :: "string \<Rightarrow> snapshot_schedule eres" where
  "schedule_of = literal [(''monthly'', Monthly_schedule), (''quarterly'', Quarterly_schedule)]"

definition read_snapshot_refresh :: "evidence reader" where
  "read_snapshot_refresh =
     rbind (pop_field ''schedule'') (\<lambda>schedule.
     rbind (pop_as decimal_map ''local_targets'') (\<lambda>targets.
     rbind (pop_as date_of ''snapshot_session'') (\<lambda>session.
     rlift (
       ebind (schedule_of schedule) (\<lambda>s.
       ebind (finite_map targets) (\<lambda>ts.
         Inr (Ev_snapshot_refresh \<lparr>sf_schedule = s, sf_local_targets = ts, sf_snapshot_session = session\<rparr>)))))))"

definition read_snapshot_usage :: "evidence reader" where
  "read_snapshot_usage =
     rbind (pop_field ''schedule'') (\<lambda>schedule.
     rbind (pop_as date_map ''snapshots'') (\<lambda>snapshots.
     rbind (pop_as bool_of ''executed'') (\<lambda>executed.
     rlift (ebind (schedule_of schedule) (\<lambda>s.
       Inr (Ev_snapshot_usage \<lparr>su_schedule = s, su_snapshots = snapshots, su_executed = executed\<rparr>))))))"

definition read_sleeve :: "evidence reader" where
  "read_sleeve =
     rbind (pop_field ''local_selected'') (\<lambda>selected.
     rbind (pop_as decimal_map ''local_targets'') (\<lambda>local.
     rbind (pop_as decimal_of ''allocation'') (\<lambda>allocation.
     rbind (pop_as decimal_map ''scaled_targets'') (\<lambda>scaled.
     rlift (
       ebind (finite_map local) (\<lambda>lt.
       ebind (finite_value allocation) (\<lambda>a.
       ebind (finite_map scaled) (\<lambda>stt.
         Inr (Ev_sleeve \<lparr>sl_local_selected = symbols_of selected, sl_local_targets = lt, sl_allocation = a,
                        sl_scaled_targets = stt\<rparr>)))))))))"

definition read_final_targets :: "evidence reader" where
  "read_final_targets =
     rbind (pop_field ''selected'') (\<lambda>selected.
     rbind (pop_as decimal_map ''targets'') (\<lambda>targets.
     rlift (ebind (finite_map targets) (\<lambda>ts.
       Inr (Ev_final_targets \<lparr>ft_selected = symbols_of selected, ft_targets = ts\<rparr>)))))"

definition read_payload :: "(string \<Rightarrow> json res) \<Rightarrow> string \<Rightarrow> int \<Rightarrow> evidence reader" where
  "read_payload loads kind version =
     (if kind = ''value_condition'' then read_value_condition loads
      else if kind = ''predicate'' then read_predicate
      else if kind = ''filter'' then read_filter version
      else if kind = ''selection'' then read_selection version
      else if kind = ''random_selection'' then read_random_selection version
      else if kind = ''fallback'' then read_fallback
      else if kind = ''final_selection'' then read_final_selection
      else if kind = ''cooldown'' then read_cooldown version
      else if kind = ''state_mutation'' then read_state_mutation
      else if kind = ''snapshot_refresh'' then read_snapshot_refresh
      else if kind = ''snapshot_usage'' then read_snapshot_usage
      else if kind = ''sleeve_contribution'' then read_sleeve
      else if kind = ''final_targets'' then read_final_targets
      else rlift (Inl (Contract ''Unsupported decision evidence kind'')))"

subsection \<open>Records and logs\<close>

text \<open>\<open>key[:-10]\<close> of the keys that end in \<open>_component\<close>.\<close>

definition source_roles :: "fields \<Rightarrow> string list" where
  "source_roles d =
     sort (map (\<lambda>k. take (length k - 10) k)
             (filter (\<lambda>k. 10 \<le> length k \<and> drop (length k - 10) k = ''_component'') (dkeys d)))"

definition read_source :: "string \<Rightarrow> fields \<Rightarrow> (source_ref list \<times> fields) eres" where
  "read_source role =
     rbind (pop_field (role @ ''_component'')) (\<lambda>component.
     rbind (pop_field_or (role @ ''_field'') None Some) (\<lambda>path.
     rlift (if component \<noteq> []
            then (case path of
                    Some p \<Rightarrow> if p = [] then Inr [\<lparr>sc_role = role, sc_component_id = component, sc_field_path = None\<rparr>]
                      else ebind (checked (valid_field_path p) p)
                             (\<lambda>p. Inr [\<lparr>sc_role = role, sc_component_id = component, sc_field_path = Some p\<rparr>])
                  | None \<Rightarrow> Inr [\<lparr>sc_role = role, sc_component_id = component, sc_field_path = None\<rparr>])
            else if path = None \<or> path = Some [] then Inr []
            else Inl (Contract ''Source field path requires a source component.''))))"

definition read_sources :: "source_ref list reader" where
  "read_sources d = ebind (emap_st read_source (source_roles d) d) (\<lambda>(rs, d'). Inr (concat rs, d'))"

definition phase_of :: "string \<Rightarrow> phase eres" where
  "phase_of = literal (map (\<lambda>p. (phase_text p, p))
     [Ph_evaluation, Ph_selection, Ph_snapshot_commit, Ph_portfolio_execution, Ph_state_mutation])"

definition record_body :: "(string \<Rightarrow> json res) \<Rightarrow> int \<Rightarrow> collected_event reader" where
  "record_body loads version =
     rbind (pop_as int_of ''sequence'') (\<lambda>sequence.
     rbind (pop_as date_of ''session'') (\<lambda>session.
     rbind (pop_field ''phase'') (\<lambda>phase.
     rbind (pop_field ''kind'') (\<lambda>kind.
     rbind read_sources (\<lambda>sources.
     rbind (read_payload loads kind version) (\<lambda>evidence d.
       if d \<noteq> [] then Inl (Contract ''Unexpected evidence fields'')
       else ebind (checked (1 \<le> sequence) sequence) (\<lambda>n.
            ebind (phase_of phase) (\<lambda>ph.
              Inr (\<lparr>ce_schema_version = version, ce_sequence = n, ce_session = session, ce_phase = ph,
                    ce_sources = sources, ce_evidence = evidence\<rparr>, d)))))))))"

definition translated :: "'a eres \<Rightarrow> 'a eres" where
  "translated m =
     (case m of
        Inl (Raised e) \<Rightarrow>
          if e = Key_error \<or> is_value_error e \<or> e = Invalid_operation
          then Inl (Contract ''Decision evidence record is invalid.'') else Inl (Raised e)
      | _ \<Rightarrow> m)"

definition record_of :: "(string \<Rightarrow> json res) \<Rightarrow> fields \<Rightarrow> int \<Rightarrow> collected_event eres" where
  "record_of loads d version = translated (ebind (record_body loads version d) (\<lambda>(e, _). Inr e))"

definition add_token :: "string \<Rightarrow> fields \<Rightarrow> fields eres" where
  "add_token token d =
     (case split_first (\<lambda>c. c = CHR ''='') token of
        None \<Rightarrow> Inl (Contract ''Decision evidence field is malformed.'')
      | Some (raw_key, raw_value) \<Rightarrow>
          let key = unquote raw_key in
          if key = [] \<or> dhas d key then Inl (Contract ''Decision evidence fields must be named and unique.'')
          else Inr (dset key (unquote raw_value) d))"

definition fields_of :: "string \<Rightarrow> fields eres" where
  "fields_of encoded = efold add_token (split_on CHR ''|'' (strip encoded)) []"

text \<open>The first prefix that occurs in the line, and what follows it.\<close>

definition evidence_line :: "string \<Rightarrow> (int \<times> string) option" where
  "evidence_line line =
     (case find_after ''RULETRADE_EVIDENCE_V1|'' line of
        Some rest \<Rightarrow> Some (1, rest)
      | None \<Rightarrow> map_option (Pair 2) (find_after ''RULETRADE_EVIDENCE_V2|'' line))"

definition collect_lines :: "(string \<Rightarrow> json res) \<Rightarrow> string list \<Rightarrow> collected_event list eres" where
  "collect_lines loads lines =
     emap (\<lambda>(version, rest). ebind (fields_of rest) (\<lambda>d. record_of loads d version)) (List.map_filter evidence_line lines)"

definition contiguous :: "collected_event list \<Rightarrow> bool" where
  "contiguous es \<longleftrightarrow> map ce_sequence es = map int [1 ..< length es + 1]"

definition collect_decision_evidence :: "(string \<Rightarrow> json res) \<Rightarrow> string \<Rightarrow> collected_event list eres" where
  "collect_decision_evidence loads log_text =
     ebind (collect_lines loads (splitlines log_text)) (\<lambda>records.
       if \<not> contiguous records then Inl (Contract ''Decision evidence sequence must be contiguous from 1'')
       else if 1 < length (remdups (map ce_schema_version records))
       then Inl (Contract ''One Backtest Run cannot mix Decision Evidence schema versions.'')
       else Inr records)"

end
