(* ===== verification/Run_Store.thy ===== *)
theory Run_Store
  imports Strategy_Store Evidence_Collector
begin

text \<open>
  Backtest Runs: the lifecycle of \<open>SQLiteBacktestRunRepository\<close>
  (\<open>persistence/sqlite_backtest_runs.py\<close>) and \<open>BacktestRunService\<close> (\<open>backtest_runs/service.py\<close>). The
  engine that executes a document, the market data and the JSON of the records are parameters; so
  are the times, identifiers and durations a call reads.
\<close>

subsection \<open>Records\<close>

record run_config =
  rc_start_date :: cal_date
  rc_end_date :: cal_date
  rc_initial_cash :: decimal
  rc_dataset_id :: string

record backtest_result =
  bt_initial_value :: decimal
  bt_final_value :: decimal
  bt_total_return :: decimal
  bt_total_orders :: int
  bt_total_fees :: decimal
  bt_equity_curve :: "(moment \<times> decimal) list"

record timings =
  tm_source_load_ms :: nat
  tm_validation_ms :: nat
  tm_data_preflight_ms :: nat
  tm_data_acquisition_ms :: nat
  tm_compiler_ms :: nat
  tm_codegen_ms :: nat
  tm_csharp_compile_ms :: nat
  tm_lean_execution_ms :: nat
  tm_result_load_ms :: nat
  tm_normalization_ms :: nat
  tm_evidence_collection_ms :: nat
  tm_evidence_validation_ms :: nat
  tm_finalization_ms :: nat
  tm_total_ms :: nat

definition no_timings :: timings where
  "no_timings =
     \<lparr>tm_source_load_ms = 0, tm_validation_ms = 0, tm_data_preflight_ms = 0, tm_data_acquisition_ms = 0,
      tm_compiler_ms = 0, tm_codegen_ms = 0, tm_csharp_compile_ms = 0, tm_lean_execution_ms = 0,
      tm_result_load_ms = 0, tm_normalization_ms = 0, tm_evidence_collection_ms = 0,
      tm_evidence_validation_ms = 0, tm_finalization_ms = 0, tm_total_ms = 0\<rparr>"

record run_diagnostics =
  dg_canonical_bytes :: nat
  dg_generated_csharp_bytes :: nat
  dg_normalized_result_bytes :: nat
  dg_equity_points :: nat
  dg_evidence_events :: nat
  dg_evidence_bytes :: nat
  dg_market_data_cache_hit :: bool
  dg_required_symbols :: nat
  dg_unavailable_symbols :: nat

definition no_diagnostics :: run_diagnostics where
  "no_diagnostics =
     \<lparr>dg_canonical_bytes = 0, dg_generated_csharp_bytes = 0, dg_normalized_result_bytes = 0, dg_equity_points = 0,
      dg_evidence_events = 0, dg_evidence_bytes = 0, dg_market_data_cache_hit = False, dg_required_symbols = 0,
      dg_unavailable_symbols = 0\<rparr>"

record run_provenance =
  ro_source_hash :: string
  ro_schema_version :: string
  ro_application_version :: string
  ro_build_commit :: "string option"
  ro_engine_image :: "string option"
  ro_dataset_id :: string
  ro_provider_id :: "string option"
  ro_source_kind :: "string option"
  ro_normalization_mode :: "string option"
  ro_requested_symbols :: "string list"
  ro_available_coverage :: "(string, cal_date option \<times> cal_date option) dict"

record run_failure =
  rf_code :: string
  rf_message :: string

record run_record =
  bk_id :: string
  bk_revision_id :: string
  bk_candidate_id :: "string option"
  bk_status :: run_status
  bk_run_config :: run_config
  bk_result :: "backtest_result option"
  bk_error :: "run_failure option"
  bk_provenance :: run_provenance
  bk_timings :: timings
  bk_diagnostics :: run_diagnostics
  bk_created_at :: moment
  bk_started_at :: "moment option"
  bk_completed_at :: "moment option"

text \<open>\<open>_model_json\<close> and \<open>model_validate_json\<close> of each record.\<close>

record 'a json_codec =
  jc_write :: "'a \<Rightarrow> string"
  jc_read :: "string \<Rightarrow> 'a res"

record run_codec =
  rk_config :: "run_config json_codec"
  rk_result :: "backtest_result json_codec"
  rk_error :: "run_failure json_codec"
  rk_provenance :: "run_provenance json_codec"
  rk_timings :: "timings json_codec"
  rk_diagnostics :: "run_diagnostics json_codec"
  rk_sources :: "source_ref list json_codec"
  rk_evidence :: "evidence json_codec"
  rk_config_fields :: "string \<Rightarrow> source_issue list + run_config"
  rk_document_bytes :: "canonical \<Rightarrow> nat"

definition read_json :: "'a json_codec \<Rightarrow> string \<Rightarrow> 'a sres" where
  "read_json j s = py_to_store (jc_read j s)"

definition read_optional_json :: "'a json_codec \<Rightarrow> string option \<Rightarrow> 'a option sres" where
  "read_optional_json j s = eopt (read_json j) s"

subsection \<open>The Run repository\<close>

definition read_run :: "run_codec \<Rightarrow> run_row \<Rightarrow> run_record sres" where
  "read_run k r =
     ebind (read_json (rk_config k) (br_config_json r)) (\<lambda>config.
     ebind (read_optional_json (rk_result k) (br_result_json r)) (\<lambda>result.
     ebind (read_optional_json (rk_error k) (br_error_json r)) (\<lambda>error.
     ebind (read_json (rk_provenance k) (br_provenance_json r)) (\<lambda>provenance.
     ebind (read_json (rk_timings k) (br_timings_json r)) (\<lambda>timings.
     ebind (read_json (rk_diagnostics k) (br_diagnostics_json r)) (\<lambda>diagnostics.
     ebind (read_time (br_created_at r)) (\<lambda>created.
     ebind (read_optional_time (br_started_at r)) (\<lambda>started.
     ebind (read_optional_time (br_completed_at r)) (\<lambda>completed.
       Inr \<lparr>bk_id = br_id r, bk_revision_id = br_revision_id r, bk_candidate_id = br_candidate_id r,
            bk_status = br_status r, bk_run_config = config, bk_result = result, bk_error = error,
            bk_provenance = provenance, bk_timings = timings, bk_diagnostics = diagnostics,
            bk_created_at = created, bk_started_at = started, bk_completed_at = completed\<rparr>)))))))))"

definition run_row_of :: "run_codec \<Rightarrow> run_record \<Rightarrow> run_row" where
  "run_row_of k r =
     \<lparr>br_id = bk_id r, br_revision_id = bk_revision_id r, br_candidate_id = bk_candidate_id r, br_status = bk_status r,
      br_config_json = jc_write (rk_config k) (bk_run_config r), br_result_json = None, br_error_json = None,
      br_provenance_json = jc_write (rk_provenance k) (bk_provenance r),
      br_timings_json = jc_write (rk_timings k) (bk_timings r),
      br_diagnostics_json = jc_write (rk_diagnostics k) (bk_diagnostics r),
      br_created_at = timestamp (bk_created_at r), br_started_at = None, br_completed_at = None\<rparr>"

definition repo_create_run :: "run_codec \<Rightarrow> run_record \<Rightarrow> unit action" where
  "repo_create_run k r =
     transaction (Run_persistence_error ''Could not create Backtest Run.'')
       (\<lambda>db. ebind (insert_run (run_row_of k r) db) (\<lambda>db1. Inr ((), db1)))"

definition run_row_at :: "string \<Rightarrow> database \<Rightarrow> run_row option" where
  "run_row_at i db = select_one (\<lambda>r. br_id r = i) (db_runs db)"

text \<open>What follows the commit: the row read inside the transaction is converted.\<close>

definition read_back :: "run_codec \<Rightarrow> string \<Rightarrow> run_record action" where
  "read_back k run_id db =
     (case run_row_at run_id db of
        None \<Rightarrow> (Inl (Run_persistence_error ''Backtest Run disappeared during transition.''), db)
      | Some row \<Rightarrow> (read_run k row, db))"

text \<open>\<open>UPDATE ... WHERE id = ? AND status = ?\<close>, which must find its Run.\<close>

definition move_run :: "string \<Rightarrow> run_status \<Rightarrow> (run_row \<Rightarrow> run_row) \<Rightarrow> database \<Rightarrow> database sres" where
  "move_run run_id expected assign db =
     ebind (update_runs (\<lambda>r. br_id r = run_id \<and> br_status r = expected) assign db) (\<lambda>(db1, n).
       if n \<noteq> 1 then Inl (Run_persistence_error ''Backtest Run lifecycle transition was rejected.'') else Inr db1)"

definition run_transition_to :: "run_codec \<Rightarrow> string \<Rightarrow> run_status \<Rightarrow> (run_row \<Rightarrow> run_row) \<Rightarrow> run_record action" where
  "run_transition_to k run_id expected assign =
     abind (transaction (Run_persistence_error ''Could not update Backtest Run lifecycle.'')
              (\<lambda>db. ebind (move_run run_id expected assign db) (\<lambda>db1. Inr ((), db1))))
       (\<lambda>_. read_back k run_id)"

definition mark_running :: "run_codec \<Rightarrow> string \<Rightarrow> moment \<Rightarrow> run_record action" where
  "mark_running k run_id started =
     run_transition_to k run_id Pending (\<lambda>r. r\<lparr>br_status := Running, br_started_at := Some (timestamp started)\<rparr>)"

definition complete_failed :: "run_codec \<Rightarrow> string \<Rightarrow> run_failure \<Rightarrow> timings \<Rightarrow> moment \<Rightarrow> run_record action" where
  "complete_failed k run_id failure ts completed =
     run_transition_to k run_id Running
       (\<lambda>r. r\<lparr>br_status := Failed, br_error_json := Some (jc_write (rk_error k) failure),
              br_timings_json := jc_write (rk_timings k) ts, br_completed_at := Some (timestamp completed)\<rparr>)"

text \<open>\<open>f"event-{sequence:06d}"\<close>.\<close>

definition event_id :: "int \<Rightarrow> string" where
  "event_id n = ''event-'' @ (if n < 1000000 then padded 6 (nat n) else str_of_nat (nat n))"

definition event_row_of :: "run_codec \<Rightarrow> string \<Rightarrow> collected_event \<Rightarrow> event_row" where
  "event_row_of k run_id e =
     \<lparr>er_run_id = run_id, er_id = event_id (ce_sequence e), er_ordinal = ce_sequence e,
      er_schema_version = ce_schema_version e, er_session_id = date_text (ce_session e),
      er_phase = phase_text (ce_phase e), er_kind = kind_text (kind_of (ce_evidence e)),
      er_source_components_json = jc_write (rk_sources k) (ce_sources e),
      er_evidence_json = jc_write (rk_evidence k) (ce_evidence e)\<rparr>"

definition insert_evidence :: "run_codec \<Rightarrow> string \<Rightarrow> collected_event list \<Rightarrow> database \<Rightarrow> database sres" where
  "insert_evidence k run_id events db = efold (\<lambda>e. insert_event (event_row_of k run_id e)) events db"

definition finalized :: "timings \<Rightarrow> nat \<Rightarrow> timings" where
  "finalized ts ms = ts\<lparr>tm_finalization_ms := ms, tm_total_ms := tm_total_ms ts + ms\<rparr>"

definition succeed_row ::
  "run_codec \<Rightarrow> backtest_result \<Rightarrow> timings \<Rightarrow> run_diagnostics option \<Rightarrow> moment \<Rightarrow> run_row \<Rightarrow> run_row" where
  "succeed_row k result ts diagnostics completed r =
     r\<lparr>br_status := Succeeded, br_result_json := Some (jc_write (rk_result k) result),
       br_timings_json := jc_write (rk_timings k) ts,
       br_diagnostics_json := jc_write (rk_diagnostics k) (case diagnostics of None \<Rightarrow> no_diagnostics | Some d \<Rightarrow> d),
       br_completed_at := Some (timestamp completed)\<rparr>"

definition complete_succeeded_with_evidence ::
  "run_codec \<Rightarrow> nat \<Rightarrow> string \<Rightarrow> backtest_result \<Rightarrow> timings \<Rightarrow> moment \<Rightarrow> collected_event list \<Rightarrow> run_diagnostics option \<Rightarrow> run_record action" where
  "complete_succeeded_with_evidence k finalization_ms run_id result ts completed events diagnostics =
     (if events = [] \<or> \<not> contiguous events
      then query (\<lambda>_. Inl (Run_persistence_error ''Successful Backtest Runs require one contiguous Decision Evidence set.''))
      else abind (transaction (Run_persistence_error ''Could not persist Backtest Run Decision Evidence.'') (\<lambda>db.
             if run_status_of db run_id \<noteq> Some Running
             then Inl (Run_persistence_error ''Backtest Run lifecycle transition was rejected.'')
             else ebind (insert_evidence k run_id events db) (\<lambda>db1.
                  ebind (move_run run_id Running (succeed_row k result (finalized ts finalization_ms) diagnostics completed) db1) (\<lambda>db2.
                  ebind (commit db2) (\<lambda>db3. Inr ((), db3))))))
             (\<lambda>_. read_back k run_id))"

definition repo_get_run :: "run_codec \<Rightarrow> string \<Rightarrow> database \<Rightarrow> run_record option sres" where
  "repo_get_run k run_id db = eopt (read_run k) (run_row_at run_id db)"

definition repo_list_runs :: "run_codec \<Rightarrow> string \<Rightarrow> database \<Rightarrow> run_record list sres" where
  "repo_list_runs k revision_id db =
     emap (read_run k) (order_by (newest_first br_created_at br_id)
       (filter (\<lambda>r. br_revision_id r = revision_id \<and> br_candidate_id r = None) (db_runs db)))"

definition repo_get_candidate_run :: "run_codec \<Rightarrow> string \<Rightarrow> database \<Rightarrow> run_record option sres" where
  "repo_get_candidate_run k candidate_id db =
     eopt (read_run k) (select_one (\<lambda>r. br_candidate_id r = Some candidate_id) (db_runs db))"

definition literal_of :: "(string \<times> 'a) list \<Rightarrow> string \<Rightarrow> 'a sres" where
  "literal_of choices s =
     (case map_of choices s of None \<Rightarrow> Inl (Python_error (Value_error ''ValidationError'')) | Some x \<Rightarrow> Inr x)"

definition phase_choices :: "(string \<times> phase) list" where
  "phase_choices = map (\<lambda>p. (phase_text p, p))
     [Ph_evaluation, Ph_selection, Ph_snapshot_commit, Ph_portfolio_execution, Ph_state_mutation]"

definition kind_choices :: "(string \<times> evidence_kind) list" where
  "kind_choices = map (\<lambda>p. (kind_text p, p))
     [Kd_filter, Kd_predicate, Kd_value_condition, Kd_selection, Kd_random_selection, Kd_fallback, Kd_final_selection,
      Kd_cooldown, Kd_state_mutation, Kd_snapshot_refresh, Kd_snapshot_usage, Kd_sleeve_contribution, Kd_final_targets]"

definition read_event_summary :: "run_codec \<Rightarrow> event_row \<Rightarrow> event_summary sres" where
  "read_event_summary k r =
     ebind (read_json (rk_sources k) (er_source_components_json r)) (\<lambda>sources.
     ebind (py_to_store (parse_date (er_session_id r))) (\<lambda>session.
     ebind (literal_of phase_choices (er_phase r)) (\<lambda>ph.
     ebind (literal_of kind_choices (er_kind r)) (\<lambda>kind.
       Inr \<lparr>es_id = er_id r, es_run_id = er_run_id r, es_ordinal = er_ordinal r, es_schema_version = er_schema_version r,
            es_session = session, es_phase = ph, es_kind = kind, es_sources = sources\<rparr>))))"

definition read_event_detail :: "run_codec \<Rightarrow> event_row \<Rightarrow> event_detail sres" where
  "read_event_detail k r =
     ebind (read_event_summary k r) (\<lambda>s.
     ebind (read_json (rk_evidence k) (er_evidence_json r)) (\<lambda>e.
       Inr (event_summary.extend s (event_detail.fields e))))"

definition repo_list_decision_events :: "run_codec \<Rightarrow> string \<Rightarrow> database \<Rightarrow> event_summary list sres" where
  "repo_list_decision_events k run_id db =
     emap (read_event_summary k)
       (order_by (\<lambda>x y. er_ordinal x < er_ordinal y) (filter (\<lambda>e. er_run_id e = run_id) (db_events db)))"

definition repo_get_decision_event :: "run_codec \<Rightarrow> string \<Rightarrow> string \<Rightarrow> database \<Rightarrow> event_detail option sres" where
  "repo_get_decision_event k run_id i db =
     eopt (read_event_detail k) (select_one (\<lambda>e. er_run_id e = run_id \<and> er_id e = i) (db_events db))"

subsection \<open>The Run service\<close>

record symbol_coverage =
  sy_symbol :: string
  sy_available_from :: "cal_date option"
  sy_available_to :: "cal_date option"

record preflight =
  mp_provider_id :: string
  mp_source_kind :: string
  mp_normalization_mode :: string
  mp_symbols :: "symbol_coverage list"

text \<open>What asking the market data gives: the answer, \<open>V2LoweringError\<close>, or another exception.\<close>

datatype preflight_outcome = Preflight preflight | Not_lowered string | Preflight_failed backtest_failure

record execution =
  xn_result :: backtest_result
  xn_timings :: timings
  xn_diagnostics :: run_diagnostics
  xn_events :: "collected_event list"
  xn_source_ids :: "string list"

text \<open>What the engine gives: an execution, one of the exceptions it documents, or another exception.\<close>

datatype engine_outcome = Ran execution | Refused backtest_failure | Crashed py_error

record engine =
  en_market_data :: "(canonical \<Rightarrow> run_config \<Rightarrow> preflight_outcome) option"
  en_execute :: "canonical \<Rightarrow> run_config \<Rightarrow> engine_outcome"
  en_image :: "string option"
  en_application_version :: string
  en_build_commit :: "string option"

text \<open>What one execution reads from clocks, the id factory and the performance counter.\<close>

record run_readings =
  rd_run_id :: string
  rd_created :: moment
  rd_started :: moment
  rd_completed :: moment
  rd_failed :: moment
  rd_source_load_ms :: nat
  rd_validation_ms :: nat
  rd_total_ms :: nat
  rd_finalization_ms :: nat

definition no_preflight :: "preflight option" where
  "no_preflight = None"

definition run_preflight :: "engine \<Rightarrow> canonical \<Rightarrow> run_config \<Rightarrow> preflight option sres" where
  "run_preflight en c config =
     (case en_market_data en of
        None \<Rightarrow> Inr no_preflight
      | Some ask \<Rightarrow>
          (case ask c config of
             Preflight p \<Rightarrow> Inr (Some p)
           | Not_lowered _ \<Rightarrow> Inr no_preflight
           | Preflight_failed e \<Rightarrow> Inl (Backtest_error e)))"

definition provenance_of :: "engine \<Rightarrow> string \<Rightarrow> string \<Rightarrow> run_config \<Rightarrow> preflight option \<Rightarrow> run_provenance" where
  "provenance_of en hash version config p =
     \<lparr>ro_source_hash = hash, ro_schema_version = version, ro_application_version = en_application_version en,
      ro_build_commit = en_build_commit en, ro_engine_image = en_image en, ro_dataset_id = rc_dataset_id config,
      ro_provider_id = map_option mp_provider_id p, ro_source_kind = map_option mp_source_kind p,
      ro_normalization_mode = map_option mp_normalization_mode p,
      ro_requested_symbols = (case p of None \<Rightarrow> [] | Some x \<Rightarrow> map sy_symbol (mp_symbols x)),
      ro_available_coverage =
        (case p of None \<Rightarrow> []
         | Some x \<Rightarrow> dict_of (map (\<lambda>s. (sy_symbol s, sy_available_from s, sy_available_to s)) (mp_symbols x)))\<rparr>"

definition pending_run ::
  "run_codec \<Rightarrow> engine \<Rightarrow> run_readings \<Rightarrow> string \<Rightarrow> string option \<Rightarrow> canonical \<Rightarrow> string \<Rightarrow> string \<Rightarrow> run_config \<Rightarrow> nat \<Rightarrow> preflight option \<Rightarrow> run_record" where
  "pending_run k en rd revision_id candidate_id c hash version config source_ms p =
     \<lparr>bk_id = rd_run_id rd, bk_revision_id = revision_id, bk_candidate_id = candidate_id, bk_status = Pending,
      bk_run_config = config, bk_result = None, bk_error = None,
      bk_provenance = provenance_of en hash version config p,
      bk_timings = no_timings\<lparr>tm_source_load_ms := source_ms\<rparr>,
      bk_diagnostics = no_diagnostics\<lparr>dg_canonical_bytes := rk_document_bytes k c\<rparr>,
      bk_created_at = rd_created rd, bk_started_at = None, bk_completed_at = None\<rparr>"

definition source_component_ids :: "canonical \<Rightarrow> execution \<Rightarrow> string list" where
  "source_component_ids c x = (case c of V2 _ \<Rightarrow> xn_source_ids x | V1 d \<Rightarrow> map vc_id (v1_components d))"

definition referenced_ids :: "collected_event list \<Rightarrow> string list" where
  "referenced_ids es = concat (map (\<lambda>e. map sc_component_id (ce_sources e)) es)"

text \<open>The \<open>try\<close> block: the execution, with its evidence checked.\<close>

definition checked_execution :: "engine \<Rightarrow> canonical \<Rightarrow> run_config \<Rightarrow> engine_outcome" where
  "checked_execution en c config =
     (case en_execute en c config of
        Ran x \<Rightarrow>
          if xn_events x = [] \<or> \<not> set (referenced_ids (xn_events x)) \<subseteq> set (source_component_ids c x)
          then Refused Evidence_failure else Ran x
      | other \<Rightarrow> other)"

definition public_error :: "backtest_failure \<Rightarrow> run_failure" where
  "public_error e =
     (case e of
        Evidence_failure \<Rightarrow> \<lparr>rf_code = ''evidence_collection_failure'', rf_message = ''Backtest Decision Evidence could not be recorded.''\<rparr>
      | Runtime_unavailable m \<Rightarrow> \<lparr>rf_code = ''runtime_unavailable'', rf_message = m\<rparr>
      | Unsupported_strategy m \<Rightarrow> \<lparr>rf_code = ''unsupported_strategy'', rf_message = m\<rparr>
      | Invalid_strategy \<Rightarrow> \<lparr>rf_code = ''invalid_strategy_source'', rf_message = ''Stored Strategy source failed validation.''\<rparr>
      | Market_data_unavailable m \<Rightarrow> \<lparr>rf_code = ''market_data_unavailable'', rf_message = m\<rparr>
      | _ \<Rightarrow> \<lparr>rf_code = ''execution_failure'', rf_message = ''Backtest execution failed.''\<rparr>)"

definition is_run_persistence :: "store_error \<Rightarrow> bool" where
  "is_run_persistence e \<longleftrightarrow> (case e of Run_persistence_error _ \<Rightarrow> True | _ \<Rightarrow> False)"

text \<open>Completing with evidence; when that cannot be stored the Run fails, and when even that cannot be
  stored the first exception is raised.\<close>

definition finish_run :: "run_codec \<Rightarrow> run_readings \<Rightarrow> string \<Rightarrow> nat \<Rightarrow> execution \<Rightarrow> run_record action" where
  "finish_run k rd run_id source_ms x db =
     (let ts = (xn_timings x)\<lparr>tm_source_load_ms := source_ms, tm_evidence_validation_ms := rd_validation_ms rd,
                  tm_total_ms := max (rd_total_ms rd) (tm_total_ms (xn_timings x) + source_ms + rd_validation_ms rd)\<rparr>
      in case complete_succeeded_with_evidence k (rd_finalization_ms rd) run_id (xn_result x) ts (rd_completed rd)
                (xn_events x) (Some (xn_diagnostics x)) db of
           (Inr r, db1) \<Rightarrow> (Inr r, db1)
         | (Inl e, db1) \<Rightarrow>
             if \<not> is_run_persistence e then (Inl e, db1)
             else (case complete_failed k run_id
                          \<lparr>rf_code = ''evidence_persistence_failure'', rf_message = ''Backtest Decision Evidence could not be persisted.''\<rparr>
                          ts (rd_failed rd) db1 of
                     (Inr r, db2) \<Rightarrow> (Inr r, db2)
                   | (Inl e2, db2) \<Rightarrow> (Inl (if is_run_persistence e2 then e else e2), db2)))"

definition create_and_execute_source ::
  "run_codec \<Rightarrow> engine \<Rightarrow> run_readings \<Rightarrow> string \<Rightarrow> string option \<Rightarrow> canonical \<Rightarrow> string \<Rightarrow> string \<Rightarrow> run_config \<Rightarrow> nat \<Rightarrow> run_record action" where
  "create_and_execute_source k en rd revision_id candidate_id c hash version config source_ms =
     abind (query (\<lambda>_. run_preflight en c config)) (\<lambda>p.
       let run = pending_run k en rd revision_id candidate_id c hash version config source_ms p in
     abind (repo_create_run k run) (\<lambda>_.
     abind (mark_running k (bk_id run) (rd_started rd)) (\<lambda>running.
     case checked_execution en c config of
       Crashed e \<Rightarrow> query (\<lambda>_. Inl (Python_error e))
     | Refused e \<Rightarrow>
         complete_failed k (bk_id running) (public_error e)
           (no_timings\<lparr>tm_source_load_ms := source_ms, tm_total_ms := rd_total_ms rd\<rparr>) (rd_completed rd)
     | Ran x \<Rightarrow> finish_run k rd (bk_id running) source_ms x)))"

datatype raw_config = Config run_config | Config_mapping string

text \<open>\<open>BacktestConfig\<close>: the fields by pydantic, then \<open>dates_are_ordered\<close>.\<close>

definition date_key :: "cal_date \<Rightarrow> int \<times> int \<times> int" where
  "date_key d = (cd_year d, cd_month d, cd_day d)"

definition date_less :: "cal_date \<Rightarrow> cal_date \<Rightarrow> bool" where
  "date_less a b \<longleftrightarrow>
     cd_year a < cd_year b \<or> (cd_year a = cd_year b \<and>
       (cd_month a < cd_month b \<or> (cd_month a = cd_month b \<and> cd_day a < cd_day b)))"

definition validate_config :: "run_codec \<Rightarrow> raw_config \<Rightarrow> run_config sres" where
  "validate_config k raw =
     (case raw of
        Config c \<Rightarrow> Inr c
      | Config_mapping body \<Rightarrow>
          (case rk_config_fields k body of
             Inl issues \<Rightarrow> Inl (Invalid_run_config issues)
           | Inr c \<Rightarrow>
               if date_less (rc_end_date c) (rc_start_date c)
               then Inl (Invalid_run_config [([], ''Value error, end_date must be on or after start_date'')])
               else Inr c))"

definition create_and_execute ::
  "codec \<Rightarrow> run_codec \<Rightarrow> engine \<Rightarrow> run_readings \<Rightarrow> string \<Rightarrow> raw_config \<Rightarrow> run_record action" where
  "create_and_execute sk k en rd revision_id raw =
     abind (query (\<lambda>_. validate_config k raw)) (\<lambda>config.
     abind (query (get_revision_by_id sk revision_id)) (\<lambda>r.
     create_and_execute_source k en rd (rv_id r) None (rv_canonical r) (rv_source_hash r) (rv_schema_version r)
       config (rd_source_load_ms rd)))"

definition create_and_execute_candidate ::
  "run_codec \<Rightarrow> engine \<Rightarrow> run_readings \<Rightarrow> string \<Rightarrow> string \<Rightarrow> canonical \<Rightarrow> string \<Rightarrow> string \<Rightarrow> run_config \<Rightarrow> run_record action" where
  "create_and_execute_candidate k en rd candidate_id base_revision_id c hash version config =
     abind (query (\<lambda>_. validate_config k (Config config))) (\<lambda>cfg.
     create_and_execute_source k en rd base_revision_id (Some candidate_id) c hash version cfg 0)"

text \<open>A V2 document that cannot be lowered is unsupported; without market data there is no preflight.\<close>

definition preflight_revision ::
  "codec \<Rightarrow> run_codec \<Rightarrow> engine \<Rightarrow> string \<Rightarrow> raw_config \<Rightarrow> database \<Rightarrow> preflight sres" where
  "preflight_revision sk k en revision_id raw db =
     ebind (validate_config k raw) (\<lambda>config.
     ebind (get_revision_by_id sk revision_id db) (\<lambda>r.
     case en_market_data en of
       None \<Rightarrow> Inl (Python_error Runtime_error)
     | Some ask \<Rightarrow>
         (case ask (rv_canonical r) config of
            Preflight p \<Rightarrow> Inr p
          | Not_lowered m \<Rightarrow> Inl (Backtest_error (Unsupported_strategy m))
          | Preflight_failed e \<Rightarrow> Inl (Backtest_error e))))"

definition list_runs :: "codec \<Rightarrow> run_codec \<Rightarrow> string \<Rightarrow> database \<Rightarrow> run_record list sres" where
  "list_runs sk k revision_id db = ebind (get_revision_by_id sk revision_id db) (\<lambda>_. repo_list_runs k revision_id db)"

definition get_run :: "run_codec \<Rightarrow> string \<Rightarrow> database \<Rightarrow> run_record sres" where
  "get_run k run_id db =
     ebind (repo_get_run k run_id db) (\<lambda>r. case r of None \<Rightarrow> Inl Run_not_found | Some x \<Rightarrow> Inr x)"

definition get_candidate_run :: "run_codec \<Rightarrow> string \<Rightarrow> database \<Rightarrow> run_record option sres" where
  "get_candidate_run k candidate_id db = repo_get_candidate_run k candidate_id db"

definition list_decision_events :: "run_codec \<Rightarrow> string \<Rightarrow> database \<Rightarrow> event_summary list sres" where
  "list_decision_events k run_id db = ebind (get_run k run_id db) (\<lambda>_. repo_list_decision_events k run_id db)"

definition get_decision_event :: "run_codec \<Rightarrow> string \<Rightarrow> string \<Rightarrow> database \<Rightarrow> event_detail sres" where
  "get_decision_event k run_id i db =
     ebind (get_run k run_id db) (\<lambda>_.
     ebind (repo_get_decision_event k run_id i db) (\<lambda>e.
     case e of None \<Rightarrow> Inl Decision_event_not_found | Some x \<Rightarrow> Inr x))"

definition list_decision_event_details :: "run_codec \<Rightarrow> string \<Rightarrow> database \<Rightarrow> event_detail list sres" where
  "list_decision_event_details k run_id db =
     ebind (list_decision_events k run_id db) (emap (\<lambda>e. get_decision_event k run_id (es_id e) db))"

end
