(* ===== verification/Candidate_Store.thy ===== *)
theory Candidate_Store
  imports Run_Store
begin

text \<open>
  Candidates: one tested change to a Revision. \<open>SQLiteCandidateRepository\<close>
  (\<open>persistence/sqlite_candidates.py\<close>) and \<open>CandidateService\<close> (\<open>candidates/service.py\<close>).
\<close>

subsection \<open>Records\<close>

record candidate_diagnostics =
  ci_context_load_ms :: nat
  ci_evidence_target_validation_ms :: nat
  ci_semantic_patch_ms :: nat
  ci_canonical_validation_ms :: nat
  ci_persistence_ms :: nat
  ci_creation_overhead_ms :: nat
  ci_request_total_ms :: nat
  ci_canonical_bytes :: nat

record threshold_change =
  th_component_id :: string
  th_field_path :: string
  th_expected_before :: py_decimal
  th_proposed_after :: py_decimal

record candidate_record =
  ca_id :: string
  ca_base_revision_id :: string
  ca_originating_run_id :: "string option"
  ca_originating_decision_event_id :: "string option"
  ca_change :: threshold_change
  ca_canonical :: canonical_v1
  ca_source_hash :: string
  ca_schema_version :: string
  ca_created_at :: moment
  ca_diagnostics :: candidate_diagnostics

record candidate_execution =
  cx_candidate :: candidate_record
  cx_run :: run_record

record candidate_codec =
  ck_change :: "threshold_change json_codec"
  ck_diagnostics :: "candidate_diagnostics json_codec"
  ck_read_v1 :: "string \<Rightarrow> canonical_v1 res"
  ck_serialized_bytes :: "canonical \<Rightarrow> nat"

text \<open>The codecs of all product records, and what a call reads from its surroundings.\<close>

record product =
  pd_documents :: codec
  pd_runs :: run_codec
  pd_candidates :: candidate_codec
  pd_engine :: engine

subsection \<open>The Candidate repository\<close>

definition candidate_row_of :: "product \<Rightarrow> candidate_record \<Rightarrow> candidate_row" where
  "candidate_row_of pd c =
     \<lparr>cr_id = ca_id c, cr_base_revision_id = ca_base_revision_id c, cr_originating_run_id = ca_originating_run_id c,
      cr_originating_decision_event_id = ca_originating_decision_event_id c,
      cr_change_json = jc_write (ck_change (pd_candidates pd)) (ca_change c),
      cr_canonical_json = co_dump (pd_documents pd) (V1 (ca_canonical c)), cr_source_hash = ca_source_hash c,
      cr_schema_version = ca_schema_version c, cr_created_at = timestamp (ca_created_at c),
      cr_diagnostics_json = jc_write (ck_diagnostics (pd_candidates pd)) (ca_diagnostics c)\<rparr>"

definition repo_create_candidate :: "product \<Rightarrow> candidate_record \<Rightarrow> unit action" where
  "repo_create_candidate pd c =
     transaction (Candidate_persistence_error ''Could not persist Candidate.'')
       (\<lambda>db. ebind (insert_candidate (candidate_row_of pd c) db) (\<lambda>db1. Inr ((), db1)))"

definition read_candidate :: "product \<Rightarrow> candidate_row \<Rightarrow> candidate_record sres" where
  "read_candidate pd r =
     ebind (read_json (ck_change (pd_candidates pd)) (cr_change_json r)) (\<lambda>change.
     ebind (py_to_store (ck_read_v1 (pd_candidates pd) (cr_canonical_json r))) (\<lambda>c.
     ebind (read_time (cr_created_at r)) (\<lambda>created.
     ebind (read_json (ck_diagnostics (pd_candidates pd)) (cr_diagnostics_json r)) (\<lambda>diagnostics.
       Inr \<lparr>ca_id = cr_id r, ca_base_revision_id = cr_base_revision_id r, ca_originating_run_id = cr_originating_run_id r,
            ca_originating_decision_event_id = cr_originating_decision_event_id r, ca_change = change,
            ca_canonical = c, ca_source_hash = cr_source_hash r, ca_schema_version = cr_schema_version r,
            ca_created_at = created, ca_diagnostics = diagnostics\<rparr>))))"

definition repo_get_candidate :: "product \<Rightarrow> string \<Rightarrow> database \<Rightarrow> candidate_record option sres" where
  "repo_get_candidate pd i db = eopt (read_candidate pd) (select_one (\<lambda>r. cr_id r = i) (db_candidates db))"

definition repo_list_candidates :: "product \<Rightarrow> string \<Rightarrow> database \<Rightarrow> candidate_record list sres" where
  "repo_list_candidates pd run_id db =
     ebind (emap (\<lambda>r. repo_get_candidate pd (cr_id r) db)
              (order_by (newest_first cr_created_at cr_id)
                (filter (\<lambda>r. cr_originating_run_id r = Some run_id) (db_candidates db)))) (\<lambda>cs.
       if list_ex (\<lambda>c. c = None) cs then Inl (Candidate_persistence_error ''Candidate disappeared while listing.'')
       else Inr (List.map_filter id cs))"

definition repo_update_diagnostics :: "product \<Rightarrow> string \<Rightarrow> candidate_diagnostics \<Rightarrow> unit action" where
  "repo_update_diagnostics pd i d =
     transaction (Candidate_persistence_error ''Could not persist Candidate diagnostics.'') (\<lambda>db.
       ebind (update_candidates (\<lambda>r. cr_id r = i)
                (\<lambda>r. r\<lparr>cr_diagnostics_json := jc_write (ck_diagnostics (pd_candidates pd)) d\<rparr>) db) (\<lambda>(db1, n).
       if n \<noteq> 1 then Inl (Candidate_persistence_error ''Candidate was not found.'') else Inr ((), db1)))"

subsection \<open>The one change a Candidate makes\<close>

text \<open>
  \<open>Decimal(str(value))\<close> of a configuration value. Text and numbers are read; for any other value
  \<open>str\<close> gives text that is no number. \<open>decimal.InvalidOperation\<close> is no \<open>ValueError\<close>, so the
  \<open>except\<close> clause does not catch it.
\<close>

datatype config_number = Numeral py_decimal | Plain_number decimal

definition config_decimal :: "json option \<Rightarrow> config_number res" where
  "config_decimal v =
     (case v of
        Some (J_string s) \<Rightarrow> map_sum id Numeral (python_decimal s)
      | Some (J_number d) \<Rightarrow> Inr (Plain_number d)
      | _ \<Rightarrow> Inl Invalid_operation)"

definition number_value :: "config_number \<Rightarrow> decimal option" where
  "number_value n =
     (case n of
        Plain_number d \<Rightarrow> Some d
      | Numeral d \<Rightarrow> if is_finite d then Some (decimal_value d) else None)"

text \<open>\<open>!=\<close> with a finite number: an infinity and a quiet NaN differ from it, a signalling NaN raises.\<close>

definition differs :: "config_number \<Rightarrow> py_decimal \<Rightarrow> bool res" where
  "differs n d =
     (if n = Numeral (Dec_nan True) then Inl Invalid_operation
      else Inr (number_value n \<noteq> Some (decimal_value d)))"

definition invalid_change :: "string \<Rightarrow> 'a sres" where
  "invalid_change message = Inl (Invalid_candidate_change message)"

definition component_index :: "string \<Rightarrow> v1_component list \<Rightarrow> nat option" where
  "component_index i cs = map_option fst (find (\<lambda>(_, c). vc_id c = i) (enumerate 0 cs))"

definition patched :: "canonical_v1 \<Rightarrow> nat \<Rightarrow> py_decimal \<Rightarrow> canonical_v1" where
  "patched d n value =
     d\<lparr>v1_components := (v1_components d)[n := (v1_components d ! n)\<lparr>vc_config :=
        dset ''threshold'' (J_string (decimal_text value)) (vc_config (v1_components d ! n))\<rparr>]\<rparr>"

definition patch_components :: "canonical_v1 \<Rightarrow> threshold_change \<Rightarrow> canonical_v1 sres" where
  "patch_components d change =
     (case component_index (th_component_id change) (v1_components d) of
        None \<Rightarrow> invalid_change ''Candidate component was not found.''
      | Some n \<Rightarrow>
          let c = v1_components d ! n in
          if vc_primitive c \<noteq> ''filter@1'' \<or> th_field_path change \<noteq> ''config.threshold''
          then invalid_change ''Candidate v0 supports only filter@1 config.threshold.''
          else ebind (py_to_store (config_decimal (dget (vc_config c) ''threshold''))) (\<lambda>current.
               ebind (py_to_store (differs current (th_expected_before change))) (\<lambda>mismatch.
               if mismatch then Inl Candidate_value_mismatch
               else if number_value current = Some (decimal_value (th_proposed_after change))
               then invalid_change ''Candidate change must alter the source value.''
               else Inr (patched d n (th_proposed_after change)))))"

text \<open>A V2 document has no \<open>graph\<close>; reading it raises \<open>AttributeError\<close>.\<close>

definition apply_filter_threshold :: "canonical \<Rightarrow> threshold_change \<Rightarrow> canonical sres" where
  "apply_filter_threshold source change =
     (if \<not> is_finite (th_expected_before change) \<or> \<not> is_finite (th_proposed_after change)
      then invalid_change ''Candidate values must be finite numbers.''
      else case source of
             V2 _ \<Rightarrow> Inl (Python_error Attribute_error)
           | V1 d \<Rightarrow> ebind (patch_components d change) (\<lambda>d'. Inr (V1 d')))"

subsection \<open>The Candidate service\<close>

record candidate_readings =
  rn_candidate_id :: string
  rn_created :: moment
  rn_diagnostics :: candidate_diagnostics
  rn_persisted :: candidate_diagnostics
  rn_request_total_ms :: nat
  rn_run :: run_readings

definition identifies_field :: "event_detail \<Rightarrow> threshold_change \<Rightarrow> bool" where
  "identifies_field e change \<longleftrightarrow>
     list_ex (\<lambda>r. sc_component_id r = th_component_id change \<and> sc_field_path r = Some (th_field_path change)) (es_sources e)"

definition check_evidence_target :: "product \<Rightarrow> string \<Rightarrow> threshold_change \<Rightarrow> string option \<Rightarrow> database \<Rightarrow> unit sres" where
  "check_evidence_target pd run_id change event db =
     (case event of
        None \<Rightarrow> Inr ()
      | Some i \<Rightarrow>
          ebind (get_decision_event (pd_runs pd) run_id i db) (\<lambda>e.
            if identifies_field e change then Inr ()
            else invalid_change ''The Decision Event does not identify the requested Strategy field.''))"

text \<open>Everything before the Candidate is stored: its origin, its base and the patched document.\<close>

definition prepare_candidate ::
  "product \<Rightarrow> string \<Rightarrow> threshold_change \<Rightarrow> string option \<Rightarrow> database \<Rightarrow> (run_record \<times> revision_record \<times> canonical) sres" where
  "prepare_candidate pd run_id change event db =
     ebind (get_run (pd_runs pd) run_id db) (\<lambda>origin.
     if bk_candidate_id origin \<noteq> None then invalid_change ''Candidate v0 must originate from a Revision-backed Run.''
     else ebind (get_revision_by_id (pd_documents pd) (bk_revision_id origin) db) (\<lambda>r.
          ebind (get_strategy (pd_documents pd) (rv_strategy_id r) db) (\<lambda>detail.
          if sg_archived_at (sx_strategy detail) \<noteq> None
          then Inl (Candidate_archived_strategy ''New Candidates cannot be created for an archived Strategy.'')
          else ebind (check_evidence_target pd run_id change event db) (\<lambda>_.
               ebind (apply_filter_threshold (rv_canonical r) change) (\<lambda>c.
               ebind (validate_source (pd_documents pd) (Parsed c)) (\<lambda>c'.
               Inr (origin, r, c')))))))"

text \<open>\<open>CandidateRecord\<close> takes a V1 document only.\<close>

definition candidate_of ::
  "product \<Rightarrow> candidate_readings \<Rightarrow> run_record \<Rightarrow> revision_record \<Rightarrow> threshold_change \<Rightarrow> string option \<Rightarrow> canonical \<Rightarrow> candidate_record sres" where
  "candidate_of pd rn origin r change event c =
     (case c of
        V2 _ \<Rightarrow> Inl (Python_error (Value_error ''ValidationError''))
      | V1 d \<Rightarrow> Inr
          \<lparr>ca_id = rn_candidate_id rn, ca_base_revision_id = rv_id r, ca_originating_run_id = Some (bk_id origin),
           ca_originating_decision_event_id = event, ca_change = change, ca_canonical = d,
           ca_source_hash = co_digest (pd_documents pd) c, ca_schema_version = api_version c,
           ca_created_at = rn_created rn,
           ca_diagnostics = (rn_diagnostics rn)\<lparr>ci_canonical_bytes := ck_serialized_bytes (pd_candidates pd) c\<rparr>\<rparr>)"

definition create_candidate ::
  "product \<Rightarrow> candidate_readings \<Rightarrow> string \<Rightarrow> threshold_change \<Rightarrow> string option \<Rightarrow> candidate_execution action" where
  "create_candidate pd rn run_id change event =
     abind (query (prepare_candidate pd run_id change event)) (\<lambda>(origin, r, c).
     abind (query (\<lambda>_. candidate_of pd rn origin r change event c)) (\<lambda>candidate.
     abind (repo_create_candidate pd candidate) (\<lambda>_.
     let d1 = (rn_persisted rn)\<lparr>ci_canonical_bytes := ci_canonical_bytes (ca_diagnostics candidate)\<rparr> in
     abind (repo_update_diagnostics pd (ca_id candidate) d1) (\<lambda>_.
     abind (create_and_execute_candidate (pd_runs pd) (pd_engine pd) (rn_run rn) (ca_id candidate)
              (ca_base_revision_id candidate) (V1 (ca_canonical candidate)) (ca_source_hash candidate)
              (ca_schema_version candidate) (bk_run_config origin)) (\<lambda>run.
     let d2 = d1\<lparr>ci_request_total_ms := max (rn_request_total_ms rn) (ci_creation_overhead_ms d1 + tm_total_ms (bk_timings run))\<rparr> in
     abind (repo_update_diagnostics pd (ca_id candidate) d2) (\<lambda>_.
     query (\<lambda>_. Inr \<lparr>cx_candidate = candidate\<lparr>ca_diagnostics := d2\<rparr>, cx_run = run\<rparr>)))))))"

definition get_candidate :: "product \<Rightarrow> string \<Rightarrow> database \<Rightarrow> candidate_execution sres" where
  "get_candidate pd i db =
     ebind (repo_get_candidate pd i db) (\<lambda>c.
     case c of
       None \<Rightarrow> Inl (Candidate_not_found ''Candidate was not found.'')
     | Some candidate \<Rightarrow>
         ebind (get_candidate_run (pd_runs pd) (ca_id candidate) db) (\<lambda>r.
         case r of
           None \<Rightarrow> Inl (Candidate_not_found ''Candidate Run was not found.'')
         | Some run \<Rightarrow> Inr \<lparr>cx_candidate = candidate, cx_run = run\<rparr>))"

definition check_adoption :: "product \<Rightarrow> string \<Rightarrow> string \<Rightarrow> database \<Rightarrow> (candidate_record \<times> string \<times> canonical) sres" where
  "check_adoption pd candidate_id expected db =
     ebind (get_candidate pd candidate_id db) (\<lambda>x.
     let candidate = cx_candidate x in
     if bk_status (cx_run x) \<noteq> Succeeded then Inl Candidate_run_not_succeeded
     else ebind (get_revision_by_id (pd_documents pd) (ca_base_revision_id candidate) db) (\<lambda>base.
          if expected \<noteq> ca_base_revision_id candidate then Inl Adoption_lineage_mismatch
          else ebind (get_strategy (pd_documents pd) (rv_strategy_id base) db) (\<lambda>detail.
               if sg_archived_at (sx_strategy detail) \<noteq> None
               then Inl (Candidate_archived_strategy ''Archived Strategies cannot adopt a Candidate.'')
               else ebind (validate_source (pd_documents pd) (Parsed (V1 (ca_canonical candidate)))) (\<lambda>c.
                    if co_digest (pd_documents pd) c \<noteq> ca_source_hash candidate
                    then invalid_change ''Candidate source integrity could not be verified.''
                    else Inr (candidate, rv_strategy_id base, c)))))"

definition adopt_candidate :: "product \<Rightarrow> moment \<Rightarrow> string \<Rightarrow> string \<Rightarrow> string \<Rightarrow> save_response action" where
  "adopt_candidate pd now revision_id candidate_id expected =
     abind (query (check_adoption pd candidate_id expected)) (\<lambda>(candidate, strategy_id, c).
     adopt_candidate_revision (pd_documents pd) now revision_id (ca_id candidate) strategy_id expected (Parsed c))"

definition list_candidates_for_run :: "product \<Rightarrow> string \<Rightarrow> database \<Rightarrow> candidate_execution list sres" where
  "list_candidates_for_run pd run_id db =
     ebind (get_run (pd_runs pd) run_id db) (\<lambda>_.
     ebind (repo_list_candidates pd run_id db) (emap (\<lambda>c. get_candidate pd (ca_id c) db)))"

definition get_base_revision :: "product \<Rightarrow> candidate_record \<Rightarrow> database \<Rightarrow> revision_record sres" where
  "get_base_revision pd candidate db = get_revision_by_id (pd_documents pd) (ca_base_revision_id candidate) db"

end
