(* ===== verification/Comparison_Store.thy ===== *)
theory Comparison_Store
  imports Candidate_Store
begin

text \<open>
  Comparisons of a Candidate Run with the Run it came from: \<open>align_decision_evidence\<close> and
  \<open>ComparisonService\<close> (\<open>comparisons/service.py\<close>), and \<open>SQLiteComparisonRepository\<close>
  (\<open>persistence/sqlite_comparisons.py\<close>).
\<close>

subsection \<open>Alignment\<close>

fun phase_order :: "phase \<Rightarrow> nat" where
  "phase_order Ph_evaluation = 0"
| "phase_order Ph_selection = 1"
| "phase_order Ph_snapshot_commit = 2"
| "phase_order Ph_portfolio_execution = 3"
| "phase_order Ph_state_mutation = 4"

text \<open>\<open>_KIND_ORDER\<close> has no entry for \<open>value_condition\<close>.\<close>

fun kind_order :: "evidence_kind \<Rightarrow> nat option" where
  "kind_order Kd_predicate = Some 0"
| "kind_order Kd_filter = Some 0"
| "kind_order Kd_random_selection = Some 1"
| "kind_order Kd_selection = Some 1"
| "kind_order Kd_cooldown = Some 2"
| "kind_order Kd_fallback = Some 3"
| "kind_order Kd_final_selection = Some 4"
| "kind_order Kd_snapshot_refresh = Some 5"
| "kind_order Kd_snapshot_usage = Some 6"
| "kind_order Kd_sleeve_contribution = Some 7"
| "kind_order Kd_final_targets = Some 8"
| "kind_order Kd_state_mutation = Some 9"
| "kind_order Kd_value_condition = None"

record alignment_base =
  ab_session :: cal_date
  ab_phase :: phase
  ab_kind :: evidence_kind
  ab_sources :: "(string \<times> string \<times> string) list"
  ab_subject :: string

type_synonym alignment_key = "alignment_base \<times> nat"

definition subject_of :: "evidence \<Rightarrow> string" where
  "subject_of e =
     (case e of
        Ev_predicate x \<Rightarrow> pe_asset x
      | Ev_fallback x \<Rightarrow> fb_asset x
      | Ev_cooldown x \<Rightarrow> cd_asset x
      | Ev_state_mutation x \<Rightarrow> st_asset x
      | _ \<Rightarrow> [])"

definition triple_le :: "string \<times> string \<times> string \<Rightarrow> string \<times> string \<times> string \<Rightarrow> bool" where
  "triple_le x y \<longleftrightarrow> (case (x, y) of ((a, b, c), (a', b', c')) \<Rightarrow> a < a' \<or> (a = a' \<and> (b < b' \<or> (b = b' \<and> c < c'))))"

definition source_key :: "source_ref \<Rightarrow> string \<times> string \<times> string" where
  "source_key r = (sc_role r, sc_component_id r, (case sc_field_path r of None \<Rightarrow> [] | Some p \<Rightarrow> p))"

definition base_key :: "event_detail \<Rightarrow> alignment_base" where
  "base_key e =
     \<lparr>ab_session = es_session e, ab_phase = es_phase e, ab_kind = es_kind e,
      ab_sources = order_by triple_le (map source_key (es_sources e)), ab_subject = subject_of (ed_evidence e)\<rparr>"

text \<open>\<open>counts\<close> numbers the events that share a base, in the order of their ordinals.\<close>

definition index_step ::
  "event_detail \<Rightarrow> (alignment_base, nat) dict \<times> (alignment_key, event_detail) dict \<Rightarrow>
    (alignment_base, nat) dict \<times> (alignment_key, event_detail) dict" where
  "index_step e = (\<lambda>(counts, indexed).
     let base = base_key e; n = dget_or counts base 0 + 1 in (dset base n counts, dset (base, n) e indexed))"

definition index_events :: "event_detail list \<Rightarrow> (alignment_key, event_detail) dict" where
  "index_events es = snd (fold index_step (order_by (\<lambda>x y. es_ordinal x < es_ordinal y) es) ([], []))"

datatype difference_kind =
    Event_presence_changed | Predicate_branch_changed | Qualification_changed | Rank_changed
  | Candidate_membership_changed | Primary_selection_changed | Fallback_activation_changed
  | Cooldown_eligibility_changed | Final_selection_changed | Snapshot_targets_changed | Snapshot_usage_changed
  | Sleeve_contribution_changed | State_mutation_changed | Final_target_changed

definition flag :: "bool \<Rightarrow> 'a \<Rightarrow> 'a list" where
  "flag b x = (if b then [x] else [])"

text \<open>Dictionaries are equal when they have the same entries; \<open>{k: v for ...}\<close> keeps the last one.\<close>

definition same_dict :: "('k, 'v) dict \<Rightarrow> ('k, 'v) dict \<Rightarrow> bool" where
  "same_dict d d' \<longleftrightarrow> set (dkeys d) = set (dkeys d') \<and> list_all (\<lambda>k. dget d k = dget d' k) (dkeys d)"

definition passes :: "filter_evidence \<Rightarrow> (string, bool) dict" where
  "passes f = dict_of (map (\<lambda>a. (xp_asset a, xp_passed a)) (fe_evaluations f))"

text \<open>\<open>_classify\<close> has no case for \<open>value_condition\<close>: nothing is compared there.\<close>

definition classify :: "evidence \<Rightarrow> evidence \<Rightarrow> difference_kind list" where
  "classify l r =
     (if kind_of l \<noteq> kind_of r then [Event_presence_changed]
      else case (l, r) of
        (Ev_predicate a, Ev_predicate b) \<Rightarrow>
          flag (pe_outcome a \<noteq> pe_outcome b \<or> pe_branch a \<noteq> pe_branch b) Predicate_branch_changed
      | (Ev_filter a, Ev_filter b) \<Rightarrow>
          flag (\<not> same_dict (passes a) (passes b) \<or> fe_decision_universe a \<noteq> fe_decision_universe b) Qualification_changed
      | (Ev_selection a, Ev_selection b) \<Rightarrow>
          flag (xe_ranked a \<noteq> xe_ranked b) Rank_changed
          @ flag (xe_candidates a \<noteq> xe_candidates b) Candidate_membership_changed
          @ flag (xe_primary_selected a \<noteq> xe_primary_selected b \<or> xe_decision a \<noteq> xe_decision b) Primary_selection_changed
      | (Ev_random_selection a, Ev_random_selection b) \<Rightarrow> flag (ra_selected a \<noteq> ra_selected b) Primary_selection_changed
      | (Ev_fallback a, Ev_fallback b) \<Rightarrow>
          flag (fb_activated a \<noteq> fb_activated b \<or> fb_asset a \<noteq> fb_asset b) Fallback_activation_changed
      | (Ev_cooldown a, Ev_cooldown b) \<Rightarrow>
          flag (cd_signal_candidate a \<noteq> cd_signal_candidate b \<or> cd_eligible a \<noteq> cd_eligible b) Cooldown_eligibility_changed
      | (Ev_final_selection a, Ev_final_selection b) \<Rightarrow>
          flag (fs_selected a \<noteq> fs_selected b \<or> fs_source a \<noteq> fs_source b) Final_selection_changed
      | (Ev_snapshot_refresh a, Ev_snapshot_refresh b) \<Rightarrow>
          flag (\<not> same_dict (sf_local_targets a) (sf_local_targets b)) Snapshot_targets_changed
      | (Ev_snapshot_usage a, Ev_snapshot_usage b) \<Rightarrow>
          flag (\<not> same_dict (su_snapshots a) (su_snapshots b) \<or> su_executed a \<noteq> su_executed b) Snapshot_usage_changed
      | (Ev_sleeve a, Ev_sleeve b) \<Rightarrow>
          flag (sl_local_selected a \<noteq> sl_local_selected b \<or> \<not> same_dict (sl_local_targets a) (sl_local_targets b)
            \<or> \<not> same_dict (sl_scaled_targets a) (sl_scaled_targets b)) Sleeve_contribution_changed
      | (Ev_state_mutation a, Ev_state_mutation b) \<Rightarrow> flag (a \<noteq> b) State_mutation_changed
      | (Ev_final_targets a, Ev_final_targets b) \<Rightarrow>
          flag (ft_selected a \<noteq> ft_selected b \<or> \<not> same_dict (ft_targets a) (ft_targets b)) Final_target_changed
      | _ \<Rightarrow> [])"

fun semantic_kind :: "evidence_kind \<Rightarrow> difference_kind option" where
  "semantic_kind Kd_predicate = Some Predicate_branch_changed"
| "semantic_kind Kd_filter = Some Qualification_changed"
| "semantic_kind Kd_selection = Some Primary_selection_changed"
| "semantic_kind Kd_random_selection = Some Primary_selection_changed"
| "semantic_kind Kd_fallback = Some Fallback_activation_changed"
| "semantic_kind Kd_cooldown = Some Cooldown_eligibility_changed"
| "semantic_kind Kd_final_selection = Some Final_selection_changed"
| "semantic_kind Kd_snapshot_refresh = Some Snapshot_targets_changed"
| "semantic_kind Kd_snapshot_usage = Some Snapshot_usage_changed"
| "semantic_kind Kd_sleeve_contribution = Some Sleeve_contribution_changed"
| "semantic_kind Kd_state_mutation = Some State_mutation_changed"
| "semantic_kind Kd_final_targets = Some Final_target_changed"
| "semantic_kind Kd_value_condition = None"

definition presence_change_kinds :: "event_detail \<Rightarrow> difference_kind list" where
  "presence_change_kinds e =
     Event_presence_changed # (case semantic_kind (es_kind e) of None \<Rightarrow> [] | Some k \<Rightarrow> [k])"

datatype presence = Both | Original_only | Candidate_only

record behavior_difference =
  bd_key :: string
  bd_presence :: presence
  bd_kinds :: "difference_kind list"
  bd_original_event :: "event_detail option"
  bd_candidate_event :: "event_detail option"

record context_diff =
  xd_session :: cal_date
  xd_differences :: "behavior_difference list"

definition key_text :: "alignment_key \<Rightarrow> string" where
  "key_text key =
     (let (b, n) = key in
      date_text (ab_session b) @ ''|'' @ phase_text (ab_phase b) @ ''|'' @ kind_text (ab_kind b) @ ''|''
        @ join_with '','' (map (\<lambda>(role, component, field). role @ '':'' @ component @ '':'' @ field) (ab_sources b))
        @ ''|'' @ ab_subject b @ ''|'' @ str_of_nat n)"

text \<open>\<open>_alignment_sort_key\<close> looks the kind up and raises \<open>KeyError\<close> when it is missing.\<close>

definition check_sort_key :: "alignment_key \<Rightarrow> unit res" where
  "check_sort_key key = (case kind_order (ab_kind (fst key)) of None \<Rightarrow> Inl Key_error | Some _ \<Rightarrow> Inr ())"

fun lex_less :: "(string \<times> string \<times> string) list \<Rightarrow> (string \<times> string \<times> string) list \<Rightarrow> bool" where
  "lex_less [] [] = False"
| "lex_less [] (_ # _) = True"
| "lex_less (_ # _) [] = False"
| "lex_less (x # xs) (y # ys) = (triple_le x y \<or> (x = y \<and> lex_less xs ys))"

definition key_less :: "alignment_key \<Rightarrow> alignment_key \<Rightarrow> bool" where
  "key_less x y \<longleftrightarrow>
     (let (a, i) = x; (b, j) = y in
      date_less (ab_session a) (ab_session b) \<or> (ab_session a = ab_session b \<and>
       (phase_order (ab_phase a) < phase_order (ab_phase b) \<or> (ab_phase a = ab_phase b \<and>
        (the (kind_order (ab_kind a)) < the (kind_order (ab_kind b)) \<or> (kind_order (ab_kind a) = kind_order (ab_kind b) \<and>
         (lex_less (ab_sources a) (ab_sources b) \<or> (ab_sources a = ab_sources b \<and>
          (ab_subject a < ab_subject b \<or> (ab_subject a = ab_subject b \<and> i < j))))))))))"

definition difference_at ::
  "(alignment_key, event_detail) dict \<Rightarrow> (alignment_key, event_detail) dict \<Rightarrow> alignment_key \<Rightarrow> (cal_date \<times> behavior_difference) option" where
  "difference_at original candidate key =
     (case (dget original key, dget candidate key) of
        (Some b, Some a) \<Rightarrow>
          let kinds = classify (ed_evidence b) (ed_evidence a) in
          if kinds = [] then None
          else Some (es_session b, \<lparr>bd_key = key_text key, bd_presence = Both, bd_kinds = kinds,
                                   bd_original_event = Some b, bd_candidate_event = Some a\<rparr>)
      | (Some b, None) \<Rightarrow>
          Some (es_session b, \<lparr>bd_key = key_text key, bd_presence = Original_only, bd_kinds = presence_change_kinds b,
                              bd_original_event = Some b, bd_candidate_event = None\<rparr>)
      | (None, Some a) \<Rightarrow>
          Some (es_session a, \<lparr>bd_key = key_text key, bd_presence = Candidate_only, bd_kinds = presence_change_kinds a,
                              bd_original_event = None, bd_candidate_event = Some a\<rparr>)
      | (None, None) \<Rightarrow> None)"

definition group_differences :: "(cal_date \<times> behavior_difference) list \<Rightarrow> context_diff list" where
  "group_differences ds =
     map (\<lambda>s. \<lparr>xd_session = s, xd_differences = map snd (filter (\<lambda>(t, _). t = s) ds)\<rparr>)
       (order_by date_less (remdups (map fst ds)))"

definition alignment_keys :: "event_detail list \<Rightarrow> event_detail list \<Rightarrow> alignment_key list" where
  "alignment_keys original candidate =
     order_by key_less (remdups (dkeys (index_events original) @ dkeys (index_events candidate)))"

definition align_decision_evidence :: "event_detail list \<Rightarrow> event_detail list \<Rightarrow> (context_diff list \<times> nat) res" where
  "align_decision_evidence original candidate =
     (let keys = alignment_keys original candidate in
      ebind (emap check_sort_key keys) (\<lambda>_.
        Inr (group_differences (List.map_filter (difference_at (index_events original) (index_events candidate)) keys),
             length keys)))"

subsection \<open>Records and their repository\<close>

record decimal_diff =
  dd_original :: decimal
  dd_candidate :: decimal
  dd_delta :: decimal

record integer_diff =
  id_original :: int
  id_candidate :: int
  id_delta :: int

record result_diff =
  rs_initial_value :: decimal_diff
  rs_final_value :: decimal_diff
  rs_total_return :: decimal_diff
  rs_total_orders :: integer_diff
  rs_total_fees :: decimal_diff
  rs_original_equity_run_id :: string
  rs_candidate_equity_run_id :: string

record strategy_diff =
  sd_component_id :: string
  sd_field_path :: string
  sd_before :: py_decimal
  sd_after :: py_decimal

record first_difference =
  fd_session :: cal_date
  fd_difference_key :: string

record comparison_diagnostics =
  cg_artifact_load_ms :: nat
  cg_comparability_validation_ms :: nat
  cg_evidence_load_ms :: nat
  cg_alignment_ms :: nat
  cg_result_diff_ms :: nat
  cg_persistence_ms :: nat
  cg_total_ms :: nat
  cg_comparison_bytes :: nat

record comparison_record =
  cm_id :: string
  cm_candidate_id :: string
  cm_original_run_id :: string
  cm_candidate_run_id :: string
  cm_strategy_diff :: strategy_diff
  cm_aligned_evidence_records :: nat
  cm_changed_decision_contexts :: "context_diff list"
  cm_first_difference :: "first_difference option"
  cm_result_diff :: result_diff
  cm_compute_ms :: nat
  cm_created_at :: moment
  cm_diagnostics :: comparison_diagnostics

record comparison_codec =
  mk_comparison :: "comparison_record json_codec"
  mk_diagnostics :: "comparison_diagnostics json_codec"
  mk_bytes :: "comparison_record \<Rightarrow> nat"

definition comparison_row_of :: "comparison_codec \<Rightarrow> comparison_record \<Rightarrow> comparison_row" where
  "comparison_row_of k c =
     \<lparr>pr_id = cm_id c, pr_candidate_id = cm_candidate_id c, pr_original_run_id = cm_original_run_id c,
      pr_candidate_run_id = cm_candidate_run_id c, pr_schema_version = 1,
      pr_comparison_json = jc_write (mk_comparison k) c, pr_created_at = timestamp (cm_created_at c),
      pr_diagnostics_json = ''{}''\<rparr>"

definition repo_create_comparison :: "comparison_codec \<Rightarrow> comparison_record \<Rightarrow> unit action" where
  "repo_create_comparison k c =
     transaction (Comparison_persistence_error ''Comparison already exists.'')
       (\<lambda>db. ebind (insert_comparison (comparison_row_of k c) db) (\<lambda>db1. Inr ((), db1)))"

definition read_comparison :: "comparison_codec \<Rightarrow> comparison_row \<Rightarrow> comparison_record sres" where
  "read_comparison k r =
     ebind (read_json (mk_comparison k) (pr_comparison_json r)) (\<lambda>c.
     ebind (read_json (mk_diagnostics k) (pr_diagnostics_json r)) (\<lambda>d. Inr (c\<lparr>cm_diagnostics := d\<rparr>)))"

definition repo_get_comparison :: "comparison_codec \<Rightarrow> string \<Rightarrow> database \<Rightarrow> comparison_record option sres" where
  "repo_get_comparison k i db = eopt (read_comparison k) (select_one (\<lambda>r. pr_id r = i) (db_comparisons db))"

definition repo_get_for_candidate :: "comparison_codec \<Rightarrow> string \<Rightarrow> database \<Rightarrow> comparison_record option sres" where
  "repo_get_for_candidate k i db = eopt (read_comparison k) (select_one (\<lambda>r. pr_candidate_id r = i) (db_comparisons db))"

definition repo_update_comparison_diagnostics :: "comparison_codec \<Rightarrow> string \<Rightarrow> comparison_diagnostics \<Rightarrow> unit action" where
  "repo_update_comparison_diagnostics k i d =
     transaction (Comparison_persistence_error ''Could not persist Comparison diagnostics.'') (\<lambda>db.
       ebind (update_comparisons (\<lambda>r. pr_id r = i) (\<lambda>r. r\<lparr>pr_diagnostics_json := jc_write (mk_diagnostics k) d\<rparr>) db) (\<lambda>(db1, n).
       if n \<noteq> 1 then Inl (Comparison_persistence_error ''Comparison was not found.'') else Inr ((), db1)))"

subsection \<open>The Comparison service\<close>

definition incomparable :: "string \<Rightarrow> 'a sres" where
  "incomparable message = Inl (Incomparable_runs message)"

definition validate_pair ::
  "string \<Rightarrow> string \<Rightarrow> string \<Rightarrow> run_record \<Rightarrow> run_record \<Rightarrow> string \<Rightarrow> unit sres" where
  "validate_pair base_revision_id base_hash candidate_hash original candidate candidate_id =
     (if bk_candidate_id original \<noteq> None then incomparable ''Original Run must be Revision-backed.''
      else if bk_candidate_id candidate \<noteq> Some candidate_id then incomparable ''Candidate Run does not belong to Candidate.''
      else if bk_revision_id original \<noteq> base_revision_id \<or> bk_revision_id candidate \<noteq> base_revision_id
      then incomparable ''Run Revision lineage does not match Candidate base.''
      else if ro_source_hash (bk_provenance original) \<noteq> base_hash
      then incomparable ''Original Run source does not match base Revision.''
      else if ro_source_hash (bk_provenance candidate) \<noteq> candidate_hash
      then incomparable ''Candidate Run source does not match Candidate.''
      else if bk_run_config original \<noteq> bk_run_config candidate
      then incomparable ''Run configurations are not exactly equal.''
      else if bk_status original \<noteq> Succeeded \<or> bk_status candidate \<noteq> Succeeded
      then incomparable ''Behavior and Result Comparison requires succeeded Runs.''
      else if bk_result original = None \<or> bk_result candidate = None
      then incomparable ''Succeeded Runs require normalized Results.''
      else Inr ())"

definition comparable_events :: "product \<Rightarrow> string \<Rightarrow> database \<Rightarrow> event_detail list sres" where
  "comparable_events pd run_id db =
     ebind (list_decision_event_details (pd_runs pd) run_id db) (\<lambda>es.
       if es = [] then Inl (Evidence_unsupported ''Comparison requires persisted Decision Evidence.'')
       else if list_ex (\<lambda>e. es_schema_version e \<noteq> 2) es
       then Inl (Evidence_unsupported ''Behavior Comparison requires Decision Evidence v2.'')
       else Inr es)"

definition decimal_metric :: "decimal \<Rightarrow> decimal \<Rightarrow> decimal_diff" where
  "decimal_metric original candidate =
     \<lparr>dd_original = original, dd_candidate = candidate, dd_delta = dsub candidate original\<rparr>"

definition result_diff_of :: "run_record \<Rightarrow> run_record \<Rightarrow> result_diff sres" where
  "result_diff_of original candidate =
     (case (bk_result original, bk_result candidate) of
        (Some l, Some r) \<Rightarrow> Inr
          \<lparr>rs_initial_value = decimal_metric (bt_initial_value l) (bt_initial_value r),
           rs_final_value = decimal_metric (bt_final_value l) (bt_final_value r),
           rs_total_return = decimal_metric (bt_total_return l) (bt_total_return r),
           rs_total_orders = \<lparr>id_original = bt_total_orders l, id_candidate = bt_total_orders r,
                              id_delta = bt_total_orders r - bt_total_orders l\<rparr>,
           rs_total_fees = decimal_metric (bt_total_fees l) (bt_total_fees r),
           rs_original_equity_run_id = bk_id original, rs_candidate_equity_run_id = bk_id candidate\<rparr>
      | _ \<Rightarrow> Inl (Python_error Assertion_error))"

definition first_difference_of :: "context_diff list \<Rightarrow> first_difference option res" where
  "first_difference_of contexts =
     (case contexts of
        [] \<Rightarrow> Inr None
      | c # _ \<Rightarrow>
          (case xd_differences c of
             [] \<Rightarrow> Inl Index_error
           | d # _ \<Rightarrow> Inr (Some \<lparr>fd_session = xd_session c, fd_difference_key = bd_key d\<rparr>)))"

record comparison_readings =
  rp_comparison_id :: string
  rp_created :: moment
  rp_compute_ms :: nat
  rp_diagnostics :: comparison_diagnostics
  rp_persistence_ms :: nat
  rp_total_ms :: nat

text \<open>The comparison of the stored artifacts, before it is stored itself.\<close>

definition compute_comparison ::
  "product \<Rightarrow> comparison_codec \<Rightarrow> comparison_readings \<Rightarrow> string \<Rightarrow> database \<Rightarrow> comparison_record sres" where
  "compute_comparison pd k rp candidate_id db =
     ebind (get_candidate pd candidate_id db) (\<lambda>x.
     let candidate = cx_candidate x; candidate_run = cx_run x in
     case ca_originating_run_id candidate of
       None \<Rightarrow> incomparable ''Candidate has no originating Run.''
     | Some origin_id \<Rightarrow>
         ebind (get_run (pd_runs pd) origin_id db) (\<lambda>original_run.
         ebind (get_base_revision pd candidate db) (\<lambda>base.
         ebind (validate_pair (ca_base_revision_id candidate) (rv_source_hash base) (ca_source_hash candidate)
                  original_run candidate_run (ca_id candidate)) (\<lambda>_.
         ebind (comparable_events pd (bk_id original_run) db) (\<lambda>original_events.
         ebind (comparable_events pd (bk_id candidate_run) db) (\<lambda>candidate_events.
         ebind (py_to_store (align_decision_evidence original_events candidate_events)) (\<lambda>(contexts, aligned).
         ebind (py_to_store (first_difference_of contexts)) (\<lambda>first.
         ebind (result_diff_of original_run candidate_run) (\<lambda>results.
           let c = \<lparr>cm_id = rp_comparison_id rp, cm_candidate_id = ca_id candidate, cm_original_run_id = bk_id original_run,
                    cm_candidate_run_id = bk_id candidate_run,
                    cm_strategy_diff = \<lparr>sd_component_id = th_component_id (ca_change candidate),
                       sd_field_path = th_field_path (ca_change candidate), sd_before = th_expected_before (ca_change candidate),
                       sd_after = th_proposed_after (ca_change candidate)\<rparr>,
                    cm_aligned_evidence_records = aligned, cm_changed_decision_contexts = contexts,
                    cm_first_difference = first, cm_result_diff = results, cm_compute_ms = rp_compute_ms rp,
                    cm_created_at = rp_created rp, cm_diagnostics = rp_diagnostics rp\<rparr>
           in Inr (c\<lparr>cm_diagnostics := (rp_diagnostics rp)\<lparr>cg_comparison_bytes := mk_bytes k c\<rparr>\<rparr>))))))))))"

definition with_persistence :: "comparison_readings \<Rightarrow> comparison_diagnostics \<Rightarrow> comparison_diagnostics" where
  "with_persistence rp d =
     d\<lparr>cg_persistence_ms := rp_persistence_ms rp,
       cg_total_ms := max (rp_total_ms rp)
         (cg_artifact_load_ms d + cg_comparability_validation_ms d + cg_evidence_load_ms d + cg_alignment_ms d
           + cg_result_diff_ms d + rp_persistence_ms rp)\<rparr>"

definition create_comparison ::
  "product \<Rightarrow> comparison_codec \<Rightarrow> comparison_readings \<Rightarrow> string \<Rightarrow> comparison_record action" where
  "create_comparison pd k rp candidate_id =
     abind (query (repo_get_for_candidate k candidate_id)) (\<lambda>existing.
     case existing of
       Some c \<Rightarrow> query (\<lambda>_. Inr c)
     | None \<Rightarrow>
         abind (query (compute_comparison pd k rp candidate_id)) (\<lambda>c.
         abind (repo_create_comparison k c) (\<lambda>_.
         let d = with_persistence rp (cm_diagnostics c) in
         abind (repo_update_comparison_diagnostics k (cm_id c) d) (\<lambda>_.
         query (\<lambda>_. Inr (c\<lparr>cm_diagnostics := d\<rparr>))))))"

definition get_comparison :: "comparison_codec \<Rightarrow> string \<Rightarrow> database \<Rightarrow> comparison_record sres" where
  "get_comparison k i db =
     ebind (repo_get_comparison k i db) (\<lambda>c. case c of None \<Rightarrow> Inl Comparison_not_found | Some x \<Rightarrow> Inr x)"

end
