(* ===== verification/Store_Contract.thy ===== *)
theory Store_Contract
  imports Comparison_Store
begin

text \<open>
  The commands of the product services, and the contract between the services and the
  repositories: what each repository operation keeps of the database, every command keeps,
  whatever the engine and the clocks answer.
\<close>

subsection \<open>Commands\<close>

datatype command =
    Create_strategy moment string string string raw_source
  | Rename_strategy moment string string
  | Archive_strategy moment string
  | Save_revision moment string string string raw_source
  | Execute_run run_readings string raw_config
  | Create_candidate candidate_readings string threshold_change "string option"
  | Adopt_candidate moment string string string
  | Compare comparison_readings string

definition perform :: "product \<Rightarrow> comparison_codec \<Rightarrow> command \<Rightarrow> database \<Rightarrow> database" where
  "perform pd k c db =
     (case c of
        Create_strategy now i r name source \<Rightarrow> snd (create_strategy (pd_documents pd) now i r name source db)
      | Rename_strategy now i name \<Rightarrow> snd (rename_strategy (pd_documents pd) now i name db)
      | Archive_strategy now i \<Rightarrow> snd (archive_strategy now i db)
      | Save_revision now r i expected source \<Rightarrow> snd (save_revision (pd_documents pd) now r i expected source db)
      | Execute_run rd r config \<Rightarrow> snd (create_and_execute (pd_documents pd) (pd_runs pd) (pd_engine pd) rd r config db)
      | Create_candidate rn i change event \<Rightarrow> snd (create_candidate pd rn i change event db)
      | Adopt_candidate now r i expected \<Rightarrow> snd (adopt_candidate pd now r i expected db)
      | Compare rp i \<Rightarrow> snd (create_comparison pd k rp i db))"

definition perform_all :: "product \<Rightarrow> comparison_codec \<Rightarrow> command list \<Rightarrow> database \<Rightarrow> database" where
  "perform_all pd k cs db = fold (perform pd k) cs db"

subsection \<open>What an action keeps\<close>

definition keeps :: "(database \<Rightarrow> database \<Rightarrow> bool) \<Rightarrow> 'a action \<Rightarrow> bool" where
  "keeps R a \<longleftrightarrow> (\<forall>db. R db (snd (a db)))"

lemma keepsD: "keeps R a \<Longrightarrow> R db (snd (a db))"
  by (simp add: keeps_def)

lemma transaction_cases:
  obtains (failed) e where "transaction err body db = (Inl e, db)"
  | (finished) x db' where "body db = Inr (x, db')" "transaction err body db = (Inr x, db')"
proof (cases "body db")
  case (Inl e)
  then show thesis by (cases e) (auto simp: transaction_def on_sqlite_def intro: failed)
next
  case (Inr p)
  then show thesis by (cases p) (auto simp: transaction_def on_sqlite_def intro: finished)
qed

locale repository_contract =
  fixes R :: "database \<Rightarrow> database \<Rightarrow> bool"
  assumes kept_refl: "R db db"
    and kept_trans: "R db1 db2 \<Longrightarrow> R db2 db3 \<Longrightarrow> R db1 db3"
    and create_strategy_kept:
      "sg_current_revision_id s = rv_id r \<Longrightarrow> rv_strategy_id r = sg_id s \<Longrightarrow> rv_parent_revision_id r = None \<Longrightarrow>
        keeps R (repo_create_strategy s r text)"
    and append_revision_kept:
      "rv_strategy_id r = i \<Longrightarrow> rv_parent_revision_id r = Some expected \<Longrightarrow> keeps R (repo_append_revision k i expected r text)"
    and append_candidate_kept:
      "rv_strategy_id r = i \<Longrightarrow> rv_parent_revision_id r = Some expected \<Longrightarrow>
        keeps R (repo_append_candidate_revision k c i expected r text)"
    and rename_kept: "keeps R (repo_rename_strategy i name now)"
    and archive_kept: "keeps R (repo_archive_strategy i now)"
    and create_run_kept: "bk_status run = Pending \<Longrightarrow> keeps R (repo_create_run rk run)"
    and mark_running_kept: "keeps R (mark_running rk i now)"
    and complete_failed_kept: "keeps R (complete_failed rk i failure ts now)"
    and complete_succeeded_kept: "keeps R (complete_succeeded_with_evidence rk ms i result ts now es d)"
    and create_candidate_kept: "keeps R (repo_create_candidate pd c')"
    and update_diagnostics_kept: "keeps R (repo_update_diagnostics pd i cd)"
    and create_comparison_kept: "keeps R (repo_create_comparison mk cmp)"
    and update_comparison_kept: "keeps R (repo_update_comparison_diagnostics mk i md)"
begin

lemma query_kept: "keeps R (query f)"
  by (simp add: keeps_def query_def kept_refl)

lemma abind_kept: "keeps R m \<Longrightarrow> (\<And>x. keeps R (f x)) \<Longrightarrow> keeps R (abind m f)"
  unfolding keeps_def abind_def by (auto split: prod.splits sum.splits) (metis kept_trans snd_conv)+

lemma case_option_kept: "keeps R m \<Longrightarrow> (\<And>x. keeps R (f x)) \<Longrightarrow> keeps R (case x of None \<Rightarrow> m | Some y \<Rightarrow> f y)"
  by (cases x) simp_all

lemma if_kept: "keeps R m \<Longrightarrow> keeps R n \<Longrightarrow> keeps R (if b then m else n)"
  by simp

lemma case_prod_kept: "(\<And>a b. keeps R (f a b)) \<Longrightarrow> keeps R (case p of (a, b) \<Rightarrow> f a b)"
  by (cases p) simp

lemma new_revision_simps:
  "rv_strategy_id (new_revision k r i p c now) = i" "rv_parent_revision_id (new_revision k r i p c now) = p"
  "rv_id (new_revision k r i p c now) = r"
  by (simp_all add: new_revision_def)

lemma strategy_commands_kept:
  "keeps R (create_strategy k now i r name source)"
  "keeps R (rename_strategy k now i name)"
  "keeps R (archive_strategy now i)"
  "keeps R (save_revision k now r i expected source)"
  "keeps R (adopt_candidate_revision k now r c i expected source)"
  unfolding create_strategy_def rename_strategy_def archive_strategy_def save_revision_def adopt_candidate_revision_def Let_def
  by (intro query_kept abind_kept if_kept case_option_kept create_strategy_kept append_revision_kept append_candidate_kept
      rename_kept archive_kept; simp add: new_revision_simps)+

lemma finish_run_kept: "keeps R (finish_run rk rd i ms x)"
proof -
  have "R db (snd (finish_run rk rd i ms x db))" for db
  proof -
    define ts where "ts = (xn_timings x)\<lparr>tm_source_load_ms := ms, tm_evidence_validation_ms := rd_validation_ms rd,
        tm_total_ms := max (rd_total_ms rd) (tm_total_ms (xn_timings x) + ms + rd_validation_ms rd)\<rparr>"
    obtain r1 db1 where one: "complete_succeeded_with_evidence rk (rd_finalization_ms rd) i (xn_result x) ts (rd_completed rd)
        (xn_events x) (Some (xn_diagnostics x)) db = (r1, db1)" by fastforce
    obtain r2 db2 where two: "complete_failed rk i
        \<lparr>rf_code = ''evidence_persistence_failure'', rf_message = ''Backtest Decision Evidence could not be persisted.''\<rparr>
        ts (rd_failed rd) db1 = (r2, db2)" by fastforce
    have "R db db1" "R db1 db2"
      using keepsD [OF complete_succeeded_kept, of db] keepsD [OF complete_failed_kept, of db1] one two by (metis snd_conv)+
    moreover have "snd (finish_run rk rd i ms x db) \<in> {db1, db2}"
      using one two by (auto simp: finish_run_def Let_def ts_def split: sum.splits)
    ultimately show ?thesis using kept_trans by auto
  qed
  then show ?thesis by (simp add: keeps_def)
qed

lemma execute_kept: "keeps R (create_and_execute_source rk en rd r c doc hash version config ms)"
proof -
  have outcome: "keeps R (case o' of
      Ran x \<Rightarrow> finish_run rk rd i ms x
    | Refused e \<Rightarrow> complete_failed rk i (public_error e) ts now
    | Crashed e \<Rightarrow> query (\<lambda>_. Inl (Python_error e)))" for o' i ts now
    by (cases o') (simp_all add: finish_run_kept complete_failed_kept query_kept)
  show ?thesis
    unfolding create_and_execute_source_def Let_def
    by (intro abind_kept query_kept create_run_kept mark_running_kept outcome) (simp add: pending_run_def)
qed

lemma run_commands_kept:
  "keeps R (create_and_execute k rk en rd r config)"
  "keeps R (create_and_execute_candidate rk en rd c b doc hash version cfg)"
  unfolding create_and_execute_def create_and_execute_candidate_def
  by (intro abind_kept query_kept execute_kept)+

lemma candidate_commands_kept:
  "keeps R (create_candidate pd rn i change event)"
  "keeps R (adopt_candidate pd now r i expected)"
  unfolding create_candidate_def adopt_candidate_def Let_def
  by (intro abind_kept case_prod_kept query_kept create_candidate_kept update_diagnostics_kept run_commands_kept
      strategy_commands_kept)+

lemma comparison_command_kept: "keeps R (create_comparison pd mk rp i)"
  unfolding create_comparison_def Let_def
  by (intro abind_kept case_option_kept query_kept create_comparison_kept update_comparison_kept)

lemma perform_kept: "R db (perform pd mk c db)"
  by (cases c) (auto simp: perform_def intro: keepsD strategy_commands_kept run_commands_kept candidate_commands_kept
      comparison_command_kept)

lemma perform_all_kept: "R db (perform_all pd mk cs db)"
proof (induction cs arbitrary: db)
  case Nil
  then show ?case by (simp add: perform_all_def kept_refl)
next
  case (Cons c cs)
  have "R db (fold (perform pd mk) cs (perform pd mk c db))"
    using kept_trans [OF perform_kept Cons [unfolded perform_all_def]] .
  then show ?case by (simp add: perform_all_def)
qed

end

end
