(* ===== verification/Store_Lineage.thy ===== *)
theory Store_Lineage
  imports Store_Contract
begin

text \<open>
  The Revisions of a Strategy form one chain, and stored artifacts only grow: the relation every
  repository operation keeps, as the first interpretation of the contract.
\<close>

subsection \<open>Growth\<close>

definition grown :: "('r \<Rightarrow> 'r \<Rightarrow> bool) \<Rightarrow> 'r list \<Rightarrow> 'r list \<Rightarrow> bool" where
  "grown ok xs ys \<longleftrightarrow> (\<exists>zs ws. ys = zs @ ws \<and> list_all2 ok xs zs)"

lemma grown_refl: "(\<And>x. ok x x) \<Longrightarrow> grown ok xs xs"
  unfolding grown_def by (rule exI [of _ xs]) (simp add: list.rel_refl)

lemma grown_append: "(\<And>x. ok x x) \<Longrightarrow> grown ok xs (xs @ ys)"
  unfolding grown_def by (rule exI [of _ xs]) (simp add: list.rel_refl)

lemma grown_map: "(\<And>x. x \<in> set xs \<Longrightarrow> ok x (f x)) \<Longrightarrow> grown ok xs (map f xs)"
  unfolding grown_def by (rule exI [of _ "map f xs"]) (simp add: list_all2_map2 list_all2_same)

lemma grown_trans:
  assumes "grown ok xs ys" "grown ok ys zs" and trans: "\<And>x y z. ok x y \<Longrightarrow> ok y z \<Longrightarrow> ok x z"
  shows "grown ok xs zs"
proof -
  obtain ys1 ys2 where ys: "ys = ys1 @ ys2" "list_all2 ok xs ys1" using assms(1) by (auto simp: grown_def)
  obtain zs1 zs2 where zs: "zs = zs1 @ zs2" "list_all2 ok ys zs1" using assms(2) by (auto simp: grown_def)
  obtain u v where uv: "zs1 = u @ v" "list_all2 ok ys1 u" using zs(2) ys(1) by (auto simp: list_all2_append1)
  have "list_all2 ok xs u" by (rule list_all2_trans [OF trans ys(2) uv(2)])
  then show ?thesis unfolding grown_def using zs(1) uv(1) by (intro exI [of _ u] exI [of _ "v @ zs2"]) simp
qed

lemma grown_member:
  assumes "grown ok xs ys" "x \<in> set xs"
  shows "\<exists>y \<in> set ys. ok x y"
proof -
  obtain zs ws where ys: "ys = zs @ ws" and zs: "list_all2 ok xs zs" using assms(1) by (auto simp: grown_def)
  from assms(2) obtain i where "i < length xs" "x = xs ! i" by (auto simp: in_set_conv_nth)
  then have "zs ! i \<in> set zs" "ok x (zs ! i)" using zs by (auto simp: list_all2_conv_all_nth)
  then show ?thesis using ys by auto
qed

text \<open>What later rows keep of earlier ones.\<close>

definition strategy_evolves :: "strategy_row \<Rightarrow> strategy_row \<Rightarrow> bool" where
  "strategy_evolves s s' \<longleftrightarrow>
     sr_id s' = sr_id s \<and> sr_created_at s' = sr_created_at s \<and> (sr_archived_at s \<noteq> None \<longrightarrow> s' = s)"

definition run_evolves :: "run_row \<Rightarrow> run_row \<Rightarrow> bool" where
  "run_evolves r r' \<longleftrightarrow> r' = r \<or> (same_run_identity r r' \<and> lifecycle_step\<^sup>+\<^sup>+ (br_status r) (br_status r'))"

definition grows :: "database \<Rightarrow> database \<Rightarrow> bool" where
  "grows db db' \<longleftrightarrow>
     grown strategy_evolves (db_strategies db) (db_strategies db') \<and>
     grown (=) (db_revisions db) (db_revisions db') \<and>
     grown same_candidate (db_candidates db) (db_candidates db') \<and>
     grown (=) (db_adoptions db) (db_adoptions db') \<and>
     grown run_evolves (db_runs db) (db_runs db') \<and>
     grown (=) (db_events db) (db_events db') \<and>
     grown same_comparison (db_comparisons db) (db_comparisons db')"

lemma evolves_refl [simp]: "strategy_evolves s s" "run_evolves r r" "same_candidate c c" "same_comparison p p"
  by (simp_all add: strategy_evolves_def run_evolves_def same_candidate_def same_comparison_def)

lemma strategy_evolves_trans: "strategy_evolves a b \<Longrightarrow> strategy_evolves b c \<Longrightarrow> strategy_evolves a c"
  by (auto simp: strategy_evolves_def)

lemma run_evolves_trans: "run_evolves a b \<Longrightarrow> run_evolves b c \<Longrightarrow> run_evolves a c"
  unfolding run_evolves_def same_run_identity_def by (auto intro: tranclp_trans)

lemma same_candidate_trans: "same_candidate a b \<Longrightarrow> same_candidate b c \<Longrightarrow> same_candidate a c"
  by (cases a; cases b; cases c) (auto simp: same_candidate_def)

lemma same_comparison_trans: "same_comparison a b \<Longrightarrow> same_comparison b c \<Longrightarrow> same_comparison a c"
  by (cases a; cases b; cases c) (auto simp: same_comparison_def)

lemmas grown_intros = grown_refl grown_append grown_map

lemma grows_refl: "grows db db"
  by (simp add: grows_def grown_refl)

lemma grows_trans: "grows a b \<Longrightarrow> grows b c \<Longrightarrow> grows a c"
  unfolding grows_def
  by (auto elim: grown_trans [OF _ _ strategy_evolves_trans] grown_trans [OF _ _ run_evolves_trans]
      grown_trans [OF _ _ same_candidate_trans] grown_trans [OF _ _ same_comparison_trans] grown_trans)

lemma finished_run_kept: "run_evolves r r' \<Longrightarrow> br_status r \<in> {Succeeded, Failed} \<Longrightarrow> r' = r"
  unfolding run_evolves_def by (auto dest!: tranclpD simp: lifecycle_step_def)

subsection \<open>Lineage\<close>

definition history :: "database \<Rightarrow> string \<Rightarrow> revision_row list" where
  "history db i = filter (\<lambda>r. rr_strategy_id r = i) (db_revisions db)"

fun linked_from :: "string option \<Rightarrow> revision_row list \<Rightarrow> bool" where
  "linked_from p [] = True"
| "linked_from p (r # rs) = (rr_parent_revision_id r = p \<and> linked_from (Some (rr_id r)) rs)"

definition chain_of :: "database \<Rightarrow> strategy_row \<Rightarrow> bool" where
  "chain_of db s \<longleftrightarrow>
     history db (sr_id s) \<noteq> [] \<and> linked_from None (history db (sr_id s)) \<and>
     rr_id (last (history db (sr_id s))) = sr_current_revision_id s"

definition lineage :: "database \<Rightarrow> bool" where
  "lineage db \<longleftrightarrow>
     distinct (strategy_ids db) \<and> distinct (revision_ids db) \<and> distinct (map ar_candidate_id (db_adoptions db)) \<and>
     (\<forall>r \<in> set (db_revisions db). rr_strategy_id r \<in> set (strategy_ids db)) \<and>
     (\<forall>s \<in> set (db_strategies db). chain_of db s) \<and>
     (\<forall>a \<in> set (db_adoptions db). \<exists>r \<in> set (db_revisions db).
        rr_id r = ar_revision_id a \<and> rr_strategy_id r = ar_strategy_id a)"

lemma linked_from_snoc:
  "linked_from p (rs @ [r]) \<longleftrightarrow>
    linked_from p rs \<and> rr_parent_revision_id r = (if rs = [] then p else Some (rr_id (last rs)))"
  by (induction rs arbitrary: p) auto

lemma lineage_empty: "lineage empty_database"
  by (simp add: lineage_def empty_database_def)

text \<open>Statements that succeed, as equations.\<close>

lemma insert_strategy_Inr:
  "insert_strategy row db = Inr db' \<longleftrightarrow>
    sr_id row \<notin> set (strategy_ids db) \<and> db' = db\<lparr>db_strategies := db_strategies db @ [row]\<rparr>"
  by (auto simp: insert_strategy_def split: if_splits)

lemma insert_revision_Inr:
  "insert_revision row db = Inr db' \<longleftrightarrow>
    rr_id row \<notin> set (revision_ids db) \<and> rr_strategy_id row \<in> set (strategy_ids db) \<and>
    optional_in (rr_parent_revision_id row) (rr_id row # revision_ids db) \<and>
    db' = db\<lparr>db_revisions := db_revisions db @ [row]\<rparr>"
  by (auto simp: insert_revision_def split: if_splits)

lemma insert_adoption_InrD:
  "insert_adoption row db = Inr db' \<Longrightarrow>
    ar_candidate_id row \<notin> set (map ar_candidate_id (db_adoptions db)) \<and>
    db' = db\<lparr>db_adoptions := db_adoptions db @ [row]\<rparr>"
  by (auto simp: insert_adoption_def split: if_splits)

lemma insert_candidate_InrD: "insert_candidate row db = Inr db' \<Longrightarrow> db' = db\<lparr>db_candidates := db_candidates db @ [row]\<rparr>"
  by (auto simp: insert_candidate_def split: if_splits)

lemma insert_run_InrD:
  "insert_run row db = Inr db' \<Longrightarrow> br_id row \<notin> set (run_ids db) \<and> db' = db\<lparr>db_runs := db_runs db @ [row]\<rparr>"
  by (auto simp: insert_run_def split: if_splits)

lemma insert_comparison_InrD: "insert_comparison row db = Inr db' \<Longrightarrow> db' = db\<lparr>db_comparisons := db_comparisons db @ [row]\<rparr>"
  by (auto simp: insert_comparison_def split: if_splits)

lemma insert_event_InrD:
  "insert_event row db = Inr db' \<Longrightarrow>
    run_status_of db (er_run_id row) = Some Running \<and> db' = db\<lparr>db_events := db_events db @ [row]\<rparr>"
  by (auto simp: insert_event_def split: if_splits)

lemma commit_InrD: "commit db = Inr db' \<Longrightarrow> db' = db"
  by (auto simp: commit_def split: if_splits)

lemma update_runs_InrD:
  "update_runs p f db = Inr (db', n) \<Longrightarrow>
    (\<forall>r \<in> set (db_runs db). p r \<longrightarrow> run_update_allowed r (f r)) \<and> n = length (filter p (db_runs db)) \<and>
    db' = db\<lparr>db_runs := map (\<lambda>r. if p r then f r else r) (db_runs db)\<rparr>"
  by (auto simp: update_runs_def update_rows_def list_all_iff split: if_splits)

subsection \<open>What appending keeps\<close>

definition lineage_kept :: "database \<Rightarrow> database \<Rightarrow> bool" where
  "lineage_kept db db' \<longleftrightarrow> (lineage db \<longrightarrow> lineage db' \<and> grows db db')"

lemma lineage_kept_refl: "lineage_kept db db"
  by (simp add: lineage_kept_def grows_refl)

lemma lineage_kept_trans: "lineage_kept a b \<Longrightarrow> lineage_kept b c \<Longrightarrow> lineage_kept a c"
  unfolding lineage_kept_def using grows_trans by blast

text \<open>An action that is one transaction keeps what its body keeps.\<close>

lemma keeps_transaction:
  assumes "\<And>db. R db db" and "\<And>db x db'. body db = Inr (x, db') \<Longrightarrow> R db db'"
  shows "keeps R (transaction e body)"
  unfolding keeps_def
proof
  fix db
  show "R db (snd (transaction e body db))"
    by (rule transaction_cases [of e body db]) (auto intro: assms)
qed

lemma keeps_abind:
  assumes trans: "\<And>a b c. R a b \<Longrightarrow> R b c \<Longrightarrow> R a c" and "keeps R m" "\<And>x. keeps R (f x)"
  shows "keeps R (abind m f)"
  using assms(2,3) unfolding keeps_def abind_def
  by (auto split: prod.splits sum.splits) (metis trans snd_conv)+

lemma create_body_kept:
  assumes db: "lineage db"
    and steps: "insert_strategy srow db = Inr db1" "insert_revision rrow db1 = Inr db2"
    and link: "sr_current_revision_id srow = rr_id rrow" "rr_strategy_id rrow = sr_id srow" "rr_parent_revision_id rrow = None"
  shows "lineage db2 \<and> grows db db2"
proof -
  have new: "sr_id srow \<notin> set (strategy_ids db)" "rr_id rrow \<notin> set (revision_ids db)"
    and db2: "db2 = db\<lparr>db_strategies := db_strategies db @ [srow], db_revisions := db_revisions db @ [rrow]\<rparr>"
    using steps by (auto simp: insert_strategy_Inr insert_revision_Inr)
  have hist: "history db2 i = history db i @ (if i = sr_id srow then [rrow] else [])" for i
    using link by (simp add: history_def db2)
  have none: "history db (sr_id srow) = []"
  proof -
    have "rr_strategy_id r \<noteq> sr_id srow" if "r \<in> set (db_revisions db)" for r
      using db that new(1) unfolding lineage_def by metis
    then show ?thesis by (simp add: history_def filter_empty_conv)
  qed
  have old: "chain_of db2 s" if "s \<in> set (db_strategies db)" for s
  proof -
    have "sr_id s \<noteq> sr_id srow" using that new(1) by (metis image_eqI set_map)
    then show ?thesis using db that by (simp add: chain_of_def lineage_def hist)
  qed
  have "chain_of db2 srow" using link by (simp add: chain_of_def hist none)
  with old new db link(2) have "lineage db2" unfolding lineage_def by (auto simp: db2)
  moreover have "grows db db2" by (simp add: grows_def db2 grown_append grown_refl)
  ultimately show ?thesis by simp
qed

lemma strategy_row_at_iff:
  "lineage db \<Longrightarrow> strategy_row_at i db = Some row \<longleftrightarrow> row \<in> set (db_strategies db) \<and> sr_id row = i"
  unfolding strategy_row_at_def by (rule strategies.lookup_iff) (simp add: lineage_def)

lemma revision_row_at_iff:
  "lineage db \<Longrightarrow> revision_row_at i db = Some row \<longleftrightarrow> row \<in> set (db_revisions db) \<and> rr_id row = i"
  unfolding revision_row_at_def by (rule revisions.lookup_iff) (simp add: lineage_def)

lemma same_strategy_row:
  "lineage db \<Longrightarrow> s \<in> set (db_strategies db) \<Longrightarrow> s' \<in> set (db_strategies db) \<Longrightarrow> sr_id s = sr_id s' \<Longrightarrow> s = s'"
  unfolding lineage_def by (meson distinct_map inj_onD)

lemma advance_kept:
  assumes db: "lineage db" and row: "strategy_row_at i db = Some row" "sr_archived_at row = None" "sr_current_revision_id row = expected"
    and r: "rv_strategy_id r = i" "rv_parent_revision_id r = Some expected"
    and adv: "advance_strategy i r text db = Inr db1"
  shows "lineage db1 \<and> grows db db1 \<and> revision_row_of r text \<in> set (db_revisions db1)"
proof -
  let ?rr = "revision_row_of r text"
  let ?f = "\<lambda>s. s\<lparr>sr_current_revision_id := rv_id r, sr_updated_at := timestamp (rv_created_at r)\<rparr>"
  let ?g = "\<lambda>s. if sr_id s = i then ?f s else s"
  have new: "rv_id r \<notin> set (revision_ids db)"
    and db1: "db1 = db\<lparr>db_revisions := db_revisions db @ [?rr], db_strategies := map ?g (db_strategies db)\<rparr>"
    using adv by (auto simp: advance_strategy_def ebind_eq_Inr insert_revision_Inr update_strategies_def update_rows_def revision_row_of_def)
  have revs: "db_revisions db1 = db_revisions db @ [?rr]" and strats: "db_strategies db1 = map ?g (db_strategies db)"
    and adoptions: "db_adoptions db1 = db_adoptions db"
    by (simp_all add: db1)
  have mem: "row \<in> set (db_strategies db)" "sr_id row = i" using row(1) strategy_row_at_iff [OF db] by auto
  have hist: "history db1 j = history db j @ (if j = i then [?rr] else [])" for j
    using r by (simp add: history_def db1 revision_row_of_def)
  have row_only: "s = row" if "s \<in> set (db_strategies db)" "sr_id s = i" for s
    using same_strategy_row [OF db that(1) mem(1)] that(2) mem(2) by simp
  have chain: "chain_of db row" using db mem(1) by (simp add: lineage_def)
  have "chain_of db1 (?g s)" if s: "s \<in> set (db_strategies db)" for s
  proof (cases "sr_id s = i")
    case True
    with row_only [OF s] chain row(3) r mem(2) show ?thesis
      by (simp add: chain_of_def hist linked_from_snoc revision_row_of_def)
  next
    case False
    with s db show ?thesis by (simp add: chain_of_def hist lineage_def)
  qed
  then have chains: "\<forall>s \<in> set (db_strategies db1). chain_of db1 s"
    unfolding strats set_map by (blast dest: image_eqI)
  have ids: "strategy_ids db1 = strategy_ids db" by (simp add: strats comp_def if_distrib cong: if_cong)
  have "lineage db1"
    using db new mem r(1) chains unfolding lineage_def ids by (auto simp: revs adoptions revision_row_of_def)
  moreover have "grows db db1"
  proof -
    have "strategy_evolves s (?g s)" if "s \<in> set (db_strategies db)" for s
      using row_only [OF that] row(2) by (auto simp: strategy_evolves_def)
    then show ?thesis by (simp add: grows_def db1 grown_append grown_refl grown_map)
  qed
  ultimately show ?thesis by (simp add: db1)
qed

lemma read_strategy_fields:
  "read_strategy row = Inr s \<Longrightarrow> sg_id s = sr_id row \<and> sg_name s = sr_name row \<and>
    sg_current_revision_id s = sr_current_revision_id row \<and> (sg_archived_at s = None \<longleftrightarrow> sr_archived_at row = None)"
  by (auto simp: read_strategy_def read_optional_time_def ebind_eq_Inr split: option.splits)

lemma append_checks_pass:
  assumes "append_checks k i expected text db = Inr (Inr s)"
  obtains row where "strategy_row_at i db = Some row" "read_strategy row = Inr s" "sr_archived_at row = None"
    "sr_current_revision_id row = expected"
  using assms by (auto simp: append_checks_def ebind_eq_Inr dest: read_strategy_fields split: option.splits if_splits)

lemma append_body_kept:
  assumes "lineage db" "append_checks k i expected text db = Inr (Inr s)" "rv_strategy_id r = i"
    "rv_parent_revision_id r = Some expected" "advance_strategy i r text db = Inr db1"
  shows "lineage db1 \<and> grows db db1 \<and> revision_row_of r text \<in> set (db_revisions db1)"
  using assms(2) by (rule append_checks_pass) (rule advance_kept [OF assms(1) _ _ _ assms(3,4,5)]; assumption)

subsection \<open>Every repository operation\<close>

lemma lineage_cong:
  "db_strategies db' = db_strategies db \<Longrightarrow> db_revisions db' = db_revisions db \<Longrightarrow> db_adoptions db' = db_adoptions db \<Longrightarrow>
    lineage db' = lineage db"
  by (simp add: lineage_def chain_of_def history_def)

lemma create_strategy_lineage:
  assumes "sg_current_revision_id s = rv_id r" "rv_strategy_id r = sg_id s" "rv_parent_revision_id r = None"
  shows "keeps lineage_kept (repo_create_strategy s r text)"
  unfolding repo_create_strategy_def
proof (rule keeps_transaction [OF lineage_kept_refl])
  fix db x db'
  assume "ebind (insert_strategy (strategy_row_of s) db) (\<lambda>db1. ebind (insert_revision (revision_row_of r text) db1)
    (\<lambda>db2. ebind (commit db2) (\<lambda>db3. Inr ((), db3)))) = Inr (x, db')"
  then obtain db1 where "insert_strategy (strategy_row_of s) db = Inr db1" "insert_revision (revision_row_of r text) db1 = Inr db'"
    by (auto simp: ebind_eq_Inr dest: commit_InrD)
  then show "lineage_kept db db'"
    unfolding lineage_kept_def using create_body_kept [of db "strategy_row_of s" db1 "revision_row_of r text" db'] assms
    by (simp add: strategy_row_of_def revision_row_of_def)
qed

lemma early_return:
  assumes "ebind m (\<lambda>checked. case checked of Inl early \<Rightarrow> Inr (early, db) | Inr s \<Rightarrow> rest s) = Inr (x, db')"
  obtains (early) "db' = db" | (goes_on) s where "m = Inr (Inr s)" "rest s = Inr (x, db')"
proof -
  from assms obtain checked where "m = Inr checked"
    "(case checked of Inl early \<Rightarrow> Inr (early, db) | Inr s \<Rightarrow> rest s) = Inr (x, db')"
    by (auto simp: ebind_eq_Inr)
  then show thesis by (cases checked) (auto intro: early goes_on)
qed

lemma append_revision_lineage:
  assumes "rv_strategy_id r = i" "rv_parent_revision_id r = Some expected"
  shows "keeps lineage_kept (repo_append_revision k i expected r text)"
  unfolding repo_append_revision_def
proof (rule keeps_transaction [OF lineage_kept_refl])
  fix db x db'
  assume "ebind (append_checks k i expected text db) (\<lambda>checked. case checked of Inl early \<Rightarrow> Inr (early, db)
    | Inr s \<Rightarrow> ebind (advance_strategy i r text db) (\<lambda>db1. ebind (commit db1) (\<lambda>db2. Inr (advanced s r, db2)))) = Inr (x, db')"
  then consider "db' = db" | s where "append_checks k i expected text db = Inr (Inr s)" "advance_strategy i r text db = Inr db'"
    by (rule early_return) (auto simp: ebind_eq_Inr dest!: commit_InrD)
  then show "lineage_kept db db'"
    using append_body_kept assms lineage_kept_refl by cases (auto simp: lineage_kept_def)
qed

lemma adoption_kept:
  assumes db: "lineage db" and r: "r \<in> set (db_revisions db)" "rr_id r = ar_revision_id a" "rr_strategy_id r = ar_strategy_id a"
    and ins: "insert_adoption a db = Inr db'"
  shows "lineage db' \<and> grows db db'"
proof -
  have new: "ar_candidate_id a \<notin> set (map ar_candidate_id (db_adoptions db))"
    and db': "db' = db\<lparr>db_adoptions := db_adoptions db @ [a]\<rparr>"
    using insert_adoption_InrD [OF ins] by auto
  have "lineage db'" using db new r unfolding lineage_def db' by (auto simp: chain_of_def history_def)
  moreover have "grows db db'" by (simp add: grows_def db' grown_append grown_refl)
  ultimately show ?thesis by simp
qed

lemma append_candidate_lineage:
  assumes "rv_strategy_id r = i" "rv_parent_revision_id r = Some expected"
  shows "keeps lineage_kept (repo_append_candidate_revision k c i expected r text)"
  unfolding repo_append_candidate_revision_def
proof (rule keeps_transaction [OF lineage_kept_refl])
  fix db x db'
  let ?a = "\<lparr>ar_candidate_id = c, ar_strategy_id = i, ar_revision_id = rv_id r, ar_adopted_at = timestamp (rv_created_at r)\<rparr>"
  assume body: "(case select_one (\<lambda>a. ar_candidate_id a = c) (db_adoptions db) of
      None \<Rightarrow> ebind (append_checks k i expected text db) (\<lambda>checked. case checked of Inl early \<Rightarrow> Inr (early, db)
        | Inr s \<Rightarrow> ebind (advance_strategy i r text db) (\<lambda>db1. ebind (insert_adoption ?a db1)
            (\<lambda>db2. ebind (commit db2) (\<lambda>db3. Inr (advanced s r, db3)))))
    | Some a \<Rightarrow> ebind (adopted_before k a i db) (\<lambda>early. Inr (early, db))) = Inr (x, db')"
  then consider "db' = db"
    | s db1 where "append_checks k i expected text db = Inr (Inr s)" "advance_strategy i r text db = Inr db1"
        "insert_adoption ?a db1 = Inr db'"
  proof (cases "select_one (\<lambda>a. ar_candidate_id a = c) (db_adoptions db)")
    case None
    with body have "ebind (append_checks k i expected text db) (\<lambda>checked. case checked of Inl early \<Rightarrow> Inr (early, db)
        | Inr s \<Rightarrow> ebind (advance_strategy i r text db) (\<lambda>db1. ebind (insert_adoption ?a db1)
            (\<lambda>db2. ebind (commit db2) (\<lambda>db3. Inr (advanced s r, db3))))) = Inr (x, db')"
      by simp
    then show thesis
      by (rule early_return) (auto simp: ebind_eq_Inr dest!: commit_InrD intro: that)
  next
    case (Some a)
    with body show thesis by (auto simp: ebind_eq_Inr intro: that)
  qed
  then show "lineage_kept db db'"
  proof cases
    case 1
    then show ?thesis by (simp add: lineage_kept_refl)
  next
    case (2 s db1)
    show ?thesis
      unfolding lineage_kept_def
    proof
      assume db: "lineage db"
      from append_body_kept [OF db 2(1) assms 2(2)]
      have one: "lineage db1" "grows db db1" "revision_row_of r text \<in> set (db_revisions db1)" by auto
      have "lineage db' \<and> grows db1 db'"
        by (rule adoption_kept [OF one(1,3) _ _ 2(3)]) (simp_all add: revision_row_of_def assms(1))
      with one(2) show "lineage db' \<and> grows db db'" using grows_trans by blast
    qed
  qed
qed

lemma update_active_lineage:
  assumes f: "\<And>s. sr_id (f s) = sr_id s \<and> sr_created_at (f s) = sr_created_at s \<and> sr_current_revision_id (f s) = sr_current_revision_id s"
  shows "keeps lineage_kept (update_active i f)"
  unfolding keeps_def lineage_kept_def
proof (intro allI impI)
  fix db :: database
  let ?g = "\<lambda>s. if sr_id s = i \<and> sr_archived_at s = None then f s else s"
  define db1 where "db1 = db\<lparr>db_strategies := map ?g (db_strategies db)\<rparr>"
  assume db: "lineage db"
  have "snd (update_active i f db) = db1"
    by (auto simp: update_active_def update_strategies_def update_rows_def db1_def Let_def split: option.splits)
  moreover have rows: "db_strategies db1 = map ?g (db_strategies db)" by (simp add: db1_def)
  have ids: "strategy_ids db1 = strategy_ids db" using f by (auto simp: db1_def)
  have "chain_of db1 (?g s)" if "s \<in> set (db_strategies db)" for s
  proof -
    have "chain_of db s" using db that by (simp add: lineage_def)
    then show ?thesis using f [of s] by (auto simp: chain_of_def history_def db1_def)
  qed
  then have chains: "\<forall>s \<in> set (db_strategies db1). chain_of db1 s"
    using rows unfolding rows set_map by (blast dest: image_eqI)
  have "lineage db1" using db chains unfolding lineage_def ids by (simp add: db1_def)
  moreover have "grows db db1"
    using f by (auto simp: grows_def db1_def strategy_evolves_def intro!: grown_refl grown_map)
  ultimately show "lineage (snd (update_active i f db)) \<and> grows db (snd (update_active i f db))" by simp
qed

text \<open>Operations that leave Strategies, Revisions and adoptions alone.\<close>

lemma other_tables_kept:
  assumes "db_strategies db' = db_strategies db" "db_revisions db' = db_revisions db" "db_adoptions db' = db_adoptions db"
    and "grown same_candidate (db_candidates db) (db_candidates db')" "grown run_evolves (db_runs db) (db_runs db')"
      "grown (=) (db_events db) (db_events db')" "grown same_comparison (db_comparisons db) (db_comparisons db')"
  shows "lineage_kept db db'"
  unfolding lineage_kept_def grows_def using assms lineage_cong [OF assms(1-3)] by (simp add: grown_refl)

lemma move_run_kept:
  assumes "move_run i expected f db = Inr db'"
  shows "lineage_kept db db'"
proof -
  from assms obtain n where n: "update_runs (\<lambda>r. br_id r = i \<and> br_status r = expected) f db = Inr (db', n)"
    by (auto simp: move_run_def ebind_eq_Inr split: if_splits)
  note up = update_runs_InrD [OF n]
  have "run_evolves r (if br_id r = i \<and> br_status r = expected then f r else r)" if "r \<in> set (db_runs db)" for r
    using up that tranclp.r_into_trancl [of lifecycle_step "br_status r" "br_status (f r)"]
    by (auto simp: run_evolves_def run_update_allowed_def)
  then have "grown run_evolves (db_runs db) (db_runs db')"
    using up by (simp add: grown_map)
  with up show ?thesis by (intro other_tables_kept) (simp_all add: grown_refl)
qed

lemma read_back_same: "snd (read_back k i db) = db"
  by (simp add: read_back_def split: option.splits)

lemma keeps_same: "(\<And>db. R db db) \<Longrightarrow> (\<And>db. snd (a db) = db) \<Longrightarrow> keeps R a"
  by (simp add: keeps_def)

lemma run_transition_lineage: "keeps lineage_kept (run_transition_to k i expected f)"
  unfolding run_transition_to_def
  by (intro keeps_abind [OF lineage_kept_trans] keeps_transaction [OF lineage_kept_refl] keeps_same [OF lineage_kept_refl])
    (auto simp: ebind_eq_Inr move_run_kept read_back_same)

lemma insert_evidence_InrD:
  "insert_evidence k i es db = Inr db' \<Longrightarrow>
    db' = db\<lparr>db_events := db_events db @ map (event_row_of k i) es\<rparr> \<and> (es = [] \<or> run_status_of db i = Some Running)"
proof (induction es arbitrary: db)
  case (Cons e es)
  from Cons.prems obtain db1 where step: "insert_event (event_row_of k i e) db = Inr db1" "insert_evidence k i es db1 = Inr db'"
    by (auto simp: insert_evidence_def ebind_eq_Inr)
  show ?case using insert_event_InrD [OF step(1)] Cons.IH [OF step(2)] by (auto simp: event_row_of_def)
qed (simp add: insert_evidence_def)

lemma complete_body:
  assumes "(if run_status_of db i \<noteq> Some Running then Inl e1
      else ebind (insert_evidence k i es db) (\<lambda>db1. ebind (move_run i Running f db1) (\<lambda>db2. ebind (commit db2) (\<lambda>db3. Inr ((), db3))))) = Inr (x, db')"
  obtains db1 where "run_status_of db i = Some Running" "insert_evidence k i es db = Inr db1" "move_run i Running f db1 = Inr db'"
  using assms by (auto simp: ebind_eq_Inr dest!: commit_InrD split: if_splits)

lemma complete_succeeded_lineage: "keeps lineage_kept (complete_succeeded_with_evidence k ms i result ts now es d)"
proof -
  have "lineage_kept db db1" if "insert_evidence k i es db = Inr db1" for db db1
    using insert_evidence_InrD [OF that] by (intro other_tables_kept) (simp_all add: grown_refl grown_append)
  note evidence = this
  have body: "lineage_kept db db'"
    if "(if run_status_of db i \<noteq> Some Running then Inl e1
      else ebind (insert_evidence k i es db) (\<lambda>db1. ebind (move_run i Running f db1) (\<lambda>db2. ebind (commit db2) (\<lambda>db3. Inr ((), db3))))) = Inr (x, db')"
    for db db' e1 f x
    using that by (rule complete_body) (blast intro: lineage_kept_trans move_run_kept evidence)
  show ?thesis
  proof (cases "es = [] \<or> \<not> contiguous es")
    case True
    then show ?thesis by (simp add: complete_succeeded_with_evidence_def keeps_def query_def lineage_kept_refl)
  next
    case False
    then have "complete_succeeded_with_evidence k ms i result ts now es d =
        abind (transaction (Run_persistence_error ''Could not persist Backtest Run Decision Evidence.'') (\<lambda>db.
             if run_status_of db i \<noteq> Some Running
             then Inl (Run_persistence_error ''Backtest Run lifecycle transition was rejected.'')
             else ebind (insert_evidence k i es db) (\<lambda>db1.
                  ebind (move_run i Running (succeed_row k result (finalized ts ms) d now) db1) (\<lambda>db2.
                  ebind (commit db2) (\<lambda>db3. Inr ((), db3))))))
             (\<lambda>_. read_back k i)"
      by (auto simp: complete_succeeded_with_evidence_def)
    then show ?thesis
      by (simp only:) (rule keeps_abind [OF lineage_kept_trans keeps_transaction [OF lineage_kept_refl body]
          keeps_same [OF lineage_kept_refl read_back_same]]; assumption)
  qed
qed

lemma create_run_lineage: "keeps lineage_kept (repo_create_run k run)"
  unfolding repo_create_run_def
  by (rule keeps_transaction [OF lineage_kept_refl])
    (auto simp: ebind_eq_Inr grown_refl grown_append intro!: other_tables_kept dest!: insert_run_InrD)

lemma create_candidate_lineage: "keeps lineage_kept (repo_create_candidate pd c)"
  unfolding repo_create_candidate_def
  by (rule keeps_transaction [OF lineage_kept_refl])
    (auto simp: ebind_eq_Inr grown_refl grown_append intro!: other_tables_kept dest!: insert_candidate_InrD)

lemma create_comparison_lineage: "keeps lineage_kept (repo_create_comparison k c)"
  unfolding repo_create_comparison_def
  by (rule keeps_transaction [OF lineage_kept_refl])
    (auto simp: ebind_eq_Inr grown_refl grown_append intro!: other_tables_kept dest!: insert_comparison_InrD)

lemma update_candidates_InrD:
  "update_candidates p f db = Inr (db', n) \<Longrightarrow>
    (\<forall>r \<in> set (db_candidates db). p r \<longrightarrow> same_candidate r (f r)) \<and>
    db' = db\<lparr>db_candidates := map (\<lambda>r. if p r then f r else r) (db_candidates db)\<rparr>"
  by (auto simp: update_candidates_def update_rows_def list_all_iff split: if_splits)

lemma update_comparisons_InrD:
  "update_comparisons p f db = Inr (db', n) \<Longrightarrow>
    (\<forall>r \<in> set (db_comparisons db). p r \<longrightarrow> same_comparison r (f r)) \<and>
    db' = db\<lparr>db_comparisons := map (\<lambda>r. if p r then f r else r) (db_comparisons db)\<rparr>"
  by (auto simp: update_comparisons_def update_rows_def list_all_iff split: if_splits)

lemma update_diagnostics_lineage: "keeps lineage_kept (repo_update_diagnostics pd i d)"
  unfolding repo_update_diagnostics_def
  by (rule keeps_transaction [OF lineage_kept_refl])
    (auto simp: ebind_eq_Inr grown_refl grown_map intro!: other_tables_kept dest!: update_candidates_InrD split: if_splits)

lemma update_comparison_lineage: "keeps lineage_kept (repo_update_comparison_diagnostics k i d)"
  unfolding repo_update_comparison_diagnostics_def
  by (rule keeps_transaction [OF lineage_kept_refl])
    (auto simp: ebind_eq_Inr grown_refl grown_map intro!: other_tables_kept dest!: update_comparisons_InrD split: if_splits)

interpretation artifacts: repository_contract lineage_kept
proof
  show "lineage_kept db db" for db by (rule lineage_kept_refl)
  show "lineage_kept a b \<Longrightarrow> lineage_kept b c \<Longrightarrow> lineage_kept a c" for a b c by (rule lineage_kept_trans)
  show "keeps lineage_kept (repo_rename_strategy i name now)" for i name now
    unfolding repo_rename_strategy_def by (rule update_active_lineage) simp
  show "keeps lineage_kept (repo_archive_strategy i now)" for i now
    unfolding repo_archive_strategy_def by (rule update_active_lineage) simp
  show "keeps lineage_kept (mark_running rk i now)" for rk i now
    unfolding mark_running_def by (rule run_transition_lineage)
  show "keeps lineage_kept (complete_failed rk i failure ts now)" for rk i failure ts now
    unfolding complete_failed_def by (rule run_transition_lineage)
qed (simp_all add: create_strategy_lineage append_revision_lineage append_candidate_lineage create_run_lineage
    complete_succeeded_lineage create_candidate_lineage update_diagnostics_lineage create_comparison_lineage
    update_comparison_lineage)

end
