(* ===== verification/Store_Evidence.thy ===== *)
theory Store_Evidence
  imports Store_Lineage
begin

text \<open>
  A Run has Decision Evidence exactly when it succeeded, numbered without a gap, and its columns
  fit its status: the second interpretation of the contract.
\<close>

definition run_events :: "database \<Rightarrow> string \<Rightarrow> event_row list" where
  "run_events db i = filter (\<lambda>e. er_run_id e = i) (db_events db)"

definition evidence_complete :: "event_row list \<Rightarrow> bool" where
  "evidence_complete es \<longleftrightarrow> es \<noteq> [] \<and> map er_ordinal es = map int [1 ..< length es + 1]"

definition run_row_ok :: "database \<Rightarrow> run_row \<Rightarrow> bool" where
  "run_row_ok db r \<longleftrightarrow>
     lifecycle_columns r \<and>
     (if br_status r = Succeeded then evidence_complete (run_events db (br_id r)) else run_events db (br_id r) = [])"

definition evidence_ok :: "database \<Rightarrow> bool" where
  "evidence_ok db \<longleftrightarrow>
     distinct (run_ids db) \<and> (\<forall>r \<in> set (db_runs db). run_row_ok db r) \<and>
     (\<forall>e \<in> set (db_events db). er_run_id e \<in> set (run_ids db))"

definition evidence_kept :: "database \<Rightarrow> database \<Rightarrow> bool" where
  "evidence_kept db db' \<longleftrightarrow> (evidence_ok db \<longrightarrow> evidence_ok db')"

lemma evidence_kept_refl: "evidence_kept db db"
  by (simp add: evidence_kept_def)

lemma evidence_kept_trans: "evidence_kept a b \<Longrightarrow> evidence_kept b c \<Longrightarrow> evidence_kept a c"
  by (simp add: evidence_kept_def)

lemma evidence_abind:
  "keeps evidence_kept m \<Longrightarrow> (\<And>x. keeps evidence_kept (f x)) \<Longrightarrow> keeps evidence_kept (abind m f)"
  by (rule keeps_abind) (auto intro: evidence_kept_trans)

lemma evidence_empty: "evidence_ok empty_database"
  by (simp add: evidence_ok_def empty_database_def)

lemma evidence_cong:
  "db_runs db' = db_runs db \<Longrightarrow> db_events db' = db_events db \<Longrightarrow> evidence_kept db db'"
  by (simp add: evidence_kept_def evidence_ok_def run_row_ok_def run_events_def)

lemma same_run_row:
  "evidence_ok db \<Longrightarrow> r \<in> set (db_runs db) \<Longrightarrow> r' \<in> set (db_runs db) \<Longrightarrow> br_id r = br_id r' \<Longrightarrow> r = r'"
  unfolding evidence_ok_def by (meson distinct_map inj_onD)

lemma create_run_evidence:
  assumes "bk_status run = Pending"
  shows "keeps evidence_kept (repo_create_run k run)"
  unfolding repo_create_run_def
proof (rule keeps_transaction [OF evidence_kept_refl])
  fix db :: database and x db'
  assume "ebind (insert_run (run_row_of k run) db) (\<lambda>db1. Inr ((), db1)) = Inr (x, db')"
  then have ins: "insert_run (run_row_of k run) db = Inr db'" by (auto simp: ebind_eq_Inr)
  note new = insert_run_InrD [OF ins]
  have columns: "lifecycle_columns (run_row_of k run)" using ins by (auto simp: insert_run_def split: if_splits)
  show "evidence_kept db db'"
    unfolding evidence_kept_def
  proof
    assume db: "evidence_ok db"
    have "run_events db' (br_id (run_row_of k run)) = []"
    proof -
      have "er_run_id e \<noteq> br_id (run_row_of k run)" if "e \<in> set (db_events db)" for e
        using db new that unfolding evidence_ok_def by metis
      then show ?thesis using new by (simp add: run_events_def filter_empty_conv)
    qed
    then have "run_row_ok db' (run_row_of k run)"
      using columns assms by (simp add: run_row_ok_def run_row_of_def)
    moreover have "run_row_ok db' r" if "r \<in> set (db_runs db)" for r
    proof -
      have "run_events db' = run_events db" using new by (intro ext) (simp add: run_events_def)
      then show ?thesis using db that by (simp add: evidence_ok_def run_row_ok_def)
    qed
    ultimately show "evidence_ok db'" using db new by (auto simp: evidence_ok_def)
  qed
qed

text \<open>Moving a Run: where its events are what its new status requires, everything fits.\<close>

lemma move_run_rows:
  assumes "move_run i expected f db = Inr db'"
  shows "db' = db\<lparr>db_runs := map (\<lambda>r. if br_id r = i \<and> br_status r = expected then f r else r) (db_runs db)\<rparr>"
    and "r \<in> set (db_runs db) \<Longrightarrow> br_id r = i \<Longrightarrow> br_status r = expected \<Longrightarrow> run_update_allowed r (f r)"
    and "length (filter (\<lambda>r. br_id r = i \<and> br_status r = expected) (db_runs db)) = 1"
proof -
  obtain n where n: "update_runs (\<lambda>r. br_id r = i \<and> br_status r = expected) f db = Inr (db', n)" "n = 1"
    using assms by (auto simp: move_run_def ebind_eq_Inr split: if_splits)
  note up = update_runs_InrD [OF n(1)]
  from up show "db' = db\<lparr>db_runs := map (\<lambda>r. if br_id r = i \<and> br_status r = expected then f r else r) (db_runs db)\<rparr>"
    by simp
  from up show "r \<in> set (db_runs db) \<Longrightarrow> br_id r = i \<Longrightarrow> br_status r = expected \<Longrightarrow> run_update_allowed r (f r)"
    by simp
  from up n(2) show "length (filter (\<lambda>r. br_id r = i \<and> br_status r = expected) (db_runs db)) = 1" by simp
qed

lemma moved_evidence:
  assumes move: "move_run i expected f db = Inr db'" and ids: "distinct (run_ids db)"
    and events: "\<And>e. e \<in> set (db_events db) \<Longrightarrow> er_run_id e \<in> set (run_ids db)"
    and others: "\<And>r. r \<in> set (db_runs db) \<Longrightarrow> \<not> (br_id r = i \<and> br_status r = expected) \<Longrightarrow> run_row_ok db r"
    and moved: "\<And>r. r \<in> set (db_runs db) \<Longrightarrow> br_id r = i \<Longrightarrow> br_status r = expected \<Longrightarrow>
      (if br_status (f r) = Succeeded then evidence_complete (run_events db i) else run_events db i = [])"
  shows "evidence_ok db'"
proof -
  let ?g = "\<lambda>r. if br_id r = i \<and> br_status r = expected then f r else r"
  note db' = move_run_rows(1) [OF move] and allowed = move_run_rows(2) [OF move]
  have id_eq: "br_id (?g r) = br_id r" if "r \<in> set (db_runs db)" for r
    using allowed [OF that] by (auto simp: run_update_allowed_def same_run_identity_def)
  have rows: "db_runs db' = map ?g (db_runs db)" and same: "db_events db' = db_events db" by (simp_all add: db')
  have run_ids: "run_ids db' = run_ids db" unfolding rows using id_eq by simp
  have "run_row_ok db' (?g r)" if "r \<in> set (db_runs db)" for r
    using others [OF that] moved [OF that] allowed [OF that] id_eq [OF that]
    by (auto simp: run_row_ok_def run_events_def same run_update_allowed_def)
  then have "\<forall>r \<in> set (db_runs db'). run_row_ok db' r" unfolding rows set_map by (blast dest: image_eqI)
  then show ?thesis using ids events by (simp add: evidence_ok_def run_ids same)
qed

lemma run_transition_evidence:
  assumes "expected \<noteq> Succeeded" "\<And>r. br_status (f r) \<noteq> Succeeded"
  shows "keeps evidence_kept (run_transition_to k i expected f)"
  unfolding run_transition_to_def
proof (intro evidence_abind keeps_transaction [OF evidence_kept_refl] keeps_same [OF evidence_kept_refl])
  fix db :: database and x db'
  assume "ebind (move_run i expected f db) (\<lambda>db1. Inr ((), db1)) = Inr (x, db')"
  then have move: "move_run i expected f db = Inr db'" by (auto simp: ebind_eq_Inr)
  show "evidence_kept db db'"
    unfolding evidence_kept_def
  proof
    assume db: "evidence_ok db"
    show "evidence_ok db'"
      by (rule moved_evidence [OF move]) (use db assms in \<open>auto simp: evidence_ok_def run_row_ok_def\<close>)
  qed
qed (rule read_back_same)

lemma run_status_of_row:
  assumes "evidence_ok db" "run_status_of db i = Some st" "r \<in> set (db_runs db)" "br_id r = i"
  shows "br_status r = st"
proof -
  obtain r' where r': "select_one (\<lambda>r. br_id r = i) (db_runs db) = Some r'" "br_status r' = st"
    using assms(2) by (auto simp: run_status_of_def)
  then show ?thesis using select_one_SomeD [OF r'(1)] same_run_row [OF assms(1), of r r'] assms(3,4) by auto
qed

lemma complete_evidence:
  assumes es: "es \<noteq> []" "contiguous es" and status: "run_status_of db i = Some Running"
    and steps: "insert_evidence k i es db = Inr db1" "move_run i Running f db1 = Inr db'"
    and f: "\<And>r. br_status (f r) = Succeeded" and db: "evidence_ok db"
  shows "evidence_ok db'"
proof -
  have db1: "db1 = db\<lparr>db_events := db_events db @ map (event_row_of k i) es\<rparr>"
    using insert_evidence_InrD [OF steps(1)] by simp
  have new: "run_events db1 j = run_events db j @ (if j = i then map (event_row_of k i) es else [])" for j
    by (auto simp: run_events_def db1 event_row_of_def comp_def)
  have run: "i \<in> set (run_ids db)"
    using status by (auto simp: run_status_of_def dest!: select_one_SomeD)
  show ?thesis
  proof (rule moved_evidence [OF steps(2)])
    show "distinct (run_ids db1)" using db by (simp add: db1 evidence_ok_def)
    show "er_run_id e \<in> set (run_ids db1)" if "e \<in> set (db_events db1)" for e
      using that db run by (auto simp: db1 evidence_ok_def event_row_of_def)
  next
    fix r
    assume r: "r \<in> set (db_runs db1)" and other: "\<not> (br_id r = i \<and> br_status r = Running)"
    then have r: "r \<in> set (db_runs db)" by (simp add: db1)
    then have "br_id r \<noteq> i" using run_status_of_row [OF db status r] other by auto
    then show "run_row_ok db1 r" using db r by (simp add: run_row_ok_def new evidence_ok_def)
  next
    fix r
    assume r: "r \<in> set (db_runs db1)" "br_id r = i" "br_status r = Running"
    have "run_row_ok db r" using db r(1) by (simp add: db1 evidence_ok_def)
    then have "run_events db i = []" using r by (simp add: run_row_ok_def)
    then have "evidence_complete (run_events db1 i)"
      using es by (simp add: new evidence_complete_def contiguous_def event_row_of_def comp_def)
    then show "if br_status (f r) = Succeeded then evidence_complete (run_events db1 i) else run_events db1 i = []"
      using f by simp
  qed
qed

lemma complete_succeeded_transaction:
  assumes "es \<noteq> []" "contiguous es"
  shows "complete_succeeded_with_evidence k ms i result ts now es d =
        abind (transaction (Run_persistence_error ''Could not persist Backtest Run Decision Evidence.'') (\<lambda>db.
             if run_status_of db i \<noteq> Some Running
             then Inl (Run_persistence_error ''Backtest Run lifecycle transition was rejected.'')
             else ebind (insert_evidence k i es db) (\<lambda>db1.
                  ebind (move_run i Running (succeed_row k result (finalized ts ms) d now) db1) (\<lambda>db2.
                  ebind (commit db2) (\<lambda>db3. Inr ((), db3))))))
             (\<lambda>_. read_back k i)"
  using assms by (simp add: complete_succeeded_with_evidence_def)

lemma complete_succeeded_evidence: "keeps evidence_kept (complete_succeeded_with_evidence k ms i result ts now es d)"
proof (cases "es = [] \<or> \<not> contiguous es")
  case True
  then show ?thesis by (simp add: complete_succeeded_with_evidence_def keeps_def query_def evidence_kept_refl)
next
  case False
  then have es: "es \<noteq> []" "contiguous es" by auto
  have "evidence_kept db db'"
    if "(if run_status_of db i \<noteq> Some Running then Inl e1
      else ebind (insert_evidence k i es db) (\<lambda>db1. ebind (move_run i Running (succeed_row k result ts' d now) db1)
        (\<lambda>db2. ebind (commit db2) (\<lambda>db3. Inr ((), db3))))) = Inr (x, db')" for db db' e1 x ts'
    using that
    by (rule complete_body) (use complete_evidence [OF es] in \<open>auto simp: evidence_kept_def succeed_row_def\<close>)
  then show ?thesis
    unfolding complete_succeeded_transaction [OF es]
    by (intro evidence_abind keeps_transaction [OF evidence_kept_refl]
        keeps_same [OF evidence_kept_refl read_back_same])
qed

lemma create_strategy_evidence: "keeps evidence_kept (repo_create_strategy s r text)"
  unfolding repo_create_strategy_def
  by (rule keeps_transaction [OF evidence_kept_refl])
    (auto simp: ebind_eq_Inr insert_strategy_Inr insert_revision_Inr intro!: evidence_cong dest!: commit_InrD)

lemma advance_evidence: "advance_strategy i r text db = Inr db1 \<Longrightarrow> db_runs db1 = db_runs db \<and> db_events db1 = db_events db"
  by (auto simp: advance_strategy_def ebind_eq_Inr insert_revision_Inr update_strategies_def update_rows_def)

lemma append_revision_evidence: "keeps evidence_kept (repo_append_revision k i expected r text)"
  unfolding repo_append_revision_def
  by (rule keeps_transaction [OF evidence_kept_refl])
    (erule early_return, auto simp: ebind_eq_Inr evidence_kept_refl intro!: evidence_cong dest!: commit_InrD advance_evidence)

lemma append_candidate_evidence: "keeps evidence_kept (repo_append_candidate_revision k c i expected r text)"
  unfolding repo_append_candidate_revision_def
proof (rule keeps_transaction [OF evidence_kept_refl])
  fix db :: database and x db'
  let ?a = "\<lparr>ar_candidate_id = c, ar_strategy_id = i, ar_revision_id = rv_id r, ar_adopted_at = timestamp (rv_created_at r)\<rparr>"
  assume body: "(case select_one (\<lambda>a. ar_candidate_id a = c) (db_adoptions db) of
      None \<Rightarrow> ebind (append_checks k i expected text db) (\<lambda>checked. case checked of Inl early \<Rightarrow> Inr (early, db)
        | Inr s \<Rightarrow> ebind (advance_strategy i r text db) (\<lambda>db1. ebind (insert_adoption ?a db1)
            (\<lambda>db2. ebind (commit db2) (\<lambda>db3. Inr (advanced s r, db3)))))
    | Some a \<Rightarrow> ebind (adopted_before k a i db) (\<lambda>early. Inr (early, db))) = Inr (x, db')"
  have "db_runs db' = db_runs db \<and> db_events db' = db_events db"
  proof (cases "select_one (\<lambda>a. ar_candidate_id a = c) (db_adoptions db)")
    case None
    with body have "ebind (append_checks k i expected text db) (\<lambda>checked. case checked of Inl early \<Rightarrow> Inr (early, db)
        | Inr s \<Rightarrow> ebind (advance_strategy i r text db) (\<lambda>db1. ebind (insert_adoption ?a db1)
            (\<lambda>db2. ebind (commit db2) (\<lambda>db3. Inr (advanced s r, db3))))) = Inr (x, db')"
      by simp
    then show ?thesis
      by (rule early_return) (auto simp: ebind_eq_Inr dest!: commit_InrD advance_evidence insert_adoption_InrD)
  next
    case (Some a)
    with body show ?thesis by (auto simp: ebind_eq_Inr)
  qed
  then show "evidence_kept db db'" by (auto intro: evidence_cong)
qed

lemma update_active_evidence: "keeps evidence_kept (update_active i f)"
  unfolding keeps_def
  by (auto simp: update_active_def update_strategies_def update_rows_def Let_def intro!: evidence_cong split: option.splits)

lemma candidate_evidence:
  "keeps evidence_kept (repo_create_candidate pd c)" "keeps evidence_kept (repo_update_diagnostics pd i d)"
  "keeps evidence_kept (repo_create_comparison k cmp)" "keeps evidence_kept (repo_update_comparison_diagnostics k i md)"
  unfolding repo_create_candidate_def repo_update_diagnostics_def repo_create_comparison_def
    repo_update_comparison_diagnostics_def
  by (rule keeps_transaction [OF evidence_kept_refl];
      auto simp: ebind_eq_Inr intro!: evidence_cong
        dest!: insert_candidate_InrD insert_comparison_InrD update_candidates_InrD update_comparisons_InrD split: if_splits)+

interpretation evidence: repository_contract evidence_kept
proof
  show "evidence_kept db db" for db by (rule evidence_kept_refl)
  show "evidence_kept a b \<Longrightarrow> evidence_kept b c \<Longrightarrow> evidence_kept a c" for a b c by (rule evidence_kept_trans)
  show "keeps evidence_kept (mark_running rk i now)" for rk i now
    unfolding mark_running_def by (rule run_transition_evidence) simp_all
  show "keeps evidence_kept (complete_failed rk i failure ts now)" for rk i failure ts now
    unfolding complete_failed_def by (rule run_transition_evidence) simp_all
qed (simp_all add: create_strategy_evidence append_revision_evidence append_candidate_evidence repo_rename_strategy_def
    repo_archive_strategy_def update_active_evidence create_run_evidence complete_succeeded_evidence candidate_evidence)

end
