(* ===== verification/Store_Samples.thy ===== *)
theory Store_Samples
  imports Store_Evidence
begin

text \<open>
  A small product for the witnesses: documents with one filter whose text is its threshold, an
  engine that always answers with one event, and codecs that write one text per record.
\<close>

definition sample_document :: "string \<Rightarrow> canonical" where
  "sample_document t =
     V1 \<lparr>v1_components = [\<lparr>vc_id = ''filter'', vc_primitive = ''filter@1'', vc_config = [(''threshold'', J_string t)], vc_rest = J_null\<rparr>],
         v1_rest = J_null\<rparr>"

definition document_text :: "canonical \<Rightarrow> string" where
  "document_text c =
     (case c of
        V1 d \<Rightarrow> (case v1_components d of
                  [] \<Rightarrow> []
                | x # _ \<Rightarrow> (case dget (vc_config x) ''threshold'' of Some (J_string t) \<Rightarrow> t | _ \<Rightarrow> []))
      | V2 _ \<Rightarrow> [])"

definition v1_of :: "canonical \<Rightarrow> canonical_v1" where
  "v1_of c = (case c of V1 d \<Rightarrow> d | V2 _ \<Rightarrow> \<lparr>v1_components = [], v1_rest = J_null\<rparr>)"

definition sample_codec :: codec where
  "sample_codec =
     \<lparr>co_dump = document_text, co_decode = (\<lambda>t. Inr (Object None t)), co_validate_v1 = (\<lambda>t. Inr (v1_of (sample_document t))),
      co_validate_v2 = (\<lambda>_. Inl []), co_digest = document_text, co_v1_issues = (\<lambda>_. []),
      co_program_json = (\<lambda>_. J_null), co_json_hash = (\<lambda>_. []), co_message = (\<lambda>_. [])\<rparr>"

definition sample_time :: "nat \<Rightarrow> moment" where
  "sample_time n = \<lparr>mo_date = \<lparr>cd_year = 2024, cd_month = 1, cd_day = 2\<rparr>, mo_hour = 0, mo_minute = 0, mo_second = n, mo_microsecond = 0\<rparr>"

definition sample_config :: run_config where
  "sample_config = \<lparr>rc_start_date = \<lparr>cd_year = 2024, cd_month = 1, cd_day = 1\<rparr>, rc_end_date = \<lparr>cd_year = 2024, cd_month = 12, cd_day = 31\<rparr>,
     rc_initial_cash = 100000, rc_dataset_id = ''golden-synthetic''\<rparr>"

definition sample_result :: backtest_result where
  "sample_result = \<lparr>bt_initial_value = 100000, bt_final_value = 110000, bt_total_return = 1 / 10, bt_total_orders = 2,
     bt_total_fees = 1, bt_equity_curve = []\<rparr>"

definition sample_collected :: collected_event where
  "sample_collected =
     \<lparr>ce_schema_version = 2, ce_sequence = 1, ce_session = \<lparr>cd_year = 2024, cd_month = 1, cd_day = 2\<rparr>, ce_phase = Ph_evaluation,
      ce_sources = [\<lparr>sc_role = ''source'', sc_component_id = ''filter'', sc_field_path = Some ''config.threshold''\<rparr>],
      ce_evidence = Ev_fallback \<lparr>fb_asset = ''SPY'', fb_activated = True\<rparr>\<rparr>"

definition sample_execution :: execution where
  "sample_execution = \<lparr>xn_result = sample_result, xn_timings = no_timings, xn_diagnostics = no_diagnostics,
     xn_events = [sample_collected], xn_source_ids = []\<rparr>"

definition sample_engine :: engine where
  "sample_engine = \<lparr>en_market_data = None, en_execute = (\<lambda>_ _. Ran sample_execution), en_image = None,
     en_application_version = ''0.1'', en_build_commit = None\<rparr>"

text \<open>The provenance keeps the source hash; the other records are read back as one value.\<close>

definition sample_provenance :: "string \<Rightarrow> run_provenance" where
  "sample_provenance h = provenance_of sample_engine h ''ruletrade.dev/strategy/v1'' sample_config None"

definition one_text :: "'a \<Rightarrow> 'a json_codec" where
  "one_text x = \<lparr>jc_write = (\<lambda>_. ''{}''), jc_read = (\<lambda>_. Inr x)\<rparr>"

definition sample_run_codec :: run_codec where
  "sample_run_codec =
     \<lparr>rk_config = one_text sample_config, rk_result = one_text sample_result,
      rk_error = one_text \<lparr>rf_code = [], rf_message = []\<rparr>,
      rk_provenance = \<lparr>jc_write = ro_source_hash, jc_read = (\<lambda>h. Inr (sample_provenance h))\<rparr>,
      rk_timings = one_text no_timings, rk_diagnostics = one_text no_diagnostics,
      rk_sources = one_text (ce_sources sample_collected), rk_evidence = one_text (ce_evidence sample_collected),
      rk_config_fields = (\<lambda>_. Inr sample_config), rk_document_bytes = (\<lambda>_. 2)\<rparr>"

definition sample_change :: threshold_change where
  "sample_change = \<lparr>th_component_id = ''filter'', th_field_path = ''config.threshold'',
     th_expected_before = Dec False 10 (-1), th_proposed_after = Dec False 25 (-1)\<rparr>"

definition sample_candidate_diagnostics :: candidate_diagnostics where
  "sample_candidate_diagnostics = \<lparr>ci_context_load_ms = 0, ci_evidence_target_validation_ms = 0, ci_semantic_patch_ms = 0,
     ci_canonical_validation_ms = 0, ci_persistence_ms = 0, ci_creation_overhead_ms = 0, ci_request_total_ms = 0, ci_canonical_bytes = 0\<rparr>"

definition sample_product :: product where
  "sample_product =
     \<lparr>pd_documents = sample_codec, pd_runs = sample_run_codec,
      pd_candidates = \<lparr>ck_change = one_text sample_change, ck_diagnostics = one_text sample_candidate_diagnostics,
                       ck_read_v1 = (\<lambda>t. Inr (v1_of (sample_document t))), ck_serialized_bytes = (\<lambda>_. 2)\<rparr>,
      pd_engine = sample_engine\<rparr>"

definition sample_comparison_diagnostics :: comparison_diagnostics where
  "sample_comparison_diagnostics = \<lparr>cg_artifact_load_ms = 0, cg_comparability_validation_ms = 0, cg_evidence_load_ms = 0,
     cg_alignment_ms = 0, cg_result_diff_ms = 0, cg_persistence_ms = 0, cg_total_ms = 0, cg_comparison_bytes = 0\<rparr>"

definition sample_comparison :: comparison_record where
  "sample_comparison =
     (let d = decimal_metric 0 0 in
      \<lparr>cm_id = ''x1'', cm_candidate_id = ''c1'', cm_original_run_id = ''run1'', cm_candidate_run_id = ''run2'',
       cm_strategy_diff = \<lparr>sd_component_id = ''filter'', sd_field_path = ''config.threshold'', sd_before = Dec False 10 (-1), sd_after = Dec False 25 (-1)\<rparr>,
       cm_aligned_evidence_records = 1, cm_changed_decision_contexts = [], cm_first_difference = None,
       cm_result_diff = \<lparr>rs_initial_value = d, rs_final_value = d, rs_total_return = d,
          rs_total_orders = \<lparr>id_original = 0, id_candidate = 0, id_delta = 0\<rparr>, rs_total_fees = d,
          rs_original_equity_run_id = ''run1'', rs_candidate_equity_run_id = ''run2''\<rparr>,
       cm_compute_ms = 0, cm_created_at = sample_time 9, cm_diagnostics = sample_comparison_diagnostics\<rparr>)"

definition sample_comparison_codec :: comparison_codec where
  "sample_comparison_codec = \<lparr>mk_comparison = one_text sample_comparison, mk_diagnostics = one_text sample_comparison_diagnostics, mk_bytes = (\<lambda>_. 2)\<rparr>"

definition sample_readings :: "string \<Rightarrow> nat \<Rightarrow> run_readings" where
  "sample_readings i n = \<lparr>rd_run_id = i, rd_created = sample_time n, rd_started = sample_time n, rd_completed = sample_time n,
     rd_failed = sample_time n, rd_source_load_ms = 0, rd_validation_ms = 0, rd_total_ms = 0, rd_finalization_ms = 0\<rparr>"

text \<open>A Strategy is created and a Revision saved; the databases these commands leave.\<close>

definition sample_create :: command where
  "sample_create = Create_strategy (sample_time 1) ''s1'' ''r1'' ''Trend'' (Object None ''0.5'')"

definition sample_save :: command where
  "sample_save = Save_revision (sample_time 2) ''r2'' ''s1'' ''r1'' (Object None ''1.0'')"

definition sample_strategy_row :: strategy_row where
  "sample_strategy_row =
     \<lparr>sr_id = ''s1'', sr_name = ''Trend'', sr_created_at = timestamp (sample_time 1), sr_updated_at = timestamp (sample_time 1),
      sr_current_revision_id = ''r1'', sr_archived_at = None\<rparr>"

definition sample_revision_row :: "string \<Rightarrow> string option \<Rightarrow> string \<Rightarrow> nat \<Rightarrow> revision_row" where
  "sample_revision_row i parent t n =
     \<lparr>rr_id = i, rr_strategy_id = ''s1'', rr_parent_revision_id = parent, rr_canonical_json = t, rr_source_hash = t,
      rr_schema_version = ''ruletrade.dev/strategy/v1'', rr_created_at = timestamp (sample_time n)\<rparr>"

definition created_database :: database where
  "created_database = empty_database\<lparr>db_strategies := [sample_strategy_row], db_revisions := [sample_revision_row ''r1'' None ''0.5'' 1]\<rparr>"

definition saved_database :: database where
  "saved_database = created_database
     \<lparr>db_strategies := [sample_strategy_row\<lparr>sr_current_revision_id := ''r2'', sr_updated_at := timestamp (sample_time 2)\<rparr>],
      db_revisions := [sample_revision_row ''r1'' None ''0.5'' 1, sample_revision_row ''r2'' (Some ''r1'') ''1.0'' 2]\<rparr>"

lemma sample_times [simp]: "n < 60 \<Longrightarrow> parse_timestamp (timestamp (sample_time n)) = Inr (sample_time n)"
  by (rule parse_timestamp_timestamp) (simp add: sample_time_def valid_moment_def valid_date_def days_in_month_def)

lemmas document_eval = validate_source_def parse_canonical_def sample_product_def sample_codec_def semantic_issues_def
  sample_document_def v1_of_def document_text_def api_version_def dget_def load_canonical_def py_to_store_def

lemmas store_eval = abind_def query_def transaction_def on_sqlite_def new_revision_def insert_strategy_def insert_revision_def
  empty_database_def strategy_row_of_def revision_row_of_def optional_in_def commit_def Let_def

lemmas append_eval = save_revision_def repo_append_revision_def append_checks_def advance_strategy_def strategy_row_at_def
  revision_row_at_def read_strategy_def read_revision_def read_time_def read_optional_time_def append_response_def
  append_outcome_def advanced_def update_strategies_def update_rows_def

lemmas sample_rows = created_database_def saved_database_def sample_strategy_row_def sample_revision_row_def

lemma create_step: "perform sample_product sample_comparison_codec sample_create empty_database = created_database"
  by (simp add: perform_def sample_create_def create_strategy_def repo_create_strategy_def document_eval store_eval sample_rows)

lemma save_result:
  "save_revision sample_codec (sample_time 2) ''r2'' ''s1'' ''r1'' (Object None ''1.0'') created_database =
    (Inr \<lparr>sv_created = True,
          sv_strategy = \<lparr>sg_id = ''s1'', sg_name = ''Trend'', sg_created_at = sample_time 1, sg_updated_at = sample_time 2,
                         sg_current_revision_id = ''r2'', sg_archived_at = None\<rparr>,
          sv_revision = new_revision sample_codec ''r2'' ''s1'' (Some ''r1'') (sample_document ''1.0'') (sample_time 2)\<rparr>,
     saved_database)"
  by (simp add: append_eval document_eval store_eval sample_rows)

lemma save_step: "perform sample_product sample_comparison_codec sample_save created_database = saved_database"
  using save_result by (simp add: perform_def sample_save_def sample_product_def)

lemma sample_history: "perform_all sample_product sample_comparison_codec [sample_create, sample_save] empty_database = saved_database"
  by (simp add: perform_all_def create_step save_step)

end
