(* ===== verification/Run_Lifecycle.thy ===== *)
theory Run_Lifecycle
  imports Store_Samples
begin

text \<open>
  Every execution of a Run comes to an end: however the engine answers, and whatever becomes of
  the evidence, the stored Run leaves the states pending and running.
\<close>

subsection \<open>Rows that can be read\<close>

definition codec_reads :: "'a json_codec \<Rightarrow> bool" where
  "codec_reads j \<longleftrightarrow> (\<forall>x. \<exists>y. jc_read j (jc_write j x) = Inr y)"

definition run_codec_reads :: "run_codec \<Rightarrow> bool" where
  "run_codec_reads k \<longleftrightarrow>
     codec_reads (rk_config k) \<and> codec_reads (rk_result k) \<and> codec_reads (rk_error k) \<and>
     codec_reads (rk_provenance k) \<and> codec_reads (rk_timings k) \<and> codec_reads (rk_diagnostics k)"

definition valid_readings :: "run_readings \<Rightarrow> bool" where
  "valid_readings rd \<longleftrightarrow>
     valid_moment (rd_created rd) \<and> valid_moment (rd_started rd) \<and> valid_moment (rd_completed rd) \<and> valid_moment (rd_failed rd)"

definition readable_row :: "run_codec \<Rightarrow> run_row \<Rightarrow> bool" where
  "readable_row k r \<longleftrightarrow> (\<exists>x. read_run k r = Inr x)"

lemma readable_row_iff:
  "readable_row k r \<longleftrightarrow>
     (\<exists>x. read_json (rk_config k) (br_config_json r) = Inr x) \<and>
     (\<exists>x. read_optional_json (rk_result k) (br_result_json r) = Inr x) \<and>
     (\<exists>x. read_optional_json (rk_error k) (br_error_json r) = Inr x) \<and>
     (\<exists>x. read_json (rk_provenance k) (br_provenance_json r) = Inr x) \<and>
     (\<exists>x. read_json (rk_timings k) (br_timings_json r) = Inr x) \<and>
     (\<exists>x. read_json (rk_diagnostics k) (br_diagnostics_json r) = Inr x) \<and>
     (\<exists>x. read_time (br_created_at r) = Inr x) \<and>
     (\<exists>x. read_optional_time (br_started_at r) = Inr x) \<and>
     (\<exists>x. read_optional_time (br_completed_at r) = Inr x)"
  unfolding readable_row_def read_run_def ebind_eq_Inr by blast

lemma read_run_fields:
  "read_run k r = Inr x \<Longrightarrow> bk_id x = br_id r \<and> bk_status x = br_status r"
  by (auto simp: read_run_def ebind_eq_Inr)

lemma reads_written: "codec_reads j \<Longrightarrow> \<exists>y. read_json j (jc_write j x) = Inr y"
  by (simp add: codec_reads_def read_json_def)

lemma reads_optional_written: "codec_reads j \<Longrightarrow> \<exists>y. read_optional_json j (Some (jc_write j x)) = Inr y"
  using reads_written by (fastforce simp: read_optional_json_def eopt_def ebind_eq_Inr)

lemma reads_absent: "\<exists>y. read_optional_json j None = Inr y" "\<exists>y. read_optional_time None = Inr y"
  by (simp_all add: read_optional_json_def read_optional_time_def eopt_def)

lemma reads_time: "valid_moment t \<Longrightarrow> \<exists>y. read_time (timestamp t) = Inr y"
  by (simp add: read_time_def parse_timestamp_timestamp)

lemma reads_optional_time: "valid_moment t \<Longrightarrow> \<exists>y. read_optional_time (Some (timestamp t)) = Inr y"
  using reads_time by (fastforce simp: read_optional_time_def eopt_def ebind_eq_Inr)

lemmas reading = reads_written reads_optional_written reads_absent reads_time reads_optional_time

subsection \<open>Moving the newest Run\<close>

text \<open>The Run just created is the last row, and the only one with its identifier.\<close>

definition newest_run :: "string \<Rightarrow> run_row list \<Rightarrow> run_row \<Rightarrow> database \<Rightarrow> bool" where
  "newest_run i rs row db \<longleftrightarrow> db_runs db = rs @ [row] \<and> br_id row = i \<and> (\<forall>r \<in> set rs. br_id r \<noteq> i)"

lemma newest_run_at: "newest_run i rs row db \<Longrightarrow> run_row_at i db = Some row"
  by (auto simp: newest_run_def run_row_at_def select_one_append select_one_None split: option.splits dest!: select_one_SomeD)

lemma newest_update:
  assumes "newest_run i rs row db"
  shows "map (\<lambda>r. if br_id r = i \<and> br_status r = st then f r else r) (db_runs db) = rs @ [if br_status row = st then f row else row]"
    and "filter (\<lambda>r. br_id r = i \<and> br_status r = st) (db_runs db) = (if br_status row = st then [row] else [])"
    and "list_all (\<lambda>r. br_id r = i \<and> br_status r = st \<longrightarrow> P r) (db_runs db) \<longleftrightarrow> (br_status row = st \<longrightarrow> P row)"
  using assms by (auto simp: newest_run_def list_all_iff filter_empty_conv intro!: map_idI)

lemma newest_moves:
  assumes "newest_run i rs row db" "br_status row = st" "run_update_allowed row (f row)"
  shows "move_run i st f db = Inr (db\<lparr>db_runs := rs @ [f row]\<rparr>)" "newest_run i rs (f row) (db\<lparr>db_runs := rs @ [f row]\<rparr>)"
proof -
  show "move_run i st f db = Inr (db\<lparr>db_runs := rs @ [f row]\<rparr>)"
    using assms by (simp add: move_run_def update_runs_def update_rows_def newest_update [OF assms(1)])
  show "newest_run i rs (f row) (db\<lparr>db_runs := rs @ [f row]\<rparr>)"
    using assms by (simp add: newest_run_def run_update_allowed_def same_run_identity_def)
qed

lemma newest_read_back:
  assumes "newest_run i rs row db" "readable_row k row"
  shows "\<exists>x. read_back k i db = (Inr x, db) \<and> bk_id x = i \<and> bk_status x = br_status row"
  using assms newest_run_at [OF assms(1)] read_run_fields
  by (fastforce simp: read_back_def readable_row_def newest_run_def)

lemma newest_transition:
  assumes "newest_run i rs row db" "br_status row = st" "run_update_allowed row (f row)" "readable_row k (f row)"
  shows "\<exists>x. run_transition_to k i st f db = (Inr x, db\<lparr>db_runs := rs @ [f row]\<rparr>) \<and> bk_id x = i \<and> bk_status x = br_status (f row)"
  using newest_moves [of i rs row db st f, OF assms(1-3)] newest_read_back [OF _ assms(4)]
  by (simp add: run_transition_to_def abind_def transaction_def on_sqlite_def)

subsection \<open>Completing\<close>

lemma insert_event_error: "insert_event row db = Inl e \<Longrightarrow> e = Sqlite_error"
  by (auto simp: insert_event_def split: if_splits)

lemma insert_evidence_error: "insert_evidence k i es db = Inl e \<Longrightarrow> e = Sqlite_error"
  unfolding insert_evidence_def
  by (induction es arbitrary: db) (auto simp: ebind_def dest: insert_event_error split: sum.splits)

lemma commit_error: "commit db = Inl e \<Longrightarrow> e = Sqlite_error"
  by (auto simp: commit_def split: if_splits)

lemma failed_completion:
  assumes "newest_run i rs row db" "br_status row = Running" "lifecycle_columns row" "readable_row k row"
    "run_codec_reads k" "valid_moment now"
  shows "\<exists>x db'. complete_failed k i failure ts now db = (Inr x, db') \<and> bk_id x = i \<and> bk_status x = Failed \<and>
    run_row_at i db' = Some (row\<lparr>br_status := Failed, br_error_json := Some (jc_write (rk_error k) failure),
              br_timings_json := jc_write (rk_timings k) ts, br_completed_at := Some (timestamp now)\<rparr>)"
proof -
  let ?f = "\<lambda>r. r\<lparr>br_status := Failed, br_error_json := Some (jc_write (rk_error k) failure),
              br_timings_json := jc_write (rk_timings k) ts, br_completed_at := Some (timestamp now)\<rparr>"
  have allowed: "run_update_allowed row (?f row)"
    using assms(2,3) by (simp add: run_update_allowed_def same_run_identity_def lifecycle_step_def lifecycle_columns_def)
  have readable: "readable_row k (?f row)"
    using assms(4-6) by (simp add: readable_row_iff run_codec_reads_def reading)
  show ?thesis
    using newest_transition [of i rs row db Running ?f k, OF assms(1,2) allowed readable]
      newest_run_at [OF newest_moves(2) [of i rs row db Running ?f, OF assms(1,2) allowed]]
    unfolding complete_failed_def by auto
qed

lemma succeeded_completion:
  assumes newest: "newest_run i rs row db" and row: "br_status row = Running" "lifecycle_columns row" "readable_row k row"
    and reads: "run_codec_reads k" "valid_moment now"
  obtains (stored) x db' where "complete_succeeded_with_evidence k ms i result ts now es d db = (Inr x, db')"
      "bk_id x = i" "bk_status x = Succeeded" "run_status_of db' i = Some Succeeded"
  | (refused) m where "complete_succeeded_with_evidence k ms i result ts now es d db = (Inl (Run_persistence_error m), db)"
proof (cases "es = [] \<or> \<not> contiguous es")
  case True
  then show thesis using refused by (simp add: complete_succeeded_with_evidence_def query_def)
next
  case False
  then have es: "es \<noteq> []" "contiguous es" by auto
  define f where "f = succeed_row k result (finalized ts ms) d now"
  define body where "body = (\<lambda>db. if run_status_of db i \<noteq> Some Running
             then Inl (Run_persistence_error ''Backtest Run lifecycle transition was rejected.'')
             else ebind (insert_evidence k i es db) (\<lambda>db1.
                  ebind (move_run i Running f db1) (\<lambda>db2.
                  ebind (commit db2) (\<lambda>db3. Inr ((), db3)))))"
  note whole = complete_succeeded_transaction [OF es, of k ms i result ts now d, folded f_def, folded body_def]
  have allowed: "run_update_allowed row (f row)" and readable: "readable_row k (f row)"
    using row reads
    by (auto simp: f_def succeed_row_def run_update_allowed_def same_run_identity_def lifecycle_step_def
        lifecycle_columns_def readable_row_iff run_codec_reads_def reading split: option.splits)
  have status: "run_status_of db i = Some Running"
    using newest_run_at [OF newest] row(1) by (simp add: run_status_of_def run_row_at_def)
  show thesis
  proof (cases "insert_evidence k i es db")
    case (Inl e)
    then have "body db = Inl Sqlite_error" using insert_evidence_error [OF Inl] status by (simp add: body_def ebind_def)
    then show thesis using refused by (simp add: whole abind_def transaction_def on_sqlite_def)
  next
    case (Inr db1)
    then have db1: "newest_run i rs row db1" using newest insert_evidence_InrD [OF Inr] by (simp add: newest_run_def)
    note moves = newest_moves [of i rs row db1 Running f, OF db1 row(1) allowed]
    let ?db2 = "db1\<lparr>db_runs := rs @ [f row]\<rparr>"
    show thesis
    proof (cases "commit ?db2")
      case (Inl e)
      then have "body db = Inl Sqlite_error"
        using commit_error [OF Inl] status Inr moves(1) by (simp add: body_def ebind_def)
      then show thesis using refused by (simp add: whole abind_def transaction_def on_sqlite_def)
    next
      case (Inr db3)
      then have "body db = Inr ((), ?db2)"
        using commit_InrD [OF Inr] status \<open>insert_evidence k i es db = Inr db1\<close> moves(1) by (simp add: body_def ebind_def)
      moreover obtain x where "read_back k i ?db2 = (Inr x, ?db2)" "bk_id x = i" "bk_status x = br_status (f row)"
        using newest_read_back [OF moves(2) readable] by blast
      moreover have "run_status_of ?db2 i = Some Succeeded" "br_status (f row) = Succeeded"
        using newest_run_at [OF moves(2)] by (simp_all add: run_status_of_def run_row_at_def f_def succeed_row_def)
      ultimately show thesis using stored by (simp add: whole abind_def transaction_def on_sqlite_def)
    qed
  qed
qed

lemma finish_run_ends:
  assumes newest: "newest_run i rs row db" and row: "br_status row = Running" "lifecycle_columns row" "readable_row k row"
    and reads: "run_codec_reads k" "valid_readings rd"
  shows "\<exists>x db'. finish_run k rd i ms e db = (Inr x, db') \<and> bk_id x = i \<and> bk_status x \<in> {Succeeded, Failed} \<and>
    run_status_of db' i = Some (bk_status x)"
proof -
  have times: "valid_moment (rd_completed rd)" "valid_moment (rd_failed rd)" using reads(2) by (simp_all add: valid_readings_def)
  define ts where "ts = (xn_timings e)\<lparr>tm_source_load_ms := ms, tm_evidence_validation_ms := rd_validation_ms rd,
                  tm_total_ms := max (rd_total_ms rd) (tm_total_ms (xn_timings e) + ms + rd_validation_ms rd)\<rparr>"
  show ?thesis
  proof (rule succeeded_completion [OF newest row reads(1) times(1), of "rd_finalization_ms rd" "xn_result e" ts "xn_events e" "Some (xn_diagnostics e)"])
    fix x db'
    assume "complete_succeeded_with_evidence k (rd_finalization_ms rd) i (xn_result e) ts (rd_completed rd) (xn_events e)
        (Some (xn_diagnostics e)) db = (Inr x, db')"
      and "bk_id x = i" "bk_status x = Succeeded" "run_status_of db' i = Some Succeeded"
    then show ?thesis by (simp add: finish_run_def Let_def ts_def)
  next
    fix m
    assume refused: "complete_succeeded_with_evidence k (rd_finalization_ms rd) i (xn_result e) ts (rd_completed rd) (xn_events e)
        (Some (xn_diagnostics e)) db = (Inl (Run_persistence_error m), db)"
    let ?failure = "\<lparr>rf_code = ''evidence_persistence_failure'', rf_message = ''Backtest Decision Evidence could not be persisted.''\<rparr>"
    obtain x db' where "complete_failed k i ?failure ts (rd_failed rd) db = (Inr x, db')" "bk_id x = i" "bk_status x = Failed"
        "run_status_of db' i = Some Failed"
      using failed_completion [OF newest row reads(1) times(2), of ?failure ts] by (auto simp: run_status_of_def run_row_at_def)
    then show ?thesis using refused by (simp add: finish_run_def Let_def ts_def is_run_persistence_def)
  qed
qed

subsection \<open>A whole execution\<close>

lemma pending_row:
  assumes "run_codec_reads k" "valid_readings rd"
  shows "lifecycle_columns (run_row_of k (pending_run k en rd rid cand c hash version config ms p))"
    and "readable_row k (run_row_of k (pending_run k en rd rid cand c hash version config ms p))"
  using assms by (simp_all add: run_row_of_def pending_run_def lifecycle_columns_def readable_row_iff run_codec_reads_def
      valid_readings_def reading)

text \<open>What the new Run refers to exists, and neither it nor a Run of its Candidate does.\<close>

definition run_can_be_inserted :: "string \<Rightarrow> string \<Rightarrow> string option \<Rightarrow> database \<Rightarrow> bool" where
  "run_can_be_inserted i rid cand db \<longleftrightarrow>
     i \<notin> set (run_ids db) \<and> rid \<in> set (revision_ids db) \<and> optional_in cand (candidate_ids db) \<and>
     (cand = None \<or> cand \<notin> set (map br_candidate_id (db_runs db)))"

lemma execution_ends:
  assumes fits: "run_can_be_inserted (rd_run_id rd) rid cand db"
    and reads: "run_codec_reads k" "valid_readings rd"
    and answers: "run_preflight en c config = Inr p" "\<And>e. en_execute en c config \<noteq> Crashed e"
  shows "\<exists>x db'. create_and_execute_source k en rd rid cand c hash version config ms db = (Inr x, db') \<and>
    bk_id x = rd_run_id rd \<and> bk_status x \<in> {Succeeded, Failed} \<and> run_status_of db' (rd_run_id rd) = Some (bk_status x)"
proof -
  define run where "run = pending_run k en rd rid cand c hash version config ms p"
  define row where "row = run_row_of k run"
  define f where "f = (\<lambda>r. r\<lparr>br_status := Running, br_started_at := Some (timestamp (rd_started rd))\<rparr> :: run_row)"
  note new = pending_row [OF reads, of en rid cand c hash version config ms p, folded run_def, folded row_def]
  have ids: "br_id row = rd_run_id rd" "br_status row = Pending" "br_revision_id row = rid" "br_candidate_id row = cand"
    "bk_id run = rd_run_id rd"
    by (simp_all add: row_def run_def run_row_of_def pending_run_def)
  let ?db1 = "db\<lparr>db_runs := db_runs db @ [row]\<rparr>"
  have created: "repo_create_run k run db = (Inr (), ?db1)"
    using fits new(1) ids
    by (auto simp: repo_create_run_def transaction_def on_sqlite_def insert_run_def row_def [symmetric] run_can_be_inserted_def)
  have newest: "newest_run (rd_run_id rd) (db_runs db) row ?db1"
    using fits ids by (force simp: newest_run_def run_can_be_inserted_def)
  have allowed: "run_update_allowed row (f row)" and started: "readable_row k (f row)"
    using new ids reads
    by (simp_all add: f_def run_update_allowed_def same_run_identity_def lifecycle_step_def lifecycle_columns_def
        readable_row_iff valid_readings_def reading)
  have running: "br_status (f row) = Running" "lifecycle_columns (f row)" using allowed by (simp_all add: f_def run_update_allowed_def)
  let ?db2 = "?db1\<lparr>db_runs := db_runs db @ [f row]\<rparr>"
  note newest2 = newest_moves(2) [of _ _ _ _ _ f, OF newest ids(2) allowed]
  obtain x where marked: "mark_running k (rd_run_id rd) (rd_started rd) ?db1 = (Inr x, ?db2)" "bk_id x = rd_run_id rd"
    using newest_transition [of _ _ _ _ _ f, OF newest ids(2) allowed started] unfolding mark_running_def f_def by blast
  define ts where "ts = no_timings\<lparr>tm_source_load_ms := ms, tm_total_ms := rd_total_ms rd\<rparr>"
  have whole: "create_and_execute_source k en rd rid cand c hash version config ms db =
     (case checked_execution en c config of
       Crashed e \<Rightarrow> query (\<lambda>_. Inl (Python_error e))
     | Refused e \<Rightarrow> complete_failed k (rd_run_id rd) (public_error e) ts (rd_completed rd)
     | Ran e \<Rightarrow> finish_run k rd (rd_run_id rd) ms e) ?db2"
    using answers(1) created marked ids(5)
    by (simp add: create_and_execute_source_def abind_def query_def Let_def run_def [symmetric] ts_def cong: engine_outcome.case_cong)
  have times: "valid_moment (rd_completed rd)" using reads(2) by (simp add: valid_readings_def)
  show ?thesis
  proof (cases "checked_execution en c config")
    case (Ran e)
    then show ?thesis using finish_run_ends [OF newest2 running started reads] by (simp add: whole)
  next
    case (Refused e)
    show ?thesis
      using failed_completion [OF newest2 running started reads(1) times, of "public_error e" ts] Refused
      by (auto simp: whole run_status_of_def run_row_at_def)
  next
    case (Crashed e)
    then show ?thesis using answers(2) by (auto simp: checked_execution_def split: engine_outcome.splits if_splits)
  qed
qed

end
