(* ===== verification/Run_Samples.thy ===== *)
theory Run_Samples
  imports Run_Lifecycle
begin

text \<open>The small product executes a Run on its first Revision; the database this leaves.\<close>

definition sample_execute :: command where
  "sample_execute = Execute_run (sample_readings ''run1'' 3) ''r1'' (Config sample_config)"

definition sample_run_row :: run_row where
  "sample_run_row =
     \<lparr>br_id = ''run1'', br_revision_id = ''r1'', br_candidate_id = None, br_status = Succeeded, br_config_json = ''{}'',
      br_result_json = Some ''{}'', br_error_json = None, br_provenance_json = ''0.5'', br_timings_json = ''{}'',
      br_diagnostics_json = ''{}'', br_created_at = timestamp (sample_time 3), br_started_at = Some (timestamp (sample_time 3)),
      br_completed_at = Some (timestamp (sample_time 3))\<rparr>"

definition sample_event_row :: event_row where
  "sample_event_row =
     \<lparr>er_run_id = ''run1'', er_id = ''event-000001'', er_ordinal = 1, er_schema_version = 2, er_session_id = ''2024-01-02'',
      er_phase = ''evaluation'', er_kind = ''fallback'', er_source_components_json = ''{}'', er_evidence_json = ''{}''\<rparr>"

definition executed_database :: database where
  "executed_database = created_database\<lparr>db_runs := [sample_run_row], db_events := [sample_event_row]\<rparr>"


lemma padded_numeral: "padded (numeral k) n = padded (pred_numeral k) (n div 10) @ [digit_char (n mod 10)]"
  by (subst numeral_eq_Suc) (rule padded.simps(2))

lemma sample_event_row: "event_row_of sample_run_codec ''run1'' sample_collected = sample_event_row"
  by (simp add: event_row_of_def sample_event_row_def sample_run_codec_def one_text_def sample_collected_def event_id_def
      padded_numeral date_text_def digit_char_def char_of_def bit_0)


lemma sample_reads:
  "read_json (rk_config sample_run_codec) t = Inr sample_config" "read_optional_json (rk_result sample_run_codec) (Some t) = Inr (Some sample_result)"
  "read_optional_json (rk_error sample_run_codec) None = Inr None" "read_optional_json (rk_result sample_run_codec) None = Inr None"
  "read_json (rk_provenance sample_run_codec) t = Inr (sample_provenance t)"
  "read_json (rk_timings sample_run_codec) t = Inr no_timings" "read_json (rk_diagnostics sample_run_codec) t = Inr no_diagnostics"
  by (simp_all add: read_json_def read_optional_json_def eopt_def sample_run_codec_def one_text_def py_to_store_def)

lemma sample_writes:
  "jc_write (rk_config sample_run_codec) a = ''{}''" "jc_write (rk_result sample_run_codec) b = ''{}''"
  "jc_write (rk_provenance sample_run_codec) c = ro_source_hash c" "jc_write (rk_timings sample_run_codec) d = ''{}''"
  "jc_write (rk_diagnostics sample_run_codec) e = ''{}''"
  by (simp_all add: sample_run_codec_def one_text_def)

lemma sample_answers: "checked_execution sample_engine (sample_document t) sample_config = Ran sample_execution"
  "run_preflight sample_engine c config = Inr None" "xn_events sample_execution = [sample_collected]"
  by (simp_all add: checked_execution_def sample_engine_def sample_execution_def referenced_ids_def sample_collected_def
      source_component_ids_def sample_document_def run_preflight_def no_preflight_def)

lemma sample_read_back:
  "parse_canonical sample_codec (Object None t) = Inr (sample_document t)" "load_canonical sample_codec t = Inr (sample_document t)"
  "document_text (sample_document t) = t" "api_version (sample_document t) = ''ruletrade.dev/strategy/v1''"
  by (simp_all add: document_eval)

lemma sample_event_fields: "ce_sequence sample_collected = 1" "er_run_id sample_event_row = ''run1''"
  "er_ordinal sample_event_row = 1" "er_schema_version sample_event_row = 2"
  by (simp_all add: sample_collected_def sample_event_row_def)

lemmas run_steps = create_and_execute_def create_and_execute_source_def validate_config_def get_revision_by_id_def
  repo_get_revision_by_id_def found_revision_def eopt_def read_revision_def revision_row_at_def pending_run_def provenance_of_def
  repo_create_run_def run_row_of_def insert_run_def lifecycle_columns_def optional_in_def
  mark_running_def run_transition_to_def move_run_def update_runs_def update_rows_def run_update_allowed_def same_run_identity_def
  lifecycle_step_def read_back_def run_row_at_def read_run_def read_time_def read_optional_time_def

lemmas finish_steps = finish_run_def complete_succeeded_with_evidence_def contiguous_def run_status_of_def
  insert_evidence_def insert_event_def succeed_row_def

lemma execute_step: "perform sample_product sample_comparison_codec sample_execute created_database = executed_database"
  by (simp add: perform_def sample_execute_def sample_product_def sample_rows run_steps finish_steps store_eval sample_read_back
      sample_reads sample_writes sample_answers sample_event_row sample_event_fields sample_readings_def sample_run_row_def executed_database_def py_to_store_def)


lemma executed_history: "perform_all sample_product sample_comparison_codec [sample_create, sample_execute] empty_database = executed_database"
  by (simp add: perform_all_def create_step execute_step)

lemma sample_codec_reads: "run_codec_reads sample_run_codec"
  by (simp add: run_codec_reads_def codec_reads_def sample_run_codec_def one_text_def)

lemma sample_moments: "n < 60 \<Longrightarrow> valid_moment (sample_time n)"
  by (simp add: sample_time_def valid_moment_def valid_date_def days_in_month_def)

lemma sample_readings_valid: "n < 60 \<Longrightarrow> valid_readings (sample_readings i n)"
  by (simp add: valid_readings_def sample_readings_def sample_moments)


lemma sample_run_id: "rd_run_id (sample_readings i n) = i"
  by (simp add: sample_readings_def)

lemma sample_run_fits: "run_can_be_inserted ''run1'' ''r1'' None created_database"
  by (simp add: run_can_be_inserted_def optional_in_def sample_rows empty_database_def)

lemma sample_never_crashes: "en_execute sample_engine c config \<noteq> Crashed e"
  by (simp add: sample_engine_def)


lemma sample_documents: "pd_documents sample_product = sample_codec"
  by (simp add: sample_product_def)

lemma created_history: "perform_all sample_product sample_comparison_codec [sample_create] empty_database = created_database"
  by (simp add: perform_all_def create_step)

end
