(* ===== verification/Store_Properties.thy ===== *)
theory Store_Properties
  imports Run_Samples
begin

text \<open>
  Properties of the product database under every sequence of commands: the history of each
  Strategy, the immutability of stored artifacts, optimistic concurrency and adoption.
\<close>

subsection \<open>Reachable databases\<close>

lemma perform_all_append: "perform_all pd k (cs @ cs') db = perform_all pd k cs' (perform_all pd k cs db)"
  by (simp add: perform_all_def)

lemma reachable_lineage: "lineage (perform_all pd k cs empty_database)"
  using artifacts.perform_all_kept [of empty_database pd k cs] lineage_empty by (simp add: lineage_kept_def)

lemma reachable_grows:
  "lineage db \<Longrightarrow> lineage (perform_all pd k cs db) \<and> grows db (perform_all pd k cs db)"
  using artifacts.perform_all_kept [of db pd k cs] by (simp add: lineage_kept_def)

lemma reachable_evidence: "evidence_ok (perform_all pd k cs empty_database)"
  using evidence.perform_all_kept [of empty_database pd k cs] evidence_empty by (simp add: evidence_kept_def)

lemma revisions_stay:
  assumes "grows db db'" "r \<in> set (db_revisions db)"
  shows "r \<in> set (db_revisions db')"
  using assms grown_member [of "(=)"] by (auto simp: grows_def)

text \<open>In a chain with distinct identifiers the last element is no one's parent.\<close>

lemma linked_parent:
  assumes "linked_from p rs" "r \<in> set rs" "rr_parent_revision_id r = Some x"
  shows "p = Some x \<or> x \<in> rr_id ` set (butlast rs)"
  using assms
proof (induction rs arbitrary: p)
  case (Cons y ys)
  show ?case
  proof (cases "r = y")
    case True
    with Cons.prems show ?thesis by simp
  next
    case False
    with Cons.prems have ys: "r \<in> set ys" "linked_from (Some (rr_id y)) ys" by auto
    then have "ys \<noteq> []" by auto
    with Cons.IH [OF ys(2,1) Cons.prems(3)] show ?thesis by auto
  qed
qed simp

lemma history_ids: "lineage db \<Longrightarrow> distinct (map rr_id (history db i))"
  unfolding lineage_def history_def by (simp add: distinct_map_filter)

lemma current_has_no_child:
  assumes db: "lineage db" and s: "s \<in> set (db_strategies db)" and r: "r \<in> set (db_revisions db)" "rr_strategy_id r = sr_id s"
  shows "rr_parent_revision_id r \<noteq> Some (sr_current_revision_id s)"
proof
  let ?h = "history db (sr_id s)"
  assume parent: "rr_parent_revision_id r = Some (sr_current_revision_id s)"
  have chain: "?h \<noteq> []" "linked_from None ?h" "rr_id (last ?h) = sr_current_revision_id s"
    using db s by (auto simp: lineage_def chain_of_def)
  have "r \<in> set ?h" using r by (simp add: history_def)
  from linked_parent [OF chain(2) this parent] have "rr_id (last ?h) \<in> rr_id ` set (butlast ?h)" using chain(3) by simp
  moreover have "distinct (map rr_id (butlast ?h @ [last ?h]))" using history_ids [OF db] chain(1) by simp
  ultimately show False by auto
qed

text \<open>C2: After any sequence of product commands, whatever the engine, the clocks and the callers
  answer, the Revisions of a Strategy, in the order they were stored, form one chain: the first has
  no parent, every other one's parent is the Revision before it, and the Strategy's current Revision
  is the last.\<close>

theorem revision_history_is_linear:
  assumes "s \<in> set (db_strategies (perform_all pd k cs empty_database))"
  shows "chain_of (perform_all pd k cs empty_database) s"
  using reachable_lineage assms by (auto simp: lineage_def)

theorem revision_history_is_linear_witness:
  "chain_of saved_database (sample_strategy_row\<lparr>sr_current_revision_id := ''r2'', sr_updated_at := timestamp (sample_time 2)\<rparr>)"
  using revision_history_is_linear
    [of "sample_strategy_row\<lparr>sr_current_revision_id := ''r2'', sr_updated_at := timestamp (sample_time 2)\<rparr>"
        sample_product sample_comparison_codec "[sample_create, sample_save]", unfolded sample_history]
  by (simp add: saved_database_def)

text \<open>C16: Stored artifacts are immutable. Whatever commands come later, Revisions, adoptions and
  evidence events stay as they are and new ones follow them; Candidates and Comparisons may change
  only their diagnostics; a Run keeps its identity and inputs, and once it has succeeded or failed
  nothing of it changes; an archived Strategy stays as it was archived.\<close>

theorem artifacts_are_immutable:
  assumes "r \<in> set (db_runs (perform_all pd k cs empty_database))" and "br_status r \<in> {Succeeded, Failed}"
  shows "grows (perform_all pd k cs empty_database) (perform_all pd k (cs @ later) empty_database) \<and>
    r \<in> set (db_runs (perform_all pd k (cs @ later) empty_database))"
proof -
  have grows: "grows (perform_all pd k cs empty_database) (perform_all pd k (cs @ later) empty_database)"
    unfolding perform_all_append using reachable_grows [OF reachable_lineage] by blast
  then obtain r' where "r' \<in> set (db_runs (perform_all pd k (cs @ later) empty_database))" "run_evolves r r'"
    using grown_member assms(1) by (fastforce simp: grows_def)
  with finished_run_kept [OF this(2) assms(2)] grows show ?thesis by simp
qed

theorem artifacts_are_immutable_witness:
  "grows executed_database (perform_all sample_product sample_comparison_codec [sample_save] executed_database) \<and>
    sample_run_row \<in> set (db_runs (perform_all sample_product sample_comparison_codec [sample_save] executed_database))"
  using artifacts_are_immutable
    [of sample_run_row sample_product sample_comparison_codec "[sample_create, sample_execute]" "[sample_save]",
     unfolded perform_all_append executed_history]
  by (simp add: executed_database_def sample_run_row_def)

text \<open>C12: After any sequence of product commands, a Run has Decision Evidence exactly when it
  succeeded, its events are numbered 1, 2, ... without a gap, and its result, error and times are
  present exactly as its status requires.\<close>

theorem evidence_belongs_to_succeeded_runs:
  assumes "r \<in> set (db_runs (perform_all pd k cs empty_database))"
  shows "run_row_ok (perform_all pd k cs empty_database) r"
  using reachable_evidence assms by (auto simp: evidence_ok_def)

theorem evidence_belongs_to_succeeded_runs_witness: "run_row_ok executed_database sample_run_row"
  using evidence_belongs_to_succeeded_runs
    [of sample_run_row sample_product sample_comparison_codec "[sample_create, sample_execute]", unfolded executed_history]
  by (simp add: executed_database_def)

subsection \<open>Saving\<close>

text \<open>A save whose expected parent is no longer the current Revision of an active Strategy
  raises StaleRevisionError with the current identifier and changes nothing.\<close>

theorem stale_save_is_rejected:
  assumes "validate_source k source = Inr c"
    and "strategy_row_at i db = Some row" "read_strategy row = Inr s" "sr_archived_at row = None"
    and "revision_row_at (sr_current_revision_id row) db = Some current_row" "read_revision k current_row = Inr current"
    and "expected \<noteq> sr_current_revision_id row"
  shows "save_revision k now r i expected source db = (Inl (Stale_revision (sr_current_revision_id row)), db)"
  using assms read_strategy_fields [OF assms(3)]
  by (simp add: save_revision_def abind_def query_def repo_append_revision_def transaction_def on_sqlite_def
      append_checks_def append_outcome_def append_response_def)

theorem stale_save_is_rejected_witness:
  "save_revision sample_codec (sample_time 3) ''r3'' ''s1'' ''r1'' (Object None ''2.0'') saved_database =
    (Inl (Stale_revision ''r2''), saved_database)"
  using stale_save_is_rejected
    [where k = sample_codec and source = "Object None ''2.0''" and c = "sample_document ''2.0''" and i = "''s1''"
      and db = saved_database and expected = "''r1''" and now = "sample_time 3" and r = "''r3''"
      and row = "sample_strategy_row\<lparr>sr_current_revision_id := ''r2'', sr_updated_at := timestamp (sample_time 2)\<rparr>"
      and current_row = "sample_revision_row ''r2'' (Some ''r1'') ''1.0'' 2"]
  by (simp add: append_eval document_eval store_eval sample_rows)


subsection \<open>Executions end\<close>

text \<open>C9: Whatever the engine answers short of an exception outside its contract, and whatever
  becomes of the evidence, an execution that can be recorded returns the Run as succeeded or
  failed, and the database says the same: no Run is left pending or running.\<close>

theorem every_execution_ends:
  assumes "run_can_be_inserted (rd_run_id rd) rid cand db" "run_codec_reads k" "valid_readings rd"
    and "run_preflight en c config = Inr p" "\<And>e. en_execute en c config \<noteq> Crashed e"
  shows "\<exists>x db'. create_and_execute_source k en rd rid cand c hash version config ms db = (Inr x, db') \<and>
    bk_id x = rd_run_id rd \<and> bk_status x \<in> {Succeeded, Failed} \<and> run_status_of db' (rd_run_id rd) = Some (bk_status x)"
  using assms by (rule execution_ends)

theorem every_execution_ends_witness:
  "\<exists>x db'. create_and_execute_source sample_run_codec sample_engine (sample_readings ''run1'' 3) ''r1'' None
      (sample_document ''0.5'') ''0.5'' ''v1'' sample_config 0 created_database = (Inr x, db') \<and>
    bk_id x = ''run1'' \<and> bk_status x \<in> {Succeeded, Failed} \<and> run_status_of db' ''run1'' = Some (bk_status x)"
  using every_execution_ends
    [of "sample_readings ''run1'' 3" "''r1''" None created_database sample_run_codec sample_engine "sample_document ''0.5''"
        sample_config None "''0.5''" "''v1''" 0]
  by (simp add: sample_codec_reads sample_readings_valid sample_answers sample_run_id sample_run_fits sample_never_crashes
      del: ex_simps)

end
