(* ===== verification/Candidate_Samples.thy ===== *)
theory Candidate_Samples
  imports Run_Samples
begin

text \<open>A Candidate is created from the executed Run and adopted; the databases this leaves.\<close>

definition sample_raise :: threshold_change where
  "sample_raise = sample_change\<lparr>th_expected_before := Dec False 5 (-1)\<rparr>"

definition sample_candidate_readings :: candidate_readings where
  "sample_candidate_readings = \<lparr>rn_candidate_id = ''c1'', rn_created = sample_time 4,
     rn_diagnostics = sample_candidate_diagnostics, rn_persisted = sample_candidate_diagnostics, rn_request_total_ms = 0,
     rn_run = sample_readings ''run2'' 5\<rparr>"

definition sample_propose :: command where
  "sample_propose = Create_candidate sample_candidate_readings ''run1'' sample_raise None"

definition sample_adopt :: command where
  "sample_adopt = Adopt_candidate (sample_time 6) ''r2'' ''c1'' ''r1''"

definition sample_candidate_row :: candidate_row where
  "sample_candidate_row =
     \<lparr>cr_id = ''c1'', cr_base_revision_id = ''r1'', cr_originating_run_id = Some ''run1'', cr_originating_decision_event_id = None,
      cr_change_json = ''{}'', cr_canonical_json = ''2.5'', cr_source_hash = ''2.5'', cr_schema_version = ''ruletrade.dev/strategy/v1'',
      cr_created_at = timestamp (sample_time 4), cr_diagnostics_json = ''{}''\<rparr>"

definition sample_candidate_run_row :: run_row where
  "sample_candidate_run_row =
     sample_run_row\<lparr>br_id := ''run2'', br_candidate_id := Some ''c1'', br_provenance_json := ''2.5'',
       br_created_at := timestamp (sample_time 5), br_started_at := Some (timestamp (sample_time 5)),
       br_completed_at := Some (timestamp (sample_time 5))\<rparr>"

definition sample_candidate_event_row :: event_row where
  "sample_candidate_event_row = sample_event_row\<lparr>er_run_id := ''run2''\<rparr>"

definition candidate_database :: database where
  "candidate_database = executed_database\<lparr>db_candidates := [sample_candidate_row],
     db_runs := [sample_run_row, sample_candidate_run_row], db_events := [sample_event_row, sample_candidate_event_row]\<rparr>"

definition sample_adoption_row :: adoption_row where
  "sample_adoption_row = \<lparr>ar_candidate_id = ''c1'', ar_strategy_id = ''s1'', ar_revision_id = ''r2'', ar_adopted_at = timestamp (sample_time 6)\<rparr>"

definition adopted_database :: database where
  "adopted_database = candidate_database
     \<lparr>db_strategies := [sample_strategy_row\<lparr>sr_current_revision_id := ''r2'', sr_updated_at := timestamp (sample_time 6)\<rparr>],
      db_revisions := [sample_revision_row ''r1'' None ''0.5'' 1, sample_revision_row ''r2'' (Some ''r1'') ''2.5'' 6],
      db_adoptions := [sample_adoption_row]\<rparr>"

lemma sample_candidate_event: "event_row_of sample_run_codec ''run2'' sample_collected = sample_candidate_event_row"
  by (simp add: event_row_of_def sample_event_row_def sample_run_codec_def one_text_def sample_collected_def event_id_def
      padded_numeral date_text_def sample_candidate_event_row_def digit_char_def char_of_def bit_0)

lemma sample_patch: "apply_filter_threshold (sample_document ''0.5'') sample_raise = Inr (sample_document ''2.5'')"
  by code_simp

lemma sample_v1: "sample_document t = V1 (v1_of (sample_document t))"
  by (simp add: sample_document_def v1_of_def)

lemma sample_documents_valid: "validate_source sample_codec (Parsed (sample_document t)) = Inr (sample_document t)"
  by (simp add: document_eval)

lemma sample_candidate_of:
  "candidate_of sample_product rn origin r change event (sample_document t) =
     Inr \<lparr>ca_id = rn_candidate_id rn, ca_base_revision_id = rv_id r, ca_originating_run_id = Some (bk_id origin),
           ca_originating_decision_event_id = event, ca_change = change, ca_canonical = v1_of (sample_document t),
           ca_source_hash = t, ca_schema_version = ''ruletrade.dev/strategy/v1'', ca_created_at = rn_created rn,
           ca_diagnostics = (rn_diagnostics rn)\<lparr>ci_canonical_bytes := 2\<rparr>\<rparr>"
  by (simp add: candidate_of_def sample_document_def v1_of_def sample_product_def sample_codec_def document_text_def
      api_version_def dget_def)

lemma sample_candidate_codecs:
  "read_json (ck_change (pd_candidates sample_product)) t = Inr sample_change"
  "ck_read_v1 (pd_candidates sample_product) t = Inr (v1_of (sample_document t))"
  "read_json (ck_diagnostics (pd_candidates sample_product)) t = Inr sample_candidate_diagnostics"
  "jc_write (ck_change (pd_candidates sample_product)) c = ''{}''"
  "jc_write (ck_diagnostics (pd_candidates sample_product)) d = ''{}''"
  "pd_runs sample_product = sample_run_codec" "pd_engine sample_product = sample_engine"
  "co_dump sample_codec (sample_document t) = t" "co_digest sample_codec (sample_document t) = t"
  by (simp_all add: sample_product_def one_text_def read_json_def py_to_store_def sample_codec_def document_text_def
      sample_document_def dget_def)

lemmas candidate_steps = create_candidate_def prepare_candidate_def get_run_def repo_get_run_def get_strategy_def
  require_strategy_def repo_get_strategy_def strategy_row_at_def read_strategy_def current_revision_of_def repo_get_revision_def
  check_evidence_target_def repo_create_candidate_def insert_candidate_def candidate_row_of_def repo_update_diagnostics_def
  update_candidates_def same_candidate_def create_and_execute_candidate_def

lemma propose_step: "perform sample_product sample_comparison_codec sample_propose executed_database = candidate_database"
  by (simp add: perform_def sample_propose_def sample_rows candidate_steps run_steps finish_steps store_eval sample_read_back sample_documents
      sample_patch sample_v1 [symmetric] sample_documents_valid sample_candidate_of sample_candidate_codecs
      sample_reads sample_writes sample_answers sample_candidate_event sample_event_row sample_event_fields sample_readings_def
      sample_candidate_readings_def sample_candidate_event_row_def sample_run_row_def executed_database_def candidate_database_def
      sample_candidate_row_def sample_candidate_run_row_def py_to_store_def)


lemmas adoption_steps = adopt_candidate_def check_adoption_def get_candidate_def repo_get_candidate_def read_candidate_def
  get_candidate_run_def repo_get_candidate_run_def adopt_candidate_revision_def repo_append_candidate_revision_def append_checks_def
  advance_strategy_def update_strategies_def insert_adoption_def advanced_def append_outcome_def append_response_def

lemma adopt_result:
  "adopt_candidate sample_product (sample_time 6) ''r2'' ''c1'' ''r1'' candidate_database =
    (Inr \<lparr>sv_created = True,
          sv_strategy = \<lparr>sg_id = ''s1'', sg_name = ''Trend'', sg_created_at = sample_time 1, sg_updated_at = sample_time 6,
                         sg_current_revision_id = ''r2'', sg_archived_at = None\<rparr>,
          sv_revision = new_revision sample_codec ''r2'' ''s1'' (Some ''r1'') (sample_document ''2.5'') (sample_time 6)\<rparr>,
     adopted_database)"
  by (simp add: sample_rows candidate_steps adoption_steps run_steps store_eval sample_read_back
      sample_documents sample_v1 [symmetric] sample_documents_valid sample_candidate_codecs sample_reads
      sample_run_row_def executed_database_def candidate_database_def adopted_database_def sample_adoption_row_def
      sample_candidate_row_def sample_candidate_run_row_def py_to_store_def)

lemma adopt_step: "perform sample_product sample_comparison_codec sample_adopt candidate_database = adopted_database"
  using adopt_result by (simp add: perform_def sample_adopt_def)

lemma adopted_history:
  "perform_all sample_product sample_comparison_codec [sample_create, sample_execute, sample_propose, sample_adopt] empty_database =
     adopted_database"
  by (simp add: perform_all_def create_step execute_step propose_step adopt_step)


lemma candidate_history:
  "perform_all sample_product sample_comparison_codec [sample_create, sample_execute, sample_propose] empty_database = candidate_database"
  by (simp add: perform_all_def create_step execute_step propose_step)

end
