(* ===== verification/Save_Properties.thy ===== *)
theory Save_Properties
  imports Store_Properties Candidate_Samples
begin

text \<open>
  Saving and adopting: what a save that created a Revision did, that it cannot be lost to a later
  save from the same parent, that it reads back as it was returned, and that a Candidate is
  adopted once.
\<close>

subsection \<open>A save that created a Revision\<close>

lemma append_checks_early:
  "append_checks k i expected text db = Inr (Inl a) \<Longrightarrow> ap_status a \<noteq> Created"
  by (auto simp: append_checks_def append_outcome_def ebind_eq_Inr split: option.splits if_splits)

lemma append_response_created: "append_response m a = Inr resp \<Longrightarrow> sv_created resp \<longleftrightarrow> ap_status a = Created"
  by (auto simp: append_response_def split: if_splits option.splits)

lemma created_save:
  assumes "save_revision k now r i expected source db = (Inr resp, db1)" "sv_created resp"
  obtains c s row where "validate_source k source = Inr c" "strategy_row_at i db = Some row" "read_strategy row = Inr s"
    "sr_archived_at row = None" "sr_current_revision_id row = expected"
    "advance_strategy i (new_revision k r i (Some expected) c now) (co_dump k c) db = Inr db1"
    "sv_strategy resp = s\<lparr>sg_current_revision_id := r, sg_updated_at := now\<rparr>"
    "sv_revision resp = new_revision k r i (Some expected) c now"
proof -
  obtain c where c: "validate_source k source = Inr c"
    using assms(1) by (cases "validate_source k source") (auto simp: save_revision_def abind_def query_def)
  define new where "new = new_revision k r i (Some expected) c now"
  obtain a where a: "repo_append_revision k i expected new (co_dump k c) db = (Inr a, db1)"
    and resp: "append_response ''Archived Strategies cannot accept new Revisions.'' a = Inr resp"
    using assms(1) c by (auto simp: save_revision_def abind_def query_def new_def split: prod.splits sum.splits)
  have created: "ap_status a = Created" using append_response_created [OF resp] assms(2) by simp
  obtain x where x: "append_checks k i expected (co_dump k c) db = Inr x"
    "(case x of Inl early \<Rightarrow> Inr (early, db)
      | Inr s \<Rightarrow> ebind (advance_strategy i new (co_dump k c) db) (\<lambda>db1. ebind (commit db1) (\<lambda>db2. Inr (advanced s new, db2)))) = Inr (a, db1)"
    using a by (cases rule: transaction_cases [of "Persistence_error ''Could not save Strategy Revision.''"
          "\<lambda>db. ebind (append_checks k i expected (co_dump k c) db) (\<lambda>x. case x of Inl early \<Rightarrow> Inr (early, db)
             | Inr s \<Rightarrow> ebind (advance_strategy i new (co_dump k c) db) (\<lambda>db1. ebind (commit db1) (\<lambda>db2. Inr (advanced s new, db2))))" db])
      (auto simp: repo_append_revision_def ebind_eq_Inr)
  have "\<exists>s. x = Inr s" using x created append_checks_early [of k i expected "co_dump k c" db] by (cases x) auto
  then obtain s where s: "x = Inr s" ..
  with x have adv: "advance_strategy i new (co_dump k c) db = Inr db1" "a = advanced s new"
    by (auto simp: ebind_eq_Inr dest!: commit_InrD)
  from x(1) s have "append_checks k i expected (co_dump k c) db = Inr (Inr s)" by simp
  then obtain row where row: "strategy_row_at i db = Some row" "read_strategy row = Inr s" "sr_archived_at row = None"
    "sr_current_revision_id row = expected" by (rule append_checks_pass)
  have "sv_strategy resp = s\<lparr>sg_current_revision_id := r, sg_updated_at := now\<rparr>" "sv_revision resp = new"
    using resp adv(2) by (auto simp: append_response_def advanced_def append_outcome_def new_def new_revision_def)
  with c row adv(1) show thesis by (intro that) (simp_all add: new_def)
qed

lemma advance_rows:
  "advance_strategy i new text db = Inr db1 \<Longrightarrow>
    rv_id new \<notin> set (revision_ids db) \<and>
    db1 = db\<lparr>db_revisions := db_revisions db @ [revision_row_of new text],
             db_strategies := map (\<lambda>s. if sr_id s = i then s\<lparr>sr_current_revision_id := rv_id new,
                 sr_updated_at := timestamp (rv_created_at new)\<rparr> else s) (db_strategies db)\<rparr>"
  by (auto simp: advance_strategy_def ebind_eq_Inr insert_revision_Inr update_strategies_def update_rows_def revision_row_of_def)

subsection \<open>No lost update\<close>

lemma save_needs_current:
  assumes "\<And>row. strategy_row_at i db = Some row \<Longrightarrow> sr_current_revision_id row \<noteq> expected"
  shows "\<exists>e. save_revision k now r i expected source db = (Inl e, db)"
proof (cases "validate_source k source")
  case (Inl e)
  then show ?thesis by (simp add: save_revision_def abind_def query_def)
next
  case (Inr c)
  define new where "new = new_revision k r i (Some expected) c now"
  have early: "ap_status a \<in> {Not_found, Archived, Stale}" if "append_checks k i expected t db = Inr (Inl a)" for a t
    using that assms
    by (auto simp: append_checks_def append_outcome_def ebind_eq_Inr split: option.splits if_splits dest!: read_strategy_fields)
  have failing: "\<exists>e. append_response m a = Inl e" if "ap_status a \<in> {Not_found, Archived, Stale}" for a m
    using that by (auto simp: append_response_def split: option.splits)
  show ?thesis
  proof (cases "append_checks k i expected (co_dump k c) db")
    case failed: (Inl e)
    have "\<exists>e'. repo_append_revision k i expected new (co_dump k c) db = (Inl e', db)"
      using failed by (cases e) (simp_all add: repo_append_revision_def transaction_def on_sqlite_def ebind_def)
    then show ?thesis using Inr by (auto simp: save_revision_def abind_def query_def new_def)
  next
    case passed: (Inr x)
    have "\<nexists>s. x = Inr s" using append_checks_pass [of k i expected "co_dump k c" db] passed assms by metis
    then obtain a where a: "x = Inl a" by (cases x) auto
    with passed have "repo_append_revision k i expected new (co_dump k c) db = (Inr a, db)"
      by (simp add: repo_append_revision_def transaction_def on_sqlite_def ebind_def)
    then show ?thesis
      using Inr failing [OF early [of "co_dump k c"]] passed a by (auto simp: save_revision_def abind_def query_def new_def)
  qed
qed

text \<open>C4: No update is lost: once a save from a parent has created a Revision, every later save
  from the same parent, after any commands, by anyone and with any source, fails and changes
  nothing.\<close>

theorem no_lost_update:
  assumes "save_revision (pd_documents pd) now r i expected source (perform_all pd k cs empty_database) = (Inr resp, db1)"
    and "sv_created resp"
  shows "\<exists>e. save_revision (pd_documents pd) now' r' i expected source' (perform_all pd k later db1) =
    (Inl e, perform_all pd k later db1)"
proof -
  let ?db = "perform_all pd k cs empty_database" and ?db2 = "perform_all pd k later db1"
  obtain c where adv: "advance_strategy i (new_revision (pd_documents pd) r i (Some expected) c now) (co_dump (pd_documents pd) c) ?db = Inr db1"
    using created_save [OF assms] by metis
  have "db1 = perform_all pd k (cs @ [Save_revision now r i expected source]) empty_database"
    using assms(1) by (simp add: perform_all_append) (simp add: perform_all_def perform_def)
  then have lineage: "lineage db1" "lineage ?db2" "grows db1 ?db2" using reachable_lineage reachable_grows by metis+
  let ?new = "revision_row_of (new_revision (pd_documents pd) r i (Some expected) c now) (co_dump (pd_documents pd) c)"
  have "?new \<in> set (db_revisions ?db2)" using advance_rows [OF adv] revisions_stay [OF lineage(3)] by simp
  moreover have "rr_strategy_id ?new = i" "rr_parent_revision_id ?new = Some expected"
    by (simp_all add: revision_row_of_def artifacts.new_revision_simps)
  ultimately have "sr_current_revision_id row \<noteq> expected" if "strategy_row_at i ?db2 = Some row" for row
    using that current_has_no_child [OF lineage(2), of row ?new] strategy_row_at_iff [OF lineage(2)] by auto
  then show ?thesis by (rule save_needs_current)
qed

theorem no_lost_update_witness:
  "\<exists>e. save_revision sample_codec (sample_time 5) ''r3'' ''s1'' ''r1'' (Object None ''2.0'') saved_database = (Inl e, saved_database)"
  using no_lost_update
    [of sample_product _ _ _ _ _ sample_comparison_codec "[sample_create]" _ _ "sample_time 5" "''r3''" "Object None ''2.0''" "[]",
     unfolded sample_documents created_history, OF save_result]
  by (simp add: perform_all_def)


subsection \<open>A saved Revision reads back\<close>

lemma parse_timestamp_again: "valid_moment m \<Longrightarrow> read_time (timestamp m) = Inr m"
  by (simp add: read_time_def parse_timestamp_timestamp)

lemma find_updated:
  "select_one (\<lambda>s. sr_id s = i) rows = Some row \<Longrightarrow> (\<And>s. sr_id (f s) = sr_id s) \<Longrightarrow>
    select_one (\<lambda>s. sr_id s = i) (map (\<lambda>s. if sr_id s = i then f s else s) rows) = Some (f row)"
  by (induction rows) (auto split: if_splits)

text \<open>C36: What a creating save returned is what reading gives: the Revision by its identifiers, and
  the Strategy with that Revision as its current one.\<close>

theorem save_then_get:
  assumes "save_revision k now r i expected source db = (Inr resp, db1)" "sv_created resp" "valid_moment now"
    and "\<And>c. validate_source k source = Inr c \<Longrightarrow> load_canonical k (co_dump k c) = Inr c"
  shows "get_revision k i r db1 = Inr (sv_revision resp) \<and>
    get_strategy k i db1 = Inr \<lparr>sx_strategy = sv_strategy resp, sx_current_revision = sv_revision resp\<rparr>"
proof -
  obtain c s row where c: "validate_source k source = Inr c" and row: "strategy_row_at i db = Some row" "read_strategy row = Inr s"
    and adv: "advance_strategy i (new_revision k r i (Some expected) c now) (co_dump k c) db = Inr db1"
    and resp: "sv_strategy resp = s\<lparr>sg_current_revision_id := r, sg_updated_at := now\<rparr>" "sv_revision resp = new_revision k r i (Some expected) c now"
    using created_save [OF assms(1,2)] by metis
  define new where "new = new_revision k r i (Some expected) c now"
  define f where "f = (\<lambda>s. s\<lparr>sr_current_revision_id := r, sr_updated_at := timestamp now\<rparr> :: strategy_row)"
  note rows = advance_rows [OF adv, folded new_def]
  have fields: "rv_id new = r" "rv_strategy_id new = i" "rv_canonical new = c" "rv_created_at new = now"
    by (simp_all add: new_def new_revision_def)
  have f_new: "f = (\<lambda>s. s\<lparr>sr_current_revision_id := rv_id new, sr_updated_at := timestamp (rv_created_at new)\<rparr>)"
    by (simp add: f_def fields)
  have "strategy_row_at i db1 = Some (f row)"
    using find_updated [of i "db_strategies db" row f] row(1) rows by (simp add: strategy_row_at_def f_new cong: if_cong)
  moreover have "read_strategy (f row) = Inr (s\<lparr>sg_current_revision_id := r, sg_updated_at := now\<rparr>)"
    using row(2) assms(3) by (auto simp: read_strategy_def ebind_eq_Inr f_def parse_timestamp_again)
  ultimately have strategy: "require_strategy i db1 = Inr (sv_strategy resp)"
    using resp(1) by (simp add: require_strategy_def repo_get_strategy_def eopt_def)
  have "select_one (\<lambda>x. rr_strategy_id x = i \<and> rr_id x = r) (db_revisions db) = None"
    using rows fields by (auto simp: select_one_None image_iff)
  then have "select_one (\<lambda>x. rr_strategy_id x = i \<and> rr_id x = r) (db_revisions db1) = Some (revision_row_of new (co_dump k c))"
    using rows fields by (simp add: select_one_append revision_row_of_def)
  moreover have "read_revision k (revision_row_of new (co_dump k c)) = Inr new"
    using assms(4) [OF c] assms(3) by (simp add: read_revision_def revision_row_of_def fields parse_timestamp_again ebind_def new_def new_revision_def)
  ultimately have revision: "repo_get_revision k i r db1 = Inr (Some (sv_revision resp))"
    using resp(2) by (simp add: repo_get_revision_def eopt_def new_def)
  show ?thesis
    using strategy revision resp(1)
    by (simp add: get_revision_def get_strategy_def current_revision_of_def found_revision_def)
qed

theorem save_then_get_witness:
  "get_revision sample_codec ''s1'' ''r2'' saved_database =
     Inr (new_revision sample_codec ''r2'' ''s1'' (Some ''r1'') (sample_document ''1.0'') (sample_time 2))"
  using save_then_get [OF save_result] by (simp add: sample_moments document_eval)


subsection \<open>Adoption\<close>

lemma candidate_identity: "check_adoption pd c expected db = Inr (candidate, i, source) \<Longrightarrow> ca_id candidate = c"
  by (auto simp: check_adoption_def get_candidate_def repo_get_candidate_def read_candidate_def eopt_def ebind_eq_Inr invalid_change_def
      Let_def dest!: select_one_SomeD split: option.splits if_splits)

lemma adopt_candidate_cases:
  assumes "adopt_candidate pd now r c expected db = (x, db')"
  obtains (refused) e where "x = Inl e" "db' = db"
  | (appended) i source where "adopt_candidate_revision (pd_documents pd) now r c i expected source db = (x, db')"
proof (cases "check_adoption pd c expected db")
  case (Inl e)
  then show thesis using assms by (auto simp: adopt_candidate_def abind_def query_def intro: refused)
next
  case (Inr y)
  obtain candidate i source where y: "y = (candidate, i, source)" by (cases y)
  with candidate_identity [of pd c expected db candidate i source] Inr assms appended show thesis
    by (auto simp: adopt_candidate_def abind_def query_def)
qed

text \<open>The response of an adoption that found an earlier one, and the row one leaves that found none.\<close>

lemma adopted_again:
  assumes "select_one (\<lambda>a. ar_candidate_id a = c) (db_adoptions db) = Some a"
    and "adopt_candidate_revision k now r c i expected source db = (x, db')"
  shows "db' = db \<and> (\<forall>resp. x = Inr resp \<longrightarrow> \<not> sv_created resp \<and> rv_id (sv_revision resp) = ar_revision_id a)"
proof (cases "validate_source k source")
  case (Inl e)
  then show ?thesis using assms(2) by (auto simp: adopt_candidate_revision_def abind_def query_def)
next
  case (Inr s)
  define new where "new = new_revision k r i (Some expected) s now"
  have early: "ap_status y = Adopted \<and> (\<exists>s r. ap_strategy y = Some s \<and> ap_revision y = Some r \<and> rv_id r = ar_revision_id a)"
    if "adopted_before k a i db = Inr y" for y
    using that by (auto simp: adopted_before_def append_outcome_def ebind_eq_Inr read_revision_def
        split: if_splits option.splits dest!: select_one_SomeD)
  obtain z where z: "repo_append_candidate_revision k c i expected new (co_dump k s) db = (z, db)"
    "\<And>y. z = Inr y \<Longrightarrow> adopted_before k a i db = Inr y"
  proof (cases "adopted_before k a i db")
    case failed: (Inl e)
    then have "\<exists>e'. repo_append_candidate_revision k c i expected new (co_dump k s) db = (Inl e', db)"
      using assms(1) by (cases e) (simp_all add: repo_append_candidate_revision_def transaction_def on_sqlite_def ebind_def)
    then show thesis using that by blast
  next
    case found: (Inr y)
    then show thesis
      using assms(1) by (intro that [of "Inr y"]) (simp_all add: repo_append_candidate_revision_def transaction_def on_sqlite_def ebind_def)
  qed
  show ?thesis
  proof (cases z)
    case failed: (Inl e)
    then show ?thesis using assms(2) Inr z(1) by (auto simp: adopt_candidate_revision_def abind_def query_def new_def)
  next
    case found: (Inr y)
    from early [OF z(2) [OF found]] show ?thesis
      using assms(2) Inr z(1) found
      by (auto simp: adopt_candidate_revision_def abind_def query_def new_def append_response_def)
  qed
qed

lemma created_adoption:
  assumes "adopt_candidate_revision k now r c i expected source db = (Inr resp, db')" "sv_created resp"
  shows "\<exists>a \<in> set (db_adoptions db'). ar_candidate_id a = c \<and> ar_revision_id a = rv_id (sv_revision resp)"
proof -
  obtain s where s: "validate_source k source = Inr s"
    using assms(1) by (cases "validate_source k source") (auto simp: adopt_candidate_revision_def abind_def query_def)
  define new where "new = new_revision k r i (Some expected) s now"
  obtain y where y: "repo_append_candidate_revision k c i expected new (co_dump k s) db = (Inr y, db')"
    and resp: "append_response ''Archived Strategies cannot accept a Candidate.'' y = Inr resp"
    using assms(1) s by (auto simp: adopt_candidate_revision_def abind_def query_def new_def split: prod.splits sum.splits)
  have created: "ap_status y = Created" using append_response_created [OF resp] assms(2) by simp
  have none: "select_one (\<lambda>a. ar_candidate_id a = c) (db_adoptions db) = None"
    using adopted_again [OF _ assms(1)] assms(2) by (cases "select_one (\<lambda>a. ar_candidate_id a = c) (db_adoptions db)") auto
  let ?a = "\<lparr>ar_candidate_id = c, ar_strategy_id = i, ar_revision_id = rv_id new, ar_adopted_at = timestamp (rv_created_at new)\<rparr>"
  obtain x where x: "append_checks k i expected (co_dump k s) db = Inr x"
    "(case x of Inl early \<Rightarrow> Inr (early, db)
      | Inr s' \<Rightarrow> ebind (advance_strategy i new (co_dump k s) db) (\<lambda>db1. ebind (insert_adoption ?a db1)
          (\<lambda>db2. ebind (commit db2) (\<lambda>db3. Inr (advanced s' new, db3))))) = Inr (y, db')"
    using y none by (cases rule: transaction_cases [of "Persistence_error ''Could not adopt Candidate as a Strategy Revision.''"
          "\<lambda>db. case select_one (\<lambda>a. ar_candidate_id a = c) (db_adoptions db) of
              None \<Rightarrow> ebind (append_checks k i expected (co_dump k s) db) (\<lambda>x. case x of Inl early \<Rightarrow> Inr (early, db)
                | Inr s' \<Rightarrow> ebind (advance_strategy i new (co_dump k s) db) (\<lambda>db1. ebind (insert_adoption ?a db1)
                   (\<lambda>db2. ebind (commit db2) (\<lambda>db3. Inr (advanced s' new, db3)))))
            | Some a \<Rightarrow> ebind (adopted_before k a i db) (\<lambda>early. Inr (early, db))" db])
      (auto simp: repo_append_candidate_revision_def ebind_eq_Inr)
  have "\<exists>s'. x = Inr s'" using x created append_checks_early [of k i expected "co_dump k s" db] by (cases x) auto
  then obtain s' where "x = Inr s'" ..
  with x obtain db1 where "insert_adoption ?a db1 = Inr db'" "y = advanced s' new"
    by (auto simp: ebind_eq_Inr dest!: commit_InrD)
  then have "?a \<in> set (db_adoptions db')" "sv_revision resp = new"
    using insert_adoption_InrD [of ?a db1 db'] resp by (auto simp: append_response_def advanced_def append_outcome_def)
  then show ?thesis by (intro bexI [of _ ?a]) simp_all
qed



end
