(* ===== verification/Evidence_Properties.thy ===== *)
theory Evidence_Properties
  imports Evidence_Collector
begin

text \<open>
  What reading a log guarantees: which exceptions it can raise, and the consistency of the events
  it returns.
\<close>

subsection \<open>The exceptions a record can raise\<close>

definition documented :: "'a eres \<Rightarrow> bool" where
  "documented m \<longleftrightarrow> (\<forall>e. m = Inl (Raised e) \<longrightarrow> e = Key_error \<or> is_value_error e \<or> e = Invalid_operation)"

definition safe :: "'a reader \<Rightarrow> bool" where
  "safe r \<longleftrightarrow> (\<forall>d. documented (r d))"

named_theorems safe_intros

lemma documented_values [safe_intros]:
  "documented (Inr x)" "documented (Inl (Contract m))" "documented (Inl (Raised (Value_error s)))"
  "documented (Inl (Raised Key_error))"
  by (simp_all add: documented_def)

lemma documented_ebind [safe_intros]: "documented m \<Longrightarrow> (\<And>x. documented (f x)) \<Longrightarrow> documented (ebind m f)"
  by (cases m) (auto simp: documented_def)

lemma documented_emap [safe_intros]: "(\<And>x. documented (f x)) \<Longrightarrow> documented (emap f xs)"
  by (induction xs) (auto intro!: safe_intros)

lemma documented_emap_st: "(\<And>x d. documented (f x d)) \<Longrightarrow> documented (emap_st f xs d)"
  by (induction xs arbitrary: d) (auto intro!: safe_intros split: prod.splits)

lemma documented_raised: "(\<And>e. m = Inl e \<Longrightarrow> e = Key_error \<or> is_value_error e \<or> e = Invalid_operation) \<Longrightarrow> documented (raised m)"
  by (cases m) (auto simp: raised_def documented_def)

lemma documented_if [safe_intros]: "(b \<Longrightarrow> documented m) \<Longrightarrow> (\<not> b \<Longrightarrow> documented n) \<Longrightarrow> documented (if b then m else n)"
  by simp

lemma documented_case_prod [safe_intros]: "(\<And>a b. documented (f a b)) \<Longrightarrow> documented (case p of (a, b) \<Rightarrow> f a b)"
  by (cases p) simp

lemma documented_case_option [safe_intros]:
  "documented m \<Longrightarrow> (\<And>x. documented (f x)) \<Longrightarrow> documented (case x of None \<Rightarrow> m | Some y \<Rightarrow> f y)"
  by (cases x) simp_all

lemma documented_texts [safe_intros]:
  "documented (decimal_of s)" "documented (int_of s)" "documented (date_of s)"
  by (auto simp: decimal_of_def int_of_def date_of_def python_decimal_def python_int_def parse_date_def Let_def
      intro!: documented_raised split: if_splits option.splits prod.splits)

lemma documented_helpers [safe_intros]:
  "documented (literal cs s)" "documented (checked b x)" "documented (entry_of c item)" "documented (bool_of s)"
  "documented (object_of j)"
  by (auto simp: literal_def checked_def entry_of_def bool_of_def object_of_def intro!: safe_intros split: option.splits json.splits)

lemma documented_more [safe_intros]:
  "documented (optional_date s)" "documented (optional_int s)" "documented (finite_value d)" "documented (finite_map m)"
  "documented (observed_value s)" "documented (finite_option x)" "documented (comparator s)" "documented (schedule_of s)"
  "documented (phase_of s)" "documented (stop_of t)" "documented (clause_of s)" "documented (evaluation_of b xs ys z)"
  "documented (outcome_of xs ranks ys stops s)"
  by (auto simp: optional_date_def optional_int_def finite_value_def finite_map_def observed_value_def finite_option_def
      comparator_def schedule_of_def phase_of_def stop_of_def clause_of_def evaluation_of_def outcome_of_def
      intro!: safe_intros split: option.splits prod.splits)

lemma documented_map_field [safe_intros]: "(\<And>s. documented (f s)) \<Longrightarrow> documented (map_field f v)"
  unfolding map_field_def by (auto intro!: safe_intros split: prod.splits)

lemma documented_maps [safe_intros]:
  "documented (decimal_map s)" "documented (date_map s)" "documented (int_map s)" "documented (string_map s)"
  unfolding decimal_map_def date_map_def int_map_def string_map_def by (intro safe_intros)+

lemma safe_rbind [safe_intros]: "safe m \<Longrightarrow> (\<And>x. safe (f x)) \<Longrightarrow> safe (rbind m f)"
  unfolding safe_def rbind_def by (auto intro!: documented_ebind split: prod.splits)

lemma safe_rlift [safe_intros]: "documented m \<Longrightarrow> safe (rlift m)"
  unfolding safe_def rlift_def by (auto intro!: safe_intros)

lemma safe_pops [safe_intros]:
  "safe (pop_field k)" "safe (pop_field_or k x g)" "safe (peek_field k)" "safe (require b s)"
  unfolding safe_def pop_field_def pop_field_or_def peek_field_def require_def rlift_def
  by (auto intro!: safe_intros split: option.splits)

lemma safe_pop_as [safe_intros]: "(\<And>s. documented (f s)) \<Longrightarrow> safe (pop_as f k)"
  unfolding pop_as_def by (intro safe_intros) simp

lemma safe_if [safe_intros]: "(b \<Longrightarrow> safe m) \<Longrightarrow> (\<not> b \<Longrightarrow> safe n) \<Longrightarrow> safe (if b then m else n)"
  by simp

lemma safe_case_option [safe_intros]:
  "safe m \<Longrightarrow> (\<And>x. safe (f x)) \<Longrightarrow> safe (case x of None \<Rightarrow> m | Some y \<Rightarrow> f y)"
  by (cases x) simp_all

lemma safe_payload [safe_intros]:
  assumes "\<And>s. documented (json_object loads s)"
  shows "safe (read_payload loads kind version)"
  unfolding read_payload_def read_value_condition_def read_predicate_def read_filter_def read_selection_def
    read_outcomes_def read_random_selection_def read_fallback_def read_final_selection_def read_cooldown_def
    read_state_mutation_def read_snapshot_refresh_def read_snapshot_usage_def read_sleeve_def read_final_targets_def Let_def
  by (intro safe_intros assms)

lemma safe_source: "safe (read_source role)"
  unfolding read_source_def by (intro safe_intros)

lemma safe_sources [safe_intros]: "safe read_sources"
proof -
  have "documented (read_source role d)" for role d
    using safe_source by (simp add: safe_def)
  then show ?thesis
    unfolding safe_def read_sources_def
    by (intro allI documented_ebind documented_emap_st documented_case_prod documented_values)
qed

lemma safe_record_body:
  assumes "\<And>s. documented (json_object loads s)"
  shows "safe (record_body loads version)"
proof -
  have "safe (\<lambda>d. if d \<noteq> [] then Inl (Contract c) else ebind (checked b n) (\<lambda>n. ebind (phase_of ph) (\<lambda>ph. Inr (f n ph, d))))" for c b n ph f
    unfolding safe_def by (intro allI safe_intros)
  then show ?thesis
    unfolding record_body_def by (intro safe_intros assms)
qed

lemma record_raises_contract:
  assumes "\<And>s. documented (json_object loads s)" and "record_of loads d version = Inl e"
  shows "\<exists>m. e = Contract m"
proof -
  have "documented (record_body loads version d)"
    using safe_record_body [OF assms(1)] by (simp add: safe_def)
  then show ?thesis
    using assms(2) by (cases e) (auto simp: record_of_def translated_def documented_def ebind_eq_Inl split: sum.splits evidence_error.splits if_splits)
qed

lemma add_token_error: "add_token t d = Inl e \<Longrightarrow> \<exists>m. e = Contract m"
  by (auto simp: add_token_def Let_def split: option.splits prod.splits if_splits)

lemma fields_error: "fields_of s = Inl e \<Longrightarrow> \<exists>m. e = Contract m"
proof -
  have "efold add_token ts d = Inl e \<Longrightarrow> \<exists>m. e = Contract m" for ts d
    by (induction ts arbitrary: d) (auto simp: ebind_eq_Inl dest: add_token_error)
  then show "fields_of s = Inl e \<Longrightarrow> \<exists>m. e = Contract m" by (simp add: fields_of_def)
qed

text \<open>C25: Whatever a log holds, reading its evidence raises only DecisionEvidenceError: a missing
  field, a number or date that does not parse, a text outside a fixed list, malformed JSON and a
  violated contract all surface as that one class, which the Run service turns into a failed Run.
  The hypothesis is the documented behaviour of json.loads, which raises a ValueError.\<close>

theorem log_errors_are_contract_errors:
  assumes "\<And>s e. loads s = Inl e \<Longrightarrow> is_value_error e"
    and "collect_decision_evidence loads log_text = Inl e"
  shows "\<exists>m. e = Contract m"
proof -
  have json: "documented (json_object loads s)" for s
    using assms(1) [of s] by (cases "loads s") (auto simp: json_object_def raised_def documented_def)
  have "emap (\<lambda>(version, rest). ebind (fields_of rest) (\<lambda>d. record_of loads d version)) xs = Inl e \<Longrightarrow> \<exists>m. e = Contract m" for xs
    by (induction xs) (auto simp: ebind_eq_Inl dest: fields_error record_raises_contract [OF json])
  then show ?thesis
    using assms(2) by (auto simp: collect_decision_evidence_def collect_lines_def ebind_eq_Inl split: if_splits)
qed

subsection \<open>What collected events satisfy\<close>

lemma rbind_eq_Inr: "rbind m f d = Inr y \<longleftrightarrow> (\<exists>x d'. m d = Inr (x, d') \<and> f x d' = Inr y)"
  by (auto simp: rbind_def ebind_eq_Inr split: prod.splits)

lemma rlift_eq_Inr: "rlift m d = Inr (x, d') \<longleftrightarrow> m = Inr x \<and> d' = d"
  by (auto simp: rlift_def ebind_eq_Inr)

lemma dget_dpop: "dget (dpop k d) x = (if x = k then None else dget d x)"
  unfolding dget_def dpop_def by (induction d) auto

lemma pop_field_eq_Inr: "pop_field k d = Inr (v, d') \<longleftrightarrow> dget d k = Some v \<and> d' = dpop k d"
  by (auto simp: pop_field_def split: option.splits)

lemma peek_field_eq_Inr: "peek_field k d = Inr (v, d') \<longleftrightarrow> dget d k = Some v \<and> d' = d"
  by (auto simp: peek_field_def split: option.splits)

lemma require_eq_Inr: "require b s d = Inr (u, d') \<longleftrightarrow> b \<and> d' = d"
  by (auto simp: require_def rlift_eq_Inr split: if_splits)

lemma pop_as_eq_Inr: "pop_as f k d = Inr (x, d') \<longleftrightarrow> (\<exists>v. dget d k = Some v \<and> f v = Inr x \<and> d' = dpop k d)"
  by (auto simp: pop_as_def rbind_eq_Inr pop_field_eq_Inr rlift_eq_Inr)

lemmas reader_eq_Inr = rbind_eq_Inr rlift_eq_Inr pop_field_eq_Inr peek_field_eq_Inr require_eq_Inr pop_as_eq_Inr

lemma checked_eq_Inr: "checked b x = Inr y \<longleftrightarrow> b \<and> y = x"
  by (auto simp: checked_def)

lemma outcome_of_Inr:
  "outcome_of present ranks primary stops a = Inr x \<Longrightarrow>
    ao_asset x = a \<and> dget ranks a = Some (ao_rank x) \<and> ao_signal_present x = (a \<in> set present) \<and>
    ao_primary_selected x = (a \<in> set primary)"
  by (auto simp: outcome_of_def ebind_eq_Inr checked_eq_Inr split: option.splits)

definition outcomes_agree :: "selection_event \<Rightarrow> bool" where
  "outcomes_agree x \<longleftrightarrow>
     (\<exists>os n. xe_asset_outcomes x = Some os \<and> xe_required_count x = Some n \<and>
        map ao_asset os = xe_ranked x \<and> map ao_rank os = map int [1 ..< length os + 1] \<and>
        set (xe_candidates x) = ao_asset ` {y \<in> set os. ao_signal_present y} \<and>
        set (xe_primary_selected x) \<subseteq> set (xe_candidates x) \<and> int (length (xe_candidates x)) \<le> n)"

lemma outcomes_of_ranked:
  assumes os: "emap (outcome_of present ranks primary stops) ranked = Inr os"
    and ranks: "map (dget ranks) ranked = map (\<lambda>i. Some (int i)) [1 ..< length ranked + 1]"
    and present: "set present \<subseteq> set ranked"
  shows "map ao_asset os = ranked" "map ao_rank os = map int [1 ..< length os + 1]"
    "set present = ao_asset ` {y \<in> set os. ao_signal_present y}"
proof -
  have rel: "list_all2 (\<lambda>a x. ao_asset x = a \<and> dget ranks a = Some (ao_rank x) \<and> ao_signal_present x = (a \<in> set present)) ranked os"
    using os unfolding emap_eq_Inr_iff by (rule list_all2_mono) (use outcome_of_Inr in fast)
  then show assets: "map ao_asset os = ranked"
    by (induction rule: list_all2_induct) simp_all
  have "map (Some \<circ> ao_rank) os = map (dget ranks) ranked"
    using rel by (induction rule: list_all2_induct) simp_all
  also have "\<dots> = map Some (map int [1 ..< length os + 1])"
    using ranks emap_length [OF os] by (simp add: comp_def)
  finally show "map ao_rank os = map int [1 ..< length os + 1]"
    by (metis (no_types, lifting) list.inj_map_strong list.map_comp option.inject)
  have present_iff: "ao_signal_present x = (ao_asset x \<in> set present)" if "x \<in> set os" for x
    using rel that by (auto simp: list_all2_conv_all_nth in_set_conv_nth)
  have "set ranked = ao_asset ` set os" using assets by (metis list.set_map)
  then show "set present = ao_asset ` {y \<in> set os. ao_signal_present y}"
    using present present_iff by (auto simp: image_iff) blast
qed

lemma read_outcomes_agree:
  assumes "read_outcomes n d = Inr (os, d')"
  obtains r c p where "dget d ''ranked'' = Some r" "dget d ''candidates'' = Some c" "dget d ''primary_selected'' = Some p"
    "dget d' ''ranked'' = Some r" "dget d' ''candidates'' = Some c" "dget d' ''primary_selected'' = Some p"
    "map ao_asset os = symbols_of r" "map ao_rank os = map int [1 ..< length os + 1]"
    "set (symbols_of c) = ao_asset ` {y \<in> set os. ao_signal_present y}"
    "set (symbols_of p) \<subseteq> set (symbols_of c)" "int (length (symbols_of c)) \<le> n"
proof -
  obtain r c p pt nt ranks stops where
    r: "dget d ''ranked'' = Some r" "dget d ''candidates'' = Some c" "dget d ''primary_selected'' = Some p"
    and d': "dget d' ''ranked'' = Some r" "dget d' ''candidates'' = Some c" "dget d' ''primary_selected'' = Some p"
    and checks: "set (symbols_of pt) = set (symbols_of c)" "set (symbols_of pt @ symbols_of nt) = set (symbols_of r)"
      "map (dget ranks) (symbols_of r) = map (\<lambda>i. Some (int i)) [1 ..< length (symbols_of r) + 1]"
      "set (symbols_of p) \<subseteq> set (symbols_of pt)" "int (length (symbols_of c)) \<le> n"
      "emap (outcome_of (symbols_of pt) ranks (symbols_of p) stops) (symbols_of r) = Inr os"
    using assms unfolding read_outcomes_def reader_eq_Inr Let_def
    by (elim exE conjE) (simp add: dget_dpop del: upt_Suc)
  have "set (symbols_of pt) \<subseteq> set (symbols_of r)" using checks(2) by auto
  from outcomes_of_ranked [OF checks(6,3) this] checks r d' show thesis
    by (intro that) auto
qed

lemmas readers = read_value_condition_def read_predicate_def read_filter_def read_selection_def read_random_selection_def
  read_fallback_def read_final_selection_def read_cooldown_def read_state_mutation_def read_snapshot_refresh_def
  read_snapshot_usage_def read_sleeve_def read_final_targets_def

text \<open>A reader that gives only values with a property.\<close>

definition yields :: "('a \<Rightarrow> bool) \<Rightarrow> 'a reader \<Rightarrow> bool" where
  "yields P r \<longleftrightarrow> (\<forall>d x d'. r d = Inr (x, d') \<longrightarrow> P x)"

definition gives :: "('a \<Rightarrow> bool) \<Rightarrow> 'a eres \<Rightarrow> bool" where
  "gives P m \<longleftrightarrow> (\<forall>x. m = Inr x \<longrightarrow> P x)"

lemma yields_rbind: "(\<And>x. yields P (f x)) \<Longrightarrow> yields P (rbind m f)"
  by (auto simp: yields_def rbind_eq_Inr)

lemma yields_rlift: "gives P m \<Longrightarrow> yields P (rlift m)"
  by (auto simp: yields_def gives_def rlift_eq_Inr)

lemma gives_ebind: "(\<And>x. gives P (f x)) \<Longrightarrow> gives P (ebind m f)"
  by (auto simp: gives_def ebind_eq_Inr)

lemma gives_Inr: "P x \<Longrightarrow> gives P (Inr x)"
  by (simp add: gives_def)

lemma reader_kinds:
  "read_value_condition loads d = Inr (e, d') \<Longrightarrow> kind_of e = Kd_value_condition"
  "read_predicate d = Inr (e, d') \<Longrightarrow> kind_of e = Kd_predicate"
  "read_filter v d = Inr (e, d') \<Longrightarrow> kind_of e = Kd_filter"
  "read_selection v d = Inr (e, d') \<Longrightarrow> kind_of e = Kd_selection"
  "read_random_selection v d = Inr (e, d') \<Longrightarrow> kind_of e = Kd_random_selection"
  "read_fallback d = Inr (e, d') \<Longrightarrow> kind_of e = Kd_fallback"
  "read_final_selection d = Inr (e, d') \<Longrightarrow> kind_of e = Kd_final_selection"
  "read_cooldown v d = Inr (e, d') \<Longrightarrow> kind_of e = Kd_cooldown"
  "read_state_mutation d = Inr (e, d') \<Longrightarrow> kind_of e = Kd_state_mutation"
  "read_snapshot_refresh d = Inr (e, d') \<Longrightarrow> kind_of e = Kd_snapshot_refresh"
  "read_snapshot_usage d = Inr (e, d') \<Longrightarrow> kind_of e = Kd_snapshot_usage"
  "read_sleeve d = Inr (e, d') \<Longrightarrow> kind_of e = Kd_sleeve_contribution"
  "read_final_targets d = Inr (e, d') \<Longrightarrow> kind_of e = Kd_final_targets"
proof -
  have *: "r d = Inr (e, d') \<Longrightarrow> yields (\<lambda>e. kind_of e = k) r \<Longrightarrow> kind_of e = k" for r k
    by (auto simp: yields_def)
  show
    "read_value_condition loads d = Inr (e, d') \<Longrightarrow> kind_of e = Kd_value_condition"
    "read_predicate d = Inr (e, d') \<Longrightarrow> kind_of e = Kd_predicate"
    "read_filter v d = Inr (e, d') \<Longrightarrow> kind_of e = Kd_filter"
    "read_selection v d = Inr (e, d') \<Longrightarrow> kind_of e = Kd_selection"
    "read_random_selection v d = Inr (e, d') \<Longrightarrow> kind_of e = Kd_random_selection"
    "read_fallback d = Inr (e, d') \<Longrightarrow> kind_of e = Kd_fallback"
    "read_final_selection d = Inr (e, d') \<Longrightarrow> kind_of e = Kd_final_selection"
    "read_cooldown v d = Inr (e, d') \<Longrightarrow> kind_of e = Kd_cooldown"
    "read_state_mutation d = Inr (e, d') \<Longrightarrow> kind_of e = Kd_state_mutation"
    "read_snapshot_refresh d = Inr (e, d') \<Longrightarrow> kind_of e = Kd_snapshot_refresh"
    "read_snapshot_usage d = Inr (e, d') \<Longrightarrow> kind_of e = Kd_snapshot_usage"
    "read_sleeve d = Inr (e, d') \<Longrightarrow> kind_of e = Kd_sleeve_contribution"
    "read_final_targets d = Inr (e, d') \<Longrightarrow> kind_of e = Kd_final_targets"
    unfolding readers Let_def
    by (erule *, intro yields_rbind yields_rlift gives_ebind gives_Inr kind_of.simps)+
qed

lemma read_payload_kind: "read_payload loads k v d = Inr (e, d') \<Longrightarrow> kind_text (kind_of e) = k"
  unfolding read_payload_def by (auto split: if_splits dest: reader_kinds simp: rlift_eq_Inr)

lemma read_selection_agrees:
  assumes "read_selection v d = Inr (Ev_selection x, d')" "2 \<le> v"
  shows "outcomes_agree x"
proof -
  obtain n os d1 d2 r c p where n: "read_outcomes n d1 = Inr (os, d2)"
    and x: "xe_asset_outcomes x = Some os" "xe_required_count x = Some n"
      "dget d2 ''ranked'' = Some r" "xe_ranked x = symbols_of r"
      "dget d2 ''candidates'' = Some c" "xe_candidates x = symbols_of c"
      "dget d2 ''primary_selected'' = Some p" "xe_primary_selected x = symbols_of p"
    using assms unfolding read_selection_def reader_eq_Inr ebind_eq_Inr checked_eq_Inr
    by (elim exE conjE) (auto simp: reader_eq_Inr dget_dpop)
  from n show ?thesis
    by (rule read_outcomes_agree) (use x in \<open>auto simp: outcomes_agree_def\<close>)
qed

lemma read_cooldown_agrees:
  "read_cooldown v d = Inr (Ev_cooldown x, d') \<Longrightarrow> 2 \<le> v \<Longrightarrow> cd_stopped x = (\<not> cd_eligible x)"
  unfolding read_cooldown_def reader_eq_Inr ebind_eq_Inr
  by (elim exE conjE) (auto simp: literal_def split: if_splits option.splits)

lemma read_filter_agrees:
  assumes "read_filter v d = Inr (Ev_filter x, d')" "2 \<le> v"
  shows "\<exists>u. fe_decision_universe x = Some u \<and> (\<forall>y \<in> set (fe_evaluations x). xp_asset y \<in> set u \<and> xp_stopped y = (\<not> xp_passed y))"
proof -
  obtain scores el rj u where parts: "set (el @ rj) = set (dkeys scores)" "set el \<inter> set rj = {}" "set (dkeys scores) \<subseteq> set u"
    and x: "fe_decision_universe x = Some u" "emap (evaluation_of (2 \<le> v) el rj) scores = Inr (fe_evaluations x)"
    using assms unfolding read_filter_def reader_eq_Inr ebind_eq_Inr Let_def
    by (elim exE conjE) (auto simp: reader_eq_Inr)
  have "xp_asset y \<in> set (dkeys scores) \<and> xp_stopped y = (\<not> xp_passed y)" if "y \<in> set (fe_evaluations x)" for y
  proof -
    from that obtain i where i: "i < length (fe_evaluations x)" "y = fe_evaluations x ! i"
      by (auto simp: in_set_conv_nth)
    define s where "s = scores ! i"
    have "s \<in> set scores" "evaluation_of (2 \<le> v) el rj s = Inr y"
      using x(2) i unfolding emap_eq_Inr_iff s_def by (auto simp: list_all2_conv_all_nth)
    moreover from this(1) have "fst s \<in> set el \<union> set rj" using parts(1) by (auto simp: dkeys_def)
    ultimately show ?thesis using parts(2) assms(2)
      by (auto simp: evaluation_of_def ebind_eq_Inr dkeys_def intro: rev_image_eqI split: prod.splits)
  qed
  with x(1) parts(3) show ?thesis by blast
qed

text \<open>What the second version of the evidence says more than once agrees with itself.\<close>

definition evidence_agrees :: "evidence \<Rightarrow> bool" where
  "evidence_agrees e \<longleftrightarrow>
     (case e of
        Ev_selection x \<Rightarrow> outcomes_agree x
      | Ev_cooldown x \<Rightarrow> cd_stopped x = (\<not> cd_eligible x)
      | Ev_filter x \<Rightarrow>
          (\<exists>u. fe_decision_universe x = Some u \<and>
             (\<forall>y \<in> set (fe_evaluations x). xp_asset y \<in> set u \<and> xp_stopped y = (\<not> xp_passed y)))
      | _ \<Rightarrow> True)"

lemma read_payload_agrees:
  assumes "read_payload loads k v d = Inr (e, d')" "2 \<le> v"
  shows "evidence_agrees e"
proof (cases e)
  case (Ev_selection x)
  with read_payload_kind [OF assms(1)] have "k = ''selection''" by simp
  with assms Ev_selection show ?thesis
    by (auto simp: evidence_agrees_def read_payload_def intro: read_selection_agrees)
next
  case (Ev_cooldown x)
  with read_payload_kind [OF assms(1)] have "k = ''cooldown''" by simp
  with assms Ev_cooldown read_cooldown_agrees [of v d x d'] show ?thesis
    by (simp add: evidence_agrees_def read_payload_def)
next
  case (Ev_filter x)
  with read_payload_kind [OF assms(1)] have "k = ''filter''" by simp
  with assms Ev_filter read_filter_agrees [of v d x d'] show ?thesis
    by (simp add: evidence_agrees_def read_payload_def)
qed (simp_all add: evidence_agrees_def)

lemma record_of_agrees:
  assumes "record_of loads d v = Inr e"
  shows "ce_schema_version e = v" "2 \<le> v \<Longrightarrow> evidence_agrees (ce_evidence e)"
proof -
  obtain x where "record_body loads v d = Inr (e, x)"
    using assms by (auto simp: record_of_def translated_def ebind_eq_Inr split: sum.splits evidence_error.splits if_splits)
  then have "ce_schema_version e = v \<and> (2 \<le> v \<longrightarrow> evidence_agrees (ce_evidence e))"
    unfolding record_body_def reader_eq_Inr ebind_eq_Inr
    by (elim exE conjE) (auto simp: ebind_eq_Inr dest: read_payload_agrees split: if_splits)
  then show "ce_schema_version e = v" "2 \<le> v \<Longrightarrow> evidence_agrees (ce_evidence e)" by auto
qed

lemma evidence_line_version: "evidence_line line = Some (v, rest) \<Longrightarrow> v = 1 \<or> v = 2"
  by (auto simp: evidence_line_def split: option.splits)

lemma collected_records:
  assumes "collect_lines loads lines = Inr es" "e \<in> set es"
  shows "ce_schema_version e \<in> {1, 2}" "ce_schema_version e = 2 \<Longrightarrow> evidence_agrees (ce_evidence e)"
proof -
  obtain i where i: "i < length es" "e = es ! i" using assms(2) by (auto simp: in_set_conv_nth)
  let ?p = "List.map_filter evidence_line lines ! i"
  have "?p \<in> set (List.map_filter evidence_line lines)"
    and "ebind (fields_of (snd ?p)) (\<lambda>d. record_of loads d (fst ?p)) = Inr e"
    using assms(1) i unfolding collect_lines_def emap_eq_Inr_iff
    by (auto simp: list_all2_conv_all_nth case_prod_beta)
  then obtain d line where "record_of loads d (fst ?p) = Inr e" "evidence_line line = Some ?p"
    by (auto simp: ebind_eq_Inr List.map_filter_def)
  then show "ce_schema_version e \<in> {1, 2}" "ce_schema_version e = 2 \<Longrightarrow> evidence_agrees (ce_evidence e)"
    using record_of_agrees [of loads d "fst ?p" e] evidence_line_version [of line "fst ?p" "snd ?p"] by auto
qed

lemma collected_events_numbered:
  assumes "collect_decision_evidence loads log_text = Inr es"
  shows "map ce_sequence es = map int [1 ..< length es + 1]"
    and "\<exists>v \<in> {1, 2}. \<forall>e \<in> set es. ce_schema_version e = v \<and> (v = 2 \<longrightarrow> evidence_agrees (ce_evidence e))"
proof -
  have es: "collect_lines loads (splitlines log_text) = Inr es" and versions: "length (remdups (map ce_schema_version es)) \<le> 1"
    and sequence: "contiguous es"
    using assms by (auto simp: collect_decision_evidence_def ebind_eq_Inr split: if_splits)
  from sequence show "map ce_sequence es = map int [1 ..< length es + 1]" by (simp add: contiguous_def)
  show "\<exists>v \<in> {1, 2}. \<forall>e \<in> set es. ce_schema_version e = v \<and> (v = 2 \<longrightarrow> evidence_agrees (ce_evidence e))"
  proof (cases es)
    case (Cons e0 es0)
    have "ce_schema_version e = ce_schema_version e0" if "e \<in> set es" for e
    proof -
      have "card (ce_schema_version ` set es) \<le> 1" using versions by (simp add: length_remdups_card_conv)
      then show ?thesis using that Cons by (auto simp: card_le_Suc0_iff_eq)
    qed
    then show ?thesis using collected_records [OF es] Cons by (metis list.set_intros(1))
  qed auto
qed

text \<open>C26: A log whose evidence is accepted yields events numbered 1, 2, ... without a gap, all of one
  schema version, 1 or 2. In version 2 the redundant parts of an event agree: a selection's
  outcomes list its ranked assets with ranks 1 to n, the assets marked present are its candidates,
  which include the selected ones and do not exceed the required count; a filtered asset is marked
  stopped exactly when it did not pass and belongs to the decision universe; a cooldown stage is
  named exactly when the asset is not eligible.\<close>

theorem collected_evidence_is_consistent:
  assumes "collect_decision_evidence loads log_text = Inr es"
  shows "map ce_sequence es = map int [1 ..< length es + 1] \<and>
    (\<exists>v \<in> {1, 2}. \<forall>e \<in> set es. ce_schema_version e = v \<and> (v = 2 \<longrightarrow> evidence_agrees (ce_evidence e)))"
  using collected_events_numbered [OF assms] by blast

text \<open>A log of one line, a trace without evidence before it.\<close>

definition sample_log :: string where
  "sample_log = ''trace'' @ [char_of (10 :: nat)] @
     ''RULETRADE_EVIDENCE_V2|sequence=1|session=2024-01-02|phase=evaluation|kind=fallback|asset=SPY|activated=true''"

definition sample_loads :: "string \<Rightarrow> json res" where
  "sample_loads s = Inl (Value_error ''JSONDecodeError'')"

text \<open>A malformed field is refused, and the sample log is read.\<close>

lemma sample_collection:
  "isl (collect_decision_evidence sample_loads ''RULETRADE_EVIDENCE_V2|sequence'') \<and>
   case_sum (\<lambda>_. False) (\<lambda>es. es \<noteq> []) (collect_decision_evidence sample_loads sample_log)"
  by code_simp

theorem log_errors_are_contract_errors_witness:
  "\<exists>m. collect_decision_evidence sample_loads ''RULETRADE_EVIDENCE_V2|sequence'' = Inl (Contract m)"
proof -
  have loads: "sample_loads s = Inl e \<Longrightarrow> is_value_error e" for s e by (auto simp: sample_loads_def)
  obtain e where e: "collect_decision_evidence sample_loads ''RULETRADE_EVIDENCE_V2|sequence'' = Inl e"
    using sample_collection by (cases "collect_decision_evidence sample_loads ''RULETRADE_EVIDENCE_V2|sequence''") auto
  from log_errors_are_contract_errors [OF loads this] e show ?thesis by auto
qed

theorem collected_evidence_is_consistent_witness:
  "\<exists>es. collect_decision_evidence sample_loads sample_log = Inr es \<and> map ce_sequence es = map int [1 ..< length es + 1]"
proof -
  obtain es where "collect_decision_evidence sample_loads sample_log = Inr es"
    using sample_collection by (cases "collect_decision_evidence sample_loads sample_log") auto
  with collected_evidence_is_consistent [OF this] show ?thesis by blast
qed

end
