(* ===== verification/Evidence_Storage.thy ===== *)
theory Evidence_Storage
  imports Run_Samples Evidence_Properties
begin

text \<open>
  The collector and the store together: evidence that the collector accepts can always be stored
  with the Run it was collected for, and is stored event by event.
\<close>

subsection \<open>Identifiers of events\<close>

lemma parse_event_id:
  assumes "0 < n"
  shows "parse_digits (drop 6 (event_id n)) = Some (nat n)"
proof (cases "n < 1000000")
  case True
  then have "nat n < 10 ^ 6" by simp
  then show ?thesis using True by (simp add: event_id_def parse_digits_padded)
next
  case False
  then show ?thesis by (simp add: event_id_def parse_digits_str_of_nat)
qed

lemma event_id_inject: "0 < n \<Longrightarrow> 0 < m \<Longrightarrow> event_id n = event_id m \<Longrightarrow> n = m"
  using parse_event_id [of n] parse_event_id [of m] by simp

subsection \<open>Inserting a whole evidence set\<close>

lemma insert_all_evidence:
  assumes "run_status_of db i = Some Running" "distinct (map ce_sequence es)"
    and "\<And>e. e \<in> set es \<Longrightarrow> 0 < ce_sequence e \<and> ce_schema_version e \<in> {1, 2}"
    and "\<And>e r. e \<in> set es \<Longrightarrow> r \<in> set (db_events db) \<Longrightarrow> er_run_id r = i \<Longrightarrow>
      er_ordinal r \<noteq> ce_sequence e \<and> er_id r \<noteq> event_id (ce_sequence e)"
  shows "\<exists>db'. insert_evidence k i es db = Inr db'"
  using assms
proof (induction es arbitrary: db)
  case (Cons e es)
  let ?db1 = "db\<lparr>db_events := db_events db @ [event_row_of k i e]\<rparr>"
  have inserted: "insert_event (event_row_of k i e) db = Inr ?db1"
    using Cons.prems(1) Cons.prems(3) [OF list.set_intros(1)] Cons.prems(4) [OF list.set_intros(1)]
    by (fastforce simp: insert_event_def event_row_of_def)
  have "\<exists>db'. insert_evidence k i es ?db1 = Inr db'"
  proof (rule Cons.IH)
    show "run_status_of ?db1 i = Some Running" using Cons.prems(1) by (simp add: run_status_of_def)
    show "distinct (map ce_sequence es)" using Cons.prems(2) by simp
    show "0 < ce_sequence e' \<and> ce_schema_version e' \<in> {1, 2}" if "e' \<in> set es" for e'
      using Cons.prems(3) that by simp
    show "er_ordinal r \<noteq> ce_sequence e' \<and> er_id r \<noteq> event_id (ce_sequence e')"
      if e': "e' \<in> set es" and r: "r \<in> set (db_events ?db1)" "er_run_id r = i" for e' r
    proof (cases "r = event_row_of k i e")
      case True
      have "ce_sequence e \<noteq> ce_sequence e'" using Cons.prems(2) e' by auto
      moreover have "0 < ce_sequence e" "0 < ce_sequence e'" using Cons.prems(3) e' by auto
      ultimately show ?thesis using True event_id_inject by (auto simp: event_row_of_def)
    next
      case False
      with r e' Cons.prems(4) [of e' r] show ?thesis by simp
    qed
  qed
  then show ?case using inserted by (simp add: insert_evidence_def)
qed (simp add: insert_evidence_def)

subsection \<open>Completing a running Run\<close>

lemma running_moves:
  assumes "distinct (run_ids db)" "row \<in> set (db_runs db)" "br_id row = i" "br_status row = st" "run_update_allowed row (f row)"
  shows "\<exists>db'. move_run i st f db = Inr db' \<and> run_row_at i db' = Some (f row)"
proof -
  let ?p = "\<lambda>r. br_id r = i \<and> br_status r = st"
  have inj: "inj_on br_id (set (db_runs db))" using assms(1) by (simp add: distinct_map)
  have only: "r = row" if "r \<in> set (db_runs db)" "br_id r = i" for r
    using inj_onD [OF inj, of r row] assms(2,3) that by simp
  have distinct: "distinct (db_runs db)" using assms(1) by (simp add: distinct_map)
  have "set (filter ?p (db_runs db)) = {row}" unfolding set_filter using only assms(2-4) by blast
  then have one: "length (filter ?p (db_runs db)) = 1"
    using distinct_card [OF distinct_filter [OF distinct, of ?p]] by simp
  have "list_all (\<lambda>r. ?p r \<longrightarrow> run_update_allowed r (f r)) (db_runs db)" using only assms(5) by (auto simp: list_all_iff)
  then have moved: "move_run i st f db = Inr (db\<lparr>db_runs := map (\<lambda>r. if ?p r then f r else r) (db_runs db)\<rparr>)"
    using one by (simp add: move_run_def update_runs_def update_rows_def)
  have id_eq: "br_id (f row) = i" using assms(3,5) by (simp add: run_update_allowed_def same_run_identity_def)
  have found: "select_one (\<lambda>r. br_id r = i) (map (\<lambda>r. if ?p r then f r else r) rows) = Some (f row)"
    if "set rows \<subseteq> set (db_runs db)" "row \<in> set rows" for rows
    using that id_eq assms(3,4) by (induction rows) (auto dest: only)
  from found [OF order_refl assms(2)] moved show ?thesis by (simp add: run_row_at_def)
qed

lemma commit_lineage:
  assumes "lineage db"
  shows "commit db = Inr db"
proof -
  have "sr_current_revision_id s \<in> set (revision_ids db)" if "s \<in> set (db_strategies db)" for s
  proof -
    have "history db (sr_id s) \<noteq> []" "rr_id (last (history db (sr_id s))) = sr_current_revision_id s"
      using assms that by (auto simp: lineage_def chain_of_def)
    moreover from this(1) have "last (history db (sr_id s)) \<in> set (db_revisions db)"
      using last_in_set by (fastforce simp: history_def)
    ultimately show ?thesis by (metis image_eqI set_map)
  qed
  then show ?thesis by (simp add: commit_def list_all_iff)
qed

text \<open>C14: Evidence the collector accepts, if there is any, is always accepted by the store for a
  Run that is being executed: completing the Run succeeds, and its events are exactly the collected
  ones, in their order. This composes the collector's checks with the constraints of the schema.\<close>

theorem collected_evidence_is_stored:
  assumes "collect_decision_evidence loads log_text = Inr es" "es \<noteq> []"
    and "lineage db" "evidence_ok db" "run_row_at i db = Some row" "br_status row = Running" "readable_row k row"
    and "run_codec_reads k" "valid_moment now"
  shows "\<exists>x db'. complete_succeeded_with_evidence k ms i result ts now es d db = (Inr x, db') \<and>
    bk_status x = Succeeded \<and> run_events db' i = map (event_row_of k i) es"
proof -
  define f where "f = succeed_row k result (finalized ts ms) d now"
  have row: "row \<in> set (db_runs db)" "br_id row = i" using assms(5) by (auto simp: run_row_at_def dest: select_one_SomeD)
  have columns: "lifecycle_columns row" and none: "run_events db i = []"
    using assms(4,6) row by (auto simp: evidence_ok_def run_row_ok_def)
  have sequence: "map ce_sequence es = map int [1 ..< length es + 1]"
    and versions: "\<And>e. e \<in> set es \<Longrightarrow> ce_schema_version e \<in> {1, 2}"
    using collected_events_numbered [OF assms(1)] by auto
  have positive: "0 < ce_sequence e" if "e \<in> set es" for e
  proof -
    have "ce_sequence e \<in> set (map ce_sequence es)" using that by simp
    then show ?thesis unfolding sequence by auto
  qed
  have distinct: "distinct (map ce_sequence es)" unfolding sequence by (simp add: distinct_map inj_on_def)
  have status: "run_status_of db i = Some Running" using assms(5,6) by (simp add: run_status_of_def run_row_at_def)
  have "\<exists>db1. insert_evidence k i es db = Inr db1"
    by (rule insert_all_evidence [OF status distinct])
      (use versions positive none in \<open>auto simp: run_events_def filter_empty_conv\<close>)
  then obtain db1 where inserted: "insert_evidence k i es db = Inr db1" ..
  then have db1: "db1 = db\<lparr>db_events := db_events db @ map (event_row_of k i) es\<rparr>" by (simp add: insert_evidence_InrD)
  have allowed: "run_update_allowed row (f row)" and readable: "readable_row k (f row)"
    using columns assms(6-9)
    by (auto simp: f_def succeed_row_def run_update_allowed_def same_run_identity_def lifecycle_step_def
        lifecycle_columns_def readable_row_iff run_codec_reads_def reading split: option.splits)
  obtain db2 where moved: "move_run i Running f db1 = Inr db2" "run_row_at i db2 = Some (f row)"
    using running_moves [of db1 row i Running f] row assms(4,6) allowed by (auto simp: db1 evidence_ok_def)
  have db2: "db_events db2 = db_events db1" "lineage db2"
    using move_run_rows(1) [OF moved(1)] assms(3) lineage_cong [of db2 db] by (simp_all add: db1)
  obtain x where x: "read_back k i db2 = (Inr x, db2)" "bk_status x = Succeeded"
    using readable moved(2) read_run_fields by (fastforce simp: read_back_def readable_row_def f_def succeed_row_def)
  have "contiguous es" using sequence by (simp add: contiguous_def)
  then have "complete_succeeded_with_evidence k ms i result ts now es d db = (Inr x, db2)"
    using status inserted moved(1) commit_lineage [OF db2(2)] x(1)
    by (simp add: complete_succeeded_transaction [OF assms(2)] abind_def transaction_def on_sqlite_def f_def)
  moreover have "run_events db2 i = map (event_row_of k i) es"
    using none by (simp add: run_events_def db2(1) db1 event_row_of_def comp_def)
  ultimately show ?thesis using x(2) by auto
qed


definition sample_running_row :: run_row where
  "sample_running_row = sample_run_row\<lparr>br_status := Running, br_result_json := None, br_completed_at := None\<rparr>"

definition running_database :: database where
  "running_database = created_database\<lparr>db_runs := [sample_running_row]\<rparr>"

lemma running_lineage: "lineage running_database"
  using lineage_cong [of running_database created_database] artifacts.perform_all_kept
    [of empty_database sample_product sample_comparison_codec "[sample_create]"] lineage_empty
  by (simp add: created_history lineage_kept_def running_database_def)

lemma running_evidence: "evidence_ok running_database"
  by (simp add: evidence_ok_def run_row_ok_def run_events_def running_database_def sample_running_row_def sample_run_row_def
      lifecycle_columns_def sample_rows empty_database_def)

lemma running_row: "run_row_at ''run1'' running_database = Some sample_running_row" "br_status sample_running_row = Running"
  "readable_row sample_run_codec sample_running_row"
  by (simp_all add: run_row_at_def running_database_def sample_running_row_def sample_run_row_def readable_row_iff sample_reads
      reading sample_moments)

theorem collected_evidence_is_stored_witness:
  "\<exists>es x db'. es \<noteq> [] \<and>
    complete_succeeded_with_evidence sample_run_codec 0 ''run1'' sample_result no_timings (sample_time 3) es None running_database = (Inr x, db') \<and>
    run_events db' ''run1'' = map (event_row_of sample_run_codec ''run1'') es"
proof -
  obtain es where "collect_decision_evidence sample_loads sample_log = Inr es" "es \<noteq> []"
    using sample_collection by (cases "collect_decision_evidence sample_loads sample_log") auto
  from collected_evidence_is_stored
    [OF this running_lineage running_evidence running_row sample_codec_reads, of "sample_time 3" 0 sample_result no_timings None]
    \<open>es \<noteq> []\<close> sample_moments [of 3]
  show ?thesis by auto
qed

end
