(* ===== verification/Comparison_Properties.thy ===== *)
theory Comparison_Properties
  imports Comparison_Store
begin

text \<open>
  What the alignment of two evidence sets does: which events it pairs, that equal evidence has no
  differences, and on which evidence it raises.
\<close>

subsection \<open>The index\<close>

definition ordered_events :: "event_detail list \<Rightarrow> event_detail list" where
  "ordered_events es = order_by (\<lambda>x y. es_ordinal x < es_ordinal y) es"

definition sharing :: "alignment_base \<Rightarrow> event_detail list \<Rightarrow> event_detail list" where
  "sharing b es = filter (\<lambda>e. base_key e = b) es"

lemma index_events_ordered: "index_events es = snd (fold index_step (ordered_events es) ([], []))"
  by (simp add: index_events_def ordered_events_def)

lemma index_invariant:
  assumes "fold index_step xs ([], []) = (counts, d)"
  shows "dget_or counts b 0 = length (sharing b xs) \<and>
    dget d (b, n) = (if 1 \<le> n \<and> n \<le> length (sharing b xs) then Some (sharing b xs ! (n - 1)) else None) \<and>
    length d = length xs \<and> distinct (dkeys d)"
  using assms
proof (induction xs arbitrary: counts d b n rule: rev_induct)
  case Nil
  then show ?case by (auto simp: sharing_def dget_or_def dget_def dkeys_def)
next
  case (snoc x xs)
  obtain c' d' where before': "fold index_step xs ([], []) = (c', d')" by fastforce
  note IH = snoc.IH [OF before']
  define m where "m = length (sharing (base_key x) xs)"
  have counted: "dget_or c' (base_key x) 0 = m" and absent: "dget d' (base_key x, m + 1) = None"
    using IH [of "base_key x"] by (simp_all add: m_def)
  have "index_step x (c', d') = (counts, d)" using snoc.prems before' by simp
  then have step: "counts = dset (base_key x) (m + 1) c'" "d = dset (base_key x, m + 1) x d'"
    using counted by (simp_all add: index_step_def Let_def)
  have new: "(base_key x, m + 1) \<notin> set (dkeys d')"
    using absent by (metis dhas_def dhas_iff dget_def)
  have shared: "sharing b (xs @ [x]) = sharing b xs @ (if base_key x = b then [x] else [])"
    by (simp add: sharing_def)
  have "dget_or counts b 0 = length (sharing b (xs @ [x]))"
    using IH [of b] by (auto simp: step(1) shared m_def)
  moreover have "dget d (b, n) = (if 1 \<le> n \<and> n \<le> length (sharing b (xs @ [x])) then Some (sharing b (xs @ [x]) ! (n - 1)) else None)"
    using IH [of b n] by (auto simp: step(2) shared nth_append m_def)
  moreover have "length d = length (xs @ [x])" "distinct (dkeys d)"
    using IH new by (simp_all add: step(2) dset_absent dkeys_def)
  ultimately show ?case by blast
qed

lemma index_bases: "fst ` set (dkeys (snd (fold index_step xs (c, d)))) = fst ` set (dkeys d) \<union> base_key ` set xs"
  by (induction xs arbitrary: c d) (auto simp: index_step_def Let_def set_dkeys_dset)

lemma length_order_by: "length (order_by lt xs) = length xs"
proof (induction xs)
  case (Cons x xs)
  have "length (insert_by lt x ys) = Suc (length ys)" for ys by (induction ys) simp_all
  with Cons show ?case by (simp add: order_by_def)
qed (simp add: order_by_def)

lemma ordered_events_perm: "set (ordered_events es) = set es" "length (ordered_events es) = length es"
  unfolding ordered_events_def by (simp_all add: length_order_by)

subsection \<open>Alignment\<close>

lemma remdups_covered: "set xs \<subseteq> set ys \<Longrightarrow> remdups (xs @ ys) = remdups ys"
  by (induction xs) auto

lemma classify_same: "classify e e = []"
  by (cases e) (simp_all add: classify_def flag_def same_dict_def list_all_iff)

lemma index_length: "length (index_events es) = length es" "distinct (dkeys (index_events es))"
  using index_invariant [of "ordered_events es"] ordered_events_perm(2) [of es]
  by (cases "fold index_step (ordered_events es) ([], [])"; simp add: index_events_ordered)+

lemma alignment_kinds:
  "set (map (ab_kind \<circ> fst) (alignment_keys a b)) = es_kind ` (set a \<union> set b)"
proof -
  have bases: "fst ` set (dkeys (index_events es)) = base_key ` set es" for es
    unfolding index_events_ordered index_bases by (simp add: dkeys_def ordered_events_perm)
  have "set (map (ab_kind \<circ> fst) (alignment_keys a b)) = ab_kind ` (fst ` set (dkeys (index_events a)) \<union> fst ` set (dkeys (index_events b)))"
    by (auto simp: alignment_keys_def)
  also have "\<dots> = es_kind ` (set a \<union> set b)" unfolding bases by (simp add: image_Un image_image base_key_def)
  finally show ?thesis .
qed

lemma value_condition_keys:
  "list_ex (\<lambda>k. ab_kind (fst k) = Kd_value_condition) (alignment_keys a b) \<longleftrightarrow> list_ex (\<lambda>e. es_kind e = Kd_value_condition) (a @ b)"
proof -
  have "list_ex (\<lambda>k. ab_kind (fst k) = Kd_value_condition) (alignment_keys a b) \<longleftrightarrow>
      Kd_value_condition \<in> set (map (ab_kind \<circ> fst) (alignment_keys a b))"
    unfolding list_ex_iff set_map comp_def image_iff by metis
  also have "\<dots> \<longleftrightarrow> list_ex (\<lambda>e. es_kind e = Kd_value_condition) (a @ b)"
    unfolding alignment_kinds list_ex_iff set_append image_iff by metis
  finally show ?thesis .
qed

lemma check_sort_keys:
  "emap check_sort_key keys = (if list_ex (\<lambda>k. ab_kind (fst k) = Kd_value_condition) keys then Inl Key_error else Inr (map (\<lambda>_. ()) keys))"
proof (induction keys)
  case (Cons k keys)
  have "kind_order x = None \<longleftrightarrow> x = Kd_value_condition" for x by (cases x) simp_all
  then show ?case using Cons by (auto simp: check_sort_key_def ebind_def split: option.splits)
qed simp

text \<open>C32: The index of an evidence set holds under a context and the number n the n-th event of that
  context, in the order of the ordinals: alignment pairs the n-th event of a context in one Run with
  the n-th event of the same context in the other.\<close>

theorem alignment_pairs_by_context:
  "dget (index_events es) (b, n) =
    (let shared = filter (\<lambda>e. base_key e = b) (order_by (\<lambda>x y. es_ordinal x < es_ordinal y) es)
     in if 1 \<le> n \<and> n \<le> length shared then Some (shared ! (n - 1)) else None)"
proof (cases "fold index_step (ordered_events es) ([], [])")
  case (Pair counts d)
  from index_invariant [OF this, of b n] Pair show ?thesis
    unfolding index_events_ordered Let_def by (simp add: sharing_def ordered_events_def)
qed

text \<open>C38: Alignment raises KeyError exactly when one of the Runs recorded a value condition: the
  order of kinds has no entry for it.\<close>

theorem alignment_raises_on_value_conditions:
  "align_decision_evidence a b = Inl Key_error \<longleftrightarrow> list_ex (\<lambda>e. es_kind e = Kd_value_condition) (a @ b)"
  using value_condition_keys [of a b] by (simp add: align_decision_evidence_def check_sort_keys ebind_def Let_def)

text \<open>Two Runs with the same evidence, none of it a value condition, have no difference, and
  every record is counted as aligned.\<close>

theorem equal_evidence_has_no_difference:
  assumes "\<not> list_ex (\<lambda>e. es_kind e = Kd_value_condition) es"
  shows "align_decision_evidence es es = Inr ([], length es)"
proof -
  let ?i = "index_events es"
  have keys: "alignment_keys es es = order_by key_less (dkeys ?i)"
    using index_length(2) by (simp add: alignment_keys_def remdups_covered distinct_remdups_id)
  have "difference_at ?i ?i k = None" for k
    by (simp add: difference_at_def classify_same split: option.splits)
  then have "List.map_filter (difference_at ?i ?i) (alignment_keys es es) = []"
    by (simp add: List.map_filter_def)
  moreover have "length (alignment_keys es es) = length es"
    using index_length(1) [of es] by (simp add: keys length_order_by dkeys_def)
  moreover have "emap check_sort_key (alignment_keys es es) = Inr (map (\<lambda>_. ()) (alignment_keys es es))"
    unfolding check_sort_keys value_condition_keys using assms by simp
  ultimately show ?thesis
    by (simp add: align_decision_evidence_def group_differences_def order_by_def Let_def)
qed


definition sample_event :: event_detail where
  "sample_event = \<lparr>es_id = ''event-000001'', es_run_id = ''run1'', es_ordinal = 1, es_schema_version = 2,
     es_session = \<lparr>cd_year = 2024, cd_month = 1, cd_day = 2\<rparr>, es_phase = Ph_selection, es_kind = Kd_fallback, es_sources = [],
     ed_evidence = Ev_fallback \<lparr>fb_asset = ''SPY'', fb_activated = True\<rparr>\<rparr>"

theorem equal_evidence_has_no_difference_witness:
  "align_decision_evidence [sample_event, sample_event\<lparr>es_ordinal := 2\<rparr>] [sample_event, sample_event\<lparr>es_ordinal := 2\<rparr>] = Inr ([], 2)"
  using equal_evidence_has_no_difference [of "[sample_event, sample_event\<lparr>es_ordinal := 2\<rparr>]"] by (simp add: sample_event_def)

end
