(* ===== verification/Candidate_Properties.thy ===== *)
theory Candidate_Properties
  imports Candidate_Samples
begin

text \<open>What the one change of a Candidate does to the document.\<close>

lemma component_index_SomeD:
  assumes "component_index i cs = Some n"
  shows "n < length cs \<and> vc_id (cs ! n) = i \<and> (\<forall>m < n. vc_id (cs ! m) \<noteq> i)"
proof -
  obtain c where found: "find (\<lambda>(_, c). vc_id c = i) (enumerate 0 cs) = Some (n, c)"
    using assms by (auto simp: component_index_def)
  then obtain j where j: "j < length (enumerate 0 cs)" "vc_id (snd (enumerate 0 cs ! j)) = i" "(n, c) = enumerate 0 cs ! j"
    "\<forall>m < j. vc_id (snd (enumerate 0 cs ! m)) \<noteq> i"
    unfolding find_Some_iff by (force simp: case_prod_beta)
  then have "j = n" by (simp add: nth_enumerate_eq)
  with j show ?thesis by (auto simp: nth_enumerate_eq)
qed

text \<open>C37: A Candidate's document differs from its base in one place only: the threshold of the
  first component with the requested identifier, a filter, whose value was numerically the expected
  one. The new threshold is a text that reads back as exactly the proposed number, and that number
  differs from the old one.\<close>

theorem candidate_changes_only_the_threshold:
  assumes "apply_filter_threshold source change = Inr c"
  shows "\<exists>d n x current. source = V1 d \<and> n < length (v1_components d) \<and> x = v1_components d ! n \<and>
    vc_id x = th_component_id change \<and> vc_primitive x = ''filter@1'' \<and>
    config_decimal (dget (vc_config x) ''threshold'') = Inr current \<and> number_value current = Some (decimal_value (th_expected_before change)) \<and>
    (\<exists>t. c = V1 (d\<lparr>v1_components := (v1_components d)[n := x\<lparr>vc_config := dset ''threshold'' (J_string t) (vc_config x)\<rparr>]\<rparr>) \<and>
       python_decimal t = Inr (th_proposed_after change)) \<and>
    decimal_value (th_proposed_after change) \<noteq> decimal_value (th_expected_before change)"
proof -
  have finite: "is_finite (th_proposed_after change)" and d: "\<exists>d. source = V1 d"
    using assms by (auto simp: apply_filter_threshold_def invalid_change_def split: if_splits canonical.splits)
  from d obtain d where source: "source = V1 d" ..
  obtain d' where d': "patch_components d change = Inr d'" "c = V1 d'"
    using assms by (auto simp: apply_filter_threshold_def source ebind_eq_Inr invalid_change_def split: if_splits)
  then obtain n where n: "component_index (th_component_id change) (v1_components d) = Some n"
    by (auto simp: patch_components_def invalid_change_def split: option.splits)
  let ?x = "v1_components d ! n"
  obtain current where step: "vc_primitive ?x = ''filter@1''" "config_decimal (dget (vc_config ?x) ''threshold'') = Inr current"
    "number_value current = Some (decimal_value (th_expected_before change))"
    "number_value current \<noteq> Some (decimal_value (th_proposed_after change))" "d' = patched d n (th_proposed_after change)"
    using d'(1) n by (auto simp: patch_components_def invalid_change_def differs_def Let_def ebind_eq_Inr split: if_splits)
  have written: "python_decimal (decimal_text (th_proposed_after change)) = Inr (th_proposed_after change)"
    using finite by (cases "th_proposed_after change") (simp_all add: is_finite_def python_decimal_text)
  show ?thesis
    using component_index_SomeD [OF n] step written d'(2)
    by (intro exI [of _ d] exI [of _ n] exI [of _ ?x] exI [of _ current]) (auto simp: source patched_def)
qed


theorem candidate_changes_only_the_threshold_witness:
  "\<exists>d n current. sample_document ''0.5'' = V1 d \<and> n < length (v1_components d) \<and>
    config_decimal (dget (vc_config (v1_components d ! n)) ''threshold'') = Inr current \<and>
    number_value current = Some (decimal_value (Dec False 5 (-1)))"
proof -
  have "th_expected_before sample_raise = Dec False 5 (-1)" by (simp add: sample_raise_def)
  with candidate_changes_only_the_threshold [OF sample_patch] show ?thesis by metis
qed

end
