(* ===== verification/Spec2Isabelle.thy ===== *)
theory Spec2Isabelle
  imports V2_Properties Compiler_Properties Daily_Properties Selection_Exec Program_Properties Truth_Clock_Properties Allocation_Properties
    Save_Properties Evidence_Storage Comparison_Properties Candidate_Properties
begin

text \<open>
  A verification development for RuleTrade, a research product for rule-based trading strategies.
  File names below are relative to \<open>src/ruletrade/\<close>.

  \<^bold>\<open>The program.\<close> A strategy is a document. A second-generation document (V2) holds a Program: clocked
  Values over daily market data, Conditions in three-valued logic, Events, Selections, Allocations
  and state. A pure interpreter executes a Program session by session. Around it a product keeps
  Strategies and their immutable Revisions, executes them as backtest Runs whose decisions are
  recorded as Decision Evidence, lets the user try one change as a Candidate, compares its Run with
  the original, and adopts it as the next Revision.

  \<^bold>\<open>Conventions.\<close> Python exceptions are values: \<open>Inl\<close> an error, \<open>Inr\<close> a result, sequenced by
  \<open>ebind\<close>, mapped by \<open>emap\<close> and looped by \<open>efold\<close> (theory Prelude). Dictionaries are association
  lists in insertion order. \<open>Decimal\<close> values are rationals rounded by every operation to 28
  significant digits, half to even (theory Decimals). Records carry the fields of the Python
  classes with a two-letter prefix. JSON, digests, regular expressions, pydantic coercions, clocks
  and the LEAN engine are parameters; what the code relies on about them are named hypotheses.

  \<^bold>\<open>Values over daily data\<close> (\<open>strategy/v2/semantic_types.py\<close>, \<open>strategy/v2/daily_values.py\<close>).
  Semantic_Types: types, axes, truth values, history requirements. Daily_Model: the expression
  node, its validator, static types, the planner, the market snapshot. Daily_Transform: returns,
  averages, RSI, volatility. Daily_Eval: the memoising evaluator. Daily_Memo shows the memo sound,
  by a locale of what a lawful memo table promises; Daily_Lookahead that nothing after the cutoff
  is read by Values whose History nodes skip at most one observation more than there are up to the
  cutoff (the slices of the code wrap around beyond that, and then do read ahead);
  Daily_Properties collects the properties, with the places where the code raises.

  \<^bold>\<open>Programs\<close> (\<open>strategy/v2/models.py\<close>, \<open>program_execution.py\<close>, \<open>program_validation.py\<close>,
  \<open>validation.py\<close>). Program_Model: Values, Conditions, statements and their validators. Calendar:
  dates, weeks and boundaries of clocks. Program_Values and Program_Exec: the class
  \<open>_Runtime\<close>, its reading and its acting half. Program_Run: \<open>execute_program_v2\<close> with its guards
  on the checkpoint. Validation and Program_Validation: the diagnostics. Program_Invariants: what
  every statement keeps. Program_Reading: reading is pure. Validation_Sound and
  Validation_References: what a Program without diagnostics refers to, statement by statement (the
  clocks, Conditions, Selections and legs, then the Events and ids that the validator collects on
  its way and the references of the Values). Replay: the loop over sessions. Selection_Ranking and
  Allocation_Properties: ranking and bounded normalisation; the recursion over statements is
  structural and the clipping loop runs for one round more than there are free assets, which is
  shown to be enough. Selection_Exec: the stand-alone Selection executor (\<open>execution.py\<close>).
  Program_Samples and Sample_Runs hold the Program of the witnesses and its evaluations.

  \<^bold>\<open>The product database\<close> (\<open>persistence/\<close>). Store: tables as lists of rows, with the keys, CHECK
  constraints and triggers of schema version 8 as guards of the statements, and a locale for what
  a table promises its repository, interpreted for every table. A transaction that raises leaves
  the database unchanged. Timestamps and Python_Text: the texts of times and numbers, with their
  round trips. Strategy_Store (\<open>strategies/\<close>), Run_Store (\<open>backtest_runs/\<close>), Candidate_Store
  (\<open>candidates/\<close>) and Comparison_Store (\<open>comparisons/\<close>): the repositories and services, one
  definition per method, with identifiers, times and durations passed in. Decision_Evidence and
  Evidence_Collector (\<open>decision_evidence/\<close>): the records of evidence and the parser of the log
  lines that carry them.

  Store_Contract states, as a locale, what each repository operation keeps, and shows once that
  every sequence of product commands keeps it. It is interpreted twice: Store_Lineage (Revisions
  form a chain, stored artifacts only grow) and Store_Evidence (a Run has evidence exactly when it
  succeeded). Store_Properties and Save_Properties draw the consequences: linear history, no lost
  update, immutability, one adoption, saved Revisions read back. Run_Lifecycle: every execution
  ends as succeeded or failed. Evidence_Properties and Evidence_Storage: what the collector
  accepts is consistent and can always be stored. Comparison_Properties: which events alignment
  pairs, and when it raises. Candidate_Properties: the one change of a Candidate. Store_Samples,
  Run_Samples and Candidate_Samples hold a small product and the databases its commands leave.

  \<^bold>\<open>The compiler\<close> (\<open>ir/strategy/\<close>, \<open>compiler/analysis/\<close>, \<open>compiler/lean/\<close>). Strategy_IR: the typed
  intermediate representation and its normal order. Dataflow: the depth-first searches of the
  validator with their shared sets as state, and a locale for a finite graph in which they find
  exactly the cycles and the reachable nodes; their fuel counts the operations and is never used
  up. IR_Validation: every check of the validator; IR_Properties: it decides a declarative
  well-formedness. IR_Requirements: what the backend has to provide. Lean_Plan: the plan and its
  normalisation; Plan_Normalization: what grouping keeps, and that a normalised plan is a fixed
  point. Lean_Lowering: the lowering, its five shared dictionaries as a record;
  Lowering_Invariants, Lowering_Properties and Lowering_Weights: recursion along an acyclic IR is
  bounded by the number of operations, plans are closed (references
  belong to the plan, traded symbols and the assets of rebalance comparisons are subscribed; the
  assets of ranking values and eligibility comparisons need not be), failures are \<open>LeanLoweringError\<close> only,
  and the stored sleeves of a branch add up to one where no allocation is shared. Compiler_Samples
  and Compiler_Properties: the sample IRs and the properties.

  \<^bold>\<open>From a Program to the generated algorithm\<close> (\<open>strategy/v2/bridge.py\<close>, \<open>compiler/lean/codegen.py\<close>).
  V2_Values: the lowering of Values, Conditions, actions and policy targets; decimals of documents
  are written with the least exponent that represents them. V2_Lowering: static Programs, one
  routing statement over Selections and Allocations. V2_Compile: temporal Programs, Events and one
  guarded policy, whose Selections are compiled as Programs of their own; \<open>compile_v2_at\<close> bounds that
  nesting, and V2_Routing shows that two levels are enough and that no document with a Program and
  without a legacy Selection reaches the conversion to a first-generation document. V2_Meaning: a lowered Condition keeps its truth, and
  static plans allocate all capital. Generated_Temporal: what the emitted boundary method does, with
  the closes of a feed as a parameter. Generated_Conditions and Generated_Refinement relate its
  fields to the state of the reference runtime (\<open>in_step\<close>) and show that Conditions, actions, Events
  and the policy keep the relation; Generated_Sessions carries it over a whole replay, for the Programs its \<open>comparable\<close>
  describes: validated, Events followed by one guarded policy without guard or fallback, no
  Selections, no Event windows and no weekly values, prices of the anchor only. Event windows and
  prices of other assets are where the generated algorithm differs, which has properties of its
  own. V2_Subscriptions: which symbols a plan subscribes to and which closes the algorithm keeps. V2_Samples and V2_Properties: the sample Programs and the properties.

  \<^bold>\<open>Not modelled.\<close> First-generation documents, their semantics, their desugaring to the IR and the
  conversion of V2 documents to them; the text of the generated C# with its evidence lines, orders
  and scheduled rebalances, and its runner (processes, files); editing and projections of documents
  for the user interface, HTTP routing, migrations of older database schemas, performance metrics
  over pandas data frames. Where the modelled code calls them they are parameters.
\<close>

end
